(* ===== verification/Zb_Prelude.thy ===== *)
theory Zb_Prelude
  imports "HOL-Library.Word"
begin

unbundle bit_operations_syntax

text \<open>
  What every component of the model shares: the machine integers of the Rust sources, the
  outcome type of code that can panic, checked arithmetic, the searches and in-place updates
  of a vector, and the little-endian byte view of an integer.

  The overflow semantics is the one of a build with overflow checks (the development and
  test profile of the workspace): an arithmetic operation that leaves the range of its type
  panics. A panic is the value \<^term>\<open>Panic\<close>, so every function that can panic returns a
  \<open>run\<close>. Time is a number of milliseconds: an \<open>Instant\<close> or a \<open>Duration\<close> of the
  sources is a \<open>nat\<close>, and a handler reads the clock once.
\<close>

type_synonym u8 = "8 word"
type_synonym u16 = "16 word"
type_synonym u32 = "32 word"
type_synonym u64 = "64 word"
type_synonym bytes = "8 word list"
type_synonym instant = nat

named_theorems run_simps \<open>equations that evaluate the outcome type\<close>
named_theorems vec_simps \<open>facts on searches and updates of vectors\<close>

section \<open>Outcomes\<close>

datatype 'a run = Done 'a | Panic

primrec run_bind :: "'a run \<Rightarrow> ('a \<Rightarrow> 'b run) \<Rightarrow> 'b run" where
  "run_bind (Done x) f = f x"
| "run_bind Panic f = Panic"

primrec run_map :: "('a \<Rightarrow> 'b) \<Rightarrow> 'a run \<Rightarrow> 'b run" where
  "run_map f (Done x) = Done (f x)"
| "run_map f Panic = Panic"

definition assert_ok :: "bool \<Rightarrow> unit run" where
  "assert_ok b = (if b then Done () else Panic)"

lemma run_bind_Done_iff [run_simps]:
  "run_bind m f = Done y \<longleftrightarrow> (\<exists>x. m = Done x \<and> f x = Done y)"
  by (cases m) auto

lemma run_bind_Panic_iff [run_simps]:
  "run_bind m f = Panic \<longleftrightarrow> m = Panic \<or> (\<exists>x. m = Done x \<and> f x = Panic)"
  by (cases m) auto

lemma run_map_Done_iff [run_simps]:
  "run_map f m = Done y \<longleftrightarrow> (\<exists>x. m = Done x \<and> y = f x)"
  by (cases m) auto

lemma run_map_Panic_iff [run_simps]: "run_map f m = Panic \<longleftrightarrow> m = Panic"
  by (cases m) auto

lemma run_bind_assoc: "run_bind (run_bind m f) g = run_bind m (\<lambda>x. run_bind (f x) g)"
  by (cases m) auto

lemma run_not_Panic: "m \<noteq> Panic \<longleftrightarrow> (\<exists>x. m = Done x)"
  by (cases m) auto

lemma assert_ok_iff [run_simps]:
  "assert_ok b = Done u \<longleftrightarrow> b" "assert_ok b = Panic \<longleftrightarrow> \<not> b"
  by (auto simp: assert_ok_def)

lemma run_bind_cong:
  "m = m' \<Longrightarrow> (\<And>x. m' = Done x \<Longrightarrow> f x = g x) \<Longrightarrow> run_bind m f = run_bind m' g"
  by (cases m') auto

text \<open>A \<open>Result\<close> is a sum, the error on the left; \<open>res_bind\<close> is the operator \<open>?\<close>.\<close>

primrec res_bind :: "'e + 'a \<Rightarrow> ('a \<Rightarrow> 'e + 'b) \<Rightarrow> 'e + 'b" where
  "res_bind (Inl e) f = Inl e"
| "res_bind (Inr x) f = f x"

lemma res_bind_Inr_iff [run_simps]:
  "res_bind m f = Inr y \<longleftrightarrow> (\<exists>x. m = Inr x \<and> f x = Inr y)"
  by (cases m) auto

lemma res_bind_Inl_iff [run_simps]:
  "res_bind m f = Inl e \<longleftrightarrow> m = Inl e \<or> (\<exists>x. m = Inr x \<and> f x = Inl e)"
  by (cases m) auto

section \<open>Checked arithmetic\<close>

text \<open>The operators \<open>+\<close>, \<open>-\<close>, \<open>*\<close>, \<open>/\<close> and \<open>pow\<close> of Rust's unsigned integers.\<close>

definition chk_add :: "'n::len word \<Rightarrow> 'n word \<Rightarrow> 'n word run" where
  "chk_add a b = (if unat a + unat b < 2 ^ LENGTH('n) then Done (a + b) else Panic)"

definition chk_sub :: "'n::len word \<Rightarrow> 'n word \<Rightarrow> 'n word run" where
  "chk_sub a b = (if b \<le> a then Done (a - b) else Panic)"

definition chk_mul :: "'n::len word \<Rightarrow> 'n word \<Rightarrow> 'n word run" where
  "chk_mul a b = (if unat a * unat b < 2 ^ LENGTH('n) then Done (a * b) else Panic)"

definition chk_div :: "'n::len word \<Rightarrow> 'n word \<Rightarrow> 'n word run" where
  "chk_div a b = (if b = 0 then Panic else Done (a div b))"

definition chk_pow :: "'n::len word \<Rightarrow> 'n word \<Rightarrow> 'n word run" where
  "chk_pow a k = (if unat a ^ unat k < 2 ^ LENGTH('n) then Done (a ^ unat k) else Panic)"

lemma chk_sub_Done [run_simps]: "chk_sub a b = Done c \<longleftrightarrow> b \<le> a \<and> c = a - b"
  by (auto simp: chk_sub_def)

lemma chk_sub_Panic [run_simps]: "chk_sub a b = Panic \<longleftrightarrow> a < b"
  by (auto simp: chk_sub_def)

lemma chk_add_Panic [run_simps]:
  "chk_add (a :: 'n::len word) b = Panic \<longleftrightarrow> 2 ^ LENGTH('n) \<le> unat a + unat b"
  by (auto simp: chk_add_def)

lemma chk_add_Done_unat: "chk_add a b = Done c \<Longrightarrow> unat c = unat a + unat b"
  by (auto simp: chk_add_def unat_word_ariths split: if_splits)

lemma word_less_Suc: "(w :: 'n::len word) \<noteq> - 1 \<Longrightarrow> w < w + 1"
proof -
  assume ne: "w \<noteq> - 1"
  have "unat w + 1 < 2 ^ LENGTH('n)"
  proof (rule ccontr)
    assume "\<not> unat w + 1 < 2 ^ LENGTH('n)"
    with unsigned_less [of w, where ?'a = nat] have "unat w + 1 = 2 ^ LENGTH('n)" by linarith
    then have "of_nat (unat w + 1) = (0 :: 'n word)" unfolding of_nat_eq by (intro exI [of _ 1]) simp
    then have "w + 1 = 0" by (simp add: add.commute)
    then have "w = - 1" by (simp add: eq_neg_iff_add_eq_0)
    with ne show False by simp
  qed
  then show ?thesis by (simp add: word_less_nat_alt unat_word_ariths)
qed

section \<open>Vectors\<close>

text \<open>
  \<open>update_first P f xs\<close> is \<open>if let Some(x) = xs.iter_mut().find(P) { *x = f(x) }\<close>;
  \<open>remove_at i xs\<close> is \<open>Vec::remove\<close>, which panics when the index is out of range;
  \<open>find_position P xs\<close> is the index of the first element that satisfies \<open>P\<close>.
  \<open>Vec::retain\<close> is \<^const>\<open>filter\<close> and \<open>iter().find\<close> is \<^const>\<open>List.find\<close>.
\<close>

fun update_first :: "('a \<Rightarrow> bool) \<Rightarrow> ('a \<Rightarrow> 'a) \<Rightarrow> 'a list \<Rightarrow> 'a list" where
  "update_first P f [] = []"
| "update_first P f (x # xs) = (if P x then f x # xs else x # update_first P f xs)"

fun find_position :: "('a \<Rightarrow> bool) \<Rightarrow> 'a list \<Rightarrow> nat option" where
  "find_position P [] = None"
| "find_position P (x # xs) = (if P x then Some 0 else map_option Suc (find_position P xs))"

definition remove_at :: "nat \<Rightarrow> 'a list \<Rightarrow> 'a list run" where
  "remove_at i xs = (if i < length xs then Done (take i xs @ drop (Suc i) xs) else Panic)"

lemma length_update_first [simp]: "length (update_first P f xs) = length xs"
  by (induction xs) auto

lemma map_update_first:
  "(\<And>x. P x \<Longrightarrow> g (f x) = g x) \<Longrightarrow> map g (update_first P f xs) = map g xs"
  by (induction xs) auto

lemma update_first_none: "find P xs = None \<Longrightarrow> update_first P f xs = xs"
  by (induction xs) (auto split: if_splits)

lemma set_update_first: "set (update_first P f xs) \<subseteq> set xs \<union> {f x |x. x \<in> set xs \<and> P x}"
  by (induction xs) auto

lemma find_update_first:
  "find P xs = Some x \<Longrightarrow> P (f x) \<Longrightarrow> find P (update_first P f xs) = Some (f x)"
  by (induction xs) (auto split: if_splits)

lemma find_Some_prop: "find P xs = Some x \<Longrightarrow> x \<in> set xs \<and> P x"
  by (induction xs) (auto split: if_splits)

lemma find_None_prop: "find P xs = None \<longleftrightarrow> (\<forall>x\<in>set xs. \<not> P x)"
  by (induction xs) auto

lemma find_append: "find P (xs @ ys) = (case find P xs of None \<Rightarrow> find P ys | Some x \<Rightarrow> Some x)"
  by (induction xs) auto

lemma find_position_Some:
  "find_position P xs = Some i \<Longrightarrow> i < length xs \<and> P (xs ! i) \<and> (\<forall>j<i. \<not> P (xs ! j))"
proof (induction xs arbitrary: i)
  case (Cons x xs)
  show ?case
  proof (cases "P x")
    case False
    with Cons.prems obtain k where k: "find_position P xs = Some k" "i = Suc k" by auto
    from Cons.IH [OF k(1)] have "k < length xs \<and> P (xs ! k) \<and> (\<forall>j<k. \<not> P (xs ! j))" .
    with k(2) False show ?thesis by (auto simp: nth_Cons split: nat.splits)
  qed (use Cons.prems in simp)
qed simp

lemma find_position_remove_at:
  "find_position P xs = Some i \<Longrightarrow> remove_at i xs = Done (take i xs @ drop (Suc i) xs)"
  using find_position_Some [of P xs i] by (simp add: remove_at_def)

lemma find_filter_absorb: "(\<And>x. P x \<Longrightarrow> Q x) \<Longrightarrow> find P (filter Q xs) = find P xs"
  by (induction xs) auto

declare find_None_prop [vec_simps] find_append [vec_simps] map_update_first [vec_simps]

section \<open>Little-endian bytes\<close>

text \<open>\<open>le_bytes n w\<close> is \<open>to_le_bytes\<close> of an integer of \<open>n\<close> bytes.\<close>

definition byte_of :: "nat \<Rightarrow> 'n::len word \<Rightarrow> u8" where
  "byte_of i w = ucast (drop_bit (8 * i) w)"

definition le_bytes :: "nat \<Rightarrow> 'n::len word \<Rightarrow> bytes" where
  "le_bytes n w = map (\<lambda>i. byte_of i w) [0..<n]"

lemma length_le_bytes [simp]: "length (le_bytes n w) = n"
  by (simp add: le_bytes_def)

lemma bit_byte_of:
  "bit (byte_of i (w :: 'n::len word)) k \<longleftrightarrow> k < 8 \<and> bit w (8 * i + k)"
  by (auto simp: byte_of_def bit_simps add.commute dest: bit_imp_le_length)

lemma le_bytes_inj:
  assumes "le_bytes n (v :: 'n::len word) = le_bytes n w" and "LENGTH('n) = 8 * n"
  shows "v = w"
proof (rule bit_word_eqI)
  fix k assume "k < LENGTH('n)"
  with assms(2) have i: "k div 8 < n" by auto
  from assms(1) have "byte_of (k div 8) v = byte_of (k div 8) w"
    using i by (simp add: le_bytes_def)
  then have "bit (byte_of (k div 8) v) (k mod 8) = bit (byte_of (k div 8) w) (k mod 8)" by simp
  then show "bit v k = bit w k" by (simp add: bit_byte_of)
qed

text \<open>\<open>le_value\<close> is \<open>from_le_bytes\<close>.\<close>

primrec le_value :: "bytes \<Rightarrow> 'n::len word" where
  "le_value [] = 0"
| "le_value (b # bs) = ucast b OR push_bit 8 (le_value bs)"

lemma bit_le_value:
  "bit (le_value bs :: 'n::len word) k \<longleftrightarrow> k < LENGTH('n) \<and> k div 8 < length bs \<and> bit (bs ! (k div 8)) (k mod 8)"
proof (induction bs arbitrary: k)
  case (Cons b bs)
  show ?case
  proof (cases "k < 8")
    case True
    then show ?thesis by (auto simp: bit_simps)
  next
    case False
    then have "k div 8 = Suc ((k - 8) div 8)" "k mod 8 = (k - 8) mod 8" by (simp_all add: le_div_geq le_mod_geq)
    with False Cons.IH [of "k - 8"] show ?thesis by (auto simp: bit_simps dest: bit_imp_le_length)
  qed
qed simp

lemma le_value_le_bytes: "le_value (le_bytes n w) = (take_bit (8 * n) w :: 'n::len word)"
proof (rule bit_word_eqI)
  fix k assume "k < LENGTH('n)"
  then show "bit (le_value (le_bytes n w) :: 'n word) k = bit (take_bit (8 * n) w) k"
    by (auto simp: bit_le_value le_bytes_def bit_byte_of bit_simps)
qed

end
