(* ===== verification/Zb_Types.thy ===== *)
theory Zb_Types
  imports Zb_Prelude
begin

text \<open>
  The crate \<open>zb-types\<close> and the constants of the network layer: addresses, device types,
  channels and channel masks, MAC addresses and capabilities, stack profiles, link costs and
  end-device timeouts. An address newtype (\<open>NwkAddress\<close>, \<open>ExtendedAddress\<close>,
  \<open>PanId\<close>) is its integer; a plain enum is a datatype with the source's constructors,
  and a function for its discriminants where the code casts it.
\<close>

type_synonym nwk_addr = u16
type_synonym ext_addr = u64
type_synonym pan_id = u16
type_synonym key = bytes

section \<open>Addresses\<close>

definition BROADCAST_ALL :: nwk_addr where "BROADCAST_ALL = 0xffff"
definition BROADCAST_LOW_POWER :: nwk_addr where "BROADCAST_LOW_POWER = 0xfffb"
definition BROADCAST_ROUTERS :: nwk_addr where "BROADCAST_ROUTERS = 0xffc"
definition BROADCAST_RX_ON_IDLE :: nwk_addr where "BROADCAST_RX_ON_IDLE = 0xfffd"
definition NWK_ADDR_MAX :: nwk_addr where "NWK_ADDR_MAX = 0xffff"
definition MAX_NON_BROADCAST :: nwk_addr where "MAX_NON_BROADCAST = 0xfff6"
definition NWK_COORDINATOR_ADDRESS :: nwk_addr where "NWK_COORDINATOR_ADDRESS = 0"
definition nwk_addr_default :: nwk_addr where "nwk_addr_default = 0xffff"
definition ext_addr_default :: ext_addr where "ext_addr_default = 0xffffffff"

definition is_broadcast :: "nwk_addr \<Rightarrow> bool" where
  "is_broadcast a \<longleftrightarrow> a > 0xfff7"

definition is_unicast :: "nwk_addr \<Rightarrow> bool" where
  "is_unicast a \<longleftrightarrow> \<not> is_broadcast a"

lemmas address_defs = BROADCAST_ALL_def BROADCAST_LOW_POWER_def BROADCAST_ROUTERS_def
  BROADCAST_RX_ON_IDLE_def NWK_ADDR_MAX_def MAX_NON_BROADCAST_def NWK_COORDINATOR_ADDRESS_def
  nwk_addr_default_def is_broadcast_def is_unicast_def

section \<open>Device types and capabilities\<close>

datatype device_type = Coordinator | Router | EndDevice

datatype mac_device_type = ReducedFunctionDevice | FullFunctionDevice

datatype mac_current_source = OtherSource | Mains

primrec device_type_of_mac :: "mac_device_type \<Rightarrow> device_type" where
  "device_type_of_mac ReducedFunctionDevice = EndDevice"
| "device_type_of_mac FullFunctionDevice = Router"

record mac_capabilities =
  alternate_pan_coordinator :: bool
  mc_device_type :: mac_device_type
  mc_current_source :: mac_current_source
  mc_rx_on_when_idle :: bool
  mc_security :: bool
  mc_allocate_address :: bool

record zb_capabilities =
  zc_device_type :: mac_device_type
  zc_current_source :: mac_current_source
  zc_receiver_on_when_idle :: bool
  zc_allocate_address :: bool

definition zb_of_mac_capabilities :: "mac_capabilities \<Rightarrow> zb_capabilities" where
  "zb_of_mac_capabilities c = \<lparr> zc_device_type = mc_device_type c,
     zc_current_source = mc_current_source c, zc_receiver_on_when_idle = mc_rx_on_when_idle c,
     zc_allocate_address = mc_allocate_address c \<rparr>"

definition mac_of_zb_capabilities :: "zb_capabilities \<Rightarrow> mac_capabilities" where
  "mac_of_zb_capabilities c = \<lparr> alternate_pan_coordinator = False,
     mc_device_type = zc_device_type c, mc_current_source = zc_current_source c,
     mc_rx_on_when_idle = zc_receiver_on_when_idle c, mc_security = False,
     mc_allocate_address = zc_allocate_address c \<rparr>"

datatype mac_address = MacShort pan_id nwk_addr | MacExtended pan_id ext_addr

fun mac_is_broadcast :: "mac_address \<Rightarrow> bool" where
  "mac_is_broadcast (MacShort _ a) = is_broadcast a"
| "mac_is_broadcast (MacExtended _ _) = False"

fun mac_pan_id :: "mac_address \<Rightarrow> pan_id" where
  "mac_pan_id (MacShort p _) = p"
| "mac_pan_id (MacExtended p _) = p"

section \<open>Channels and channel masks\<close>

datatype channel_page = ChannelPage0 | ChannelPage1 | ChannelPage2

datatype channel = Channel0 | Channel1 | Channel2 | Channel3 | Channel4 | Channel5 | Channel6
  | Channel7 | Channel8 | Channel9 | Channel10 | Channel11 | Channel12 | Channel13 | Channel14
  | Channel15 | Channel16 | Channel17 | Channel18 | Channel19 | Channel20 | Channel21
  | Channel22 | Channel23 | Channel24 | Channel25 | Channel26

text \<open>\<open>Channel::ALL\<close>, in the order of the discriminants \<open>0\<close> to \<open>26\<close>.\<close>

definition channels_all :: "channel list" where
  "channels_all = [Channel0, Channel1, Channel2, Channel3, Channel4, Channel5, Channel6,
     Channel7, Channel8, Channel9, Channel10, Channel11, Channel12, Channel13, Channel14,
     Channel15, Channel16, Channel17, Channel18, Channel19, Channel20, Channel21, Channel22,
     Channel23, Channel24, Channel25, Channel26]"

text \<open>\<open>From<u8> for Channel\<close>: an index above \<open>26\<close> panics.\<close>

definition channel_of_u8 :: "u8 \<Rightarrow> channel run" where
  "channel_of_u8 v = (if unat v < 27 then Done (channels_all ! unat v) else Panic)"

text \<open>The cast \<open>channel as u8\<close>: the position of the variant.\<close>

primrec channel_as_nat :: "channel \<Rightarrow> nat" where
  "channel_as_nat Channel0 = 0" | "channel_as_nat Channel1 = 1" | "channel_as_nat Channel2 = 2"
| "channel_as_nat Channel3 = 3" | "channel_as_nat Channel4 = 4" | "channel_as_nat Channel5 = 5"
| "channel_as_nat Channel6 = 6" | "channel_as_nat Channel7 = 7" | "channel_as_nat Channel8 = 8"
| "channel_as_nat Channel9 = 9" | "channel_as_nat Channel10 = 10"
| "channel_as_nat Channel11 = 11" | "channel_as_nat Channel12 = 12"
| "channel_as_nat Channel13 = 13" | "channel_as_nat Channel14 = 14"
| "channel_as_nat Channel15 = 15" | "channel_as_nat Channel16 = 16"
| "channel_as_nat Channel17 = 17" | "channel_as_nat Channel18 = 18"
| "channel_as_nat Channel19 = 19" | "channel_as_nat Channel20 = 20"
| "channel_as_nat Channel21 = 21" | "channel_as_nat Channel22 = 22"
| "channel_as_nat Channel23 = 23" | "channel_as_nat Channel24 = 24"
| "channel_as_nat Channel25 = 25" | "channel_as_nat Channel26 = 26"

primrec page_as_u32 :: "channel_page \<Rightarrow> u32" where
  "page_as_u32 ChannelPage0 = 0"
| "page_as_u32 ChannelPage1 = 1"
| "page_as_u32 ChannelPage2 = 2"

type_synonym channel_mask = u32

definition channel_bit :: "channel \<Rightarrow> u32" where
  "channel_bit c = push_bit (channel_as_nat c) 1"

definition channel_mask_new :: "channel_page \<Rightarrow> channel list \<Rightarrow> channel_mask" where
  "channel_mask_new page channels =
     fold (\<lambda>c m. m OR channel_bit c) channels (push_bit 27 (page_as_u32 page))"

text \<open>\<open>get_page\<close> ends in \<open>unreachable!()\<close> for a page above \<open>2\<close>.\<close>

definition get_page :: "channel_mask \<Rightarrow> channel_page run" where
  "get_page m = (let page = drop_bit 27 (m AND 0xf8000000) in
     if page = 0 then Done ChannelPage0
     else if page = 1 then Done ChannelPage1
     else if page = 2 then Done ChannelPage2
     else Panic)"

definition channel_is_set :: "channel_mask \<Rightarrow> channel \<Rightarrow> bool" where
  "channel_is_set m c \<longleftrightarrow> m AND channel_bit c \<noteq> 0"

definition intersect_with :: "channel_mask \<Rightarrow> channel_mask \<Rightarrow> channel_mask run" where
  "intersect_with m other =
     run_bind (get_page m) (\<lambda>p. run_bind (get_page other) (\<lambda>q.
       if p \<noteq> q then Done 0 else Done (m AND other)))"

definition as_channel_mask :: "channel \<Rightarrow> channel_mask" where
  "as_channel_mask c = channel_mask_new ChannelPage0 [c]"

definition channel_mask_default :: channel_mask where
  "channel_mask_default = channel_mask_new ChannelPage0
     [Channel11, Channel12, Channel13, Channel14, Channel15, Channel16, Channel17, Channel18,
      Channel19, Channel20, Channel21, Channel22, Channel23, Channel24, Channel25, Channel26]"

lemma channel_as_nat_less: "channel_as_nat c < 27"
  by (cases c) simp_all

lemma channel_as_nat_inj: "channel_as_nat c = channel_as_nat d \<longleftrightarrow> c = d"
  by (cases c; cases d) simp_all

lemma channels_all_nth: "channels_all ! channel_as_nat c = c"
  by (cases c) (simp_all add: channels_all_def)

lemma bit_channel_bit: "bit (channel_bit c) k \<longleftrightarrow> k = channel_as_nat c"
  using channel_as_nat_less [of c]
  by (auto simp: channel_bit_def bit_push_bit_iff bit_1_iff simp del: push_bit_of_1)

lemma bit_fold_or_channels:
  "bit (fold (\<lambda>c m. m OR channel_bit c) cs m) k \<longleftrightarrow>
     bit m k \<or> (\<exists>c\<in>set cs. k = channel_as_nat c)"
  by (induction cs arbitrary: m) (auto simp: bit_or_iff bit_channel_bit)

lemma bit_page: "bit (page_as_u32 p) k \<longleftrightarrow> (k = 0 \<and> p = ChannelPage1) \<or> (k = 1 \<and> p = ChannelPage2)"
  by (cases p) (auto simp: bit_1_iff bit_2_iff)

lemma bit_channel_mask_new:
  "bit (channel_mask_new p cs) k \<longleftrightarrow> (27 \<le> k \<and> k < 32 \<and> bit (page_as_u32 p) (k - 27)) \<or>
     (\<exists>c\<in>set cs. k = channel_as_nat c)"
  by (auto simp: channel_mask_new_def bit_fold_or_channels bit_simps)

lemma channel_is_set_bit: "channel_is_set m c \<longleftrightarrow> bit m (channel_as_nat c)"
proof -
  have bits: "bit (m AND channel_bit c) k \<longleftrightarrow> k = channel_as_nat c \<and> bit m k" for k
    by (auto simp: bit_and_iff bit_channel_bit)
  have "bit m (channel_as_nat c)" if "m AND channel_bit c \<noteq> 0"
  proof (rule ccontr)
    assume "\<not> bit m (channel_as_nat c)"
    then have "m AND channel_bit c = 0" by (intro bit_word_eqI) (auto simp: bits)
    with that show False by simp
  qed
  moreover have "m AND channel_bit c \<noteq> 0" if "bit m (channel_as_nat c)"
  proof
    assume zero: "m AND channel_bit c = 0"
    have "bit (m AND channel_bit c) (channel_as_nat c)" using that by (simp add: bits)
    with zero show False by simp
  qed
  ultimately show ?thesis by (auto simp: channel_is_set_def)
qed

lemma page_bits: "drop_bit 27 ((m :: u32) AND 0xf8000000) = drop_bit 27 m"
proof (rule bit_word_eqI)
  fix n assume n: "n < LENGTH(32)"
  have high: "(0xf8000000 :: u32) = push_bit 27 31" by (simp add: push_bit_eq_mult)
  have five: "bit (31 :: u32) n \<longleftrightarrow> n < 5"
  proof -
    have eq: "(31 :: u32) = mask 5" by (simp add: mask_eq_exp_minus_1)
    show ?thesis unfolding eq using n by (auto simp only: bit_mask_iff possible_bit_word)
  qed
  have "bit m (27 + n) \<Longrightarrow> n < 5" by (drule bit_imp_le_length) simp
  then show "bit (drop_bit 27 (m AND 0xf8000000)) n = bit (drop_bit 27 m) n"
    using five n unfolding high by (simp add: bit_and_iff bit_push_bit_iff bit_drop_bit_eq) blast
qed

lemma get_page_new [simp]: "get_page (channel_mask_new p cs) = Done p"
proof -
  have "drop_bit 27 (channel_mask_new p cs) = page_as_u32 p"
  proof (rule bit_word_eqI)
    fix n :: nat assume "n < LENGTH(32)"
    have "27 + n \<noteq> channel_as_nat c" for c using channel_as_nat_less [of c] by simp
    then show "bit (drop_bit 27 (channel_mask_new p cs)) n = bit (page_as_u32 p) n"
      by (auto simp: bit_simps bit_channel_mask_new bit_page)
  qed
  then show ?thesis by (cases p) (simp_all add: get_page_def page_bits Let_def)
qed

section \<open>Link costs\<close>

datatype link_cost = Cost1 | Cost2 | Cost3 | Cost4 | Cost5 | Cost6 | Cost7 | CostUnknown

primrec link_cost_u8 :: "link_cost \<Rightarrow> u8" where
  "link_cost_u8 Cost1 = 1" | "link_cost_u8 Cost2 = 2" | "link_cost_u8 Cost3 = 3"
| "link_cost_u8 Cost4 = 4" | "link_cost_u8 Cost5 = 5" | "link_cost_u8 Cost6 = 6"
| "link_cost_u8 Cost7 = 7" | "link_cost_u8 CostUnknown = 8"

definition link_cost_default :: link_cost where "link_cost_default = Cost1"

text \<open>The derived \<open>Ord\<close> compares the discriminants.\<close>

instantiation link_cost :: linorder
begin

definition less_eq_link_cost :: "link_cost \<Rightarrow> link_cost \<Rightarrow> bool" where
  "less_eq_link_cost a b \<longleftrightarrow> link_cost_u8 a \<le> link_cost_u8 b"

definition less_link_cost :: "link_cost \<Rightarrow> link_cost \<Rightarrow> bool" where
  "less_link_cost a b \<longleftrightarrow> link_cost_u8 a < link_cost_u8 b"

instance
proof
  fix a b c :: link_cost
  show "(a < b) = (a \<le> b \<and> \<not> b \<le> a)"
    by (auto simp: less_eq_link_cost_def less_link_cost_def)
  show "a \<le> a" by (simp add: less_eq_link_cost_def)
  show "a \<le> b \<Longrightarrow> b \<le> c \<Longrightarrow> a \<le> c" by (simp add: less_eq_link_cost_def)
  show "a \<le> b \<or> b \<le> a" by (auto simp: less_eq_link_cost_def)
  show "a = b" if "a \<le> b" "b \<le> a"
  proof -
    from that have "link_cost_u8 a = link_cost_u8 b" by (simp add: less_eq_link_cost_def)
    then show "a = b" by (cases a; cases b) simp_all
  qed
qed

end

text \<open>\<open>compute_routing_cost\<close> of \<open>nwk/service/routing.rs\<close>: a link quality as a cost.\<close>

definition compute_routing_cost :: "u8 \<Rightarrow> link_cost" where
  "compute_routing_cost lqi =
     (if lqi \<le> 16 then Cost7 else if lqi \<le> 32 then Cost6 else if lqi \<le> 64 then Cost5
      else if lqi \<le> 96 then Cost4 else if lqi \<le> 128 then Cost3 else if lqi \<le> 192 then Cost2
      else Cost1)"

section \<open>End-device timeouts\<close>

datatype device_timeout = Secs10 | Mins2 | Mins4 | Mins8 | Mins16 | Mins32 | Mins64 | Mins128
  | Mins256 | Mins512 | Mins1024 | Mins2048 | Mins4096 | Mins8192 | Mins16384

primrec device_timeout_nat :: "device_timeout \<Rightarrow> nat" where
  "device_timeout_nat Secs10 = 0" | "device_timeout_nat Mins2 = 1"
| "device_timeout_nat Mins4 = 2" | "device_timeout_nat Mins8 = 3"
| "device_timeout_nat Mins16 = 4" | "device_timeout_nat Mins32 = 5"
| "device_timeout_nat Mins64 = 6" | "device_timeout_nat Mins128 = 7"
| "device_timeout_nat Mins256 = 8" | "device_timeout_nat Mins512 = 9"
| "device_timeout_nat Mins1024 = 10" | "device_timeout_nat Mins2048 = 11"
| "device_timeout_nat Mins4096 = 12" | "device_timeout_nat Mins8192 = 13"
| "device_timeout_nat Mins16384 = 14"

definition from_secs :: "nat \<Rightarrow> nat" where "from_secs s = 1000 * s"

definition timeout_duration :: "device_timeout \<Rightarrow> nat" where
  "timeout_duration t = (let v = device_timeout_nat t in
     if v = 0 then from_secs 10 else from_secs (2 ^ v * 60))"

section \<open>Stack profiles and network constants\<close>

datatype security_level = SecNone | Mic32 | Mic64 | Mic128 | Enc | EncMic32 | EncMic64 | EncMic128

datatype stack_profile = Zigbee | ZigbeePro

datatype addr_alloc_method = Distributed | Stochastic

record stack_profile_params =
  nwk_transaction_persistence_time :: u16
  nwk_report_constant_cost :: bool
  nwk_security_level :: security_level
  nwk_addr_alloc :: addr_alloc_method
  nwk_use_tree_routing :: bool
  nwk_max_depth :: u8
  nwk_max_children :: u8
  nwk_max_routers :: u8
  nwk_sym_link :: bool
  nwk_unique_addr :: bool
  nwk_broadcast_delivery_time :: u32
  nwk_passive_ack_timeout :: u32
  nwk_max_broadcast_retries :: u8
  nwk_secure_all_frames :: bool
  config_nwk_leave_remove_children :: bool
  aps_security_timeout_period :: nat

definition ZIGBEE_STACK_PROFILE :: stack_profile_params where
  "ZIGBEE_STACK_PROFILE = \<lparr> nwk_transaction_persistence_time = 0x01f4,
     nwk_report_constant_cost = False, nwk_security_level = EncMic32,
     nwk_addr_alloc = Distributed, nwk_use_tree_routing = True, nwk_max_depth = 5,
     nwk_max_children = 20, nwk_max_routers = 6, nwk_sym_link = False, nwk_unique_addr = True,
     nwk_broadcast_delivery_time = 9, nwk_passive_ack_timeout = 1,
     nwk_max_broadcast_retries = 2, nwk_secure_all_frames = True,
     config_nwk_leave_remove_children = False, aps_security_timeout_period = 700 \<rparr>"

definition ZIGBEE_PRO_STACK_PROFILE :: stack_profile_params where
  "ZIGBEE_PRO_STACK_PROFILE = \<lparr> nwk_transaction_persistence_time = 0x01f4,
     nwk_report_constant_cost = False, nwk_security_level = EncMic32,
     nwk_addr_alloc = Stochastic, nwk_use_tree_routing = False, nwk_max_depth = 15,
     nwk_max_children = 64, nwk_max_routers = 0, nwk_sym_link = True, nwk_unique_addr = False,
     nwk_broadcast_delivery_time = 9, nwk_passive_ack_timeout = 1,
     nwk_max_broadcast_retries = 2, nwk_secure_all_frames = True,
     config_nwk_leave_remove_children = False, aps_security_timeout_period = 1700 \<rparr>"

primrec get_params :: "stack_profile \<Rightarrow> stack_profile_params" where
  "get_params Zigbee = ZIGBEE_STACK_PROFILE"
| "get_params ZigbeePro = ZIGBEE_PRO_STACK_PROFILE"

lemmas profile_defs = ZIGBEE_STACK_PROFILE_def ZIGBEE_PRO_STACK_PROFILE_def

text \<open>\<open>from_octets\<close> of \<open>common/utils.rs\<close>: the integer division \<open>8 / 250\<close> comes first.\<close>

definition from_octets :: "nat \<Rightarrow> nat" where
  "from_octets octets = octets * (8 div 250)"

definition ROUTE_DISCOVERY_TIME :: nat where "ROUTE_DISCOVERY_TIME = 0x2710"
definition WAIT_BEFORE_VALIDATION :: nat where "WAIT_BEFORE_VALIDATION = 0x500"
definition ROUTE_REQUEST_RETRIES :: nat where "ROUTE_REQUEST_RETRIES = 2"
definition NWK_MAX_SOURCE_ROUTE :: nat where "NWK_MAX_SOURCE_ROUTE = 12"
definition MAX_BROADCAST_JITTER_OCTETS :: nat where "MAX_BROADCAST_JITTER_OCTETS = 0x7d0"
definition NWK_LINK_STATUS_PERIOD :: nat where "NWK_LINK_STATUS_PERIOD = 15"
definition NWK_ROUTER_AGE_LIMIT :: nat where "NWK_ROUTER_AGE_LIMIT = 3"
definition NWK_END_DEVICE_TIMEOUT_DEFAULT :: device_timeout where
  "NWK_END_DEVICE_TIMEOUT_DEFAULT = Mins256"
definition A_MAX_MAC_PAYLOAD_SIZE :: nat where "A_MAX_MAC_PAYLOAD_SIZE = 127 - 11"
definition MAX_NWK_PAYLOAD_SIZE :: nat where "MAX_NWK_PAYLOAD_SIZE = A_MAX_MAC_PAYLOAD_SIZE - 8"
definition NEIGHBOR_TABLE_MAX_ENTRIES :: nat where "NEIGHBOR_TABLE_MAX_ENTRIES = 32"

text \<open>
  \<open>get_nwk_broadcast_delivery_time\<close> of \<open>nwk/ctx.rs\<close>. The code computes the number of
  octets in \<open>f64\<close> and truncates it; here it is the truncated quotient of the same expression
  over a common denominator of \<open>1000\<close>.
\<close>

definition broadcast_delivery_time :: "stack_profile_params \<Rightarrow> nat" where
  "broadcast_delivery_time p =
     from_octets ((2 * unat (nwk_max_depth p) * (50 + 1000 * (MAX_BROADCAST_JITTER_OCTETS div 2))
       + unat (nwk_passive_ack_timeout p) * unat (nwk_max_broadcast_retries p)) div 1000)"

lemma from_octets_zero [simp]: "from_octets n = 0"
  by (simp add: from_octets_def)

section \<open>Properties\<close>

text \<open>A channel mask built from a page and a list of channels has exactly those channels
  set, gives the page back, and intersecting two masks of one page keeps the common channels
  while masks of two pages have none.\<close>
theorem channel_mask_correct:
  "get_page (channel_mask_new p cs) = Done p \<and>
   (channel_is_set (channel_mask_new p cs) c \<longleftrightarrow> c \<in> set cs) \<and>
   (\<exists>m. intersect_with (channel_mask_new p cs) (channel_mask_new q ds) = Done m \<and>
        (p \<noteq> q \<longrightarrow> m = 0) \<and>
        (p = q \<longrightarrow> (channel_is_set m c \<longleftrightarrow> c \<in> set cs \<and> c \<in> set ds)))"
proof -
  have no_page: "\<not> 27 \<le> channel_as_nat c" using channel_as_nat_less [of c] by simp
  have mem: "channel_is_set (channel_mask_new r es) c \<longleftrightarrow> c \<in> set es" for r es
    using no_page by (auto simp: channel_is_set_bit bit_channel_mask_new channel_as_nat_inj)
  have "channel_is_set (channel_mask_new p cs AND channel_mask_new q ds) c \<longleftrightarrow>
      c \<in> set cs \<and> c \<in> set ds"
    using mem [of p cs] mem [of q ds] by (simp add: channel_is_set_bit bit_simps)
  then show ?thesis using mem by (cases "p = q") (simp_all add: intersect_with_def)
qed

theorem channel_mask_correct_witness:
  "ChannelPage0 \<noteq> ChannelPage1 \<and>
   intersect_with (channel_mask_new ChannelPage0 [Channel11]) (channel_mask_new ChannelPage1 [])
     = Done 0"
  using channel_mask_correct [of ChannelPage0 "[Channel11]" Channel11 ChannelPage1 "[]"] by auto

end
