(* ===== verification/Bit_Struct.thy ===== *)
theory Bit_Struct
  imports Zb_Types
begin

text \<open>
  The code that the derive macro \<open>BitStruct\<close> (\<open>zb-macros/src/bit_struct.rs\<close>) generates for
  a struct, as a reader and a writer over the list of its fields. A field is its width \<open>len\<close>
  and the number \<open>skip\<close> of bits left out before it; the position is the pair of
  \<open>byte_offset\<close> and \<open>bit_offset\<close>. The writer ORs the field into the byte at that
  position, so what the buffer held before stays. The values of the fields are bytes here;
  \<open>Bit_Layouts\<close> adds the fields' own types.
\<close>

datatype byte_error = Incomplete | BadOffset nat | BadInput string

type_synonym bs_field = "nat \<times> nat"
type_synonym bs_pos = "nat \<times> nat"

section \<open>The generated loops\<close>

text \<open>\<open>bit_offset += skip\<close> and the carry into the next byte.\<close>

fun bs_seek :: "nat \<Rightarrow> bs_pos \<Rightarrow> bs_pos" where
  "bs_seek skip (j, off) =
     (if 8 \<le> off + skip then (j + 1, off + skip - 8) else (j, off + skip))"

text \<open>\<open>bit_offset += bit_len\<close>: at the end of a byte the offset restarts at \<open>0\<close>.\<close>

fun bs_advance :: "nat \<Rightarrow> bs_pos \<Rightarrow> bs_pos" where
  "bs_advance len (j, off) = (if 8 \<le> off + len then (j + 1, 0) else (j, off + len))"

definition bs_mask :: "nat \<Rightarrow> u8" where
  "bs_mask len = drop_bit (8 - len) 0xff"

fun bs_read_field :: "nat \<Rightarrow> bs_pos \<Rightarrow> bytes \<Rightarrow> u8 run" where
  "bs_read_field len (j, off) bs =
     (if j < length bs
      then Done (drop_bit off ((bs ! j) AND push_bit off (bs_mask len)))
      else Panic)"

fun bs_write_field :: "nat \<Rightarrow> bs_pos \<Rightarrow> u8 \<Rightarrow> bytes \<Rightarrow> bytes run" where
  "bs_write_field len (j, off) v bs =
     (if j < length bs
      then Done (bs[j := (bs ! j) OR push_bit off (v AND bs_mask len)])
      else Panic)"

fun bs_read :: "bs_field list \<Rightarrow> bs_pos \<Rightarrow> bytes \<Rightarrow> u8 list run" where
  "bs_read [] pos bs = Done []"
| "bs_read ((len, skip) # fs) pos bs =
     (let at = bs_seek skip pos in
      run_bind (bs_read_field len at bs) (\<lambda>v.
      run_map ((#) v) (bs_read fs (bs_advance len at) bs)))"

fun bs_write :: "bs_field list \<Rightarrow> u8 list \<Rightarrow> bs_pos \<Rightarrow> bytes \<Rightarrow> bytes run" where
  "bs_write ((len, skip) # fs) (v # vs) pos bs =
     (let at = bs_seek skip pos in
      run_bind (bs_write_field len at v bs) (bs_write fs vs (bs_advance len at)))"
| "bs_write _ _ pos bs = Done bs"

text \<open>
  The generated \<open>try_read\<close>: the length check, then the fields. Its result is also the
  number of bytes of the representation, whatever the fields cover. \<open>try_write\<close> has no
  length check.
\<close>

definition bs_try_read :: "nat \<Rightarrow> bs_field list \<Rightarrow> bytes \<Rightarrow> (byte_error + u8 list \<times> nat) run" where
  "bs_try_read n fs bs =
     (if length bs < n then Done (Inl Incomplete)
      else run_map (\<lambda>vs. Inr (vs, n)) (bs_read fs (0, 0) bs))"

definition bs_try_write :: "nat \<Rightarrow> bs_field list \<Rightarrow> u8 list \<Rightarrow> bytes \<Rightarrow> (bytes \<times> nat) run" where
  "bs_try_write n fs vs bs = run_map (\<lambda>out. (out, n)) (bs_write fs vs (0, 0) bs)"

text \<open>\<open>get_value\<close>: the struct written into a zeroed array of the size of its representation.\<close>

definition bs_get_value :: "nat \<Rightarrow> bs_field list \<Rightarrow> u8 list \<Rightarrow> bytes run" where
  "bs_get_value n fs vs = run_map fst (bs_try_write n fs vs (replicate n 0))"

section \<open>Layouts whose fields stay within a byte\<close>

fun bs_fits :: "bs_field list \<Rightarrow> bs_pos \<Rightarrow> nat \<Rightarrow> bool" where
  "bs_fits [] pos n \<longleftrightarrow> True"
| "bs_fits ((len, skip) # fs) pos n \<longleftrightarrow>
     (let at = bs_seek skip pos in
      0 < len \<and> skip < 8 \<and> snd at + len \<le> 8 \<and> fst at < n \<and> bs_fits fs (bs_advance len at) n)"

fun bs_in_range :: "bs_field list \<Rightarrow> u8 list \<Rightarrow> bool" where
  "bs_in_range [] [] \<longleftrightarrow> True"
| "bs_in_range ((len, skip) # fs) (v # vs) \<longleftrightarrow> unat v < 2 ^ len \<and> bs_in_range fs vs"
| "bs_in_range _ _ \<longleftrightarrow> False"

lemma bs_in_range_Nil [simp]: "bs_in_range [] vs \<longleftrightarrow> vs = []" "bs_in_range fs [] \<longleftrightarrow> fs = []"
  by (cases vs; simp) (cases fs; auto)

text \<open>A bit index comes before a position, in the order in which the loops visit them.\<close>

fun before :: "nat \<Rightarrow> nat \<Rightarrow> bs_pos \<Rightarrow> bool" where
  "before i k (j, off) \<longleftrightarrow> i < j \<or> i = j \<and> k < off"

definition clear_from :: "bs_pos \<Rightarrow> bytes \<Rightarrow> bool" where
  "clear_from pos bs \<longleftrightarrow> (\<forall>i k. i < length bs \<longrightarrow> bit (bs ! i) k \<longrightarrow> before i k pos)"

lemma bit_bs_mask: "len \<le> 8 \<Longrightarrow> bit (bs_mask len) k \<longleftrightarrow> k < len"
proof -
  assume len: "len \<le> 8"
  have full: "(0xff :: u8) = mask 8" by (simp add: mask_eq_exp_minus_1)
  show ?thesis unfolding bs_mask_def full using len
    by (auto simp only: bit_drop_bit_eq bit_mask_iff possible_bit_word o_def) simp
qed

lemma before_mono: "before i k pos \<Longrightarrow> before i k (bs_seek skip pos)"
  "before i k pos \<Longrightarrow> before i k (bs_advance len pos)"
  by (cases pos, auto)+

lemma bits_below:
  assumes "unat v < 2 ^ len"
  shows "bit v k \<Longrightarrow> k < len"
proof -
  have "v = take_bit len v"
    using assms by (simp add: word_unat_eq_iff unsigned_take_bit_eq take_bit_nat_eq_self)
  then show "bit v k \<Longrightarrow> k < len" by (metis bit_take_bit_iff)
qed

lemma bit_write_field:
  assumes "bs_write_field len (j, off) v bs = Done out" "off + len \<le> 8" "i < length bs"
  shows "bit (out ! i) k \<longleftrightarrow>
    bit (bs ! i) k \<or> i = j \<and> off \<le> k \<and> k < off + len \<and> bit v (k - off)"
  using assms
  by (auto simp: nth_list_update bit_or_iff bit_push_bit_iff bit_and_iff bit_bs_mask
      split: if_splits)

lemma bit_read_field:
  assumes "bs_read_field len (j, off) bs = Done w" "off + len \<le> 8"
  shows "bit w k \<longleftrightarrow> k < len \<and> bit (bs ! j) (off + k)"
  using assms by (auto simp: bit_drop_bit_eq bit_and_iff bit_push_bit_iff bit_bs_mask split: if_splits)

lemma read_field_eqI:
  assumes "j < length bs" "off + len \<le> 8" "unat v < 2 ^ len"
    and "\<And>k. k < len \<Longrightarrow> bit (bs ! j) (off + k) \<longleftrightarrow> bit v k"
  shows "bs_read_field len (j, off) bs = Done v"
proof -
  obtain w where w: "bs_read_field len (j, off) bs = Done w" using assms(1) by simp
  have "bit w k = bit v k" for k
    using bit_read_field [OF w assms(2)] assms(4) bits_below [OF assms(3)] by blast
  then have "w = v" by (intro bit_word_eqI)
  with w show ?thesis by simp
qed

text \<open>Writing the fields that start at a position keeps every bit before it.\<close>

lemma bs_write_keeps:
  "bs_fits fs pos n \<Longrightarrow> length bs = n \<Longrightarrow> bs_write fs vs pos bs = Done out \<Longrightarrow>
   length out = n \<and> (\<forall>i<n. \<forall>k. before i k pos \<longrightarrow> bit (out ! i) k = bit (bs ! i) k)"
proof (induction fs vs pos bs rule: bs_write.induct)
  case (1 len skip fs v vs pos bs)
  obtain j off where at: "bs_seek skip pos = (j, off)" by force
  from "1.prems" at have fit: "off + len \<le> 8" "j < n"
    and fits: "bs_fits fs (bs_advance len (j, off)) n" by auto
  from "1.prems"(3) at obtain mid where mid: "bs_write_field len (j, off) v bs = Done mid"
    and rest: "bs_write fs vs (bs_advance len (j, off)) mid = Done out"
    by (auto simp: run_simps Let_def)
  have lmid: "length mid = n" using mid "1.prems"(2) by (auto split: if_splits)
  from "1.IH" [OF at [symmetric] fits lmid rest]
  have IH: "length out = n"
    "\<forall>i<n. \<forall>k. before i k (bs_advance len (j, off)) \<longrightarrow> bit (out ! i) k = bit (mid ! i) k" by auto
  have "bit (out ! i) k = bit (bs ! i) k" if "i < n" "before i k pos" for i k
  proof -
    from that(2) before_mono(1) at have b: "before i k (j, off)" by metis
    then have "bit (out ! i) k = bit (mid ! i) k" using IH that(1) before_mono(2) by blast
    also have "\<dots> = bit (bs ! i) k"
      using b that(1) "1.prems"(2) bit_write_field [OF mid fit(1)] by auto
    finally show ?thesis .
  qed
  with IH(1) show ?case by blast
qed auto

lemma clear_from_zero: "clear_from pos (replicate n 0)"
  by (auto simp: clear_from_def)

text \<open>The round trip, from any position with nothing written at or after it.\<close>

lemma bs_write_read:
  "bs_fits fs pos n \<Longrightarrow> bs_in_range fs vs \<Longrightarrow> length bs = n \<Longrightarrow> clear_from pos bs \<Longrightarrow>
   \<exists>out. bs_write fs vs pos bs = Done out \<and> length out = n \<and> bs_read fs pos out = Done vs"
proof (induction fs vs pos bs rule: bs_write.induct)
  case (1 len skip fs v vs pos bs)
  obtain j off where at: "bs_seek skip pos = (j, off)" by force
  from "1.prems" at have fit: "off + len \<le> 8" "j < n" "0 < len"
    and fits: "bs_fits fs (bs_advance len (j, off)) n"
    and range: "unat v < 2 ^ len" "bs_in_range fs vs" by auto
  obtain mid where mid: "bs_write_field len (j, off) v bs = Done mid"
    using fit "1.prems"(3) by simp
  have lmid: "length mid = n" using mid "1.prems"(3) by (auto split: if_splits)
  note bits = bit_write_field [OF mid fit(1)]
  have clear: "clear_from (bs_advance len (j, off)) mid"
    unfolding clear_from_def
  proof (intro allI impI)
    fix i k assume i: "i < length mid" and b: "bit (mid ! i) k"
    from i lmid "1.prems"(3) have "i < length bs" by simp
    from b bits [OF this] consider "bit (bs ! i) k" | "i = j" "k < off + len" by blast
    then show "before i k (bs_advance len (j, off))"
    proof cases
      case 1
      with "1.prems"(4) \<open>i < length bs\<close> have "before i k pos" by (auto simp: clear_from_def)
      then show ?thesis using before_mono at by metis
    qed (use fit in auto)
  qed
  from "1.IH" [OF at [symmetric] fits range(2) lmid clear] obtain out where
    out: "bs_write fs vs (bs_advance len (j, off)) mid = Done out" "length out = n"
    and rest: "bs_read fs (bs_advance len (j, off)) out = Done vs" by blast
  have kept: "bit (out ! j) k = bit (mid ! j) k" if "k < off + len" for k
    using bs_write_keeps [OF fits lmid out(1)] fit that by auto
  have not_old: "\<not> bit (bs ! j) (off + k)" for k
  proof
    assume "bit (bs ! j) (off + k)"
    with "1.prems"(3,4) fit have "before j (off + k) pos" by (auto simp: clear_from_def)
    then have "before j (off + k) (j, off)" using before_mono(1) at by metis
    then show False by simp
  qed
  have "bs_read_field len (j, off) out = Done v"
  proof (rule read_field_eqI [OF _ fit(1) range(1)])
    show "j < length out" using out fit by simp
    fix k assume "k < len"
    then show "bit (out ! j) (off + k) = bit v k"
      using kept [of "off + k"] bits [of j "off + k"] not_old [of k] fit "1.prems"(3) by simp
  qed
  with at mid out rest show ?case by (simp add: Let_def)
qed auto

text \<open>C39. For every layout whose fields stay within a byte, the generated writer and reader are
  inverse: fields within their widths, written into a zeroed buffer, are read back.\<close>
theorem bs_roundtrip:
  assumes "bs_fits fs (0, 0) n" and "bs_in_range fs vs"
  shows "\<exists>out. bs_get_value n fs vs = Done out \<and> length out = n \<and>
           bs_try_read n fs out = Done (Inr (vs, n))"
proof -
  from bs_write_read [OF assms length_replicate clear_from_zero] obtain out where
    "bs_write fs vs (0, 0) (replicate n 0) = Done out" "length out = n"
    "bs_read fs (0, 0) out = Done vs" by blast
  then show ?thesis by (auto simp: bs_get_value_def bs_try_write_def bs_try_read_def)
qed

theorem bs_roundtrip_witness:
  "bs_fits [(2, 0), (4, 0), (2, 0), (1, 3)] (0, 0) 2 \<and>
   (\<exists>out. bs_get_value 2 [(2, 0), (4, 0), (2, 0), (1, 3)] [1, 2, 1, 1] = Done out \<and>
      length out = 2 \<and> bs_try_read 2 [(2, 0), (4, 0), (2, 0), (1, 3)] out
        = Done (Inr ([1, 2, 1, 1], 2)))"
proof -
  have fits: "bs_fits [(2, 0), (4, 0), (2, 0), (1, 3)] (0, 0) 2" by (simp add: Let_def)
  have "bs_in_range [(2, 0), (4, 0), (2, 0), (1, 3)] [1, 2, 1, 1]" by simp
  from bs_roundtrip [OF fits this] fits show ?thesis by blast
qed

end
