(* ===== verification/Bit_Layouts.thy ===== *)
theory Bit_Layouts
  imports Bit_Struct
begin

text \<open>
  The structs of the network layer that derive \<open>BitStruct\<close>, each with its layout, the values
  of its fields and their decoding. The codecs of the field types (booleans and enums with a
  derived \<open>TryRead\<close> and \<open>TryWrite\<close>) come from the crates \<open>byte\<close> and \<open>byte-derive\<close>, which are
  not in the repository: they are the record \<open>wire\<close>, a parameter of every definition here.
  \<open>wire_ok\<close> is what the code relies on: a boolean is written as \<open>0\<close> or \<open>1\<close> and read as
  "not zero", an enum is written as its discriminant and read back from it only.
\<close>

section \<open>Field codecs\<close>

type_synonym 'a fcodec = "(u8 \<Rightarrow> byte_error + 'a) \<times> ('a \<Rightarrow> u8)"

datatype frame_type = DataFrame | NwkCommandFrame | ReservedFrame | InterPanFrame

datatype discover_route = Suppress | Enable

datatype multicast_mode = NonMember | Member

datatype key_identifier = DataKey | NetworkKey | KeyTransport | KeyLoad

datatype many_to_one = NotManyToOne | ManyToOneRouteRecordSupported | ManyToOneRouteRecordNotSupported

primrec frame_type_u8 :: "frame_type \<Rightarrow> u8" where
  "frame_type_u8 DataFrame = 0" | "frame_type_u8 NwkCommandFrame = 1"
| "frame_type_u8 ReservedFrame = 2" | "frame_type_u8 InterPanFrame = 3"

primrec discover_route_u8 :: "discover_route \<Rightarrow> u8" where
  "discover_route_u8 Suppress = 0" | "discover_route_u8 Enable = 1"

primrec multicast_mode_u8 :: "multicast_mode \<Rightarrow> u8" where
  "multicast_mode_u8 NonMember = 0" | "multicast_mode_u8 Member = 1"

primrec key_identifier_u8 :: "key_identifier \<Rightarrow> u8" where
  "key_identifier_u8 DataKey = 0" | "key_identifier_u8 NetworkKey = 1"
| "key_identifier_u8 KeyTransport = 2" | "key_identifier_u8 KeyLoad = 3"

primrec many_to_one_u8 :: "many_to_one \<Rightarrow> u8" where
  "many_to_one_u8 NotManyToOne = 0" | "many_to_one_u8 ManyToOneRouteRecordSupported = 1"
| "many_to_one_u8 ManyToOneRouteRecordNotSupported = 2"

primrec mac_device_type_u8 :: "mac_device_type \<Rightarrow> u8" where
  "mac_device_type_u8 ReducedFunctionDevice = 0" | "mac_device_type_u8 FullFunctionDevice = 1"

primrec mac_current_source_u8 :: "mac_current_source \<Rightarrow> u8" where
  "mac_current_source_u8 OtherSource = 0" | "mac_current_source_u8 Mains = 1"

primrec stack_profile_u8 :: "stack_profile \<Rightarrow> u8" where
  "stack_profile_u8 Zigbee = 1" | "stack_profile_u8 ZigbeePro = 2"

text \<open>\<open>SecurityLevel::as_bits\<close>, \<open>from_bits\<close> and \<open>mic_length\<close> of \<open>common/security/frame.rs\<close>.\<close>

primrec as_bits :: "security_level \<Rightarrow> u8" where
  "as_bits SecNone = 0" | "as_bits Mic32 = 1" | "as_bits Mic64 = 2" | "as_bits Mic128 = 3"
| "as_bits Enc = 4" | "as_bits EncMic32 = 5" | "as_bits EncMic64 = 6" | "as_bits EncMic128 = 7"

definition from_bits :: "u8 \<Rightarrow> security_level run" where
  "from_bits b = (if b = 0 then Done SecNone else if b = 1 then Done Mic32
     else if b = 2 then Done Mic64 else if b = 3 then Done Mic128 else if b = 4 then Done Enc
     else if b = 5 then Done EncMic32 else if b = 6 then Done EncMic64
     else if b = 7 then Done EncMic128 else Panic)"

primrec mic_length :: "security_level \<Rightarrow> nat" where
  "mic_length SecNone = 0" | "mic_length Mic32 = 4" | "mic_length Mic64 = 8"
| "mic_length Mic128 = 16" | "mic_length Enc = 0" | "mic_length EncMic32 = 4"
| "mic_length EncMic64 = 8" | "mic_length EncMic128 = 16"

record wire =
  w_bool :: "bool fcodec"
  w_frame_type :: "frame_type fcodec"
  w_discover :: "discover_route fcodec"
  w_mcast :: "multicast_mode fcodec"
  w_level :: "security_level fcodec"
  w_key_id :: "key_identifier fcodec"
  w_many :: "many_to_one fcodec"
  w_device :: "mac_device_type fcodec"
  w_source :: "mac_current_source fcodec"
  w_cost :: "link_cost fcodec"
  w_profile :: "stack_profile fcodec"

definition enum_codec :: "('a \<Rightarrow> u8) \<Rightarrow> 'a fcodec \<Rightarrow> bool" where
  "enum_codec disc c \<longleftrightarrow> (\<forall>v. snd c v = disc v) \<and> (\<forall>b v. fst c b = Inr v \<longleftrightarrow> b = disc v)"

definition bool_codec :: "bool fcodec \<Rightarrow> bool" where
  "bool_codec c \<longleftrightarrow> (\<forall>v. snd c v = (if v then 1 else 0)) \<and> (\<forall>b. fst c b = Inr (b \<noteq> 0))"

definition wire_ok :: "wire \<Rightarrow> bool" where
  "wire_ok W \<longleftrightarrow> bool_codec (w_bool W) \<and> enum_codec frame_type_u8 (w_frame_type W) \<and>
     enum_codec discover_route_u8 (w_discover W) \<and> enum_codec multicast_mode_u8 (w_mcast W) \<and>
     enum_codec as_bits (w_level W) \<and> enum_codec key_identifier_u8 (w_key_id W) \<and>
     enum_codec many_to_one_u8 (w_many W) \<and> enum_codec mac_device_type_u8 (w_device W) \<and>
     enum_codec mac_current_source_u8 (w_source W) \<and> enum_codec link_cost_u8 (w_cost W) \<and>
     enum_codec stack_profile_u8 (w_profile W)"

text \<open>A codec that satisfies the hypothesis: the discriminants searched among the variants.\<close>

definition codec_of :: "'a list \<Rightarrow> ('a \<Rightarrow> u8) \<Rightarrow> 'a fcodec" where
  "codec_of vs disc = ((\<lambda>b. case find (\<lambda>v. disc v = b) vs of
     None \<Rightarrow> Inl (BadInput ''tag'') | Some v \<Rightarrow> Inr v), disc)"

definition wire_std :: wire where
  "wire_std = \<lparr> w_bool = ((\<lambda>b. Inr (b \<noteq> 0)), (\<lambda>v. if v then 1 else 0)),
     w_frame_type = codec_of [DataFrame, NwkCommandFrame, ReservedFrame, InterPanFrame] frame_type_u8,
     w_discover = codec_of [Suppress, Enable] discover_route_u8,
     w_mcast = codec_of [NonMember, Member] multicast_mode_u8,
     w_level = codec_of [SecNone, Mic32, Mic64, Mic128, Enc, EncMic32, EncMic64, EncMic128] as_bits,
     w_key_id = codec_of [DataKey, NetworkKey, KeyTransport, KeyLoad] key_identifier_u8,
     w_many = codec_of [NotManyToOne, ManyToOneRouteRecordSupported,
       ManyToOneRouteRecordNotSupported] many_to_one_u8,
     w_device = codec_of [ReducedFunctionDevice, FullFunctionDevice] mac_device_type_u8,
     w_source = codec_of [OtherSource, Mains] mac_current_source_u8,
     w_cost = codec_of [Cost1, Cost2, Cost3, Cost4, Cost5, Cost6, Cost7, CostUnknown] link_cost_u8,
     w_profile = codec_of [Zigbee, ZigbeePro] stack_profile_u8 \<rparr>"

lemma enum_codec_of:
  assumes all: "\<forall>v. v \<in> set vs" and dist: "distinct (map disc vs)"
  shows "enum_codec disc (codec_of vs disc)"
proof -
  have inj: "v = w" if "disc v = disc w" for v w
    using that all dist by (auto simp: distinct_map inj_on_def)
  have found: "find (\<lambda>v. disc v = b) vs = Some v \<longleftrightarrow> b = disc v" for b v
  proof
    assume b: "b = disc v"
    then have "find (\<lambda>v. disc v = b) vs \<noteq> None" using all by (auto simp: find_None_prop)
    then obtain w where w: "find (\<lambda>v. disc v = b) vs = Some w" by blast
    with find_Some_prop [OF w] b inj show "find (\<lambda>v. disc v = b) vs = Some v" by auto
  qed (auto dest: find_Some_prop)
  have "(case find (\<lambda>v. disc v = b) vs of None \<Rightarrow> Inl (BadInput ''tag'') | Some v \<Rightarrow> Inr v)
      = Inr w \<longleftrightarrow> b = disc w" for b w
    using found [of b w] by (auto split: option.splits)
  then show ?thesis by (simp add: enum_codec_def codec_of_def)
qed

lemmas enum_nchotomies = frame_type.nchotomy discover_route.nchotomy multicast_mode.nchotomy security_level.nchotomy key_identifier.nchotomy many_to_one.nchotomy mac_device_type.nchotomy mac_current_source.nchotomy link_cost.nchotomy stack_profile.nchotomy

lemma wire_std_ok: "wire_ok wire_std"
  unfolding wire_ok_def wire_std_def wire.simps
  by (intro conjI enum_codec_of) (use enum_nchotomies in \<open>auto simp: bool_codec_def\<close>)

end
