(* ===== verification/Header_Structs.thy ===== *)
theory Header_Structs
  imports Bit_Layouts
begin

text \<open>
  The \<open>BitStruct\<close> types: for each, the struct as a record, its layout (the \<open>len\<close> and
  \<open>skip\<close> attributes in the order of the fields), the bytes of its fields and their decoding.
  The locale \<open>bit_struct_type\<close> is what the derive promises when the fields fit; it is
  interpreted for the types whose layout keeps the promise. The last section shows the types
  for which it fails.
\<close>

section \<open>A struct over the generated loops\<close>

definition struct_write ::
  "nat \<Rightarrow> bs_field list \<Rightarrow> ('a \<Rightarrow> u8 list) \<Rightarrow> 'a \<Rightarrow> bytes \<Rightarrow> (bytes \<times> nat) run" where
  "struct_write n fs enc v bs = bs_try_write n fs (enc v) bs"

definition struct_read ::
  "nat \<Rightarrow> bs_field list \<Rightarrow> (u8 list \<Rightarrow> byte_error + 'a) \<Rightarrow> bytes \<Rightarrow> (byte_error + 'a \<times> nat) run" where
  "struct_read n fs dec bs = run_map (\<lambda>r. res_bind r (\<lambda>(vs, k). res_bind (dec vs) (\<lambda>v. Inr (v, k))))
     (bs_try_read n fs bs)"

definition struct_value :: "nat \<Rightarrow> bs_field list \<Rightarrow> ('a \<Rightarrow> u8 list) \<Rightarrow> 'a \<Rightarrow> bytes run" where
  "struct_value n fs enc v = bs_get_value n fs (enc v)"

locale bit_struct_type =
  fixes n :: nat
    and layout :: "bs_field list"
    and enc :: "'a \<Rightarrow> u8 list"
    and dec :: "u8 list \<Rightarrow> byte_error + 'a"
    and valid :: "'a \<Rightarrow> bool"
  assumes fits: "bs_fits layout (0, 0) n"
    and in_range: "valid v \<Longrightarrow> bs_in_range layout (enc v)"
    and dec_enc: "valid v \<Longrightarrow> dec (enc v) = Inr v"
begin

lemma value_ex:
  "valid v \<Longrightarrow> \<exists>out. struct_value n layout enc v = Done out \<and> length out = n \<and>
     struct_read n layout dec out = Done (Inr (v, n))"
  using bs_write_read [OF fits in_range length_replicate clear_from_zero, of v]
  by (fastforce simp: struct_value_def struct_read_def bs_get_value_def bs_try_write_def
      bs_try_read_def dec_enc)

lemma value_inj:
  "valid v \<Longrightarrow> valid w \<Longrightarrow> struct_value n layout enc v = struct_value n layout enc w \<Longrightarrow> v = w"
  using value_ex [of v] value_ex [of w] by auto

end

section \<open>The network header\<close>

record frame_control =
  fc_frame_type :: frame_type
  fc_version :: u8
  fc_route_discovery :: discover_route
  fc_multicast :: bool
  fc_security :: bool
  fc_source_route :: bool
  fc_dst_ext_addr :: bool
  fc_src_ext_addr :: bool
  fc_end_device_initiator :: bool

definition frame_control_layout :: "bs_field list" where
  "frame_control_layout = [(2, 0), (4, 0), (2, 0), (1, 0), (1, 0), (1, 0), (1, 0), (1, 0), (1, 0)]"

definition frame_control_enc :: "wire \<Rightarrow> frame_control \<Rightarrow> u8 list" where
  "frame_control_enc W c =
     [snd (w_frame_type W) (fc_frame_type c), fc_version c,
      snd (w_discover W) (fc_route_discovery c), snd (w_bool W) (fc_multicast c),
      snd (w_bool W) (fc_security c), snd (w_bool W) (fc_source_route c),
      snd (w_bool W) (fc_dst_ext_addr c), snd (w_bool W) (fc_src_ext_addr c),
      snd (w_bool W) (fc_end_device_initiator c)]"

fun frame_control_dec :: "wire \<Rightarrow> u8 list \<Rightarrow> byte_error + frame_control" where
  "frame_control_dec W [ft, ver, rd, mc, sec, sr, de, se, edi] =
     res_bind (fst (w_frame_type W) ft) (\<lambda>ft'.
     res_bind (fst (w_discover W) rd) (\<lambda>rd'.
     res_bind (fst (w_bool W) mc) (\<lambda>mc'.
     res_bind (fst (w_bool W) sec) (\<lambda>sec'.
     res_bind (fst (w_bool W) sr) (\<lambda>sr'.
     res_bind (fst (w_bool W) de) (\<lambda>de'.
     res_bind (fst (w_bool W) se) (\<lambda>se'.
     res_bind (fst (w_bool W) edi) (\<lambda>edi'.
       Inr \<lparr> fc_frame_type = ft', fc_version = ver, fc_route_discovery = rd', fc_multicast = mc',
         fc_security = sec', fc_source_route = sr', fc_dst_ext_addr = de',
         fc_src_ext_addr = se', fc_end_device_initiator = edi' \<rparr>))))))))"
| "frame_control_dec W _ = Inl Incomplete"

record multicast_control =
  mcc_multicast_mode :: multicast_mode
  mcc_non_member_radius :: u8
  mcc_max_non_member_radius :: u8

definition multicast_control_layout :: "bs_field list" where
  "multicast_control_layout = [(2, 0), (3, 0), (3, 0)]"

definition multicast_control_enc :: "wire \<Rightarrow> multicast_control \<Rightarrow> u8 list" where
  "multicast_control_enc W c = [snd (w_mcast W) (mcc_multicast_mode c), mcc_non_member_radius c,
     mcc_max_non_member_radius c]"

fun multicast_control_dec :: "wire \<Rightarrow> u8 list \<Rightarrow> byte_error + multicast_control" where
  "multicast_control_dec W [m, r, mr] = res_bind (fst (w_mcast W) m) (\<lambda>m'.
     Inr \<lparr> mcc_multicast_mode = m', mcc_non_member_radius = r, mcc_max_non_member_radius = mr \<rparr>)"
| "multicast_control_dec W _ = Inl Incomplete"

section \<open>The auxiliary security header\<close>

record security_control =
  sc_security_level :: security_level
  sc_key_identifier :: key_identifier
  sc_extended_nonce :: bool

definition security_control_layout :: "bs_field list" where
  "security_control_layout = [(3, 0), (2, 0), (1, 0)]"

definition security_control_enc :: "wire \<Rightarrow> security_control \<Rightarrow> u8 list" where
  "security_control_enc W c = [snd (w_level W) (sc_security_level c),
     snd (w_key_id W) (sc_key_identifier c), snd (w_bool W) (sc_extended_nonce c)]"

fun security_control_dec :: "wire \<Rightarrow> u8 list \<Rightarrow> byte_error + security_control" where
  "security_control_dec W [l, k, x] = res_bind (fst (w_level W) l) (\<lambda>l'.
     res_bind (fst (w_key_id W) k) (\<lambda>k'. res_bind (fst (w_bool W) x) (\<lambda>x'.
       Inr \<lparr> sc_security_level = l', sc_key_identifier = k', sc_extended_nonce = x' \<rparr>)))"
| "security_control_dec W _ = Inl Incomplete"

section \<open>MAC capabilities\<close>

definition mac_capabilities_layout :: "bs_field list" where
  "mac_capabilities_layout = [(1, 0), (1, 0), (1, 0), (1, 0), (1, 2), (1, 0)]"

definition mac_capabilities_enc :: "wire \<Rightarrow> mac_capabilities \<Rightarrow> u8 list" where
  "mac_capabilities_enc W c =
     [snd (w_bool W) (alternate_pan_coordinator c), snd (w_device W) (mc_device_type c),
      snd (w_source W) (mc_current_source c), snd (w_bool W) (mc_rx_on_when_idle c),
      snd (w_bool W) (mc_security c), snd (w_bool W) (mc_allocate_address c)]"

fun mac_capabilities_dec :: "wire \<Rightarrow> u8 list \<Rightarrow> byte_error + mac_capabilities" where
  "mac_capabilities_dec W [ap, dt, cs, rx, sec, al] =
     res_bind (fst (w_bool W) ap) (\<lambda>ap'. res_bind (fst (w_device W) dt) (\<lambda>dt'.
     res_bind (fst (w_source W) cs) (\<lambda>cs'. res_bind (fst (w_bool W) rx) (\<lambda>rx'.
     res_bind (fst (w_bool W) sec) (\<lambda>sec'. res_bind (fst (w_bool W) al) (\<lambda>al'.
       Inr \<lparr> alternate_pan_coordinator = ap', mc_device_type = dt', mc_current_source = cs',
         mc_rx_on_when_idle = rx', mc_security = sec', mc_allocate_address = al' \<rparr>))))))"
| "mac_capabilities_dec W _ = Inl Incomplete"

section \<open>Options of network commands\<close>

record link_options =
  lo_entry_count :: u8
  lo_first_frame :: bool
  lo_last_frame :: bool

definition link_options_layout :: "bs_field list" where
  "link_options_layout = [(5, 0), (1, 0), (1, 0)]"

definition link_options_enc :: "wire \<Rightarrow> link_options \<Rightarrow> u8 list" where
  "link_options_enc W c =
     [lo_entry_count c, snd (w_bool W) (lo_first_frame c), snd (w_bool W) (lo_last_frame c)]"

fun link_options_dec :: "wire \<Rightarrow> u8 list \<Rightarrow> byte_error + link_options" where
  "link_options_dec W [n, f, l] = res_bind (fst (w_bool W) f) (\<lambda>f'.
     res_bind (fst (w_bool W) l) (\<lambda>l'.
       Inr \<lparr> lo_entry_count = n, lo_first_frame = f', lo_last_frame = l' \<rparr>))"
| "link_options_dec W _ = Inl Incomplete"

record link_status =
  ls_incoming_cost :: link_cost
  ls_outgoing_cost :: link_cost

definition link_status_layout :: "bs_field list" where
  "link_status_layout = [(3, 0), (3, 1)]"

definition link_status_enc :: "wire \<Rightarrow> link_status \<Rightarrow> u8 list" where
  "link_status_enc W c =
     [snd (w_cost W) (ls_incoming_cost c), snd (w_cost W) (ls_outgoing_cost c)]"

fun link_status_dec :: "wire \<Rightarrow> u8 list \<Rightarrow> byte_error + link_status" where
  "link_status_dec W [i, out] = res_bind (fst (w_cost W) i) (\<lambda>i'.
     res_bind (fst (w_cost W) out) (\<lambda>out'.
       Inr \<lparr> ls_incoming_cost = i', ls_outgoing_cost = out' \<rparr>))"
| "link_status_dec W _ = Inl Incomplete"

record leave_cmd =
  lv_rejoin :: bool
  lv_request :: bool
  lv_remove_children :: bool

definition leave_layout :: "bs_field list" where
  "leave_layout = [(1, 5), (1, 0), (1, 0)]"

definition leave_enc :: "wire \<Rightarrow> leave_cmd \<Rightarrow> u8 list" where
  "leave_enc W c = [snd (w_bool W) (lv_rejoin c), snd (w_bool W) (lv_request c),
     snd (w_bool W) (lv_remove_children c)]"

fun leave_dec :: "wire \<Rightarrow> u8 list \<Rightarrow> byte_error + leave_cmd" where
  "leave_dec W [a, b, c] = res_bind (fst (w_bool W) a) (\<lambda>a'. res_bind (fst (w_bool W) b) (\<lambda>b'.
     res_bind (fst (w_bool W) c) (\<lambda>c'.
       Inr \<lparr> lv_rejoin = a', lv_request = b', lv_remove_children = c' \<rparr>)))"
| "leave_dec W _ = Inl Incomplete"

record parent_information =
  mac_data_poll_keepalive_supported :: bool
  end_device_timeout_request_keepalive_supported :: bool
  power_negotiation_supported :: bool

definition parent_information_layout :: "bs_field list" where
  "parent_information_layout = [(1, 0), (1, 0), (1, 0)]"

definition parent_information_enc :: "wire \<Rightarrow> parent_information \<Rightarrow> u8 list" where
  "parent_information_enc W c = [snd (w_bool W) (mac_data_poll_keepalive_supported c),
     snd (w_bool W) (end_device_timeout_request_keepalive_supported c),
     snd (w_bool W) (power_negotiation_supported c)]"

fun parent_information_dec :: "wire \<Rightarrow> u8 list \<Rightarrow> byte_error + parent_information" where
  "parent_information_dec W [a, b, c] = res_bind (fst (w_bool W) a) (\<lambda>a'.
     res_bind (fst (w_bool W) b) (\<lambda>b'. res_bind (fst (w_bool W) c) (\<lambda>c'.
       Inr \<lparr> mac_data_poll_keepalive_supported = a',
         end_device_timeout_request_keepalive_supported = b',
         power_negotiation_supported = c' \<rparr>)))"
| "parent_information_dec W _ = Inl Incomplete"

record rreq_options =
  rq_many_to_one :: many_to_one
  rq_destination_ieee :: bool
  rq_multicast :: bool

definition rreq_options_layout :: "bs_field list" where
  "rreq_options_layout = [(1, 3), (1, 0), (1, 0)]"

definition rreq_options_enc :: "wire \<Rightarrow> rreq_options \<Rightarrow> u8 list" where
  "rreq_options_enc W c = [snd (w_many W) (rq_many_to_one c),
     snd (w_bool W) (rq_destination_ieee c), snd (w_bool W) (rq_multicast c)]"

fun rreq_options_dec :: "wire \<Rightarrow> u8 list \<Rightarrow> byte_error + rreq_options" where
  "rreq_options_dec W [m, d, c] = res_bind (fst (w_many W) m) (\<lambda>m'.
     res_bind (fst (w_bool W) d) (\<lambda>d'. res_bind (fst (w_bool W) c) (\<lambda>c'.
       Inr \<lparr> rq_many_to_one = m', rq_destination_ieee = d', rq_multicast = c' \<rparr>)))"
| "rreq_options_dec W _ = Inl Incomplete"

record rrep_options =
  rp_originator_ieee :: bool
  rp_responder_ieee :: bool
  rp_multicast :: bool

definition rrep_options_layout :: "bs_field list" where
  "rrep_options_layout = [(1, 3), (1, 0), (1, 0)]"

definition rrep_options_enc :: "wire \<Rightarrow> rrep_options \<Rightarrow> u8 list" where
  "rrep_options_enc W c = [snd (w_bool W) (rp_originator_ieee c),
     snd (w_bool W) (rp_responder_ieee c), snd (w_bool W) (rp_multicast c)]"

fun rrep_options_dec :: "wire \<Rightarrow> u8 list \<Rightarrow> byte_error + rrep_options" where
  "rrep_options_dec W [a, b, c] = res_bind (fst (w_bool W) a) (\<lambda>a'.
     res_bind (fst (w_bool W) b) (\<lambda>b'. res_bind (fst (w_bool W) c) (\<lambda>c'.
       Inr \<lparr> rp_originator_ieee = a', rp_responder_ieee = b', rp_multicast = c' \<rparr>)))"
| "rrep_options_dec W _ = Inl Incomplete"

section \<open>The beacon's network parameters\<close>

record network_parameters =
  np_stack_profile :: stack_profile
  np_protocol_version :: u8
  np_router_capacity :: bool
  np_device_depth :: u8
  np_end_device_capacity :: bool

definition network_parameters_layout :: "bs_field list" where
  "network_parameters_layout = [(5, 0), (4, 0), (1, 2), (4, 0), (1, 0)]"

definition network_parameters_enc :: "wire \<Rightarrow> network_parameters \<Rightarrow> u8 list" where
  "network_parameters_enc W c = [snd (w_profile W) (np_stack_profile c), np_protocol_version c,
     snd (w_bool W) (np_router_capacity c), np_device_depth c,
     snd (w_bool W) (np_end_device_capacity c)]"

fun network_parameters_dec :: "wire \<Rightarrow> u8 list \<Rightarrow> byte_error + network_parameters" where
  "network_parameters_dec W [p, v, r, d, e] = res_bind (fst (w_profile W) p) (\<lambda>p'.
     res_bind (fst (w_bool W) r) (\<lambda>r'. res_bind (fst (w_bool W) e) (\<lambda>e'.
       Inr \<lparr> np_stack_profile = p', np_protocol_version = v, np_router_capacity = r',
         np_device_depth = d, np_end_device_capacity = e' \<rparr>)))"
| "network_parameters_dec W _ = Inl Incomplete"

section \<open>The layouts that keep the promise\<close>

lemmas layout_defs = frame_control_layout_def multicast_control_layout_def
  security_control_layout_def mac_capabilities_layout_def link_options_layout_def
  link_status_layout_def leave_layout_def parent_information_layout_def rreq_options_layout_def
  rrep_options_layout_def network_parameters_layout_def

lemmas enc_defs = frame_control_enc_def multicast_control_enc_def security_control_enc_def
  mac_capabilities_enc_def link_options_enc_def link_status_enc_def leave_enc_def
  parent_information_enc_def rreq_options_enc_def rrep_options_enc_def network_parameters_enc_def

lemma disc_ranges [simp]:
  "unat (frame_type_u8 t) < 4" "unat (discover_route_u8 d) < 4" "unat (multicast_mode_u8 m) < 4"
  "unat (as_bits l) < 8" "unat (key_identifier_u8 k) < 4" "unat (mac_device_type_u8 mt) < 2"
  "unat (mac_current_source_u8 ms) < 2"
  by ((cases t; simp), (cases d; simp), (cases m; simp), (cases l; simp), (cases k; simp),
    (cases mt; simp), (cases ms; simp))

definition bit_round :: "nat \<Rightarrow> bs_field list \<Rightarrow> ('a \<Rightarrow> u8 list) \<Rightarrow> (u8 list \<Rightarrow> byte_error + 'a) \<Rightarrow> 'a \<Rightarrow> bool" where
  "bit_round n fs enc dec v \<longleftrightarrow>
     (case struct_value n fs enc v of
        Panic \<Rightarrow> False
      | Done out \<Rightarrow> length out = n \<and> (case struct_read n fs dec out of
          Panic \<Rightarrow> False | Done r \<Rightarrow> (case r of Inl e \<Rightarrow> False | Inr (w, k) \<Rightarrow> w = v \<and> k = n)))"

lemma bit_roundI:
  "\<exists>out. struct_value n fs enc v = Done out \<and> length out = n \<and>
     struct_read n fs dec out = Done (Inr (v, n)) \<Longrightarrow> bit_round n fs enc dec v"
  by (auto simp: bit_round_def)

locale wire_codecs =
  fixes W :: wire
  assumes wire_ok: "wire_ok W"
begin

lemma wire_enc:
  "snd (w_bool W) b = (if b then 1 else 0)" "snd (w_frame_type W) t = frame_type_u8 t"
  "snd (w_discover W) d = discover_route_u8 d" "snd (w_mcast W) m = multicast_mode_u8 m"
  "snd (w_level W) l = as_bits l" "snd (w_key_id W) k = key_identifier_u8 k"
  "snd (w_many W) mo = many_to_one_u8 mo" "snd (w_device W) mt = mac_device_type_u8 mt"
  "snd (w_source W) ms = mac_current_source_u8 ms" "snd (w_cost W) c = link_cost_u8 c"
  "snd (w_profile W) p = stack_profile_u8 p"
  using wire_ok by (simp_all add: wire_ok_def bool_codec_def enum_codec_def)

lemma wire_dec:
  "fst (w_bool W) x = Inr (x \<noteq> 0)" "fst (w_frame_type W) (frame_type_u8 t) = Inr t"
  "fst (w_discover W) (discover_route_u8 d) = Inr d"
  "fst (w_mcast W) (multicast_mode_u8 m) = Inr m" "fst (w_level W) (as_bits l) = Inr l"
  "fst (w_key_id W) (key_identifier_u8 k) = Inr k"
  "fst (w_device W) (mac_device_type_u8 mt) = Inr mt"
  "fst (w_source W) (mac_current_source_u8 ms) = Inr ms"
  using wire_ok by (simp_all add: wire_ok_def bool_codec_def enum_codec_def)

lemma wire_dec_zero:
  "\<exists>e. fst (w_cost W) 0 = Inl e" "fst (w_many W) 0 = Inr NotManyToOne"
proof -
  have "fst (w_cost W) 0 \<noteq> Inr c" for c
    using wire_ok by (cases c) (simp_all add: wire_ok_def enum_codec_def)
  then show "\<exists>e. fst (w_cost W) 0 = Inl e" by (cases "fst (w_cost W) 0") auto
  show "fst (w_many W) 0 = Inr NotManyToOne"
    using wire_ok by (simp add: wire_ok_def enum_codec_def)
qed

sublocale fc: bit_struct_type 2 frame_control_layout "frame_control_enc W" "frame_control_dec W"
  "\<lambda>c. unat (fc_version c) < 16"
  by unfold_locales (auto simp: layout_defs Let_def frame_control_enc_def wire_enc wire_dec)

sublocale mc: bit_struct_type 1 multicast_control_layout "multicast_control_enc W"
  "multicast_control_dec W"
  "\<lambda>c. unat (mcc_non_member_radius c) < 8 \<and> unat (mcc_max_non_member_radius c) < 8"
  by unfold_locales (auto simp: layout_defs Let_def multicast_control_enc_def wire_enc wire_dec)

sublocale sc: bit_struct_type 1 security_control_layout "security_control_enc W"
  "security_control_dec W" "\<lambda>_. True"
  by unfold_locales (auto simp: layout_defs Let_def security_control_enc_def wire_enc wire_dec)

sublocale cap: bit_struct_type 1 mac_capabilities_layout "mac_capabilities_enc W"
  "mac_capabilities_dec W" "\<lambda>_. True"
  by unfold_locales (auto simp: layout_defs Let_def mac_capabilities_enc_def wire_enc wire_dec)

sublocale lo: bit_struct_type 1 link_options_layout "link_options_enc W" "link_options_dec W"
  "\<lambda>c. unat (lo_entry_count c) < 32"
  by unfold_locales (auto simp: layout_defs Let_def link_options_enc_def wire_enc wire_dec)

sublocale lv: bit_struct_type 1 leave_layout "leave_enc W" "leave_dec W" "\<lambda>_. True"
  by unfold_locales (auto simp: layout_defs Let_def leave_enc_def wire_enc wire_dec)

sublocale pinf: bit_struct_type 2 parent_information_layout "parent_information_enc W"
  "parent_information_dec W" "\<lambda>_. True"
  by unfold_locales (auto simp: layout_defs Let_def parent_information_enc_def wire_enc wire_dec)

sublocale rp: bit_struct_type 1 rrep_options_layout "rrep_options_enc W" "rrep_options_dec W"
  "\<lambda>_. True"
  by unfold_locales (auto simp: layout_defs Let_def rrep_options_enc_def wire_enc wire_dec)

lemma header_rounds:
  "unat (fc_version f) < 16 \<Longrightarrow>
     bit_round 2 frame_control_layout (frame_control_enc W) (frame_control_dec W) f"
  "unat (mcc_non_member_radius m) < 8 \<Longrightarrow> unat (mcc_max_non_member_radius m) < 8 \<Longrightarrow>
     bit_round 1 multicast_control_layout (multicast_control_enc W) (multicast_control_dec W) m"
  "bit_round 1 security_control_layout (security_control_enc W) (security_control_dec W) s"
  "bit_round 1 mac_capabilities_layout (mac_capabilities_enc W) (mac_capabilities_dec W) c"
  by (rule bit_roundI, blast intro: fc.value_ex mc.value_ex sc.value_ex cap.value_ex)+

lemma command_rounds:
  "unat (lo_entry_count l) < 32 \<Longrightarrow>
     bit_round 1 link_options_layout (link_options_enc W) (link_options_dec W) l"
  "bit_round 1 leave_layout (leave_enc W) (leave_dec W) v"
  "bit_round 2 parent_information_layout (parent_information_enc W) (parent_information_dec W) i"
  "bit_round 1 rrep_options_layout (rrep_options_enc W) (rrep_options_dec W) r"
  by (rule bit_roundI, blast intro: lo.value_ex lv.value_ex pinf.value_ex rp.value_ex)+

lemma security_value_ex:
  "\<exists>v. struct_value 1 security_control_layout (security_control_enc W) c = Done v \<and> length v = 1"
  using sc.value_ex [OF TrueI, of c] by blast

lemma security_value_inj:
  "struct_value 1 security_control_layout (security_control_enc W) c = Done v \<Longrightarrow>
   struct_value 1 security_control_layout (security_control_enc W) d = Done v \<Longrightarrow> c = d"
  using sc.value_inj [OF TrueI TrueI, of c d] by simp

lemma loses:
  "\<not> bit_round 1 link_status_layout (link_status_enc W) (link_status_dec W)
     \<lparr>ls_incoming_cost = CostUnknown, ls_outgoing_cost = c\<rparr>"
  "\<not> bit_round 1 rreq_options_layout (rreq_options_enc W) (rreq_options_dec W)
     \<lparr>rq_many_to_one = ManyToOneRouteRecordNotSupported, rq_destination_ieee = d,
      rq_multicast = m\<rparr>"
  "\<not> bit_round 2 network_parameters_layout (network_parameters_enc W) (network_parameters_dec W)
     \<lparr>np_stack_profile = p, np_protocol_version = 8, np_router_capacity = r,
      np_device_depth = 0, np_end_device_capacity = e\<rparr>"
proof -
  note ev = bit_round_def struct_value_def struct_read_def bs_get_value_def bs_try_write_def
    bs_try_read_def layout_defs enc_defs wire_enc Let_def bs_mask_def
  from wire_dec_zero(1) obtain err where err: "fst (w_cost W) 0 = Inl err" by blast
  show "\<not> bit_round 1 link_status_layout (link_status_enc W) (link_status_dec W)
     \<lparr>ls_incoming_cost = CostUnknown, ls_outgoing_cost = c\<rparr>"
    by (cases c) (simp_all add: ev err)
  show "\<not> bit_round 1 rreq_options_layout (rreq_options_enc W) (rreq_options_dec W)
     \<lparr>rq_many_to_one = ManyToOneRouteRecordNotSupported, rq_destination_ieee = d,
      rq_multicast = m\<rparr>"
    by (cases d; cases m; simp add: ev wire_dec wire_dec_zero)
  have prof: "fst (w_profile W) (stack_profile_u8 q) = Inr q" for q
    using wire_ok by (simp add: wire_ok_def enum_codec_def)
  show "\<not> bit_round 2 network_parameters_layout (network_parameters_enc W) (network_parameters_dec W)
     \<lparr>np_stack_profile = p, np_protocol_version = 8, np_router_capacity = r,
      np_device_depth = 0, np_end_device_capacity = e\<rparr>"
    using prof [of p] by (cases p; cases r; cases e; simp add: ev wire_dec)
qed

end

interpretation std_wire: wire_codecs wire_std
  by unfold_locales (rule wire_std_ok)

section \<open>Properties\<close>

text \<open>With the field codecs as documented, the bit structs of the network header, of the
  auxiliary security header, of the MAC capabilities and of the link-status, leave, timeout and
  route-reply commands survive being written and read, when the numbers in them fit their
  fields.\<close>
theorem header_structs_roundtrip:
  assumes "wire_ok W" and "unat (fc_version f) < 16"
    and "unat (mcc_non_member_radius m) < 8" and "unat (mcc_max_non_member_radius m) < 8"
    and "unat (lo_entry_count l) < 32"
  shows "bit_round 2 frame_control_layout (frame_control_enc W) (frame_control_dec W) f \<and>
    bit_round 1 multicast_control_layout (multicast_control_enc W) (multicast_control_dec W) m \<and>
    bit_round 1 security_control_layout (security_control_enc W) (security_control_dec W) s \<and>
    bit_round 1 mac_capabilities_layout (mac_capabilities_enc W) (mac_capabilities_dec W) c \<and>
    bit_round 1 link_options_layout (link_options_enc W) (link_options_dec W) l \<and>
    bit_round 1 leave_layout (leave_enc W) (leave_dec W) v \<and>
    bit_round 2 parent_information_layout (parent_information_enc W) (parent_information_dec W) i \<and>
    bit_round 1 rrep_options_layout (rrep_options_enc W) (rrep_options_dec W) r"
  using wire_codecs.header_rounds [OF wire_codecs.intro [OF assms(1)]]
    wire_codecs.command_rounds [OF wire_codecs.intro [OF assms(1)]] assms(2-) by simp

definition frame_control_sample :: frame_control where
  "frame_control_sample = \<lparr> fc_frame_type = NwkCommandFrame, fc_version = 2,
     fc_route_discovery = Enable, fc_multicast = False, fc_security = True,
     fc_source_route = False, fc_dst_ext_addr = True, fc_src_ext_addr = True,
     fc_end_device_initiator = False \<rparr>"

theorem header_structs_roundtrip_witness:
  "wire_ok wire_std \<and> bit_round 2 frame_control_layout (frame_control_enc wire_std)
     (frame_control_dec wire_std) frame_control_sample"
proof -
  have v: "unat (fc_version frame_control_sample) < 16" by (simp add: frame_control_sample_def)
  have m: "unat (mcc_non_member_radius \<lparr>mcc_multicast_mode = Member, mcc_non_member_radius = 7,
       mcc_max_non_member_radius = 7\<rparr>) < 8"
    "unat (mcc_max_non_member_radius \<lparr>mcc_multicast_mode = Member, mcc_non_member_radius = 7,
       mcc_max_non_member_radius = 7\<rparr>) < 8" by simp_all
  have l: "unat (lo_entry_count \<lparr>lo_entry_count = 1, lo_first_frame = True,
       lo_last_frame = True\<rparr>) < 32" by simp
  show ?thesis using wire_std_ok header_structs_roundtrip [OF wire_std_ok v m l] by blast
qed

text \<open>Three bit structs lose information. The link cost \<open>Unknown\<close> (\<open>8\<close>) does not fit its
  three bits, so no link status that carries it survives; the third value of \<open>many_to_one\<close> does
  not fit its single bit; and the protocol version of a beacon, whose four bits start at bit 5,
  keeps only three of them.\<close>
theorem bit_structs_lose:
  assumes "wire_ok W"
  shows "\<not> bit_round 1 link_status_layout (link_status_enc W) (link_status_dec W)
           \<lparr>ls_incoming_cost = CostUnknown, ls_outgoing_cost = c\<rparr> \<and>
         \<not> bit_round 1 rreq_options_layout (rreq_options_enc W) (rreq_options_dec W)
           \<lparr>rq_many_to_one = ManyToOneRouteRecordNotSupported, rq_destination_ieee = d,
            rq_multicast = m\<rparr> \<and>
         \<not> bit_round 2 network_parameters_layout (network_parameters_enc W)
           (network_parameters_dec W) \<lparr>np_stack_profile = p, np_protocol_version = 8,
            np_router_capacity = r, np_device_depth = 0, np_end_device_capacity = e\<rparr>"
  using wire_codecs.loses [OF wire_codecs.intro [OF assms]] by simp

theorem bit_structs_lose_witness:
  "\<not> bit_round 1 link_status_layout (link_status_enc wire_std) (link_status_dec wire_std)
     \<lparr>ls_incoming_cost = CostUnknown, ls_outgoing_cost = Cost1\<rparr>"
  using bit_structs_lose [OF wire_std_ok] by blast

end
