(* ===== verification/Security_Primitives.thy ===== *)
theory Security_Primitives
  imports Header_Structs
begin

text \<open>
  \<open>common/security\<close>: the AES-MMO hash and its keyed hash, the nonce, the wrapper around CCM
  and CTR, and the routine that writes and encrypts a frame in place.

  AES, CCM and CTR come from the crates \<open>aes\<close>, \<open>ccm\<close> and \<open>ctr\<close>: they are the record
  \<open>crypto\<close>, a parameter of the definitions. \<open>crypto_ok\<close> is what the code relies on: an AES
  block has 16 bytes, CCM opens what it sealed under the same key, nonce and associated data,
  and applying the CTR key stream twice gives the text back.
\<close>

datatype sec_error = InvalidKey | InvalidData | ParseError byte_error | CcmError | KeyNotFound
  | Unspecified

record crypto =
  aes_encrypt :: "key \<Rightarrow> bytes \<Rightarrow> bytes"
  ccm_seal :: "nat \<Rightarrow> key \<Rightarrow> bytes \<Rightarrow> bytes \<Rightarrow> bytes \<Rightarrow> (bytes \<times> bytes) option"
  ccm_open :: "nat \<Rightarrow> key \<Rightarrow> bytes \<Rightarrow> bytes \<Rightarrow> bytes \<Rightarrow> bytes \<Rightarrow> bytes option"
  ctr_stream :: "key \<Rightarrow> bytes \<Rightarrow> nat \<Rightarrow> bytes \<Rightarrow> bytes"

definition crypto_ok :: "crypto \<Rightarrow> bool" where
  "crypto_ok C \<longleftrightarrow>
     (\<forall>k b. length (aes_encrypt C k b) = 16) \<and>
     (\<forall>n k nonce aad p c t. ccm_seal C n k nonce aad p = Some (c, t) \<longrightarrow>
        length c = length p \<and> length t = n \<and> ccm_open C n k nonce aad c t = Some p) \<and>
     (\<forall>k iv s p. length (ctr_stream C k iv s p) = length p \<and>
        ctr_stream C k iv s (ctr_stream C k iv s p) = p)"

section \<open>The AES-MMO hash\<close>

definition xor_bytes :: "bytes \<Rightarrow> bytes \<Rightarrow> bytes" where
  "xor_bytes a b = map2 (XOR) a b"

text \<open>Rust's \<open>%\<close> on signed integers: the remainder has the sign of the dividend.\<close>

definition rust_rem :: "int \<Rightarrow> int \<Rightarrow> int" where
  "rust_rem a b = sgn a * (\<bar>a\<bar> mod \<bar>b\<bar>)"

text \<open>
  The padding of \<open>update_impl\<close>: \<open>0x80\<close>, zeros, the length in bits as a big-endian \<open>u16\<close>. A
  negative \<open>pad_len\<close> becomes a huge \<open>usize\<close>, and slicing the padding array with it panics.
  The length of 8192 bytes and more, in bits, does not fit the \<open>u16\<close> and wraps.
\<close>

definition mmo_pad :: "nat \<Rightarrow> (sec_error + bytes) run" where
  "mmo_pad len =
     (if len < 2 ^ 16 then
        (let pad_len = rust_rem (14 - int (len mod 16)) 16 in
         if pad_len < 0 then Panic
         else
           (let p = nat pad_len;
                bits = (of_nat (len * 8) :: u16);
                padded = ((replicate 18 0)[0 := 0x80])[p := byte_of 1 bits, p + 1 := byte_of 0 bits]
            in Done (Inr (take (p + 2) padded))))
      else Done (Inl InvalidData))"

text \<open>The loop over the blocks; a block that the data does not fill keeps its zeros.\<close>

function mmo_blocks :: "crypto \<Rightarrow> bytes \<Rightarrow> bytes \<Rightarrow> bytes" where
  "mmo_blocks C state data =
     (if data = [] then state
      else (let block = take 16 data @ replicate (16 - length data) 0
            in mmo_blocks C (xor_bytes (aes_encrypt C state block) block) (drop 16 data)))"
  by pat_completeness auto
termination
  by (relation "measure (\<lambda>(C, s, d). length d)") auto

declare mmo_blocks.simps [simp del]

definition mmo_update :: "crypto \<Rightarrow> bytes \<Rightarrow> bytes \<Rightarrow> (sec_error + bytes) run" where
  "mmo_update C state data =
     run_map (\<lambda>r. res_bind r (\<lambda>pad. Inr (mmo_blocks C state (data @ pad)))) (mmo_pad (length data))"

definition mmo_initialize :: "bytes \<Rightarrow> bytes" where
  "mmo_initialize iv = (let len = min 16 (length iv) in take len iv @ replicate (16 - len) 0)"

definition mmo_digest :: "crypto \<Rightarrow> bytes \<Rightarrow> (sec_error + bytes) run" where
  "mmo_digest C data = mmo_update C (replicate 16 0) data"

definition mmo_digest_with_iv :: "crypto \<Rightarrow> bytes \<Rightarrow> bytes \<Rightarrow> (sec_error + bytes) run" where
  "mmo_digest_with_iv C iv data = mmo_update C (mmo_initialize iv) data"

text \<open>The reference padding: the marker bit, zeros up to the last two bytes of a block, the length in 16 bits.
  Its length wraps from 8192 bytes on as that of the code does, where the standard has a longer field.\<close>

definition ref_pad :: "nat \<Rightarrow> bytes" where
  "ref_pad len = 0x80 # replicate ((29 - len mod 16) mod 16) 0 @
     [byte_of 1 (of_nat (len * 8) :: u16), byte_of 0 (of_nat (len * 8) :: u16)]"

fun ref_blocks :: "nat \<Rightarrow> bytes \<Rightarrow> bytes list" where
  "ref_blocks 0 data = []"
| "ref_blocks (Suc n) data = take 16 data # ref_blocks n (drop 16 data)"

definition ref_hash :: "crypto \<Rightarrow> bytes \<Rightarrow> bytes \<Rightarrow> bytes" where
  "ref_hash C iv data =
     (let padded = data @ ref_pad (length data) in
      foldl (\<lambda>h x. xor_bytes (aes_encrypt C h x) x) iv (ref_blocks (length padded div 16) padded))"

lemma pad_shape:
  assumes "p \<le> 14"
  shows "take (p + 2) (((replicate 18 (0 :: u8))[0 := 0x80])[p := a, p + 1 := b]) =
    (if p = 0 then [a, b] else 0x80 # replicate (p - 1) 0 @ [a, b])"
proof -
  have "p \<in> {0,1,2,3,4,5,6,7,8,9,10,11,12,13,14}" using assms unfolding insert_iff empty_iff by presburger
  then show ?thesis by (auto simp: eval_nat_numeral)
qed

lemma mmo_pad_eq:
  assumes "len < 2 ^ 16"
  shows "mmo_pad len =
    (if len mod 16 = 15 then Panic
     else if len mod 16 = 14 then
       Done (Inr [byte_of 1 (of_nat (len * 8) :: u16), byte_of 0 (of_nat (len * 8) :: u16)])
     else Done (Inr (ref_pad len)))"
proof -
  define m where "m = len mod 16"
  have m: "m < 16" by (simp add: m_def)
  consider "m = 15" | "m = 14" | "m \<le> 13" using m by linarith
  then show ?thesis
  proof cases
    case 1
    then show ?thesis using assms by (simp add: mmo_pad_def m_def rust_rem_def)
  next
    case 2
    then show ?thesis using assms
      by (simp add: mmo_pad_def m_def rust_rem_def pad_shape [of 0, simplified] Let_def)
  next
    case 3
    have "rust_rem (14 - int m) 16 = 14 - int m" using 3 by (simp add: rust_rem_def)
    moreover have "nat (14 - int m) = 14 - m" by linarith
    moreover have "(29 - m) mod 16 = 13 - m" using 3 by (simp add: mod_if) 
    ultimately show ?thesis using assms 3 pad_shape [of "14 - m"]
      by (simp add: mmo_pad_def ref_pad_def m_def [symmetric] Let_def)
  qed
qed

lemma mmo_blocks_fold:
  "length data = 16 * n \<Longrightarrow> mmo_blocks C state data =
     foldl (\<lambda>h x. xor_bytes (aes_encrypt C h x) x) state (ref_blocks n data)"
proof (induction n arbitrary: state data)
  case (Suc n)
  then have "data \<noteq> []" "length (drop 16 data) = 16 * n" "16 - length data = 0" by auto
  with Suc.IH show ?case by (subst mmo_blocks.simps) (simp add: Let_def)
qed (simp add: mmo_blocks.simps)

lemma ref_padded_length: "m mod 16 \<le> 13 \<Longrightarrow> length xs = m \<Longrightarrow> 16 dvd length (xs @ ref_pad m)"
proof -
  assume m: "m mod 16 \<le> 13" and "length xs = m"
  have "(29 - r) mod 16 = 13 - r" if "r \<le> 13" for r :: nat using that by (simp add: mod_if)
  from this [OF m] have "(29 - m mod 16) mod 16 = 13 - m mod 16" .
  with \<open>length xs = m\<close> have "length (xs @ ref_pad m) = m + (13 - m mod 16) + 3"
    by (simp add: ref_pad_def)
  also have "\<dots> = 16 * (m div 16) + 16" using m by presburger
  finally show ?thesis by (metis dvd_add dvd_refl dvd_triv_left)
qed

lemma mmo_update_ref:
  assumes "length data < 2 ^ 16" and "length data mod 16 \<le> 13"
  shows "mmo_update C iv data = Done (Inr (ref_hash C iv data))"
proof -
  let ?p = "data @ ref_pad (length data)"
  have "16 dvd length ?p" using ref_padded_length [OF assms(2) refl] .
  then have "mmo_blocks C iv ?p =
      foldl (\<lambda>h x. xor_bytes (aes_encrypt C h x) x) iv (ref_blocks (length ?p div 16) ?p)"
    by (intro mmo_blocks_fold) (simp only: dvd_mult_div_cancel)
  then show ?thesis using assms by (simp add: mmo_update_def mmo_pad_eq ref_hash_def Let_def)
qed

section \<open>The keyed hash\<close>

definition hmac_impl :: "crypto \<Rightarrow> bytes \<Rightarrow> bytes \<Rightarrow> (sec_error + bytes) run" where
  "hmac_impl C k data =
     (let ipad = xor_bytes (replicate 16 0x36) k; opad = xor_bytes (replicate 16 0x5c) k in
      run_bind (mmo_digest C (ipad @ data)) (\<lambda>r. case r of
          Inl e \<Rightarrow> Done (Inl e)
        | Inr inner \<Rightarrow> mmo_digest C (opad @ inner)))"

definition hmac :: "crypto \<Rightarrow> bytes \<Rightarrow> bytes \<Rightarrow> (sec_error + bytes) run" where
  "hmac C k data =
     (if length k = 16 then hmac_impl C k data
      else run_bind (mmo_digest C k) (\<lambda>r. case r of
          Inl e \<Rightarrow> Done (Inl e)
        | Inr k' \<Rightarrow> hmac_impl C k' data))"

definition ref_hmac :: "crypto \<Rightarrow> bytes \<Rightarrow> bytes \<Rightarrow> bytes" where
  "ref_hmac C k data = ref_hash C (replicate 16 0) (xor_bytes (replicate 16 0x5c) k @
     ref_hash C (replicate 16 0) (xor_bytes (replicate 16 0x36) k @ data))"

lemma length_xor_bytes [simp]: "length (xor_bytes a b) = min (length a) (length b)"
  by (simp add: xor_bytes_def)

lemma length_ref_hash:
  assumes "crypto_ok C" and "length data mod 16 \<le> 13"
  shows "length (ref_hash C iv data) = 16"
proof -
  let ?p = "data @ ref_pad (length data)" and ?f = "\<lambda>h x. xor_bytes (aes_encrypt C h x) x"
  have aes: "length (aes_encrypt C k b) = 16" for k b using assms(1) by (simp add: crypto_ok_def)
  have keep: "length (foldl ?f h (ref_blocks n d)) = 16" if "length d = 16 * n" "length h = 16" for h n d
    using that by (induction n arbitrary: h d) (simp_all add: aes)
  have step: "length (foldl ?f h (ref_blocks n d)) = 16" if "length d = 16 * n" "0 < n" for h n d
    using that keep [of "drop 16 d" "n - 1" "?f h (take 16 d)"] by (cases n) (simp_all add: aes)
  have "16 dvd length ?p" using ref_padded_length [OF assms(2) refl] .
  then obtain n where n: "length ?p = 16 * n" by (elim dvdE)
  have "0 < length ?p" by (simp add: ref_pad_def)
  with n have "0 < n" by linarith
  with n have "length ?p = 16 * (length ?p div 16)" "0 < length ?p div 16" by simp_all
  then show ?thesis unfolding ref_hash_def Let_def by (rule step)
qed

section \<open>CCM and CTR\<close>

definition extend_nonce :: "bytes \<Rightarrow> bytes" where
  "extend_nonce nonce = [1] @ nonce @ [0, 0]"

definition decrypt_in_place ::
  "crypto \<Rightarrow> key \<Rightarrow> bytes \<Rightarrow> bytes \<Rightarrow> bytes \<Rightarrow> bytes \<Rightarrow> sec_error + bytes" where
  "decrypt_in_place C k aad ciphertext tag nonce =
     (if tag = [] then Inr (ctr_stream C k (extend_nonce nonce) 16 ciphertext)
      else if length tag \<in> {4, 8, 16} then
        (case ccm_open C (length tag) k nonce aad ciphertext tag of
           None \<Rightarrow> Inl CcmError | Some p \<Rightarrow> Inr p)
      else Inl CcmError)"

text \<open>\<open>ccm_encrypt\<close> splits the tag off the end of the buffer; a shorter buffer panics.\<close>

definition ccm_encrypt :: "crypto \<Rightarrow> key \<Rightarrow> nat \<Rightarrow> bytes \<Rightarrow> bytes \<Rightarrow> bytes \<Rightarrow> (sec_error + bytes) run" where
  "ccm_encrypt C k tag_len aad buf nonce =
     (if length buf < tag_len then Panic
      else (case ccm_seal C tag_len k nonce aad (take (length buf - tag_len) buf) of
          None \<Rightarrow> Done (Inl CcmError)
        | Some (c, tag) \<Rightarrow> Done (Inr (c @ tag))))"

definition encrypt_in_place ::
  "crypto \<Rightarrow> key \<Rightarrow> security_level \<Rightarrow> bytes \<Rightarrow> bytes \<Rightarrow> bytes \<Rightarrow> (sec_error + bytes) run" where
  "encrypt_in_place C k level aad buf nonce =
     (if mic_length level = 0 then Done (Inr (ctr_stream C k (extend_nonce nonce) 16 buf))
      else ccm_encrypt C k (mic_length level) aad buf nonce)"

lemma mic_length_cases: "mic_length l = 0 \<or> mic_length l \<in> {4, 8, 16}"
  by (cases l) simp_all

lemma encrypt_decrypt:
  assumes C: "crypto_ok C" and enc: "encrypt_in_place C k l aad (p @ z) nonce = Done (Inr out)"
    and z: "length z = mic_length l"
  shows "length out = length p + mic_length l \<and>
    decrypt_in_place C k aad (take (length p) out) (drop (length p) out) nonce = Inr p"
proof (cases "mic_length l = 0")
  case True
  with enc z have "out = ctr_stream C k (extend_nonce nonce) 16 p"
    by (simp add: encrypt_in_place_def)
  with C True show ?thesis by (simp add: crypto_ok_def decrypt_in_place_def)
next
  case False
  with enc z obtain c t where seal: "ccm_seal C (mic_length l) k nonce aad p = Some (c, t)"
    and out: "out = c @ t"
    by (auto simp: encrypt_in_place_def ccm_encrypt_def split: option.splits if_splits)
  from C seal have "length c = length p" "length t = mic_length l"
    "ccm_open C (mic_length l) k nonce aad c t = Some p" by (auto simp: crypto_ok_def)
  with out False mic_length_cases [of l] show ?thesis by (auto simp: decrypt_in_place_def)
qed

section \<open>The auxiliary header and the nonce\<close>

record aux_header =
  ah_security_control :: security_control
  ah_frame_counter :: u32
  ah_source_address :: "ext_addr option"
  ah_key_sequence_number :: "u8 option"

definition create_nonce :: "wire \<Rightarrow> aux_header \<Rightarrow> (sec_error + bytes) run" where
  "create_nonce W a =
     (case ah_source_address a of
        None \<Rightarrow> Done (Inl InvalidData)
      | Some src \<Rightarrow> run_map (\<lambda>v. Inr (le_bytes 8 src @ le_bytes 4 (ah_frame_counter a) @ v))
          (struct_value 1 security_control_layout (security_control_enc W) (ah_security_control a)))"

lemma create_nonce_inj:
  assumes W: "wire_ok W"
    and a: "create_nonce W a = Done (Inr n)" and b: "create_nonce W b = Done (Inr n)"
  shows "ah_source_address a = ah_source_address b \<and> ah_frame_counter a = ah_frame_counter b \<and>
    ah_security_control a = ah_security_control b"
proof -
  let ?v = "struct_value 1 security_control_layout (security_control_enc W)"
  from a obtain sa va where sa: "ah_source_address a = Some sa" "?v (ah_security_control a) = Done va"
    "n = le_bytes 8 sa @ le_bytes 4 (ah_frame_counter a) @ va"
    by (auto simp: create_nonce_def run_simps split: option.splits)
  from b obtain sb vb where sb: "ah_source_address b = Some sb" "?v (ah_security_control b) = Done vb"
    "n = le_bytes 8 sb @ le_bytes 4 (ah_frame_counter b) @ vb"
    by (auto simp: create_nonce_def run_simps split: option.splits)
  from sa(3) sb(3) have "le_bytes 8 sa = le_bytes 8 sb" "va = vb"
    "le_bytes 4 (ah_frame_counter a) = le_bytes 4 (ah_frame_counter b)" by simp_all
  then have "sa = sb" "ah_frame_counter a = ah_frame_counter b"
    by (auto intro: le_bytes_inj)
  moreover have "ah_security_control a = ah_security_control b"
    using wire_codecs.security_value_inj [OF wire_codecs.intro [OF W]] sa(2) sb(2) \<open>va = vb\<close> by metis
  ultimately show ?thesis using sa(1) sb(1) by simp
qed

lemma create_nonce_ex:
  assumes "wire_ok W" and "ah_source_address a = Some src"
  shows "\<exists>n. create_nonce W a = Done (Inr n) \<and> length n = 13"
  using wire_codecs.security_value_ex [OF wire_codecs.intro [OF assms(1)], of "ah_security_control a"] assms(2)
  by (auto simp: create_nonce_def)

section \<open>Writing into a buffer\<close>

text \<open>
  A writer is a \<open>try_write\<close>: it gets the rest of the buffer and returns it with the number of
  bytes written. \<open>write_with\<close> is \<open>BytesExt::write_with\<close>, \<open>write_slice\<close> the writer of a byte
  slice and \<open>write_zeros\<close> the loop that writes \<open>0u8\<close>.
\<close>

type_synonym bwriter = "bytes \<Rightarrow> byte_error + bytes \<times> nat"

fun write_with :: "bwriter \<Rightarrow> bytes \<times> nat \<Rightarrow> byte_error + bytes \<times> nat" where
  "write_with w (buf, off) =
     (if length buf < off then Inl (BadOffset off)
      else res_bind (w (drop off buf)) (\<lambda>(tail, n). Inr (take off buf @ tail, off + n)))"

definition write_slice :: "bytes \<Rightarrow> bwriter" where
  "write_slice xs tail = (if length tail < length xs then Inl Incomplete
     else Inr (xs @ drop (length xs) tail, length xs))"

fun write_zeros :: "nat \<Rightarrow> bytes \<times> nat \<Rightarrow> byte_error + bytes \<times> nat" where
  "write_zeros 0 st = Inr st"
| "write_zeros (Suc n) st = res_bind (write_with (write_slice [0]) st) (write_zeros n)"

definition parse_error :: "byte_error + 'a \<Rightarrow> sec_error + 'a" where
  "parse_error r = (case r of Inl e \<Rightarrow> Inl (ParseError e) | Inr x \<Rightarrow> Inr x)"

lemma parse_error_done: "parse_error (Inr x) = Inr x"
  by (simp add: parse_error_def)

text \<open>
  \<open>write_and_encrypt_in_place\<close>: header, auxiliary header and payload one after the other, room
  for the integrity code, encryption of everything after the auxiliary header with everything
  before it as associated data, and the security level cleared in the transmitted auxiliary
  header. The result is the buffer and the length of the frame; after an error the callers drop
  the buffer.
\<close>

definition write_and_encrypt_in_place ::
  "crypto \<Rightarrow> wire \<Rightarrow> security_level \<Rightarrow> bytes \<Rightarrow> bwriter \<Rightarrow> aux_header \<Rightarrow> key \<Rightarrow> bwriter \<Rightarrow> bwriter \<Rightarrow>
   (sec_error + bytes \<times> nat) run" where
  "write_and_encrypt_in_place C W level buf wr_aux aux k wr_hdr wr_payload =
     (let mic_len = mic_length level in
      run_bind (create_nonce W aux) (\<lambda>rn. case rn of Inl e \<Rightarrow> Done (Inl e) | Inr nonce \<Rightarrow>
      (case parse_error (write_with wr_hdr (buf, 0)) of Inl e \<Rightarrow> Done (Inl e) | Inr (buf1, aux_off) \<Rightarrow>
      (case parse_error (write_with wr_aux (buf1, aux_off)) of Inl e \<Rightarrow> Done (Inl e)
       | Inr (buf2, payload_off) \<Rightarrow>
      (case parse_error (write_with wr_payload (buf2, payload_off)) of Inl e \<Rightarrow> Done (Inl e)
       | Inr (buf3, tag_off) \<Rightarrow>
      (case parse_error (write_zeros mic_len (buf3, tag_off)) of Inl e \<Rightarrow> Done (Inl e)
       | Inr (buf4, len) \<Rightarrow>
         run_bind (encrypt_in_place C k level (take payload_off buf4)
                     (take (len - payload_off) (drop payload_off buf4)) nonce) (\<lambda>r. case r of
             Inl e \<Rightarrow> Done (Inl e)
           | Inr ct \<Rightarrow>
               (let buf5 = take payload_off buf4 @ ct @ drop len buf4 in
                if aux_off < length buf5
                then Done (Inr (buf5[aux_off := (buf5 ! aux_off) AND 0xf8], len))
                else Panic))))))))"

lemma write_zeros_eq:
  "length a = off \<Longrightarrow> n \<le> length b \<Longrightarrow>
     write_zeros n (a @ b, off) = Inr (a @ replicate n 0 @ drop n b, off + n)"
proof (induction n arbitrary: a b off)
  case (Suc n)
  then obtain x b' where b: "b = x # b'" by (cases b) auto
  from Suc.prems b have "write_zeros n ((a @ [0]) @ b', Suc off) =
      Inr ((a @ [0]) @ replicate n 0 @ drop n b', Suc off + n)"
    by (intro Suc.IH) simp_all
  with Suc.prems b show ?case by (simp add: write_slice_def)
qed simp

section \<open>Properties\<close>

text \<open>C40. The AES-MMO hash of fewer than 65536 bytes is the reference hash (marker bit, zero fill,
  16-bit length, Matyas-Meyer-Oseas chaining) when the length is at most 13 modulo 16; at 14 the
  marker is missing from the padding, at 15 the code panics; longer data is an error. From 8192 bytes on the length
  field of 16 bits wraps, in the code and in the reference.\<close>
theorem mmo_digest_correct:
  "mmo_digest C data =
     (if 2 ^ 16 \<le> length data then Done (Inl InvalidData)
      else if length data mod 16 = 15 then Panic
      else if length data mod 16 = 14 then
        (let p = data @ drop (length (ref_pad (length data)) - 2) (ref_pad (length data)) in
         Done (Inr (foldl (\<lambda>h x. xor_bytes (aes_encrypt C h x) x) (replicate 16 0)
           (ref_blocks (length p div 16) p))))
      else Done (Inr (ref_hash C (replicate 16 0) data)))"
proof -
  consider "2 ^ 16 \<le> length data" | "length data < 2 ^ 16" "length data mod 16 = 15"
    | "length data < 2 ^ 16" "length data mod 16 = 14"
    | "length data < 2 ^ 16" "length data mod 16 \<le> 13"
    using mod_less_divisor [of 16 "length data"] by linarith
  then show ?thesis
  proof cases
    case 3
    let ?t = "drop (length (ref_pad (length data)) - 2) (ref_pad (length data))"
    have t: "?t = [byte_of 1 (of_nat (length data * 8) :: u16), byte_of 0 (of_nat (length data * 8) :: u16)]"
      by (simp add: ref_pad_def)
    have "length (data @ ?t) = 16 * (length (data @ ?t) div 16)" using 3(2) t by simp presburger
    from mmo_blocks_fold [OF this] show ?thesis using 3
      by (simp add: mmo_digest_def mmo_update_def mmo_pad_eq t Let_def)
  next
    case 4
    then show ?thesis using mmo_update_ref [of data C "replicate 16 0"] by (simp add: mmo_digest_def)
  qed (simp_all add: mmo_digest_def mmo_update_def mmo_pad_eq, simp add: mmo_pad_def)
qed

text \<open>The keyed hash of the key derivations: for a key of 16 bytes and a message of at most 13
  bytes it neither fails nor panics and is the nested hash of the outer and the inner pad, of 16
  bytes.\<close>
theorem hmac_correct:
  assumes "crypto_ok C" and "length k = 16" and "length data \<le> 13"
  shows "hmac C k data = Done (Inr (ref_hmac C k data)) \<and> length (ref_hmac C k data) = 16"
proof -
  have mod: "length (xor_bytes (replicate 16 0x36) k @ data) mod 16 \<le> 13"
    using assms(2,3) by simp
  note inner = length_ref_hash [OF assms(1) mod, of "replicate 16 0"]
  have "mmo_digest C (xor_bytes (replicate 16 0x36) k @ data) =
      Done (Inr (ref_hash C (replicate 16 0) (xor_bytes (replicate 16 0x36) k @ data)))"
    unfolding mmo_digest_def using assms(2,3) mod by (intro mmo_update_ref) simp_all
  moreover have "mmo_digest C (xor_bytes (replicate 16 0x5c) k @ h) =
      Done (Inr (ref_hash C (replicate 16 0) (xor_bytes (replicate 16 0x5c) k @ h)))" if "length h = 16" for h
    unfolding mmo_digest_def using assms(2) that by (intro mmo_update_ref) simp_all
  moreover have "length (ref_hmac C k data) = 16"
    unfolding ref_hmac_def using assms(2) inner by (intro length_ref_hash [OF assms(1)]) simp
  ultimately show ?thesis
    using assms(2) inner by (simp add: hmac_def hmac_impl_def ref_hmac_def Let_def)
qed

text \<open>A crypto library that satisfies the hypothesis, for the witnesses.\<close>

definition crypto_std :: crypto where
  "crypto_std = \<lparr> aes_encrypt = (\<lambda>k b. replicate 16 0),
     ccm_seal = (\<lambda>n k nonce aad p. Some (p, replicate n 0)),
     ccm_open = (\<lambda>n k nonce aad c t. if t = replicate n 0 then Some c else None),
     ctr_stream = (\<lambda>k iv s p. p) \<rparr>"

lemma crypto_std_ok: "crypto_ok crypto_std"
  by (simp add: crypto_ok_def crypto_std_def)

theorem hmac_correct_witness:
  "crypto_ok crypto_std \<and>
   hmac crypto_std (replicate 16 1) [3] = Done (Inr (ref_hmac crypto_std (replicate 16 1) [3]))"
  using crypto_std_ok hmac_correct [OF crypto_std_ok, of "replicate 16 1" "[3]"] by simp

end
