(* ===== verification/Index_Map.thy ===== *)
theory Index_Map
  imports Zb_Prelude
begin

text \<open>
  \<open>FnvIndexMap\<close> of the crate \<open>heapless\<close> as the sources use it: a map of bounded capacity that
  keeps the order of insertion. It is a list of pairs; \<open>insert\<close> replaces the value of a key that
  is present and otherwise fails exactly when the map is full. The locale \<open>bounded_map\<close> states
  what the address map, the route table and the discovery table of the network layer rely on; it
  is interpreted on the functions below.
\<close>

section \<open>The operations\<close>

type_synonym ('k, 'v) imap = "('k \<times> 'v) list"

definition im_get :: "'k \<Rightarrow> ('k, 'v) imap \<Rightarrow> 'v option" where
  "im_get k m = map_of m k"

definition im_contains :: "'k \<Rightarrow> ('k, 'v) imap \<Rightarrow> bool" where
  "im_contains k m \<longleftrightarrow> im_get k m \<noteq> None"

definition im_is_full :: "nat \<Rightarrow> ('k, 'v) imap \<Rightarrow> bool" where
  "im_is_full cap m \<longleftrightarrow> cap \<le> length m"

fun im_set :: "'k \<Rightarrow> 'v \<Rightarrow> ('k, 'v) imap \<Rightarrow> ('k, 'v) imap" where
  "im_set k v [] = [(k, v)]"
| "im_set k v ((j, w) # m) = (if j = k then (k, v) # m else (j, w) # im_set k v m)"

definition im_insert :: "nat \<Rightarrow> 'k \<Rightarrow> 'v \<Rightarrow> ('k, 'v) imap \<Rightarrow> ('k, 'v) imap option" where
  "im_insert cap k v m =
     (if im_contains k m \<or> \<not> im_is_full cap m then Some (im_set k v m) else None)"

text \<open>\<open>entry(k).and_modify(f).or_insert(v)\<close>, and \<open>get_mut(k)\<close> with an update.\<close>

definition im_upsert :: "nat \<Rightarrow> 'k \<Rightarrow> ('v \<Rightarrow> 'v) \<Rightarrow> 'v \<Rightarrow> ('k, 'v) imap \<Rightarrow> ('k, 'v) imap option" where
  "im_upsert cap k f v m =
     (case im_get k m of Some w \<Rightarrow> Some (im_set k (f w) m) | None \<Rightarrow> im_insert cap k v m)"

definition im_modify :: "'k \<Rightarrow> ('v \<Rightarrow> 'v) \<Rightarrow> ('k, 'v) imap \<Rightarrow> ('k, 'v) imap" where
  "im_modify k f m = (case im_get k m of Some w \<Rightarrow> im_set k (f w) m | None \<Rightarrow> m)"

text \<open>\<open>retain\<close> with a predicate that may change the value.\<close>

fun im_retain :: "('k \<Rightarrow> 'v \<Rightarrow> 'v \<times> bool) \<Rightarrow> ('k, 'v) imap \<Rightarrow> ('k, 'v) imap" where
  "im_retain f [] = []"
| "im_retain f ((k, v) # m) = (case f k v of (w, keep) \<Rightarrow>
     if keep then (k, w) # im_retain f m else im_retain f m)"

definition im_ok :: "nat \<Rightarrow> ('k, 'v) imap \<Rightarrow> bool" where
  "im_ok cap m \<longleftrightarrow> distinct (map fst m) \<and> length m \<le> cap"

section \<open>The interface\<close>

locale bounded_map =
  fixes get :: "'k \<Rightarrow> 'm \<Rightarrow> 'v option"
    and insert :: "'k \<Rightarrow> 'v \<Rightarrow> 'm \<Rightarrow> 'm option"
    and upsert :: "'k \<Rightarrow> ('v \<Rightarrow> 'v) \<Rightarrow> 'v \<Rightarrow> 'm \<Rightarrow> 'm option"
    and modify :: "'k \<Rightarrow> ('v \<Rightarrow> 'v) \<Rightarrow> 'm \<Rightarrow> 'm"
    and size :: "'m \<Rightarrow> nat"
    and cap :: nat
    and ok :: "'m \<Rightarrow> bool"
  assumes get_insert: "insert k v m = Some m' \<Longrightarrow> get j m' = (if j = k then Some v else get j m)"
    and insert_fails: "insert k v m = None \<longleftrightarrow> get k m = None \<and> cap \<le> size m"
    and insert_ok: "ok m \<Longrightarrow> insert k v m = Some m' \<Longrightarrow> ok m'"
    and size_insert: "insert k v m = Some m' \<Longrightarrow>
      size m' = (if get k m = None then Suc (size m) else size m)"
    and ok_size: "ok m \<Longrightarrow> size m \<le> cap"
    and upsert_absent: "get k m = None \<Longrightarrow> upsert k f v m = insert k v m"
    and upsert_present: "get k m = Some w \<Longrightarrow> upsert k f v m = insert k (f w) m"
    and modify_absent: "get k m = None \<Longrightarrow> modify k f m = m"
    and modify_present: "get k m = Some w \<Longrightarrow> Some (modify k f m) = insert k (f w) m"
begin

lemma get_upsert:
  "upsert k f v m = Some m' \<Longrightarrow>
     get j m' = (if j = k then Some (case get k m of None \<Rightarrow> v | Some w \<Rightarrow> f w) else get j m)"
  by (cases "get k m") (auto simp: upsert_absent upsert_present get_insert)

lemma upsert_ok: "ok m \<Longrightarrow> upsert k f v m = Some m' \<Longrightarrow> ok m'"
  by (cases "get k m") (auto simp: upsert_absent upsert_present intro: insert_ok)

lemma upsert_fails: "upsert k f v m = None \<longleftrightarrow> get k m = None \<and> cap \<le> size m"
  by (cases "get k m") (auto simp: upsert_absent upsert_present insert_fails)

lemma get_modify: "get j (modify k f m) = (if j = k then map_option f (get k m) else get j m)"
proof (cases "get k m")
  case (Some w)
  from get_insert [OF modify_present [OF Some, symmetric]] Some show ?thesis by simp
qed (simp add: modify_absent)

lemma modify_ok: "ok m \<Longrightarrow> ok (modify k f m)"
proof (cases "get k m")
  case (Some w)
  then show "ok m \<Longrightarrow> ?thesis" using modify_present [OF Some, of f] by (metis insert_ok)
qed (simp add: modify_absent)

lemma size_modify: "size (modify k f m) = size m"
proof (cases "get k m")
  case (Some w)
  from size_insert [OF modify_present [OF Some, symmetric]] Some show ?thesis by simp
qed (simp add: modify_absent)

text \<open>A key that is present never causes a failure, whatever the fill level.\<close>

lemma insert_present: "get k m = Some w \<Longrightarrow> \<exists>m'. insert k v m = Some m' \<and> size m' = size m"
  using insert_fails [of k v m] size_insert [of k v m] by (cases "insert k v m") auto

end

section \<open>The interpretation\<close>

lemma map_of_im_set: "map_of (im_set k v m) j = (if j = k then Some v else map_of m j)"
  by (induction k v m rule: im_set.induct) auto

lemma length_im_set: "length (im_set k v m) = (if map_of m k = None then Suc (length m) else length m)"
  by (induction k v m rule: im_set.induct) auto

lemma keys_im_set: "map fst (im_set k v m) =
    (if map_of m k = None then map fst m @ [k] else map fst m)"
  by (induction k v m rule: im_set.induct) auto

lemma im_set_map_snd:
  "map_of m k = Some w \<Longrightarrow> set (im_set k v m) \<subseteq> insert (k, v) (set m)"
  by (induction k v m rule: im_set.induct) (auto split: if_splits)

lemma im_ok_set:
  "im_ok cap m \<Longrightarrow> im_contains k m \<or> \<not> im_is_full cap m \<Longrightarrow> im_ok cap (im_set k v m)"
  by (auto simp: im_ok_def keys_im_set length_im_set im_contains_def im_get_def im_is_full_def
      map_of_eq_None_iff)

interpretation imap: bounded_map im_get "im_insert cap" "im_upsert cap" im_modify length cap "im_ok cap"
  for cap
proof unfold_locales
  show "im_insert cap k v m = Some m' \<Longrightarrow> im_get j m' = (if j = k then Some v else im_get j m)"
    for k j :: 'a and v :: 'b and m m'
    by (auto simp: im_insert_def im_get_def map_of_im_set split: if_splits)
  show "im_insert cap k v m = None \<longleftrightarrow> im_get k m = None \<and> cap \<le> length m"
    for k :: 'a and v :: 'b and m
    by (auto simp: im_insert_def im_contains_def im_is_full_def)
  show "im_ok cap m \<Longrightarrow> im_insert cap k v m = Some m' \<Longrightarrow> im_ok cap m'"
    for k :: 'a and v :: 'b and m m'
    by (auto simp: im_insert_def im_ok_set split: if_splits)
  show "im_insert cap k v m = Some m' \<Longrightarrow>
      length m' = (if im_get k m = None then Suc (length m) else length m)"
    for k :: 'a and v :: 'b and m m'
    by (auto simp: im_insert_def im_get_def length_im_set split: if_splits)
  show "im_ok cap m \<Longrightarrow> length m \<le> cap" for m :: "('a \<times> 'b) list" by (simp add: im_ok_def)
  show "Some (im_modify k f m) = im_insert cap k (f w) m" if "im_get k m = Some w"
    for k :: 'a and f and w :: 'b and m
    using that by (simp add: im_modify_def im_insert_def im_contains_def)
qed (auto simp: im_upsert_def im_insert_def im_contains_def im_modify_def)

lemma im_get_Nil [simp]: "im_get k [] = None"
  by (simp add: im_get_def)

lemma im_ok_Nil [simp]: "im_ok cap []"
  by (simp add: im_ok_def)

lemma set_im_retain: "(k, w) \<in> set (im_retain f m) \<Longrightarrow> \<exists>v. (k, v) \<in> set m \<and> f k v = (w, True)"
proof (induction m)
  case (Cons x m)
  then show ?case by (cases x; cases "f (fst x) (snd x)") (auto split: if_splits)
qed simp

lemma keys_im_retain: "map fst (im_retain f m) = map fst (filter (\<lambda>(k, v). snd (f k v)) m)"
  by (induction f m rule: im_retain.induct) (auto split: prod.splits)

lemma length_im_retain: "length (im_retain f m) \<le> length m"
proof -
  have "length (im_retain f m) = length (map fst (im_retain f m))" by simp
  also have "\<dots> \<le> length m" unfolding keys_im_retain by simp
  finally show ?thesis .
qed

lemma im_ok_retain: "im_ok cap m \<Longrightarrow> im_ok cap (im_retain f m)"
  using length_im_retain [of f m]
  by (auto simp: im_ok_def keys_im_retain intro: distinct_map_filter)

lemma im_get_retain:
  "distinct (map fst m) \<Longrightarrow> im_get k (im_retain f m) =
     (case im_get k m of None \<Rightarrow> None
      | Some v \<Rightarrow> (case f k v of (w, keep) \<Rightarrow> if keep then Some w else None))"
proof (induction f m rule: im_retain.induct)
  case (2 f j v m)
  have absent: "map_of (im_retain f m) j = None" if "j \<notin> fst ` set m"
    using that by (force simp: map_of_eq_None_iff dest: set_im_retain)
  from 2 absent show ?case
    by (cases "f j v") (auto simp: im_get_def map_of_eq_None_iff split: option.splits)
qed simp

end
