(* ===== verification/Nib.thy ===== *)
theory Nib
  imports Zb_Types Index_Map
begin

text \<open>
  The tables of the network layer (\<open>nwk/nib.rs\<close>, \<open>common/information_base.rs\<close>): the
  neighbor table, the address map, the route table with its route discoveries, the security
  material and the records of broadcasts and source routes. The fields of a neighbor that only
  the device profile uses (its descriptors) are not part of the record. A \<open>zb_types::Vec\<close> is,
  in the default configuration, a vector on the heap: \<open>push\<close> appends and never fails, whatever
  capacity its type names.
\<close>

section \<open>Neighbors\<close>

datatype neighbor_relationship = Parent | Child | Sibling | OtherRelationship | PreviousChild
  | UnauthenticatedChild

record nwk_neighbor =
  nb_ext_addr :: "ext_addr option"
  nb_nwk_addr :: nwk_addr
  nb_device_type :: device_type
  nb_end_device_configuration :: u16
  nb_device_timeout :: device_timeout
  nb_relationship :: neighbor_relationship
  nb_rx_on_when_idle :: bool
  nb_transmit_failure :: u8
  nb_incoming_cost :: link_cost
  nb_outgoing_cost :: link_cost
  nb_expiration :: instant
  nb_keepalive_received :: bool

definition neighbor_default :: "instant \<Rightarrow> nwk_neighbor" where
  "neighbor_default now = \<lparr> nb_ext_addr = None, nb_nwk_addr = nwk_addr_default,
     nb_device_type = EndDevice, nb_end_device_configuration = 0, nb_device_timeout = Secs10,
     nb_relationship = OtherRelationship, nb_rx_on_when_idle = False, nb_transmit_failure = 0,
     nb_incoming_cost = link_cost_default, nb_outgoing_cost = link_cost_default,
     nb_expiration = now, nb_keepalive_received = False \<rparr>"

record new_neighbor =
  nn_ext_addr :: ext_addr
  nn_nwk_addr :: nwk_addr
  nn_device_type :: device_type
  nn_rx_on_when_idle :: bool
  nn_relationship :: neighbor_relationship

definition neighbor_new :: "instant \<Rightarrow> new_neighbor \<Rightarrow> nwk_neighbor" where
  "neighbor_new now n = (neighbor_default now)\<lparr>
     nb_ext_addr := Some (nn_ext_addr n), nb_nwk_addr := nn_nwk_addr n,
     nb_device_type := nn_device_type n, nb_rx_on_when_idle := nn_rx_on_when_idle n,
     nb_device_timeout := NWK_END_DEVICE_TIMEOUT_DEFAULT, nb_relationship := nn_relationship n,
     nb_expiration := now + timeout_duration NWK_END_DEVICE_TIMEOUT_DEFAULT \<rparr>"

definition nb_is_child :: "nwk_neighbor \<Rightarrow> bool" where
  "nb_is_child nb \<longleftrightarrow> nb_relationship nb = Child"

definition nb_is_parent :: "nwk_neighbor \<Rightarrow> bool" where
  "nb_is_parent nb \<longleftrightarrow> nb_relationship nb = Parent"

definition nb_is_end_device :: "nwk_neighbor \<Rightarrow> bool" where
  "nb_is_end_device nb \<longleftrightarrow> nb_device_type nb = EndDevice"

definition nb_is_router :: "nwk_neighbor \<Rightarrow> bool" where
  "nb_is_router nb \<longleftrightarrow> nb_device_type nb = Router \<or> nb_device_type nb = Coordinator"

section \<open>The neighbor table\<close>

record neighbor_table =
  nt_parent :: nwk_neighbor
  nt_neighbors :: "nwk_neighbor list"

definition neighbor_table_new :: "nwk_neighbor \<Rightarrow> nwk_neighbor list \<Rightarrow> neighbor_table" where
  "neighbor_table_new p ns = \<lparr> nt_parent = p, nt_neighbors = ns \<rparr>"

definition neighbor_table_default :: "instant \<Rightarrow> neighbor_table" where
  "neighbor_table_default now = neighbor_table_new (neighbor_default now) []"

definition nbs_cleanup :: "instant \<Rightarrow> neighbor_table \<Rightarrow> neighbor_table" where
  "nbs_cleanup now t = t\<lparr> nt_neighbors := filter (\<lambda>nb. nb_expiration nb > now) (nt_neighbors t) \<rparr>"

definition has_ext_addr :: "ext_addr \<Rightarrow> nwk_neighbor \<Rightarrow> bool" where
  "has_ext_addr a nb \<longleftrightarrow> nb_ext_addr nb = Some a"

definition has_ext_addr_and_type :: "ext_addr \<Rightarrow> device_type \<Rightarrow> nwk_neighbor \<Rightarrow> bool" where
  "has_ext_addr_and_type a d nb \<longleftrightarrow> nb_ext_addr nb = Some a \<and> d = nb_device_type nb"

definition find_by_ext_addr :: "ext_addr \<Rightarrow> neighbor_table \<Rightarrow> nwk_neighbor option" where
  "find_by_ext_addr a t = find (has_ext_addr a) (nt_neighbors t)"

definition find_by_ext_addr_and_type ::
  "ext_addr \<Rightarrow> device_type \<Rightarrow> neighbor_table \<Rightarrow> nwk_neighbor option" where
  "find_by_ext_addr_and_type a d t = find (has_ext_addr_and_type a d) (nt_neighbors t)"

definition find_by_short_addr :: "nwk_addr \<Rightarrow> neighbor_table \<Rightarrow> nwk_neighbor option" where
  "find_by_short_addr a t = find (\<lambda>nb. nb_nwk_addr nb = a) (nt_neighbors t)"

definition find_by_short_addr_and_device_type ::
  "nwk_addr \<Rightarrow> device_type \<Rightarrow> neighbor_table \<Rightarrow> nwk_neighbor option" where
  "find_by_short_addr_and_device_type a d t =
     find (\<lambda>nb. nb_nwk_addr nb = a \<and> nb_device_type nb = d) (nt_neighbors t)"

definition nbs_update_first ::
  "(nwk_neighbor \<Rightarrow> bool) \<Rightarrow> (nwk_neighbor \<Rightarrow> nwk_neighbor) \<Rightarrow> neighbor_table \<Rightarrow> neighbor_table" where
  "nbs_update_first P f t = t\<lparr> nt_neighbors := update_first P f (nt_neighbors t) \<rparr>"

definition nbs_push :: "nwk_neighbor \<Rightarrow> neighbor_table \<Rightarrow> neighbor_table" where
  "nbs_push nb t = t\<lparr> nt_neighbors := nt_neighbors t @ [nb] \<rparr>"

definition nbs_retain :: "(nwk_neighbor \<Rightarrow> bool) \<Rightarrow> neighbor_table \<Rightarrow> neighbor_table" where
  "nbs_retain P t = t\<lparr> nt_neighbors := filter P (nt_neighbors t) \<rparr>"

lemmas nbs_defs = nbs_cleanup_def nbs_update_first_def nbs_push_def nbs_retain_def
  find_by_ext_addr_def find_by_ext_addr_and_type_def find_by_short_addr_def
  find_by_short_addr_and_device_type_def has_ext_addr_def has_ext_addr_and_type_def

text \<open>Extended addresses identify a neighbor: the invariant of the joins.\<close>

definition nbs_unique :: "neighbor_table \<Rightarrow> bool" where
  "nbs_unique t \<longleftrightarrow> distinct (filter (\<lambda>a. a \<noteq> None) (map nb_ext_addr (nt_neighbors t)))"

lemma nbs_unique_filter: "nbs_unique t \<Longrightarrow> nbs_unique (t\<lparr> nt_neighbors := filter P (nt_neighbors t) \<rparr>)"
proof -
  have "set (filter (\<lambda>a. a \<noteq> None) (map nb_ext_addr (filter P ns))) \<subseteq>
      set (filter (\<lambda>a. a \<noteq> None) (map nb_ext_addr ns))" for ns by auto
  moreover have "distinct (filter (\<lambda>a. a \<noteq> None) (map nb_ext_addr ns)) \<Longrightarrow>
      distinct (filter (\<lambda>a. a \<noteq> None) (map nb_ext_addr (filter P ns)))" for ns
    by (induction ns) (auto split: if_splits)
  ultimately show "nbs_unique t \<Longrightarrow> ?thesis" by (simp add: nbs_unique_def)
qed

lemma nbs_unique_cleanup [simp]: "nbs_unique t \<Longrightarrow> nbs_unique (nbs_cleanup now t)"
  unfolding nbs_cleanup_def by (rule nbs_unique_filter)

lemma nbs_unique_retain [simp]: "nbs_unique t \<Longrightarrow> nbs_unique (nbs_retain P t)"
  unfolding nbs_retain_def by (rule nbs_unique_filter)

lemma nbs_unique_update_first:
  "nbs_unique t \<Longrightarrow> (\<And>nb. nb_ext_addr (f nb) = nb_ext_addr nb) \<Longrightarrow> nbs_unique (nbs_update_first P f t)"
  by (simp add: nbs_unique_def nbs_update_first_def map_update_first)

lemma nbs_unique_push:
  "nbs_unique t \<Longrightarrow> (\<And>nb. nb \<in> set (nt_neighbors t) \<Longrightarrow> nb_ext_addr nb \<noteq> nb_ext_addr n) \<Longrightarrow>
     nbs_unique (nbs_push n t)"
  by (auto simp: nbs_unique_def nbs_push_def)

lemma nbs_unique_find:
  assumes "nbs_unique t" and "nb \<in> set (nt_neighbors t)" and "nb_ext_addr nb = Some a"
  shows "find_by_ext_addr a t = Some nb"
proof -
  have "distinct (filter (\<lambda>a. a \<noteq> None) (map nb_ext_addr ns)) \<Longrightarrow> nb \<in> set ns \<Longrightarrow>
      nb_ext_addr nb = Some a \<Longrightarrow> find (has_ext_addr a) ns = Some nb" for ns
    by (induction ns) (auto simp: has_ext_addr_def split: if_splits, metis image_eqI option.distinct(1))
  then show ?thesis using assms by (simp add: nbs_unique_def find_by_ext_addr_def)
qed

section \<open>The address map\<close>

type_synonym addr_map = "(nwk_addr, ext_addr) imap"

definition ADDR_MAP_CAP :: nat where "ADDR_MAP_CAP = 64"

definition am_find_ext_addr :: "nwk_addr \<Rightarrow> addr_map \<Rightarrow> ext_addr option" where
  "am_find_ext_addr a m = im_get a m"

definition am_find_nwk_addr :: "ext_addr \<Rightarrow> addr_map \<Rightarrow> nwk_addr option" where
  "am_find_nwk_addr e m = map_option fst (find (\<lambda>(n, x). x = e) m)"

definition am_insert :: "nwk_addr \<Rightarrow> ext_addr \<Rightarrow> addr_map \<Rightarrow> addr_map" where
  "am_insert n e m = (case im_insert ADDR_MAP_CAP n e m of Some m' \<Rightarrow> m' | None \<Rightarrow> m)"

lemma am_insert_ok: "im_ok ADDR_MAP_CAP m \<Longrightarrow> im_ok ADDR_MAP_CAP (am_insert n e m)"
  by (auto simp: am_insert_def imap.insert_ok split: option.splits)

lemma am_find_nwk_ext:
  assumes "im_ok cap m" and "am_find_nwk_addr e m = Some n"
  shows "am_find_ext_addr n m = Some e"
proof -
  from assms(2) obtain x where "find (\<lambda>(n, x). x = e) m = Some (n, x)"
    by (auto simp: am_find_nwk_addr_def)
  from find_Some_prop [OF this] have "(n, e) \<in> set m" by auto
  with assms(1) show ?thesis by (simp add: am_find_ext_addr_def im_get_def im_ok_def)
qed

section \<open>Routes\<close>

datatype route_status = RouteActive | DiscoveryUnderway | DiscoveryFailed | RouteInactive
  | ValidationUnderway

record route_entry_key =
  rk_addr :: nwk_addr
  rk_is_group :: bool

definition route_entry_key_new :: "stack_profile_params \<Rightarrow> nwk_addr \<Rightarrow> bool \<Rightarrow> route_entry_key" where
  "route_entry_key_new p a g = \<lparr> rk_addr = BROADCAST_ALL, rk_is_group = g \<rparr>"

record route_discovery_entry =
  rd_sender_addr :: nwk_addr
  rd_forward_cost :: u8
  rd_residual_cost :: u8
  rd_expiration_time :: instant

definition route_discovery_entry_new :: "instant \<Rightarrow> nwk_addr \<Rightarrow> u8 \<Rightarrow> route_discovery_entry" where
  "route_discovery_entry_new now a c = \<lparr> rd_sender_addr = a, rd_forward_cost = c,
     rd_residual_cost = 0, rd_expiration_time = now + ROUTE_DISCOVERY_TIME \<rparr>"

type_synonym discovery_table = "(u8 \<times> nwk_addr, route_discovery_entry) imap"

definition DISCOVERY_CAP :: nat where "DISCOVERY_CAP = 4"

record route_entry =
  re_status :: route_status
  re_no_route_cache :: bool
  re_many_to_one :: bool
  re_next_hop_addr :: nwk_addr
  re_is_group :: bool
  re_route_record_required :: bool
  re_discovery :: discovery_table

definition route_entry_default :: route_entry where
  "route_entry_default = \<lparr> re_status = DiscoveryUnderway, re_no_route_cache = False,
     re_many_to_one = False, re_next_hop_addr = nwk_addr_default, re_is_group = False,
     re_route_record_required = False, re_discovery = [] \<rparr>"

definition route_usable :: "route_status \<Rightarrow> bool" where
  "route_usable s \<longleftrightarrow> s = RouteActive \<or> s = ValidationUnderway"

type_synonym route_table = "(route_entry_key, route_entry) imap"

definition ROUTE_TABLE_CAP :: nat where "ROUTE_TABLE_CAP = 64"

definition rt_is_full :: "route_table \<Rightarrow> bool" where
  "rt_is_full t = im_is_full ROUTE_TABLE_CAP t"

definition route_table_cleanup :: "instant \<Rightarrow> route_table \<Rightarrow> route_table" where
  "route_table_cleanup now t = im_retain (\<lambda>_ route.
     let d = im_retain (\<lambda>_ x. (x, rd_expiration_time x \<ge> now)) (re_discovery route);
         route' = route\<lparr> re_discovery := d \<rparr>
     in (route', route_usable (re_status route') \<or> d \<noteq> [])) t"

text \<open>
  What the table satisfies: distinct keys, at most four discoveries per route, and, because
  \<open>RouteEntryKey::new\<close> drops the address, keys that differ in the group flag only.
\<close>

definition route_ok :: "route_entry \<Rightarrow> bool" where
  "route_ok r \<longleftrightarrow> im_ok DISCOVERY_CAP (re_discovery r)"

definition rt_ok :: "route_table \<Rightarrow> bool" where
  "rt_ok t \<longleftrightarrow> im_ok ROUTE_TABLE_CAP t \<and>
     (\<forall>(k, r) \<in> set t. rk_addr k = BROADCAST_ALL \<and> route_ok r)"

lemma rt_ok_Nil [simp]: "rt_ok []"
  by (simp add: rt_ok_def)

lemma rt_ok_cleanup: "rt_ok t \<Longrightarrow> rt_ok (route_table_cleanup now t)"
  by (auto simp: rt_ok_def route_table_cleanup_def im_ok_retain route_ok_def Let_def
      dest!: set_im_retain)

lemma rt_ok_get: "rt_ok t \<Longrightarrow> im_get k t = Some r \<Longrightarrow> rk_addr k = BROADCAST_ALL \<and> route_ok r"
  by (auto simp: rt_ok_def im_get_def dest!: map_of_SomeD)

lemma rt_ok_set:
  assumes "rt_ok t" and "rk_addr k = BROADCAST_ALL" and "route_ok r"
    and "im_contains k t \<or> \<not> im_is_full ROUTE_TABLE_CAP t"
  shows "rt_ok (im_set k r t)"
proof -
  have "set (im_set k r t) \<subseteq> insert (k, r) (set t)"
    by (induction k r t rule: im_set.induct) auto
  with assms show ?thesis by (auto simp: rt_ok_def im_ok_set)
qed

lemma rt_ok_modify:
  assumes "rt_ok t" and "\<And>r. route_ok r \<Longrightarrow> route_ok (f r)"
  shows "rt_ok (im_modify k f t)"
  using assms rt_ok_get [OF assms(1), of k]
  by (auto simp: im_modify_def im_contains_def intro!: rt_ok_set split: option.splits)

lemma rt_ok_upsert:
  assumes "rt_ok t" and "\<And>r. route_ok r \<Longrightarrow> route_ok (f r)" and "route_ok v"
    and "rk_addr k = BROADCAST_ALL" and "im_upsert ROUTE_TABLE_CAP k f v t = Some t'"
  shows "rt_ok t'"
  using assms rt_ok_get [OF assms(1), of k]
  by (auto simp: im_upsert_def im_insert_def im_contains_def intro!: rt_ok_set
      split: option.splits if_splits)

lemma rk_new [simp]: "rk_addr (route_entry_key_new p a g) = BROADCAST_ALL"
  "rk_is_group (route_entry_key_new p a g) = g"
  by (simp_all add: route_entry_key_new_def)

lemma rt_ok_length: assumes "rt_ok t" shows "length t \<le> 2"
proof -
  have "set (map fst t) \<subseteq> {route_entry_key_new p 0 False, route_entry_key_new p 0 True}" for p
  proof
    fix k assume "k \<in> set (map fst t)"
    with assms have "rk_addr k = BROADCAST_ALL" by (auto simp: rt_ok_def)
    then show "k \<in> {route_entry_key_new p 0 False, route_entry_key_new p 0 True}"
      by (cases k; cases "rk_is_group k") (simp_all add: route_entry_key_new_def)
  qed
  then have "card (set (map fst t)) \<le>
      card {route_entry_key_new undefined 0 False, route_entry_key_new undefined 0 True}"
    by (intro card_mono) auto
  also have "\<dots> \<le> 2" by (auto simp: card_insert_if)
  finally show ?thesis using assms distinct_card [of "map fst t"] by (simp add: rt_ok_def im_ok_def)
qed

lemma rt_not_full: "rt_ok t \<Longrightarrow> \<not> rt_is_full t"
  using rt_ok_length [of t] by (simp add: rt_is_full_def im_is_full_def ROUTE_TABLE_CAP_def)

section \<open>Security material and records\<close>

record incoming_frame_counter =
  ifc_sender_address :: ext_addr
  ifc_counter :: u32

record security_material =
  sm_key_seq_number :: u8
  sm_outgoing_frame_counter :: u32
  sm_incoming_frame_counter_set :: "incoming_frame_counter list"
  sm_key :: key

record transaction_record =
  tr_source_address :: nwk_addr
  tr_sequence_number :: u8
  tr_expiration_time :: instant

record route_record =
  rr_network_address :: nwk_addr
  rr_relay_count :: u8
  rr_path :: "nwk_addr list"

section \<open>Properties\<close>

text \<open>The address map: an insertion is found under its short address unless the map is full and
  the address is new, no other entry changes, the capacity bound is kept, and the reverse lookup
  names an address that maps back.\<close>
theorem addr_map_correct:
  assumes "im_ok ADDR_MAP_CAP m"
  shows "am_find_ext_addr a (am_insert n e m) =
      (if a = n \<and> (im_contains n m \<or> length m < ADDR_MAP_CAP) then Some e else am_find_ext_addr a m) \<and>
    im_ok ADDR_MAP_CAP (am_insert n e m) \<and>
    (am_find_nwk_addr x (am_insert n e m) = Some s \<longrightarrow> am_find_ext_addr s (am_insert n e m) = Some x)"
proof -
  have "am_find_ext_addr a (am_insert n e m) =
      (if a = n \<and> (im_contains n m \<or> length m < ADDR_MAP_CAP) then Some e else am_find_ext_addr a m)"
    using imap.get_insert [of ADDR_MAP_CAP n e m _ a] imap.insert_fails [of ADDR_MAP_CAP n e m]
    by (cases "im_insert ADDR_MAP_CAP n e m")
      (auto simp: am_insert_def am_find_ext_addr_def im_contains_def)
  moreover note am_insert_ok [OF assms, of n e]
  ultimately show ?thesis using am_find_nwk_ext by blast
qed

theorem addr_map_correct_witness:
  "im_ok ADDR_MAP_CAP [(1, 10)] \<and> am_find_ext_addr 2 (am_insert 2 20 [(1, 10)]) = Some 20"
  using addr_map_correct [of "[(1, 10)]" 2 2 20]
  by (auto simp: im_ok_def ADDR_MAP_CAP_def)

text \<open>Cleaning the route table keeps exactly the routes that are active, under validation or in a
  live discovery, and of their discoveries the live ones; the table it leaves is well formed and
  holds at most two routes, one for each value of the group flag, because the key of a route does
  not depend on its destination.\<close>
theorem route_table_cleanup_correct:
  assumes "rt_ok t"
  shows "im_get k (route_table_cleanup now t) =
      (case im_get k t of None \<Rightarrow> None
       | Some r \<Rightarrow>
           (let live = filter (\<lambda>(_, d). now \<le> rd_expiration_time d) (re_discovery r) in
            if re_status r = RouteActive \<or> re_status r = ValidationUnderway \<or> live \<noteq> []
            then Some (r\<lparr> re_discovery := live \<rparr>) else None)) \<and>
    rt_ok (route_table_cleanup now t) \<and> length (route_table_cleanup now t) \<le> 2 \<and>
    \<not> rt_is_full (route_table_cleanup now t) \<and>
    route_entry_key_new p a g = route_entry_key_new p b g"
proof -
  have live: "im_retain (\<lambda>_ x. (x, now \<le> rd_expiration_time x)) d =
      filter (\<lambda>(_, x). now \<le> rd_expiration_time x) d" for d
    by (induction d) auto
  from assms have "distinct (map fst t)" by (simp add: rt_ok_def im_ok_def)
  from im_get_retain [OF this] have "im_get k (route_table_cleanup now t) =
      (case im_get k t of None \<Rightarrow> None
       | Some r \<Rightarrow>
           (let live = filter (\<lambda>(_, d). now \<le> rd_expiration_time d) (re_discovery r) in
            if re_status r = RouteActive \<or> re_status r = ValidationUnderway \<or> live \<noteq> []
            then Some (r\<lparr> re_discovery := live \<rparr>) else None))"
    by (simp add: route_table_cleanup_def Let_def live route_usable_def split: option.splits)
  moreover note rt_ok_cleanup [OF assms, of now]
  ultimately show ?thesis
    by (simp add: rt_ok_length rt_not_full route_entry_key_new_def)
qed

theorem route_table_cleanup_correct_witness:
  "rt_ok [(route_entry_key_new ZIGBEE_STACK_PROFILE 5 False, route_entry_default)] \<and>
   \<not> rt_is_full (route_table_cleanup 7
       [(route_entry_key_new ZIGBEE_STACK_PROFILE 5 False, route_entry_default)])"
proof -
  have "rt_ok [(route_entry_key_new ZIGBEE_STACK_PROFILE 5 False, route_entry_default)]"
    by (simp add: rt_ok_def im_ok_def ROUTE_TABLE_CAP_def route_ok_def route_entry_default_def)
  with route_table_cleanup_correct [OF this] show ?thesis by blast
qed

end
