(* ===== verification/Nwk_Frame.thy ===== *)
theory Nwk_Frame
  imports Security_Primitives Nib
begin

text \<open>
  Network frames: \<open>nwk/frame/header.rs\<close>, \<open>nwk/frame/mod.rs\<close>, the command payloads of
  \<open>nwk/commands\<close> and the service types of \<open>nwk/nlde/mod.rs\<close>.

  The codecs that \<open>derive(TryRead, TryWrite)\<close> generates come from a crate outside the
  repository. They are the record \<open>codecs\<close>, a parameter; the hand-written codecs (of a frame, of
  a rejoin response) are functions over it.
\<close>

section \<open>The header\<close>

record source_route_subframe =
  sr_relay_count :: u8
  sr_relay_index :: u8
  sr_relay_list :: "nwk_addr list"

record nwk_header =
  nh_control :: frame_control
  nh_destination :: nwk_addr
  nh_source :: nwk_addr
  nh_radius :: u8
  nh_sequence_number :: u8
  nh_destination_ieee :: "ext_addr option"
  nh_source_ieee :: "ext_addr option"
  nh_multicast_control :: "multicast_control option"
  nh_source_route :: "source_route_subframe option"

definition nwk_header_new_no_ctx ::
  "frame_type \<Rightarrow> bool \<Rightarrow> bool \<Rightarrow> nwk_addr \<Rightarrow> ext_addr option \<Rightarrow> nwk_addr \<Rightarrow> ext_addr option \<Rightarrow>
   source_route_subframe option \<Rightarrow> u8 \<Rightarrow> u8 \<Rightarrow> nwk_header" where
  "nwk_header_new_no_ctx ft security discovery dst dst_ieee src src_ieee sroute radius seq =
     \<lparr> nh_control = \<lparr> fc_frame_type = ft, fc_version = 2,
         fc_route_discovery = (if discovery then Enable else Suppress), fc_multicast = False,
         fc_security = security, fc_source_route = (sroute \<noteq> None),
         fc_dst_ext_addr = (dst_ieee \<noteq> None), fc_src_ext_addr = (src_ieee \<noteq> None),
         fc_end_device_initiator = False \<rparr>,
       nh_destination = dst, nh_source = src, nh_radius = radius, nh_sequence_number = seq,
       nh_destination_ieee = dst_ieee, nh_source_ieee = src_ieee, nh_multicast_control = None,
       nh_source_route = sroute \<rparr>"

definition nwk_header_cmd_no_ctx ::
  "bool \<Rightarrow> nwk_addr \<Rightarrow> ext_addr \<Rightarrow> nwk_addr \<Rightarrow> ext_addr option \<Rightarrow> source_route_subframe option \<Rightarrow>
   u8 \<Rightarrow> u8 \<Rightarrow> nwk_header" where
  "nwk_header_cmd_no_ctx security src src_ieee dst dst_ieee sroute seq radius =
     nwk_header_new_no_ctx NwkCommandFrame security False dst dst_ieee src (Some src_ieee) sroute
       radius seq"

text \<open>The optional fields are present exactly when the control flags say so: what the derived
  codec needs to read a header back.\<close>

definition header_consistent :: "nwk_header \<Rightarrow> bool" where
  "header_consistent h \<longleftrightarrow>
     (fc_dst_ext_addr (nh_control h) \<longleftrightarrow> nh_destination_ieee h \<noteq> None) \<and>
     (fc_src_ext_addr (nh_control h) \<longleftrightarrow> nh_source_ieee h \<noteq> None) \<and>
     (fc_multicast (nh_control h) \<longleftrightarrow> nh_multicast_control h \<noteq> None) \<and>
     (fc_source_route (nh_control h) \<longleftrightarrow> nh_source_route h \<noteq> None)"

lemma header_consistent_new [simp]:
  "header_consistent (nwk_header_new_no_ctx ft s d dst di src si sr r seq)"
  by (simp add: header_consistent_def nwk_header_new_no_ctx_def)

section \<open>Commands\<close>

record route_request =
  rreq_options :: rreq_options
  rreq_route_request_id :: u8
  rreq_dst_addr :: nwk_addr
  rreq_path_cost :: u8
  rreq_destination_ieee_address :: "ext_addr option"

definition rreq_is_unicast :: "route_request \<Rightarrow> bool" where
  "rreq_is_unicast r \<longleftrightarrow> \<not> rq_multicast (rreq_options r) \<and> is_unicast (rreq_dst_addr r)"

definition rreq_is_multicast :: "route_request \<Rightarrow> bool" where
  "rreq_is_multicast r \<longleftrightarrow> rq_multicast (rreq_options r)"

definition rreq_is_many_to_one :: "route_request \<Rightarrow> bool" where
  "rreq_is_many_to_one r \<longleftrightarrow> is_broadcast (rreq_dst_addr r)"

definition rreq_no_route_cache :: "route_request \<Rightarrow> bool" where
  "rreq_no_route_cache r \<longleftrightarrow> rq_many_to_one (rreq_options r) = ManyToOneRouteRecordNotSupported"

record route_reply =
  rrep_options :: rrep_options
  rrep_route_request_id :: u8
  rrep_originator_address :: nwk_addr
  rrep_responder_address :: nwk_addr
  rrep_path_cost :: u8
  rrep_originator_ieee_address :: "ext_addr option"
  rrep_responder_ieee_address :: "ext_addr option"

datatype network_status = NoRouteAvailable nwk_addr | TreeLinkFailure nwk_addr
  | NonTreeLinkFailure nwk_addr | LowBatteryLevel | NoRoutingCapacity | NoIndirectCapacity
  | IndirectTransactionExpiry | TargetDeviceUnavailable | TargetAddressUnallocated
  | ParentLinkFailure | ValidateRoute | SourceRouteFailure nwk_addr
  | ManyToOneRouteFailure nwk_addr | AddressConflict nwk_addr | VerifyAddresses
  | PanIdentifierUpdate | NetworkAddressUpdate nwk_addr | BadFrameCounter
  | BadKeySequenceNumber | UnknownCommand

datatype rejoin_response = RejoinSuccess nwk_addr | RejoinPanAtCapacity | RejoinAccessDenied

record link_status_entry =
  lse_neighbor_address :: nwk_addr
  lse_link_status :: link_status

record link_status_cmd =
  lsc_options :: link_options
  lsc_entries :: "link_status_entry list"

datatype report_command_identifier = ReportPanIdentifierConflict

record network_report_options =
  nro_count :: u8
  nro_command_identifier :: report_command_identifier

record network_report =
  nr_options :: network_report_options
  nr_extended_pan_id :: ext_addr
  nr_pan_ids :: "pan_id list"

record network_update =
  nu_options :: network_report_options
  nu_ext_pan_id :: ext_addr
  nu_update_id :: u8
  nu_pan_id :: pan_id

record end_device_timeout_request =
  edt_requested_timeout :: device_timeout
  edt_end_device_configuration :: u16

datatype end_device_timeout_status = TimeoutSuccess | TimeoutIncorrectValue

record end_device_timeout_response =
  edr_status :: end_device_timeout_status
  edr_parent_information :: parent_information

datatype power_options = PowerNotification | PowerRequest | PowerResponse

datatype command =
    RouteRequest route_request
  | RouteReply route_reply
  | NetworkStatus network_status
  | Leave leave_cmd
  | RouteRecord "nwk_addr list"
  | RejoinRequest zb_capabilities
  | RejoinResponse rejoin_response
  | LinkStatus link_status_cmd
  | NetworkReport network_report
  | NetworkUpdate network_update
  | EndDeviceTimeoutRequest end_device_timeout_request
  | EndDeviceTimeoutResponse end_device_timeout_response
  | LinkPowerDelta power_options "(nwk_addr \<times> u8) list"

section \<open>Frames\<close>

record data_frame =
  df_header :: nwk_header
  df_payload :: bytes

record command_frame =
  cf_header :: nwk_header
  cf_command :: command

datatype nwk_frame = Data data_frame | NwkCommand command_frame | Reserved nwk_header
  | InterPan nwk_header

primrec frame_header :: "nwk_frame \<Rightarrow> nwk_header" where
  "frame_header (Data d) = df_header d"
| "frame_header (NwkCommand c) = cf_header c"
| "frame_header (Reserved h) = h"
| "frame_header (InterPan h) = h"

primrec map_frame_header :: "(nwk_header \<Rightarrow> nwk_header) \<Rightarrow> nwk_frame \<Rightarrow> nwk_frame" where
  "map_frame_header f (Data d) = Data (df_header_update f d)"
| "map_frame_header f (NwkCommand c) = NwkCommand (cf_header_update f c)"
| "map_frame_header f (Reserved h) = Reserved (f h)"
| "map_frame_header f (InterPan h) = InterPan (f h)"

definition new_data_frame :: "nwk_header \<Rightarrow> bytes \<Rightarrow> nwk_frame" where
  "new_data_frame h p = Data \<lparr> df_header = h, df_payload = p \<rparr>"

definition new_cmd_frame :: "nwk_header \<Rightarrow> command \<Rightarrow> nwk_frame" where
  "new_cmd_frame h c = NwkCommand \<lparr> cf_header = h, cf_command = c \<rparr>"

definition dst_addr :: "nwk_frame \<Rightarrow> nwk_addr" where "dst_addr f = nh_destination (frame_header f)"
definition src_addr :: "nwk_frame \<Rightarrow> nwk_addr" where "src_addr f = nh_source (frame_header f)"
definition is_secured :: "nwk_frame \<Rightarrow> bool" where
  "is_secured f = fc_security (nh_control (frame_header f))"
definition is_multicast :: "nwk_frame \<Rightarrow> bool" where
  "is_multicast f = fc_multicast (nh_control (frame_header f))"

text \<open>Both predicates ask for the source address, as the code does.\<close>

definition frame_is_unicast :: "nwk_frame \<Rightarrow> bool" where
  "frame_is_unicast f \<longleftrightarrow> \<not> fc_multicast (nh_control (frame_header f)) \<and> is_unicast (src_addr f)"

definition frame_is_broadcast :: "nwk_frame \<Rightarrow> bool" where
  "frame_is_broadcast f \<longleftrightarrow> is_broadcast (src_addr f)"

definition is_route_discovery_enabled :: "nwk_frame \<Rightarrow> bool" where
  "is_route_discovery_enabled f \<longleftrightarrow> fc_route_discovery (nh_control (frame_header f)) = Enable"

lemma frame_header_map [simp]: "frame_header (map_frame_header f x) = f (frame_header x)"
  by (cases x) simp_all

section \<open>Codecs\<close>

type_synonym 'a breader = "bytes \<Rightarrow> byte_error + 'a \<times> nat"

record codecs =
  cd_write_header :: "nwk_header \<Rightarrow> bwriter"
  cd_read_header :: "nwk_header breader"
  cd_write_command :: "command \<Rightarrow> bwriter"
  cd_read_command :: "command breader"
  cd_write_aux :: "aux_header \<Rightarrow> bwriter"
  cd_read_aux :: "aux_header breader"
  cd_write_addr :: "nwk_addr \<Rightarrow> bwriter"
  cd_read_addr :: "nwk_addr breader"

text \<open>\<open>BytesExt::read_with\<close>: read at an offset and advance it.\<close>

definition read_with :: "'a breader \<Rightarrow> bytes \<Rightarrow> nat \<Rightarrow> byte_error + 'a \<times> nat" where
  "read_with rd bs off =
     (if length bs < off then Inl (BadOffset off)
      else res_bind (rd (drop off bs)) (\<lambda>(x, n). Inr (x, off + n)))"

definition read_u8 :: "u8 breader" where
  "read_u8 bs = (case bs of [] \<Rightarrow> Inl Incomplete | b # _ \<Rightarrow> Inr (b, 1))"

text \<open>\<open>TryRead<NwkHeader> for NwkFrame\<close>, \<open>TryRead<Endian>\<close> and \<open>TryWrite\<close>.\<close>

definition read_frame_body :: "codecs \<Rightarrow> nwk_header \<Rightarrow> nwk_frame breader" where
  "read_frame_body D h bs =
     (case fc_frame_type (nh_control h) of
        DataFrame \<Rightarrow> Inr (Data \<lparr> df_header = h, df_payload = bs \<rparr>, length bs)
      | NwkCommandFrame \<Rightarrow> res_bind (read_with (cd_read_command D) bs 0) (\<lambda>(c, off).
          Inr (NwkCommand \<lparr> cf_header = h, cf_command = c \<rparr>, off))
      | ReservedFrame \<Rightarrow> Inr (Reserved h, 0)
      | InterPanFrame \<Rightarrow> Inr (InterPan h, 0))"

definition read_frame :: "codecs \<Rightarrow> nwk_frame breader" where
  "read_frame D bs =
     res_bind (read_with (cd_read_header D) bs 0) (\<lambda>(h, off).
     read_with (read_frame_body D h) bs off)"

definition write_frame :: "codecs \<Rightarrow> nwk_frame \<Rightarrow> bwriter" where
  "write_frame D f bs =
     (case f of
        Data d \<Rightarrow> res_bind (write_with (cd_write_header D (df_header d)) (bs, 0))
          (write_with (write_slice (df_payload d)))
      | NwkCommand c \<Rightarrow> res_bind (write_with (cd_write_header D (cf_header c)) (bs, 0))
          (write_with (cd_write_command D (cf_command c)))
      | Reserved h \<Rightarrow> write_with (cd_write_header D h) (bs, 0)
      | InterPan h \<Rightarrow> write_with (cd_write_header D h) (bs, 0))"

text \<open>\<open>TryRead\<close> and \<open>TryWrite\<close> of \<open>RejoinResponse\<close>.\<close>

definition read_rejoin_response :: "codecs \<Rightarrow> rejoin_response breader" where
  "read_rejoin_response D bs =
     res_bind (read_with (cd_read_addr D) bs 0) (\<lambda>(a, off).
     res_bind (read_with read_u8 bs off) (\<lambda>(idx, off).
       if idx = 0 then Inr (RejoinSuccess a, off)
       else if idx = 1 then Inr (RejoinPanAtCapacity, off)
       else if idx = 2 then Inr (RejoinAccessDenied, off)
       else Inl (BadInput ''invalid rejoin response status received'')))"

definition write_rejoin_response :: "codecs \<Rightarrow> rejoin_response \<Rightarrow> bwriter" where
  "write_rejoin_response D r bs =
     (case r of
        RejoinSuccess a \<Rightarrow> res_bind (write_with (cd_write_addr D a) (bs, 0)) (write_with (write_slice [0]))
      | RejoinPanAtCapacity \<Rightarrow>
          res_bind (write_with (cd_write_addr D NWK_ADDR_MAX) (bs, 0)) (write_with (write_slice [1]))
      | RejoinAccessDenied \<Rightarrow>
          res_bind (write_with (cd_write_addr D NWK_ADDR_MAX) (bs, 0)) (write_with (write_slice [2])))"

text \<open>
  What the code relies on from a derived codec, for one value \<open>x\<close>: on a buffer of zeros the
  writer replaces a prefix by the encoding of \<open>x\<close> and reports its length, or fails when the
  buffer is too short, and the reader gives \<open>x\<close> back from any bytes that start with the
  encoding. The buffer has to be zeroed because the writer of a bit structure combines its bits
  with those in the buffer.
\<close>

definition codec_law :: "('a \<Rightarrow> bwriter) \<Rightarrow> 'a breader \<Rightarrow> 'a \<Rightarrow> bytes \<Rightarrow> bool" where
  "codec_law wr rd x e \<longleftrightarrow>
     (\<forall>n. length e \<le> n \<longrightarrow> wr x (replicate n 0) = Inr (e @ replicate (n - length e) 0, length e)) \<and>
     (\<forall>n. n < length e \<longrightarrow> (\<exists>err. wr x (replicate n 0) = Inl err)) \<and>
     (\<forall>rest. rd (e @ rest) = Inr (x, length e))"

lemma codec_law_write:
  assumes "codec_law wr rd x e" and "length a = off" and "length e \<le> n"
  shows "write_with (wr x) (a @ replicate n 0, off) = Inr (a @ e @ replicate (n - length e) 0, off + length e)"
  using assms by (simp add: codec_law_def)

lemma codec_law_read:
  "codec_law wr rd x e \<Longrightarrow> read_with rd (a @ e @ rest) (length a) = Inr (x, length a + length e)"
  by (simp add: codec_law_def read_with_def)

section \<open>Properties\<close>

text \<open>The bytes of a frame, given the encodings of its header and its command.\<close>

definition frame_type_ok :: "nwk_frame \<Rightarrow> bool" where
  "frame_type_ok f \<longleftrightarrow> fc_frame_type (nh_control (frame_header f)) =
     (case f of Data _ \<Rightarrow> DataFrame | NwkCommand _ \<Rightarrow> NwkCommandFrame | Reserved _ \<Rightarrow> ReservedFrame
      | InterPan _ \<Rightarrow> InterPanFrame)"

definition frame_body :: "nwk_frame \<Rightarrow> bytes \<Rightarrow> bytes" where
  "frame_body f eb = (case f of Data d \<Rightarrow> df_payload d | NwkCommand _ \<Rightarrow> eb | _ \<Rightarrow> [])"

definition body_law :: "codecs \<Rightarrow> nwk_frame \<Rightarrow> bytes \<Rightarrow> bool" where
  "body_law D f eb \<longleftrightarrow> (\<forall>c. f = NwkCommand c \<longrightarrow>
     codec_law (cd_write_command D) (cd_read_command D) (cf_command c) eb)"

lemma write_slice_zeros:
  "length a = off \<Longrightarrow> length xs \<le> n \<Longrightarrow> write_with (write_slice xs) (a @ replicate n 0, off) =
     Inr (a @ xs @ replicate (n - length xs) 0, off + length xs)"
  by (simp add: write_slice_def)

lemma read_frame_body_eq:
  assumes "frame_type_ok f" and "body_law D f eb"
  shows "read_frame_body D (frame_header f) (frame_body f eb) = Inr (f, length (frame_body f eb))"
proof (cases f)
  case (NwkCommand c)
  with assms(2) have "codec_law (cd_write_command D) (cd_read_command D) (cf_command c) eb"
    by (simp add: body_law_def)
  from codec_law_read [OF this, of "[]" "[]"] NwkCommand assms(1) show ?thesis
    by (simp add: read_frame_body_def frame_body_def frame_type_ok_def)
qed (use assms(1) in \<open>simp_all add: read_frame_body_def frame_body_def frame_type_ok_def\<close>)

text \<open>Writing a frame into a zeroed buffer that has room for it puts the header and the body there,
  and reading those bytes gives the frame back, for a data frame with the whole payload.\<close>
theorem frame_roundtrip:
  assumes "codec_law (cd_write_header D) (cd_read_header D) (frame_header f) eh"
    and "body_law D f eb" and "frame_type_ok f"
    and "length eh + length (frame_body f eb) \<le> n"
  shows "\<exists>buf len. write_frame D f (replicate n 0) = Inr (buf, len) \<and>
    take len buf = eh @ frame_body f eb \<and> length buf = n \<and> len \<le> n \<and>
    read_frame D (take len buf) = Inr (f, len)"
proof -
  let ?b = "frame_body f eb"
  have header: "write_with (cd_write_header D (frame_header f)) (replicate n 0, 0) =
      Inr (eh @ replicate (n - length eh) 0, length eh)"
    using codec_law_write [OF assms(1), of "[]" 0 n] assms(4) by simp
  have room: "length ?b \<le> n - length eh" "length eh \<le> n" using assms(4) by auto
  have "write_frame D f (replicate n 0) =
      Inr (eh @ ?b @ replicate (n - length eh - length ?b) 0, length eh + length ?b)"
  proof (cases f)
    case (Data d)
    with header room show ?thesis
      by (simp add: write_frame_def frame_body_def write_slice_zeros del: write_with.simps)
  next
    case (NwkCommand c)
    with assms(2) have "codec_law (cd_write_command D) (cd_read_command D) (cf_command c) eb"
      by (simp add: body_law_def)
    from codec_law_write [OF this refl, of "n - length eh" eh] NwkCommand header room show ?thesis
      by (simp add: write_frame_def frame_body_def del: write_with.simps)
  qed (use header in \<open>simp_all add: write_frame_def frame_body_def del: write_with.simps\<close>)
  moreover have "read_frame D (eh @ ?b) = Inr (f, length eh + length ?b)"
    using codec_law_read [OF assms(1), of "[]" ?b] read_frame_body_eq [OF assms(3,2)]
    by (simp add: read_frame_def read_with_def)
  ultimately show ?thesis using room by simp
qed

text \<open>A rejoin response written into a zeroed buffer with room for it is read back unchanged; the
  two refusals carry the broadcast address.\<close>
theorem rejoin_response_roundtrip:
  assumes "codec_law (cd_write_addr D) (cd_read_addr D)
      (case r of RejoinSuccess a \<Rightarrow> a | _ \<Rightarrow> 0xffff) ea" and "length ea < n"
  shows "\<exists>buf. write_rejoin_response D r (replicate n 0) = Inr (buf, length ea + 1) \<and>
    read_rejoin_response D (take (length ea + 1) buf) = Inr (r, length ea + 1)"
proof -
  let ?s = "case r of RejoinSuccess _ \<Rightarrow> 0 | RejoinPanAtCapacity \<Rightarrow> 1 | RejoinAccessDenied \<Rightarrow> (2 :: u8)"
  have addr: "write_with (cd_write_addr D (case r of RejoinSuccess a \<Rightarrow> a | _ \<Rightarrow> 0xffff)) (replicate n 0, 0) =
      Inr (ea @ replicate (n - length ea) 0, length ea)"
    using codec_law_write [OF assms(1), of "[]" 0 n] assms(2) by simp
  have status: "write_with (write_slice [x]) (ea @ replicate (n - length ea) 0, length ea) =
      Inr (ea @ [x] @ replicate (n - length ea - 1) 0, length ea + 1)" for x
    using write_slice_zeros [of ea "length ea" "[x]" "n - length ea"] assms(2) by simp
  have "write_rejoin_response D r (replicate n 0) =
      Inr (ea @ [?s] @ replicate (n - length ea - 1) 0, length ea + 1)"
    using addr status
    by (cases r) (simp_all add: write_rejoin_response_def NWK_ADDR_MAX_def del: write_with.simps)
  moreover have "read_rejoin_response D (ea @ [?s]) = Inr (r, length ea + 1)"
    using codec_law_read [OF assms(1), of "[]" "[?s]"]
    by (cases r) (simp_all add: read_rejoin_response_def read_with_def read_u8_def)
  ultimately show ?thesis by auto
qed

text \<open>A codec for the witnesses: a fixed header and command, little-endian addresses.\<close>

definition header_std :: nwk_header where
  "header_std = nwk_header_new_no_ctx DataFrame True False 0x1234 None 0 None None 30 7"

definition aux_std :: aux_header where
  "aux_std = \<lparr> ah_security_control = \<lparr> sc_security_level = EncMic32,
       sc_key_identifier = NetworkKey, sc_extended_nonce = True \<rparr>,
     ah_frame_counter = 5, ah_source_address = Some 9, ah_key_sequence_number = Some 0 \<rparr>"

definition codecs_std :: codecs where
  "codecs_std = \<lparr> cd_write_header = (\<lambda>_. write_slice [0x48, 0x02]),
     cd_read_header = (\<lambda>_. Inr (header_std, 2)),
     cd_write_command = (\<lambda>_. write_slice [4, 0]),
     cd_read_command = (\<lambda>_. Inr (Leave \<lparr> lv_rejoin = False, lv_request = False,
        lv_remove_children = False \<rparr>, 2)),
     cd_write_aux = (\<lambda>a bs. case bs of [] \<Rightarrow> Inl Incomplete
        | b # r \<Rightarrow> Inr ((b OR (case sc_security_level (ah_security_control a) of
            EncMic32 \<Rightarrow> 0x2d | _ \<Rightarrow> 0x28)) # r, 1)),
     cd_read_aux = (\<lambda>_. Inr (aux_std\<lparr> ah_security_control :=
        (ah_security_control aux_std)\<lparr> sc_security_level := SecNone \<rparr> \<rparr>, 1)),
     cd_write_addr = (\<lambda>a. write_slice [byte_of 0 a, byte_of 1 a]),
     cd_read_addr = (\<lambda>bs. case bs of b # c # _ \<Rightarrow> Inr (ucast c * 256 + ucast b, 2)
        | _ \<Rightarrow> Inl Incomplete) \<rparr>"

lemma header_std_law: "codec_law (cd_write_header codecs_std) (cd_read_header codecs_std) header_std [0x48, 0x02]"
  by (auto simp: codec_law_def codecs_std_def write_slice_def)

theorem frame_roundtrip_witness:
  "\<exists>buf. write_frame codecs_std (Data \<lparr> df_header = header_std, df_payload = [1, 2, 3] \<rparr>)
     (replicate 10 0) = Inr (buf, 5) \<and> take 5 buf = [0x48, 0x02, 1, 2, 3]"
proof -
  let ?f = "Data \<lparr> df_header = header_std, df_payload = [1, 2, 3] \<rparr>"
  have "codec_law (cd_write_header codecs_std) (cd_read_header codecs_std) (frame_header ?f) [0x48, 0x02]"
    "body_law codecs_std ?f []" "frame_type_ok ?f"
    "length [0x48, 0x02 :: u8] + length (frame_body ?f []) \<le> 10"
    using header_std_law
    by (simp_all add: body_law_def frame_type_ok_def header_std_def nwk_header_new_no_ctx_def
        frame_body_def)
  from frame_roundtrip [OF this] obtain buf len where
    w: "write_frame codecs_std ?f (replicate 10 0) = Inr (buf, len)"
      "take len buf = [0x48, 0x02] @ frame_body ?f []" "length buf = 10" "len \<le> 10" by blast
  from w(2) have "length (take len buf) = 5" by (simp add: frame_body_def)
  with w(3,4) have "len = 5" by simp
  with w show ?thesis by (simp add: frame_body_def)
qed

theorem rejoin_response_roundtrip_witness:
  "\<exists>buf. write_rejoin_response codecs_std (RejoinSuccess 0x0102) (replicate 4 0) = Inr (buf, 3)"
proof -
  have "codec_law (cd_write_addr codecs_std) (cd_read_addr codecs_std)
      (case RejoinSuccess 0x0102 of RejoinSuccess a \<Rightarrow> a | _ \<Rightarrow> 0xffff) [2, 1]"
    by (auto simp: codec_law_def codecs_std_def write_slice_def byte_of_def numeral_2_eq_2 [symmetric])
  from rejoin_response_roundtrip [OF this, of 4] show ?thesis by auto
qed

end
