(* ===== verification/Nwk_Security.thy ===== *)
theory Nwk_Security
  imports Nwk_Frame
begin

text \<open>
  Secured network frames: \<open>make_encrypted_frame\<close> and \<open>decrypt_frame\<close> of \<open>nwk/security.rs\<close>. The
  set of security materials is passed in and returned; the flag that the code computes to decide
  about persisting the counters is the last component of the result.
\<close>

section \<open>Encryption\<close>

definition find_material :: "u8 \<Rightarrow> security_material list \<Rightarrow> security_material option" where
  "find_material ksn keys = find (\<lambda>k. sm_key_seq_number k = ksn) keys"

definition nwk_aux_header :: "security_level \<Rightarrow> ext_addr \<Rightarrow> security_material \<Rightarrow> aux_header" where
  "nwk_aux_header level ext sm = \<lparr>
     ah_security_control = \<lparr> sc_security_level = level, sc_key_identifier = NetworkKey,
       sc_extended_nonce = True \<rparr>,
     ah_frame_counter = sm_outgoing_frame_counter sm, ah_source_address = Some ext,
     ah_key_sequence_number = Some (sm_key_seq_number sm) \<rparr>"

definition bump_counter :: "security_material \<Rightarrow> security_material" where
  "bump_counter sm = sm\<lparr> sm_outgoing_frame_counter := sm_outgoing_frame_counter sm + 1 \<rparr>"

definition make_encrypted_frame ::
  "crypto \<Rightarrow> wire \<Rightarrow> codecs \<Rightarrow> nwk_frame \<Rightarrow> bytes \<Rightarrow> ext_addr \<Rightarrow> security_level \<Rightarrow> u8 \<Rightarrow>
   security_material list \<Rightarrow> ((sec_error + bytes \<times> nat) \<times> security_material list \<times> bool) run" where
  "make_encrypted_frame C W D f buf ext level active keys =
     (case find_material active keys of
        None \<Rightarrow> Done (Inl KeyNotFound, keys, False)
      | Some sm \<Rightarrow>
          if sm_outgoing_frame_counter sm = - 1 then Done (Inl InvalidData, keys, False)
          else
            (let aux = nwk_aux_header level ext sm;
                 go = (\<lambda>hdr body. run_map
                   (\<lambda>r. case r of
                       Inl e \<Rightarrow> (Inl e, keys, False)
                     | Inr x \<Rightarrow> (Inr x,
                         update_first (\<lambda>k. sm_key_seq_number k = active) bump_counter keys,
                         sm_outgoing_frame_counter sm mod 1024 = 0))
                   (write_and_encrypt_in_place C W level buf (cd_write_aux D aux) aux (sm_key sm)
                      (cd_write_header D hdr) body))
             in case f of
                  Data d \<Rightarrow> go (df_header d) (write_slice (df_payload d))
                | NwkCommand c \<Rightarrow> go (cf_header c) (cd_write_command D (cf_command c))
                | _ \<Rightarrow> Done (Inl InvalidData, keys, False)))"

section \<open>Decryption\<close>

definition find_incoming :: "ext_addr \<Rightarrow> security_material \<Rightarrow> incoming_frame_counter option" where
  "find_incoming src sm =
     find (\<lambda>i. src = ifc_sender_address i) (sm_incoming_frame_counter_set sm)"

definition decrypt_frame ::
  "crypto \<Rightarrow> wire \<Rightarrow> codecs \<Rightarrow> security_level \<Rightarrow> security_material list \<Rightarrow> bytes \<Rightarrow>
   (sec_error + nwk_frame \<times> bool) run" where
  "decrypt_frame C W D level keys buf =
     (case parse_error (cd_read_header D buf) of Inl e \<Rightarrow> Done (Inl e) | Inr (hdr, hdr_len) \<Rightarrow>
      if \<not> fc_security (nh_control hdr) then
        (if length buf < hdr_len then Panic
         else (case parse_error (read_frame_body D hdr (drop hdr_len buf)) of
                 Inl e \<Rightarrow> Done (Inl e) | Inr (f, _) \<Rightarrow> Done (Inr (f, False))))
      else if length buf < mic_length level then Done (Inl (ParseError Incomplete))
      else if length buf < hdr_len then Panic
      else (case parse_error (cd_read_aux D (drop hdr_len buf)) of Inl e \<Rightarrow> Done (Inl e)
       | Inr (aux, aux_len) \<Rightarrow>
         if ah_frame_counter aux = - 1 then Done (Inl InvalidData)
         else (case Option.bind (ah_key_sequence_number aux) (\<lambda>ksn. find_material ksn keys) of
             None \<Rightarrow> Done (Inl Unspecified)
           | Some sm \<Rightarrow>
         (case ah_source_address aux of
             None \<Rightarrow> Done (Inl InvalidData)
           | Some src \<Rightarrow>
         if (case find_incoming src sm of Some i \<Rightarrow> ah_frame_counter aux < ifc_counter i | None \<Rightarrow> False)
         then Done (Inl InvalidData)
         else
           (let aux' = aux\<lparr> ah_security_control :=
                  (ah_security_control aux)\<lparr> sc_security_level := level \<rparr> \<rparr> in
            case parse_error (write_with (cd_write_aux D aux') (buf, hdr_len)) of
              Inl e \<Rightarrow> Done (Inl e)
            | Inr (buf', _) \<Rightarrow>
              if length buf' < hdr_len + aux_len then Panic
              else
                (let aad = take (hdr_len + aux_len) buf'; frame = drop (hdr_len + aux_len) buf' in
                 if length frame < mic_length level then Panic
                 else
                   (let data = take (length frame - mic_length level) frame;
                        tag = drop (length frame - mic_length level) frame
                    in run_bind (create_nonce W aux') (\<lambda>rn. case rn of Inl _ \<Rightarrow> Panic | Inr nonce \<Rightarrow>
                       (case decrypt_in_place C (sm_key sm) aad data tag nonce of
                          Inl e \<Rightarrow> Done (Inl e)
                        | Inr p \<Rightarrow>
                          (case parse_error (read_frame_body D hdr p) of
                             Inl e \<Rightarrow> Done (Inl e)
                           | Inr (f, _) \<Rightarrow> Done (Inr (f, True))))))))))))"

section \<open>What a written frame consists of\<close>

text \<open>A writer that puts the bytes \<open>e\<close> on zeros, or fails when they do not fit.\<close>

definition zero_writer :: "bwriter \<Rightarrow> bytes \<Rightarrow> bool" where
  "zero_writer w e \<longleftrightarrow> (\<forall>n. if length e \<le> n
     then w (replicate n 0) = Inr (e @ replicate (n - length e) 0, length e)
     else \<exists>err. w (replicate n 0) = Inl err)"

lemma zero_writer_codec: "codec_law wr rd x e \<Longrightarrow> zero_writer (wr x) e"
  by (auto simp: codec_law_def zero_writer_def not_le)

lemma zero_writer_slice: "zero_writer (write_slice xs) xs"
  by (auto simp: zero_writer_def write_slice_def)

lemma write_with_zero:
  assumes "zero_writer w e" and "parse_error (write_with w (a @ replicate n 0, length a)) = Inr r"
  obtains n' where "n = length e + n'" and "r = ((a @ e) @ replicate n' 0, length (a @ e))"
proof (cases "length e \<le> n")
  case True
  with assms(1) have "w (replicate n 0) = Inr (e @ replicate (n - length e) 0, length e)"
    by (auto simp: zero_writer_def)
  with assms(2) True show thesis by (intro that [of "n - length e"]) (auto simp: parse_error_def)
next
  case False
  with assms(1) obtain err where "w (replicate n 0) = Inl err" unfolding zero_writer_def by metis
  with assms(2) show thesis by (simp add: parse_error_def)
qed

lemma write_zeros_zero:
  assumes "parse_error (write_zeros m (a @ replicate n 0, length a)) = Inr r"
  obtains n' where "n = m + n'" and "r = (a @ replicate m 0 @ replicate n' 0, length a + m)"
proof (cases "m \<le> n")
  case True
  with assms write_zeros_eq [of a "length a" m "replicate n 0"] show thesis
    by (intro that [of "n - m"]) (simp_all add: parse_error_def)
next
  case False
  have "\<exists>e. write_zeros m (a @ replicate n 0, length a) = Inl e" if "n < m" for m n and a :: bytes
    using that
  proof (induction m arbitrary: n a)
    case (Suc m)
    show ?case
    proof (cases n)
      case (Suc n')
      with Suc.IH [of n' "a @ [0]"] Suc.prems show ?thesis by (simp add: write_slice_def)
    qed (simp add: write_slice_def)
  qed simp
  with False obtain e where "write_zeros m (a @ replicate n 0, length a) = Inl e" by force
  with assms show thesis by (simp add: parse_error_def)
qed

lemma write_and_encrypt_shape:
  assumes "zero_writer wh eh" and "zero_writer wa ea" and "zero_writer wb eb" and "ea \<noteq> []"
    and "crypto_ok C"
    and "write_and_encrypt_in_place C W level (replicate n 0) wa aux k wh wb = Done (Inr (buf, len))"
  obtains nonce ct where "create_nonce W aux = Done (Inr nonce)"
    and "encrypt_in_place C k level (eh @ ea) (eb @ replicate (mic_length level) 0) nonce = Done (Inr ct)"
    and "take len buf = eh @ (hd ea AND 0xf8) # tl ea @ ct"
    and "len = length eh + length ea + length eb + mic_length level" and "len \<le> n" "length buf = n"
proof -
  note [simp del] = write_with.simps
  note [simp] = write_and_encrypt_in_place_def Let_def
  let ?m = "mic_length level"
  obtain rn where rn: "create_nonce W aux = Done rn"
    using assms(6) by (cases "create_nonce W aux") simp_all
  with assms(6) obtain nonce where "rn = Inr nonce" by (cases rn) simp_all
  with rn have nonce: "create_nonce W aux = Done (Inr nonce)" by simp
  obtain r1 where w1: "parse_error (write_with wh (replicate n 0, 0)) = Inr r1"
    using assms(6) nonce by (cases "parse_error (write_with wh (replicate n 0, 0))") simp_all
  from write_with_zero [OF assms(1), of "[]", simplified, OF w1]
  obtain n1 where n1: "n = length eh + n1" and r1: "r1 = (eh @ replicate n1 0, length eh)" .
  obtain r2 where w2: "parse_error (write_with wa (eh @ replicate n1 0, length eh)) = Inr r2"
    using assms(6) nonce w1 r1
    by (cases "parse_error (write_with wa (eh @ replicate n1 0, length eh))") simp_all
  from write_with_zero [OF assms(2) w2] obtain n2 where n2: "n1 = length ea + n2"
    and r2: "r2 = ((eh @ ea) @ replicate n2 0, length (eh @ ea))" .
  let ?b2 = "(eh @ ea) @ replicate n2 0"
  obtain r3 where w3: "parse_error (write_with wb (?b2, length (eh @ ea))) = Inr r3"
    using assms(6) nonce w1 r1 w2 r2
    by (cases "parse_error (write_with wb (?b2, length (eh @ ea)))") simp_all
  from write_with_zero [OF assms(3) w3] obtain n3 where n3: "n2 = length eb + n3"
    and r3: "r3 = (((eh @ ea) @ eb) @ replicate n3 0, length ((eh @ ea) @ eb))" .
  let ?b3 = "((eh @ ea) @ eb) @ replicate n3 0"
  obtain r4 where w4: "parse_error (write_zeros ?m (?b3, length ((eh @ ea) @ eb))) = Inr r4"
    using assms(6) nonce w1 r1 w2 r2 w3 r3
    by (cases "parse_error (write_zeros ?m (?b3, length ((eh @ ea) @ eb)))") simp_all
  from write_zeros_zero [OF w4] obtain n4 where n4: "n3 = ?m + n4"
    and r4: "r4 = (((eh @ ea) @ eb) @ replicate ?m 0 @ replicate n4 0, length ((eh @ ea) @ eb) + ?m)" .
  let ?p = "eb @ replicate ?m 0" let ?e = "encrypt_in_place C k level (eh @ ea) ?p nonce"
  note written = assms(6) nonce w1 r1 w2 r2 w3 r3 w4 r4
  obtain re where re: "?e = Done re" using written by (cases ?e) simp_all
  with written obtain ct where "re = Inr ct" by (cases re) simp_all
  with re have enc: "?e = Done (Inr ct)" by simp
  have buf: "buf = ((eh @ ea) @ ct @ replicate n4 0)[length eh := hd ea AND 0xf8]"
    and len: "len = length eh + length ea + length eb + ?m"
    using written enc assms(4) by (auto simp: nth_append hd_conv_nth split: if_splits)
  from encrypt_decrypt [OF assms(5) enc] have ct: "length ct = length eb + ?m" by simp
  from assms(4) obtain b t where ea: "ea = b # t" by (cases ea) auto
  have "buf = eh @ (hd ea AND 0xf8) # tl ea @ ct @ replicate n4 0"
    unfolding buf ea by (simp add: list_update_append)
  then have "take len buf = eh @ (hd ea AND 0xf8) # tl ea @ ct"
    "length buf = length eh + length ea + length eb + ?m + n4"
    using ct len ea by simp_all
  with n1 n2 n3 n4 show thesis
    by (intro that [OF nonce enc _ len]) (simp_all add: len)
qed

text \<open>
  What the code relies on from the derived codec of the auxiliary header, for one header: it
  writes the encoding on zeros; the low three bits of its first byte are the security level, so
  the bytes with those bits cleared are read as the header without a level; and writing the
  header over them restores the encoding, since the writer of the control byte combines its bits
  with those in the buffer.
\<close>

definition clear_level :: "aux_header \<Rightarrow> aux_header" where
  "clear_level a = a\<lparr> ah_security_control :=
     (ah_security_control a)\<lparr> sc_security_level := SecNone \<rparr> \<rparr>"

definition aux_law :: "codecs \<Rightarrow> aux_header \<Rightarrow> bytes \<Rightarrow> bool" where
  "aux_law D aux ea \<longleftrightarrow> ea \<noteq> [] \<and> zero_writer (cd_write_aux D aux) ea \<and>
     (\<forall>rest. cd_write_aux D aux ((hd ea AND 0xf8) # tl ea @ rest) = Inr (ea @ rest, length ea)) \<and>
     (\<forall>rest. cd_read_aux D ((hd ea AND 0xf8) # tl ea @ rest) = Inr (clear_level aux, length ea))"

lemma find_material_ksn: "find_material ksn keys = Some sm \<Longrightarrow> sm_key_seq_number sm = ksn"
  by (auto simp: find_material_def dest: find_Some_prop)

lemma run_map_sum_Inr:
  "run_map (case_sum (\<lambda>e. (Inl e, k, b)) (\<lambda>x. (Inr x, k', b'))) m = Done (Inr r, keys, p) \<longleftrightarrow>
     m = Done (Inr r) \<and> keys = k' \<and> p = b'"
proof (cases m)
  case (Done x)
  then show ?thesis by (cases x) auto
qed simp

text \<open>The two secured kinds of frame reach the cipher with the encoding of their body.\<close>

lemma make_encrypted_frame_Inr:
  assumes "make_encrypted_frame C W D f buf ext level active keys = Done (Inr r, keys', persist)"
    and "body_law D f eb"
  obtains sm wb where "find_material active keys = Some sm" and "sm_outgoing_frame_counter sm \<noteq> - 1"
    and "zero_writer wb (frame_body f eb)"
    and "write_and_encrypt_in_place C W level buf (cd_write_aux D (nwk_aux_header level ext sm))
      (nwk_aux_header level ext sm) (sm_key sm) (cd_write_header D (frame_header f)) wb = Done (Inr r)"
    and "keys' = update_first (\<lambda>k. sm_key_seq_number k = active) bump_counter keys"
proof -
  from assms(1) obtain sm where sm: "find_material active keys = Some sm"
      "sm_outgoing_frame_counter sm \<noteq> - 1"
    by (auto simp: make_encrypted_frame_def split: option.splits if_splits)
  show thesis
  proof (cases f)
    case (Data d)
    with assms(1) sm show thesis
      by (intro that [OF sm, of "write_slice (df_payload d)"])
        (simp_all add: make_encrypted_frame_def frame_body_def zero_writer_slice Let_def run_map_sum_Inr)
  next
    case (NwkCommand c)
    with assms(2) have "zero_writer (cd_write_command D (cf_command c)) eb"
      by (auto simp: body_law_def intro: zero_writer_codec)
    with NwkCommand assms(1) sm show thesis
      by (intro that [OF sm, of "cd_write_command D (cf_command c)"])
        (simp_all add: make_encrypted_frame_def frame_body_def Let_def run_map_sum_Inr)
  qed (use assms(1) sm in \<open>simp_all add: make_encrypted_frame_def\<close>)
qed

lemma decrypt_written:
  assumes hdr: "codec_law (cd_write_header D) (cd_read_header D) h eh" "fc_security (nh_control h)"
    and aux: "aux_law D aux ea" "sc_security_level (ah_security_control aux) = level"
      "ah_frame_counter aux \<noteq> - 1" "ah_key_sequence_number aux = Some ksn"
      "ah_source_address aux = Some ext"
    and rm: "find_material ksn keys = Some rm"
      "\<And>i. find_incoming ext rm = Some i \<Longrightarrow> ifc_counter i \<le> ah_frame_counter aux"
    and nonce: "create_nonce W aux = Done (Inr nonce)"
    and ct: "length ct = length p + mic_length level"
      "decrypt_in_place C (sm_key rm) (eh @ ea) (take (length p) ct) (drop (length p) ct) nonce = Inr p"
    and body: "read_frame_body D h p = Inr (f, k)"
  shows "decrypt_frame C W D level keys (eh @ (hd ea AND 0xf8) # tl ea @ ct) = Done (Inr (f, True))"
proof -
  let ?a = "(hd ea AND 0xf8) # tl ea"
  have "cd_read_header D (eh @ ?a @ ct) = Inr (h, length eh)"
    using hdr(1) by (simp only: codec_law_def)
  moreover from aux(1) have "cd_read_aux D (?a @ ct) = Inr (clear_level aux, length ea)"
    by (simp add: aux_law_def)
  moreover have "(clear_level aux)\<lparr> ah_security_control :=
      (ah_security_control (clear_level aux))\<lparr> sc_security_level := level \<rparr> \<rparr> = aux"
    using aux(2) by (simp add: clear_level_def)
  moreover have "write_with (cd_write_aux D aux) (eh @ ?a @ ct, length eh) =
      Inr (eh @ ea @ ct, length eh + length ea)"
    using aux(1) by (simp add: aux_law_def)
  ultimately show ?thesis
    using hdr(2) aux(3-) rm nonce ct body
    by (auto simp: decrypt_frame_def parse_error_def Let_def clear_level_def not_less
        split: option.splits)
qed

text \<open>A frame that was encrypted into a zeroed buffer is decrypted to itself by a receiver with
  the same key and security level whose incoming counter for the sender is not ahead; an equal
  counter passes, so the frame is accepted again when it is replayed.\<close>
lemma encrypt_decrypt_frame:
  assumes C: "crypto_ok C"
    and hdr: "codec_law (cd_write_header D) (cd_read_header D) (frame_header f) eh"
      "fc_security (nh_control (frame_header f))"
    and body: "body_law D f eb" "frame_type_ok f"
    and sm: "find_material active keys = Some sm" and aux: "aux_law D (nwk_aux_header level ext sm) ea"
    and enc: "make_encrypted_frame C W D f (replicate n 0) ext level active keys =
      Done (Inr (buf, len), keys', persist)"
    and rm: "find_material active rkeys = Some rm" "sm_key rm = sm_key sm"
      "\<And>i. find_incoming ext rm = Some i \<Longrightarrow> ifc_counter i \<le> sm_outgoing_frame_counter sm"
  shows "decrypt_frame C W D level rkeys (take len buf) = Done (Inr (f, True))"
proof -
  let ?aux = "nwk_aux_header level ext sm"
  from make_encrypted_frame_Inr [OF enc body(1)] sm obtain wb where
    counter: "sm_outgoing_frame_counter sm \<noteq> - 1" and wb: "zero_writer wb (frame_body f eb)" and
    we: "write_and_encrypt_in_place C W level (replicate n 0) (cd_write_aux D ?aux) ?aux (sm_key sm)
      (cd_write_header D (frame_header f)) wb = Done (Inr (buf, len))"
    by (metis option.inject)
  from aux have ea: "zero_writer (cd_write_aux D ?aux) ea" "ea \<noteq> []" by (simp_all add: aux_law_def)
  from write_and_encrypt_shape [OF zero_writer_codec [OF hdr(1)] ea(1) wb ea(2) C we]
  obtain nonce ct where nonce: "create_nonce W ?aux = Done (Inr nonce)" and
    ct: "encrypt_in_place C (sm_key sm) level (eh @ ea)
      (frame_body f eb @ replicate (mic_length level) 0) nonce = Done (Inr ct)" and
    buf: "take len buf = eh @ (hd ea AND 0xf8) # tl ea @ ct" .
  have ksn: "ah_key_sequence_number ?aux = Some active"
    using find_material_ksn [OF sm] by (simp add: nwk_aux_header_def)
  from encrypt_decrypt [OF C ct] rm(2) show ?thesis unfolding buf
    by (intro decrypt_written [OF hdr aux _ _ ksn _ rm(1) _ nonce _ _ read_frame_body_eq [OF body(2,1)]])
      (use counter rm(3) in \<open>auto simp: nwk_aux_header_def\<close>)
qed

text \<open>The outgoing counter: an encryption that fails leaves the keys alone, one that succeeds uses
  the counter of the active key and moves it up by one.\<close>

lemma make_encrypted_frame_changes:
  assumes "make_encrypted_frame C W D f buf ext level active keys = Done (r, keys', persist)"
  shows "case r of Inl _ \<Rightarrow> keys' = keys
    | Inr _ \<Rightarrow> \<exists>sm. find_material active keys = Some sm \<and> sm_outgoing_frame_counter sm \<noteq> - 1 \<and>
        keys' = update_first (\<lambda>k. sm_key_seq_number k = active) bump_counter keys"
proof -
  have run: "case r of Inl _ \<Rightarrow> keys' = keys | Inr _ \<Rightarrow> keys' = k'"
    if "run_map (case_sum (\<lambda>e. (Inl e, keys, b)) (\<lambda>x. (Inr x, k', b'))) m = Done (r, keys', p)"
    for b b' k' p and m :: "('x + 'y) run" and r
  proof (cases m)
    case (Done x)
    then show ?thesis using that by (cases x) auto
  qed (use that in simp)
  show ?thesis
  proof (cases "find_material active keys")
    case (Some sm)
    show ?thesis
    proof (cases "sm_outgoing_frame_counter sm = - 1")
      case False
      show ?thesis
        using assms Some False
        by (cases f) (auto simp: make_encrypted_frame_def Let_def dest!: run split: sum.splits)
    qed (use assms Some in \<open>auto simp: make_encrypted_frame_def\<close>)
  qed (use assms in \<open>auto simp: make_encrypted_frame_def\<close>)
qed

lemma make_encrypted_frame_keys:
  assumes "make_encrypted_frame C W D f buf ext level active keys = Done (r, keys', persist)"
  shows "case r of Inl _ \<Rightarrow> keys' = keys
    | Inr _ \<Rightarrow> \<exists>sm. find_material active keys = Some sm \<and> sm_outgoing_frame_counter sm \<noteq> - 1 \<and>
        find_material active keys' = Some (bump_counter sm)"
proof -
  have "find_material active (update_first (\<lambda>k. sm_key_seq_number k = active) bump_counter keys) =
      Some (bump_counter sm)" if "find_material active keys = Some sm" for sm
    using that find_material_ksn [OF that] unfolding find_material_def
    by (intro find_update_first) (simp_all add: bump_counter_def)
  with make_encrypted_frame_changes [OF assms] show ?thesis by (auto split: sum.splits)
qed

text \<open>The auxiliary header that a receiver reads in a frame, and the nonce it decrypts the frame with.\<close>

definition frame_aux :: "codecs \<Rightarrow> bytes \<Rightarrow> aux_header option" where
  "frame_aux D p = (case cd_read_header D p of Inl _ \<Rightarrow> None
     | Inr (_, n) \<Rightarrow> (case cd_read_aux D (drop n p) of Inl _ \<Rightarrow> None | Inr (aux, _) \<Rightarrow> Some aux))"

definition frame_nonce :: "wire \<Rightarrow> codecs \<Rightarrow> security_level \<Rightarrow> bytes \<Rightarrow> (sec_error + bytes) run option" where
  "frame_nonce W D level p = map_option (\<lambda>aux. create_nonce W (aux\<lparr> ah_security_control :=
     (ah_security_control aux)\<lparr> sc_security_level := level \<rparr> \<rparr>)) (frame_aux D p)"

text \<open>The frames that a sequence of encryptions into zeroed buffers puts on the air.\<close>

fun sent_frames ::
  "crypto \<Rightarrow> wire \<Rightarrow> codecs \<Rightarrow> ext_addr \<Rightarrow> security_level \<Rightarrow> u8 \<Rightarrow> (nwk_frame \<times> nat) list \<Rightarrow>
   security_material list \<Rightarrow> bytes list run" where
  "sent_frames C W D ext level active [] keys = Done []"
| "sent_frames C W D ext level active ((f, n) # fs) keys =
     run_bind (make_encrypted_frame C W D f (replicate n 0) ext level active keys) (\<lambda>(r, keys', _).
     run_map (\<lambda>ps. case r of Inl _ \<Rightarrow> ps | Inr (buf, len) \<Rightarrow> take len buf # ps)
       (sent_frames C W D ext level active fs keys'))"

abbreviation at_counter :: "security_material \<Rightarrow> u32 \<Rightarrow> security_material" where
  "at_counter sm c \<equiv> sm\<lparr> sm_outgoing_frame_counter := c \<rparr>"

lemma encrypted_aux:
  assumes "codec_law (cd_write_header D) (cd_read_header D) (frame_header f) eh" and "body_law D f eb" and "crypto_ok C"
    and "find_material active keys = Some sm" and "aux_law D (nwk_aux_header level ext sm) ea"
    and "make_encrypted_frame C W D f (replicate n 0) ext level active keys = Done (Inr (buf, len), keys', persist)"
  shows "frame_aux D (take len buf) = Some (clear_level (nwk_aux_header level ext sm))"
proof -
  let ?aux = "nwk_aux_header level ext sm" and ?a = "(hd ea AND 0xf8) # tl ea"
  from make_encrypted_frame_Inr [OF assms(6,2)] assms(4) obtain wb where wb: "zero_writer wb (frame_body f eb)" and
    we: "write_and_encrypt_in_place C W level (replicate n 0) (cd_write_aux D ?aux) ?aux (sm_key sm)
      (cd_write_header D (frame_header f)) wb = Done (Inr (buf, len))"
    by (metis option.inject)
  from assms(5) have ea: "zero_writer (cd_write_aux D ?aux) ea" "ea \<noteq> []" by (simp_all add: aux_law_def)
  from write_and_encrypt_shape [OF zero_writer_codec [OF assms(1)] ea(1) wb ea(2) assms(3) we]
  obtain ct where buf: "take len buf = eh @ ?a @ ct" by (metis append_Cons)
  have "cd_read_header D (eh @ ?a @ ct) = Inr (frame_header f, length eh)"
    using assms(1) by (simp only: codec_law_def)
  moreover from assms(5) have "cd_read_aux D (?a @ ct) = Inr (clear_level ?aux, length ea)" by (simp add: aux_law_def)
  ultimately show ?thesis by (simp add: frame_aux_def buf)
qed

text \<open>What is needed of the derived codecs for a frame: its header and its body.\<close>

definition frame_law :: "codecs \<Rightarrow> nwk_frame \<Rightarrow> bool" where
  "frame_law D f \<longleftrightarrow> (\<exists>eh. codec_law (cd_write_header D) (cd_read_header D) (frame_header f) eh) \<and> (\<exists>eb. body_law D f eb)"

lemma sent_frames_sorted:
  assumes "crypto_ok C" and "sent_frames C W D ext level active fs keys = Done ps"
    and "\<forall>x\<in>set fs. frame_law D (fst x)"
    and "\<And>c. \<exists>ea. aux_law D (nwk_aux_header level ext (at_counter sm c)) ea"
    and "find_material active keys = Some (at_counter sm c)"
  shows "\<exists>cs. map (frame_aux D) ps = map (\<lambda>c. Some (clear_level (nwk_aux_header level ext (at_counter sm c)))) cs \<and>
    sorted_wrt (<) cs \<and> (\<forall>d\<in>set cs. c \<le> d)"
  using assms(2,3,5)
proof (induction fs arbitrary: keys ps c)
  case (Cons x fs)
  obtain f n where x: "x = (f, n)" by (cases x)
  from Cons.prems(1) x obtain r keys' persist qs where
    enc: "make_encrypted_frame C W D f (replicate n 0) ext level active keys = Done (r, keys', persist)" and
    rest: "sent_frames C W D ext level active fs keys' = Done qs" and
    ps: "ps = (case r of Inl _ \<Rightarrow> qs | Inr (buf, len) \<Rightarrow> take len buf # qs)"
    by (auto simp: run_simps)
  note IH = Cons.IH [OF rest] and keys = make_encrypted_frame_keys [OF enc]
  show ?case
  proof (cases r)
    case (Inl e)
    with IH [of c] keys ps Cons.prems(2,3) show ?thesis by simp
  next
    case (Inr y)
    obtain buf len where y: "y = (buf, len)" by (cases y)
    from Inr keys Cons.prems(3) have max: "c \<noteq> - 1" and next_key: "find_material active keys' = Some (at_counter sm (c + 1))"
      by (auto simp: bump_counter_def)
    from IH [OF _ next_key] Cons.prems(2) obtain cs where
      cs: "map (frame_aux D) qs = map (\<lambda>c. Some (clear_level (nwk_aux_header level ext (at_counter sm c)))) cs"
        "sorted_wrt (<) cs" "\<forall>d\<in>set cs. c + 1 \<le> d" by auto
    from Cons.prems(2) x obtain eh eb where
      "codec_law (cd_write_header D) (cd_read_header D) (frame_header f) eh" "body_law D f eb" by (auto simp: frame_law_def)
    moreover obtain ea where "aux_law D (nwk_aux_header level ext (at_counter sm c)) ea" using assms(4) by blast
    ultimately have "frame_aux D (take len buf) = Some (clear_level (nwk_aux_header level ext (at_counter sm c)))"
      using encrypted_aux assms(1) Cons.prems(3) enc [unfolded Inr y] by blast
    moreover have "c < d" if "d \<in> set cs" for d using cs(3) that word_less_Suc [OF max] by force
    ultimately show ?thesis using cs
      by (intro exI [of _ "c # cs"]) (auto simp: ps Inr y less_imp_le)
  qed
qed simp

section \<open>Properties\<close>

text \<open>C3. The frames that a device encrypts one after the other under the active key, into zeroed buffers, carry strictly
  increasing frame counters in their auxiliary headers, from the counter of the key on, with the key's number and the
  address of the device; so a receiver decrypts no two of them with the same nonce. A counter at its maximum makes the
  encryption fail without changing a key, and so does an unknown active key.\<close>
theorem outgoing_counters_increase:
  assumes "wire_ok W" and "crypto_ok C" and "sent_frames C W D ext level active fs keys = Done ps"
    and "\<forall>x\<in>set fs. frame_law D (fst x)"
    and "\<And>c. \<exists>ea. aux_law D (nwk_aux_header level ext (at_counter sm c)) ea"
    and "find_material active keys = Some sm"
  shows "(\<exists>auxs. map (frame_aux D) ps = map Some auxs \<and> sorted_wrt (<) (map ah_frame_counter auxs) \<and>
      (\<forall>a\<in>set auxs. sm_outgoing_frame_counter sm \<le> ah_frame_counter a \<and> ah_source_address a = Some ext \<and>
        ah_key_sequence_number a = Some active)) \<and>
    distinct (map (frame_nonce W D level) ps) \<and>
    (find_material k keys = None \<longrightarrow>
       make_encrypted_frame C W D f buf ext level k keys = Done (Inl KeyNotFound, keys, False)) \<and>
    (sm_outgoing_frame_counter sm = - 1 \<longrightarrow>
       make_encrypted_frame C W D f buf ext level active keys = Done (Inl InvalidData, keys, False))"
proof -
  have "find_material active keys = Some (at_counter sm (sm_outgoing_frame_counter sm))" using assms(6) by simp
  from sent_frames_sorted [OF assms(2-5) this] obtain cs where
    cs: "map (frame_aux D) ps = map (\<lambda>c. Some (clear_level (nwk_aux_header level ext (at_counter sm c)))) cs"
      "sorted_wrt (<) cs" "\<forall>d\<in>set cs. sm_outgoing_frame_counter sm \<le> d" by blast
  let ?aux = "\<lambda>c. clear_level (nwk_aux_header level ext (at_counter sm c))"
  have fields: "ah_frame_counter (?aux c) = c" "ah_source_address (?aux c) = Some ext"
    "ah_key_sequence_number (?aux c) = Some active" for c
    using find_material_ksn [OF assms(6)] by (simp_all add: clear_level_def nwk_aux_header_def)
  have auxs: "map (frame_aux D) ps = map Some (map ?aux cs) \<and> sorted_wrt (<) (map ah_frame_counter (map ?aux cs)) \<and>
      (\<forall>a\<in>set (map ?aux cs). sm_outgoing_frame_counter sm \<le> ah_frame_counter a \<and> ah_source_address a = Some ext \<and>
        ah_key_sequence_number a = Some active)"
    using cs by (simp add: fields comp_def)
  let ?n = "\<lambda>c. create_nonce W (nwk_aux_header level ext (at_counter sm c))"
  have "inj ?n"
  proof
    fix c d assume eq: "?n c = ?n d"
    obtain m where "?n c = Done (Inr m)"
      using create_nonce_ex [OF assms(1)] by (force simp: nwk_aux_header_def)
    with eq create_nonce_inj [OF assms(1)] have
      "ah_frame_counter (nwk_aux_header level ext (at_counter sm c)) = ah_frame_counter (nwk_aux_header level ext (at_counter sm d))"
      by metis
    then show "c = d" by (simp add: nwk_aux_header_def)
  qed
  then have "distinct (map (Some \<circ> ?n) cs)"
    using cs(2) by (auto simp: distinct_map strict_sorted_iff inj_on_def)
  moreover have "map (frame_nonce W D level) ps = map (Some \<circ> ?n) cs"
  proof -
    have "frame_nonce W D level = (map_option (\<lambda>aux. create_nonce W (aux\<lparr> ah_security_control :=
        (ah_security_control aux)\<lparr> sc_security_level := level \<rparr> \<rparr>))) \<circ> frame_aux D"
      by (simp add: fun_eq_iff frame_nonce_def)
    then have "map (frame_nonce W D level) ps = map (map_option (\<lambda>aux. create_nonce W (aux\<lparr> ah_security_control :=
        (ah_security_control aux)\<lparr> sc_security_level := level \<rparr> \<rparr>))) (map (frame_aux D) ps)" by simp
    then show ?thesis by (simp add: cs(1) comp_def clear_level_def nwk_aux_header_def)
  qed
  ultimately have "distinct (map (frame_nonce W D level) ps)" by simp
  moreover from auxs have "\<exists>auxs. map (frame_aux D) ps = map Some auxs \<and> sorted_wrt (<) (map ah_frame_counter auxs) \<and>
      (\<forall>a\<in>set auxs. sm_outgoing_frame_counter sm \<le> ah_frame_counter a \<and> ah_source_address a = Some ext \<and>
        ah_key_sequence_number a = Some active)" by blast
  ultimately show ?thesis using assms(6) by (simp add: make_encrypted_frame_def)
qed

text \<open>What a secured frame is refused for: a counter at its maximum, an unknown key, no source
  address, or a counter below the stored one of its sender.\<close>
theorem decrypt_frame_refuses:
  assumes "cd_read_header D buf = Inr (hdr, hl)" and "fc_security (nh_control hdr)"
    and "mic_length level \<le> length buf" and "hl \<le> length buf"
    and "cd_read_aux D (drop hl buf) = Inr (aux, al)"
  shows "(ah_frame_counter aux = - 1 \<longrightarrow> decrypt_frame C W D level keys buf = Done (Inl InvalidData)) \<and>
    (ah_frame_counter aux \<noteq> - 1 \<and>
       (\<forall>ksn. ah_key_sequence_number aux = Some ksn \<longrightarrow> find_material ksn keys = None) \<longrightarrow>
       decrypt_frame C W D level keys buf = Done (Inl Unspecified)) \<and>
    (\<forall>ksn sm. ah_frame_counter aux \<noteq> - 1 \<and> ah_key_sequence_number aux = Some ksn \<and>
       find_material ksn keys = Some sm \<and>
       (ah_source_address aux = None \<or> (\<exists>src i. ah_source_address aux = Some src \<and>
          find_incoming src sm = Some i \<and> ah_frame_counter aux < ifc_counter i)) \<longrightarrow>
       decrypt_frame C W D level keys buf = Done (Inl InvalidData))"
proof (intro conjI impI allI; (elim conjE)?)
  show "decrypt_frame C W D level keys buf = Done (Inl InvalidData)" if "ah_frame_counter aux = - 1"
    using assms that by (simp add: decrypt_frame_def parse_error_def)
  show "decrypt_frame C W D level keys buf = Done (Inl Unspecified)" if "ah_frame_counter aux \<noteq> - 1"
    "\<forall>ksn. ah_key_sequence_number aux = Some ksn \<longrightarrow> find_material ksn keys = None"
  proof -
    have "Option.bind (ah_key_sequence_number aux) (\<lambda>ksn. find_material ksn keys) = None"
      using that(2) by (cases "ah_key_sequence_number aux") simp_all
    then show ?thesis using assms that(1) by (simp add: decrypt_frame_def parse_error_def)
  qed
next
  fix ksn sm
  assume k: "ah_frame_counter aux \<noteq> - 1" "ah_key_sequence_number aux = Some ksn"
      "find_material ksn keys = Some sm" and
    bad: "ah_source_address aux = None \<or> (\<exists>src i. ah_source_address aux = Some src \<and>
      find_incoming src sm = Some i \<and> ah_frame_counter aux < ifc_counter i)"
  from bad show "decrypt_frame C W D level keys buf = Done (Inl InvalidData)"
  proof (elim disjE exE conjE)
    fix src i assume "ah_source_address aux = Some src" "find_incoming src sm = Some i"
      "ah_frame_counter aux < ifc_counter i"
    then show ?thesis using assms k by (simp add: decrypt_frame_def parse_error_def)
  qed (use assms k in \<open>simp add: decrypt_frame_def parse_error_def\<close>)
qed

text \<open>A secured frame that passes these checks but is shorter than its headers and the integrity
  code makes the decryption panic: only the length of the integrity code alone was checked.\<close>
theorem decrypt_frame_short_panics:
  assumes "cd_read_header D buf = Inr (hdr, hl)" and "fc_security (nh_control hdr)"
    and "mic_length level \<le> length buf" and "cd_read_aux D (drop hl buf) = Inr (aux, al)"
    and "ah_frame_counter aux \<noteq> - 1" and "ah_key_sequence_number aux = Some ksn"
    and "find_material ksn keys = Some sm" and "ah_source_address aux = Some src"
    and "find_incoming src sm = None"
    and "write_with (cd_write_aux D (aux\<lparr> ah_security_control :=
      (ah_security_control aux)\<lparr> sc_security_level := level \<rparr> \<rparr>)) (buf, hl) = Inr (buf', k)"
    and "length buf' = length buf" and "length buf < hl + al + mic_length level"
  shows "decrypt_frame C W D level keys buf = Panic"
  using assms by (auto simp: decrypt_frame_def parse_error_def Let_def simp del: write_with.simps)

section \<open>Witnesses\<close>

definition sm_std :: security_material where
  "sm_std = \<lparr> sm_key_seq_number = 0, sm_outgoing_frame_counter = 5,
     sm_incoming_frame_counter_set = [], sm_key = replicate 16 1 \<rparr>"

definition data_std :: nwk_frame where
  "data_std = Data \<lparr> df_header = header_std, df_payload = [1, 2, 3] \<rparr>"

lemma aux_std_eq: "nwk_aux_header EncMic32 9 sm_std = aux_std"
  by (simp add: nwk_aux_header_def aux_std_def sm_std_def)

lemma aux_std_law: "aux_law codecs_std aux_std [0x2d]"
proof -
  have "zero_writer (cd_write_aux codecs_std aux_std) [0x2d]"
    unfolding zero_writer_def
  proof
    fix n
    show "if length [0x2d :: u8] \<le> n
      then cd_write_aux codecs_std aux_std (replicate n 0) =
        Inr ([0x2d] @ replicate (n - length [0x2d :: u8]) 0, length [0x2d :: u8])
      else \<exists>err. cd_write_aux codecs_std aux_std (replicate n 0) = Inl err"
      by (cases n) (simp_all add: codecs_std_def aux_std_def)
  qed
  then show ?thesis by (simp add: aux_law_def codecs_std_def aux_std_def clear_level_def)
qed

lemma data_std_facts:
  "frame_header data_std = header_std" "fc_security (nh_control header_std)"
  "body_law codecs_std data_std []" "frame_type_ok data_std"
  by (simp_all add: data_std_def body_law_def frame_type_ok_def header_std_def
      nwk_header_new_no_ctx_def)

lemma sm_std_facts:
  "find_material 0 [sm_std] = Some sm_std" "sm_outgoing_frame_counter sm_std = 5"
  "find_incoming src sm_std = None" "sm_key_seq_number sm_std = 0"
  by (simp_all add: find_material_def find_incoming_def sm_std_def)

lemma data_std_encrypts:
  "\<exists>buf len. make_encrypted_frame crypto_std wire_std codecs_std data_std (replicate 30 0) 9 EncMic32 0
     [sm_std] = Done (Inr (buf, len), [bump_counter sm_std], False)"
proof -
  obtain nonce where "create_nonce wire_std aux_std = Done (Inr nonce)"
    using create_nonce_ex [OF wire_std_ok, of aux_std 9] by (auto simp: aux_std_def)
  then have "\<exists>buf len. write_and_encrypt_in_place crypto_std wire_std EncMic32 (replicate 30 0)
      (cd_write_aux codecs_std aux_std) aux_std (sm_key sm_std) (cd_write_header codecs_std header_std)
      (write_slice [1, 2, 3]) = Done (Inr (buf, len))"
    by (simp add: write_and_encrypt_in_place_def aux_std_def codecs_std_def write_slice_def
        parse_error_def encrypt_in_place_def ccm_encrypt_def crypto_std_def Let_def numeral_eq_Suc)
  then show ?thesis
    by (auto simp: make_encrypted_frame_def sm_std_facts aux_std_eq data_std_def Let_def)
qed

text \<open>A codec that writes the auxiliary header as it is on the air.\<close>

definition aux_codecs_std :: codecs where
  "aux_codecs_std = codecs_std\<lparr>
     cd_write_aux := (\<lambda>a bs. if length bs < 14 then Inl Incomplete
       else Inr ((hd bs OR (case sc_security_level (ah_security_control a) of EncMic32 \<Rightarrow> 0x2d | _ \<Rightarrow> 0x28)) #
         le_bytes 4 (ah_frame_counter a) @ le_bytes 8 (the (ah_source_address a)) @ [the (ah_key_sequence_number a)] @ drop 14 bs, 14)),
     cd_read_aux := (\<lambda>bs. if length bs < 14 then Inl Incomplete
       else Inr (aux_std\<lparr> ah_security_control := (ah_security_control aux_std)\<lparr> sc_security_level := SecNone \<rparr>,
         ah_frame_counter := le_value (take 4 (drop 1 bs)), ah_source_address := Some (le_value (take 8 (drop 5 bs))),
         ah_key_sequence_number := Some (bs ! 13) \<rparr>, 14)) \<rparr>"

abbreviation aux_bytes_std :: "u32 \<Rightarrow> bytes" where
  "aux_bytes_std c \<equiv> 0x2d # le_bytes 4 c @ le_bytes 8 (9 :: u64) @ [0]"

lemma le_value_full: "le_value (le_bytes 4 c) = (c :: u32)" "le_value (le_bytes 8 x) = (x :: u64)"
  by (rule bit_word_eqI; auto simp: le_value_le_bytes bit_simps)+

lemma aux_codecs_std_law: "aux_law aux_codecs_std (nwk_aux_header EncMic32 9 (at_counter sm_std c)) (aux_bytes_std c)"
proof -
  let ?aux = "nwk_aux_header EncMic32 9 (at_counter sm_std c)" and ?e = "aux_bytes_std c"
  have "cd_write_aux aux_codecs_std ?aux (replicate n 0) = Inr (?e @ replicate (n - 14) 0, 14)" if "14 \<le> n" for n
    using that by (simp add: aux_codecs_std_def nwk_aux_header_def sm_std_def hd_replicate)
  moreover have "\<exists>err. cd_write_aux aux_codecs_std ?aux (replicate n 0) = Inl err" if "n < 14" for n
    using that by (simp add: aux_codecs_std_def)
  ultimately have "zero_writer (cd_write_aux aux_codecs_std ?aux) ?e" by (simp add: zero_writer_def not_le)
  moreover have "cd_write_aux aux_codecs_std ?aux ((hd ?e AND 0xf8) # tl ?e @ rest) = Inr (?e @ rest, length ?e)" for rest
    by (simp add: aux_codecs_std_def nwk_aux_header_def sm_std_def)
  moreover have "cd_read_aux aux_codecs_std ((hd ?e AND 0xf8) # tl ?e @ rest) = Inr (clear_level ?aux, length ?e)" for rest
  proof -
    have "(aux_bytes_std c @ rest) ! 13 = 0" by (simp add: nth_append nth_Cons' )
    then show ?thesis
      by (simp add: aux_codecs_std_def nwk_aux_header_def sm_std_def clear_level_def aux_std_def le_value_full nth_append nth_Cons')
  qed
  ultimately show ?thesis by (simp add: aux_law_def)
qed

lemma aux_codecs_std_frame: "frame_law aux_codecs_std data_std"
proof -
  have "codec_law (cd_write_header aux_codecs_std) (cd_read_header aux_codecs_std) (frame_header data_std) [0x48, 0x02]"
    using header_std_law data_std_facts(1) by (simp add: aux_codecs_std_def codec_law_def)
  moreover have "body_law aux_codecs_std data_std []" by (simp add: body_law_def data_std_def)
  ultimately show ?thesis by (auto simp: frame_law_def)
qed

lemma data_std_encrypts_at:
  assumes "c \<noteq> - 1"
  shows "\<exists>buf len. make_encrypted_frame crypto_std wire_std aux_codecs_std data_std (replicate 30 0) 9 EncMic32 0
     [at_counter sm_std c] = Done (Inr (buf, len), [at_counter sm_std (c + 1)], c mod 1024 = 0)"
proof -
  let ?aux = "nwk_aux_header EncMic32 9 (at_counter sm_std c)"
  obtain nonce where "create_nonce wire_std ?aux = Done (Inr nonce)"
    using create_nonce_ex [OF wire_std_ok, of ?aux 9] by (auto simp: nwk_aux_header_def)
  then have "\<exists>buf len. write_and_encrypt_in_place crypto_std wire_std EncMic32 (replicate 30 0)
      (cd_write_aux aux_codecs_std ?aux) ?aux (sm_key sm_std) (cd_write_header aux_codecs_std header_std)
      (write_slice [1, 2, 3]) = Done (Inr (buf, len))"
    by (simp add: write_and_encrypt_in_place_def nwk_aux_header_def aux_codecs_std_def codecs_std_def write_slice_def
        parse_error_def encrypt_in_place_def ccm_encrypt_def crypto_std_def Let_def numeral_eq_Suc)
  moreover have "find_material 0 [at_counter sm_std c] = Some (at_counter sm_std c)" by (simp add: find_material_def sm_std_def)
  ultimately show ?thesis using assms
    by (auto simp: make_encrypted_frame_def data_std_def Let_def bump_counter_def sm_std_def)
qed

theorem outgoing_counters_increase_witness:
  "\<exists>p q a b. sent_frames crypto_std wire_std aux_codecs_std 9 EncMic32 0 [(data_std, 30), (data_std, 30)] [sm_std] = Done [p, q] \<and>
     frame_aux aux_codecs_std p = Some a \<and> frame_aux aux_codecs_std q = Some b \<and>
     5 \<le> ah_frame_counter a \<and> ah_frame_counter a < ah_frame_counter b \<and>
     frame_nonce wire_std aux_codecs_std EncMic32 p \<noteq> frame_nonce wire_std aux_codecs_std EncMic32 q"
proof -
  let ?fs = "[(data_std, 30 :: nat), (data_std, 30)]"
  have five: "[sm_std] = [at_counter sm_std 5]" by (simp add: sm_std_def)
  obtain p q where sent: "sent_frames crypto_std wire_std aux_codecs_std 9 EncMic32 0 ?fs [sm_std] = Done [p, q]"
    using data_std_encrypts_at [of 5] data_std_encrypts_at [of 6] unfolding five by fastforce
  have laws: "\<forall>x\<in>set ?fs. frame_law aux_codecs_std (fst x)" by (simp add: aux_codecs_std_frame)
  have aux: "\<exists>ea. aux_law aux_codecs_std (nwk_aux_header EncMic32 9 (at_counter sm_std c)) ea" for c
    using aux_codecs_std_law by blast
  show ?thesis
    using outgoing_counters_increase [OF wire_std_ok crypto_std_ok sent laws aux sm_std_facts(1)] sent sm_std_facts(2)
    by (fastforce simp: map_eq_Cons_conv Cons_eq_map_conv)
qed

lemma std_reads:
  "cd_read_header codecs_std bs = Inr (header_std, 2)"
  "cd_read_aux codecs_std bs = Inr (clear_level aux_std, 1)"
  "ah_frame_counter (clear_level aux_std) = 5" "ah_key_sequence_number (clear_level aux_std) = Some 0"
  "ah_source_address (clear_level aux_std) = Some 9"
  "(clear_level aux_std)\<lparr> ah_security_control :=
     (ah_security_control (clear_level aux_std))\<lparr> sc_security_level := EncMic32 \<rparr> \<rparr> = aux_std"
  "cd_write_aux codecs_std aux_std (b # bs) = Inr ((b OR 0x2d) # bs, 1)"
  by (simp_all add: codecs_std_def clear_level_def aux_std_def)

theorem decrypt_frame_refuses_witness:
  "decrypt_frame crypto_std wire_std codecs_std EncMic32 [] (replicate 9 0) = Done (Inl Unspecified)"
proof -
  have "mic_length EncMic32 \<le> length (replicate 9 (0 :: u8))" "2 \<le> length (replicate 9 (0 :: u8))"
    by simp_all
  from decrypt_frame_refuses [OF std_reads(1) data_std_facts(2) this std_reads(2)]
  show ?thesis by (simp add: std_reads find_material_def)
qed

theorem decrypt_frame_short_panics_witness:
  "decrypt_frame crypto_std wire_std codecs_std EncMic32 [sm_std] [0, 0, 0, 0, 0, 0] = Panic"
  by (rule decrypt_frame_short_panics [where buf' = "[0, 0, 0x2d, 0, 0, 0]" and k = 3 and sm = sm_std and ksn = 0,
        OF std_reads(1) data_std_facts(2) _ std_reads(2)])
    (simp_all add: std_reads sm_std_facts)

end
