(* ===== verification/Nwk_Context.thy ===== *)
theory Nwk_Context
  imports Nwk_Security
begin

text \<open>
  The state of the network layer (\<open>nwk/ctx.rs\<close>), its environment, and the transmission of a
  frame through the MAC (\<open>nwk/service/transmission.rs\<close>, \<open>mac/mlme.rs\<close>).

  An operation is a function from the state to a result and a state, or a panic. What the code
  shares through \<open>Arc\<close> (sequence number, keys, neighbors) is a field of the state. The environment
  is a parameter: the crates for cryptography and codecs, the clock, the outcome of the \<open>n\<close>-th
  transmission of the radio and the \<open>n\<close>-th number drawn from the generator. The log of what was
  handed to the radio also keeps the frame that the bytes encode.
\<close>

section \<open>Errors and indications\<close>

datatype mcps_error = ChannelAccessFailure | McpsOther

datatype transfer_error = InvalidRequest string | MaxFrameCounter | BadCcmOutput | TransferRouteError
  | BtTableFull | FrameNotBuffered | SecurityFailed sec_error | McpsDataError mcps_error
  | RouteDiscoveryFailed | TransferParseError byte_error

type_synonym transfer_result = "transfer_error + unit"

datatype data_dst = MulticastDst nwk_addr | UnicastOrBroadcastDst nwk_addr

record data_indication =
  di_dst_address :: data_dst
  di_src_address :: nwk_addr
  di_nsdu :: bytes
  di_link_quality :: u8
  di_security_use :: bool

datatype join_method = Association mac_capabilities | Direct | Rejoin bool

record join_indication =
  ji_nwk_addr :: nwk_addr
  ji_ext_addr :: ext_addr
  ji_join_method :: join_method

datatype leave_indication = LeaveSelf bool | LeaveChild bool nwk_addr | LeaveParent bool

datatype nwk_indication = IndData data_indication | IndJoin join_indication
  | IndLeave leave_indication | IndStatus network_status

section \<open>The state\<close>

record nwk_context =
  cx_addr_map :: addr_map
  cx_group_table :: "nwk_addr list"
  cx_parent_information :: parent_information
  cx_profile :: stack_profile
  cx_update_id :: u8
  cx_depth :: u8
  cx_active_key_seq_number :: u8
  cx_all_fresh :: bool
  cx_security_material_set :: "security_material list"
  cx_route_request_counter :: u8
  cx_neighbors :: neighbor_table
  cx_broadcast_transaction_table :: "transaction_record list"
  cx_concentrator_discovery_time :: u8
  cx_concentrator_radius :: u8
  cx_is_concentrator :: bool
  cx_route_record_table :: "route_record list"
  cx_route_table :: route_table

definition parent_information_default :: parent_information where
  "parent_information_default = \<lparr> mac_data_poll_keepalive_supported = False,
     end_device_timeout_request_keepalive_supported = False, power_negotiation_supported = False \<rparr>"

definition nwk_context_default :: "instant \<Rightarrow> nwk_context" where
  "nwk_context_default now = \<lparr> cx_addr_map = [], cx_group_table = [],
     cx_parent_information = parent_information_default, cx_profile = ZigbeePro, cx_update_id = 0,
     cx_depth = 0, cx_active_key_seq_number = 0, cx_all_fresh = False,
     cx_security_material_set = [], cx_route_request_counter = 0,
     cx_neighbors = neighbor_table_default now, cx_broadcast_transaction_table = [],
     cx_concentrator_discovery_time = 0, cx_concentrator_radius = 0, cx_is_concentrator = False,
     cx_route_record_table = [], cx_route_table = [] \<rparr>"

record mac_state =
  ms_short_address :: "nwk_addr option"
  ms_pan_id :: "pan_id option"
  ms_extended_pan_id :: "ext_addr option"
  ms_ext_addr :: ext_addr
  ms_rx_on_when_idle :: bool
  ms_channel :: channel
  ms_seq_number :: u8
  ms_association_permit_timeout :: instant

datatype assoc_status = AssocSuccess nwk_addr | AssocPanAtCapacity | AssocPanAccessDenied

datatype radio_event =
    TxData nwk_addr nwk_frame bytes bool
  | TxAssociateResponse pan_id ext_addr assoc_status
  | TxBeaconRequest channel
  | TxAssociationRequest mac_address mac_capabilities
  | TxDataRequest mac_address

record nwk =
  nk_mac :: mac_state
  nk_seq_number :: u8
  nk_ctx :: nwk_context
  nk_rand :: nat
  nk_sent :: "radio_event list"

record env =
  ev_crypto :: crypto
  ev_wire :: wire
  ev_codecs :: codecs
  ev_now :: instant
  ev_tx :: "nat \<Rightarrow> bool"
  ev_rand :: "nat \<Rightarrow> nat"

section \<open>Operations on the state\<close>

text \<open>An operation on a state: it panics, or has a result and a state after it.\<close>

type_synonym ('s, 'a) action = "'s \<Rightarrow> ('a \<times> 's) run"
type_synonym 'a act = "(nwk, 'a) action"

definition act_return :: "'a \<Rightarrow> ('s, 'a) action" where "act_return x s = Done (x, s)"
definition act_panic :: "('s, 'a) action" where "act_panic s = Panic"
definition act_bind :: "('s, 'a) action \<Rightarrow> ('a \<Rightarrow> ('s, 'b) action) \<Rightarrow> ('s, 'b) action" where
  "act_bind m f s = run_bind (m s) (\<lambda>(x, s'). f x s')"
definition act_gets :: "('s \<Rightarrow> 'a) \<Rightarrow> ('s, 'a) action" where "act_gets f s = Done (f s, s)"
definition act_modify :: "('s \<Rightarrow> 's) \<Rightarrow> ('s, unit) action" where "act_modify f s = Done ((), f s)"
definition act_run :: "'a run \<Rightarrow> ('s, 'a) action" where "act_run m s = run_map (\<lambda>x. (x, s)) m"
definition act_then :: "('s, 'a) action \<Rightarrow> ('s, 'b) action \<Rightarrow> ('s, 'b) action" where
  "act_then m n = act_bind m (\<lambda>_. n)"

definition ctx_update :: "(nwk_context \<Rightarrow> nwk_context) \<Rightarrow> unit act" where
  "ctx_update f = act_modify (\<lambda>s. s\<lparr> nk_ctx := f (nk_ctx s) \<rparr>)"

definition neighbors_update :: "(neighbor_table \<Rightarrow> neighbor_table) \<Rightarrow> unit act" where
  "neighbors_update f = ctx_update (\<lambda>c. c\<lparr> cx_neighbors := f (cx_neighbors c) \<rparr>)"

lemmas act_defs = act_return_def act_panic_def act_bind_def act_gets_def act_modify_def act_run_def
  act_then_def ctx_update_def neighbors_update_def

definition profile_params :: "nwk \<Rightarrow> stack_profile_params" where
  "profile_params s = get_params (cx_profile (nk_ctx s))"

definition neighbors :: "nwk \<Rightarrow> nwk_neighbor list" where
  "neighbors s = nt_neighbors (cx_neighbors (nk_ctx s))"

definition nwk_parent :: "nwk \<Rightarrow> nwk_neighbor" where
  "nwk_parent s = nt_parent (cx_neighbors (nk_ctx s))"

text \<open>\<open>get_addr\<close>, \<open>get_pan_id\<close> and \<open>get_ext_pan_id\<close> unwrap an option of the MAC.\<close>

definition unwrap_run :: "'a option \<Rightarrow> 'a run" where
  "unwrap_run x = (case x of Some y \<Rightarrow> Done y | None \<Rightarrow> Panic)"

definition get_addr :: "nwk_addr act" where
  "get_addr s = act_run (unwrap_run (ms_short_address (nk_mac s))) s"

definition get_pan_id :: "pan_id act" where
  "get_pan_id s = act_run (unwrap_run (ms_pan_id (nk_mac s))) s"

definition get_ext_pan_id :: "ext_addr act" where
  "get_ext_pan_id s = act_run (unwrap_run (ms_extended_pan_id (nk_mac s))) s"

definition get_ext_addr :: "nwk \<Rightarrow> ext_addr" where
  "get_ext_addr s = ms_ext_addr (nk_mac s)"

definition get_next_seq_number :: "u8 act" where
  "get_next_seq_number s = Done (nk_seq_number s, s\<lparr> nk_seq_number := nk_seq_number s + 1 \<rparr>)"

definition has_routing_capacity :: "nwk \<Rightarrow> bool" where
  "has_routing_capacity s \<longleftrightarrow> \<not> rt_is_full (cx_route_table (nk_ctx s))"

definition find_nwk_addr :: "ext_addr \<Rightarrow> nwk_addr option act" where
  "find_nwk_addr e = act_bind (act_gets get_ext_addr) (\<lambda>slf.
     if e = slf then act_bind get_addr (\<lambda>a. act_return (Some a))
     else act_gets (\<lambda>s. case am_find_nwk_addr e (cx_addr_map (nk_ctx s)) of
         Some a \<Rightarrow> Some a
       | None \<Rightarrow> map_option nb_nwk_addr (find_by_ext_addr e (cx_neighbors (nk_ctx s)))))"

definition find_ext_addr :: "nwk_addr \<Rightarrow> ext_addr option act" where
  "find_ext_addr a = act_bind get_addr (\<lambda>slf.
     if a = slf then act_gets (\<lambda>s. Some (get_ext_addr s))
     else act_gets (\<lambda>s. case am_find_ext_addr a (cx_addr_map (nk_ctx s)) of
         Some e \<Rightarrow> Some e
       | None \<Rightarrow> Option.bind (find_by_short_addr a (cx_neighbors (nk_ctx s))) nb_ext_addr))"

text \<open>A draw from a range: the environment gives a number, taken modulo the size of the range.
  An empty range panics.\<close>

definition random_range :: "env \<Rightarrow> nat \<Rightarrow> nat \<Rightarrow> nat act" where
  "random_range E lo hi s =
     (if lo < hi then Done (lo + ev_rand E (nk_rand s) mod (hi - lo), s\<lparr> nk_rand := Suc (nk_rand s) \<rparr>)
      else Panic)"

section \<open>Header builders that use the state\<close>

text \<open>
  The defaults are evaluated even when a value is given: the address is unwrapped and a sequence
  number is taken in any case.
\<close>

definition nwk_header_new ::
  "frame_type \<Rightarrow> bool \<Rightarrow> bool \<Rightarrow> nwk_addr \<Rightarrow> ext_addr option \<Rightarrow> ext_addr option \<Rightarrow>
   source_route_subframe option \<Rightarrow> nwk_addr option \<Rightarrow> u8 option \<Rightarrow> u8 option \<Rightarrow> nwk_header act" where
  "nwk_header_new ft security discovery dst dst_ieee src_ieee sroute src seq radius =
     act_bind get_addr (\<lambda>addr.
     act_bind (act_gets (\<lambda>s. nwk_max_depth (profile_params s))) (\<lambda>d.
     act_bind (act_run (chk_mul d 2)) (\<lambda>dflt_radius.
     act_bind get_next_seq_number (\<lambda>dflt_seq.
     act_return (nwk_header_new_no_ctx ft security discovery dst dst_ieee
       (case src of Some a \<Rightarrow> a | None \<Rightarrow> addr) src_ieee sroute
       (case radius of Some r \<Rightarrow> r | None \<Rightarrow> dflt_radius)
       (case seq of Some q \<Rightarrow> q | None \<Rightarrow> dflt_seq))))))"

definition nwk_header_cmd ::
  "bool \<Rightarrow> nwk_addr \<Rightarrow> ext_addr option \<Rightarrow> source_route_subframe option \<Rightarrow> u8 option \<Rightarrow> u8 option \<Rightarrow>
   nwk_header act" where
  "nwk_header_cmd security dst dst_ieee sroute seq radius =
     act_bind (act_gets get_ext_addr) (\<lambda>ext.
     nwk_header_new NwkCommandFrame security False dst dst_ieee (Some ext) sroute None seq radius)"

section \<open>Transmission\<close>

definition is_reserved :: "nwk_frame \<Rightarrow> bool" where
  "is_reserved f \<longleftrightarrow> (case f of Reserved _ \<Rightarrow> True | InterPan _ \<Rightarrow> True | _ \<Rightarrow> False)"

text \<open>\<open>encrypt_frame\<close>, and both functions \<open>build_mac_payload\<close>: the free one takes the parameters
  that the method reads from the state.\<close>

definition build_mac_payload_with ::
  "env \<Rightarrow> nwk_frame \<Rightarrow> bytes \<Rightarrow> ext_addr \<Rightarrow> security_level \<Rightarrow> u8 \<Rightarrow> security_material list \<Rightarrow>
   ((sec_error + bytes \<times> nat) \<times> security_material list) run" where
  "build_mac_payload_with E f buf ext level active keys =
     (if is_secured f \<and> \<not> is_reserved f
      then run_map (\<lambda>(r, keys', _). (r, keys'))
        (make_encrypted_frame (ev_crypto E) (ev_wire E) (ev_codecs E) f buf ext level active keys)
      else Done (parse_error (write_frame (ev_codecs E) f buf), keys))"

definition build_mac_payload :: "env \<Rightarrow> nwk_frame \<Rightarrow> bytes \<Rightarrow> (sec_error + bytes \<times> nat) act" where
  "build_mac_payload E f buf s =
     run_map (\<lambda>(r, keys). (r, s\<lparr> nk_ctx := (nk_ctx s)\<lparr> cx_security_material_set := keys \<rparr> \<rparr>))
       (build_mac_payload_with E f buf (get_ext_addr s) (nwk_security_level (profile_params s))
          (cx_active_key_seq_number (nk_ctx s)) (cx_security_material_set (nk_ctx s)))"

text \<open>\<open>Mlme::data_transmit_request\<close>: no frame without a PAN id, and a panic without a short
  address. Writing the MAC header and sending are the environment's; the log has what was handed to the
  radio, also when the radio then reports a failure.\<close>

definition data_transmit_request ::
  "env \<Rightarrow> nwk_addr \<Rightarrow> nwk_frame \<Rightarrow> bytes \<Rightarrow> bool \<Rightarrow> (mcps_error + unit) act" where
  "data_transmit_request E dst f payload ack s =
     (let m = nk_mac s in
      if ms_pan_id m = None then Done (Inl ChannelAccessFailure, s)
      else if ms_short_address m = None then Panic
      else
        (let s' = s\<lparr> nk_mac := m\<lparr> ms_seq_number := ms_seq_number m + 1 \<rparr>,
                     nk_sent := nk_sent s @ [TxData dst f payload ack] \<rparr>
         in Done (if ev_tx E (length (nk_sent s)) then Inr () else Inl ChannelAccessFailure, s')))"

definition transmit_frame :: "env \<Rightarrow> nwk_frame \<Rightarrow> nwk_addr \<Rightarrow> bool \<Rightarrow> transfer_result act" where
  "transmit_frame E f dst ack =
     act_bind (build_mac_payload E f (replicate A_MAX_MAC_PAYLOAD_SIZE 0)) (\<lambda>r. case r of
       Inl e \<Rightarrow> act_return (Inl (SecurityFailed e))
     | Inr (buf, len) \<Rightarrow>
         act_bind (data_transmit_request E dst f (take len buf) ack) (\<lambda>t. case t of
           Inl e \<Rightarrow> act_return (Inl (McpsDataError e)) | Inr _ \<Rightarrow> act_return (Inr ())))"

definition associate_response ::
  "env \<Rightarrow> pan_id \<Rightarrow> ext_addr \<Rightarrow> assoc_status \<Rightarrow> (unit + unit) act" where
  "associate_response E pan ext status s =
     (if ms_pan_id (nk_mac s) = None then Done (Inl (), s)
      else
        (let s' = s\<lparr> nk_mac := (nk_mac s)\<lparr> ms_seq_number := ms_seq_number (nk_mac s) + 1 \<rparr>,
                     nk_sent := nk_sent s @ [TxAssociateResponse pan ext status] \<rparr>
         in Done (if ev_tx E (length (nk_sent s)) then Inr () else Inl (), s')))"

section \<open>Invariants of operations\<close>

text \<open>An operation keeps a property of the state, whatever result it gives.\<close>

definition keeps :: "('s \<Rightarrow> bool) \<Rightarrow> ('s, 'a) action \<Rightarrow> bool" where
  "keeps I m \<longleftrightarrow> (\<forall>s x s'. I s \<longrightarrow> m s = Done (x, s') \<longrightarrow> I s')"

named_theorems keeps_rules \<open>rules that show that an operation keeps a property\<close>

lemma keepsI: "(\<And>s x s'. I s \<Longrightarrow> m s = Done (x, s') \<Longrightarrow> I s') \<Longrightarrow> keeps I m"
  by (auto simp: keeps_def)

lemma keepsD: "keeps I m \<Longrightarrow> I s \<Longrightarrow> m s = Done (x, s') \<Longrightarrow> I s'"
  by (auto simp: keeps_def)

lemma keepsD_eq: "keeps (\<lambda>s. f s = f r) m \<Longrightarrow> m r = Done (x, r') \<Longrightarrow> f r' = f r"
  using keepsD [of "\<lambda>s. f s = f r" m r x r'] by blast

lemma act_then_modify: "act_then (act_modify f) m s = m (f s)"
  by (simp add: act_then_def act_bind_def act_modify_def)

lemma act_bind_of: "m s = Done (x, s1) \<Longrightarrow> act_bind m f s = f x s1"
  by (simp add: act_bind_def)

lemma keeps_bind [keeps_rules]: "keeps I m \<Longrightarrow> (\<And>x. keeps I (f x)) \<Longrightarrow> keeps I (act_bind m f)"
proof (rule keepsI)
  fix s y s'
  assume keeps: "keeps I m" "\<And>x. keeps I (f x)" and "I s" and "act_bind m f s = Done (y, s')"
  then obtain x s1 where "m s = Done (x, s1)" "f x s1 = Done (y, s')"
    by (auto simp: act_bind_def run_simps)
  with keeps \<open>I s\<close> show "I s'" by (metis keepsD)
qed

lemma act_bind_Done [run_simps]:
  "act_bind m f s = Done (y, s') \<longleftrightarrow> (\<exists>x s1. m s = Done (x, s1) \<and> f x s1 = Done (y, s'))"
  by (auto simp: act_bind_def run_simps)

lemma keeps_then [keeps_rules]: "keeps I m \<Longrightarrow> keeps I n \<Longrightarrow> keeps I (act_then m n)"
  by (simp add: act_then_def keeps_bind)

lemma keeps_basic [keeps_rules]:
  "keeps I (act_return x)" "keeps I act_panic" "keeps I (act_gets f)" "keeps I (act_run r)"
  by (auto simp: keeps_def act_defs run_simps)

lemma keeps_modify: "(\<And>s. I s \<Longrightarrow> I (f s)) \<Longrightarrow> keeps I (act_modify f)"
  by (auto simp: keeps_def act_defs)

lemma keeps_if [keeps_rules]: "(b \<Longrightarrow> keeps I m) \<Longrightarrow> (\<not> b \<Longrightarrow> keeps I n) \<Longrightarrow> keeps I (if b then m else n)"
  by simp

lemma keeps_option [keeps_rules]:
  "(x = None \<Longrightarrow> keeps I m) \<Longrightarrow> (\<And>y. x = Some y \<Longrightarrow> keeps I (f y)) \<Longrightarrow>
     keeps I (case x of None \<Rightarrow> m | Some y \<Rightarrow> f y)"
  by (cases x) simp_all

lemma keeps_sum [keeps_rules]:
  "(\<And>e. x = Inl e \<Longrightarrow> keeps I (g e)) \<Longrightarrow> (\<And>y. x = Inr y \<Longrightarrow> keeps I (f y)) \<Longrightarrow>
     keeps I (case x of Inl e \<Rightarrow> g e | Inr y \<Rightarrow> f y)"
  by (cases x) simp_all

lemma keeps_prod [keeps_rules]:
  "(\<And>a b. x = (a, b) \<Longrightarrow> keeps I (f a b)) \<Longrightarrow> keeps I (case x of (a, b) \<Rightarrow> f a b)"
  by (cases x) simp

lemma keeps_reads [keeps_rules]: "keeps I get_addr" "keeps I get_pan_id" "keeps I get_ext_pan_id"
  by (auto simp: keeps_def get_addr_def get_pan_id_def get_ext_pan_id_def act_defs run_simps)

lemma keeps_find [keeps_rules]: "keeps I (find_nwk_addr e)" "keeps I (find_ext_addr a)"
  by (simp_all add: find_nwk_addr_def find_ext_addr_def keeps_rules)

text \<open>
  The interface between the handlers and the link layer: a transmission may change the keys (their
  counters), the MAC's sequence number and the log, and appends at most one frame to the log,
  the one that was asked for. Everything else a handler relies on is in the \<open>view\<close>.
\<close>

locale link_layer =
  fixes send :: "nwk_frame \<Rightarrow> nwk_addr \<Rightarrow> bool \<Rightarrow> transfer_result act"
    and view :: "nwk \<Rightarrow> 'v"
  assumes view_send: "send f dst ack s = Done (r, s') \<Longrightarrow> view s' = view s"
    and log_send: "send f dst ack s = Done (r, s') \<Longrightarrow>
      nk_sent s' = nk_sent s \<or> (\<exists>p. nk_sent s' = nk_sent s @ [TxData dst f p ack])"
    and ok_logged: "send f dst ack s = Done (Inr (), s') \<Longrightarrow> nk_sent s' \<noteq> nk_sent s"
begin

lemma keeps_send: "(\<And>s s'. view s' = view s \<Longrightarrow> I s \<Longrightarrow> I s') \<Longrightarrow> keeps I (send f dst ack)"
  using view_send by (fastforce intro: keepsI)

lemma sent_prefix: "send f dst ack s = Done (r, s') \<Longrightarrow> take (length (nk_sent s)) (nk_sent s') = nk_sent s"
  using log_send by fastforce

lemma ok_sends: "send f dst ack s = Done (Inr (), s') \<Longrightarrow>
    \<exists>p. nk_sent s' = nk_sent s @ [TxData dst f p ack]"
  using log_send ok_logged by blast

lemma send_error_or_logged:
  assumes "send f dst ack s = Done (r, s')"
  shows "(\<exists>e. r = Inl e) \<or> (\<exists>p. nk_sent s' = nk_sent s @ [TxData dst f p ack])"
proof (cases r)
  case (Inr u)
  with assms ok_sends [of f dst ack s s'] show ?thesis by simp
qed simp

end

text \<open>What a transmission leaves alone: everything but the counters of the keys and the MAC's sequence
  number.\<close>

definition blank_counter :: "security_material \<Rightarrow> security_material" where
  "blank_counter k = k\<lparr> sm_outgoing_frame_counter := 0 \<rparr>"

definition blank_counters :: "nwk_context \<Rightarrow> nwk_context" where
  "blank_counters c = c\<lparr> cx_security_material_set := map blank_counter (cx_security_material_set c) \<rparr>"

lemma blank_bump [simp]: "map blank_counter (update_first p bump_counter ks) = map blank_counter ks"
  by (induction ks) (simp_all add: blank_counter_def bump_counter_def)

lemma blank_counters_simps [simp]:
  "cx_neighbors (blank_counters c) = cx_neighbors c" "cx_route_table (blank_counters c) = cx_route_table c"
  "cx_addr_map (blank_counters c) = cx_addr_map c"
  "cx_active_key_seq_number (blank_counters c) = cx_active_key_seq_number c"
  "cx_security_material_set (blank_counters c) = map blank_counter (cx_security_material_set c)"
  by (simp_all add: blank_counters_def)

definition tables :: "nwk \<Rightarrow> nwk_context \<times> u8 \<times> nat \<times> mac_state" where
  "tables s = (blank_counters (nk_ctx s), nk_seq_number s, nk_rand s,
     (nk_mac s)\<lparr> ms_seq_number := 0 \<rparr>)"

lemma make_encrypted_frame_blank:
  assumes "make_encrypted_frame C W D f buf ext level active keys = Done (r, keys', p)"
  shows "map blank_counter keys' = map blank_counter keys"
  using make_encrypted_frame_changes [OF assms] by (auto split: sum.splits)

lemma build_mac_payload_Done:
  assumes "build_mac_payload E f buf s = Done (r, s')"
  obtains keys where "s' = s\<lparr> nk_ctx := (nk_ctx s)\<lparr> cx_security_material_set := keys \<rparr> \<rparr>"
    and "build_mac_payload_with E f buf (get_ext_addr s) (nwk_security_level (profile_params s))
      (cx_active_key_seq_number (nk_ctx s)) (cx_security_material_set (nk_ctx s)) = Done (r, keys)"
    and "blank_counters (nk_ctx s') = blank_counters (nk_ctx s)"
proof -
  from assms obtain keys where s': "s' = s\<lparr> nk_ctx := (nk_ctx s)\<lparr> cx_security_material_set := keys \<rparr> \<rparr>"
    and b: "build_mac_payload_with E f buf (get_ext_addr s) (nwk_security_level (profile_params s))
      (cx_active_key_seq_number (nk_ctx s)) (cx_security_material_set (nk_ctx s)) = Done (r, keys)"
    by (auto simp: build_mac_payload_def run_simps)
  from b have "map blank_counter keys = map blank_counter (cx_security_material_set (nk_ctx s))"
    by (auto simp: build_mac_payload_with_def run_simps dest!: make_encrypted_frame_blank split: if_splits)
  with s' have "blank_counters (nk_ctx s') = blank_counters (nk_ctx s)" by (simp add: blank_counters_def)
  with s' b that show thesis by blast
qed

lemma data_transmit_request_Done:
  assumes "data_transmit_request E dst f p ack s = Done (r, s')"
  shows "tables s' = tables s \<and>
    (nk_sent s' = nk_sent s \<and> r \<noteq> Inr () \<or> nk_sent s' = nk_sent s @ [TxData dst f p ack])"
  using assms by (auto simp: data_transmit_request_def tables_def Let_def split: if_splits)

lemma transmit_frame_Done:
  assumes "transmit_frame E f dst ack s = Done (r, s')"
  shows "tables s' = tables s \<and>
    (nk_sent s' = nk_sent s \<and> r \<noteq> Inr () \<or> (\<exists>p. nk_sent s' = nk_sent s @ [TxData dst f p ack]))"
proof -
  from assms obtain b s1 where
    build: "build_mac_payload E f (replicate A_MAX_MAC_PAYLOAD_SIZE 0) s = Done (b, s1)"
    by (auto simp: transmit_frame_def act_defs run_simps)
  from build have s1: "tables s1 = tables s" "nk_sent s1 = nk_sent s"
    by (auto elim!: build_mac_payload_Done simp: tables_def)
  show ?thesis
  proof (cases b)
    case (Inl e)
    with assms build s1 show ?thesis by (auto simp: transmit_frame_def act_defs)
  next
    case (Inr x)
    obtain buf len where x: "x = (buf, len)" by (cases x)
    from assms build Inr x obtain t s2 where
      tx: "data_transmit_request E dst f (take len buf) ack s1 = Done (t, s2)" and
      fin: "(case t of Inl e \<Rightarrow> act_return (Inl (McpsDataError e)) | Inr _ \<Rightarrow> act_return (Inr ())) s2 =
        Done (r, s')"
      by (auto simp: transmit_frame_def act_bind_def run_simps)
    from fin have "s' = s2" "r = Inr () \<longrightarrow> t = Inr ()"
      by (auto simp: act_defs split: sum.splits)
    with data_transmit_request_Done [OF tx] s1 show ?thesis by auto
  qed
qed

interpretation link: link_layer "transmit_frame E" tables for E
  by unfold_locales (use transmit_frame_Done in \<open>blast, blast, fastforce\<close>)

section \<open>Properties\<close>

lemma transmitted_frame_decrypts:
  assumes C: "crypto_ok (ev_crypto E)"
    and hdr: "codec_law (cd_write_header (ev_codecs E)) (cd_read_header (ev_codecs E)) (frame_header f) eh"
    and body: "body_law (ev_codecs E) f eb" "frame_type_ok f" "is_secured f" "\<not> is_reserved f"
    and sm: "find_material (cx_active_key_seq_number (nk_ctx s)) (cx_security_material_set (nk_ctx s)) = Some sm"
    and aux: "aux_law (ev_codecs E)
      (nwk_aux_header (nwk_security_level (profile_params s)) (get_ext_addr s) sm) ea"
    and rm: "find_material (cx_active_key_seq_number (nk_ctx s)) rkeys = Some rm" "sm_key rm = sm_key sm"
      "\<And>i. find_incoming (get_ext_addr s) rm = Some i \<Longrightarrow> ifc_counter i \<le> sm_outgoing_frame_counter sm"
    and tx: "transmit_frame E f dst ack s = Done (Inr (), s')"
  shows "\<exists>p. nk_sent s' = nk_sent s @ [TxData dst f p ack] \<and> length p \<le> 116 \<and>
    decrypt_frame (ev_crypto E) (ev_wire E) (ev_codecs E) (nwk_security_level (profile_params s)) rkeys p =
      Done (Inr (f, True)) \<and>
    tables s' = tables s \<and>
    cx_security_material_set (nk_ctx s') =
      update_first (\<lambda>k. sm_key_seq_number k = cx_active_key_seq_number (nk_ctx s)) bump_counter
        (cx_security_material_set (nk_ctx s))"
proof -
  let ?level = "nwk_security_level (profile_params s)" and ?active = "cx_active_key_seq_number (nk_ctx s)"
    and ?keys = "cx_security_material_set (nk_ctx s)" and ?ext = "get_ext_addr s"
  from tx obtain b s1 where b: "build_mac_payload E f (replicate A_MAX_MAC_PAYLOAD_SIZE 0) s = Done (b, s1)"
    by (auto simp: transmit_frame_def run_simps)
  with tx obtain buf len where "b = Inr (buf, len)"
    by (cases b) (auto simp: transmit_frame_def run_simps act_return_def)
  with b have b: "build_mac_payload E f (replicate A_MAX_MAC_PAYLOAD_SIZE 0) s = Done (Inr (buf, len), s1)"
    by simp
  then obtain keys persist where s1: "s1 = s\<lparr> nk_ctx := (nk_ctx s)\<lparr> cx_security_material_set := keys \<rparr> \<rparr>" and
    enc: "make_encrypted_frame (ev_crypto E) (ev_wire E) (ev_codecs E) f
      (replicate A_MAX_MAC_PAYLOAD_SIZE 0) ?ext ?level ?active ?keys = Done (Inr (buf, len), keys, persist)"
    using body(3,4) by (auto elim!: build_mac_payload_Done simp: build_mac_payload_with_def run_simps)
  from tx b obtain t s2 where t: "data_transmit_request E dst f (take len buf) ack s1 = Done (t, s2)" and
    fin: "(case t of Inl e \<Rightarrow> act_return (Inl (McpsDataError e)) | Inr _ \<Rightarrow> act_return (Inr ())) s2 =
      Done (Inr (), s')"
    by (auto simp: transmit_frame_def run_simps)
  from fin have "t = Inr ()" "s2 = s'" by (cases t; simp add: act_return_def)+
  with t have send: "data_transmit_request E dst f (take len buf) ack s1 = Done (Inr (), s')" by simp
  then have s': "nk_sent s' = nk_sent s1 @ [TxData dst f (take len buf) ack]" "nk_ctx s' = nk_ctx s1"
    by (auto simp: data_transmit_request_def Let_def split: if_splits)
  from make_encrypted_frame_Inr [OF enc body(1)] sm aux
  obtain wb where wb: "zero_writer wb (frame_body f eb)" and
    keys: "keys = update_first (\<lambda>k. sm_key_seq_number k = ?active) bump_counter ?keys" and
    we: "write_and_encrypt_in_place (ev_crypto E) (ev_wire E) ?level (replicate A_MAX_MAC_PAYLOAD_SIZE 0)
      (cd_write_aux (ev_codecs E) (nwk_aux_header ?level ?ext sm)) (nwk_aux_header ?level ?ext sm) (sm_key sm)
      (cd_write_header (ev_codecs E) (frame_header f)) wb = Done (Inr (buf, len))"
    by (metis option.inject)
  from aux have ea: "zero_writer (cd_write_aux (ev_codecs E) (nwk_aux_header ?level ?ext sm)) ea" "ea \<noteq> []"
    by (simp_all add: aux_law_def)
  have "length buf = 116"
    by (rule write_and_encrypt_shape [OF zero_writer_codec [OF hdr] ea(1) wb ea(2) C we])
      (simp add: A_MAX_MAC_PAYLOAD_SIZE_def)
  moreover have "decrypt_frame (ev_crypto E) (ev_wire E) (ev_codecs E) ?level rkeys (take len buf) =
      Done (Inr (f, True))"
    using body(3) by (intro encrypt_decrypt_frame [OF C hdr _ body(1,2) sm aux enc rm]) (simp_all add: is_secured_def)
  ultimately show ?thesis
    using s' s1 keys link.view_send [OF tx] by auto
qed

text \<open>C1. A secured data or command frame whose transmission succeeds is in the log exactly once, as
  at most 116 bytes, and a receiver with the same key and security level whose counter for the
  sender is not ahead (an equal one passes, so a replay does too) decrypts these bytes to the
  frame. The transmission changes no table, and of the keys only the counter of the active one,
  by one.\<close>
theorem transmit_frame_delivers:
  assumes C: "crypto_ok (ev_crypto E)"
    and hdr: "codec_law (cd_write_header (ev_codecs E)) (cd_read_header (ev_codecs E)) (frame_header f) eh"
    and body: "body_law (ev_codecs E) f eb" "frame_type_ok f" "is_secured f" "\<not> is_reserved f"
    and sm: "find_material (cx_active_key_seq_number (nk_ctx s)) (cx_security_material_set (nk_ctx s)) = Some sm"
    and aux: "aux_law (ev_codecs E)
      (nwk_aux_header (nwk_security_level (profile_params s)) (get_ext_addr s) sm) ea"
    and rm: "find_material (cx_active_key_seq_number (nk_ctx s)) rkeys = Some rm" "sm_key rm = sm_key sm"
      "\<And>i. find_incoming (get_ext_addr s) rm = Some i \<Longrightarrow> ifc_counter i \<le> sm_outgoing_frame_counter sm"
    and tx: "transmit_frame E f dst ack s = Done (Inr (), s')"
  shows "\<exists>p. nk_sent s' = nk_sent s @ [TxData dst f p ack] \<and> length p \<le> 116 \<and>
    decrypt_frame (ev_crypto E) (ev_wire E) (ev_codecs E) (nwk_security_level (profile_params s)) rkeys p =
      Done (Inr (f, True)) \<and>
    tables s' = tables s \<and>
    cx_security_material_set (nk_ctx s') =
      update_first (\<lambda>k. sm_key_seq_number k = cx_active_key_seq_number (nk_ctx s)) bump_counter
        (cx_security_material_set (nk_ctx s))"
  by (rule transmitted_frame_decrypts [OF assms])

section \<open>A concrete state\<close>

definition env_std :: env where
  "env_std = \<lparr> ev_crypto = crypto_std, ev_wire = wire_std, ev_codecs = codecs_std, ev_now = 1000,
     ev_tx = (\<lambda>n. True), ev_rand = (\<lambda>n. n) \<rparr>"

definition nwk_std :: nwk where
  "nwk_std = \<lparr> nk_mac = \<lparr> ms_short_address = Some 0x1001, ms_pan_id = Some 0x1a62,
       ms_extended_pan_id = Some 3, ms_ext_addr = 9, ms_rx_on_when_idle = True, ms_channel = Channel11,
       ms_seq_number = 0, ms_association_permit_timeout = 0 \<rparr>,
     nk_seq_number = 0,
     nk_ctx = (nwk_context_default 0)\<lparr> cx_security_material_set := [sm_std] \<rparr>,
     nk_rand = 0, nk_sent = [] \<rparr>"

lemma nwk_std_simps:
  "cx_active_key_seq_number (nk_ctx nwk_std) = 0" "cx_security_material_set (nk_ctx nwk_std) = [sm_std]"
  "get_ext_addr nwk_std = 9" "nwk_security_level (profile_params nwk_std) = EncMic32"
  "nk_sent nwk_std = []" "ms_pan_id (nk_mac nwk_std) = Some 0x1a62"
  "ms_short_address (nk_mac nwk_std) = Some 0x1001"
  by (simp_all add: nwk_std_def nwk_context_default_def get_ext_addr_def profile_params_def profile_defs)

lemma env_std_simps:
  "ev_crypto env_std = crypto_std" "ev_wire env_std = wire_std" "ev_codecs env_std = codecs_std"
  "ev_tx env_std n = True" "ev_now env_std = 1000" "ev_rand env_std n = n"
  by (simp_all add: env_std_def)

lemma data_std_reserved: "\<not> is_reserved data_std"
  by (simp add: is_reserved_def data_std_def)

lemma transmit_std: "\<exists>s'. transmit_frame env_std data_std 7 True nwk_std = Done (Inr (), s')"
proof -
  obtain nonce where "create_nonce wire_std aux_std = Done (Inr nonce)"
    using create_nonce_ex [OF wire_std_ok, of aux_std 9] by (auto simp: aux_std_def)
  then have "\<exists>buf len. write_and_encrypt_in_place crypto_std wire_std EncMic32
      (replicate A_MAX_MAC_PAYLOAD_SIZE 0) (cd_write_aux codecs_std aux_std) aux_std (sm_key sm_std)
      (cd_write_header codecs_std header_std) (write_slice [1, 2, 3]) = Done (Inr (buf, len))"
    by (simp add: A_MAX_MAC_PAYLOAD_SIZE_def write_and_encrypt_in_place_def aux_std_def codecs_std_def
        write_slice_def parse_error_def encrypt_in_place_def ccm_encrypt_def crypto_std_def Let_def
        numeral_eq_Suc)
  then show ?thesis
    by (auto simp: transmit_frame_def build_mac_payload_def build_mac_payload_with_def nwk_std_simps
        env_std_simps data_std_facts is_secured_def is_reserved_def data_std_def
        make_encrypted_frame_def sm_std_facts aux_std_eq data_transmit_request_def act_bind_def
        act_return_def Let_def)
qed

theorem transmit_frame_delivers_witness:
  "\<exists>s' p. transmit_frame env_std data_std 7 True nwk_std = Done (Inr (), s') \<and>
     nk_sent s' = [TxData 7 data_std p True] \<and>
     decrypt_frame crypto_std wire_std codecs_std EncMic32 [sm_std] p = Done (Inr (data_std, True))"
proof -
  obtain s' where tx: "transmit_frame env_std data_std 7 True nwk_std = Done (Inr (), s')"
    using transmit_std by blast
  have "\<exists>p. nk_sent s' = nk_sent nwk_std @ [TxData 7 data_std p True] \<and> length p \<le> 116 \<and>
    decrypt_frame (ev_crypto env_std) (ev_wire env_std) (ev_codecs env_std)
      (nwk_security_level (profile_params nwk_std)) [sm_std] p = Done (Inr (data_std, True)) \<and>
    tables s' = tables nwk_std \<and> cx_security_material_set (nk_ctx s') =
      update_first (\<lambda>k. sm_key_seq_number k = cx_active_key_seq_number (nk_ctx nwk_std)) bump_counter
        (cx_security_material_set (nk_ctx nwk_std))"
    by (rule transmit_frame_delivers [where eh = "[0x48, 0x02]" and eb = "[]" and sm = sm_std
          and ea = "[0x2d]" and rm = sm_std, OF _ _ _ _ _ _ _ _ _ _ _ tx])
      (simp_all add: nwk_std_simps env_std_simps crypto_std_ok header_std_law data_std_facts
        is_secured_def sm_std_facts aux_std_eq aux_std_law data_std_reserved)
  with tx show ?thesis by (auto simp: nwk_std_simps env_std_simps)
qed

end
