(* ===== verification/Nwk_Commands.thy ===== *)
theory Nwk_Commands
  imports Nwk_Context
begin

text \<open>
  The operations that build a command frame and transmit it: leave, network status, network
  report, rejoin request and response, end-device timeout request and response
  (\<open>nwk/commands\<close>). The handlers of received commands are in later theories.
\<close>

definition emit_leave_cmd ::
  "env \<Rightarrow> leave_cmd \<Rightarrow> nwk_addr \<Rightarrow> ext_addr option \<Rightarrow> transfer_result act" where
  "emit_leave_cmd E config dest dest_ext =
     act_bind (nwk_header_cmd True (if lv_request config then dest else BROADCAST_RX_ON_IDLE) dest_ext
       None None (Some 1)) (\<lambda>hdr.
     transmit_frame E (new_cmd_frame hdr (Leave config)) dest (is_unicast dest))"

definition send_network_status_cmd ::
  "env \<Rightarrow> nwk_addr \<Rightarrow> ext_addr option \<Rightarrow> network_status \<Rightarrow> transfer_result act" where
  "send_network_status_cmd E dest dest_ext status =
     act_bind (nwk_header_cmd True dest dest_ext None None None) (\<lambda>hdr.
     transmit_frame E (new_cmd_frame hdr (NetworkStatus status)) dest (\<not> is_broadcast dest))"

definition send_nwk_report_cmd :: "env \<Rightarrow> pan_id list \<Rightarrow> transfer_result act" where
  "send_nwk_report_cmd E pan_ids =
     act_bind (nwk_header_cmd True NWK_COORDINATOR_ADDRESS None None None None) (\<lambda>hdr.
     act_bind get_ext_pan_id (\<lambda>epid.
     transmit_frame E (new_cmd_frame hdr (NetworkReport \<lparr>
         nr_options = \<lparr> nro_count = of_nat (length pan_ids),
           nro_command_identifier = ReportPanIdentifierConflict \<rparr>,
         nr_extended_pan_id = epid, nr_pan_ids = pan_ids \<rparr>)) NWK_COORDINATOR_ADDRESS True))"

definition send_rejoin_response_cmd ::
  "env \<Rightarrow> nwk_addr \<Rightarrow> ext_addr \<Rightarrow> rejoin_response \<Rightarrow> transfer_result act" where
  "send_rejoin_response_cmd E dst ext_dst rsp =
     act_bind (nwk_header_cmd True dst (Some ext_dst) None None None) (\<lambda>hdr.
     transmit_frame E (new_cmd_frame hdr (RejoinResponse rsp)) dst True)"

text \<open>A device that waits to rejoin. With stochastic addresses it does not ask for one, and it sets
  the short address of the MAC to the value that it has.\<close>

definition send_rejoin_request_cmd ::
  "env \<Rightarrow> nwk_addr \<Rightarrow> ext_addr \<Rightarrow> zb_capabilities \<Rightarrow> transfer_result act" where
  "send_rejoin_request_cmd E dst ext_dst caps =
     act_bind (act_gets (\<lambda>s. if nwk_addr_alloc (profile_params s) = Stochastic
       then caps\<lparr> zc_allocate_address := False \<rparr> else caps)) (\<lambda>caps'.
     act_bind (nwk_header_cmd True dst (Some ext_dst) None None (Some 1)) (\<lambda>hdr.
     act_bind get_addr (\<lambda>addr.
     act_then (act_modify (\<lambda>s. s\<lparr> nk_mac := (nk_mac s)\<lparr> ms_short_address := Some addr \<rparr> \<rparr>))
     (transmit_frame E (new_cmd_frame hdr (RejoinRequest caps')) dst True))))"

definition build_end_device_timeout_request_cmd_frame ::
  "nwk_addr \<Rightarrow> ext_addr \<Rightarrow> u8 \<Rightarrow> nwk_addr \<Rightarrow> ext_addr option \<Rightarrow> device_timeout \<Rightarrow> nwk_frame" where
  "build_end_device_timeout_request_cmd_frame src src_ieee seq dst dst_ieee timeout =
     new_cmd_frame (nwk_header_cmd_no_ctx True src src_ieee dst dst_ieee None seq 1)
       (EndDeviceTimeoutRequest \<lparr> edt_requested_timeout = timeout, edt_end_device_configuration = 0 \<rparr>)"

definition send_end_device_timeout_request_cmd :: "env \<Rightarrow> device_timeout \<Rightarrow> transfer_result act" where
  "send_end_device_timeout_request_cmd E timeout =
     act_bind (act_gets nwk_parent) (\<lambda>parent.
     act_bind get_addr (\<lambda>addr.
     act_bind (act_gets get_ext_addr) (\<lambda>ext.
     act_bind get_next_seq_number (\<lambda>seq.
     transmit_frame E (build_end_device_timeout_request_cmd_frame addr ext seq
       (nb_nwk_addr parent) (nb_ext_addr parent) timeout) (nb_nwk_addr parent) True))))"

definition make_end_device_timeout_response_cmd ::
  "nwk_addr \<Rightarrow> ext_addr \<Rightarrow> end_device_timeout_status \<Rightarrow> nwk_frame act" where
  "make_end_device_timeout_response_cmd short ext status =
     act_bind (nwk_header_cmd True short (Some ext) None None (Some 1)) (\<lambda>hdr.
     act_return (new_cmd_frame hdr (EndDeviceTimeoutResponse \<lparr> edr_status = status,
       edr_parent_information = \<lparr> mac_data_poll_keepalive_supported = True,
         end_device_timeout_request_keepalive_supported = True,
         power_negotiation_supported = False \<rparr> \<rparr>)))"

definition send_end_device_timeout_response_cmd ::
  "env \<Rightarrow> nwk_addr \<Rightarrow> ext_addr \<Rightarrow> end_device_timeout_status \<Rightarrow> transfer_result act" where
  "send_end_device_timeout_response_cmd E short ext status =
     act_bind (make_end_device_timeout_response_cmd short ext status) (\<lambda>frame.
     transmit_frame E frame short True)"

section \<open>What a command does to the state\<close>

text \<open>An operation keeps every property that depends on the context of the network layer (without
  the counters of the keys) and on the MAC (without its sequence number) only.\<close>

definition quiet :: "(nwk \<Rightarrow> bool) \<Rightarrow> bool" where
  "quiet I \<longleftrightarrow> (\<forall>s s'. blank_counters (nk_ctx s') = blank_counters (nk_ctx s) \<and>
     (nk_mac s')\<lparr> ms_seq_number := 0 \<rparr> = (nk_mac s)\<lparr> ms_seq_number := 0 \<rparr> \<and> I s \<longrightarrow> I s')"

lemma keeps_transmit [keeps_rules]: "quiet I \<Longrightarrow> keeps I (transmit_frame E f dst ack)"
  by (rule link.keeps_send) (unfold quiet_def tables_def, blast)

lemma keeps_seq [keeps_rules]: "quiet I \<Longrightarrow> keeps I get_next_seq_number"
  by (rule keepsI) (auto simp: get_next_seq_number_def quiet_def)

lemma keeps_random [keeps_rules]: "quiet I \<Longrightarrow> keeps I (random_range E lo hi)"
  by (rule keepsI) (auto simp: random_range_def quiet_def split: if_splits)

lemma keeps_associate_response [keeps_rules]: "quiet I \<Longrightarrow> keeps I (associate_response E p x st)"
  by (rule keepsI) (auto simp: associate_response_def quiet_def Let_def split: if_splits)

lemma keeps_header [keeps_rules]:
  "quiet I \<Longrightarrow> keeps I (nwk_header_new ft sec d dst di si sr src seq r)"
  "quiet I \<Longrightarrow> keeps I (nwk_header_cmd sec dst di sr seq r)"
  by (simp_all add: nwk_header_cmd_def nwk_header_new_def keeps_rules)

lemma keeps_commands [keeps_rules]:
  assumes "quiet I"
  shows "keeps I (emit_leave_cmd E c d x)" "keeps I (send_network_status_cmd E d x st)"
    "keeps I (send_nwk_report_cmd E ps)" "keeps I (send_rejoin_response_cmd E d e rsp)"
    "keeps I (send_end_device_timeout_request_cmd E t)"
    "keeps I (send_end_device_timeout_response_cmd E d e es)"
  using assms
  by (simp_all add: emit_leave_cmd_def send_network_status_cmd_def send_nwk_report_cmd_def
      send_rejoin_response_cmd_def send_end_device_timeout_request_cmd_def
      send_end_device_timeout_response_cmd_def make_end_device_timeout_response_cmd_def keeps_rules)

end
