(* ===== verification/Routing.thy ===== *)
theory Routing
  imports Nwk_Commands
begin

text \<open>
  Routing of data frames (\<open>nwk/service/routing.rs\<close>, \<open>nwk/service/transmission.rs\<close>): the address
  arithmetic of tree routing, the four ways to find a next hop, multicast, address assignment and
  address conflicts. \<open>todo!()\<close> is a panic.
\<close>

section \<open>Tree addresses\<close>

definition c_skip :: "stack_profile_params \<Rightarrow> u8 \<Rightarrow> u32 run" where
  "c_skip p d8 =
     (let cm = ucast (nwk_max_children p); lm = ucast (nwk_max_depth p);
          rm = ucast (nwk_max_routers p); d = ucast d8
      in if rm = 1 then
           run_bind (chk_sub lm d) (\<lambda>a. run_bind (chk_sub a 1) (\<lambda>b.
           run_bind (chk_mul cm b) (\<lambda>c. chk_add 1 c)))
         else
           run_bind (chk_add 1 cm) (\<lambda>a. run_bind (chk_sub a rm) (\<lambda>b.
           run_bind (chk_sub lm d) (\<lambda>e. run_bind (chk_sub e 1) (\<lambda>k.
           run_bind (chk_pow rm k) (\<lambda>q. run_bind (chk_mul cm q) (\<lambda>r.
           run_bind (chk_sub b r) (\<lambda>num. run_bind (chk_sub 1 rm) (\<lambda>den.
           chk_div num den)))))))))"

definition distributed_nwk_is_descendant ::
  "stack_profile_params \<Rightarrow> u8 \<Rightarrow> nwk_addr \<Rightarrow> nwk_addr \<Rightarrow> bool run" where
  "distributed_nwk_is_descendant p depth parent child =
     (let pa = (ucast parent :: u32); ch = ucast child in
      run_bind (chk_sub depth 1) (\<lambda>d. run_bind (c_skip p d) (\<lambda>c. run_bind (chk_add pa c) (\<lambda>lim.
      Done (ch < lim \<and> pa < ch)))))"

definition tree_routing_next_hop :: "nwk_addr \<Rightarrow> nwk_addr act" where
  "tree_routing_next_hop addr =
     act_bind (act_gets profile_params) (\<lambda>p.
     act_bind (act_gets (\<lambda>s. cx_depth (nk_ctx s))) (\<lambda>depth.
     act_bind get_addr (\<lambda>self.
     act_bind (act_run (distributed_nwk_is_descendant p depth self addr)) (\<lambda>down.
     if down then
       (let rm = ucast (nwk_max_routers p); a = (ucast addr :: u32); sl = ucast self in
        act_bind (act_run (run_bind (c_skip p depth) (chk_mul rm))) (\<lambda>span.
        act_bind (act_run (chk_add sl span)) (\<lambda>lim.
        if lim < a then act_return addr
        else
          act_run (run_bind (chk_add sl 1) (\<lambda>first. run_bind (chk_sub a first) (\<lambda>off.
            run_bind (c_skip p depth) (\<lambda>c. run_bind (chk_div off c) (\<lambda>q.
            run_bind (chk_mul q c) (\<lambda>t. run_bind (chk_add first t) (\<lambda>hop.
            Done (ucast hop)))))))))))
     else act_gets (\<lambda>s. nb_nwk_addr (nwk_parent s))))))"

text \<open>
  \<open>get_distributed_network_routing_address\<close> with its loop over the routers. It ends because
  \<open>c_skip\<close> panics at the maximal depth.
\<close>

lemma unat_up [simp]: "unat (ucast (x :: u8) :: u32) = unat x"
  by (simp add: unsigned_ucast_eq take_bit_nat_eq_self_iff unsigned_less [THEN order_less_trans])

lemma unat_up16 [simp]: "unat (ucast (x :: u16) :: u32) = unat x"
  by (simp add: unsigned_ucast_eq take_bit_nat_eq_self_iff unsigned_less [THEN order_less_trans])

lemma c_skip_depth: "c_skip p d = Done c \<Longrightarrow> unat d < unat (nwk_max_depth p)"
proof -
  assume "c_skip p d = Done c"
  then obtain e where e: "chk_sub (ucast (nwk_max_depth p) :: u32) (ucast d) = Done e" "1 \<le> e"
    by (auto simp: c_skip_def Let_def run_simps split: if_splits)
  then have e: "(ucast d :: u32) \<le> ucast (nwk_max_depth p)" "e = ucast (nwk_max_depth p) - ucast d"
    by (auto simp: chk_sub_def split: if_splits)
  have "unat (ucast (nwk_max_depth p) - ucast d :: u32) = unat (nwk_max_depth p) - unat d"
    using e(1) by (subst unat_sub) simp_all
  with e(2) \<open>1 \<le> e\<close> show ?thesis by (simp add: word_le_nat_alt)
qed

declare run_bind_cong [fundef_cong]

function routing_address_at :: "stack_profile_params \<Rightarrow> u8 \<Rightarrow> u32 \<Rightarrow> u32 \<Rightarrow> nwk_addr option run"
  and routing_address_loop ::
    "stack_profile_params \<Rightarrow> u8 \<Rightarrow> u32 \<Rightarrow> u32 \<Rightarrow> nat \<Rightarrow> nwk_addr option run" where
  "routing_address_at p depth parent addr =
     (if addr = parent then Done (Some (ucast parent))
      else run_bind (c_skip p depth) (\<lambda>c. run_bind (chk_mul c (ucast (nwk_max_routers p))) (\<lambda>span.
        run_bind (chk_add parent span) (\<lambda>lim.
        run_bind (chk_sub (ucast (nwk_max_children p)) (ucast (nwk_max_routers p))) (\<lambda>leaves.
        run_bind (chk_add lim leaves) (\<lambda>max_addr.
        if max_addr < addr then Done None
        else if lim < addr then Done (Some (ucast parent))
        else routing_address_loop p depth parent addr 0))))))"
| "routing_address_loop p depth parent addr n =
     (if n < unat (nwk_max_routers p) then
        run_bind (c_skip p depth) (\<lambda>c. run_bind (chk_mul c (of_nat n)) (\<lambda>o1.
        run_bind (chk_add parent o1) (\<lambda>o2. run_bind (chk_add o2 1) (\<lambda>parent'.
        run_bind (chk_add depth 1) (\<lambda>depth'.
        run_bind (routing_address_at p depth' parent' addr) (\<lambda>r. case r of
          Some a \<Rightarrow> Done (Some a)
        | None \<Rightarrow> routing_address_loop p depth parent addr (Suc n)))))))
      else Done None)"
  by pat_completeness auto

termination
proof (relation "inv_image (less_than <*lex*> less_than <*lex*> less_than)
    (\<lambda>x. case x of Inl (p, d, _, _) \<Rightarrow> (256 - unat d, 1, 0)
       | Inr (p, d, _, _, n) \<Rightarrow> (256 - unat d, 0, 256 - n))")
  fix p :: stack_profile_params and depth depth' :: u8 and parent addr parent' :: u32 and n :: nat
    and c o1 o2 :: u32
  assume "chk_add depth 1 = Done depth'"
  from chk_add_Done_unat [OF this] unsigned_less [of depth', where ?'a = nat]
  show "(Inl (p, depth', parent', addr), Inr (p, depth, parent, addr, n)) \<in>
      inv_image (less_than <*lex*> less_than <*lex*> less_than)
    (\<lambda>x. case x of Inl (p, d, _, _) \<Rightarrow> (256 - unat d, 1, 0)
       | Inr (p, d, _, _, n) \<Rightarrow> (256 - unat d, 0, 256 - n))" by simp
next
  fix p :: stack_profile_params and depth :: u8 and parent addr :: u32 and n
  assume "n < unat (nwk_max_routers p)"
  then show "(Inr (p, depth, parent, addr, Suc n), Inr (p, depth, parent, addr, n)) \<in>
      inv_image (less_than <*lex*> less_than <*lex*> less_than)
    (\<lambda>x. case x of Inl (p, d, _, _) \<Rightarrow> (256 - unat d, 1, 0)
       | Inr (p, d, _, _, n) \<Rightarrow> (256 - unat d, 0, 256 - n))"
    using unsigned_less [of "nwk_max_routers p", where ?'a = nat] by auto
qed auto

declare routing_address_at.simps [simp del] routing_address_loop.simps [simp del]

definition get_routing_address_for_address :: "nwk_addr \<Rightarrow> nwk_addr act" where
  "get_routing_address_for_address addr =
     act_bind (act_gets profile_params) (\<lambda>p. case nwk_addr_alloc p of
       Distributed \<Rightarrow> act_run (run_bind (routing_address_at p 0 0 (ucast addr)) unwrap_run)
     | Stochastic \<Rightarrow> act_return addr)"

section \<open>The route table\<close>

definition route_key :: "nwk_addr \<Rightarrow> bool \<Rightarrow> route_entry_key act" where
  "route_key a g = act_gets (\<lambda>s. route_entry_key_new (profile_params s) a g)"

definition route_get :: "route_entry_key \<Rightarrow> route_entry option act" where
  "route_get k = act_gets (\<lambda>s. im_get k (cx_route_table (nk_ctx s)))"

definition route_modify :: "route_entry_key \<Rightarrow> (route_entry \<Rightarrow> route_entry) \<Rightarrow> unit act" where
  "route_modify k f = ctx_update (\<lambda>c. c\<lparr> cx_route_table := im_modify k f (cx_route_table c) \<rparr>)"

definition route_upsert ::
  "route_entry_key \<Rightarrow> (route_entry \<Rightarrow> route_entry) \<Rightarrow> route_entry \<Rightarrow> bool act" where
  "route_upsert k f v s =
     (case im_upsert ROUTE_TABLE_CAP k f v (cx_route_table (nk_ctx s)) of
        Some t \<Rightarrow> Done (True, s\<lparr> nk_ctx := (nk_ctx s)\<lparr> cx_route_table := t \<rparr> \<rparr>)
      | None \<Rightarrow> Done (False, s))"

definition route_cleanup :: "env \<Rightarrow> unit act" where
  "route_cleanup E = ctx_update (\<lambda>c. c\<lparr> cx_route_table := route_table_cleanup (ev_now E) (cx_route_table c) \<rparr>)"

section \<open>Finding the next hop\<close>

definition df_destination :: "data_frame \<Rightarrow> nwk_addr" where
  "df_destination d = nh_destination (df_header d)"

definition try_unicast_direct_relay :: "env \<Rightarrow> data_frame \<Rightarrow> transfer_result option act" where
  "try_unicast_direct_relay E d =
     act_bind (act_gets (\<lambda>s. map_option nb_nwk_addr (find (\<lambda>nb. nb_nwk_addr nb = df_destination d \<and>
       nb_device_type nb = EndDevice \<and> nb_relationship nb = Child) (neighbors s)))) (\<lambda>child.
     case child of
       Some dst \<Rightarrow>
         act_bind (route_key dst False) (\<lambda>k.
         act_then (route_upsert k (\<lambda>r. r\<lparr> re_next_hop_addr := dst \<rparr>)
           \<lparr> re_status = RouteActive, re_no_route_cache = False, re_many_to_one = False,
             re_next_hop_addr = dst, re_is_group = False, re_route_record_required = False,
             re_discovery = [] \<rparr>)
         (act_bind (transmit_frame E (Data d) dst True) (\<lambda>r. act_return (Some r))))
     | None \<Rightarrow>
         act_bind (get_routing_address_for_address (df_destination d)) (\<lambda>ra.
         act_bind (act_gets (\<lambda>s. find (\<lambda>nb. nb_nwk_addr nb = ra) (neighbors s) \<noteq> None)) (\<lambda>known.
         if known then act_bind (transmit_frame E (Data d) ra True) (\<lambda>r. act_return (Some r))
         else act_return None)))"

definition try_unicast_tree_routing :: "env \<Rightarrow> data_frame \<Rightarrow> transfer_result option act" where
  "try_unicast_tree_routing E d =
     act_bind (act_gets profile_params) (\<lambda>p.
     if nwk_use_tree_routing p then
       act_bind (tree_routing_next_hop (df_destination d)) (\<lambda>hop.
       act_bind (transmit_frame E (Data (df_header_update (nh_control_update
         (fc_route_discovery_update (\<lambda>_. Suppress))) d)) hop True) (\<lambda>r. act_return (Some r)))
     else act_return None)"

definition try_unicast_route_table :: "env \<Rightarrow> data_frame \<Rightarrow> transfer_result option act" where
  "try_unicast_route_table E d =
     act_bind (get_routing_address_for_address (df_destination d)) (\<lambda>ra.
     act_bind get_addr (\<lambda>slf.
     act_bind (route_key ra False) (\<lambda>k.
     act_bind (route_get k) (\<lambda>route. case route of
       None \<Rightarrow> act_return None
     | Some r \<Rightarrow>
         if route_usable (re_status r) then
           act_then (route_modify k (\<lambda>r. r\<lparr> re_status := RouteActive \<rparr>))
           (act_bind (transmit_frame E (Data d) (re_next_hop_addr r) True) (\<lambda>t. act_return (Some t)))
         else if re_status r = DiscoveryUnderway then act_return None
         else try_unicast_tree_routing E d))))"

definition try_source_routing :: "env \<Rightarrow> data_frame \<Rightarrow> transfer_result option act" where
  "try_source_routing E d =
     act_bind (get_routing_address_for_address (df_destination d)) (\<lambda>ra.
     act_bind (route_key ra False) (\<lambda>k.
     act_bind (route_get k) (\<lambda>route.
     act_bind (act_gets (\<lambda>s. find (\<lambda>r. rr_network_address r = ra) (cx_route_record_table (nk_ctx s)))) (\<lambda>rec.
     case (case route of Some r \<Rightarrow> route_usable (re_status r) | None \<Rightarrow> False, rec) of
       (False, Some r) \<Rightarrow>
         if length (rr_path r) < NWK_MAX_SOURCE_ROUTE then
           (if rr_path r = [] then
              act_bind (transmit_frame E (Data d) ra True) (\<lambda>t. act_return (Some t))
            else
              act_bind (transmit_frame E (Data (df_header_update (nh_source_route_update (\<lambda>_. Some
                \<lparr> sr_relay_count = of_nat (length (rr_path r)),
                  sr_relay_index = of_nat (length (rr_path r) - 1),
                  sr_relay_list = rr_path r \<rparr>)) d)) (last (rr_path r)) True) (\<lambda>t. act_return (Some t)))
         else act_return None
     | _ \<Rightarrow> act_return None))))"

definition or_else :: "'a option act \<Rightarrow> 'a act \<Rightarrow> 'a act" where
  "or_else m n = act_bind m (\<lambda>r. case r of Some x \<Rightarrow> act_return x | None \<Rightarrow> n)"

definition route_unicast_frame :: "env \<Rightarrow> data_frame \<Rightarrow> transfer_result act" where
  "route_unicast_frame E d =
     or_else (try_unicast_direct_relay E d)
     (act_bind (act_gets (\<lambda>s. rt_is_full (cx_route_table (nk_ctx s)))) (\<lambda>full.
      if \<not> full then
        or_else (try_unicast_route_table E d)
        (or_else (try_source_routing E d) (act_return (Inl TransferRouteError)))
      else or_else (try_unicast_tree_routing E d) (act_return (Inl TransferRouteError))))"

definition set_multicast_mode :: "multicast_mode \<Rightarrow> data_frame \<Rightarrow> data_frame" where
  "set_multicast_mode m =
     df_header_update (nh_multicast_control_update (map_option (mcc_multicast_mode_update (\<lambda>_. m))))"

definition btt_update :: "(transaction_record list \<Rightarrow> transaction_record list) \<Rightarrow> unit act" where
  "btt_update f = ctx_update (\<lambda>c. c\<lparr> cx_broadcast_transaction_table := f (cx_broadcast_transaction_table c) \<rparr>)"

definition record_of :: "env \<Rightarrow> stack_profile_params \<Rightarrow> data_frame \<Rightarrow> transaction_record" where
  "record_of E p d = \<lparr> tr_source_address = nh_source (df_header d),
     tr_sequence_number = nh_sequence_number (df_header d),
     tr_expiration_time = ev_now E + broadcast_delivery_time p \<rparr>"

definition route_multicast_frame :: "env \<Rightarrow> data_frame \<Rightarrow> (transfer_result \<times> data_frame) act" where
  "route_multicast_frame E d =
     act_bind (act_gets (\<lambda>s. df_destination d \<in> set (cx_group_table (nk_ctx s)))) (\<lambda>member.
     if member then
       (let d' = set_multicast_mode Member d in
        act_then (btt_update (filter (\<lambda>t. ev_now E \<le> tr_expiration_time t)))
        (act_bind (act_gets profile_params) (\<lambda>p.
         act_then (btt_update (\<lambda>t. t @ [record_of E p d']))
         (act_bind (transmit_frame E (Data d') BROADCAST_ALL False) (\<lambda>r. act_return (r, d'))))))
     else
       (let d' = set_multicast_mode NonMember d in
        act_bind (route_key (df_destination d') True) (\<lambda>k.
        act_bind (route_get k) (\<lambda>route.
        if (case route of Some r \<Rightarrow> route_usable (re_status r) | None \<Rightarrow> False) then
          (let hop = re_next_hop_addr (the route) in
           act_then (route_modify k (\<lambda>r. r\<lparr> re_status := RouteActive \<rparr>))
           (act_bind (transmit_frame E (Data d') hop True) (\<lambda>r. act_return (r, d'))))
        else if fc_route_discovery (nh_control (df_header d')) \<noteq> Enable then
          act_return (Inl RouteDiscoveryFailed, d')
        else act_panic))))"

section \<open>Sending data\<close>

record data_frame_config =
  dc_dst_address :: nwk_addr
  dc_alias :: "(nwk_addr \<times> u8) option"
  dc_radius :: "u8 option"
  dc_discover_route :: bool
  dc_security_disable :: bool

definition build_data_frame :: "bytes \<Rightarrow> data_frame_config \<Rightarrow> data_frame act" where
  "build_data_frame nsdu c =
     act_bind get_addr (\<lambda>addr.
     act_bind (case dc_alias c of
         None \<Rightarrow> act_bind get_next_seq_number (\<lambda>q. act_return (addr, q))
       | Some alias \<Rightarrow> act_return alias) (\<lambda>(src, seq).
     act_bind (nwk_header_new DataFrame (\<not> dc_security_disable c) (dc_discover_route c)
       (dc_dst_address c) None None None (Some src) (Some seq) (dc_radius c)) (\<lambda>hdr.
     act_return \<lparr> df_header = hdr, df_payload = nsdu \<rparr>)))"

definition transmit_data_frame_routing ::
  "env \<Rightarrow> bytes \<Rightarrow> data_frame_config \<Rightarrow> transfer_result act" where
  "transmit_data_frame_routing E nsdu c =
     act_bind (build_data_frame nsdu c) (\<lambda>d.
     if fc_multicast (nh_control (df_header d)) then
       act_bind (route_multicast_frame E d) (\<lambda>(r, _). act_return r)
     else if is_unicast (df_destination d) then route_unicast_frame E d
     else transmit_frame E (Data d) (dc_dst_address c) False)"

definition transmit_data_frame_end_device ::
  "env \<Rightarrow> bytes \<Rightarrow> data_frame_config \<Rightarrow> transfer_result act" where
  "transmit_data_frame_end_device E nsdu c =
     act_bind (build_data_frame nsdu c) (\<lambda>d.
     act_bind (act_gets nwk_parent) (\<lambda>parent.
     transmit_frame E (Data d) (nb_nwk_addr parent) True))"

section \<open>Addresses\<close>

text \<open>The address is in use in one of the tables that \<open>assign_child_address\<close> looks at.\<close>

definition addr_in_use :: "nwk_addr \<Rightarrow> nwk_context \<Rightarrow> nwk_addr \<Rightarrow> bool" where
  "addr_in_use slf cx a \<longleftrightarrow>
     slf = a \<or> (\<exists>(k, r) \<in> set (cx_route_table cx). re_next_hop_addr r = a) \<or>
     (\<exists>r \<in> set (cx_route_record_table cx). rr_network_address r = a \<or> a \<in> set (rr_path r)) \<or>
     (\<exists>t \<in> set (cx_broadcast_transaction_table cx). tr_source_address t = a) \<or>
     find_by_short_addr a (cx_neighbors cx) \<noteq> None \<or> im_contains a (cx_addr_map cx)"

definition drawn_addr :: "env \<Rightarrow> nat \<Rightarrow> nwk_addr" where
  "drawn_addr E n = of_nat (1 + ev_rand E n mod (unat MAX_NON_BROADCAST - 1))"

text \<open>The loop draws until an address is free; \<open>None\<close> is a loop that does not end.\<close>

partial_function (option) assign_loop :: "env \<Rightarrow> (nwk_addr \<Rightarrow> bool) \<Rightarrow> nat \<Rightarrow> (nwk_addr \<times> nat) option" where
  "assign_loop E used n =
     (let a = drawn_addr E n in if used a then assign_loop E used (Suc n) else Some (a, Suc n))"

text \<open>Of the operation itself \<open>Panic\<close> says that it neither returns an address nor a state: a loop that does
  not end, or the \<open>todo!()\<close> of the distributed allocation. Which of the two it is, is settled by
  \<open>assign_loop\<close> and the profile.\<close>

definition assign_child_address :: "env \<Rightarrow> nwk_addr act" where
  "assign_child_address E s =
     (case nwk_addr_alloc (profile_params s) of
        Stochastic \<Rightarrow>
          run_bind (get_addr s) (\<lambda>(slf, _).
          (case assign_loop E (addr_in_use slf (nk_ctx s)) (nk_rand s) of
             Some (a, n) \<Rightarrow> Done (a, s\<lparr> nk_rand := n \<rparr>)
           | None \<Rightarrow> Panic))
      | Distributed \<Rightarrow> Panic)"

definition addr_map_update :: "(addr_map \<Rightarrow> addr_map) \<Rightarrow> unit act" where
  "addr_map_update f = ctx_update (\<lambda>c. c\<lparr> cx_addr_map := f (cx_addr_map c) \<rparr>)"

definition detect_addr_conflict_self :: "env \<Rightarrow> nwk_header \<Rightarrow> bool act" where
  "detect_addr_conflict_self E hdr =
     act_bind get_addr (\<lambda>_. case nh_source_ieee hdr of
       None \<Rightarrow> act_return False
     | Some src_ieee \<Rightarrow>
         act_bind (act_gets (\<lambda>s. im_upsert ADDR_MAP_CAP (nh_source hdr) (\<lambda>e. e) src_ieee
           (cx_addr_map (nk_ctx s)))) (\<lambda>m. case m of
         None \<Rightarrow> act_return False
       | Some m' \<Rightarrow>
           act_then (addr_map_update (\<lambda>_. m'))
           (if im_get (nh_source hdr) m' \<noteq> Some src_ieee then
              act_then (send_network_status_cmd E BROADCAST_RX_ON_IDLE None (AddressConflict (nh_source hdr)))
                (act_return True)
            else act_return False)))"

text \<open>The router's version tests whether a neighbor has the short address; the comparison of its
  extended address is computed but the code asks only whether there was one to compare.\<close>

definition handle_addr_conflict_routing :: "env \<Rightarrow> nwk_header \<Rightarrow> bool act" where
  "handle_addr_conflict_routing E hdr =
     act_bind (detect_addr_conflict_self E hdr) (\<lambda>c.
     if c then act_return True
     else case nh_source_ieee hdr of
       None \<Rightarrow> act_return False
     | Some e \<Rightarrow> act_gets (\<lambda>s. map_option (\<lambda>nb. nb_ext_addr nb = Some e)
         (find_by_short_addr (nh_source hdr) (cx_neighbors (nk_ctx s))) \<noteq> None))"

definition is_address_conflict :: "nwk_addr \<Rightarrow> ext_addr \<Rightarrow> bool \<Rightarrow> bool act" where
  "is_address_conflict a e check_self =
     act_bind (if check_self then act_bind get_addr (\<lambda>slf. act_return (slf = a)) else act_return False) (\<lambda>own.
     if own then act_return True
     else act_gets (\<lambda>s. case im_get a (cx_addr_map (nk_ctx s)) of
         Some x \<Rightarrow> x \<noteq> e
       | None \<Rightarrow> (case find_by_short_addr a (cx_neighbors (nk_ctx s)) of
           Some nb \<Rightarrow> nb_ext_addr nb = Some e | None \<Rightarrow> False)))"

section \<open>Facts on the address arithmetic\<close>

lemma unat_lm_d:
  "unat d < unat lm \<Longrightarrow> unat (ucast lm - ucast (d :: u8) :: u32) = unat (lm :: u8) - unat d"
  by (subst unat_sub) (simp_all add: word_le_nat_alt)

lemma u8_less: "unat (x :: u8) < 256"
  using unsigned_less [of x, where ?'a = nat] by simp

lemma c_skip_steps:
  assumes "unat (d :: u8) < unat (nwk_max_depth p)"
  shows "run_bind (chk_sub (ucast (nwk_max_depth p) :: u32) (ucast d)) (\<lambda>a. chk_sub a 1) =
    Done (of_nat (unat (nwk_max_depth p) - unat d - 1))"
proof -
  let ?e = "ucast (nwk_max_depth p) - ucast d :: u32"
  have e: "unat ?e = unat (nwk_max_depth p) - unat d" by (rule unat_lm_d [OF assms])
  with assms have "1 \<le> ?e" by (simp add: word_le_nat_alt)
  moreover have "?e - 1 = of_nat (unat ?e - 1)"
    using \<open>1 \<le> ?e\<close> by (metis of_nat_unat ucast_id unat_1 unat_sub)
  moreover have "ucast d \<le> (ucast (nwk_max_depth p) :: u32)" using assms by (simp add: word_le_nat_alt)
  ultimately show ?thesis using e by (simp add: chk_sub_def)
qed

lemma c_skip_deep: "unat (nwk_max_depth p) \<le> unat d \<Longrightarrow> c_skip p d = Panic"
  using c_skip_depth [of p d] by (cases "c_skip p d") auto

lemma of_nat_u32_bounds: "n < 2 ^ 32 \<Longrightarrow> unat (of_nat n :: u32) = n"
  by (simp add: unat_of_nat)

lemma c_skip_routers:
  assumes "nwk_max_routers p \<noteq> 0" and "nwk_max_routers p \<noteq> 1"
  shows "c_skip p d = Panic"
proof (cases "c_skip p d")
  case (Done c)
  have "unat (nwk_max_routers p) \<noteq> 0" "unat (nwk_max_routers p) \<noteq> 1"
    using assms by (metis unat_eq_zero, metis unat_1 word_unat_eq_iff)
  then have rm: "(1 :: u32) < ucast (nwk_max_routers p)" by (simp add: word_less_nat_alt)
  then have "ucast (nwk_max_routers p) \<noteq> (1 :: u32)" by (metis order_less_irrefl)
  note rm = rm this
  from Done rm(2) obtain z where "chk_sub (1 :: u32) (ucast (nwk_max_routers p)) = Done z"
    by (auto simp: c_skip_def Let_def run_simps simp del: chk_sub_Done)
  with rm(1) show ?thesis by (simp add: chk_sub_def split: if_splits)
qed simp

lemma c_skip_one:
  assumes "nwk_max_routers p = 1" and "unat d < unat (nwk_max_depth p)"
  shows "c_skip p d =
    Done (of_nat (1 + unat (nwk_max_children p) * (unat (nwk_max_depth p) - unat d - 1)))"
proof -
  let ?k = "unat (nwk_max_depth p) - unat d - 1"
  have k: "?k < 256" using u8_less [of "nwk_max_depth p"] by linarith
  then have "unat (nwk_max_children p) * ?k \<le> 255 * 255"
    using u8_less [of "nwk_max_children p"] by (intro mult_mono) auto
  moreover have "unat (of_nat ?k :: u32) = ?k" using k by (simp add: unat_of_nat)
  ultimately show ?thesis
    using c_skip_steps [OF assms(2)] assms(1)
    by (auto simp: c_skip_def Let_def chk_mul_def chk_add_def unat_word_ariths run_simps
        run_bind_assoc [symmetric])
qed

lemma c_skip_zero:
  assumes "nwk_max_routers p = 0" and "unat d < unat (nwk_max_depth p)"
  shows "c_skip p d =
    Done (if unat (nwk_max_depth p) - unat d = 1 then 1 else 1 + of_nat (unat (nwk_max_children p)))"
proof -
  let ?k = "unat (nwk_max_depth p) - unat d - 1" and ?cm = "ucast (nwk_max_children p) :: u32"
  have cm: "unat ?cm < 256" using u8_less [of "nwk_max_children p"] by simp
  have k: "unat (of_nat ?k :: u32) = ?k"
    using u8_less [of "nwk_max_depth p"] by (simp add: unat_of_nat)
  have add: "chk_add 1 ?cm = Done (1 + ?cm)" "unat (1 + ?cm) = 1 + unat ?cm"
    using cm by (simp_all add: chk_add_def unat_word_ariths)
  have pow: "chk_pow (0 :: u32) (of_nat ?k) = Done (if ?k = 0 then 1 else 0)"
    using k by (simp add: chk_pow_def power_0_left)
  have "c_skip p d = run_bind (run_bind (chk_sub (ucast (nwk_max_depth p) :: u32) (ucast d))
      (\<lambda>a. chk_sub a 1)) (\<lambda>k. run_bind (chk_pow 0 k) (\<lambda>q. run_bind (chk_mul ?cm q) (\<lambda>r.
      run_bind (chk_sub (1 + ?cm) r) (\<lambda>num. chk_div num 1))))"
    using assms(1) add by (simp add: c_skip_def Let_def chk_sub_def run_bind_assoc)
  also have "\<dots> = run_bind (chk_mul ?cm (if ?k = 0 then 1 else 0)) (\<lambda>r.
      run_bind (chk_sub (1 + ?cm) r) (\<lambda>num. chk_div num 1))"
    unfolding c_skip_steps [OF assms(2)] run_bind.simps pow ..
  also have "\<dots> = Done (if ?k = 0 then 1 else 1 + ?cm)"
  proof (cases "?k = 0")
    case True
    have "?cm \<le> 1 + ?cm" using add(2) by (simp add: word_le_nat_alt)
    then show ?thesis using True cm by (simp add: chk_mul_def chk_sub_def chk_div_def)
  qed (simp add: chk_mul_def chk_sub_def chk_div_def)
  finally show ?thesis using assms(2) by (auto simp: of_nat_unat)
qed

section \<open>Properties\<close>

text \<open>The address block of a router's child: with one router per node it is \<open>1 + cm (lm - d - 1)\<close>,
  with none it is \<open>1 + cm\<close>, or \<open>1\<close> above the leaves, and the function panics at or below the
  maximal depth and whenever a node may have two or more routers, as in the Zigbee profile.\<close>
theorem c_skip_correct:
  "c_skip p d =
     (if unat (nwk_max_depth p) \<le> unat d \<or> 1 < unat (nwk_max_routers p) then Panic
      else if nwk_max_routers p = 1
        then Done (of_nat (1 + unat (nwk_max_children p) * (unat (nwk_max_depth p) - unat d - 1)))
      else Done (if unat (nwk_max_depth p) - unat d = 1 then 1 else of_nat (1 + unat (nwk_max_children p)))) \<and>
   c_skip ZIGBEE_STACK_PROFILE d = Panic"
proof -
  consider "unat (nwk_max_depth p) \<le> unat d" | "unat d < unat (nwk_max_depth p)" "1 < unat (nwk_max_routers p)"
    | "unat d < unat (nwk_max_depth p)" "nwk_max_routers p = 1"
    | "unat d < unat (nwk_max_depth p)" "nwk_max_routers p = 0"
    by (metis less_one linorder_less_linear not_less unat_1 unat_0 word_unat_eq_iff)
  then have "c_skip p d =
     (if unat (nwk_max_depth p) \<le> unat d \<or> 1 < unat (nwk_max_routers p) then Panic
      else if nwk_max_routers p = 1
        then Done (of_nat (1 + unat (nwk_max_children p) * (unat (nwk_max_depth p) - unat d - 1)))
      else Done (if unat (nwk_max_depth p) - unat d = 1 then 1 else of_nat (1 + unat (nwk_max_children p))))"
  proof cases
    case 2
    then have "nwk_max_routers p \<noteq> 0" "nwk_max_routers p \<noteq> 1" by auto
    with 2 show ?thesis by (simp add: c_skip_routers)
  qed (simp_all add: c_skip_deep c_skip_one c_skip_zero)
  moreover have "c_skip ZIGBEE_STACK_PROFILE d = Panic"
    by (rule c_skip_routers) (simp_all add: ZIGBEE_STACK_PROFILE_def)
  ultimately show ?thesis by blast
qed

section \<open>The invariant of the tables\<close>

text \<open>
  The route table and the address map are well formed, and no two neighbors have the same
  extended address. Every operation of the network layer keeps it.
\<close>

definition nwk_ok :: "nwk \<Rightarrow> bool" where
  "nwk_ok s \<longleftrightarrow> rt_ok (cx_route_table (nk_ctx s)) \<and> im_ok ADDR_MAP_CAP (cx_addr_map (nk_ctx s)) \<and>
     nbs_unique (cx_neighbors (nk_ctx s))"

lemma quiet_nwk_ok [simp]: "quiet nwk_ok"
  unfolding quiet_def
proof (intro allI impI, elim conjE)
  fix s s' :: nwk
  assume eq: "blank_counters (nk_ctx s') = blank_counters (nk_ctx s)"
    and ok: "nwk_ok s"
  have "cx_route_table (nk_ctx s') = cx_route_table (nk_ctx s)"
    "cx_addr_map (nk_ctx s') = cx_addr_map (nk_ctx s)"
    "cx_neighbors (nk_ctx s') = cx_neighbors (nk_ctx s)"
    using arg_cong [OF eq, of cx_route_table] arg_cong [OF eq, of cx_addr_map]
      arg_cong [OF eq, of cx_neighbors] by simp_all
  with ok show "nwk_ok s'" by (simp add: nwk_ok_def)
qed

lemma keeps_ok_ctx:
  "(\<And>c. rt_ok (cx_route_table c) \<Longrightarrow> im_ok ADDR_MAP_CAP (cx_addr_map c) \<Longrightarrow> nbs_unique (cx_neighbors c) \<Longrightarrow>
     rt_ok (cx_route_table (f c)) \<and> im_ok ADDR_MAP_CAP (cx_addr_map (f c)) \<and> nbs_unique (cx_neighbors (f c))) \<Longrightarrow>
   keeps nwk_ok (ctx_update f)"
  by (auto simp: ctx_update_def nwk_ok_def intro!: keeps_modify)

lemma keeps_ok_rand [keeps_rules]: "keeps nwk_ok (assign_child_address E)"
  by (rule keepsI)
    (auto simp: assign_child_address_def run_simps nwk_ok_def split: addr_alloc_method.splits option.splits)

lemma keeps_ok_btt [keeps_rules]: "keeps nwk_ok (btt_update f)"
  by (auto simp: btt_update_def intro!: keeps_ok_ctx)

lemma keeps_ok_route_cleanup [keeps_rules]: "keeps nwk_ok (route_cleanup E)"
  by (auto simp: route_cleanup_def rt_ok_cleanup intro!: keeps_ok_ctx)

lemma keeps_ok_route_modify [keeps_rules]:
  "(\<And>r. route_ok r \<Longrightarrow> route_ok (f r)) \<Longrightarrow> keeps nwk_ok (route_modify k f)"
  by (auto simp: route_modify_def rt_ok_modify intro!: keeps_ok_ctx)

lemma keeps_ok_route_upsert [keeps_rules]:
  assumes "\<And>r. route_ok r \<Longrightarrow> route_ok (f r)" and "route_ok v" and "rk_addr k = BROADCAST_ALL"
  shows "keeps nwk_ok (route_upsert k f v)"
  using assms by (intro keepsI) (auto simp: route_upsert_def nwk_ok_def split: option.splits intro: rt_ok_upsert)

lemma keeps_ok_addr_insert [keeps_rules]: "keeps nwk_ok (addr_map_update (am_insert n e))"
  by (auto simp: addr_map_update_def am_insert_ok intro!: keeps_ok_ctx)

lemma keeps_ok_neighbors [keeps_rules]:
  "(\<And>t. nbs_unique t \<Longrightarrow> nbs_unique (f t)) \<Longrightarrow> keeps nwk_ok (neighbors_update f)"
  by (auto simp: neighbors_update_def intro!: keeps_ok_ctx)

lemma keeps_route_reads [keeps_rules]:
  "keeps I (route_get k)" "keeps I (get_routing_address_for_address a)" "keeps I (tree_routing_next_hop a)"
  by (simp_all add: route_get_def get_routing_address_for_address_def tree_routing_next_hop_def
      keeps_rules Let_def split: addr_alloc_method.splits)

lemma keeps_or_else [keeps_rules]: "keeps I m \<Longrightarrow> keeps I n \<Longrightarrow> keeps I (or_else m n)"
  by (simp add: or_else_def keeps_rules)

lemma keeps_with_key:
  "(\<And>k. rk_addr k = BROADCAST_ALL \<Longrightarrow> keeps I (f k)) \<Longrightarrow> keeps I (act_bind (route_key a g) f)"
  by (rule keepsI) (simp add: route_key_def act_bind_def act_gets_def, metis keepsD rk_new(1))

lemma route_ok_simps [simp]:
  "route_ok (r\<lparr> re_status := st \<rparr>) = route_ok r" "route_ok (r\<lparr> re_next_hop_addr := a \<rparr>) = route_ok r"
  "route_ok (r\<lparr> re_route_record_required := b \<rparr>) = route_ok r"
  "route_ok \<lparr> re_status = st, re_no_route_cache = b1, re_many_to_one = b2, re_next_hop_addr = a,
     re_is_group = g, re_route_record_required = b3, re_discovery = [] \<rparr>"
  by (simp_all add: route_ok_def)

lemma keeps_ok_routing [keeps_rules]:
  "keeps nwk_ok (try_unicast_direct_relay E d)" "keeps nwk_ok (try_unicast_tree_routing E d)"
  "keeps nwk_ok (try_unicast_route_table E d)" "keeps nwk_ok (try_source_routing E d)"
  "keeps nwk_ok (route_unicast_frame E d)" "keeps nwk_ok (route_multicast_frame E d)"
proof -
  show direct: "keeps nwk_ok (try_unicast_direct_relay E d)"
    unfolding try_unicast_direct_relay_def
    by (intro keeps_rules keeps_with_key) simp_all
  show tree: "keeps nwk_ok (try_unicast_tree_routing E d)"
    unfolding try_unicast_tree_routing_def by (intro keeps_rules) simp_all
  show table: "keeps nwk_ok (try_unicast_route_table E d)"
    unfolding try_unicast_route_table_def by (intro keeps_rules keeps_with_key tree) simp_all
  show source: "keeps nwk_ok (try_source_routing E d)"
    unfolding try_source_routing_def
    by (intro keeps_rules keeps_with_key) (auto intro!: keeps_rules split: bool.splits option.splits)
  show "keeps nwk_ok (route_unicast_frame E d)"
    unfolding route_unicast_frame_def by (intro keeps_rules direct tree table source)
  show "keeps nwk_ok (route_multicast_frame E d)"
    unfolding route_multicast_frame_def Let_def by (intro keeps_rules keeps_with_key) simp_all
qed

lemma keeps_ok_conflict [keeps_rules]: "keeps I (is_address_conflict a e c)"
  by (simp add: is_address_conflict_def keeps_rules)

text \<open>
  The next hop as the network layer promises it: an end-device child, then a neighbor, then the
  route table, then a source route of fewer than twelve relays.
\<close>

datatype next_hop = ChildHop | NeighborHop | RouteHop nwk_addr | SourceDirect
  | SourceHop "nwk_addr list" | NoHop

definition the_route :: "nwk_context \<Rightarrow> route_entry option" where
  "the_route cx = im_get \<lparr> rk_addr = BROADCAST_ALL, rk_is_group = False \<rparr> (cx_route_table cx)"

definition unicast_next_hop :: "nwk_context \<Rightarrow> nwk_addr \<Rightarrow> next_hop" where
  "unicast_next_hop cx a =
     (let ns = nt_neighbors (cx_neighbors cx) in
      if \<exists>nb\<in>set ns. nb_nwk_addr nb = a \<and> nb_device_type nb = EndDevice \<and> nb_relationship nb = Child
      then ChildHop
      else if \<exists>nb\<in>set ns. nb_nwk_addr nb = a then NeighborHop
      else case the_route cx of
          Some r \<Rightarrow> if re_status r = RouteActive \<or> re_status r = ValidationUnderway
            then RouteHop (re_next_hop_addr r)
            else (case find (\<lambda>r. rr_network_address r = a) (cx_route_record_table cx) of
                Some q \<Rightarrow> if rr_path q = [] then SourceDirect
                  else if length (rr_path q) < 12 then SourceHop (rr_path q) else NoHop
              | None \<Rightarrow> NoHop)
        | None \<Rightarrow> (case find (\<lambda>r. rr_network_address r = a) (cx_route_record_table cx) of
                Some q \<Rightarrow> if rr_path q = [] then SourceDirect
                  else if length (rr_path q) < 12 then SourceHop (rr_path q) else NoHop
              | None \<Rightarrow> NoHop))"

text \<open>
  The frame the comment in \<open>try_source_routing\<close> demands: the subframe is present and the source route
  flag of the frame control field is set. The frame the code sends: it has the subframe, but its frame
  control field is the one of the frame it was made from.
\<close>

definition source_routed :: "nwk_addr list \<Rightarrow> data_frame \<Rightarrow> data_frame" where
  "source_routed path d = df_header_update
     (nh_control_update (fc_source_route_update (\<lambda>_. True)) \<circ> nh_source_route_update (\<lambda>_. Some
       \<lparr> sr_relay_count = of_nat (length path), sr_relay_index = of_nat (length path - 1),
         sr_relay_list = path \<rparr>)) d"

definition with_source_route :: "nwk_addr list \<Rightarrow> data_frame \<Rightarrow> data_frame" where
  "with_source_route path d = df_header_update (nh_source_route_update (\<lambda>_. Some
     \<lparr> sr_relay_count = of_nat (length path), sr_relay_index = of_nat (length path - 1),
       sr_relay_list = path \<rparr>)) d"

lemma with_source_route_flag:
  "source_routed path d = df_header_update (nh_control_update (fc_source_route_update (\<lambda>_. True))) (with_source_route path d)"
  "header_consistent (df_header d) \<Longrightarrow> header_consistent (df_header (source_routed path d))"
  "\<not> fc_source_route (nh_control (df_header d)) \<Longrightarrow> \<not> header_consistent (df_header (with_source_route path d))"
  "fc_source_route (nh_control (df_header d)) \<Longrightarrow> with_source_route path d = source_routed path d"
  by (simp_all add: source_routed_def with_source_route_def header_consistent_def)

definition set_route :: "(route_entry \<Rightarrow> route_entry) \<Rightarrow> route_entry \<Rightarrow> nwk \<Rightarrow> nwk" where
  "set_route f v s = s\<lparr> nk_ctx := (nk_ctx s)\<lparr> cx_route_table :=
     im_set \<lparr> rk_addr = BROADCAST_ALL, rk_is_group = False \<rparr>
       (case the_route (nk_ctx s) of Some r \<Rightarrow> f r | None \<Rightarrow> v) (cx_route_table (nk_ctx s)) \<rparr> \<rparr>"

definition fresh_route :: "nwk_addr \<Rightarrow> route_entry" where
  "fresh_route a = \<lparr> re_status = RouteActive, re_no_route_cache = False, re_many_to_one = False,
     re_next_hop_addr = a, re_is_group = False, re_route_record_required = False, re_discovery = [] \<rparr>"

lemma or_else_Some: "m s = Done (Some x, s') \<Longrightarrow> or_else m n s = Done (x, s')"
  by (simp add: or_else_def act_bind_def act_return_def)

lemma or_else_None: "m s = Done (None, s') \<Longrightarrow> or_else m n s = n s'"
  by (simp add: or_else_def act_bind_def)

lemma or_else_send:
  "m s = act_bind t (\<lambda>r. act_return (Some r)) s0 \<Longrightarrow> or_else m n s = t s0"
  by (cases "t s0") (auto simp: or_else_def act_bind_def act_return_def)

text \<open>A router of a ZigbeePRO network with an address.\<close>

definition pro_router :: "nwk \<Rightarrow> bool" where
  "pro_router s \<longleftrightarrow> cx_profile (nk_ctx s) = ZigbeePro \<and> rt_ok (cx_route_table (nk_ctx s)) \<and>
     ms_short_address (nk_mac s) \<noteq> None"

lemma pro_params:
  "pro_router s \<Longrightarrow> nwk_addr_alloc (profile_params s) = Stochastic"
  "pro_router s \<Longrightarrow> \<not> nwk_use_tree_routing (profile_params s)"
  by (simp_all add: profile_params_def pro_router_def ZIGBEE_PRO_STACK_PROFILE_def)

lemma pro_routing_address:
  "pro_router s \<Longrightarrow> get_routing_address_for_address a s = Done (a, s)"
  by (simp add: get_routing_address_for_address_def act_defs pro_params)

lemma direct_child:
  assumes pro: "pro_router s" and hop: "unicast_next_hop (nk_ctx s) (df_destination d) = ChildHop"
  shows "try_unicast_direct_relay E d s = act_bind (transmit_frame E (Data d) (df_destination d) True)
    (\<lambda>r. act_return (Some r)) (set_route (re_next_hop_addr_update (\<lambda>_. df_destination d))
      (fresh_route (df_destination d)) s)"
proof -
  obtain nb where nb: "find (\<lambda>nb. nb_nwk_addr nb = df_destination d \<and> nb_device_type nb = EndDevice \<and>
      nb_relationship nb = Child) (neighbors s) = Some nb"
    using hop
    by (cases "find (\<lambda>nb. nb_nwk_addr nb = df_destination d \<and> nb_device_type nb = EndDevice \<and>
        nb_relationship nb = Child) (neighbors s)")
      (auto simp: unicast_next_hop_def Let_def neighbors_def find_None_prop
        split: if_splits option.splits)
  from find_Some_prop [OF nb] have "nb_nwk_addr nb = df_destination d" by simp
  moreover have "\<not> im_is_full ROUTE_TABLE_CAP (cx_route_table (nk_ctx s))"
    using pro rt_not_full by (simp add: rt_is_full_def pro_router_def)
  ultimately show ?thesis
    using nb by (auto simp: try_unicast_direct_relay_def act_defs route_key_def route_entry_key_new_def
        route_upsert_def im_upsert_def im_insert_def im_contains_def set_route_def the_route_def
        fresh_route_def split: option.splits)
qed

lemma direct_neighbor:
  assumes pro: "pro_router s" and hop: "unicast_next_hop (nk_ctx s) (df_destination d) = NeighborHop"
  shows "try_unicast_direct_relay E d s =
    act_bind (transmit_frame E (Data d) (df_destination d) True) (\<lambda>r. act_return (Some r)) s"
proof -
  from hop have "find (\<lambda>nb. nb_nwk_addr nb = df_destination d \<and> nb_device_type nb = EndDevice \<and>
      nb_relationship nb = Child) (neighbors s) = None"
    "find (\<lambda>nb. nb_nwk_addr nb = df_destination d) (neighbors s) \<noteq> None"
    by (auto simp: unicast_next_hop_def Let_def neighbors_def find_None_prop
        split: if_splits option.splits)
  then show ?thesis
    using pro_routing_address [OF pro] by (simp add: try_unicast_direct_relay_def act_defs)
qed

lemma direct_none:
  assumes pro: "pro_router s" and hop: "unicast_next_hop (nk_ctx s) (df_destination d) \<notin> {ChildHop, NeighborHop}"
  shows "try_unicast_direct_relay E d s = Done (None, s)"
    and "\<not> (\<exists>nb\<in>set (neighbors s). nb_nwk_addr nb = df_destination d)"
proof -
  from hop show none: "\<not> (\<exists>nb\<in>set (neighbors s). nb_nwk_addr nb = df_destination d)"
    by (auto simp: unicast_next_hop_def Let_def neighbors_def split: if_splits)
  then have "find (\<lambda>nb. nb_nwk_addr nb = df_destination d \<and> nb_device_type nb = EndDevice \<and>
      nb_relationship nb = Child) (neighbors s) = None"
    "find (\<lambda>nb. nb_nwk_addr nb = df_destination d) (neighbors s) = None"
    by (auto simp: find_None_prop)
  then show "try_unicast_direct_relay E d s = Done (None, s)"
    using pro_routing_address [OF pro] by (simp add: try_unicast_direct_relay_def act_defs)
qed

lemma table_hop:
  assumes pro: "pro_router s" and route: "the_route (nk_ctx s) = Some r" and "route_usable (re_status r)"
  shows "try_unicast_route_table E d s = act_bind (transmit_frame E (Data d) (re_next_hop_addr r) True)
    (\<lambda>r. act_return (Some r)) (set_route (re_status_update (\<lambda>_. RouteActive)) undefined s)"
  using route assms(3) pro pro_routing_address [OF pro]
  by (auto simp: pro_router_def try_unicast_route_table_def act_defs route_key_def route_entry_key_new_def get_addr_def
      unwrap_run_def route_get_def route_modify_def the_route_def im_modify_def set_route_def)

lemma table_none:
  assumes pro: "pro_router s" and route: "\<And>r. the_route (nk_ctx s) = Some r \<Longrightarrow> \<not> route_usable (re_status r)"
  shows "try_unicast_route_table E d s = Done (None, s)"
  using route pro pro_routing_address [OF pro] pro_params [OF pro]
  by (auto simp: pro_router_def try_unicast_route_table_def try_unicast_tree_routing_def act_defs route_key_def
      route_entry_key_new_def get_addr_def unwrap_run_def route_get_def the_route_def split: option.splits)

lemma source_hop:
  assumes pro: "pro_router s" and route: "\<And>r. the_route (nk_ctx s) = Some r \<Longrightarrow> \<not> route_usable (re_status r)"
  shows "try_source_routing E d s =
    (case find (\<lambda>r. rr_network_address r = df_destination d) (cx_route_record_table (nk_ctx s)) of
       None \<Rightarrow> Done (None, s)
     | Some q \<Rightarrow>
         if rr_path q = [] then
           act_bind (transmit_frame E (Data d) (df_destination d) True) (\<lambda>r. act_return (Some r)) s
         else if length (rr_path q) < 12 then
           act_bind (transmit_frame E (Data (with_source_route (rr_path q) d)) (last (rr_path q)) True)
             (\<lambda>r. act_return (Some r)) s
         else Done (None, s))"
proof -
  from route have "(case the_route (nk_ctx s) of Some r \<Rightarrow> route_usable (re_status r) | None \<Rightarrow> False) = False"
    by (auto split: option.splits)
  then show ?thesis
    using pro_routing_address [OF pro]
    by (auto simp: try_source_routing_def act_defs route_key_def route_entry_key_new_def route_get_def
        the_route_def NWK_MAX_SOURCE_ROUTE_def with_source_route_def split: option.splits)
qed

text \<open>C2. On a ZigbeePRO router a unicast frame goes to the next hop of the specification: it is sent
  to the child, the neighbor, the shared route's next hop, the destination or the last relay, with
  the route entered or refreshed, and without a next hop it fails and nothing changes. The frame it
  sends along a source route is not the one the specification demands: it has the relays, but the
  source route flag only if the frame had it before; otherwise flag and subframe contradict each
  other, which with the flag set they never would. The route does not depend on the destination: any
  two destinations that are no neighbors and have no source route have the same next hop.\<close>
theorem route_unicast_frame_refines:
  assumes pro: "pro_router s"
  shows "route_unicast_frame E d s =
     (let a = df_destination d in
      case unicast_next_hop (nk_ctx s) a of
        ChildHop \<Rightarrow> transmit_frame E (Data d) a True
          (set_route (re_next_hop_addr_update (\<lambda>_. a)) (fresh_route a) s)
      | NeighborHop \<Rightarrow> transmit_frame E (Data d) a True s
      | RouteHop h \<Rightarrow> transmit_frame E (Data d) h True
          (set_route (re_status_update (\<lambda>_. RouteActive)) undefined s)
      | SourceDirect \<Rightarrow> transmit_frame E (Data d) a True s
      | SourceHop path \<Rightarrow> transmit_frame E (Data (with_source_route path d)) (last path) True s
      | NoHop \<Rightarrow> Done (Inl TransferRouteError, s)) \<and>
    (\<forall>path. source_routed path d =
         df_header_update (nh_control_update (fc_source_route_update (\<lambda>_. True))) (with_source_route path d) \<and>
       (header_consistent (df_header d) \<longrightarrow> header_consistent (df_header (source_routed path d)) \<and>
         (header_consistent (df_header (with_source_route path d)) \<longleftrightarrow> fc_source_route (nh_control (df_header d))))) \<and>
    (\<forall>a b. {a, b} \<inter> nb_nwk_addr ` set (neighbors s) = {} \<and>
       {a, b} \<inter> rr_network_address ` set (cx_route_record_table (nk_ctx s)) = {} \<longrightarrow>
       unicast_next_hop (nk_ctx s) a = unicast_next_hop (nk_ctx s) b)"
proof (intro conjI)
  let ?a = "df_destination d" let ?h = "unicast_next_hop (nk_ctx s) ?a"
  from pro have full: "\<not> rt_is_full (cx_route_table (nk_ctx s))"
    using rt_not_full by (simp add: pro_router_def)
  have rest: "route_unicast_frame E d s =
      or_else (try_unicast_route_table E d)
        (or_else (try_source_routing E d) (act_return (Inl TransferRouteError))) s"
    if "?h \<notin> {ChildHop, NeighborHop}"
    unfolding route_unicast_frame_def
    using or_else_None [where m = "try_unicast_direct_relay E d" and s = s, OF direct_none(1) [OF pro that]] full
    by (simp add: act_bind_def act_gets_def)
  have source: "route_unicast_frame E d s =
      (case find (\<lambda>r. rr_network_address r = ?a) (cx_route_record_table (nk_ctx s)) of
         None \<Rightarrow> Done (Inl TransferRouteError, s)
       | Some q \<Rightarrow> if rr_path q = [] then transmit_frame E (Data d) ?a True s
           else if length (rr_path q) < 12
             then transmit_frame E (Data (with_source_route (rr_path q) d)) (last (rr_path q)) True s
           else Done (Inl TransferRouteError, s))"
    if "?h \<notin> {ChildHop, NeighborHop}"
      and unusable: "\<And>r. the_route (nk_ctx s) = Some r \<Longrightarrow> \<not> route_usable (re_status r)"
  proof -
    have "or_else (try_unicast_route_table E d) n s = n s" for n
      using or_else_None [where m = "try_unicast_route_table E d" and s = s, OF table_none [OF pro unusable]] .
    with source_hop [OF pro unusable, of E d] show ?thesis
      by (auto simp: rest [OF that(1)] act_return_def
          intro: or_else_send [where m = "try_source_routing E d"]
            or_else_None [where m = "try_source_routing E d", THEN trans] split: option.splits)
  qed
  show "route_unicast_frame E d s = (let a = ?a in case unicast_next_hop (nk_ctx s) a of
        ChildHop \<Rightarrow> transmit_frame E (Data d) a True
          (set_route (re_next_hop_addr_update (\<lambda>_. a)) (fresh_route a) s)
      | NeighborHop \<Rightarrow> transmit_frame E (Data d) a True s
      | RouteHop h \<Rightarrow> transmit_frame E (Data d) h True
          (set_route (re_status_update (\<lambda>_. RouteActive)) undefined s)
      | SourceDirect \<Rightarrow> transmit_frame E (Data d) a True s
      | SourceHop path \<Rightarrow> transmit_frame E (Data (with_source_route path d)) (last path) True s
      | NoHop \<Rightarrow> Done (Inl TransferRouteError, s))"
  proof (cases "?h = ChildHop \<or> ?h = NeighborHop")
    case True
    then show ?thesis
      using or_else_send [where m = "try_unicast_direct_relay E d" and s = s, OF direct_child [OF pro]]
        or_else_send [where m = "try_unicast_direct_relay E d" and s = s, OF direct_neighbor [OF pro]]
      by (auto simp: route_unicast_frame_def Let_def)
  next
    case other: False
    note no_nb = direct_none(2) [OF pro, of d]
    show ?thesis
    proof (cases "\<exists>r. the_route (nk_ctx s) = Some r \<and> route_usable (re_status r)")
      case True
      then obtain r where r: "the_route (nk_ctx s) = Some r" "route_usable (re_status r)" by blast
      with other no_nb have "?h = RouteHop (re_next_hop_addr r)"
        by (auto simp: unicast_next_hop_def Let_def route_usable_def neighbors_def)
      then show ?thesis 
        using rest other
          or_else_send [where m = "try_unicast_route_table E d" and s = s, OF table_hop [OF pro r]] by simp
    next
      case False
      then have "\<And>r. the_route (nk_ctx s) = Some r \<Longrightarrow> \<not> route_usable (re_status r)" by blast
      with source other no_nb show ?thesis
        by (auto simp: unicast_next_hop_def Let_def route_usable_def neighbors_def
            split: option.splits if_splits)
    qed
  qed
  show "\<forall>path. source_routed path d =
         df_header_update (nh_control_update (fc_source_route_update (\<lambda>_. True))) (with_source_route path d) \<and>
       (header_consistent (df_header d) \<longrightarrow> header_consistent (df_header (source_routed path d)) \<and>
         (header_consistent (df_header (with_source_route path d)) \<longleftrightarrow> fc_source_route (nh_control (df_header d))))"
    by (metis with_source_route_flag)
  show "\<forall>a b. {a, b} \<inter> nb_nwk_addr ` set (neighbors s) = {} \<and>
       {a, b} \<inter> rr_network_address ` set (cx_route_record_table (nk_ctx s)) = {} \<longrightarrow>
       unicast_next_hop (nk_ctx s) a = unicast_next_hop (nk_ctx s) b"
  proof (intro allI impI)
    fix a b
    assume *: "{a, b} \<inter> nb_nwk_addr ` set (neighbors s) = {} \<and>
      {a, b} \<inter> rr_network_address ` set (cx_route_record_table (nk_ctx s)) = {}"
    then have "find (\<lambda>r. rr_network_address r = x) (cx_route_record_table (nk_ctx s)) = None"
      if "x \<in> {a, b}" for x using that by (auto simp: find_None_prop)
    with * show "unicast_next_hop (nk_ctx s) a = unicast_next_hop (nk_ctx s) b"
      by (auto simp: unicast_next_hop_def Let_def neighbors_def split: option.splits)
  qed
qed

lemma pro_router_std: "pro_router nwk_std"
  by (simp add: pro_router_def nwk_std_def nwk_context_default_def)

theorem route_unicast_frame_refines_witness:
  "pro_router nwk_std \<and>
   route_unicast_frame env_std \<lparr> df_header = header_std, df_payload = [] \<rparr> nwk_std =
     Done (Inl TransferRouteError, nwk_std)"
proof -
  have "unicast_next_hop (nk_ctx nwk_std) a = NoHop" for a
    by (simp add: unicast_next_hop_def Let_def nwk_std_def nwk_context_default_def
        neighbor_table_default_def neighbor_table_new_def the_route_def)
  with route_unicast_frame_refines [OF pro_router_std, of env_std "\<lparr> df_header = header_std, df_payload = [] \<rparr>"]
  show ?thesis using pro_router_std by (simp add: Let_def)
qed

section \<open>Address assignment\<close>

definition first_free :: "env \<Rightarrow> (nwk_addr \<Rightarrow> bool) \<Rightarrow> nat \<Rightarrow> nwk_addr \<times> nat \<Rightarrow> bool" where
  "first_free E used n r \<longleftrightarrow> (\<exists>k\<ge>n. r = (drawn_addr E k, Suc k) \<and> \<not> used (drawn_addr E k) \<and>
     (\<forall>j. n \<le> j \<and> j < k \<longrightarrow> used (drawn_addr E j)))"

lemma first_free_Suc: "used (drawn_addr E n) \<Longrightarrow> first_free E used (Suc n) r \<Longrightarrow> first_free E used n r"
  unfolding first_free_def by (metis Suc_leD le_antisym not_less_eq_eq)

lemma assign_loop_Some:
  assumes "assign_loop E used n = Some r"
  shows "first_free E used n r"
proof (rule assign_loop.raw_induct [where P = first_free, OF _ assms])
  fix loop E used n r
  assume IH: "\<And>E used n r. loop E used n = Some r \<Longrightarrow> first_free E used n r"
    and step: "(let a = drawn_addr E n in if used a then loop E used (Suc n) else Some (a, Suc n)) = Some r"
  show "first_free E used n r"
  proof (cases "used (drawn_addr E n)")
    case True
    with step IH first_free_Suc show ?thesis by (simp add: Let_def)
  qed (use step in \<open>auto simp: Let_def first_free_def\<close>)
qed

lemma assign_loop_free: "\<not> used (drawn_addr E (n + k)) \<Longrightarrow> \<exists>r. assign_loop E used n = Some r"
proof (induction k arbitrary: n)
  case (Suc k)
  from Suc.prems Suc.IH [of "Suc n"] show ?case
    by (subst assign_loop.simps) (auto simp: Let_def)
qed (subst assign_loop.simps, simp add: Let_def)

lemma drawn_addr_range: "1 \<le> drawn_addr E n \<and> drawn_addr E n < 0xfff6"
proof -
  have less: "1 + ev_rand E n mod 0xfff5 < 0xfff6" by simp
  have "unat (of_nat m :: u16) = m" if "m < 0xfff6" for m using that by (simp add: unat_of_nat)
  from this [OF less] have "unat (drawn_addr E n) = 1 + ev_rand E n mod 0xfff5"
    by (simp add: drawn_addr_def MAX_NON_BROADCAST_def)
  then show ?thesis using less by (simp add: word_le_nat_alt word_less_nat_alt)
qed

text \<open>A ZigbeePRO router assigns the first drawn address that no table uses, neither a broadcast
  address nor that of the coordinator, and changes nothing but the generator; it returns if and
  only if such an address is ever drawn. With distributed addresses the assignment panics.\<close>
theorem assign_child_address_correct:
  assumes "ms_short_address (nk_mac s) = Some slf"
  shows "(cx_profile (nk_ctx s) = ZigbeePro \<longrightarrow>
      (\<forall>a s'. assign_child_address E s = Done (a, s') \<longleftrightarrow>
        (\<exists>k\<ge>nk_rand s. a = drawn_addr E k \<and> s' = s\<lparr> nk_rand := Suc k \<rparr> \<and> \<not> addr_in_use slf (nk_ctx s) a \<and>
          (\<forall>j. nk_rand s \<le> j \<and> j < k \<longrightarrow> addr_in_use slf (nk_ctx s) (drawn_addr E j)))) \<and>
      ((\<exists>r. assign_child_address E s = Done r) \<longleftrightarrow>
        (\<exists>k\<ge>nk_rand s. \<not> addr_in_use slf (nk_ctx s) (drawn_addr E k)))) \<and>
    (cx_profile (nk_ctx s) = Zigbee \<longrightarrow> assign_child_address E s = Panic) \<and>
    1 \<le> drawn_addr E n \<and> is_unicast (drawn_addr E n)"
proof -
  let ?used = "addr_in_use slf (nk_ctx s)"
  have pro: "assign_child_address E s = (case assign_loop E ?used (nk_rand s) of
      Some (a, n) \<Rightarrow> Done (a, s\<lparr> nk_rand := n \<rparr>) | None \<Rightarrow> Panic)"
    if "cx_profile (nk_ctx s) = ZigbeePro"
    using that assms by (simp add: assign_child_address_def profile_params_def ZIGBEE_PRO_STACK_PROFILE_def
        get_addr_def unwrap_run_def act_defs)
  have first: "assign_loop E ?used (nk_rand s) = Some (drawn_addr E k, Suc k)"
    if "nk_rand s \<le> k" "\<not> ?used (drawn_addr E k)"
      "\<forall>j. nk_rand s \<le> j \<and> j < k \<longrightarrow> ?used (drawn_addr E j)" for k
  proof -
    from that(1,2) obtain r where r: "assign_loop E ?used (nk_rand s) = Some r"
      using assign_loop_free [of ?used E "nk_rand s" "k - nk_rand s"] by auto
    from assign_loop_Some [OF r, unfolded first_free_def] that have "r = (drawn_addr E k, Suc k)"
      by (metis linorder_neqE_nat)
    with r show ?thesis by simp
  qed
  have "assign_child_address E s = Done (a, s') \<longleftrightarrow>
      (\<exists>k\<ge>nk_rand s. a = drawn_addr E k \<and> s' = s\<lparr> nk_rand := Suc k \<rparr> \<and> \<not> ?used a \<and>
        (\<forall>j. nk_rand s \<le> j \<and> j < k \<longrightarrow> ?used (drawn_addr E j)))"
    if "cx_profile (nk_ctx s) = ZigbeePro" for a s'
  proof
    assume "assign_child_address E s = Done (a, s')"
    with pro [OF that] obtain n where r: "assign_loop E ?used (nk_rand s) = Some (a, n)" "s' = s\<lparr> nk_rand := n \<rparr>"
      by (auto split: option.splits)
    from assign_loop_Some [OF r(1), unfolded first_free_def] r(2) show "\<exists>k\<ge>nk_rand s. a = drawn_addr E k \<and>
      s' = s\<lparr> nk_rand := Suc k \<rparr> \<and> \<not> ?used a \<and>
      (\<forall>j. nk_rand s \<le> j \<and> j < k \<longrightarrow> ?used (drawn_addr E j))" by auto
  next
    assume "\<exists>k\<ge>nk_rand s. a = drawn_addr E k \<and> s' = s\<lparr> nk_rand := Suc k \<rparr> \<and> \<not> ?used a \<and>
        (\<forall>j. nk_rand s \<le> j \<and> j < k \<longrightarrow> ?used (drawn_addr E j))"
    then show "assign_child_address E s = Done (a, s')" using first pro [OF that] by auto
  qed
  moreover have "(\<exists>r. assign_child_address E s = Done r) \<longleftrightarrow> (\<exists>k\<ge>nk_rand s. \<not> ?used (drawn_addr E k))"
    if "cx_profile (nk_ctx s) = ZigbeePro"
  proof
    assume "\<exists>r. assign_child_address E s = Done r"
    then show "\<exists>k\<ge>nk_rand s. \<not> ?used (drawn_addr E k)"
      using pro [OF that] assign_loop_Some [of E ?used "nk_rand s", unfolded first_free_def]
      by (force split: option.splits)
  next
    assume "\<exists>k\<ge>nk_rand s. \<not> ?used (drawn_addr E k)"
    then obtain k where "\<not> ?used (drawn_addr E (nk_rand s + k))" by (metis le_add_diff_inverse)
    from assign_loop_free [where used = ?used, OF this] show "\<exists>r. assign_child_address E s = Done r"
      using pro [OF that] by auto
  qed
  moreover have "cx_profile (nk_ctx s) = Zigbee \<longrightarrow> assign_child_address E s = Panic"
    by (simp add: assign_child_address_def profile_params_def ZIGBEE_STACK_PROFILE_def)
  moreover have "is_unicast (drawn_addr E n)"
  proof -
    have "drawn_addr E n < 0xfff6" using drawn_addr_range by blast
    also have "(0xfff6 :: u16) < 0xfff7" by simp
    finally show ?thesis by (simp add: is_unicast_def is_broadcast_def)
  qed
  ultimately show ?thesis using drawn_addr_range [of E n] by blast
qed

theorem assign_child_address_correct_witness:
  "\<exists>r. assign_child_address env_std nwk_std = Done r"
proof -
  have addr: "ms_short_address (nk_mac nwk_std) = Some 0x1001" by (simp add: nwk_std_simps)
  have "\<not> addr_in_use 0x1001 (nk_ctx nwk_std) (drawn_addr env_std 0)"
    by (simp add: addr_in_use_def nwk_std_def nwk_context_default_def neighbor_table_default_def
        neighbor_table_new_def find_by_short_addr_def im_contains_def drawn_addr_def env_std_def)
  moreover have "nk_rand nwk_std \<le> 0" "cx_profile (nk_ctx nwk_std) = ZigbeePro"
    by (simp_all add: nwk_std_def nwk_context_default_def)
  ultimately show ?thesis
    using assign_child_address_correct [OF addr, of env_std 0] by blast
qed

lemma zigbee_c_skip: "c_skip ZIGBEE_STACK_PROFILE d = Panic"
  by (rule c_skip_routers) (simp_all add: ZIGBEE_STACK_PROFILE_def)

text \<open>Under the Zigbee profile tree routing never gives a next hop: its address arithmetic
  panics, and so does the routing of a unicast frame to any address but the coordinator's that is
  not an end-device child.\<close>
theorem zigbee_profile_routing_panics:
  assumes "cx_profile (nk_ctx s) = Zigbee"
  shows "tree_routing_next_hop a s = Panic \<and>
    (a \<noteq> 0 \<longrightarrow> get_routing_address_for_address a s = Panic) \<and>
    (df_destination d \<noteq> 0 \<and>
       (\<forall>nb\<in>set (neighbors s). nb_nwk_addr nb = df_destination d \<longrightarrow>
          nb_device_type nb \<noteq> EndDevice \<or> nb_relationship nb \<noteq> Child) \<longrightarrow>
       route_unicast_frame E d s = Panic)"
proof -
  have p: "profile_params s = ZIGBEE_STACK_PROFILE" using assms by (simp add: profile_params_def)
  have descendant: "distributed_nwk_is_descendant ZIGBEE_STACK_PROFILE q x y = Panic" for q x y
    by (cases "chk_sub q 1") (simp_all add: distributed_nwk_is_descendant_def zigbee_c_skip Let_def)
  have tree: "tree_routing_next_hop a s = Panic"
    by (cases "get_addr s") (auto simp: tree_routing_next_hop_def act_defs p descendant)
  have addr: "get_routing_address_for_address b s = Panic" if "b \<noteq> 0" for b
  proof -
    have "ucast b \<noteq> (0 :: u32)"
    proof
      assume "ucast b = (0 :: u32)"
      then have "unat (ucast b :: u32) = 0" by simp
      then show False using \<open>b \<noteq> 0\<close> by (simp add: unat_eq_zero)
    qed
    moreover have "nwk_addr_alloc ZIGBEE_STACK_PROFILE = Distributed"
      by (simp add: ZIGBEE_STACK_PROFILE_def)
    ultimately show ?thesis
      by (simp add: get_routing_address_for_address_def act_defs p routing_address_at.simps zigbee_c_skip)
  qed
  have "route_unicast_frame E d s = Panic" if "df_destination d \<noteq> 0"
    "\<forall>nb\<in>set (neighbors s). nb_nwk_addr nb = df_destination d \<longrightarrow>
       nb_device_type nb \<noteq> EndDevice \<or> nb_relationship nb \<noteq> Child"
  proof -
    have "find (\<lambda>nb. nb_nwk_addr nb = df_destination d \<and> nb_device_type nb = EndDevice \<and>
        nb_relationship nb = Child) (neighbors s) = None" using that(2) by (auto simp: find_None_prop)
    then have "try_unicast_direct_relay E d s = Panic"
      using addr [OF that(1)] by (simp add: try_unicast_direct_relay_def act_defs)
    then show ?thesis by (simp add: route_unicast_frame_def or_else_def act_bind_def)
  qed
  with tree addr show ?thesis by blast
qed

theorem zigbee_profile_routing_panics_witness:
  "tree_routing_next_hop 5 (nwk_std\<lparr> nk_ctx := (nk_ctx nwk_std)\<lparr> cx_profile := Zigbee \<rparr> \<rparr>) = Panic"
  using zigbee_profile_routing_panics [of "nwk_std\<lparr> nk_ctx := (nk_ctx nwk_std)\<lparr> cx_profile := Zigbee \<rparr> \<rparr>"]
  by simp

end
