(* ===== verification/Route_Discovery.thy ===== *)
theory Route_Discovery
  imports Routing
begin

text \<open>
  Route discovery: route requests and replies (\<open>nwk/commands/route_request.rs\<close>,
  \<open>nwk/commands/route_reply.rs\<close>), the start of a discovery (\<open>nwk/service/routing.rs\<close>) and
  \<open>NLME-ROUTE-DISCOVERY\<close> (\<open>nwk/nlme.rs\<close>). A received command comes with the link quality, the
  MAC source and the network header. Waiting for a timer changes nothing.
\<close>

record 'c received_command =
  rc_lqi :: u8
  rc_mac_src_addr :: nwk_addr
  rc_header :: nwk_header
  rc_cmd :: 'c

definition originator_addr :: "'c received_command \<Rightarrow> nwk_addr" where
  "originator_addr fr = nh_source (rc_header fr)"

definition originator_ieee_addr :: "'c received_command \<Rightarrow> ext_addr option" where
  "originator_ieee_addr fr = nh_source_ieee (rc_header fr)"

definition link_cost_of_lqi :: "u8 \<Rightarrow> u8" where
  "link_cost_of_lqi lqi = link_cost_u8 (compute_routing_cost lqi)"

section \<open>Sending a route request\<close>

datatype discovery_address = DiscMulticast nwk_addr | DiscUnicastOrBroadcast nwk_addr

primrec discovery_addr :: "discovery_address \<Rightarrow> nwk_addr" where
  "discovery_addr (DiscMulticast a) = a"
| "discovery_addr (DiscUnicastOrBroadcast a) = a"

record route_request_cmd =
  rrc_dst_addr :: discovery_address
  rrc_ieee_destination :: "ext_addr option"
  rrc_route_request_id :: u8
  rrc_path_cost :: u8

definition route_request_of :: "route_request_cmd \<Rightarrow> route_request" where
  "route_request_of c = \<lparr> rreq_options = \<lparr>
       rq_many_to_one = (case rrc_dst_addr c of DiscMulticast _ \<Rightarrow> NotManyToOne
         | DiscUnicastOrBroadcast a \<Rightarrow>
             if is_broadcast a then ManyToOneRouteRecordSupported else NotManyToOne),
       rq_destination_ieee = (rrc_ieee_destination c \<noteq> None),
       rq_multicast = (case rrc_dst_addr c of DiscMulticast _ \<Rightarrow> True | _ \<Rightarrow> False) \<rparr>,
     rreq_route_request_id = rrc_route_request_id c, rreq_dst_addr = discovery_addr (rrc_dst_addr c),
     rreq_path_cost = rrc_path_cost c, rreq_destination_ieee_address = rrc_ieee_destination c \<rparr>"

text \<open>The loop sends until it succeeds, at most \<open>n + 1\<close> times.\<close>

fun send_with_retries :: "env \<Rightarrow> nwk_frame \<Rightarrow> nat \<Rightarrow> unit act" where
  "send_with_retries E f 0 = act_then (transmit_frame E f BROADCAST_ALL False) (act_return ())"
| "send_with_retries E f (Suc n) =
     act_bind (transmit_frame E f BROADCAST_ALL False) (\<lambda>r. case r of
       Inr _ \<Rightarrow> act_return () | Inl _ \<Rightarrow> send_with_retries E f n)"

definition send_route_request_command :: "env \<Rightarrow> route_request_cmd \<Rightarrow> transfer_result act" where
  "send_route_request_command E c =
     act_bind (nwk_header_cmd True BROADCAST_ROUTERS None None None None) (\<lambda>hdr.
     act_then (send_with_retries E (new_cmd_frame hdr (RouteRequest (route_request_of c))) ROUTE_REQUEST_RETRIES)
     act_panic)"

section \<open>Starting a discovery\<close>

datatype route_error = RouteInvalidRequest string | RouteError network_status
  | RouteTransferError transfer_error

definition initiate_unicast_discovery :: "env \<Rightarrow> nwk_addr \<Rightarrow> bool \<Rightarrow> (route_error + unit) act" where
  "initiate_unicast_discovery E dst no_route_cache =
     act_bind get_addr (\<lambda>slf.
     act_bind (act_gets (\<lambda>s. cx_route_request_counter (nk_ctx s))) (\<lambda>rid.
     act_bind (route_key dst False) (\<lambda>k.
     act_bind (route_upsert k
       (\<lambda>r. if re_status r \<noteq> RouteActive \<and> re_status r \<noteq> ValidationUnderway
          then r\<lparr> re_status := DiscoveryUnderway \<rparr> else r)
       (route_entry_default\<lparr> re_no_route_cache := no_route_cache \<rparr>)) (\<lambda>entered.
     if \<not> entered then act_return (Inl (RouteError NoRoutingCapacity))
     else
       act_bind (route_get k) (\<lambda>route. case route of None \<Rightarrow> act_panic | Some r \<Rightarrow>
         (case im_insert DISCOVERY_CAP (rid, slf) (route_discovery_entry_new (ev_now E) slf 0)
             (re_discovery r) of
            None \<Rightarrow> act_return (Inl (RouteError NoRoutingCapacity))
          | Some disc \<Rightarrow>
              act_then (route_modify k (\<lambda>r. r\<lparr> re_discovery := disc \<rparr>))
              (act_bind (send_route_request_command E \<lparr> rrc_dst_addr = DiscUnicastOrBroadcast dst,
                 rrc_ieee_destination = None, rrc_route_request_id = rid, rrc_path_cost = 0 \<rparr>) (\<lambda>t.
               act_return (case t of Inl e \<Rightarrow> Inl (RouteTransferError e) | Inr u \<Rightarrow> Inr u)))))))))"

datatype route_discovery_address = ManyToOneRoute bool | GroupRoute nwk_addr | DeviceRoute nwk_addr

definition route_discovery :: "env \<Rightarrow> route_discovery_address \<Rightarrow> (route_error + unit) act" where
  "route_discovery E req =
     (let go = (\<lambda>a g.
        if is_broadcast a then act_return (Inl (RouteInvalidRequest ''address must be unicast''))
        else act_then (route_cleanup E)
          (act_bind (act_gets has_routing_capacity) (\<lambda>cap.
           if \<not> cap then act_return (Inl (RouteError NoRoutingCapacity))
           else act_bind (act_gets (\<lambda>s. g \<and> a \<in> set (cx_group_table (nk_ctx s)))) (\<lambda>member.
             if member then act_return (Inr ())
             else act_then (initiate_unicast_discovery E a False) (act_return (Inr ()))))))
      in case req of
           ManyToOneRoute nrc \<Rightarrow>
             act_then (initiate_unicast_discovery E BROADCAST_RX_ON_IDLE nrc) (act_return (Inr ()))
         | GroupRoute a \<Rightarrow> go a True
         | DeviceRoute a \<Rightarrow> go a False)"

section \<open>Route replies\<close>

definition send_route_reply_cmd ::
  "env \<Rightarrow> route_request received_command \<Rightarrow> u8 \<Rightarrow> transfer_result act" where
  "send_route_reply_cmd E rq path_cost =
     act_bind (nwk_header_cmd True (rc_mac_src_addr rq) None None None None) (\<lambda>hdr.
     act_bind (act_gets (\<lambda>s. find_by_short_addr (rreq_dst_addr (rc_cmd rq)) (cx_neighbors (nk_ctx s)))) (\<lambda>nb.
     act_bind (case nb of None \<Rightarrow> act_return None
       | Some n \<Rightarrow> act_run (run_map Some (unwrap_run (nb_ext_addr n)))) (\<lambda>responder.
     act_bind (act_run (chk_add path_cost (link_cost_of_lqi (rc_lqi rq)))) (\<lambda>cost.
     transmit_frame E (new_cmd_frame hdr (RouteReply \<lparr>
         rrep_options = \<lparr> rp_originator_ieee = (originator_ieee_addr rq \<noteq> None),
           rp_responder_ieee = (responder \<noteq> None), rp_multicast = False \<rparr>,
         rrep_route_request_id = rreq_route_request_id (rc_cmd rq),
         rrep_originator_address = originator_addr rq,
         rrep_responder_address = rreq_dst_addr (rc_cmd rq), rrep_path_cost = cost,
         rrep_originator_ieee_address = originator_ieee_addr rq,
         rrep_responder_ieee_address = responder \<rparr>)) (rc_mac_src_addr rq) True))))"

definition update_next_hop ::
  "env \<Rightarrow> (u8 \<times> nwk_addr) \<Rightarrow> route_reply received_command \<Rightarrow> route_entry \<Rightarrow> route_entry" where
  "update_next_hop E k fr route =
     (let changed = re_next_hop_addr route \<noteq> rc_mac_src_addr fr in
      case im_get k (re_discovery route) of
        None \<Rightarrow> route
      | Some d \<Rightarrow>
          if rd_residual_cost d > rrep_path_cost (rc_cmd fr) then
            route\<lparr> re_discovery := im_modify k (\<lambda>d.
                (let d' = d\<lparr> rd_residual_cost := rrep_path_cost (rc_cmd fr) \<rparr> in
                 if changed then d'\<lparr> rd_expiration_time := ev_now E +
                   (if re_is_group route then WAIT_BEFORE_VALIDATION else ROUTE_DISCOVERY_TIME) \<rparr>
                 else d')) (re_discovery route),
              re_next_hop_addr := rc_mac_src_addr fr \<rparr>
          else route)"

definition reply_route_update ::
  "env \<Rightarrow> (u8 \<times> nwk_addr) \<Rightarrow> route_reply received_command \<Rightarrow> bool \<Rightarrow> route_entry \<Rightarrow> route_entry" where
  "reply_route_update E k fr own route =
     (if own then
        (if re_status route = DiscoveryUnderway then
           update_next_hop E k fr (route\<lparr> re_status :=
             (if re_is_group route then ValidationUnderway else RouteActive) \<rparr>)
         else if route_usable (re_status route) then update_next_hop E k fr route
         else route)
      else update_next_hop E k fr route)"

definition handle_route_reply_command :: "env \<Rightarrow> route_reply received_command \<Rightarrow> unit act" where
  "handle_route_reply_command E fr =
     (let cmd = rc_cmd fr; dk = (rrep_route_request_id cmd, rrep_originator_address cmd) in
      act_then (route_cleanup E)
      (act_bind (act_gets (\<lambda>s. rt_is_full (cx_route_table (nk_ctx s)) \<and>
           \<not> nwk_use_tree_routing (profile_params s))) (\<lambda>give_up.
       if give_up then act_return ()
       else
         act_bind get_addr (\<lambda>slf.
         act_bind (route_key (rrep_responder_address cmd) (rp_multicast (rrep_options cmd))) (\<lambda>k.
         act_bind (route_get k) (\<lambda>route. case route of
           None \<Rightarrow> act_return ()
         | Some r \<Rightarrow>
             if \<not> im_contains dk (re_discovery r) then act_return ()
             else
               act_then (route_modify k (reply_route_update E dk fr (rrep_originator_address cmd = slf)))
               (act_bind (act_run (chk_add (rrep_path_cost cmd) (link_cost_of_lqi (rc_lqi fr))))
                  (\<lambda>_. act_return ()))))))))"

section \<open>Route requests\<close>

definition relay_route_request_cmd :: "env \<Rightarrow> route_request received_command \<Rightarrow> unit act" where
  "relay_route_request_cmd E fr =
     (let cmd = rc_cmd fr;
          once = send_route_request_command E \<lparr>
            rrc_dst_addr = (if rq_multicast (rreq_options cmd) then DiscMulticast (rreq_dst_addr cmd)
              else DiscUnicastOrBroadcast (rreq_dst_addr cmd)),
            rrc_ieee_destination = rreq_destination_ieee_address cmd,
            rrc_route_request_id = rreq_route_request_id cmd,
            rrc_path_cost = rreq_path_cost cmd \<rparr>
      in act_then (random_range E 2 128)
         (act_then once (act_then once (act_return ()))))"

text \<open>The cost of the path so far: \<open>None\<close> when the link to the sender has no cost.\<close>

definition request_path_cost :: "nwk \<Rightarrow> route_request received_command \<Rightarrow> u8 option" where
  "request_path_cost s fr =
     (if rreq_is_many_to_one (rc_cmd fr) \<or> nwk_sym_link (profile_params s) then
        (case find (\<lambda>nb. nb_nwk_addr nb = rc_mac_src_addr fr) (neighbors s) of
           None \<Rightarrow> Some (max (link_cost_u8 link_cost_default) (rreq_path_cost (rc_cmd fr)))
         | Some nb \<Rightarrow> if nb_outgoing_cost nb = CostUnknown then None
             else Some (max (link_cost_u8 (nb_outgoing_cost nb)) (rreq_path_cost (rc_cmd fr))))
      else Some (rreq_path_cost (rc_cmd fr)))"

definition matches_self_or_children :: "route_request \<Rightarrow> bool act" where
  "matches_self_or_children cmd =
     act_bind (if rreq_is_unicast cmd then
         act_bind get_addr (\<lambda>slf. act_gets (\<lambda>s. slf = rreq_dst_addr cmd \<or>
           find (\<lambda>nb. nb_is_child nb \<and> nb_nwk_addr nb = rreq_dst_addr cmd) (neighbors s) \<noteq> None))
       else act_return False) (\<lambda>m.
     act_gets (\<lambda>s. m \<or> (rreq_is_multicast cmd \<and> rreq_dst_addr cmd \<in> set (cx_group_table (nk_ctx s)))))"

text \<open>Without room in the route table, tree addresses decide whether the request is answered; the
  second component is whether the handler goes on.\<close>

definition tree_request_accepted :: "route_request received_command \<Rightarrow> bool act" where
  "tree_request_accepted fr =
     act_bind (act_gets (\<lambda>s. find (\<lambda>nb. nb_nwk_addr nb = rc_mac_src_addr fr) (neighbors s))) (\<lambda>nb.
     case nb of
       None \<Rightarrow> act_return False
     | Some src \<Rightarrow>
         act_bind (act_gets profile_params) (\<lambda>p.
         act_bind get_addr (\<lambda>slf.
         act_bind (act_run (distributed_nwk_is_descendant p 0 (originator_addr fr) slf)) (\<lambda>down.
         act_return (\<not> ((nb_is_parent src \<and> down) \<or> (nb_is_child src \<and> \<not> down)))))))"

text \<open>The route back to the originator, and the entry of the discovery.\<close>

definition note_reverse_route :: "route_request received_command \<Rightarrow> bool act" where
  "note_reverse_route fr =
     (let cmd = rc_cmd fr; mto = rreq_is_many_to_one cmd in
      act_bind (route_key (originator_addr fr) False) (\<lambda>k.
      route_upsert k
        (\<lambda>r. let r' = r\<lparr> re_status := RouteActive \<rparr> in
           if re_next_hop_addr r' \<noteq> rc_mac_src_addr fr
           then r'\<lparr> re_next_hop_addr := rc_mac_src_addr fr, re_route_record_required := mto \<rparr> else r')
        \<lparr> re_status = RouteActive, re_no_route_cache = rreq_no_route_cache cmd, re_many_to_one = mto,
          re_next_hop_addr = rc_mac_src_addr fr, re_is_group = False, re_route_record_required = mto,
          re_discovery = [] \<rparr>))"

definition discovery_upsert ::
  "env \<Rightarrow> (u8 \<times> nwk_addr) \<Rightarrow> nwk_addr \<Rightarrow> u8 \<Rightarrow> discovery_table \<Rightarrow> discovery_table option" where
  "discovery_upsert E k src cost =
     im_upsert DISCOVERY_CAP k
       (\<lambda>d. if cost \<ge> rd_forward_cost d then d
          else d\<lparr> rd_forward_cost := cost, rd_sender_addr := src \<rparr>)
       (route_discovery_entry_new (ev_now E) src cost)"

definition note_forward_route :: "env \<Rightarrow> route_request received_command \<Rightarrow> u8 \<Rightarrow> bool act" where
  "note_forward_route E fr path_cost =
     (let cmd = rc_cmd fr in
      act_bind (route_key (rreq_dst_addr cmd) (rreq_is_multicast cmd)) (\<lambda>k.
      act_bind (route_upsert k
        (\<lambda>r. if route_usable (re_status r) then r else r\<lparr> re_status := DiscoveryUnderway \<rparr>)
        (route_entry_default\<lparr> re_is_group := rreq_is_multicast cmd \<rparr>)) (\<lambda>entered.
      if \<not> entered then act_return False
      else
        act_bind (act_run (chk_add path_cost (link_cost_of_lqi (rc_lqi fr)))) (\<lambda>cost.
        act_bind (route_get k) (\<lambda>route. case route of None \<Rightarrow> act_panic | Some r \<Rightarrow>
          (case discovery_upsert E (rreq_route_request_id cmd, originator_addr fr)
              (rc_mac_src_addr fr) cost (re_discovery r) of
             None \<Rightarrow> act_return False
           | Some disc \<Rightarrow>
               act_then (route_modify k (\<lambda>r. r\<lparr> re_discovery := disc \<rparr>)) (act_return True)))))))"

text \<open>The part of the handler after the cleanup of the table: \<open>mine\<close> is whether this device or one
  of its end devices is the target.\<close>

definition request_answer :: "env \<Rightarrow> route_request received_command \<Rightarrow> bool \<Rightarrow> u8 \<Rightarrow> unit act" where
  "request_answer E fr mine path_cost =
     (let cmd = rc_cmd fr; specific = rreq_is_unicast cmd \<or> rreq_is_multicast cmd in
      act_bind (act_gets has_routing_capacity) (\<lambda>cap.
       if \<not> cap then
         act_bind (act_gets profile_params) (\<lambda>p.
         if nwk_addr_alloc p = Distributed \<and> rreq_is_unicast cmd then
           act_bind (tree_request_accepted fr) (\<lambda>go_on.
           if \<not> go_on then act_return ()
           else if mine then act_then (send_route_reply_cmd E fr path_cost) (act_return ())
           else act_bind (act_run (chk_add (rreq_path_cost cmd) (link_cost_of_lqi (rc_lqi fr))))
             (\<lambda>_. act_return ()))
         else act_return ())
       else
         act_bind (act_gets (\<lambda>s. rreq_is_many_to_one cmd \<or> nwk_sym_link (profile_params s))) (\<lambda>reverse.
         act_bind (if reverse then note_reverse_route fr else act_return True) (\<lambda>ok.
         if \<not> ok then act_return ()
         else
           act_bind (if specific \<and> \<not> mine then note_forward_route E fr path_cost
             else if specific \<and> mine then
               act_bind (send_route_reply_cmd E fr path_cost) (\<lambda>t. act_return (case t of Inl _ \<Rightarrow> False | Inr _ \<Rightarrow> True))
             else act_return True) (\<lambda>ok.
           if \<not> ok then act_return () else relay_route_request_cmd E fr)))))"

definition handle_route_request_command :: "env \<Rightarrow> route_request received_command \<Rightarrow> unit act" where
  "handle_route_request_command E fr =
     (let cmd = rc_cmd fr in
      act_bind (act_gets has_routing_capacity) (\<lambda>cap.
      if \<not> cap \<and> (rreq_is_multicast cmd \<or> rreq_is_many_to_one cmd) then act_return ()
      else
      act_bind (act_gets (\<lambda>s. request_path_cost s fr)) (\<lambda>pc. case pc of None \<Rightarrow> act_return ()
      | Some path_cost \<Rightarrow>
          act_bind (matches_self_or_children cmd) (\<lambda>mine.
          act_then (route_cleanup E) (request_answer E fr mine path_cost)))))"

section \<open>Invariants\<close>

lemma route_ok_discovery: "im_ok DISCOVERY_CAP d \<Longrightarrow> route_ok (r\<lparr> re_discovery := d \<rparr>)"
  by (simp add: route_ok_def)

lemma keeps_send_with_retries [keeps_rules]: "quiet I \<Longrightarrow> keeps I (send_with_retries E f n)"
  by (induction n) (auto intro!: keeps_rules)

lemma keeps_discovery_sends [keeps_rules]:
  assumes "quiet I"
  shows "keeps I (send_route_request_command E c)" "keeps I (send_route_reply_cmd E fr cost)"
    "keeps I (relay_route_request_cmd E rq)"
  using assms
  by (simp_all add: send_route_request_command_def send_route_reply_cmd_def relay_route_request_cmd_def
      keeps_rules Let_def)

lemma send_route_request_command_panics: "send_route_request_command E c s = Panic"
proof (cases "send_route_request_command E c s")
  case (Done x)
  then show ?thesis
    by (cases x) (auto simp: send_route_request_command_def run_simps act_then_def act_panic_def)
qed simp

lemma relay_route_request_panics: "relay_route_request_cmd E fr s = Panic"
  by (simp add: relay_route_request_cmd_def Let_def act_then_def act_bind_def random_range_def
      send_route_request_command_panics)

text \<open>No discovery ever has a residual cost: it starts at zero, and a reply lowers it only.\<close>

definition residual_zero :: "nwk \<Rightarrow> bool" where
  "residual_zero s \<longleftrightarrow> (\<forall>(k, r) \<in> set (cx_route_table (nk_ctx s)).
     \<forall>(j, d) \<in> set (re_discovery r). rd_residual_cost d = 0)"

definition entry_zero :: "route_entry \<Rightarrow> bool" where
  "entry_zero r \<longleftrightarrow> (\<forall>(j, d) \<in> set (re_discovery r). rd_residual_cost d = 0)"

lemma residual_zero_get:
  "residual_zero s \<Longrightarrow> im_get k (cx_route_table (nk_ctx s)) = Some r \<Longrightarrow> entry_zero r"
  by (auto simp: residual_zero_def entry_zero_def im_get_def dest!: map_of_SomeD)

lemma set_im_set: "set (im_set k v m) \<subseteq> insert (k, v) (set m)"
  by (induction k v m rule: im_set.induct) auto

lemma residual_zero_set:
  assumes "residual_zero s" and "entry_zero r"
  shows "residual_zero (s\<lparr> nk_ctx := (nk_ctx s)\<lparr> cx_route_table := im_set k r (cx_route_table (nk_ctx s)) \<rparr> \<rparr>)"
proof -
  have iff: "residual_zero s \<longleftrightarrow> (\<forall>x\<in>set (cx_route_table (nk_ctx s)). entry_zero (snd x))" for s
    by (simp add: residual_zero_def entry_zero_def split_beta)
  from assms set_im_set [of k r "cx_route_table (nk_ctx s)"] show ?thesis
    unfolding iff by auto
qed

lemma quiet_residual_zero [simp]: "quiet residual_zero"
  unfolding quiet_def
proof (intro allI impI, elim conjE)
  fix s s' :: nwk
  assume eq: "blank_counters (nk_ctx s') = blank_counters (nk_ctx s)"
    and ok: "residual_zero s"
  have "cx_route_table (nk_ctx s') = cx_route_table (nk_ctx s)"
    using arg_cong [OF eq, of cx_route_table] by simp
  with ok show "residual_zero s'" by (simp add: residual_zero_def)
qed

lemma residual_zero_modify:
  "(\<And>r. entry_zero r \<Longrightarrow> entry_zero (f r)) \<Longrightarrow> keeps residual_zero (route_modify k f)"
  by (rule keepsI) (auto simp: route_modify_def act_defs im_modify_def dest: residual_zero_get
      intro!: residual_zero_set split: option.splits)

lemma residual_zero_upsert:
  "(\<And>r. entry_zero r \<Longrightarrow> entry_zero (f r)) \<Longrightarrow> entry_zero v \<Longrightarrow> keeps residual_zero (route_upsert k f v)"
  by (rule keepsI) (auto simp: route_upsert_def im_upsert_def im_insert_def dest: residual_zero_get
      intro!: residual_zero_set split: option.splits if_splits)

lemma entry_zero_simps [simp]:
  "entry_zero (r\<lparr> re_status := st \<rparr>) = entry_zero r" "entry_zero (r\<lparr> re_next_hop_addr := a \<rparr>) = entry_zero r"
  "entry_zero (r\<lparr> re_route_record_required := b \<rparr>) = entry_zero r"
  "entry_zero (r\<lparr> re_is_group := g \<rparr>) = entry_zero r" "entry_zero (r\<lparr> re_no_route_cache := c \<rparr>) = entry_zero r"
  "entry_zero route_entry_default"
  "entry_zero \<lparr> re_status = st, re_no_route_cache = b1, re_many_to_one = b2, re_next_hop_addr = a,
     re_is_group = g, re_route_record_required = b3, re_discovery = [] \<rparr>"
  by (simp_all add: entry_zero_def route_entry_default_def)

lemma update_next_hop_zero: "entry_zero r \<Longrightarrow> update_next_hop E k fr r = r"
  by (auto simp: update_next_hop_def entry_zero_def im_get_def Let_def split: option.splits
      dest!: map_of_SomeD)

lemma reply_route_update_zero:
  "entry_zero r \<Longrightarrow> reply_route_update E k fr own r =
     (if own \<and> re_status r = DiscoveryUnderway
      then r\<lparr> re_status := (if re_is_group r then ValidationUnderway else RouteActive) \<rparr> else r)"
  by (simp add: reply_route_update_def update_next_hop_zero)

lemma residual_zero_cleanup: "keeps residual_zero (route_cleanup E)"
proof (rule keepsI)
  fix s x s' assume s: "residual_zero s" and "route_cleanup E s = Done (x, s')"
  then have s': "s' = s\<lparr> nk_ctx := (nk_ctx s)\<lparr> cx_route_table :=
      route_table_cleanup (ev_now E) (cx_route_table (nk_ctx s)) \<rparr> \<rparr>"
    by (simp add: route_cleanup_def act_defs)
  show "residual_zero s'" unfolding s' residual_zero_def
  proof (simp, intro ballI, clarify)
    fix k r j d
    assume kr: "(k, r) \<in> set (route_table_cleanup (ev_now E) (cx_route_table (nk_ctx s)))"
      and jd: "(j, d) \<in> set (re_discovery r)"
    from set_im_retain [OF kr [unfolded route_table_cleanup_def]] obtain r0 where
      r0: "(k, r0) \<in> set (cx_route_table (nk_ctx s))" and
      r: "re_discovery r = im_retain (\<lambda>_ x. (x, rd_expiration_time x \<ge> ev_now E)) (re_discovery r0)"
      by (auto simp: Let_def)
    from set_im_retain [of j d] jd r have "(j, d) \<in> set (re_discovery r0)" by auto
    with s r0 show "rd_residual_cost d = 0" by (auto simp: residual_zero_def)
  qed
qed

lemma entry_zero_insert:
  "entry_zero r \<Longrightarrow> im_insert cap k (route_discovery_entry_new now a c) (re_discovery r) = Some d \<Longrightarrow>
     entry_zero (r'\<lparr> re_discovery := d \<rparr>)"
  using set_im_set [of k "route_discovery_entry_new now a c" "re_discovery r"]
  by (auto simp: entry_zero_def im_insert_def route_discovery_entry_new_def split: if_splits)

lemma entry_zero_discovery:
  assumes "entry_zero r" and "discovery_upsert E k a c (re_discovery r) = Some d"
  shows "entry_zero (r'\<lparr> re_discovery := d \<rparr>)"
proof (cases "im_get k (re_discovery r)")
  case None
  with assms show ?thesis
    by (auto simp: discovery_upsert_def im_upsert_def intro: entry_zero_insert)
next
  case (Some x)
  then have "rd_residual_cost x = 0"
    using assms(1) by (auto simp: entry_zero_def im_get_def dest!: map_of_SomeD)
  moreover have "d = im_set k (if c \<ge> rd_forward_cost x then x
      else x\<lparr> rd_forward_cost := c, rd_sender_addr := a \<rparr>) (re_discovery r)"
    using assms(2) Some by (simp add: discovery_upsert_def im_upsert_def)
  ultimately show ?thesis
    using assms(1) set_im_set [of k _ "re_discovery r"] by (fastforce simp: entry_zero_def split: if_splits)
qed

lemma keeps_zero_reverse: "keeps residual_zero (note_reverse_route fr)"
  unfolding note_reverse_route_def Let_def
  by (intro keeps_with_key residual_zero_upsert) simp_all

lemma keeps_with_entry:
  "(\<And>r. entry_zero r \<Longrightarrow> keeps residual_zero (f (Some r))) \<Longrightarrow> keeps residual_zero (f None) \<Longrightarrow>
     keeps residual_zero (act_bind (route_get k) f)"
  by (rule keepsI) (simp add: route_get_def act_bind_def act_gets_def, metis keepsD option.exhaust residual_zero_get)

lemma keeps_zero_forward: "keeps residual_zero (note_forward_route E fr pc)"
  unfolding note_forward_route_def Let_def
  by (intro keeps_rules keeps_with_key keeps_with_entry residual_zero_upsert)
    (auto intro!: keeps_rules residual_zero_modify dest: entry_zero_discovery split: option.splits)

lemma keeps_zero_initiate: "keeps residual_zero (initiate_unicast_discovery E a b)"
  unfolding initiate_unicast_discovery_def
  by (intro keeps_rules keeps_with_key keeps_with_entry residual_zero_upsert)
    (auto intro!: keeps_rules residual_zero_modify dest: entry_zero_insert split: option.splits)

lemma keeps_ok_with_entry:
  "(\<And>r. route_ok r \<Longrightarrow> keeps nwk_ok (f (Some r))) \<Longrightarrow> keeps nwk_ok (f None) \<Longrightarrow>
     keeps nwk_ok (act_bind (route_get k) f)"
  by (rule keepsI) (simp add: route_get_def act_bind_def act_gets_def, metis keepsD nwk_ok_def option.exhaust rt_ok_get)

lemma route_ok_default [simp]:
  "route_ok (route_entry_default\<lparr> re_is_group := g \<rparr>)" "route_ok (route_entry_default\<lparr> re_no_route_cache := g \<rparr>)"
  by (simp_all add: route_ok_def route_entry_default_def)

lemma route_ok_upsert:
  "route_ok r \<Longrightarrow> discovery_upsert E k a c (re_discovery r) = Some d \<Longrightarrow> route_ok (r'\<lparr> re_discovery := d \<rparr>)"
  by (auto simp: route_ok_def discovery_upsert_def dest: imap.upsert_ok)

lemma route_ok_insert:
  "route_ok r \<Longrightarrow> im_insert DISCOVERY_CAP k v (re_discovery r) = Some d \<Longrightarrow> route_ok (r'\<lparr> re_discovery := d \<rparr>)"
  by (auto simp: route_ok_def dest: imap.insert_ok)

lemma route_ok_update_next_hop: "route_ok r \<Longrightarrow> route_ok (update_next_hop E k fr r)"
  by (auto simp: update_next_hop_def Let_def route_ok_def imap.modify_ok split: option.splits)

lemma keeps_ok_discovery [keeps_rules]:
  "keeps nwk_ok (handle_route_reply_command E fr)" "keeps nwk_ok (handle_route_request_command E rq)"
  "keeps nwk_ok (initiate_unicast_discovery E a b)" "keeps nwk_ok (route_discovery E req)"
proof -
  show "keeps nwk_ok (handle_route_reply_command E fr)"
    unfolding handle_route_reply_command_def Let_def
    by (intro keeps_rules keeps_with_key)
      (simp_all add: reply_route_update_def route_ok_update_next_hop)
  have forward: "keeps nwk_ok (note_forward_route E rq pc)" for pc
    unfolding note_forward_route_def Let_def
    by (intro keeps_with_key keeps_ok_with_entry keeps_rules)
      (auto intro!: keeps_rules route_ok_upsert split: option.splits)
  have reverse: "keeps nwk_ok (note_reverse_route rq)"
    unfolding note_reverse_route_def Let_def by (intro keeps_with_key keeps_ok_route_upsert) simp_all
  have matches: "keeps nwk_ok (matches_self_or_children c)" for c
    unfolding matches_self_or_children_def by (intro keeps_rules)
  have tree: "keeps nwk_ok (tree_request_accepted rq)"
    unfolding tree_request_accepted_def by (intro keeps_rules)
  show "keeps nwk_ok (handle_route_request_command E rq)"
    unfolding handle_route_request_command_def request_answer_def Let_def
    by (intro keeps_rules forward reverse matches tree) simp_all
  show init: "keeps nwk_ok (initiate_unicast_discovery E a b)" for a b
    unfolding initiate_unicast_discovery_def
    by (intro keeps_with_key keeps_ok_with_entry keeps_rules)
      (auto intro!: keeps_rules route_ok_insert split: option.splits)
  show "keeps nwk_ok (route_discovery E req)"
    unfolding route_discovery_def Let_def
    by (cases req) (auto intro!: keeps_rules init)
qed

section \<open>Properties\<close>

text \<open>C38. A route reply never sets a next hop: residual costs are zero from the start and stay zero,
  so the test against the cost of the path fails. The reply changes at most the status of a route
  under discovery that the router itself asked for, which becomes active with whatever next hop it
  had.\<close>
theorem route_reply_keeps_next_hop:
  assumes "residual_zero s" and "rt_ok (cx_route_table (nk_ctx s))"
    and "handle_route_reply_command E fr s = Done (u, s')"
  shows "residual_zero s' \<and> rt_ok (cx_route_table (nk_ctx s')) \<and>
    (\<forall>k r'. im_get k (cx_route_table (nk_ctx s')) = Some r' \<longrightarrow>
      (\<exists>r. im_get k (cx_route_table (nk_ctx s)) = Some r \<and> re_next_hop_addr r' = re_next_hop_addr r \<and>
         (re_status r' = re_status r \<or> re_status r = DiscoveryUnderway \<and> route_usable (re_status r') \<and>
            ms_short_address (nk_mac s) = Some (rrep_originator_address (rc_cmd fr))))) \<and>
    keeps residual_zero (note_forward_route E rq pc) \<and> keeps residual_zero (note_reverse_route rq) \<and>
    keeps residual_zero (initiate_unicast_discovery E a b)"
proof -
  let ?cmd = "rc_cmd fr" let ?dk = "(rrep_route_request_id ?cmd, rrep_originator_address ?cmd)"
  let ?rt = "cx_route_table (nk_ctx s)" let ?t1 = "route_table_cleanup (ev_now E) ?rt"
  define s1 where "s1 = s\<lparr> nk_ctx := (nk_ctx s)\<lparr> cx_route_table := ?t1 \<rparr> \<rparr>"
  have clean: "route_cleanup E s = Done ((), s1)" by (simp add: route_cleanup_def act_defs s1_def)
  have z1: "residual_zero s1" using residual_zero_cleanup assms(1) clean by (rule keepsD)
  have ok1: "rt_ok (cx_route_table (nk_ctx s1))" using rt_ok_cleanup [OF assms(2)] by (simp add: s1_def)
  have sub: "\<exists>r. im_get k ?rt = Some r \<and> re_next_hop_addr r1 = re_next_hop_addr r \<and> re_status r1 = re_status r"
    if "im_get k (cx_route_table (nk_ctx s1)) = Some r1" for k r1
  proof -
    from assms(2) have "distinct (map fst ?rt)" by (simp add: rt_ok_def im_ok_def)
    from im_get_retain [OF this] that show ?thesis
      by (auto simp: s1_def route_table_cleanup_def Let_def split: option.splits if_splits)
  qed
  from assms(3) clean have run: "s' = s1 \<or> (\<exists>slf k r. ms_short_address (nk_mac s) = Some slf \<and>
      im_get k (cx_route_table (nk_ctx s1)) = Some r \<and>
      route_modify k (reply_route_update E ?dk fr (rrep_originator_address ?cmd = slf)) s1 = Done ((), s'))"
    by (auto simp: handle_route_reply_command_def Let_def act_then_def run_simps act_gets_def act_return_def
        get_addr_def unwrap_run_def act_run_def route_key_def route_get_def s1_def
        split: if_splits option.splits)
  show ?thesis
  proof (intro conjI keeps_zero_forward keeps_zero_reverse keeps_zero_initiate)
    from run show "residual_zero s'"
    proof (elim disjE exE conjE)
      fix slf k r
      assume m: "route_modify k (reply_route_update E ?dk fr (rrep_originator_address ?cmd = slf)) s1 = Done ((), s')"
      have "keeps residual_zero (route_modify k (reply_route_update E ?dk fr (rrep_originator_address ?cmd = slf)))"
        by (rule residual_zero_modify) (simp add: reply_route_update_zero)
      from keepsD [OF this z1 m] show ?thesis .
    qed (use z1 in simp)
    from run show "rt_ok (cx_route_table (nk_ctx s'))"
    proof (elim disjE exE conjE)
      fix slf k r
      assume m: "route_modify k (reply_route_update E ?dk fr (rrep_originator_address ?cmd = slf)) s1 = Done ((), s')"
      then have "cx_route_table (nk_ctx s') =
          im_modify k (reply_route_update E ?dk fr (rrep_originator_address ?cmd = slf)) (cx_route_table (nk_ctx s1))"
        by (auto simp: route_modify_def act_defs)
      then show ?thesis
        using rt_ok_modify [OF ok1] by (simp add: reply_route_update_def route_ok_update_next_hop)
    qed (use ok1 in simp)
    show "\<forall>k r'. im_get k (cx_route_table (nk_ctx s')) = Some r' \<longrightarrow>
      (\<exists>r. im_get k ?rt = Some r \<and> re_next_hop_addr r' = re_next_hop_addr r \<and>
         (re_status r' = re_status r \<or> re_status r = DiscoveryUnderway \<and> route_usable (re_status r') \<and>
            ms_short_address (nk_mac s) = Some (rrep_originator_address ?cmd)))"
      using run
    proof (elim disjE exE conjE)
      fix slf k r
      assume slf: "ms_short_address (nk_mac s) = Some slf" and kr: "im_get k (cx_route_table (nk_ctx s1)) = Some r"
        and m: "route_modify k (reply_route_update E ?dk fr (rrep_originator_address ?cmd = slf)) s1 = Done ((), s')"
      then have t: "cx_route_table (nk_ctx s') =
          im_modify k (reply_route_update E ?dk fr (rrep_originator_address ?cmd = slf)) (cx_route_table (nk_ctx s1))"
        by (auto simp: route_modify_def act_defs)
      have zero: "entry_zero r" using residual_zero_get [OF z1 kr] .
      show ?thesis
      proof (intro allI impI)
        fix j r' assume "im_get j (cx_route_table (nk_ctx s')) = Some r'"
        then have "im_get j (cx_route_table (nk_ctx s1)) = Some r' \<or>
            j = k \<and> r' = reply_route_update E ?dk fr (rrep_originator_address ?cmd = slf) r"
          by (auto simp: t imap.get_modify kr split: if_splits)
        then show "\<exists>r. im_get j ?rt = Some r \<and> re_next_hop_addr r' = re_next_hop_addr r \<and>
         (re_status r' = re_status r \<or> re_status r = DiscoveryUnderway \<and> route_usable (re_status r') \<and>
            ms_short_address (nk_mac s) = Some (rrep_originator_address ?cmd))"
        proof (elim disjE conjE)
          assume "j = k" and r': "r' = reply_route_update E ?dk fr (rrep_originator_address ?cmd = slf) r"
          from sub [OF kr] r' zero slf \<open>j = k\<close> show ?thesis
            by (auto simp: reply_route_update_zero route_usable_def)
        qed (use sub in blast)
      qed
    qed (use sub in blast)
  qed
qed


definition discovering_std :: nwk where
  "discovering_std = nwk_std\<lparr> nk_ctx := (nk_ctx nwk_std)\<lparr> cx_route_table :=
     [(\<lparr> rk_addr = BROADCAST_ALL, rk_is_group = False \<rparr>, route_entry_default\<lparr> re_discovery :=
        [((3, 0x1001), route_discovery_entry_new 1000 0x1001 0)] \<rparr>)] \<rparr> \<rparr>"

definition reply_std :: "route_reply received_command" where
  "reply_std = \<lparr> rc_lqi = 200, rc_mac_src_addr = 0x77, rc_header = header_std,
     rc_cmd = \<lparr> rrep_options = \<lparr> rp_originator_ieee = False, rp_responder_ieee = False, rp_multicast = False \<rparr>,
       rrep_route_request_id = 3, rrep_originator_address = 0x1001, rrep_responder_address = 0x55,
       rrep_path_cost = 1, rrep_originator_ieee_address = None, rrep_responder_ieee_address = None \<rparr> \<rparr>"

definition request_std :: "route_request received_command" where
  "request_std = \<lparr> rc_lqi = 200, rc_mac_src_addr = 0x77, rc_header = header_std,
     rc_cmd = \<lparr> rreq_options = \<lparr> rq_many_to_one = NotManyToOne, rq_destination_ieee = False, rq_multicast = False \<rparr>,
       rreq_route_request_id = 3, rreq_dst_addr = 0x55, rreq_path_cost = 1,
       rreq_destination_ieee_address = None \<rparr> \<rparr>"

lemma discovering_std_simps:
  "ms_short_address (nk_mac discovering_std) = Some 0x1001" "cx_profile (nk_ctx discovering_std) = ZigbeePro"
  "cx_route_table (nk_ctx discovering_std) = [(\<lparr> rk_addr = BROADCAST_ALL, rk_is_group = False \<rparr>,
     route_entry_default\<lparr> re_discovery := [((3, 0x1001), route_discovery_entry_new 1000 0x1001 0)] \<rparr>)]"
  by (simp_all add: discovering_std_def nwk_std_def nwk_context_default_def)

lemma discovering_std_reply:
  "\<exists>s'. handle_route_reply_command env_std reply_std discovering_std = Done ((), s') \<and>
     im_get \<lparr> rk_addr = BROADCAST_ALL, rk_is_group = False \<rparr> (cx_route_table (nk_ctx s')) \<noteq> None"
  by (simp add: handle_route_reply_command_def act_defs route_cleanup_def get_addr_def unwrap_run_def
      route_key_def route_get_def route_modify_def discovering_std_simps profile_params_def profile_defs
      route_table_cleanup_def rt_is_full_def im_is_full_def ROUTE_TABLE_CAP_def im_contains_def im_get_def
      im_modify_def reply_std_def env_std_simps route_entry_default_def route_discovery_entry_new_def
      route_entry_key_new_def route_usable_def chk_add_def link_cost_of_lqi_def compute_routing_cost_def Let_def)

theorem route_reply_keeps_next_hop_witness:
  "\<exists>s' r. handle_route_reply_command env_std reply_std discovering_std = Done ((), s') \<and>
     im_get \<lparr> rk_addr = BROADCAST_ALL, rk_is_group = False \<rparr> (cx_route_table (nk_ctx s')) = Some r \<and>
     re_next_hop_addr r = nwk_addr_default"
proof -
  obtain s' r where run: "handle_route_reply_command env_std reply_std discovering_std = Done ((), s')"
    and r: "im_get \<lparr> rk_addr = BROADCAST_ALL, rk_is_group = False \<rparr> (cx_route_table (nk_ctx s')) = Some r"
    using discovering_std_reply by blast
  have "residual_zero discovering_std" "rt_ok (cx_route_table (nk_ctx discovering_std))"
    by (simp_all add: residual_zero_def rt_ok_def im_ok_def route_ok_def discovering_std_simps
        route_discovery_entry_new_def ROUTE_TABLE_CAP_def DISCOVERY_CAP_def)
  from route_reply_keeps_next_hop [OF this run] r have
    "\<exists>r0. im_get \<lparr> rk_addr = BROADCAST_ALL, rk_is_group = False \<rparr> (cx_route_table (nk_ctx discovering_std)) =
        Some r0 \<and> re_next_hop_addr r = re_next_hop_addr r0" by blast
  with run r show ?thesis
    by (auto simp: discovering_std_simps im_get_def route_entry_default_def split: if_splits)
qed

text \<open>What the handler does before it relays; it ends in the relay unless a table is full, a reply
  cannot be sent or the link to the sender has no cost.\<close>

lemma reverse_route_entered:
  assumes "pro_router s" shows "note_reverse_route fr s \<noteq> Done (False, s')"
proof -
  have "rt_ok (cx_route_table (nk_ctx s))" using assms by (simp add: pro_router_def)
  from rt_not_full [OF this] show ?thesis
    by (auto simp: note_reverse_route_def Let_def route_key_def route_upsert_def act_gets_def run_simps
        im_upsert_def im_insert_def rt_is_full_def split: option.splits if_splits)
qed

lemma act_gets_bind: "act_bind (act_gets f) g s = g (f s) s"
  by (simp add: act_bind_def act_gets_def)

lemma act_bindE:
  assumes "act_bind m f s = Done (y, s')"
  obtains x s1 where "m s = Done (x, s1)" and "f x s1 = Done (y, s')"
  using assms by (auto simp: act_bind_Done)

lemma pro_router_cleanup: "pro_router s \<Longrightarrow> route_cleanup E s = Done (u, s1) \<Longrightarrow> pro_router s1 \<and> has_routing_capacity s1"
  by (auto simp: pro_router_def route_cleanup_def act_defs has_routing_capacity_def rt_ok_cleanup
      intro!: rt_not_full)

text \<open>Under the PRO profile a route request is never relayed. The handler panics when it gets
  to the relay, so it returns only if the link to the sender has no known cost, in which case nothing
  changes, or if the reply could not be transmitted, or if there was no room for the discovery.\<close>
theorem route_request_not_relayed:
  assumes "pro_router s" and "handle_route_request_command E fr s = Done (u, s')"
  shows "(request_path_cost s fr = None \<and> s' = s) \<or>
    (\<exists>pc s1 e. request_path_cost s fr = Some pc \<and> send_route_reply_cmd E fr pc s1 = Done (Inl e, s')) \<or>
    (\<exists>pc s1. request_path_cost s fr = Some pc \<and> note_forward_route E fr pc s1 = Done (False, s'))"
proof -
  have cap: "has_routing_capacity s"
    using assms(1) by (simp add: pro_router_def has_routing_capacity_def rt_not_full)
  have mine: "s1 = s" if "matches_self_or_children c s = Done (b, s1)" for c b s1
    using that by (auto simp: matches_self_or_children_def act_defs get_addr_def run_simps split: if_splits)
  show ?thesis
  proof (cases "request_path_cost s fr")
    case None
    with assms(2) cap show ?thesis
      by (auto simp: handle_route_request_command_def Let_def act_gets_def act_return_def run_simps)
  next
    case (Some pc)
    from assms(2) cap Some obtain m where run:
        "act_then (route_cleanup E) (request_answer E fr m pc) s = Done (u, s')"
      by (auto simp: handle_route_request_command_def Let_def act_gets_def act_return_def
        run_simps dest!: mine split: if_splits)
    then obtain s1 where s1: "pro_router s1" "has_routing_capacity s1"
      and ans: "request_answer E fr m pc s1 = Done (u, s')"
      by (auto simp: act_then_def run_simps dest: pro_router_cleanup [OF assms(1)])
    let ?first = "if rreq_is_many_to_one (rc_cmd fr) \<or> nwk_sym_link (profile_params s1)
      then note_reverse_route fr else act_return True"
    let ?specific = "rreq_is_unicast (rc_cmd fr) \<or> rreq_is_multicast (rc_cmd fr)"
    let ?second = "if ?specific \<and> \<not> m then note_forward_route E fr pc
      else if ?specific \<and> m then act_bind (send_route_reply_cmd E fr pc)
        (\<lambda>t. act_return (case t of Inl _ \<Rightarrow> False | Inr _ \<Rightarrow> True))
      else act_return True"
    have bind_run: "request_answer E fr m pc s1 = act_bind ?first (\<lambda>ok. if \<not> ok then act_return () else
        act_bind ?second (\<lambda>ok. if \<not> ok then act_return () else relay_route_request_cmd E fr)) s1"
      using s1(2) unfolding request_answer_def Let_def act_gets_bind by simp
    from ans obtain ok1 s2 where first: "?first s1 = Done (ok1, s2)"
      and then1: "(if \<not> ok1 then act_return () else
        act_bind ?second (\<lambda>ok. if \<not> ok then act_return () else relay_route_request_cmd E fr)) s2 = Done (u, s')"
      by (simp only: bind_run) (rule act_bindE)
    have "ok1" using first reverse_route_entered [OF s1(1), of fr s2]
      by (cases ok1) (simp_all add: act_return_def split: if_splits)
    with then1 obtain ok2 s3 where second: "?second s2 = Done (ok2, s3)"
      and then2: "(if \<not> ok2 then act_return () else relay_route_request_cmd E fr) s3 = Done (u, s')"
      by simp (rule act_bindE)
    from then2 have last: "\<not> ok2" "s' = s3"
      by (simp_all add: relay_route_request_panics act_return_def split: if_splits)
    show ?thesis
    proof (cases "?specific \<and> \<not> m")
      case True
      with second last Some show ?thesis by auto
    next
      case False
      with second last have "act_bind (send_route_reply_cmd E fr pc)
          (\<lambda>t. act_return (case t of Inl _ \<Rightarrow> False | Inr _ \<Rightarrow> True)) s2 = Done (False, s')"
        by (auto simp: act_return_def split: if_splits)
      then obtain t where t: "send_route_reply_cmd E fr pc s2 = Done (t, s')"
        and "\<not> (case t of Inl _ \<Rightarrow> False | Inr _ \<Rightarrow> True)"
        by (rule act_bindE) (auto simp: act_return_def)
      then obtain e where "send_route_reply_cmd E fr pc s2 = Done (Inl e, s')"
        by (cases t) auto
      with Some show ?thesis by blast
    qed
  qed
qed

definition full_discovery_std :: nwk where
  "full_discovery_std = nwk_std\<lparr> nk_ctx := (nk_ctx nwk_std)\<lparr> cx_route_table :=
     [(\<lparr> rk_addr = BROADCAST_ALL, rk_is_group = False \<rparr>, route_entry_default\<lparr> re_discovery :=
        map (\<lambda>i. ((i, 0x99), route_discovery_entry_new 1000 0x99 0)) [10, 11, 12, 13] \<rparr>)] \<rparr> \<rparr>"

lemma full_discovery_std_simps:
  "ms_short_address (nk_mac full_discovery_std) = Some 0x1001"
  "cx_profile (nk_ctx full_discovery_std) = ZigbeePro" "neighbors full_discovery_std = []"
  "cx_neighbors (nk_ctx full_discovery_std) = cx_neighbors (nwk_context_default 0)"
  "cx_group_table (nk_ctx full_discovery_std) = []"
  "cx_route_table (nk_ctx full_discovery_std) = [(\<lparr> rk_addr = BROADCAST_ALL, rk_is_group = False \<rparr>,
     route_entry_default\<lparr> re_discovery :=
        map (\<lambda>i. ((i, 0x99), route_discovery_entry_new 1000 0x99 0)) [10, 11, 12, 13] \<rparr>)]"
  by (simp_all add: full_discovery_std_def nwk_std_def nwk_context_default_def neighbors_def
      neighbor_table_default_def neighbor_table_new_def)

lemma full_discovery_std_request:
  "\<exists>s'. handle_route_request_command env_std request_std full_discovery_std = Done ((), s')"
  by (simp add: handle_route_request_command_def request_answer_def matches_self_or_children_def
      note_reverse_route_def note_forward_route_def discovery_upsert_def route_upsert_def
      request_path_cost_def has_routing_capacity_def im_upsert_def im_insert_def DISCOVERY_CAP_def
      rreq_is_unicast_def rreq_is_multicast_def rreq_is_many_to_one_def is_unicast_def is_broadcast_def
      act_defs route_cleanup_def get_addr_def unwrap_run_def request_std_def originator_addr_def
      route_key_def route_get_def route_modify_def full_discovery_std_simps profile_params_def profile_defs
      route_table_cleanup_def rt_is_full_def im_is_full_def ROUTE_TABLE_CAP_def im_contains_def im_get_def
      im_modify_def env_std_simps route_entry_default_def route_discovery_entry_new_def
      route_entry_key_new_def route_usable_def chk_add_def link_cost_of_lqi_def compute_routing_cost_def Let_def
      link_cost_default_def nwk_addr_default_def max_def)

theorem route_request_not_relayed_witness:
  "\<exists>s' pc s1 e. handle_route_request_command env_std request_std full_discovery_std = Done ((), s') \<and>
     (send_route_reply_cmd env_std request_std pc s1 = Done (Inl e, s') \<or>
      note_forward_route env_std request_std pc s1 = Done (False, s'))"
proof -
  obtain s' where run: "handle_route_request_command env_std request_std full_discovery_std = Done ((), s')"
    using full_discovery_std_request by blast
  have "rt_ok (cx_route_table (nk_ctx full_discovery_std))"
    by (simp add: full_discovery_std_simps rt_ok_def im_ok_def route_ok_def ROUTE_TABLE_CAP_def DISCOVERY_CAP_def)
  then have "pro_router full_discovery_std" by (simp add: pro_router_def full_discovery_std_simps)
  from route_request_not_relayed [OF this run]
  have "(\<exists>pc s1 e. send_route_reply_cmd env_std request_std pc s1 = Done (Inl e, s')) \<or>
      (\<exists>pc s1. note_forward_route env_std request_std pc s1 = Done (False, s'))"
    by (auto simp: request_path_cost_def full_discovery_std_simps split: if_splits)
  with run show ?thesis by blast
qed

end
