(* ===== verification/Membership.thy ===== *)
theory Membership
  imports Route_Discovery
begin

text \<open>
  The handlers by which devices join, stay in and leave the network: associate indications
  (\<open>nwk/service/reception.rs\<close>), rejoin requests, leave commands, link status, end-device timeouts
  and network updates (\<open>nwk/commands\<close>), and the commands a link-status round sends.
\<close>

section \<open>Neighbors that join\<close>

text \<open>\<open>Vec::push\<close> gives a result; on the heap it never is an error.\<close>

definition nbs_try_push :: "nwk_neighbor \<Rightarrow> neighbor_table \<Rightarrow> neighbor_table option" where
  "nbs_try_push nb t = Some (nbs_push nb t)"

text \<open>What both joins do with a device that is no neighbor of its type: drop the entries of its
  extended address and push a new one. The flag is the success of the push.\<close>

definition replace_neighbor :: "instant \<Rightarrow> new_neighbor \<Rightarrow> neighbor_table \<Rightarrow> neighbor_table \<times> bool" where
  "replace_neighbor now n t =
     (let t1 = nbs_retain (\<lambda>nb. nb_ext_addr nb \<noteq> Some (nn_ext_addr n)) t in
      case nbs_try_push (neighbor_new now n) t1 of Some t2 \<Rightarrow> (t2, True) | None \<Rightarrow> (t1, False))"

record associate_indication =
  ai_device_ext_addr :: ext_addr
  ai_capability_information :: mac_capabilities

definition ai_device_type :: "associate_indication \<Rightarrow> device_type" where
  "ai_device_type ind = device_type_of_mac (mc_device_type (ai_capability_information ind))"

definition associated_neighbor :: "security_level \<Rightarrow> nwk_addr \<Rightarrow> associate_indication \<Rightarrow> new_neighbor" where
  "associated_neighbor level assigned ind = \<lparr> nn_ext_addr = ai_device_ext_addr ind, nn_nwk_addr = assigned,
     nn_device_type = ai_device_type ind,
     nn_rx_on_when_idle = mc_rx_on_when_idle (ai_capability_information ind),
     nn_relationship = (if level = SecNone then Child else UnauthenticatedChild) \<rparr>"

text \<open>The neighbor table after an association, and the child: \<open>None\<close> if the push failed.\<close>

definition associate_child ::
  "instant \<Rightarrow> security_level \<Rightarrow> nwk_addr \<Rightarrow> associate_indication \<Rightarrow> neighbor_table \<Rightarrow>
   neighbor_table \<times> nwk_neighbor option run" where
  "associate_child now level assigned ind t =
     (let dev = ai_device_ext_addr ind; t1 = nbs_cleanup now t in
      case find_by_ext_addr_and_type dev (ai_device_type ind) t1 of
        Some child \<Rightarrow> (t1, Done (Some child))
      | None \<Rightarrow>
          (case replace_neighbor now (associated_neighbor level assigned ind) t1 of (t2, pushed) \<Rightarrow>
             if pushed then (t2, run_map Some (unwrap_run (find_by_ext_addr dev t2)))
             else (t2, Done None)))"

definition answer_association ::
  "env \<Rightarrow> pan_id \<Rightarrow> associate_indication \<Rightarrow> nwk_neighbor option \<Rightarrow> join_indication option act" where
  "answer_association E pan ind child =
     (case child of
        None \<Rightarrow> act_then (associate_response E pan (ai_device_ext_addr ind) AssocPanAtCapacity) (act_return None)
      | Some nb \<Rightarrow>
          act_bind (act_run (unwrap_run (nb_ext_addr nb))) (\<lambda>ext.
          act_bind (associate_response E pan (ai_device_ext_addr ind) (AssocSuccess (nb_nwk_addr nb))) (\<lambda>r.
          case r of Inl _ \<Rightarrow> act_return None
          | Inr _ \<Rightarrow> act_return (Some \<lparr> ji_nwk_addr = nb_nwk_addr nb, ji_ext_addr = ext,
              ji_join_method = Association (ai_capability_information ind) \<rparr>))))"

definition handle_associate_indication :: "env \<Rightarrow> associate_indication \<Rightarrow> join_indication option act" where
  "handle_associate_indication E ind =
     act_bind get_pan_id (\<lambda>pan.
     act_bind (assign_child_address E) (\<lambda>assigned.
     act_bind (act_gets (\<lambda>s. nwk_security_level (profile_params s))) (\<lambda>level.
     act_bind (act_gets (\<lambda>s. associate_child (ev_now E) level assigned ind (cx_neighbors (nk_ctx s)))) (\<lambda>(t, child).
     act_then (neighbors_update (\<lambda>_. t))
     (act_bind (act_run child) (answer_association E pan ind))))))"

text \<open>A rejoin: a neighbor of the same address and type keeps its entry and gets the short address.\<close>

definition rejoin_child ::
  "instant \<Rightarrow> ext_addr \<Rightarrow> nwk_addr \<Rightarrow> zb_capabilities \<Rightarrow> neighbor_table \<Rightarrow> neighbor_table \<times> bool" where
  "rejoin_child now ext addr caps t =
     (let t1 = nbs_cleanup now t; ty = device_type_of_mac (zc_device_type caps) in
      case find_by_ext_addr_and_type ext ty t1 of
        Some _ \<Rightarrow> (nbs_update_first (has_ext_addr_and_type ext ty) (\<lambda>nb. nb\<lparr> nb_nwk_addr := addr \<rparr>) t1, True)
      | None \<Rightarrow> replace_neighbor now \<lparr> nn_ext_addr = ext, nn_nwk_addr = addr, nn_device_type = ty,
          nn_rx_on_when_idle = zc_receiver_on_when_idle caps, nn_relationship = Child \<rparr> t1)"

definition rejoin_address :: "env \<Rightarrow> nwk_addr \<Rightarrow> ext_addr \<Rightarrow> nwk_addr act" where
  "rejoin_address E src ext =
     act_bind (act_gets profile_params) (\<lambda>p.
     if nwk_addr_alloc p = Distributed then act_return src
     else act_bind (is_address_conflict src ext True) (\<lambda>conflict.
       if conflict then assign_child_address E else act_return src))"

definition answer_rejoin ::
  "env \<Rightarrow> nwk_addr \<Rightarrow> ext_addr \<Rightarrow> nwk_addr \<Rightarrow> bool \<Rightarrow> (transfer_error + join_indication option) act" where
  "answer_rejoin E src ext addr success =
     (if success then
        act_bind (send_rejoin_response_cmd E src ext (RejoinSuccess addr)) (\<lambda>r. case r of
          Inr _ \<Rightarrow> act_return (Inr (Some \<lparr> ji_nwk_addr = addr, ji_ext_addr = ext, ji_join_method = Rejoin True \<rparr>))
        | Inl _ \<Rightarrow> act_return (Inr None))
      else act_then (send_rejoin_response_cmd E src ext RejoinPanAtCapacity) (act_return (Inr None)))"

definition handle_rejoin_request_command ::
  "env \<Rightarrow> zb_capabilities received_command \<Rightarrow> (transfer_error + join_indication option) act" where
  "handle_rejoin_request_command E fr =
     (case nh_source_ieee (rc_header fr) of
        None \<Rightarrow> act_return (Inl (InvalidRequest ''missing extended address in header''))
      | Some ext \<Rightarrow>
          (let src = nh_source (rc_header fr) in
           act_bind (rejoin_address E src ext) (\<lambda>addr.
           act_bind (act_gets (\<lambda>s. rejoin_child (ev_now E) ext addr (rc_cmd fr) (cx_neighbors (nk_ctx s)))) (\<lambda>(t, success).
           act_then (neighbors_update (\<lambda>_. t)) (answer_rejoin E src ext addr success)))))"

section \<open>Devices that leave\<close>

text \<open>The two handlers of a router; \<open>NWK_LEAVE_REQUEST_ALLOWED\<close> is true.\<close>

definition handle_leave_request_request :: "env \<Rightarrow> leave_cmd received_command \<Rightarrow> leave_indication option act" where
  "handle_leave_request_request E fr =
     (if is_broadcast (nh_destination (rc_header fr)) then act_return None
      else act_then (emit_leave_cmd E \<lparr> lv_rejoin = lv_rejoin (rc_cmd fr), lv_request = False,
          lv_remove_children = lv_remove_children (rc_cmd fr) \<rparr> NWK_ADDR_MAX None)
        (act_return (Some (LeaveSelf (lv_rejoin (rc_cmd fr))))))"

definition handle_leave_request :: "env \<Rightarrow> leave_cmd received_command \<Rightarrow> leave_indication option act" where
  "handle_leave_request E fr =
     (let cmd = rc_cmd fr; src = nh_source (rc_header fr) in
      if lv_request cmd then handle_leave_request_request E fr
      else
        act_then (neighbors_update (nbs_retain (\<lambda>nb. nb_nwk_addr nb \<noteq> src)))
        (act_bind (act_gets nwk_parent) (\<lambda>parent.
         if src = nb_nwk_addr parent then
           act_then (if lv_remove_children cmd then
               act_then (emit_leave_cmd E \<lparr> lv_rejoin = lv_rejoin cmd, lv_request = False,
                 lv_remove_children = lv_remove_children cmd \<rparr> NWK_ADDR_MAX (nh_source_ieee (rc_header fr)))
                 (act_return ())
             else act_return ())
           (act_return (Some (LeaveParent (lv_rejoin cmd))))
         else act_return None)))"

definition handle_leave_request_end_device ::
  "env \<Rightarrow> leave_cmd received_command \<Rightarrow> leave_indication option act" where
  "handle_leave_request_end_device E fr =
     (let cmd = rc_cmd fr; src = nh_source (rc_header fr) in
      act_bind (act_gets nwk_parent) (\<lambda>parent.
      if lv_request cmd then
        (if is_broadcast (nh_destination (rc_header fr)) \<or> nb_nwk_addr parent \<noteq> src then act_return None
         else act_then (emit_leave_cmd E \<lparr> lv_rejoin = lv_rejoin cmd, lv_request = False,
             lv_remove_children = False \<rparr> (nb_nwk_addr parent) (nb_ext_addr parent))
           (act_return (Some (LeaveSelf (lv_rejoin cmd)))))
      else if src = nb_nwk_addr parent then act_return (Some (LeaveParent (lv_rejoin cmd)))
      else act_return None))"

section \<open>Link status\<close>

text \<open>The cost of the sender's entry for this device; \<open>None\<close> when the frame does not cover it.\<close>

definition link_status_cost :: "nwk_addr \<Rightarrow> link_status_cmd \<Rightarrow> link_cost option" where
  "link_status_cost slf cmd =
     (let es = lsc_entries cmd; opt = lsc_options cmd in
      if es = [] then None
      else if lo_first_frame opt \<and> slf < lse_neighbor_address (hd es) then None
      else if lo_last_frame opt \<and> lse_neighbor_address (last es) < slf then None
      else Some (case find (\<lambda>e. lse_neighbor_address e = slf) es of
          Some e \<Rightarrow> ls_incoming_cost (lse_link_status e) | None \<Rightarrow> link_cost_default))"

definition link_status_update :: "instant \<Rightarrow> nwk_addr \<Rightarrow> link_status_cmd \<Rightarrow> nwk_neighbor \<Rightarrow> nwk_neighbor" where
  "link_status_update now slf cmd nb =
     (let nb' = nb\<lparr> nb_expiration := now + from_secs NWK_LINK_STATUS_PERIOD * NWK_ROUTER_AGE_LIMIT \<rparr> in
      case link_status_cost slf cmd of None \<Rightarrow> nb' | Some c \<Rightarrow> nb'\<lparr> nb_outgoing_cost := c \<rparr>)"

definition handle_link_status_command :: "env \<Rightarrow> link_status_cmd received_command \<Rightarrow> unit act" where
  "handle_link_status_command E fr =
     (let sender = (\<lambda>nb. nb_nwk_addr nb = rc_mac_src_addr fr) in
      act_bind (act_gets (\<lambda>s. find sender (neighbors s))) (\<lambda>nb. case nb of
        None \<Rightarrow> act_return ()
      | Some _ \<Rightarrow> act_bind get_addr (\<lambda>slf.
          neighbors_update (nbs_update_first sender (link_status_update (ev_now E) slf (rc_cmd fr))))))"

text \<open>The commands of a round, and the table that it leaves cleaned and sorted. The number of frames
  and the last-frame flag come from the length of the table before the cleanup.\<close>

definition link_status_frames :: "nat \<Rightarrow> nat" where
  "link_status_frames len = (if len \<le> 16 then 1 else (len - 16) div 15 + 1)"

definition link_status_entry_of :: "nwk_neighbor \<Rightarrow> link_status_entry" where
  "link_status_entry_of nb = \<lparr> lse_neighbor_address = nb_nwk_addr nb, lse_link_status =
     \<lparr> ls_incoming_cost = nb_incoming_cost nb, ls_outgoing_cost = nb_outgoing_cost nb \<rparr> \<rparr>"

definition make_link_status_commands :: "instant \<Rightarrow> neighbor_table \<Rightarrow> link_status_cmd list \<times> neighbor_table" where
  "make_link_status_commands now t =
     (let len = length (nt_neighbors t);
          sorted = sort_key nb_nwk_addr (nt_neighbors (nbs_cleanup now t));
          cmd = (\<lambda>i. let es = map link_status_entry_of (take 16 (drop (i * 15) sorted)) in
            \<lparr> lsc_options = \<lparr> lo_entry_count = of_nat (length es), lo_first_frame = True,
                lo_last_frame = (len = 1) \<rparr>, lsc_entries = es \<rparr>)
      in (map cmd [0..<link_status_frames len], t\<lparr> nt_neighbors := sorted \<rparr>))"

section \<open>End-device timeouts and network updates\<close>

definition timed_end_device :: "nwk_addr \<Rightarrow> nwk_neighbor \<Rightarrow> bool" where
  "timed_end_device a nb \<longleftrightarrow> nb_nwk_addr nb = a \<and> nb_device_type nb = EndDevice"

definition handle_end_device_timeout_request_command ::
  "env \<Rightarrow> end_device_timeout_request received_command \<Rightarrow> transfer_result act" where
  "handle_end_device_timeout_request_command E fr =
     (let cmd = rc_cmd fr; src = rc_mac_src_addr fr in
      case nh_source_ieee (rc_header fr) of
        None \<Rightarrow> act_return (Inr ())
      | Some ext \<Rightarrow>
          if edt_end_device_configuration cmd \<noteq> 0 then
            send_end_device_timeout_response_cmd E src ext TimeoutIncorrectValue
          else
            act_bind (act_gets (\<lambda>s. find (timed_end_device src) (neighbors s))) (\<lambda>nb. case nb of
              None \<Rightarrow> act_return (Inr ())
            | Some _ \<Rightarrow>
                act_then (neighbors_update (nbs_update_first (timed_end_device src) (\<lambda>nb. nb\<lparr>
                    nb_expiration := ev_now E + timeout_duration (edt_requested_timeout cmd),
                    nb_device_timeout := edt_requested_timeout cmd,
                    nb_end_device_configuration := edt_end_device_configuration cmd \<rparr>)))
                (send_end_device_timeout_response_cmd E src ext TimeoutSuccess)))"

definition handle_end_device_timeout_response_command ::
  "end_device_timeout_response received_command \<Rightarrow> unit act" where
  "handle_end_device_timeout_response_command fr =
     ctx_update (\<lambda>c. c\<lparr> cx_parent_information := edr_parent_information (rc_cmd fr) \<rparr>)"

definition handle_network_update_cmd :: "network_update received_command \<Rightarrow> nwk_indication option act" where
  "handle_network_update_cmd fr =
     act_then (ctx_update (\<lambda>c. c\<lparr> cx_update_id := nu_update_id (rc_cmd fr) \<rparr>))
     (act_then (act_modify (\<lambda>s. s\<lparr> nk_mac := (nk_mac s)\<lparr> ms_pan_id := Some (nu_pan_id (rc_cmd fr)) \<rparr> \<rparr>))
     (act_return (Some (IndStatus PanIdentifierUpdate))))"

section \<open>Invariants\<close>

lemma keeps_gets_bind: "(\<And>s. I s \<Longrightarrow> keeps I (g (f s))) \<Longrightarrow> keeps I (act_bind (act_gets f) g)"
  by (rule keepsI) (metis act_gets_bind keepsD)

lemma find_retained: "find (has_ext_addr a) (filter (\<lambda>nb. nb_ext_addr nb \<noteq> Some a) ns) = None"
  by (auto simp: find_None_iff has_ext_addr_def)

lemma replace_neighbor_spec:
  assumes "replace_neighbor now n t = (t', ok)"
  shows "ok \<and> find_by_ext_addr (nn_ext_addr n) t' = Some (neighbor_new now n) \<and>
    (nbs_unique t \<longrightarrow> nbs_unique t') \<and>
    set (nt_neighbors t') = insert (neighbor_new now n) {nb \<in> set (nt_neighbors t). nb_ext_addr nb \<noteq> Some (nn_ext_addr n)}"
proof -
  let ?t1 = "nbs_retain (\<lambda>nb. nb_ext_addr nb \<noteq> Some (nn_ext_addr n)) t"
  have t': "t' = nbs_push (neighbor_new now n) ?t1" "ok"
    using assms by (auto simp: replace_neighbor_def nbs_try_push_def Let_def)
  have "nbs_unique t'" if "nbs_unique t"
    unfolding t' using nbs_unique_retain [OF that]
    by (rule nbs_unique_push) (auto simp: nbs_retain_def neighbor_new_def)
  then show ?thesis
    using t' by (auto simp: nbs_push_def nbs_retain_def find_by_ext_addr_def find_append find_retained
        has_ext_addr_def neighbor_new_def)
qed

lemma find_type_ext:
  assumes "nbs_unique t" and "find_by_ext_addr_and_type a d t = Some nb"
  shows "find_by_ext_addr a t = Some nb" and "nb_device_type nb = d" and "nb_ext_addr nb = Some a"
  using find_Some_prop [OF assms(2) [unfolded find_by_ext_addr_and_type_def]] nbs_unique_find [OF assms(1), of nb a]
  by (auto simp: has_ext_addr_and_type_def)

lemma associate_child_spec:
  assumes "nbs_unique t" and "associate_child now level a ind t = (t', c)"
  shows "nbs_unique t' \<and> (\<exists>nb. c = Done (Some nb) \<and> nb_ext_addr nb = Some (ai_device_ext_addr ind) \<and>
    find_by_ext_addr (ai_device_ext_addr ind) t' = Some nb \<and> nb_device_type nb = ai_device_type ind \<and>
    nb = (case find_by_ext_addr_and_type (ai_device_ext_addr ind) (ai_device_type ind) (nbs_cleanup now t) of
        Some old \<Rightarrow> old | None \<Rightarrow> neighbor_new now (associated_neighbor level a ind)))"
proof (cases "find_by_ext_addr_and_type (ai_device_ext_addr ind) (ai_device_type ind) (nbs_cleanup now t)")
  case None
  obtain t2 ok where r: "replace_neighbor now (associated_neighbor level a ind) (nbs_cleanup now t) = (t2, ok)"
    by fastforce
  from replace_neighbor_spec [OF r] assms None r show ?thesis
    by (auto simp: associate_child_def Let_def unwrap_run_def associated_neighbor_def neighbor_new_def)
next
  case (Some old)
  with assms find_type_ext [OF nbs_unique_cleanup [OF assms(1)] Some] show ?thesis
    by (auto simp: associate_child_def Let_def)
qed

lemma nbs_unique_rejoin: "nbs_unique t \<Longrightarrow> rejoin_child now e a caps t = (t', ok) \<Longrightarrow> nbs_unique t'"
  by (auto simp: rejoin_child_def Let_def nbs_unique_update_first dest: replace_neighbor_spec split: option.splits)

lemma keeps_conflict [keeps_rules]: "keeps I (is_address_conflict a e c)"
  by (simp add: is_address_conflict_def keeps_rules)

lemma keeps_answers [keeps_rules]:
  assumes "quiet I"
  shows "keeps I (answer_association E pan ind child)" "keeps I (answer_rejoin E src ext addr ok)"
  using assms by (simp_all add: answer_association_def answer_rejoin_def keeps_rules)

lemma keeps_ok_associate [keeps_rules]: "keeps nwk_ok (handle_associate_indication E ind)"
  unfolding handle_associate_indication_def
  by (rule keeps_bind [OF keeps_reads(2)], rule keeps_bind [OF keeps_ok_rand], rule keeps_bind [OF keeps_basic(3)],
      rule keeps_gets_bind, rule keeps_prod, rule keeps_then)
    (auto simp: nwk_ok_def dest: associate_child_spec intro!: keeps_rules)

lemma keeps_ok_rejoin [keeps_rules]: "keeps nwk_ok (handle_rejoin_request_command E fr)"
proof -
  have addr: "keeps nwk_ok (rejoin_address E src ext)" for src ext
    by (simp add: rejoin_address_def keeps_rules)
  have "keeps nwk_ok (act_bind (act_gets (\<lambda>s. rejoin_child (ev_now E) ext addr (rc_cmd fr) (cx_neighbors (nk_ctx s))))
      (\<lambda>(t, success). act_then (neighbors_update (\<lambda>_. t)) (answer_rejoin E src ext addr success)))" for src ext addr
    by (rule keeps_gets_bind, rule keeps_prod, rule keeps_then)
      (auto simp: nwk_ok_def intro: nbs_unique_rejoin intro!: keeps_rules)
  with addr show ?thesis
    unfolding handle_rejoin_request_command_def Let_def
    by (rule_tac keeps_option, simp add: keeps_basic, rule_tac keeps_bind) auto
qed

lemma keeps_ok_management [keeps_rules]:
  "keeps nwk_ok (handle_leave_request E l)" "keeps nwk_ok (handle_leave_request_end_device E l)"
  "keeps nwk_ok (handle_link_status_command E ls)" "keeps nwk_ok (handle_end_device_timeout_request_command E t)"
  "keeps nwk_ok (handle_end_device_timeout_response_command r)" "keeps nwk_ok (handle_network_update_cmd u)"
  by (auto simp: handle_leave_request_def handle_leave_request_request_def handle_leave_request_end_device_def
      handle_link_status_command_def handle_end_device_timeout_request_command_def link_status_update_def
      handle_end_device_timeout_response_command_def handle_network_update_cmd_def Let_def nbs_unique_update_first
      nwk_ok_def intro!: keeps_rules keeps_ok_ctx keeps_modify split: option.splits)

section \<open>Properties\<close>

lemma associate_response_Done:
  "associate_response E p x st s = Done (r, s') \<Longrightarrow> ms_pan_id (nk_mac s) = Some q \<Longrightarrow>
     r = (if ev_tx E (length (nk_sent s)) then Inr () else Inl ()) \<and> nk_ctx s' = nk_ctx s \<and>
     nk_sent s' = nk_sent s @ [TxAssociateResponse p x st]"
  by (auto simp: associate_response_def Let_def split: if_splits)

lemma assign_child_address_Done:
  assumes "assign_child_address E s = Done (a, s')"
  shows "\<exists>n slf. s' = s\<lparr> nk_rand := n \<rparr> \<and> ms_short_address (nk_mac s) = Some slf \<and> \<not> addr_in_use slf (nk_ctx s) a"
proof -
  from assms obtain slf n where "ms_short_address (nk_mac s) = Some slf"
    and "assign_loop E (addr_in_use slf (nk_ctx s)) (nk_rand s) = Some (a, n)" "s' = s\<lparr> nk_rand := n \<rparr>"
    by (auto simp: assign_child_address_def run_simps get_addr_def act_run_def unwrap_run_def
        split: addr_alloc_method.splits option.splits)
  with assign_loop_Some [of E "addr_in_use slf (nk_ctx s)" "nk_rand s"] show ?thesis
    by (fastforce simp: first_free_def)
qed

lemma act_return_sum:
  "(case q of Inl _ \<Rightarrow> act_return a | Inr _ \<Rightarrow> act_return b) s = Done (case q of Inl _ \<Rightarrow> a | Inr _ \<Rightarrow> b, s)"
  by (cases q) (simp_all add: act_return_def)

lemma profile_params_rand: "profile_params (s\<lparr> nk_rand := n \<rparr>) = profile_params s"
  by (simp add: profile_params_def)

text \<open>C19. An associating device gets an entry of its type: the one it has, or a new one with an
  address that no table uses, unauthenticated when the network is secured. The response carries the
  address of that entry, and the join is indicated exactly if the response was sent. It is never
  refused, and extended addresses stay unique.\<close>
theorem association_correct:
  assumes "nbs_unique (cx_neighbors (nk_ctx s))" and "handle_associate_indication E ind s = Done (r, s')"
  shows "\<exists>nb pan. find_by_ext_addr (ai_device_ext_addr ind) (cx_neighbors (nk_ctx s')) = Some nb \<and>
    nb_device_type nb = ai_device_type ind \<and> nbs_unique (cx_neighbors (nk_ctx s')) \<and>
    nk_sent s' = nk_sent s @ [TxAssociateResponse pan (ai_device_ext_addr ind) (AssocSuccess (nb_nwk_addr nb))] \<and>
    r = (if ev_tx E (length (nk_sent s)) then Some \<lparr> ji_nwk_addr = nb_nwk_addr nb,
        ji_ext_addr = ai_device_ext_addr ind, ji_join_method = Association (ai_capability_information ind) \<rparr> else None) \<and>
    (case find_by_ext_addr_and_type (ai_device_ext_addr ind) (ai_device_type ind)
        (nbs_cleanup (ev_now E) (cx_neighbors (nk_ctx s))) of
      Some old \<Rightarrow> nb = old
    | None \<Rightarrow> find_by_short_addr (nb_nwk_addr nb) (cx_neighbors (nk_ctx s)) = None \<and>
        nb_relationship nb = (if nwk_security_level (profile_params s) = SecNone then Child else UnauthenticatedChild))"
proof -
  let ?dev = "ai_device_ext_addr ind" let ?t = "cx_neighbors (nk_ctx s)"
  from assms(2) obtain pan a n slf where pan: "ms_pan_id (nk_mac s) = Some pan"
    and a: "\<not> addr_in_use slf (nk_ctx s) a"
    and rest: "(case associate_child (ev_now E) (nwk_security_level (profile_params s)) a ind ?t of (t, child) \<Rightarrow>
        act_then (neighbors_update (\<lambda>_. t)) (act_bind (act_run child) (answer_association E pan ind)))
      (s\<lparr> nk_rand := n \<rparr>) = Done (r, s')"
    by (auto simp: handle_associate_indication_def act_bind_Done act_gets_bind get_pan_id_def unwrap_run_def
        act_run_def profile_params_def split: option.splits dest!: assign_child_address_Done)
  obtain t c where tc: "associate_child (ev_now E) (nwk_security_level (profile_params s)) a ind ?t = (t, c)"
    by fastforce
  from associate_child_spec [OF assms(1) tc] obtain nb where t: "nbs_unique t" and c: "c = Done (Some nb)"
    and ext: "nb_ext_addr nb = Some ?dev" and nb: "find_by_ext_addr ?dev t = Some nb" "nb_device_type nb = ai_device_type ind"
    and old: "nb = (case find_by_ext_addr_and_type ?dev (ai_device_type ind) (nbs_cleanup (ev_now E) ?t) of
        Some old \<Rightarrow> old | None \<Rightarrow> neighbor_new (ev_now E) (associated_neighbor (nwk_security_level (profile_params s)) a ind))"
    by blast
  let ?s = "s\<lparr> nk_rand := n, nk_ctx := (nk_ctx s)\<lparr> cx_neighbors := t \<rparr> \<rparr>"
  from rest obtain q where send: "associate_response E pan ?dev (AssocSuccess (nb_nwk_addr nb)) ?s = Done (q, s')"
    and r: "r = (case q of Inl _ \<Rightarrow> None | Inr _ \<Rightarrow> Some \<lparr> ji_nwk_addr = nb_nwk_addr nb, ji_ext_addr = ?dev,
      ji_join_method = Association (ai_capability_information ind) \<rparr>)"
    by (auto simp: tc c ext act_then_def act_bind_Done neighbors_update_def ctx_update_def act_modify_def act_run_def
        answer_association_def unwrap_run_def act_return_sum)
  have free: "find_by_short_addr a ?t = None" using a by (simp add: addr_in_use_def)
  from associate_response_Done [OF send, of pan] pan r t nb old free show ?thesis
    by (auto simp: neighbor_new_def associated_neighbor_def split: option.splits intro!: exI [of _ nb])
qed

definition assoc_std :: associate_indication where
  "assoc_std = \<lparr> ai_device_ext_addr = 77, ai_capability_information = \<lparr> alternate_pan_coordinator = False,
     mc_device_type = ReducedFunctionDevice, mc_current_source = OtherSource, mc_rx_on_when_idle = False, mc_security = False,
     mc_allocate_address = True \<rparr> \<rparr>"

lemma assign_std: "assign_child_address env_std nwk_std = Done (1, nwk_std\<lparr> nk_rand := 1 \<rparr>)"
proof -
  have "\<not> addr_in_use 0x1001 (nk_ctx nwk_std) 1" "drawn_addr env_std 0 = 1" "nk_rand nwk_std = 0"
    by (simp_all add: addr_in_use_def nwk_std_def nwk_context_default_def neighbor_table_default_def
        neighbor_table_new_def find_by_short_addr_def im_contains_def drawn_addr_def env_std_def)
  then show ?thesis
    by (simp add: assign_child_address_def nwk_std_simps get_addr_def act_run_def unwrap_run_def assign_loop.simps
        profile_params_def profile_defs nwk_std_def nwk_context_default_def)
qed

theorem association_correct_witness:
  "\<exists>r s' nb. handle_associate_indication env_std assoc_std nwk_std = Done (r, s') \<and>
     find_by_ext_addr 77 (cx_neighbors (nk_ctx s')) = Some nb \<and> nb_device_type nb = EndDevice"
proof -
  have unique: "nbs_unique (cx_neighbors (nk_ctx nwk_std))"
    by (simp add: nwk_std_def nwk_context_default_def neighbor_table_default_def neighbor_table_new_def nbs_unique_def)
  obtain t c where tc: "associate_child 1000 EncMic32 1 assoc_std (cx_neighbors (nk_ctx nwk_std)) = (t, c)"
    by fastforce
  from associate_child_spec [OF unique tc] obtain nb where "c = Done (Some nb)" "nb_ext_addr nb = Some 77"
    by (auto simp: assoc_std_def)
  then obtain r s' where run: "handle_associate_indication env_std assoc_std nwk_std = Done (r, s')"
    using tc by (simp add: handle_associate_indication_def act_defs get_pan_id_def unwrap_run_def nwk_std_simps
        assign_std env_std_simps answer_association_def associate_response_def profile_params_rand Let_def)
  from association_correct [OF unique run] run show ?thesis
    by (auto simp: assoc_std_def ai_device_type_def)
qed

lemma quiet_neighbors: "quiet (\<lambda>s. cx_neighbors (nk_ctx s) = t)"
  unfolding quiet_def
proof (intro allI impI, elim conjE)
  fix s s' :: nwk
  assume "blank_counters (nk_ctx s') = blank_counters (nk_ctx s)"
    and "cx_neighbors (nk_ctx s) = t"
  from this(1) [THEN arg_cong [where f = cx_neighbors]] this(2) show "cx_neighbors (nk_ctx s') = t" by simp
qed

lemma rejoin_child_spec:
  assumes "nbs_unique t" and "rejoin_child now ext a caps t = (t', ok)"
  shows "ok \<and> (\<exists>nb. find_by_ext_addr ext t' = Some nb \<and> nb_nwk_addr nb = a \<and>
      nb_device_type nb = device_type_of_mac (zc_device_type caps)) \<and>
    (\<forall>old\<in>set (nt_neighbors t). nb_ext_addr old \<noteq> Some ext \<and> now < nb_expiration old \<longrightarrow> old \<in> set (nt_neighbors t'))"
proof -
  let ?ty = "device_type_of_mac (zc_device_type caps)" let ?t1 = "nbs_cleanup now t"
  let ?set = "\<lambda>nb. nb\<lparr> nb_nwk_addr := a \<rparr>"
  show ?thesis
  proof (cases "find_by_ext_addr_and_type ext ?ty ?t1")
    case None
    from assms(2) None replace_neighbor_spec [of now _ ?t1 t' ok] show ?thesis
      by (fastforce simp: rejoin_child_def Let_def neighbor_new_def nbs_cleanup_def)
  next
    case (Some old)
    with assms(2) have t': "t' = nbs_update_first (has_ext_addr_and_type ext ?ty) ?set ?t1" "ok"
      by (auto simp: rejoin_child_def Let_def)
    have "has_ext_addr_and_type ext ?ty (?set old)"
      using find_Some_prop [OF Some [unfolded find_by_ext_addr_and_type_def]] by (simp add: has_ext_addr_and_type_def)
    then have "find (has_ext_addr_and_type ext ?ty) (nt_neighbors t') = Some (?set old)"
      using find_update_first [OF Some [unfolded find_by_ext_addr_and_type_def], of ?set]
      by (simp add: t' nbs_update_first_def)
    moreover have "nbs_unique t'" unfolding t'(1) by (rule nbs_unique_update_first) (use assms(1) in simp_all)
    ultimately have "find_by_ext_addr ext t' = Some (?set old)" "nb_device_type (?set old) = ?ty"
      using find_type_ext [of t' ext ?ty "?set old"] by (auto simp: find_by_ext_addr_and_type_def)
    moreover have "x \<in> set (nt_neighbors t')" if "x \<in> set (nt_neighbors t)" "nb_ext_addr x \<noteq> Some ext" "now < nb_expiration x" for x
    proof -
      have keep: "\<not> P y \<Longrightarrow> y \<in> set xs \<Longrightarrow> y \<in> set (update_first P f xs)" for P f xs and y :: nwk_neighbor
        by (induction xs) auto
      from that show ?thesis unfolding t' nbs_update_first_def
        by (auto simp: nbs_cleanup_def has_ext_addr_and_type_def intro!: keep)
    qed
    ultimately show ?thesis using t'(2) by auto
  qed
qed

text \<open>When the code takes the short address of a rejoining device to be in conflict.\<close>

definition rejoin_conflict :: "nwk_addr \<Rightarrow> nwk_context \<Rightarrow> nwk_addr \<Rightarrow> ext_addr \<Rightarrow> bool" where
  "rejoin_conflict slf cx src ext \<longleftrightarrow> slf = src \<or> (case im_get src (cx_addr_map cx) of
     Some x \<Rightarrow> x \<noteq> ext
   | None \<Rightarrow> \<exists>nb. find_by_short_addr src (cx_neighbors cx) = Some nb \<and> nb_ext_addr nb = Some ext)"

lemma rejoin_address_Done:
  assumes "cx_profile (nk_ctx s) = ZigbeePro" and "ms_short_address (nk_mac s) = Some slf"
    and "rejoin_address E src ext s = Done (a, s1)"
  shows "nk_ctx s1 = nk_ctx s \<and> (a = src \<longleftrightarrow> \<not> rejoin_conflict slf (nk_ctx s) src ext)"
proof -
  have "is_address_conflict src ext True s = Done (rejoin_conflict slf (nk_ctx s) src ext, s)"
    using assms(2) by (auto simp: is_address_conflict_def rejoin_conflict_def act_defs get_addr_def unwrap_run_def
        split: option.splits)
  with assms(1,3) have "if rejoin_conflict slf (nk_ctx s) src ext then assign_child_address E s = Done (a, s1)
      else a = src \<and> s1 = s"
    by (auto simp: rejoin_address_def act_gets_def act_bind_def act_return_def profile_params_def profile_defs split: if_splits)
  moreover have "addr_in_use slf (nk_ctx s) src" if "rejoin_conflict slf (nk_ctx s) src ext"
    using that by (auto simp: rejoin_conflict_def addr_in_use_def im_contains_def split: option.splits)
  ultimately show ?thesis
    using assms(2) by (auto dest!: assign_child_address_Done split: if_splits)
qed

text \<open>A rejoin is never refused: the device gets an entry of its type under its extended address,
  and every other live neighbor stays. It keeps its short address unless the code sees a conflict,
  and that test is inverted for neighbors: a device that a neighbor entry already lists under the
  address is given another one, and a device that takes the address of another neighbor keeps it.\<close>
theorem rejoin_correct:
  assumes "nbs_unique (cx_neighbors (nk_ctx s))" and "cx_profile (nk_ctx s) = ZigbeePro"
    and "nh_source_ieee (rc_header fr) = Some ext" and "ms_short_address (nk_mac s) = Some slf"
    and "handle_rejoin_request_command E fr s = Done (r, s')"
  shows "\<exists>nb. find_by_ext_addr ext (cx_neighbors (nk_ctx s')) = Some nb \<and> nbs_unique (cx_neighbors (nk_ctx s')) \<and>
    nb_device_type nb = device_type_of_mac (zc_device_type (rc_cmd fr)) \<and>
    (nb_nwk_addr nb = nh_source (rc_header fr) \<longleftrightarrow> \<not> rejoin_conflict slf (nk_ctx s) (nh_source (rc_header fr)) ext) \<and>
    (\<forall>old\<in>set (neighbors s). nb_ext_addr old \<noteq> Some ext \<and> ev_now E < nb_expiration old \<longrightarrow> old \<in> set (neighbors s')) \<and>
    r \<in> {Inr None, Inr (Some \<lparr> ji_nwk_addr = nb_nwk_addr nb, ji_ext_addr = ext, ji_join_method = Rejoin True \<rparr>)}"
proof -
  let ?src = "nh_source (rc_header fr)"
  from assms(3,5) obtain a s1 where addr: "rejoin_address E ?src ext s = Done (a, s1)"
    and rest: "(case rejoin_child (ev_now E) ext a (rc_cmd fr) (cx_neighbors (nk_ctx s1)) of (t, success) \<Rightarrow>
        act_then (neighbors_update (\<lambda>_. t)) (answer_rejoin E ?src ext a success)) s1 = Done (r, s')"
    by (auto simp: handle_rejoin_request_command_def Let_def act_bind_Done act_gets_bind)
  note s1 = rejoin_address_Done [OF assms(2,4) addr]
  obtain t ok where t: "rejoin_child (ev_now E) ext a (rc_cmd fr) (cx_neighbors (nk_ctx s)) = (t, ok)" by fastforce
  note spec = rejoin_child_spec [OF assms(1) t]
  let ?s = "s1\<lparr> nk_ctx := (nk_ctx s1)\<lparr> cx_neighbors := t \<rparr> \<rparr>"
  from rest t s1 spec have ans: "answer_rejoin E ?src ext a True ?s = Done (r, s')"
    by (auto simp: act_then_def act_bind_Done neighbors_update_def ctx_update_def act_modify_def)
  have "cx_neighbors (nk_ctx s') = t"
    by (rule keepsD [OF keeps_answers(2) [OF quiet_neighbors] _ ans]) simp
  moreover have "r \<in> {Inr None, Inr (Some \<lparr> ji_nwk_addr = a, ji_ext_addr = ext, ji_join_method = Rejoin True \<rparr>)}"
  proof -
    from ans obtain q :: transfer_result where "r = (case q of Inl _ \<Rightarrow> Inr None | Inr _ \<Rightarrow>
        Inr (Some \<lparr> ji_nwk_addr = a, ji_ext_addr = ext, ji_join_method = Rejoin True \<rparr>))"
      by (auto simp: answer_rejoin_def act_bind_Done act_return_sum)
    then show ?thesis by (cases q) auto
  qed
  moreover have "nbs_unique t" using nbs_unique_rejoin [OF assms(1) t] .
  ultimately show ?thesis using spec s1 by (auto simp: neighbors_def)
qed

text \<open>A router without keys, with one end-device child, whose transmissions fail for want of a key.\<close>

definition child_std :: nwk_neighbor where
  "child_std = (neighbor_default 5000)\<lparr> nb_ext_addr := Some 77, nb_nwk_addr := 0x55, nb_relationship := Child \<rparr>"

definition parent_std :: nwk where
  "parent_std = nwk_std\<lparr> nk_ctx := (nk_ctx nwk_std)\<lparr> cx_security_material_set := [],
     cx_neighbors := neighbor_table_new (neighbor_default 0) [child_std] \<rparr> \<rparr>"

definition received_std :: "nwk_addr \<Rightarrow> ext_addr option \<Rightarrow> 'c \<Rightarrow> 'c received_command" where
  "received_std src ieee cmd = \<lparr> rc_lqi = 200, rc_mac_src_addr = src,
     rc_header = header_std\<lparr> nh_source := src, nh_source_ieee := ieee \<rparr>, rc_cmd = cmd \<rparr>"

lemma parent_std_simps:
  "cx_security_material_set (nk_ctx parent_std) = []" "ms_short_address (nk_mac parent_std) = Some 0x1001"
  "cx_neighbors (nk_ctx parent_std) = neighbor_table_new (neighbor_default 0) [child_std]"
  "cx_profile (nk_ctx parent_std) = ZigbeePro" "cx_addr_map (nk_ctx parent_std) = []"
  "nbs_unique (cx_neighbors (nk_ctx parent_std))" "neighbors parent_std = [child_std]"
  by (simp_all add: parent_std_def nwk_std_def nwk_context_default_def nbs_unique_def neighbor_table_new_def
      neighbors_def)

lemma no_key_transmit:
  assumes "find_material (cx_active_key_seq_number (nk_ctx s)) (cx_security_material_set (nk_ctx s)) = None"
    and "is_secured f" "\<not> is_reserved f"
  shows "transmit_frame E f dst ack s = Done (Inl (SecurityFailed KeyNotFound), s)"
proof -
  let ?keys = "cx_security_material_set (nk_ctx s)"
  have "make_encrypted_frame (ev_crypto E) (ev_wire E) (ev_codecs E) f buf ext level
      (cx_active_key_seq_number (nk_ctx s)) ?keys = Done (Inl KeyNotFound, ?keys, False)" for buf ext level
    using assms(1) by (simp add: make_encrypted_frame_def)
  with assms(2,3) show ?thesis
    by (simp add: transmit_frame_def build_mac_payload_def build_mac_payload_with_def act_bind_def act_return_def)
qed

lemma parent_profile: "profile_params parent_std = ZIGBEE_PRO_STACK_PROFILE"
  by (simp add: profile_params_def parent_std_simps)

lemma parent_assign: "assign_child_address env_std parent_std = Done (1, parent_std\<lparr> nk_rand := 1 \<rparr>)"
proof -
  have "\<not> addr_in_use 0x1001 (nk_ctx parent_std) 1" "drawn_addr env_std 0 = 1" "nk_rand parent_std = 0"
    by (simp_all add: addr_in_use_def parent_std_def nwk_std_def nwk_context_default_def child_std_def
        neighbor_table_new_def find_by_short_addr_def im_contains_def drawn_addr_def env_std_def)
  then show ?thesis
    by (simp add: assign_child_address_def parent_std_simps get_addr_def act_run_def unwrap_run_def assign_loop.simps
        parent_profile profile_defs)
qed

lemma new_cmd_frame_secured:
  assumes "nwk_header_cmd True dst die sr seq r s = Done (hdr, s')"
  shows "is_secured (new_cmd_frame hdr c) \<and> \<not> is_reserved (new_cmd_frame hdr c) \<and> nk_ctx s' = nk_ctx s"
  using assms
  by (auto simp: nwk_header_cmd_def nwk_header_new_def act_bind_Done act_gets_def act_run_def get_addr_def
      get_next_seq_number_def act_return_def new_cmd_frame_def is_secured_def is_reserved_def
      nwk_header_new_no_ctx_def run_simps)

lemma rejoin_response_std:
  assumes "ms_short_address (nk_mac s) = Some slf" and "cx_profile (nk_ctx s) = ZigbeePro"
    and "cx_security_material_set (nk_ctx s) = []"
  shows "\<exists>s'. send_rejoin_response_cmd E dst ext rsp s = Done (Inl (SecurityFailed KeyNotFound), s')"
proof -
  have "\<exists>hdr s1. nwk_header_cmd True dst (Some ext) None None None s = Done (hdr, s1)"
    using assms(1,2) by (simp add: nwk_header_cmd_def nwk_header_new_def act_defs get_addr_def unwrap_run_def
        get_next_seq_number_def profile_params_def profile_defs chk_mul_def)
  then obtain hdr s1 where hdr: "nwk_header_cmd True dst (Some ext) None None None s = Done (hdr, s1)" by blast
  with new_cmd_frame_secured [OF hdr] assms(3) show ?thesis
    by (simp add: send_rejoin_response_cmd_def act_bind_def no_key_transmit find_material_def)
qed

definition zb_caps_std :: zb_capabilities where
  "zb_caps_std = \<lparr> zc_device_type = ReducedFunctionDevice, zc_current_source = OtherSource,
     zc_receiver_on_when_idle = False, zc_allocate_address = False \<rparr>"

theorem rejoin_correct_witness:
  "\<exists>r s' nb. handle_rejoin_request_command env_std (received_std 0x55 (Some 77) zb_caps_std) parent_std = Done (r, s') \<and>
     find_by_ext_addr 77 (cx_neighbors (nk_ctx s')) = Some nb \<and> nb_nwk_addr nb \<noteq> 0x55"
proof -
  obtain t ok where t: "rejoin_child 1000 77 1 zb_caps_std (cx_neighbors (nk_ctx parent_std)) = (t, ok)" by fastforce
  let ?s = "parent_std\<lparr> nk_rand := 1, nk_ctx := (nk_ctx parent_std)\<lparr> cx_neighbors := t \<rparr> \<rparr>"
  have conflict: "is_address_conflict 0x55 77 True parent_std = Done (True, parent_std)"
    by (simp add: is_address_conflict_def act_defs get_addr_def unwrap_run_def parent_std_simps im_get_def
        find_by_short_addr_def neighbor_table_new_def child_std_def)
  have "handle_rejoin_request_command env_std (received_std 0x55 (Some 77) zb_caps_std) parent_std =
      answer_rejoin env_std 0x55 77 1 ok ?s"
    using t by (simp add: handle_rejoin_request_command_def rejoin_address_def act_defs received_std_def Let_def
        parent_profile profile_defs conflict parent_assign env_std_simps)
  moreover have "\<exists>r s'. answer_rejoin env_std 0x55 77 1 ok ?s = Done (r, s')"
    using rejoin_response_std [of ?s "0x1001" env_std "0x55" 77 "RejoinSuccess 1"]
      rejoin_response_std [of ?s "0x1001" env_std "0x55" 77 RejoinPanAtCapacity]
    by (auto simp: answer_rejoin_def act_defs parent_std_simps)
  ultimately have "\<exists>r s'. handle_rejoin_request_command env_std (received_std 0x55 (Some 77) zb_caps_std) parent_std = Done (r, s')"
    by simp
  then obtain r s' where run: "handle_rejoin_request_command env_std (received_std 0x55 (Some 77) zb_caps_std) parent_std = Done (r, s')"
    by blast
  have "rejoin_conflict 0x1001 (nk_ctx parent_std) 0x55 77"
    by (simp add: rejoin_conflict_def parent_std_simps find_by_short_addr_def neighbor_table_new_def child_std_def im_get_def)
  with rejoin_correct [OF parent_std_simps(6,4) _ parent_std_simps(2) run, of 77] run show ?thesis
    by (auto simp: received_std_def)
qed

lemma take_overlap:
  "k \<le> j \<Longrightarrow> set (take (m + k) xs) \<union> set (take j (drop m xs)) = set (take (m + j) xs)"
  using set_take_subset_set_take [of k j "drop m xs"] by (auto simp: take_add)

lemma link_status_union:
  "(\<Union>i<Suc n. set (take 16 (drop (i * 15) xs))) = set (take (15 * Suc n + 1) xs)"
proof (induction n)
  case (Suc n)
  have "15 * Suc n + 1 = Suc n * 15 + 1" "15 * Suc (Suc n) + 1 = Suc n * 15 + 16" by simp_all
  with Suc take_overlap [of 1 16 "Suc n * 15" xs] show ?case
    by (simp only: lessThan_Suc [of "Suc n"] UN_insert) (simp only: Un_commute)
qed (simp add: lessThan_Suc)

lemma link_status_cmd_shape:
  assumes "make_link_status_commands now t = (cmds, t')" and "c \<in> set cmds"
  shows "\<exists>i. lsc_entries c = map link_status_entry_of (take 16 (drop (i * 15) (nt_neighbors t'))) \<and>
    lo_first_frame (lsc_options c) \<and> (lo_last_frame (lsc_options c) \<longleftrightarrow> length (nt_neighbors t) = 1) \<and>
    (length (nt_neighbors t) = 1 \<longrightarrow> i = 0)"
proof -
  from assms obtain i where "i < link_status_frames (length (nt_neighbors t))"
    and "lsc_entries c = map link_status_entry_of (take 16 (drop (i * 15) (nt_neighbors t')))"
    and "lo_first_frame (lsc_options c)" "lo_last_frame (lsc_options c) \<longleftrightarrow> length (nt_neighbors t) = 1"
    by (auto simp: make_link_status_commands_def Let_def)
  then show ?thesis by (auto simp: link_status_frames_def intro!: exI [of _ i] split: if_splits)
qed

lemma link_status_table:
  assumes "make_link_status_commands now t = (cmds, t')"
  shows "sorted (map nb_nwk_addr (nt_neighbors t'))" and "set (nt_neighbors t') \<subseteq> set (nt_neighbors t)"
    and "distinct (map nb_nwk_addr (nt_neighbors t)) \<Longrightarrow> inj_on nb_nwk_addr (set (nt_neighbors t'))"
    and "length (nt_neighbors t') \<le> length (nt_neighbors t)"
  using assms by (auto simp: make_link_status_commands_def nbs_cleanup_def Let_def distinct_map intro: inj_on_subset)

lemma sorted_window: "sorted (map f xs) \<Longrightarrow> sorted (map f (take n (drop k xs)))"
  by (simp only: take_map [symmetric] drop_map [symmetric]) (intro sorted_wrt_take sorted_wrt_drop)

lemma lse_address: "lse_neighbor_address \<circ> link_status_entry_of = nb_nwk_addr"
  by (auto simp: link_status_entry_of_def)

lemma link_status_frames_pos: "\<exists>n. link_status_frames len = Suc n"
  by (simp add: link_status_frames_def)

text \<open>A round of link status lists the live neighbors in ascending order in overlapping windows
  of at most 16, and keeps the table so. Its frames reach the first \<open>15 n + 1\<close> neighbors, so with 17
  to 30 neighbors the ones from the 17th on are in no frame. Every frame claims to be the first, and
  to be the last exactly if the table held one neighbor.\<close>
theorem link_status_commands_correct:
  assumes "make_link_status_commands now t = (cmds, t')"
  shows "nt_neighbors t' = sort_key nb_nwk_addr (filter (\<lambda>nb. now < nb_expiration nb) (nt_neighbors t)) \<and>
    length cmds = (if length (nt_neighbors t) \<le> 16 then 1 else (length (nt_neighbors t) - 16) div 15 + 1) \<and>
    (\<Union>c\<in>set cmds. set (lsc_entries c)) =
      link_status_entry_of ` set (take (15 * length cmds + 1) (nt_neighbors t')) \<and>
    (\<forall>c\<in>set cmds. sorted (map lse_neighbor_address (lsc_entries c)) \<and> length (lsc_entries c) \<le> 16 \<and>
      unat (lo_entry_count (lsc_options c)) = length (lsc_entries c) \<and> lo_first_frame (lsc_options c) \<and>
      (lo_last_frame (lsc_options c) \<longleftrightarrow> length (nt_neighbors t) = 1)) \<and>
    (\<forall>i. Suc i < length cmds \<and> 15 * Suc i < length (nt_neighbors t') \<longrightarrow>
      last (lsc_entries (cmds ! i)) = hd (lsc_entries (cmds ! Suc i)))"
proof -
  let ?xs = "sort_key nb_nwk_addr (filter (\<lambda>nb. now < nb_expiration nb) (nt_neighbors t))"
  let ?n = "link_status_frames (length (nt_neighbors t))"
  let ?es = "\<lambda>i. map link_status_entry_of (take 16 (drop (i * 15) ?xs))"
  let ?c = "\<lambda>i. \<lparr> lsc_options = \<lparr> lo_entry_count = of_nat (length (?es i)), lo_first_frame = True,
    lo_last_frame = (length (nt_neighbors t) = 1) \<rparr>, lsc_entries = ?es i \<rparr>"
  have t': "nt_neighbors t' = ?xs" and cmds: "cmds = map ?c [0..<?n]"
    using assms by (auto simp: make_link_status_commands_def nbs_cleanup_def Let_def)
  obtain m where m: "?n = Suc m" using link_status_frames_pos by blast
  have union: "(\<Union>c\<in>set cmds. set (lsc_entries c)) = link_status_entry_of ` set (take (15 * length cmds + 1) ?xs)"
  proof -
    have "(\<Union>c\<in>set cmds. set (lsc_entries c)) = link_status_entry_of ` (\<Union>i<Suc m. set (take 16 (drop (i * 15) ?xs)))"
      by (simp only: cmds m set_map set_upt image_UN atLeast0LessThan image_image link_status_cmd.simps)
    then show ?thesis unfolding link_status_union by (simp add: cmds m)
  qed
  have "sorted (map nb_nwk_addr (take 16 (drop k ?xs)))" for k
    by (rule sorted_window) (rule sorted_sort_key)
  then have "\<forall>c\<in>set cmds. sorted (map lse_neighbor_address (lsc_entries c)) \<and> length (lsc_entries c) \<le> 16 \<and>
      unat (lo_entry_count (lsc_options c)) = length (lsc_entries c) \<and> lo_first_frame (lsc_options c) \<and>
      (lo_last_frame (lsc_options c) \<longleftrightarrow> length (nt_neighbors t) = 1)"
    by (auto simp: cmds unat_of_nat lse_address)
  moreover have "last (lsc_entries (cmds ! i)) = hd (lsc_entries (cmds ! Suc i))"
    if "Suc i < length cmds" "15 * Suc i < length ?xs" for i
  proof -
    have "length (take 16 (drop (i * 15) ?xs)) = 16" using that(2) by simp
    then have "last (?es i) = link_status_entry_of (?xs ! (i * 15 + 15))"
      using that(2) by (simp add: last_conv_nth)
    moreover have "hd (?es (Suc i)) = link_status_entry_of (?xs ! (Suc i * 15))"
      using that(2) by (simp add: hd_map hd_drop_conv_nth)
    moreover have "i * 15 + 15 = Suc i * 15" by simp
    ultimately show ?thesis using that(1) by (simp add: cmds)
  qed
  ultimately show ?thesis
    using union t' by (auto simp: cmds link_status_frames_def)
qed

theorem link_status_commands_correct_witness:
  "\<exists>cmds t'. make_link_status_commands 1000 (neighbor_table_new (neighbor_default 0) [child_std]) = (cmds, t') \<and>
     length cmds = 1"
proof -
  obtain cmds t' where m: "make_link_status_commands 1000 (neighbor_table_new (neighbor_default 0) [child_std]) = (cmds, t')"
    by fastforce
  from link_status_commands_correct [OF m] m show ?thesis by (simp add: neighbor_table_new_def)
qed

lemma sorted_ends:
  "sorted (map f xs) \<Longrightarrow> x \<in> set xs \<Longrightarrow> f (hd xs) \<le> f x \<and> f x \<le> (f (last xs) :: 'a::linorder)"
  by (induction xs) (auto simp: last_in_set)

lemma link_status_cost_listed:
  assumes "make_link_status_commands now t = (cmds, t')" and "c \<in> set cmds"
    and "distinct (map nb_nwk_addr (nt_neighbors t))" and nb: "nb \<in> set (nt_neighbors t')"
  shows "link_status_cost (nb_nwk_addr nb) c = (let es = lsc_entries c in
    if link_status_entry_of nb \<in> set es then Some (nb_incoming_cost nb)
    else if es = [] \<or> nb_nwk_addr nb < lse_neighbor_address (hd es) then None else Some Cost1)"
proof -
  from link_status_cmd_shape [OF assms(1,2)] obtain i where
    es: "lsc_entries c = map link_status_entry_of (take 16 (drop (i * 15) (nt_neighbors t')))"
    and flags: "lo_first_frame (lsc_options c)" "lo_last_frame (lsc_options c) \<longleftrightarrow> length (nt_neighbors t) = 1"
      "length (nt_neighbors t) = 1 \<longrightarrow> i = 0" by blast
  note table = link_status_table [OF assms(1)]
  let ?w = "take 16 (drop (i * 15) (nt_neighbors t'))"
  have addr: "lse_neighbor_address (link_status_entry_of x) = nb_nwk_addr x" for x
    by (simp add: link_status_entry_of_def)
  have w: "set ?w \<subseteq> set (nt_neighbors t')" using set_take_subset set_drop_subset by fast
  have same: "x = nb" if "x \<in> set ?w" "nb_nwk_addr x = nb_nwk_addr nb" for x
    using that w inj_onD [OF table(3) [OF assms(3)] that(2) _ nb] by blast
  have sorted: "sorted (map nb_nwk_addr ?w)" using sorted_window [OF table(1)] .
  show ?thesis
  proof (cases "nb \<in> set ?w")
    case True
    have "find (\<lambda>e. lse_neighbor_address e = nb_nwk_addr nb) (lsc_entries c) = Some (link_status_entry_of nb)"
    proof -
      have "find (\<lambda>e. lse_neighbor_address e = nb_nwk_addr nb) (map link_status_entry_of xs) = Some (link_status_entry_of nb)"
        if "nb \<in> set xs" "\<And>x. x \<in> set xs \<Longrightarrow> nb_nwk_addr x = nb_nwk_addr nb \<Longrightarrow> x = nb" for xs
        using that by (induction xs) (auto simp: addr)
      from this [OF True same] show ?thesis unfolding es by blast
    qed
    moreover have "nb_nwk_addr (hd ?w) \<le> nb_nwk_addr nb" "nb_nwk_addr nb \<le> nb_nwk_addr (last ?w)" "?w \<noteq> []"
      using sorted_ends [OF sorted True] True by auto
    ultimately show ?thesis using True
      by (simp add: link_status_cost_def Let_def es hd_map last_map addr not_less) (simp add: link_status_entry_of_def)
  next
    case False
    then have none: "find (\<lambda>e. lse_neighbor_address e = nb_nwk_addr nb) (lsc_entries c) = None"
      using same by (auto simp: find_None_prop es addr)
    have "\<not> lo_last_frame (lsc_options c)"
    proof
      assume "lo_last_frame (lsc_options c)"
      with flags table(4) nb have "length (nt_neighbors t') = 1" "i = 0"
        by (auto simp: le_Suc_eq)
      with False nb show False by simp
    qed
    moreover have "link_status_entry_of nb \<notin> set (lsc_entries c)"
      using none addr by (auto simp: find_None_prop)
    ultimately show ?thesis
      using none flags(1) by (simp add: link_status_cost_def Let_def link_cost_default_def)
  qed
qed

text \<open>When a device handles a frame of a neighbor's round, the neighbor's entry lives three more
  periods, and its outgoing cost becomes the cost the neighbor lists for the device. A device that
  the frame does not list keeps the old cost only below the first listed address: above it, also
  above the last one, the cost becomes 1, the best there is.\<close>
theorem link_status_exchange:
  assumes "make_link_status_commands now t = (cmds, t')" and "rc_cmd fr \<in> set cmds"
    and "distinct (map nb_nwk_addr (nt_neighbors t))" and "nb \<in> set (nt_neighbors t')"
    and "ms_short_address (nk_mac s) = Some (nb_nwk_addr nb)"
    and "find (\<lambda>x. nb_nwk_addr x = rc_mac_src_addr fr) (neighbors s) = Some old"
  shows "\<exists>s' new. handle_link_status_command E fr s = Done ((), s') \<and>
    find (\<lambda>x. nb_nwk_addr x = rc_mac_src_addr fr) (neighbors s') = Some new \<and>
    nb_expiration new = ev_now E + 3 * 15000 \<and>
    nb_outgoing_cost new = (let es = lsc_entries (rc_cmd fr) in
      if link_status_entry_of nb \<in> set es then nb_incoming_cost nb
      else if es = [] \<or> nb_nwk_addr nb < lse_neighbor_address (hd es) then nb_outgoing_cost old
      else Cost1)"
proof -
  let ?P = "\<lambda>x. nb_nwk_addr x = rc_mac_src_addr fr" and ?slf = "nb_nwk_addr nb"
  let ?new = "link_status_update (ev_now E) ?slf (rc_cmd fr) old"
  define s' where "s' = s\<lparr> nk_ctx := (nk_ctx s)\<lparr> cx_neighbors :=
    nbs_update_first ?P (link_status_update (ev_now E) ?slf (rc_cmd fr)) (cx_neighbors (nk_ctx s)) \<rparr> \<rparr>"
  have run: "handle_link_status_command E fr s = Done ((), s')"
    using assms(5,6) unfolding handle_link_status_command_def Let_def act_gets_bind
    by (simp add: act_defs get_addr_def unwrap_run_def s'_def)
  have addr: "nb_nwk_addr (link_status_update n a c x) = nb_nwk_addr x" for n a c x
    by (simp add: link_status_update_def Let_def split: option.splits)
  have "find ?P (neighbors s') = Some ?new"
    using assms(6) find_Some_prop [OF assms(6)]
    by (simp add: s'_def neighbors_def nbs_update_first_def find_update_first addr)
  moreover have "nb_expiration ?new = ev_now E + 3 * 15000"
    by (simp add: link_status_update_def Let_def from_secs_def NWK_LINK_STATUS_PERIOD_def NWK_ROUTER_AGE_LIMIT_def
        split: option.splits)
  moreover have "nb_outgoing_cost ?new = (case link_status_cost ?slf (rc_cmd fr) of Some c \<Rightarrow> c | None \<Rightarrow> nb_outgoing_cost old)"
    by (simp add: link_status_update_def Let_def split: option.splits)
  ultimately show ?thesis
    using run by (simp add: link_status_cost_listed [OF assms(1-4)] Let_def)
qed

theorem link_status_exchange_witness:
  "\<exists>s' new. handle_link_status_command env_std (received_std 0x55 None (hd (fst (make_link_status_commands 1000
       (neighbor_table_new (neighbor_default 0) [child_std\<lparr> nb_nwk_addr := 0x1001, nb_incoming_cost := Cost3 \<rparr>])))))
       parent_std = Done ((), s') \<and>
     find (\<lambda>x. nb_nwk_addr x = 0x55) (neighbors s') = Some new \<and> nb_outgoing_cost new = Cost3"
proof -
  let ?nb = "child_std\<lparr> nb_nwk_addr := 0x1001, nb_incoming_cost := Cost3 \<rparr>"
  let ?t = "neighbor_table_new (neighbor_default 0) [?nb]"
  obtain cmds t' where m: "make_link_status_commands 1000 ?t = (cmds, t')" by fastforce
  let ?fr = "received_std 0x55 None (hd cmds)"
  have cmds: "rc_cmd ?fr \<in> set cmds" "?nb \<in> set (nt_neighbors t')" "link_status_entry_of ?nb \<in> set (lsc_entries (hd cmds))"
    using m by (auto simp: make_link_status_commands_def link_status_frames_def neighbor_table_new_def
        nbs_cleanup_def child_std_def neighbor_default_def Let_def received_std_def)
  have "find (\<lambda>x. nb_nwk_addr x = rc_mac_src_addr ?fr) (neighbors parent_std) = Some child_std"
    by (simp add: parent_std_simps received_std_def child_std_def)
  from link_status_exchange [OF m cmds(1) _ cmds(2) _ this, of env_std] cmds(3) show ?thesis
    by (simp add: m [unfolded neighbor_table_new_def] neighbor_table_new_def parent_std_simps received_std_def) blast
qed

text \<open>On a leave announcement a router drops the neighbors of that short address and no other, and
  indicates it only for its parent; an end device changes nothing. A request to leave is obeyed unless
  it was broadcast: by a router whoever sent it, by an end device only for its parent.\<close>
theorem leave_correct:
  assumes "handle_leave_request E fr s = Done (r, s')" and "handle_leave_request_end_device E fr s = Done (q, s'')"
  shows "(let cmd = rc_cmd fr; src = nh_source (rc_header fr); from_parent = (src = nb_nwk_addr (nwk_parent s));
        broadcast = is_broadcast (nh_destination (rc_header fr)) in
    neighbors s' = (if lv_request cmd then neighbors s else filter (\<lambda>nb. nb_nwk_addr nb \<noteq> src) (neighbors s)) \<and>
    r = (if lv_request cmd then if broadcast then None else Some (LeaveSelf (lv_rejoin cmd))
      else if from_parent then Some (LeaveParent (lv_rejoin cmd)) else None) \<and>
    cx_neighbors (nk_ctx s'') = cx_neighbors (nk_ctx s) \<and>
    q = (if \<not> from_parent then None
      else if lv_request cmd then if broadcast then None else Some (LeaveSelf (lv_rejoin cmd))
      else Some (LeaveParent (lv_rejoin cmd))))"
proof -
  have sent: "cx_neighbors (nk_ctx b) = cx_neighbors (nk_ctx a)"
    if "emit_leave_cmd E c d x a = Done (y, b)" for a b c d x y
    by (rule keepsD [OF keeps_commands(1) [OF quiet_neighbors] _ that]) simp
  have "neighbors s' = (if lv_request (rc_cmd fr) then neighbors s
      else filter (\<lambda>nb. nb_nwk_addr nb \<noteq> nh_source (rc_header fr)) (neighbors s))"
    using assms(1) by (auto simp: handle_leave_request_def handle_leave_request_request_def Let_def act_then_def
        act_bind_Done act_gets_def act_return_def neighbors_update_def ctx_update_def act_modify_def nbs_retain_def
        neighbors_def split: if_splits dest!: sent)
      (drule arg_cong [where f = "\<lambda>s. nt_neighbors (cx_neighbors (nk_ctx s))"], simp)
  moreover have "cx_neighbors (nk_ctx s'') = cx_neighbors (nk_ctx s)"
    using assms(2) by (auto simp: handle_leave_request_end_device_def Let_def act_then_def act_bind_Done
        act_gets_def act_return_def split: if_splits dest!: sent)
  moreover have "r = (if lv_request (rc_cmd fr)
      then if is_broadcast (nh_destination (rc_header fr)) then None else Some (LeaveSelf (lv_rejoin (rc_cmd fr)))
      else if nh_source (rc_header fr) = nb_nwk_addr (nwk_parent s) then Some (LeaveParent (lv_rejoin (rc_cmd fr))) else None)"
    using assms(1) by (simp add: handle_leave_request_def handle_leave_request_request_def Let_def act_then_def
        act_bind_Done act_gets_def act_return_def neighbors_update_def ctx_update_def act_modify_def nbs_retain_def
        nwk_parent_def split: if_splits)
  moreover have "q = (if nh_source (rc_header fr) \<noteq> nb_nwk_addr (nwk_parent s) then None
      else if lv_request (rc_cmd fr)
        then if is_broadcast (nh_destination (rc_header fr)) then None else Some (LeaveSelf (lv_rejoin (rc_cmd fr)))
      else Some (LeaveParent (lv_rejoin (rc_cmd fr))))"
    using assms(2) by (auto simp: handle_leave_request_end_device_def Let_def act_then_def
        act_bind_Done act_gets_def act_return_def split: if_splits)
  ultimately show ?thesis by (simp add: Let_def)
qed

theorem leave_correct_witness:
  "\<exists>r s'. handle_leave_request env_std (received_std 0x55 None \<lparr> lv_rejoin = True, lv_request = False,
     lv_remove_children = False \<rparr>) parent_std = Done (r, s') \<and> neighbors s' = [] \<and> r = None"
proof -
  let ?fr = "received_std 0x55 None \<lparr> lv_rejoin = True, lv_request = False, lv_remove_children = False \<rparr>"
  have "\<exists>r s'. handle_leave_request env_std ?fr parent_std = Done (r, s')"
    "\<exists>r s'. handle_leave_request_end_device env_std ?fr parent_std = Done (r, s')"
    by (simp_all add: handle_leave_request_def handle_leave_request_end_device_def act_defs Let_def received_std_def)
  then obtain r s' q s'' where run: "handle_leave_request env_std ?fr parent_std = Done (r, s')"
    and "handle_leave_request_end_device env_std ?fr parent_std = Done (q, s'')" by blast
  from leave_correct [OF this] have "neighbors s' = []" "r = None"
    by (simp_all add: Let_def received_std_def parent_std_simps child_std_def neighbor_default_def nwk_parent_def
        neighbor_table_new_def nwk_addr_default_def)
  with run show ?thesis by blast
qed

end
