(* ===== verification/Mac_Management.thy ===== *)
theory Mac_Management
  imports Membership
begin

text \<open>
  The MAC (\<open>mac/mlme.rs\<close>, \<open>mac/types.rs\<close>): scanning, the filter for received frames, association
  as a device, reset, and the state of the driver behind it.

  What the radio receives is a parameter: the frames that the driver delivers before the timeout of
  a wait, as a function of the number of transmissions so far. The driver's \<open>flush\<close> drops what was
  received before. The driver's own reset and the derived reader of beacon payloads are parameters
  too. The data sequence number of an indication, which nothing reads, is left out.
\<close>

section \<open>Frames of the MAC\<close>

datatype mac_frame_type = BeaconFrame | MacDataFrame | MacAckFrame | MacCommandFrame

datatype association_status = AssociationSuccessful | NetworkAtCapacity | AccessDenied

datatype mac_command = AssociationRequest mac_capabilities
  | AssociationResponse nwk_addr association_status | MacDataRequest | OtherMacCommand

record superframe_spec =
  ss_beacon_order :: nat
  ss_superframe_order :: nat
  ss_association_permit :: bool

datatype mac_content = BeaconContent superframe_spec | DataContent | AckContent
  | CommandContent mac_command

record mac_frame =
  mf_type :: mac_frame_type
  mf_destination :: "mac_address option"
  mf_source :: "mac_address option"
  mf_has_security :: bool
  mf_content :: mac_content
  mf_payload :: bytes

record received_mac_frame =
  rf_channel :: channel
  rf_frame :: mac_frame
  rf_lqi :: u8

record pan_descriptor =
  pd_channel :: channel
  pd_coord_pan_id :: pan_id
  pd_coord_address :: mac_address
  pd_superframe_spec :: superframe_spec
  pd_link_quality :: u8
  pd_security_use :: bool
  pd_payload :: bytes

record mcps_indication =
  mi_src_address :: "mac_address option"
  mi_dest_address :: "mac_address option"
  mi_link_quality :: u8
  mi_payload :: bytes

datatype mac_indication = MacData mcps_indication | MacBeaconNotify pan_descriptor
  | MacAssociate associate_indication | MacPoll

record zigbee_beacon =
  zb_protocol_id :: u8
  zb_network_parameters :: network_parameters
  zb_extended_pan_id :: ext_addr
  zb_tx_offset :: bytes
  zb_update_id :: u8

record radio =
  rd_frames :: "nat \<Rightarrow> received_mac_frame list"
  rd_beacon :: "bytes \<Rightarrow> (byte_error + zigbee_beacon)"
  rd_reset :: "mac_state \<Rightarrow> mac_state"
  rd_channel_mask :: channel_mask

datatype association_error = AssocChannelAccessFailure | AssocNoAck | AssocNoData
  | AssocUnavailableKey | AssocFailedSecurityCheck | AssocInvalidParameter | AssocErrPanAtCapacity
  | AssocErrPanAccessDenied

datatype scan_error = ScanNoBeacon | ScanInvalidParameter string

section \<open>The driver\<close>

definition mac_update :: "(mac_state \<Rightarrow> mac_state) \<Rightarrow> unit act" where
  "mac_update f = act_modify (\<lambda>s. s\<lparr> nk_mac := f (nk_mac s) \<rparr>)"

definition set_channel :: "channel \<Rightarrow> unit act" where
  "set_channel c = mac_update (\<lambda>m. m\<lparr> ms_channel := c \<rparr>)"

definition set_pan_id :: "pan_id option \<Rightarrow> unit act" where
  "set_pan_id p = mac_update (\<lambda>m. m\<lparr> ms_pan_id := p \<rparr>)"

definition set_short_address :: "nwk_addr option \<Rightarrow> unit act" where
  "set_short_address a = mac_update (\<lambda>m. m\<lparr> ms_short_address := a \<rparr>)"

definition set_extended_pan_id :: "ext_addr option \<Rightarrow> unit act" where
  "set_extended_pan_id e = mac_update (\<lambda>m. m\<lparr> ms_extended_pan_id := e \<rparr>)"

definition set_association_permit_timeout :: "instant \<Rightarrow> unit act" where
  "set_association_permit_timeout t = mac_update (\<lambda>m. m\<lparr> ms_association_permit_timeout := t \<rparr>)"

definition mac_reset :: "radio \<Rightarrow> unit act" where
  "mac_reset R = mac_update (\<lambda>m. rd_reset R (m\<lparr> ms_extended_pan_id := None \<rparr>))"

text \<open>Sending: the MAC's sequence number is taken, the frame goes to the log.\<close>

definition mac_send :: "env \<Rightarrow> radio_event \<Rightarrow> (unit + unit) act" where
  "mac_send E ev s =
     (let m = nk_mac s; s' = s\<lparr> nk_mac := m\<lparr> ms_seq_number := ms_seq_number m + 1 \<rparr>,
        nk_sent := nk_sent s @ [ev] \<rparr>
      in Done (if ev_tx E (length (nk_sent s)) then Inr () else Inl (), s'))"

text \<open>A command of the MAC needs a PAN id; its source is the extended address.\<close>

definition send_mac_command :: "env \<Rightarrow> radio_event \<Rightarrow> (unit + unit) act" where
  "send_mac_command E ev =
     act_bind (act_gets (\<lambda>s. ms_pan_id (nk_mac s))) (\<lambda>p.
       if p = None then act_return (Inl ()) else mac_send E ev)"

definition received :: "radio \<Rightarrow> received_mac_frame list act" where
  "received R = act_gets (\<lambda>s. rd_frames R (length (nk_sent s)))"

fun first_some :: "('a \<Rightarrow> 'b option) \<Rightarrow> 'a list \<Rightarrow> 'b option" where
  "first_some f [] = None"
| "first_some f (x # xs) = (case f x of Some y \<Rightarrow> Some y | None \<Rightarrow> first_some f xs)"

section \<open>Scanning\<close>

definition pan_descriptor_of ::
  "channel \<Rightarrow> mac_address \<Rightarrow> superframe_spec \<Rightarrow> received_mac_frame \<Rightarrow> pan_descriptor" where
  "pan_descriptor_of ch source spec rf = \<lparr> pd_channel = ch, pd_coord_pan_id = mac_pan_id source,
     pd_coord_address = source, pd_superframe_spec = spec, pd_link_quality = rf_lqi rf,
     pd_security_use = mf_has_security (rf_frame rf), pd_payload = mf_payload (rf_frame rf) \<rparr>"

definition scanned_beacon :: "channel \<Rightarrow> received_mac_frame \<Rightarrow> pan_descriptor option" where
  "scanned_beacon ch rf =
     (case (mf_source (rf_frame rf), mf_content (rf_frame rf)) of
        (Some source, BeaconContent spec) \<Rightarrow> Some (pan_descriptor_of ch source spec rf)
      | _ \<Rightarrow> None)"

definition scan_channel_active :: "env \<Rightarrow> radio \<Rightarrow> channel \<Rightarrow> (unit + pan_descriptor list) act" where
  "scan_channel_active E R ch =
     act_then (set_channel ch) (act_bind (mac_send E (TxBeaconRequest ch)) (\<lambda>r. case r of
       Inl e \<Rightarrow> act_return (Inl e)
     | Inr _ \<Rightarrow> act_bind (received R) (\<lambda>fs. act_return (Inr (List.map_filter (scanned_beacon ch) fs)))))"

fun scan_channels :: "env \<Rightarrow> radio \<Rightarrow> channel list \<Rightarrow> pan_descriptor list act" where
  "scan_channels E R [] = act_return []"
| "scan_channels E R (ch # chs) =
     act_bind (scan_channel_active E R ch) (\<lambda>r. act_bind (scan_channels E R chs) (\<lambda>pds.
       act_return ((case r of Inl _ \<Rightarrow> [] | Inr b \<Rightarrow> b) @ pds)))"

text \<open>\<open>Mlme::scan\<close> never gives an error; the duration only sets how long it listens.\<close>

definition mac_scan :: "env \<Rightarrow> radio \<Rightarrow> channel_mask \<Rightarrow> pan_descriptor list act" where
  "mac_scan E R m = scan_channels E R (filter (channel_is_set m) channels_all)"

section \<open>Received frames\<close>

text \<open>\<open>filter_frame\<close>: a command of the MAC is passed on like data; no indication of an association
  is ever produced.\<close>

definition filter_frame :: "mac_state \<Rightarrow> received_mac_frame \<Rightarrow> mac_indication option" where
  "filter_frame m rf =
     (let f = rf_frame rf;
          data = (\<lambda>dst. Some (MacData \<lparr> mi_src_address = mf_source f, mi_dest_address = Some dst,
            mi_link_quality = rf_lqi rf, mi_payload = mf_payload f \<rparr>)) in
      if (case mf_destination f of None \<Rightarrow> False
          | Some d \<Rightarrow> Some (mac_pan_id d) \<noteq> ms_pan_id m \<and> mac_pan_id d \<noteq> 0xffff) then None
      else case (mf_type f, mf_source f, mf_content f) of
          (BeaconFrame, Some source, BeaconContent spec) \<Rightarrow>
            if ms_pan_id m = None \<or> Some (mac_pan_id source) = ms_pan_id m
            then Some (MacBeaconNotify (pan_descriptor_of (rf_channel rf) source spec rf)) else None
        | (t, _, _) \<Rightarrow>
            if t = MacDataFrame \<or> t = MacCommandFrame then
              (case mf_destination f of
                 None \<Rightarrow> None
               | Some (MacShort p a) \<Rightarrow>
                   if Some a \<noteq> ms_short_address m \<and> a \<noteq> NWK_ADDR_MAX then None else data (MacShort p a)
               | Some (MacExtended p e) \<Rightarrow> if e \<noteq> ms_ext_addr m then None else data (MacExtended p e))
            else None)"

section \<open>Association as a device\<close>

text \<open>The response that ends the wait: the first from an extended address; its status and its
  destination are not looked at.\<close>

definition association_response :: "received_mac_frame \<Rightarrow> (nwk_addr \<times> ext_addr) option" where
  "association_response rf =
     (case (mf_source (rf_frame rf), mf_content (rf_frame rf)) of
        (Some (MacExtended _ coord), CommandContent (AssociationResponse addr _)) \<Rightarrow> Some (addr, coord)
      | _ \<Rightarrow> None)"

definition mac_associate ::
  "env \<Rightarrow> radio \<Rightarrow> channel \<Rightarrow> mac_address \<Rightarrow> mac_capabilities \<Rightarrow>
   (association_error + nwk_addr \<times> ext_addr) act" where
  "mac_associate E R ch coord caps =
     act_then (set_channel ch) (act_then (set_pan_id (Some (mac_pan_id coord)))
     (act_bind (send_mac_command E (TxAssociationRequest coord caps)) (\<lambda>r. case r of
        Inl _ \<Rightarrow> act_return (Inl AssocInvalidParameter)
      | Inr _ \<Rightarrow>
         act_bind (send_mac_command E (TxDataRequest coord)) (\<lambda>r. case r of
           Inl _ \<Rightarrow> act_return (Inl AssocNoData)
         | Inr _ \<Rightarrow>
            act_bind (received R) (\<lambda>fs. case first_some association_response fs of
              None \<Rightarrow> act_return (Inl AssocNoData)
            | Some (addr, ext) \<Rightarrow>
                act_then (set_short_address (Some addr))
                (act_then (set_extended_pan_id (Some ext)) (act_return (Inr (addr, ext)))))))))"

text \<open>A radio that receives nothing.\<close>

definition radio_std :: radio where
  "radio_std = \<lparr> rd_frames = (\<lambda>_. []), rd_beacon = (\<lambda>_. Inl Incomplete), rd_reset = id,
     rd_channel_mask = channel_mask_new ChannelPage0 channels_all \<rparr>"

end
