(* ===== verification/Nwk_Reception.thy ===== *)
theory Nwk_Reception
  imports Mac_Management
begin

text \<open>
  The reception of network frames (\<open>nwk/service/reception.rs\<close>) and the transmission of
  broadcasts (\<open>nwk/service/transmission.rs\<close>): decryption and the security check, the duties of a
  router towards a data frame (relaying of unicasts, source-routed frames, multicasts and
  broadcasts), and the dispatch of commands for a router, an end device and a device that waits to
  join. An indication of the MAC carries the bytes of the frame.
\<close>

section \<open>Incoming frames\<close>

definition nwk_decrypt_frame :: "env \<Rightarrow> bytes \<Rightarrow> (sec_error + nwk_frame \<times> bool) act" where
  "nwk_decrypt_frame E payload =
     act_bind (act_gets (\<lambda>s. nwk_security_level (profile_params s))) (\<lambda>level.
     act_bind (act_gets (\<lambda>s. cx_security_material_set (nk_ctx s))) (\<lambda>keys.
     act_run (decrypt_frame (ev_crypto E) (ev_wire E) (ev_codecs E) level keys payload)))"

definition is_data :: "nwk_frame \<Rightarrow> bool" where
  "is_data f \<longleftrightarrow> (case f of Data _ \<Rightarrow> True | _ \<Rightarrow> False)"

definition frame_passes_security_check :: "bool \<Rightarrow> nwk_frame \<Rightarrow> bool act" where
  "frame_passes_security_check authorized frame =
     act_bind (act_gets profile_params) (\<lambda>p.
     if is_secured frame \<or> nwk_security_level p = SecNone then act_return True
     else if authorized \<and> is_data frame then act_return False
     else case frame of
         NwkCommand c \<Rightarrow>
           (case cf_command c of
              RejoinRequest _ \<Rightarrow> act_bind get_addr (\<lambda>slf. act_return (nh_destination (cf_header c) = slf))
            | RejoinResponse _ \<Rightarrow> act_return True
            | _ \<Rightarrow> act_return authorized)
       | Data _ \<Rightarrow> act_return True
       | _ \<Rightarrow> act_return authorized)"

definition process_incoming_indication ::
  "env \<Rightarrow> mcps_indication \<Rightarrow> bool \<Rightarrow> (nwk_frame \<times> bool) option act" where
  "process_incoming_indication E ind authorized =
     act_bind (nwk_decrypt_frame E (mi_payload ind)) (\<lambda>r. case r of
       Inl _ \<Rightarrow> act_return None
     | Inr (frame, use_security) \<Rightarrow>
         act_bind (act_run (chk_sub (nh_radius (frame_header frame)) 1)) (\<lambda>radius.
         (let frame' = map_frame_header (nh_radius_update (\<lambda>_. radius)) frame; hdr = frame_header frame' in
          act_then (case nh_source_ieee hdr of
              None \<Rightarrow> act_return () | Some e \<Rightarrow> addr_map_update (am_insert (nh_source hdr) e))
          (act_bind (frame_passes_security_check authorized frame') (\<lambda>ok.
           act_return (if ok then Some (frame', use_security) else None))))))"

definition data_indication_of :: "data_frame \<Rightarrow> mcps_indication \<Rightarrow> bool \<Rightarrow> nwk_indication" where
  "data_indication_of d ind use_security =
     (let hdr = df_header d in IndData \<lparr>
        di_dst_address = (if nh_multicast_control hdr \<noteq> None then MulticastDst (nh_destination hdr)
          else UnicastOrBroadcastDst (nh_destination hdr)),
        di_src_address = nh_source hdr, di_nsdu = df_payload d,
        di_link_quality = mi_link_quality ind, di_security_use = use_security \<rparr>)"

definition frame_matches_self_end_device :: "data_frame \<Rightarrow> bool act" where
  "frame_matches_self_end_device d =
     (if fc_multicast (nh_control (df_header d))
      then act_gets (\<lambda>s. df_destination d \<in> set (cx_group_table (nk_ctx s)))
      else act_bind get_addr (\<lambda>slf. act_return (df_destination d = slf \<or> df_destination d = BROADCAST_ALL)))"

definition frame_matches_self_router :: "data_frame \<Rightarrow> bool act" where
  "frame_matches_self_router d =
     act_bind (frame_matches_self_end_device d) (\<lambda>m.
     if m then act_return True
     else if df_destination d = BROADCAST_RX_ON_IDLE then act_gets (\<lambda>s. ms_rx_on_when_idle (nk_mac s))
     else act_return (df_destination d = BROADCAST_ROUTERS))"

section \<open>Duties of a router\<close>

text \<open>A frame that an end device claims to have sent comes from an end-device neighbor.\<close>

definition handle_end_device_frame :: "nwk_frame \<Rightarrow> bool act" where
  "handle_end_device_frame frame =
     (let hdr = frame_header frame in
      act_gets (\<lambda>s. fc_end_device_initiator (nh_control hdr) \<longrightarrow>
        find_by_short_addr_and_device_type (nh_source hdr) EndDevice (cx_neighbors (nk_ctx s)) \<noteq> None))"

definition examine_end_devices_that_have_changed_router_parents ::
  "nwk_header \<Rightarrow> mac_address \<Rightarrow> unit act" where
  "examine_end_devices_that_have_changed_router_parents hdr mac_src =
     (let src = nh_source hdr in
      act_bind (act_gets (\<lambda>s. find_position (timed_end_device src) (neighbors s))) (\<lambda>idx. case idx of
        None \<Rightarrow> act_return ()
      | Some i \<Rightarrow>
          if (case mac_src of MacShort _ a \<Rightarrow> a = src | MacExtended _ _ \<Rightarrow> False) then act_return ()
          else
            act_bind (act_gets (\<lambda>s. is_broadcast src \<and> (\<exists>t\<in>set (cx_broadcast_transaction_table (nk_ctx s)).
              tr_source_address t = src \<and> tr_sequence_number t = nh_sequence_number hdr))) (\<lambda>known.
            if known then act_return ()
            else act_bind (act_gets neighbors) (\<lambda>ns. act_bind (act_run (remove_at i ns)) (\<lambda>ns'.
              neighbors_update (\<lambda>t. t\<lparr> nt_neighbors := ns' \<rparr>))))))"

section \<open>Relaying\<close>

text \<open>The result of a relay, \<open>None\<close> when the frame is discarded; \<open>should_indicate\<close> is always false.\<close>

type_synonym relay_result = "transfer_result option"

definition relay_to :: "env \<Rightarrow> data_frame \<Rightarrow> nwk_addr \<Rightarrow> relay_result act" where
  "relay_to E d a = act_bind (transmit_frame E (Data d) a True) (\<lambda>r. act_return (Some r))"

definition set_relay_index :: "u8 \<Rightarrow> data_frame \<Rightarrow> data_frame" where
  "set_relay_index i =
     df_header_update (nh_source_route_update (map_option (sr_relay_index_update (\<lambda>_. i))))"

definition relay_source_routing :: "env \<Rightarrow> data_frame \<Rightarrow> relay_result act" where
  "relay_source_routing E d =
     (case nh_source_route (df_header d) of
        None \<Rightarrow> act_return None
      | Some sub \<Rightarrow>
          (let i = unat (sr_relay_index sub); relays = sr_relay_list sub in
           act_bind get_addr (\<lambda>slf.
           if i = 0 \<and> df_destination d \<noteq> slf then relay_to E d (df_destination d)
           else if i = 0 then act_return None
           else if length relays \<le> i \<or> relays ! i \<noteq> slf then act_return None
           else act_bind (act_gets (\<lambda>s. find_by_short_addr slf (cx_neighbors (nk_ctx s)))) (\<lambda>nb.
             if nb \<noteq> None then relay_to E d slf
             else relay_to E (set_relay_index (sr_relay_index sub - 1) d) (relays ! (i - 1))))))"

definition relay_unicast_frame :: "env \<Rightarrow> data_frame \<Rightarrow> relay_result act" where
  "relay_unicast_frame E d =
     (let first = (\<lambda>m n. or_else (act_bind m (\<lambda>r. act_return (map_option Some r))) n) in
      first (try_unicast_direct_relay E d)
      (act_bind (act_gets (\<lambda>s. rt_is_full (cx_route_table (nk_ctx s)))) (\<lambda>full.
       if \<not> full then
         first (try_unicast_route_table E d)
           (if fc_route_discovery (nh_control (df_header d)) = Enable then relay_source_routing E d
            else first (try_unicast_tree_routing E d) (relay_source_routing E d))
       else first (try_unicast_tree_routing E d) (relay_source_routing E d))))"

section \<open>Broadcasts and multicasts\<close>

text \<open>The frame is built, and a jitter drawn; the task that would send it is not started.\<close>

definition transmit_broadcast_frame :: "env \<Rightarrow> data_frame \<Rightarrow> unit act" where
  "transmit_broadcast_frame E d =
     act_bind (build_mac_payload E (Data d) (replicate A_MAX_MAC_PAYLOAD_SIZE 0)) (\<lambda>r. case r of
       Inl _ \<Rightarrow> act_return ()
     | Inr _ \<Rightarrow> act_then (random_range E 0 (from_octets MAX_BROADCAST_JITTER_OCTETS)) (act_return ()))"

definition same_transaction :: "data_frame \<Rightarrow> transaction_record \<Rightarrow> bool" where
  "same_transaction d t \<longleftrightarrow> tr_source_address t = nh_source (df_header d) \<and>
     tr_sequence_number t = nh_sequence_number (df_header d)"

definition check_and_update_broadcast_transaction_table :: "env \<Rightarrow> data_frame \<Rightarrow> bool act" where
  "check_and_update_broadcast_transaction_table E d =
     act_bind (act_gets (\<lambda>s. \<exists>t\<in>set (cx_broadcast_transaction_table (nk_ctx s)).
       same_transaction d t \<and> ev_now E \<le> tr_expiration_time t)) (\<lambda>known.
     if known then act_return False
     else act_bind (act_gets profile_params) (\<lambda>p.
       act_then (btt_update (\<lambda>btt. filter (\<lambda>t. tr_expiration_time t < ev_now E) btt @ [record_of E p d]))
       (act_return True)))"

definition relay_member_mode_multicast :: "env \<Rightarrow> data_frame \<Rightarrow> bool act" where
  "relay_member_mode_multicast E d =
     act_bind (act_run (unwrap_run (nh_multicast_control (df_header d)))) (\<lambda>mc.
     act_bind (check_and_update_broadcast_transaction_table E d) (\<lambda>new.
     if \<not> new then act_return False
     else act_bind (act_gets (\<lambda>s. df_destination d \<in> set (cx_group_table (nk_ctx s)))) (\<lambda>member.
       if member then act_then (transmit_broadcast_frame E d) (act_return True)
       else
         act_bind (if mcc_non_member_radius mc < 7 then act_run (chk_sub (mcc_non_member_radius mc) 1)
           else act_return (mcc_non_member_radius mc)) (\<lambda>radius.
         if radius = 0 then act_then (btt_update butlast) (act_return False)
         else act_then (transmit_broadcast_frame E d) (act_return True)))))"

text \<open>The changes that both functions make to the multicast control are lost: \<open>unwrap\<close> copies it.\<close>

definition relay_multicast_frame :: "env \<Rightarrow> data_frame \<Rightarrow> bool act" where
  "relay_multicast_frame E d =
     act_bind (act_run (unwrap_run (nh_multicast_control (df_header d)))) (\<lambda>mc.
     if mcc_multicast_mode mc = Member then relay_member_mode_multicast E d
     else act_bind (act_gets (\<lambda>s. nh_source (df_header d) \<in> set (cx_group_table (nk_ctx s)))) (\<lambda>member.
       if member then relay_member_mode_multicast E d
       else act_bind (route_key (df_destination d) True) (\<lambda>k.
         act_bind (route_get k) (\<lambda>route. case route of
           None \<Rightarrow> act_return False
         | Some r \<Rightarrow>
             if \<not> route_usable (re_status r) then act_return False
             else act_then (route_modify k (\<lambda>r. r\<lparr> re_status := RouteActive \<rparr>))
               (act_then (transmit_frame E (Data d) (re_next_hop_addr r) True) (act_return True))))))"

definition relay_broadcast_frame :: "env \<Rightarrow> data_frame \<Rightarrow> bool act" where
  "relay_broadcast_frame E d =
     act_bind get_addr (\<lambda>slf.
     act_bind (act_gets profile_params) (\<lambda>p.
     if nh_source (df_header d) = slf \<and> ev_now E < broadcast_delivery_time p then act_return False
     else act_bind (frame_matches_self_router d) (\<lambda>m.
       if \<not> m then act_return False
       else act_bind (check_and_update_broadcast_transaction_table E d) (\<lambda>new.
         if \<not> new then act_return False
         else if nh_radius (df_header d) > 0 then act_then (transmit_broadcast_frame E d) (act_return True)
         else act_return True))))"

section \<open>Dispatch\<close>

text \<open>A beacon of the own PAN id with another extended PAN id: the PAN ids on the own channel are
  reported.\<close>

definition handle_beacon_notify_indication :: "env \<Rightarrow> radio \<Rightarrow> pan_descriptor \<Rightarrow> nwk_indication option act" where
  "handle_beacon_notify_indication E R pd =
     (case rd_beacon R (pd_payload pd) of
        Inl _ \<Rightarrow> act_return None
      | Inr beacon \<Rightarrow>
          act_bind get_pan_id (\<lambda>pan.
          if pd_coord_pan_id pd \<noteq> pan then act_return None
          else act_bind get_ext_pan_id (\<lambda>ext.
            if zb_extended_pan_id beacon = ext then act_return None
            else
              act_bind (act_gets (\<lambda>s. as_channel_mask (ms_channel (nk_mac s)))) (\<lambda>mask.
              act_bind (mac_scan E R mask) (\<lambda>pds.
              act_then (send_nwk_report_cmd E (map pd_coord_pan_id (take 16 pds))) (act_return None))))))"

definition short_source :: "mcps_indication \<Rightarrow> nwk_addr option" where
  "short_source ind = (case mi_src_address ind of Some (MacShort _ a) \<Rightarrow> Some a | _ \<Rightarrow> None)"

definition received_command_of :: "nwk_addr \<Rightarrow> u8 \<Rightarrow> nwk_header \<Rightarrow> 'c \<Rightarrow> 'c received_command" where
  "received_command_of src lqi hdr c = \<lparr> rc_lqi = lqi, rc_mac_src_addr = src, rc_header = hdr, rc_cmd = c \<rparr>"

definition handle_router_command ::
  "env \<Rightarrow> nwk_addr \<Rightarrow> u8 \<Rightarrow> nwk_header \<Rightarrow> command \<Rightarrow> nwk_indication option act" where
  "handle_router_command E src lqi hdr cmd =
     (case cmd of
        RouteRequest c \<Rightarrow>
          act_then (handle_route_request_command E (received_command_of src lqi hdr c)) (act_return None)
      | RouteReply c \<Rightarrow>
          act_bind get_addr (\<lambda>slf.
            if nh_destination hdr \<noteq> slf then act_return None
            else act_then (handle_route_reply_command E (received_command_of src lqi hdr c)) (act_return None))
      | RejoinRequest c \<Rightarrow>
          act_bind (handle_rejoin_request_command E (received_command_of src lqi hdr c)) (\<lambda>r. case r of
            Inr (Some j) \<Rightarrow> act_return (Some (IndJoin j)) | _ \<Rightarrow> act_return None)
      | LinkStatus c \<Rightarrow>
          act_then (handle_link_status_command E (received_command_of src lqi hdr c)) (act_return None)
      | EndDeviceTimeoutRequest c \<Rightarrow>
          act_then (handle_end_device_timeout_request_command E (received_command_of src lqi hdr c)) (act_return None)
      | Leave c \<Rightarrow>
          act_bind (handle_leave_request E (received_command_of src lqi hdr c)) (\<lambda>l.
            act_return (map_option IndLeave l))
      | _ \<Rightarrow> act_return None)"

definition relay_decision :: "env \<Rightarrow> data_frame \<Rightarrow> bool act" where
  "relay_decision E d =
     (let hdr = df_header d in
      if nh_radius hdr = 0 then act_return True
      else if fc_multicast (nh_control hdr) then relay_multicast_frame E d
      else if is_broadcast (nh_destination hdr) then relay_broadcast_frame E d
      else act_bind get_addr (\<lambda>slf.
        if is_unicast (nh_destination hdr) \<and> nh_destination hdr \<noteq> slf
        then act_then (relay_unicast_frame E d) (act_return True) else act_return True))"

definition handle_data_indication :: "env \<Rightarrow> mcps_indication \<Rightarrow> bool \<Rightarrow> nwk_indication option act" where
  "handle_data_indication E ind authorized =
     act_bind (process_incoming_indication E ind authorized) (\<lambda>r. case r of
       None \<Rightarrow> act_return None
     | Some (frame, use_security) \<Rightarrow>
         act_bind (handle_end_device_frame frame) (\<lambda>ok.
         if \<not> ok then act_return None
         else act_then
           (if nh_radius (frame_header frame) > 0
            then act_bind (act_run (unwrap_run (mi_src_address ind)))
              (examine_end_devices_that_have_changed_router_parents (frame_header frame))
            else act_return ())
           (case frame of
              Data d \<Rightarrow>
                act_bind (relay_decision E d) (\<lambda>should_indicate.
                if \<not> should_indicate then act_return None
                else act_bind (frame_matches_self_router d) (\<lambda>m.
                  act_return (if m then Some (data_indication_of d ind use_security) else None)))
            | NwkCommand c \<Rightarrow>
                (case short_source ind of
                   None \<Rightarrow> act_return None
                 | Some src \<Rightarrow> handle_router_command E src (mi_link_quality ind) (cf_header c) (cf_command c))
            | _ \<Rightarrow> act_return None)))"

definition handle_end_device_commands ::
  "env \<Rightarrow> nwk_addr \<Rightarrow> u8 \<Rightarrow> nwk_header \<Rightarrow> command \<Rightarrow> nwk_indication option act" where
  "handle_end_device_commands E src lqi hdr cmd =
     (case cmd of
        EndDeviceTimeoutResponse c \<Rightarrow>
          act_then (handle_end_device_timeout_response_command (received_command_of src lqi hdr c)) (act_return None)
      | Leave c \<Rightarrow>
          act_bind (handle_leave_request_end_device E (received_command_of src lqi hdr c)) (\<lambda>l.
            act_return (map_option IndLeave l))
      | _ \<Rightarrow> act_return None)"

definition indicate_own_data :: "data_frame \<Rightarrow> mcps_indication \<Rightarrow> bool \<Rightarrow> nwk_indication option act" where
  "indicate_own_data d ind use_security =
     act_bind (frame_matches_self_end_device d) (\<lambda>m.
       act_return (if m then Some (data_indication_of d ind use_security) else None))"

definition handle_data_indication_end_device ::
  "env \<Rightarrow> mcps_indication \<Rightarrow> bool \<Rightarrow> nwk_indication option act" where
  "handle_data_indication_end_device E ind authorized =
     act_bind (process_incoming_indication E ind authorized) (\<lambda>r. case r of
       None \<Rightarrow> act_return None
     | Some (frame, use_security) \<Rightarrow>
         (case frame of
            Data d \<Rightarrow> indicate_own_data d ind use_security
          | NwkCommand c \<Rightarrow>
              (case short_source ind of
                 None \<Rightarrow> act_return None
               | Some src \<Rightarrow> handle_end_device_commands E src (mi_link_quality ind) (cf_header c) (cf_command c))
          | _ \<Rightarrow> act_return None))"

definition handle_data_indication_pending ::
  "env \<Rightarrow> mcps_indication \<Rightarrow> bool \<Rightarrow> nwk_indication option act" where
  "handle_data_indication_pending E ind authorized =
     act_bind (process_incoming_indication E ind authorized) (\<lambda>r. case r of
       None \<Rightarrow> act_return None
     | Some (frame, use_security) \<Rightarrow>
         (case frame of Data d \<Rightarrow> indicate_own_data d ind use_security | _ \<Rightarrow> act_return None))"

text \<open>The three forms of the network layer that listen, and one round of \<open>listen_nwk\<close> in each.\<close>

datatype nwk_mode = Uninitialized | PendingJoin | JoinedAsEndDevice | JoinedAsRouter | JoinedAsCoordinator

definition is_routing :: "nwk_mode \<Rightarrow> bool" where
  "is_routing m \<longleftrightarrow> m = JoinedAsRouter \<or> m = JoinedAsCoordinator"

definition handle_mac_indication ::
  "env \<Rightarrow> radio \<Rightarrow> nwk_mode \<Rightarrow> bool \<Rightarrow> mac_indication \<Rightarrow> nwk_indication option act" where
  "handle_mac_indication E R mode authorized mi =
     (case mi of
        MacData ind \<Rightarrow>
          (if is_routing mode then handle_data_indication E ind authorized
           else if mode = JoinedAsEndDevice then handle_data_indication_end_device E ind authorized
           else handle_data_indication_pending E ind authorized)
      | MacBeaconNotify pd \<Rightarrow> handle_beacon_notify_indication E R pd
      | MacAssociate ind \<Rightarrow>
          (if is_routing mode then
             act_bind (handle_associate_indication E ind) (\<lambda>j. act_return (map_option IndJoin j))
           else act_return None)
      | MacPoll \<Rightarrow> act_return None)"

text \<open>\<open>listen_nwk\<close> polls the radio until a frame gives an indication. What it polls is the stream of
  received frames; the clock is the one of the frame, so the environment may change with it. The
  loop may run for ever, then its result is \<open>None\<close>.\<close>

definition poll_frame :: "received_mac_frame \<Rightarrow> mac_indication option act" where
  "poll_frame rf = act_gets (\<lambda>s. filter_frame (nk_mac s) rf)"

definition listen_step ::
  "env \<Rightarrow> radio \<Rightarrow> nwk_mode \<Rightarrow> bool \<Rightarrow> received_mac_frame \<Rightarrow> nwk_indication option act" where
  "listen_step E R mode authorized rf =
     act_bind (poll_frame rf) (\<lambda>mi. case mi of
       None \<Rightarrow> act_return None | Some i \<Rightarrow> handle_mac_indication E R mode authorized i)"

partial_function (option) listen_nwk ::
  "(nat \<Rightarrow> env) \<Rightarrow> radio \<Rightarrow> nwk_mode \<Rightarrow> bool \<Rightarrow> (nat \<Rightarrow> received_mac_frame) \<Rightarrow> nat \<Rightarrow> nwk \<Rightarrow>
   (nwk_indication \<times> nwk) run option" where
  "listen_nwk E R mode authorized rfs n s =
     (case listen_step (E n) R mode authorized (rfs n) s of
        Panic \<Rightarrow> Some Panic
      | Done (r, s') \<Rightarrow>
          (case r of Some i \<Rightarrow> Some (Done (i, s')) | None \<Rightarrow> listen_nwk E R mode authorized rfs (Suc n) s'))"

end
