(* ===== verification/Aps_Frame.thy ===== *)
theory Aps_Frame
  imports Nwk_Reception
begin

text \<open>
  The data of the application support sublayer: addresses, headers, frames and commands
  (\<open>apl/aps/frame.rs\<close>, \<open>apl/aps/types.rs\<close>, \<open>apl/aps/apsme.rs\<close>, \<open>apl/aps/security/types\<close>), with reading
  and writing of frames. The derived codecs of the header and of the commands are a parameter.
\<close>

section \<open>Addresses and options\<close>

text \<open>\<open>ApsEndpoint\<close> is a \<open>BoundedU8<0, 254>\<close>: a byte that \<open>new\<close> has let through.\<close>

type_synonym aps_endpoint = u8

definition aps_endpoint_new :: "u8 \<Rightarrow> aps_endpoint option" where
  "aps_endpoint_new v = (if v \<le> 254 then Some v else None)"

definition read_aps_endpoint :: "aps_endpoint breader" where
  "read_aps_endpoint bs = res_bind (read_u8 bs) (\<lambda>(v, n). case aps_endpoint_new v of
     None \<Rightarrow> Inl (BadInput ''invalid endpoint received for ApsSrcEndpoint'') | Some e \<Rightarrow> Inr (e, n))"

definition write_aps_endpoint :: "aps_endpoint \<Rightarrow> bwriter" where
  "write_aps_endpoint e bs = write_with (write_slice [e]) (bs, 0)"

datatype aps_address = ApsGroup nwk_addr | ApsNetwork nwk_addr aps_endpoint

primrec get_nwk_address :: "aps_address \<Rightarrow> nwk_addr" where
  "get_nwk_address (ApsGroup a) = a"
| "get_nwk_address (ApsNetwork a _) = a"

definition aps_is_broadcast :: "aps_address \<Rightarrow> bool" where
  "aps_is_broadcast d = is_broadcast (get_nwk_address d)"

definition aps_is_unicast :: "aps_address \<Rightarrow> bool" where
  "aps_is_unicast d \<longleftrightarrow> \<not> aps_is_broadcast d"

record tx_options =
  tx_security_enabled :: bool
  tx_use_network_key :: bool
  tx_acknowledged :: bool
  tx_fragmentation_permitted :: bool
  tx_include_extended_nonce :: bool

definition tx_options_default :: tx_options where
  "tx_options_default = \<lparr> tx_security_enabled = False, tx_use_network_key = False, tx_acknowledged = False,
     tx_fragmentation_permitted = False, tx_include_extended_nonce = False \<rparr>"

definition SECURE_CMD :: tx_options where
  "SECURE_CMD = \<lparr> tx_security_enabled = True, tx_use_network_key = False, tx_acknowledged = False,
     tx_fragmentation_permitted = False, tx_include_extended_nonce = True \<rparr>"

definition MAX_FRAME_RETRIES :: nat where "MAX_FRAME_RETRIES = 3"
definition MAX_APS_PAYLOAD_SIZE :: nat where "MAX_APS_PAYLOAD_SIZE = (A_MAX_MAC_PAYLOAD_SIZE - 8) - 12"
definition MAX_APS_FRAME_SIZE :: nat where "MAX_APS_FRAME_SIZE = 2048"

section \<open>Headers\<close>

datatype aps_frame_type = ApsDataType | ApsCommandType | ApsAckType | ApsInterPanType

datatype delivery_mode = UnicastDelivery | BroadcastDelivery | GroupDelivery

record aps_frame_control =
  afc_frame_type :: aps_frame_type
  afc_delivery_mode :: delivery_mode
  afc_ack_format :: bool
  afc_security :: bool
  afc_ack_request :: bool
  afc_extended_header :: bool

datatype extended_frame_control = NoFragmentation | FragmentationFirst u8 "u8 option"
  | FragmentationNotFirst u8 "u8 option"

definition is_fragmented :: "extended_frame_control \<Rightarrow> bool" where
  "is_fragmented x \<longleftrightarrow> (case x of NoFragmentation \<Rightarrow> False | _ \<Rightarrow> True)"

record aps_header =
  aph_frame_control :: aps_frame_control
  aph_destination_endpoint :: "aps_endpoint option"
  aph_group_address :: "nwk_addr option"
  aph_cluster_id :: "u16 option"
  aph_profile_id :: "u16 option"
  aph_source_endpoint :: "aps_endpoint option"
  aph_counter :: u8
  aph_extended_header :: "extended_frame_control option"

text \<open>When a field is present, by the \<open>parse_if\<close> attributes.\<close>

definition has_endpoint_fields :: "aps_frame_control \<Rightarrow> bool" where
  "has_endpoint_fields fc \<longleftrightarrow>
     afc_frame_type fc = ApsAckType \<and> \<not> afc_ack_format fc \<or> afc_frame_type fc = ApsDataType"

definition has_destination_endpoint :: "aps_frame_control \<Rightarrow> bool" where
  "has_destination_endpoint fc \<longleftrightarrow>
     afc_frame_type fc = ApsAckType \<and> \<not> afc_ack_format fc \<or>
     afc_frame_type fc = ApsDataType \<and> (afc_delivery_mode fc = UnicastDelivery \<or> afc_delivery_mode fc = BroadcastDelivery)"

definition has_group_address :: "aps_frame_control \<Rightarrow> bool" where
  "has_group_address fc \<longleftrightarrow> afc_frame_type fc = ApsDataType \<and> afc_delivery_mode fc = GroupDelivery"

definition aps_header_consistent :: "aps_header \<Rightarrow> bool" where
  "aps_header_consistent h \<longleftrightarrow> (let fc = aph_frame_control h in
     (aph_destination_endpoint h \<noteq> None \<longleftrightarrow> has_destination_endpoint fc) \<and>
     (aph_group_address h \<noteq> None \<longleftrightarrow> has_group_address fc) \<and>
     (aph_cluster_id h \<noteq> None \<longleftrightarrow> has_endpoint_fields fc) \<and>
     (aph_profile_id h \<noteq> None \<longleftrightarrow> has_endpoint_fields fc) \<and>
     (aph_source_endpoint h \<noteq> None \<longleftrightarrow> has_endpoint_fields fc) \<and>
     (aph_extended_header h \<noteq> None \<longleftrightarrow> afc_extended_header fc))"

section \<open>Keys and commands\<close>

datatype key_attribute = ProvisionalKey | UnverifiedKey | VerifiedKey

datatype link_key_type = UniqueLinkKey | GlobalLinkKey

record device_key_pair =
  dk_device_address :: ext_addr
  dk_key_attributes :: key_attribute
  dk_link_key :: key
  dk_outgoing_frame_counter :: u32
  dk_incoming_frame_counter :: u32
  dk_link_key_type :: link_key_type

datatype request_key_type = RequestApplicationLinkKey ext_addr | RequestTrustCenterLinkKey

datatype standard_key_type = StandardNetworkKeyType | ApplicationLinkKeyType | TrustCenterLinkKeyType

record network_key_descriptor =
  nkd_key :: key
  nkd_sequence_number :: u8
  nkd_destination_address :: ext_addr
  nkd_source_address :: ext_addr

record application_key_descriptor =
  akd_key :: key
  akd_partner_address :: ext_addr
  akd_initiation_flag :: bool

record trust_center_key_descriptor =
  tkd_key :: key
  tkd_destination_address :: ext_addr
  tkd_source_address :: ext_addr

datatype key_descriptor = StandardNetworkKey network_key_descriptor
  | ApplicationLinkKey application_key_descriptor | TrustCenterLinkKey trust_center_key_descriptor

record network_key_data =
  nkt_key_sequence :: u8
  nkt_key :: key
  nkt_parent_address :: "ext_addr option"

record application_key_data =
  akt_partner_address :: ext_addr
  akt_key :: key
  akt_initiator :: bool

datatype transport_key_data = NetworkKeyData network_key_data | ApplicationKeyData application_key_data
  | TrustCenterKeyData key

datatype update_device_status = SecuredRejoin | UnsecuredJoin | DeviceLeft | TrustCenterRejoin

record update_device =
  ud_device_address :: ext_addr
  ud_device_short_address :: nwk_addr
  ud_status :: update_device_status

record verify_key_cmd =
  vk_key_type :: standard_key_type
  vk_source_address :: ext_addr
  vk_initiator_hash_value :: bytes

datatype confirm_key_status = ConfirmSuccess | ConfirmFailure

record confirm_key_cmd =
  ck_status :: confirm_key_status
  ck_key_type :: standard_key_type
  ck_destination_address :: ext_addr

datatype aps_command = CmdTransportKey key_descriptor | CmdUpdateDevice update_device
  | CmdRemoveDevice ext_addr | CmdRequestKey request_key_type | CmdSwitchKey u8
  | CmdVerifyKey verify_key_cmd | CmdConfirmKey confirm_key_cmd

section \<open>Frames\<close>

record aps_data_frame =
  adf_header :: aps_header
  adf_payload :: bytes

record aps_command_frame =
  acf_header :: aps_header
  acf_command :: aps_command

datatype aps_frame = ApsData aps_data_frame | ApsCommand aps_command_frame | ApsAcknowledgement aps_header

primrec aps_frame_header :: "aps_frame \<Rightarrow> aps_header" where
  "aps_frame_header (ApsData d) = adf_header d"
| "aps_frame_header (ApsCommand c) = acf_header c"
| "aps_frame_header (ApsAcknowledgement h) = h"

primrec map_aps_header :: "(aps_header \<Rightarrow> aps_header) \<Rightarrow> aps_frame \<Rightarrow> aps_frame" where
  "map_aps_header f (ApsData d) = ApsData (adf_header_update f d)"
| "map_aps_header f (ApsCommand c) = ApsCommand (acf_header_update f c)"
| "map_aps_header f (ApsAcknowledgement h) = ApsAcknowledgement (f h)"

record aps_codecs =
  ac_write_header :: "aps_header \<Rightarrow> bwriter"
  ac_read_header :: "aps_header breader"
  ac_write_command :: "aps_command \<Rightarrow> bwriter"
  ac_read_command :: "aps_command breader"

text \<open>\<open>from_payload\<close>: an inter-PAN frame is \<open>unimplemented!\<close>.\<close>

definition aps_from_payload :: "aps_codecs \<Rightarrow> aps_header \<Rightarrow> bytes \<Rightarrow> (byte_error + aps_frame) run" where
  "aps_from_payload D h payload =
     (case afc_frame_type (aph_frame_control h) of
        ApsDataType \<Rightarrow> Done (Inr (ApsData \<lparr> adf_header = h, adf_payload = payload \<rparr>))
      | ApsCommandType \<Rightarrow> Done (res_bind (read_with (ac_read_command D) payload 0) (\<lambda>(c, _).
          Inr (ApsCommand \<lparr> acf_header = h, acf_command = c \<rparr>)))
      | ApsAckType \<Rightarrow> Done (Inr (ApsAcknowledgement h))
      | ApsInterPanType \<Rightarrow> Panic)"

definition write_aps_frame :: "aps_codecs \<Rightarrow> aps_frame \<Rightarrow> bwriter" where
  "write_aps_frame D f bs =
     (case f of
        ApsData d \<Rightarrow> res_bind (write_with (ac_write_header D (adf_header d)) (bs, 0))
          (write_with (write_slice (adf_payload d)))
      | ApsCommand c \<Rightarrow> res_bind (write_with (ac_write_header D (acf_header c)) (bs, 0))
          (write_with (ac_write_command D (acf_command c)))
      | ApsAcknowledgement h \<Rightarrow> write_with (ac_write_header D h) (bs, 0))"

definition get_destination_endpoint :: "aps_address \<Rightarrow> aps_endpoint option" where
  "get_destination_endpoint d = (case d of ApsGroup _ \<Rightarrow> None | ApsNetwork _ e \<Rightarrow> Some e)"

definition get_group_address :: "aps_address \<Rightarrow> nwk_addr option" where
  "get_group_address d = (case d of ApsGroup a \<Rightarrow> Some a | ApsNetwork _ _ \<Rightarrow> None)"

definition get_delivery_mode :: "aps_address \<Rightarrow> delivery_mode" where
  "get_delivery_mode d = (case d of ApsGroup _ \<Rightarrow> GroupDelivery
     | ApsNetwork a _ \<Rightarrow> if is_broadcast a then BroadcastDelivery else UnicastDelivery)"

record data_frame_init =
  dfi_dst :: aps_address
  dfi_cluster_id :: u16
  dfi_profile_id :: u16
  dfi_source_endpoint :: aps_endpoint
  dfi_payload :: bytes
  dfi_ack_request :: bool
  dfi_extended_header :: "extended_frame_control option"

definition aps_data_frame_new :: "data_frame_init \<Rightarrow> aps_data_frame" where
  "aps_data_frame_new i = \<lparr> adf_header = \<lparr>
       aph_frame_control = \<lparr> afc_frame_type = ApsDataType, afc_delivery_mode = get_delivery_mode (dfi_dst i),
         afc_ack_format = False, afc_security = False, afc_ack_request = dfi_ack_request i,
         afc_extended_header = (dfi_extended_header i \<noteq> None) \<rparr>,
       aph_destination_endpoint = get_destination_endpoint (dfi_dst i),
       aph_group_address = get_group_address (dfi_dst i),
       aph_cluster_id = Some (dfi_cluster_id i), aph_profile_id = Some (dfi_profile_id i),
       aph_source_endpoint = Some (dfi_source_endpoint i), aph_counter = 0,
       aph_extended_header = dfi_extended_header i \<rparr>,
     adf_payload = dfi_payload i \<rparr>"

definition aps_command_frame_new :: "nwk_addr \<Rightarrow> aps_command \<Rightarrow> aps_command_frame" where
  "aps_command_frame_new dst c = \<lparr> acf_header = \<lparr>
       aph_frame_control = \<lparr> afc_frame_type = ApsCommandType,
         afc_delivery_mode = (if is_broadcast dst then BroadcastDelivery else UnicastDelivery),
         afc_ack_format = False, afc_security = False, afc_ack_request = False, afc_extended_header = False \<rparr>,
       aph_destination_endpoint = None, aph_group_address = None, aph_cluster_id = None, aph_profile_id = None,
       aph_source_endpoint = None, aph_counter = 0, aph_extended_header = None \<rparr>,
     acf_command = c \<rparr>"

lemma aps_frame_header_map [simp]: "aps_frame_header (map_aps_header f x) = f (aps_frame_header x)"
  by (cases x) simp_all

text \<open>The constructors set exactly the fields that the flags announce.\<close>

lemma aps_new_consistent:
  "aps_header_consistent (adf_header (aps_data_frame_new i))"
  "aps_header_consistent (acf_header (aps_command_frame_new dst c))"
  by (cases "dfi_dst i"; simp add: aps_data_frame_new_def aps_header_consistent_def has_destination_endpoint_def
      has_group_address_def has_endpoint_fields_def get_destination_endpoint_def get_group_address_def
      get_delivery_mode_def)
    (simp add: aps_command_frame_new_def aps_header_consistent_def has_destination_endpoint_def
      has_group_address_def has_endpoint_fields_def)

section \<open>Indications and bindings\<close>

datatype aps_security_status = ApsUnsecured | ApsSecuredNwkKey | ApsSecuredLinkKey

datatype apsde_address = ApsdeNone | ApsdeGroup nwk_addr | ApsdeNetwork nwk_addr aps_endpoint
  | ApsdeExtended ext_addr aps_endpoint

record aps_data_indication =
  adi_dst :: aps_address
  adi_src :: apsde_address
  adi_profile_id :: u16
  adi_cluster_id :: u16
  adi_asdu :: bytes
  adi_security_status :: aps_security_status
  adi_link_quality :: u8

datatype aps_indication = ApsIndData aps_data_indication | ApsIndLeave leave_indication
  | ApsIndTransportKey ext_addr transport_key_data
  | ApsIndUpdateDevice ext_addr update_device
  | ApsIndConfirmKey confirm_key_status ext_addr standard_key_type
  | ApsIndRemoveDevice ext_addr ext_addr

datatype binding_address = BindGroup nwk_addr | BindDevice ext_addr aps_endpoint

record aps_group_entry =
  ge_group_addr :: u16
  ge_endpoints :: "u8 list"

record binding =
  bd_src_address :: ext_addr
  bd_src_endpoint :: aps_endpoint
  bd_cluster_id :: u16
  bd_dst_address :: binding_address

datatype bind_error = BindTableFull

datatype unbind_error = UnbindIllegalRequest | UnbindInvalidBinding

datatype security_network_params = Centralized ext_addr | Distributed

end
