(* ===== verification/Aps_Security.thy ===== *)
theory Aps_Security
  imports Aps_Frame
begin

text \<open>
  Security of the application support sublayer (\<open>apl/aps/security/sap/service.rs\<close>): encryption and
  decryption of frames under link keys, the check of incoming commands, and the handlers of the
  commands. The derived codec of the auxiliary header is the one of the network layer.
\<close>

section \<open>Encryption\<close>

definition encryption_key_for :: "ext_addr \<Rightarrow> device_key_pair \<Rightarrow> bool" where
  "encryption_key_for dest k \<longleftrightarrow> dk_device_address k = dest \<and>
     (dk_key_attributes k = ProvisionalKey \<or> dk_key_attributes k = VerifiedKey)"

text \<open>The key for a frame: transported keys are protected by keys derived from the link key.\<close>

definition aps_frame_key :: "crypto \<Rightarrow> aps_frame \<Rightarrow> key \<Rightarrow> (sec_error + key \<times> key_identifier) run" where
  "aps_frame_key C f link_key =
     (let derived = (\<lambda>b i. run_map (map_sum id (\<lambda>k. (k, i))) (hmac C link_key [b])) in
      case f of
        ApsCommand c \<Rightarrow>
          (case acf_command c of
             CmdTransportKey (StandardNetworkKey _) \<Rightarrow> derived 0 KeyTransport
           | CmdTransportKey _ \<Rightarrow> derived 2 KeyLoad
           | _ \<Rightarrow> Done (Inr (link_key, DataKey)))
      | _ \<Rightarrow> Done (Inr (link_key, DataKey)))"

definition aps_aux_header :: "security_level \<Rightarrow> key_identifier \<Rightarrow> bool \<Rightarrow> ext_addr \<Rightarrow> u32 \<Rightarrow> aux_header" where
  "aps_aux_header level kid extended ext counter = \<lparr>
     ah_security_control = \<lparr> sc_security_level = level, sc_key_identifier = kid, sc_extended_nonce = extended \<rparr>,
     ah_frame_counter = counter, ah_source_address = (if extended then Some ext else None),
     ah_key_sequence_number = None \<rparr>"

definition secured_header :: "aps_header \<Rightarrow> aps_header" where
  "secured_header = aph_frame_control_update (afc_security_update (\<lambda>_. True))"

definition bump_link_key :: "device_key_pair \<Rightarrow> device_key_pair" where
  "bump_link_key k = k\<lparr> dk_outgoing_frame_counter := dk_outgoing_frame_counter k + 1 \<rparr>"

text \<open>An acknowledgement reaches \<open>unreachable!\<close>. The command is first written into a buffer of its own.\<close>

definition encrypt_aps_frame ::
  "crypto \<Rightarrow> wire \<Rightarrow> codecs \<Rightarrow> aps_codecs \<Rightarrow> security_level \<Rightarrow> ext_addr \<Rightarrow> aps_frame \<Rightarrow> ext_addr \<Rightarrow> tx_options \<Rightarrow>
   bytes \<Rightarrow> device_key_pair list \<Rightarrow> ((sec_error + bytes \<times> nat) \<times> device_key_pair list) run" where
  "encrypt_aps_frame C W D A level ext frame dest opts buf keys =
     (let f = map_aps_header secured_header frame in
      case find (encryption_key_for dest) keys of
        None \<Rightarrow> Done (Inl Unspecified, keys)
      | Some kp \<Rightarrow>
          run_bind (aps_frame_key C f (dk_link_key kp)) (\<lambda>rk. case rk of Inl e \<Rightarrow> Done (Inl e, keys)
          | Inr (k, kid) \<Rightarrow>
              if dk_outgoing_frame_counter kp = - 1 then Done (Inl InvalidData, keys)
              else
                (let extended = tx_include_extended_nonce opts \<or> (case f of ApsCommand _ \<Rightarrow> True | _ \<Rightarrow> False);
                     aux = aps_aux_header level kid extended ext (dk_outgoing_frame_counter kp);
                     go = (\<lambda>hdr payload. run_map
                       (\<lambda>r. case r of Inl e \<Rightarrow> (Inl e, keys)
                         | Inr x \<Rightarrow> (Inr x, update_first (encryption_key_for dest) bump_link_key keys))
                       (write_and_encrypt_in_place C W level buf (cd_write_aux D aux) aux k
                          (ac_write_header A hdr) (write_slice payload)))
                 in case f of
                      ApsData d \<Rightarrow> go (adf_header d) (adf_payload d)
                    | ApsCommand c \<Rightarrow>
                        (case parse_error (write_with (ac_write_command A (acf_command c))
                            (replicate MAX_APS_PAYLOAD_SIZE 0, 0)) of
                           Inl e \<Rightarrow> Done (Inl e, keys)
                         | Inr (bs, n) \<Rightarrow> go (acf_header c) (take n bs))
                    | ApsAcknowledgement _ \<Rightarrow> Panic)))"

section \<open>Decryption\<close>

text \<open>Before it is authorized a device tries its first global link key.\<close>

definition decryption_key_for :: "bool \<Rightarrow> ext_addr \<Rightarrow> device_key_pair \<Rightarrow> bool" where
  "decryption_key_for authorized src k \<longleftrightarrow>
     (if \<not> authorized then dk_link_key_type k = GlobalLinkKey else dk_device_address k = src)"

definition aps_decryption_key :: "crypto \<Rightarrow> key_identifier \<Rightarrow> key \<Rightarrow> (sec_error + key) run" where
  "aps_decryption_key C kid link_key =
     (case kid of
        DataKey \<Rightarrow> Done (Inr link_key)
      | KeyTransport \<Rightarrow> hmac C link_key [0]
      | KeyLoad \<Rightarrow> hmac C link_key [2]
      | NetworkKey \<Rightarrow> Done (Inl InvalidData))"

definition set_level :: "security_level \<Rightarrow> aux_header \<Rightarrow> aux_header" where
  "set_level level a = a\<lparr> ah_security_control := (ah_security_control a)\<lparr> sc_security_level := level \<rparr> \<rparr>"

text \<open>Splitting the buffer panics when it is too short; the nonce cannot fail here.\<close>

definition open_aps_frame ::
  "crypto \<Rightarrow> wire \<Rightarrow> codecs \<Rightarrow> aps_codecs \<Rightarrow> security_level \<Rightarrow> aps_header \<Rightarrow> nat \<Rightarrow> aux_header \<Rightarrow> nat \<Rightarrow>
   device_key_pair \<Rightarrow> key \<Rightarrow> bytes \<Rightarrow> (sec_error + aps_frame \<times> device_key_pair option) run" where
  "open_aps_frame C W D A level hdr hdr_len aux aux_len kp k buf =
     (case parse_error (write_with (cd_write_aux D (set_level level aux)) (buf, hdr_len)) of
        Inl e \<Rightarrow> Done (Inl e)
      | Inr (buf', _) \<Rightarrow>
          if length buf' < hdr_len + aux_len then Panic
          else
            (let aad = take (hdr_len + aux_len) buf'; frame = drop (hdr_len + aux_len) buf';
                 m = mic_length level in
             if length frame < m then Panic
             else run_bind (create_nonce W (set_level level aux)) (\<lambda>rn. case rn of Inl e \<Rightarrow> Done (Inl e)
               | Inr nonce \<Rightarrow>
                   (case decrypt_in_place C k aad (take (length frame - m) frame) (drop (length frame - m) frame) nonce of
                      Inl e \<Rightarrow> Done (Inl e)
                    | Inr p \<Rightarrow> run_map (\<lambda>r. map_sum id (\<lambda>f. (f, Some kp)) (parse_error r)) (aps_from_payload A hdr p)))))"

definition decrypt_aps_frame ::
  "crypto \<Rightarrow> wire \<Rightarrow> codecs \<Rightarrow> aps_codecs \<Rightarrow> security_level \<Rightarrow> bool \<Rightarrow> device_key_pair list \<Rightarrow> bytes \<Rightarrow>
   (sec_error + aps_frame \<times> device_key_pair option) run" where
  "decrypt_aps_frame C W D A level authorized keys buf =
     (if length buf < mic_length level then Done (Inl (ParseError Incomplete))
      else case parse_error (ac_read_header A buf) of Inl e \<Rightarrow> Done (Inl e)
      | Inr (hdr, hdr_len) \<Rightarrow>
          if length buf < hdr_len then Panic
          else if \<not> afc_security (aph_frame_control hdr) then
            run_map (\<lambda>r. map_sum id (\<lambda>f. (f, None)) (parse_error r)) (aps_from_payload A hdr (drop hdr_len buf))
          else case parse_error (cd_read_aux D (drop hdr_len buf)) of Inl e \<Rightarrow> Done (Inl e)
            | Inr (aux, aux_len) \<Rightarrow>
                if ah_frame_counter aux = - 1 then Done (Inl InvalidData)
                else case ah_source_address aux of None \<Rightarrow> Done (Inl Unspecified)
                  | Some src \<Rightarrow>
                      (case find (decryption_key_for authorized src) keys of None \<Rightarrow> Done (Inl Unspecified)
                       | Some kp \<Rightarrow>
                           run_bind (aps_decryption_key C (sc_key_identifier (ah_security_control aux)) (dk_link_key kp))
                             (\<lambda>rk. case rk of Inl e \<Rightarrow> Done (Inl e)
                               | Inr k \<Rightarrow>
                                   if dk_link_key_type kp = UniqueLinkKey \<and> ah_frame_counter aux < dk_incoming_frame_counter kp
                                   then Done (Inl Unspecified)
                                   else open_aps_frame C W D A level hdr hdr_len aux aux_len kp k buf)))"

section \<open>The state of the sublayer\<close>

text \<open>The binding table is a hash set; its order of iteration is a parameter of what iterates over it.
  Timers and channel statistics are written but not read by the operations here; the group table is
  loaded and stored again, and its operations are \<open>todo!\<close>.\<close>

record aps =
  as_nwk :: nwk
  as_counter :: u8
  as_binding_table :: "binding set"
  as_group_table :: "aps_group_entry list"
  as_max_window_size :: "(aps_endpoint \<times> u8) list"
  as_device_key_pair_set :: "device_key_pair list"
  as_security_network_params :: security_network_params
  as_is_authorized :: bool

definition TRUST_CENTER_LINK_KEY :: key where
  "TRUST_CENTER_LINK_KEY = [0x5a, 0x69, 0x67, 0x42, 0x65, 0x65, 0x41, 0x6c, 0x6c, 0x69, 0x61, 0x6e, 0x63, 0x65, 0x30, 0x39]"

definition aps_new :: "nwk \<Rightarrow> binding set \<Rightarrow> aps_group_entry list \<Rightarrow> aps" where
  "aps_new n bt gt = \<lparr> as_nwk = n, as_counter = 0, as_binding_table = bt, as_group_table = gt, as_max_window_size = [],
     as_device_key_pair_set = [\<lparr> dk_device_address = 0, dk_key_attributes = ProvisionalKey,
       dk_link_key = TRUST_CENTER_LINK_KEY, dk_outgoing_frame_counter = 0, dk_incoming_frame_counter = 0,
       dk_link_key_type = GlobalLinkKey \<rparr>],
     as_security_network_params = Distributed, as_is_authorized = False \<rparr>"

type_synonym 'a aps_act = "(aps, 'a) action"

definition with_nwk :: "'a act \<Rightarrow> 'a aps_act" where
  "with_nwk m s = run_map (\<lambda>(x, n). (x, s\<lparr> as_nwk := n \<rparr>)) (m (as_nwk s))"

definition get_aps_counter :: "u8 aps_act" where
  "get_aps_counter s = Done (as_counter s + 1, s\<lparr> as_counter := as_counter s + 1 \<rparr>)"

definition get_tc_addr :: "aps \<Rightarrow> ext_addr option" where
  "get_tc_addr s = (case as_security_network_params s of Centralized a \<Rightarrow> Some a | Distributed \<Rightarrow> None)"

definition set_authorized :: "unit aps_act" where
  "set_authorized = act_modify (\<lambda>s. s\<lparr> as_is_authorized := True \<rparr>)"

definition bind_request :: "binding \<Rightarrow> (bind_error + unit) aps_act" where
  "bind_request b = act_then (act_modify (\<lambda>s. s\<lparr> as_binding_table := insert b (as_binding_table s) \<rparr>)) (act_return (Inr ()))"

definition unbind_request :: "binding \<Rightarrow> (unbind_error + unit) aps_act" where
  "unbind_request b s = (if b \<in> as_binding_table s
     then Done (Inr (), s\<lparr> as_binding_table := as_binding_table s - {b} \<rparr>) else Done (Inl UnbindInvalidBinding, s))"

section \<open>Incoming commands\<close>

text \<open>\<open>True\<close> when the command is accepted. All commands of the type are security commands; the check
  is skipped for a device that is authorized.\<close>

definition validate_incoming_apsme_command ::
  "nwk_addr \<Rightarrow> aps_command_frame \<Rightarrow> device_key_pair option \<Rightarrow> bool aps_act" where
  "validate_incoming_apsme_command src f key_pair s =
     (case get_tc_addr s of
        None \<Rightarrow> Done (True, s)
      | Some tc \<Rightarrow>
          if as_is_authorized s then Done (True, s)
          else if afc_security (aph_frame_control (acf_header f)) then
            (case key_pair of None \<Rightarrow> Panic | Some kp \<Rightarrow> Done (dk_device_address kp = tc, s))
          else Done (case acf_command f of
              CmdTransportKey _ \<Rightarrow> False | CmdRemoveDevice _ \<Rightarrow> False | CmdRequestKey _ \<Rightarrow> False
            | CmdConfirmKey _ \<Rightarrow> False
            | CmdVerifyKey v \<Rightarrow> vk_source_address v = tc
            | _ \<Rightarrow> src = NWK_COORDINATOR_ADDRESS, s))"

definition handle_transport_key_command ::
  "nwk_addr \<Rightarrow> aps_header \<Rightarrow> key_descriptor \<Rightarrow> aps_indication option aps_act" where
  "handle_transport_key_command src hdr desc =
     act_bind (act_gets as_is_authorized) (\<lambda>authorized.
     act_bind (act_gets (\<lambda>s. get_ext_addr (as_nwk s))) (\<lambda>slf.
     let secured = afc_security (aph_frame_control hdr) in
     case desc of
       StandardNetworkKey d \<Rightarrow>
         if \<not> secured then act_return None
         else
           (let dest = nkd_destination_address d in
            if dest = slf \<or> dest = 0 \<or> dest = - 1 then
              act_then
                (if dest = - 1 then act_modify (\<lambda>s. s\<lparr> as_security_network_params := Distributed \<rparr>)
                 else act_then
                   (act_modify (\<lambda>s. s\<lparr> as_security_network_params := Centralized (nkd_source_address d) \<rparr>))
                   (with_nwk (addr_map_update (am_insert src (nkd_source_address d)))))
                (act_return (Some (ApsIndTransportKey (nkd_source_address d) (NetworkKeyData
                   \<lparr> nkt_key_sequence = nkd_sequence_number d, nkt_key = nkd_key d, nkt_parent_address = None \<rparr>))))
            else act_return None)
     | ApplicationLinkKey d \<Rightarrow>
         if authorized \<and> \<not> secured then act_return None
         else act_bind (with_nwk (find_ext_addr src)) (\<lambda>a. act_return (map_option (\<lambda>addr.
           ApsIndTransportKey addr (ApplicationKeyData \<lparr> akt_partner_address = akd_partner_address d,
             akt_key = akd_key d, akt_initiator = akd_initiation_flag d \<rparr>)) a))
     | TrustCenterLinkKey d \<Rightarrow>
         if authorized \<and> \<not> secured then act_return None
         else act_return (if tkd_destination_address d = slf
           then Some (ApsIndTransportKey (tkd_source_address d) (TrustCenterKeyData (tkd_key d))) else None)))"

definition handle_update_device_command :: "nwk_addr \<Rightarrow> update_device \<Rightarrow> aps_indication option aps_act" where
  "handle_update_device_command src cmd =
     act_bind (with_nwk (find_ext_addr src)) (\<lambda>a. act_return (map_option (\<lambda>e. ApsIndUpdateDevice e cmd) a))"

definition confirm_link_key :: "device_key_pair \<Rightarrow> device_key_pair" where
  "confirm_link_key k = k\<lparr> dk_key_attributes := VerifiedKey, dk_incoming_frame_counter := 0 \<rparr>"

definition handle_confirm_key_command ::
  "nwk_addr \<Rightarrow> data_dst \<Rightarrow> confirm_key_cmd \<Rightarrow> aps_indication option aps_act" where
  "handle_confirm_key_command src dst cmd =
     (if (case dst of MulticastDst _ \<Rightarrow> True | UnicastOrBroadcastDst a \<Rightarrow> is_broadcast a) then act_return None
      else act_bind (with_nwk (find_ext_addr src)) (\<lambda>a. case a of
        None \<Rightarrow> act_return None
      | Some e \<Rightarrow>
          act_bind (act_gets get_tc_addr) (\<lambda>t. case t of
            None \<Rightarrow> act_return None
          | Some tc \<Rightarrow>
              if ck_status cmd \<noteq> ConfirmSuccess \<or> ck_key_type cmd \<noteq> TrustCenterLinkKeyType \<or> e \<noteq> tc
              then act_return None
              else act_bind (act_gets (\<lambda>s. find (\<lambda>k. dk_device_address k = tc) (as_device_key_pair_set s))) (\<lambda>kp.
                case kp of None \<Rightarrow> act_return None
                | Some _ \<Rightarrow> act_then (act_modify (\<lambda>s. s\<lparr> as_device_key_pair_set :=
                      update_first (\<lambda>k. dk_device_address k = tc) confirm_link_key (as_device_key_pair_set s) \<rparr>))
                    (act_return (Some (ApsIndConfirmKey (ck_status cmd) (ck_destination_address cmd) (ck_key_type cmd))))))))"

definition handle_remove_device_command :: "nwk_addr \<Rightarrow> ext_addr \<Rightarrow> aps_indication option aps_act" where
  "handle_remove_device_command src target =
     act_bind (with_nwk (find_ext_addr src)) (\<lambda>a. act_return (map_option (\<lambda>e. ApsIndRemoveDevice e target) a))"

definition handle_aps_command_common ::
  "nwk_addr \<Rightarrow> data_dst \<Rightarrow> aps_command_frame \<Rightarrow> aps_indication option aps_act" where
  "handle_aps_command_common src dst f =
     (case acf_command f of
        CmdTransportKey d \<Rightarrow> handle_transport_key_command src (acf_header f) d
      | CmdUpdateDevice c \<Rightarrow> handle_update_device_command src c
      | CmdConfirmKey c \<Rightarrow> handle_confirm_key_command src dst c
      | _ \<Rightarrow> act_return None)"

end
