(* ===== verification/Aps_Data.thy ===== *)
theory Aps_Data
  imports Aps_Security
begin

text \<open>
  The data service of the application support sublayer (\<open>apl/aps/apsde.rs\<close>): sending in one frame
  or in fragments, acknowledgements, the handling of what the network layer indicates, and the loop
  that listens. The sending of security commands (the first half of \<open>security/sap/service.rs\<close>) is here
  too, since it goes through the data service.
\<close>

section \<open>Requests\<close>

datatype apsde_error = ApsNotSupported string | ApsNoShortAddress | ApsNoBoundDevice | ApsTooLong | ApsNoAck
  | ApsNldeDataError transfer_error | ApsByteError byte_error | ApsSecurityError sec_error

type_synonym aps_result = "apsde_error + unit"

record aps_alias =
  al_src_addr :: nwk_addr
  al_seq_number :: u8

text \<open>The ASDU is anything that can be written: its writer.\<close>

record apsde_request =
  rq_dst_address :: apsde_address
  rq_profile_id :: u16
  rq_cluster_id :: u16
  rq_src_endpoint :: aps_endpoint
  rq_asdu :: bwriter
  rq_tx_options :: tx_options
  rq_alias :: "aps_alias option"
  rq_radius :: "u8 option"

definition get_short_address :: "apsde_address \<Rightarrow> nwk_addr option aps_act" where
  "get_short_address a = (case a of
     ApsdeNetwork n _ \<Rightarrow> act_return (Some n)
   | ApsdeExtended e _ \<Rightarrow> with_nwk (find_nwk_addr e)
   | _ \<Rightarrow> act_return None)"

section \<open>One frame\<close>

definition set_aps_counter :: "u8 \<Rightarrow> aps_header \<Rightarrow> aps_header" where
  "set_aps_counter c = aph_counter_update (\<lambda>_. c)"

definition aps_encrypt :: "env \<Rightarrow> aps_codecs \<Rightarrow> aps_frame \<Rightarrow> ext_addr \<Rightarrow> tx_options \<Rightarrow> bytes \<Rightarrow>
    (sec_error + bytes \<times> nat) aps_act" where
  "aps_encrypt E A frame dest opts buf s = run_map
     (\<lambda>(r, keys). (r, s\<lparr> as_device_key_pair_set := keys \<rparr>))
     (encrypt_aps_frame (ev_crypto E) (ev_wire E) (ev_codecs E) A (nwk_security_level (profile_params (as_nwk s)))
       (get_ext_addr (as_nwk s)) frame dest opts buf (as_device_key_pair_set s))"

definition aps_frame_bytes ::
  "env \<Rightarrow> aps_codecs \<Rightarrow> aps_frame \<Rightarrow> nwk_addr \<Rightarrow> tx_options \<Rightarrow> (apsde_error + bytes) aps_act" where
  "aps_frame_bytes E A frame dst opts =
     (let buf = replicate 127 0 in
      if tx_security_enabled opts then
        act_bind (with_nwk (find_ext_addr dst)) (\<lambda>e. case e of
          None \<Rightarrow> act_return (Inl (ApsSecurityError Unspecified))
        | Some ext \<Rightarrow> act_bind (aps_encrypt E A frame ext opts buf) (\<lambda>r. act_return
            (case r of Inl e \<Rightarrow> Inl (ApsSecurityError e) | Inr (bs, n) \<Rightarrow> Inr (take n bs))))
      else act_return (case write_aps_frame A frame buf of
          Inl e \<Rightarrow> Inl (ApsByteError e) | Inr (bs, n) \<Rightarrow> Inr (take n bs)))"

definition transmit_data_frame :: "env \<Rightarrow> nwk_mode \<Rightarrow> bytes \<Rightarrow> data_frame_config \<Rightarrow> transfer_result act" where
  "transmit_data_frame E mode nsdu c =
     (if mode = JoinedAsEndDevice then transmit_data_frame_end_device E nsdu c
      else transmit_data_frame_routing E nsdu c)"

definition aps_frame_config :: "nwk_addr \<Rightarrow> aps_alias option \<Rightarrow> u8 option \<Rightarrow> data_frame_config" where
  "aps_frame_config dst al radius = \<lparr> dc_dst_address = dst,
     dc_alias = map_option (\<lambda>a. (al_src_addr a, al_seq_number a)) al, dc_radius = radius,
     dc_discover_route = True, dc_security_disable = False \<rparr>"

definition aps_transfer ::
  "env \<Rightarrow> aps_codecs \<Rightarrow> nwk_mode \<Rightarrow> aps_frame \<Rightarrow> nwk_addr \<Rightarrow> aps_alias option \<Rightarrow> u8 option \<Rightarrow> tx_options \<Rightarrow> u8 \<Rightarrow>
   aps_result aps_act" where
  "aps_transfer E A mode frame dst al radius opts counter =
     (if al \<noteq> None \<and> tx_acknowledged opts
      then act_return (Inl (ApsNotSupported
        ''transferring a frame with alias and acknowledgement required is not supported''))
      else
        (let c = (case al of None \<Rightarrow> counter | Some a \<Rightarrow> al_seq_number a) in
         act_bind (aps_frame_bytes E A (map_aps_header (set_aps_counter c) frame) dst opts) (\<lambda>r. case r of
           Inl e \<Rightarrow> act_return (Inl e)
         | Inr bs \<Rightarrow> act_bind (with_nwk (transmit_data_frame E mode bs (aps_frame_config dst al radius)))
             (\<lambda>t. act_return (map_sum ApsNldeDataError id t)))))"

definition aps_cmd_transfer ::
  "env \<Rightarrow> aps_codecs \<Rightarrow> nwk_mode \<Rightarrow> aps_command_frame \<Rightarrow> nwk_addr \<Rightarrow> tx_options \<Rightarrow> aps_result aps_act" where
  "aps_cmd_transfer E A mode f dst opts =
     act_bind get_aps_counter (\<lambda>c. aps_transfer E A mode (ApsCommand f) dst None (Some 15) opts c)"

section \<open>Acknowledgements\<close>

text \<open>Only the format for data is ever sent; its fields are both endpoints, the cluster and the profile.\<close>

datatype ack_format = AckCommand | AckData aps_endpoint u16 u16 aps_endpoint

definition ack_header :: "ack_format \<Rightarrow> u8 \<Rightarrow> aps_header" where
  "ack_header fmt counter = (let
     control = \<lparr> afc_frame_type = ApsAckType, afc_delivery_mode = UnicastDelivery,
       afc_ack_format = (fmt = AckCommand), afc_security = False, afc_ack_request = False, afc_extended_header = False \<rparr>;
     hdr = (\<lambda>dst cluster profile src. \<lparr> aph_frame_control = control, aph_destination_endpoint = dst,
       aph_group_address = None, aph_cluster_id = cluster, aph_profile_id = profile, aph_source_endpoint = src,
       aph_counter = counter, aph_extended_header = None \<rparr>)
   in case fmt of AckCommand \<Rightarrow> hdr None None None None
      | AckData dst cluster profile src \<Rightarrow> hdr (Some dst) (Some cluster) (Some profile) (Some src))"

definition send_ack ::
  "env \<Rightarrow> aps_codecs \<Rightarrow> nwk_mode \<Rightarrow> ack_format \<Rightarrow> u8 \<Rightarrow> nwk_addr \<Rightarrow> aps_result aps_act" where
  "send_ack E A mode fmt counter dst =
     aps_transfer E A mode (ApsAcknowledgement (ack_header fmt counter)) dst None None tx_options_default counter"

definition process_ack_header :: "aps_codecs \<Rightarrow> u8 \<Rightarrow> nwk_indication \<Rightarrow> aps_header option" where
  "process_ack_header A counter ind = (case ind of
     IndData d \<Rightarrow> (case ac_read_header A (di_nsdu d) of
         Inl _ \<Rightarrow> None
       | Inr (h, _) \<Rightarrow> if afc_frame_type (aph_frame_control h) = ApsAckType \<and> aph_counter h = counter
           then Some h else None)
   | _ \<Rightarrow> None)"

text \<open>\<open>wait_for_ack\<close>: the frames that arrive before the timeout, each through one round of \<open>listen_nwk\<close>.
  What they indicate besides the acknowledgement is dropped.\<close>

fun ack_among ::
  "env \<Rightarrow> radio \<Rightarrow> aps_codecs \<Rightarrow> nwk_mode \<Rightarrow> u8 \<Rightarrow> received_mac_frame list \<Rightarrow> aps_header option aps_act" where
  "ack_among E R A mode counter [] = act_return None"
| "ack_among E R A mode counter (rf # rfs) =
     act_bind (act_gets as_is_authorized) (\<lambda>authorized.
     act_bind (with_nwk (listen_step E R mode authorized rf)) (\<lambda>i.
     case Option.bind i (process_ack_header A counter) of
       Some h \<Rightarrow> act_return (Some h)
     | None \<Rightarrow> ack_among E R A mode counter rfs))"

definition wait_for_ack :: "env \<Rightarrow> radio \<Rightarrow> aps_codecs \<Rightarrow> nwk_mode \<Rightarrow> u8 \<Rightarrow> aps_header option aps_act" where
  "wait_for_ack E R A mode counter s =
     ack_among E R A mode counter (rd_frames R (length (nk_sent (as_nwk s)))) s"

section \<open>Operations that may not end\<close>

text \<open>A loop has no result when it never ends.\<close>

type_synonym ('s, 'a) loop = "'s \<Rightarrow> ('a \<times> 's) run option"
type_synonym 'a aps_loop = "(aps, 'a) loop"

definition lp_of :: "('s, 'a) action \<Rightarrow> ('s, 'a) loop" where "lp_of m s = Some (m s)"

definition lp_bind :: "('s, 'a) loop \<Rightarrow> ('a \<Rightarrow> ('s, 'b) loop) \<Rightarrow> ('s, 'b) loop" where
  "lp_bind m f s = (case m s of
     None \<Rightarrow> None | Some Panic \<Rightarrow> Some Panic | Some (Done (x, s')) \<Rightarrow> f x s')"

text \<open>Steps one after the other until one fails.\<close>

primrec each_until_error :: "('i \<Rightarrow> ('s, 'e + unit) loop) \<Rightarrow> 'i list \<Rightarrow> ('s, 'e + unit) loop" where
  "each_until_error f [] = lp_of (act_return (Inr ()))"
| "each_until_error f (i # is) = lp_bind (f i) (\<lambda>r. case r of
     Inl e \<Rightarrow> lp_of (act_return (Inl e)) | Inr _ \<Rightarrow> each_until_error f is)"

section \<open>Fragments\<close>

definition remaining_blocks :: "bytes \<Rightarrow> nat" where
  "remaining_blocks win = (length win - 1) div MAX_APS_PAYLOAD_SIZE + 1"

definition fragment_header :: "bytes \<Rightarrow> nat \<Rightarrow> extended_frame_control" where
  "fragment_header win block =
     (if block = 0 then FragmentationFirst (of_nat (remaining_blocks win)) None
      else FragmentationNotFirst (of_nat block) None)"

definition data_init :: "aps_address \<Rightarrow> apsde_request \<Rightarrow> bytes \<Rightarrow> extended_frame_control option \<Rightarrow> data_frame_init" where
  "data_init dst rq payload x = \<lparr> dfi_dst = dst, dfi_cluster_id = rq_cluster_id rq,
     dfi_profile_id = rq_profile_id rq, dfi_source_endpoint = rq_src_endpoint rq, dfi_payload = payload,
     dfi_ack_request = tx_acknowledged (rq_tx_options rq), dfi_extended_header = x \<rparr>"

definition aps_send_data ::
  "env \<Rightarrow> aps_codecs \<Rightarrow> nwk_mode \<Rightarrow> aps_address \<Rightarrow> apsde_request \<Rightarrow> bytes \<Rightarrow> extended_frame_control option \<Rightarrow> u8 \<Rightarrow>
   aps_result aps_act" where
  "aps_send_data E A mode dst rq payload x counter =
     aps_transfer E A mode (ApsData (aps_data_frame_new (data_init dst rq payload x))) (get_nwk_address dst)
       (rq_alias rq) (rq_radius rq) (rq_tx_options rq) counter"

text \<open>One pass over the window. The shift \<open>1u8 << idx\<close> panics from the ninth block on, the slice where it
  passes the end of the buffer.\<close>

fun send_blocks ::
  "env \<Rightarrow> aps_codecs \<Rightarrow> nwk_mode \<Rightarrow> aps_address \<Rightarrow> apsde_request \<Rightarrow> u8 \<Rightarrow> bytes \<Rightarrow> nat \<Rightarrow> u8 \<Rightarrow> nat list \<Rightarrow>
   aps_result aps_act" where
  "send_blocks E A mode dst rq counter win first ack [] = act_return (Inr ())"
| "send_blocks E A mode dst rq counter win first ack (i # is) =
     (if 8 \<le> i then act_panic
      else if bit ack i then send_blocks E A mode dst rq counter win first ack is
      else if length win < (i + 1) * MAX_APS_PAYLOAD_SIZE then act_panic
      else act_bind (aps_send_data E A mode dst rq
          (take MAX_APS_PAYLOAD_SIZE (drop (i * MAX_APS_PAYLOAD_SIZE) win))
          (Some (fragment_header win (first + i))) counter)
        (\<lambda>r. case r of Inl e \<Rightarrow> act_return (Inl e)
          | Inr _ \<Rightarrow> send_blocks E A mode dst rq counter win first ack is))"

definition ack_blocks :: "aps_header option \<Rightarrow> (u8 \<times> u8) option" where
  "ack_blocks h = (case h of None \<Rightarrow> None | Some hdr \<Rightarrow> (case aph_extended_header hdr of
       Some (FragmentationFirst b (Some bf)) \<Rightarrow> Some (b, bf)
     | Some (FragmentationNotFirst b (Some bf)) \<Rightarrow> Some (b, bf)
     | _ \<Rightarrow> None))"

text \<open>The retries of one window: an acknowledgement that leaves blocks out starts the count again.\<close>

partial_function (option) window_loop ::
  "(u8 \<Rightarrow> aps_result aps_act) \<Rightarrow> aps_header option aps_act \<Rightarrow> nat \<Rightarrow> nat \<Rightarrow> u8 \<Rightarrow> aps \<Rightarrow> (aps_result \<times> aps) run option" where
  "window_loop send wait first retry ack s =
     (if MAX_FRAME_RETRIES \<le> retry then Some (Done (Inl ApsNoAck, s))
      else case send ack s of
        Panic \<Rightarrow> Some Panic
      | Done (Inl e, s1) \<Rightarrow> Some (Done (Inl e, s1))
      | Done (Inr _, s1) \<Rightarrow> (case wait s1 of
          Panic \<Rightarrow> Some Panic
        | Done (h, s2) \<Rightarrow> (case ack_blocks h of
            Some (b, bf) \<Rightarrow> if unat b \<noteq> first \<or> bf \<noteq> - 1 then window_loop send wait first 0 bf s2
              else Some (Done (Inr (), s2))
          | None \<Rightarrow> window_loop send wait first (Suc retry) 0 s2)))"

definition transfer_window ::
  "env \<Rightarrow> radio \<Rightarrow> aps_codecs \<Rightarrow> nwk_mode \<Rightarrow> aps_address \<Rightarrow> apsde_request \<Rightarrow> u8 \<Rightarrow> nat \<Rightarrow> bytes \<Rightarrow> nat \<Rightarrow>
   aps_result aps_loop" where
  "transfer_window E R A mode dst rq counter w win first =
     window_loop
       (\<lambda>ack. send_blocks E A mode dst rq counter win first ack [0..<min w (remaining_blocks win)])
       (wait_for_ack E R A mode counter) first 0 0"

section \<open>Sending data\<close>

definition aps_window_size :: "aps_address \<Rightarrow> apsde_request \<Rightarrow> aps \<Rightarrow> u8 option" where
  "aps_window_size dst rq s = (case rq_dst_address rq of
     ApsdeNetwork a ep \<Rightarrow> if is_broadcast a then None else map_of (as_max_window_size s) ep
   | ApsdeExtended _ ep \<Rightarrow> map_of (as_max_window_size s) ep
   | _ \<Rightarrow> None)"

text \<open>A window of no blocks divides by zero.\<close>

definition transfer_fragmented ::
  "env \<Rightarrow> radio \<Rightarrow> aps_codecs \<Rightarrow> nwk_mode \<Rightarrow> aps_address \<Rightarrow> apsde_request \<Rightarrow> nat \<Rightarrow> bytes \<Rightarrow> nat \<Rightarrow>
   aps_result aps_loop" where
  "transfer_fragmented E R A mode dst rq w asdu len =
     lp_bind (lp_of get_aps_counter) (\<lambda>counter.
     if w = 0 then lp_of act_panic
     else each_until_error
       (\<lambda>i. transfer_window E R A mode dst rq counter w (drop (i * w * MAX_APS_PAYLOAD_SIZE) asdu) (i * w))
       [0..<(((len - 1) div MAX_APS_PAYLOAD_SIZE + 1) - 1) div w + 1])"

definition transfer_single ::
  "env \<Rightarrow> radio \<Rightarrow> aps_codecs \<Rightarrow> nwk_mode \<Rightarrow> aps_address \<Rightarrow> apsde_request \<Rightarrow> bytes \<Rightarrow> aps_result aps_act" where
  "transfer_single E R A mode dst rq payload =
     act_bind get_aps_counter (\<lambda>counter.
     act_bind (aps_send_data E A mode dst rq payload None counter) (\<lambda>r. case r of
       Inl e \<Rightarrow> act_return (Inl e)
     | Inr _ \<Rightarrow>
         if tx_acknowledged (rq_tx_options rq)
         then act_bind (wait_for_ack E R A mode counter)
           (\<lambda>h. act_return (if h = None then Inl ApsNoAck else Inr ()))
         else act_return (Inr ())))"

definition aps_data_transfer ::
  "env \<Rightarrow> radio \<Rightarrow> aps_codecs \<Rightarrow> nwk_mode \<Rightarrow> aps_address \<Rightarrow> apsde_request \<Rightarrow> aps_result aps_loop" where
  "aps_data_transfer E R A mode dst rq s =
     (case write_with (rq_asdu rq) (replicate MAX_APS_FRAME_SIZE 0, 0) of
        Inl Incomplete \<Rightarrow> Some (Done (Inl ApsTooLong, s))
      | Inl e \<Rightarrow> Some (Done (Inl (ApsByteError e), s))
      | Inr (asdu, len) \<Rightarrow>
          if len \<le> MAX_APS_PAYLOAD_SIZE
          then Some (transfer_single E R A mode dst rq (take len asdu) s)
          else case aps_window_size dst rq s of
              None \<Rightarrow> Some (Done (Inl ApsTooLong, s))
            | Some w \<Rightarrow>
                if tx_acknowledged (rq_tx_options rq) \<and> tx_fragmentation_permitted (rq_tx_options rq)
                then transfer_fragmented E R A mode dst rq (unat w) asdu len s
                else Some (Done (Inl ApsTooLong, s)))"

text \<open>The destinations of a request without an address: those of the matching bindings, in the order in
  which the hash set gives them. A binding to the device itself, or to a device without a known
  network address, is passed over.\<close>

definition binding_matches :: "apsde_request \<Rightarrow> binding \<Rightarrow> bool" where
  "binding_matches rq b \<longleftrightarrow> bd_src_endpoint b = rq_src_endpoint rq \<and> bd_cluster_id b = rq_cluster_id rq"

fun bound_destinations :: "binding list \<Rightarrow> aps_address list aps_act" where
  "bound_destinations [] = act_return []"
| "bound_destinations (b # bs) =
     act_bind (case bd_dst_address b of
         BindGroup a \<Rightarrow> act_return [ApsGroup a]
       | BindDevice e ep \<Rightarrow> act_bind (act_gets (\<lambda>s. get_ext_addr (as_nwk s))) (\<lambda>slf.
           if e = slf then act_return []
           else act_bind (get_short_address (ApsdeExtended e ep)) (\<lambda>a. act_return
             (case a of None \<Rightarrow> [] | Some n \<Rightarrow> [ApsNetwork n ep]))))
       (\<lambda>xs. act_bind (bound_destinations bs) (\<lambda>ys. act_return (xs @ ys)))"

definition aps_data_request ::
  "(binding set \<Rightarrow> binding list) \<Rightarrow> env \<Rightarrow> radio \<Rightarrow> aps_codecs \<Rightarrow> nwk_mode \<Rightarrow> apsde_request \<Rightarrow> aps_result aps_loop" where
  "aps_data_request iter E R A mode rq =
     (case rq_dst_address rq of
        ApsdeNone \<Rightarrow>
          lp_bind (lp_of (act_gets (\<lambda>s. List.filter (binding_matches rq) (iter (as_binding_table s))))) (\<lambda>bs.
          if bs = [] then lp_of (act_return (Inl ApsNoBoundDevice))
          else lp_bind (lp_of (bound_destinations bs)) (each_until_error (\<lambda>d. aps_data_transfer E R A mode d rq)))
      | ApsdeGroup a \<Rightarrow> aps_data_transfer E R A mode (ApsGroup a) rq
      | ApsdeNetwork a ep \<Rightarrow> aps_data_transfer E R A mode (ApsNetwork a ep) rq
      | ApsdeExtended e ep \<Rightarrow>
          lp_bind (lp_of (with_nwk (find_nwk_addr e))) (\<lambda>n. case n of
            None \<Rightarrow> lp_of (act_return (Inl ApsNoShortAddress))
          | Some a \<Rightarrow> aps_data_transfer E R A mode (ApsNetwork a ep) rq))"

section \<open>Reception\<close>

definition aps_decrypt :: "env \<Rightarrow> aps_codecs \<Rightarrow> bytes \<Rightarrow> (sec_error + aps_frame \<times> device_key_pair option) aps_act" where
  "aps_decrypt E A buf s = run_map (\<lambda>r. (r, s))
     (decrypt_aps_frame (ev_crypto E) (ev_wire E) (ev_codecs E) A (nwk_security_level (profile_params (as_nwk s)))
       (as_is_authorized s) (as_device_key_pair_set s) buf)"

definition aps_dst_of :: "data_dst \<Rightarrow> nwk_addr" where
  "aps_dst_of d = (case d of MulticastDst a \<Rightarrow> a | UnicastOrBroadcastDst a \<Rightarrow> a)"

definition handle_data_frame ::
  "env \<Rightarrow> aps_codecs \<Rightarrow> nwk_mode \<Rightarrow> aps_data_frame \<Rightarrow> Nwk_Context.data_indication \<Rightarrow> device_key_pair option \<Rightarrow>
   aps_indication option aps_act" where
  "handle_data_frame E A mode f ind kd =
     (let h = adf_header f;
          status = (if kd \<noteq> None then ApsSecuredLinkKey else if di_security_use ind then ApsSecuredNwkKey else ApsUnsecured)
      in act_bind (act_run (unwrap_run (aph_source_endpoint h))) (\<lambda>src_ep.
         act_bind (with_nwk (find_ext_addr (di_src_address ind))) (\<lambda>e.
         let src = (case e of Some a \<Rightarrow> ApsdeExtended a src_ep | None \<Rightarrow> ApsdeNetwork (di_src_address ind) src_ep) in
         act_bind
           (if afc_ack_request (aph_frame_control h) then
              act_bind (act_run (unwrap_run (aph_cluster_id h))) (\<lambda>c.
              act_bind (act_run (unwrap_run (aph_profile_id h))) (\<lambda>p.
              act_bind (act_run (unwrap_run (aph_destination_endpoint h))) (\<lambda>d.
              act_bind (send_ack E A mode (AckData src_ep c p d) (aph_counter h) (di_src_address ind))
                (\<lambda>_. act_return ()))))
            else act_return ()) (\<lambda>_.
         act_bind (act_run (unwrap_run (aph_destination_endpoint h))) (\<lambda>d.
         act_bind (act_run (unwrap_run (aph_profile_id h))) (\<lambda>p.
         act_bind (act_run (unwrap_run (aph_cluster_id h))) (\<lambda>c.
         act_return (Some (ApsIndData \<lparr> adi_dst = ApsNetwork (aps_dst_of (di_dst_address ind)) d, adi_src = src,
           adi_profile_id = p, adi_cluster_id = c, adi_asdu = adf_payload f, adi_security_status = status,
           adi_link_quality = di_link_quality ind \<rparr>)))))))))"

text \<open>The commands that only a router acts on.\<close>

definition handle_router_aps_command ::
  "nwk_mode \<Rightarrow> nwk_addr \<Rightarrow> aps_command \<Rightarrow> aps_indication option aps_act" where
  "handle_router_aps_command mode src c = (case c of
     CmdRemoveDevice target \<Rightarrow> if mode = JoinedAsRouter then handle_remove_device_command src target else act_return None
   | _ \<Rightarrow> act_return None)"

definition aps_handle_data_indication ::
  "env \<Rightarrow> aps_codecs \<Rightarrow> nwk_mode \<Rightarrow> Nwk_Context.data_indication \<Rightarrow> aps_indication option aps_act" where
  "aps_handle_data_indication E A mode ind =
     act_bind (aps_decrypt E A (di_nsdu ind)) (\<lambda>r. case r of
       Inl _ \<Rightarrow> act_return None
     | Inr (frame, kd) \<Rightarrow> (case frame of
         ApsData d \<Rightarrow> handle_data_frame E A mode d ind kd
       | ApsCommand c \<Rightarrow>
           act_bind (validate_incoming_apsme_command (di_src_address ind) c kd) (\<lambda>ok.
           if \<not> ok then act_return None
           else act_bind (handle_aps_command_common (di_src_address ind) (di_dst_address ind) c) (\<lambda>i.
             if i \<noteq> None then act_return i
             else handle_router_aps_command mode (di_src_address ind) (acf_command c)))
       | ApsAcknowledgement _ \<Rightarrow> act_return None))"

definition handle_indication_common :: "nwk_indication \<Rightarrow> aps_indication option" where
  "handle_indication_common i = (case i of IndLeave (LeaveSelf r) \<Rightarrow> Some (ApsIndLeave (LeaveSelf r)) | _ \<Rightarrow> None)"

definition handle_nwk_indication ::
  "env \<Rightarrow> aps_codecs \<Rightarrow> nwk_mode \<Rightarrow> nwk_indication \<Rightarrow> aps_indication option aps_act" where
  "handle_nwk_indication E A mode i = (case i of
     IndData d \<Rightarrow> aps_handle_data_indication E A mode d
   | _ \<Rightarrow> act_return (handle_indication_common i))"

text \<open>One received frame through both layers, and the loop over the frames: a round of \<open>listen_nwk\<close>
  that gives no indication takes the next frame with the same flag, which only the layers above set.\<close>

definition listen_aps_step ::
  "env \<Rightarrow> radio \<Rightarrow> aps_codecs \<Rightarrow> nwk_mode \<Rightarrow> received_mac_frame \<Rightarrow> aps_indication option aps_act" where
  "listen_aps_step E R A mode rf =
     act_bind (act_gets as_is_authorized) (\<lambda>authorized.
     act_bind (with_nwk (listen_step E R mode authorized rf)) (\<lambda>i. case i of
       None \<Rightarrow> act_return None | Some ind \<Rightarrow> handle_nwk_indication E A mode ind))"

partial_function (option) listen_aps ::
  "(nat \<Rightarrow> env) \<Rightarrow> radio \<Rightarrow> aps_codecs \<Rightarrow> nwk_mode \<Rightarrow> (nat \<Rightarrow> received_mac_frame) \<Rightarrow> nat \<Rightarrow> aps \<Rightarrow>
   (aps_indication \<times> aps) run option" where
  "listen_aps E R A mode rfs n s =
     (case listen_aps_step (E n) R A mode (rfs n) s of
        Panic \<Rightarrow> Some Panic
      | Done (r, s') \<Rightarrow> (case r of Some i \<Rightarrow> Some (Done (i, s')) | None \<Rightarrow> listen_aps E R A mode rfs (Suc n) s'))"

text \<open>\<open>wait_for_indication\<close>: the first indication that is accepted, among the frames before the timeout or
  for as long as it takes.\<close>

fun indication_among ::
  "env \<Rightarrow> radio \<Rightarrow> aps_codecs \<Rightarrow> nwk_mode \<Rightarrow> (aps_indication \<Rightarrow> 't option) \<Rightarrow> received_mac_frame list \<Rightarrow>
   't option aps_act" where
  "indication_among E R A mode eval [] = act_return None"
| "indication_among E R A mode eval (rf # rfs) =
     act_bind (listen_aps_step E R A mode rf) (\<lambda>i. case Option.bind i eval of
       Some x \<Rightarrow> act_return (Some x) | None \<Rightarrow> indication_among E R A mode eval rfs)"

definition wait_for_indication ::
  "env \<Rightarrow> radio \<Rightarrow> aps_codecs \<Rightarrow> nwk_mode \<Rightarrow> (aps_indication \<Rightarrow> 't option) \<Rightarrow> 't option aps_act" where
  "wait_for_indication E R A mode eval s =
     indication_among E R A mode eval (rd_frames R (length (nk_sent (as_nwk s)))) s"

partial_function (option) wait_for_indication_no_timeout ::
  "(nat \<Rightarrow> env) \<Rightarrow> radio \<Rightarrow> aps_codecs \<Rightarrow> nwk_mode \<Rightarrow> (aps_indication \<Rightarrow> 't option) \<Rightarrow>
   (nat \<Rightarrow> received_mac_frame) \<Rightarrow> nat \<Rightarrow> aps \<Rightarrow> ('t \<times> aps) run option" where
  "wait_for_indication_no_timeout E R A mode eval rfs n s =
     (case listen_aps_step (E n) R A mode (rfs n) s of
        Panic \<Rightarrow> Some Panic
      | Done (i, s') \<Rightarrow> (case Option.bind i eval of Some x \<Rightarrow> Some (Done (x, s'))
          | None \<Rightarrow> wait_for_indication_no_timeout E R A mode eval rfs (Suc n) s'))"

section \<open>Sending security commands\<close>

datatype apsme_security_error = CommandValidationError | ApsdeSapError apsde_error

type_synonym aps_security_result = "apsme_security_error + unit"

definition sap_result :: "aps_result aps_act \<Rightarrow> aps_security_result aps_act" where
  "sap_result m = act_bind m (\<lambda>r. act_return (map_sum ApsdeSapError id r))"

definition send_apsme_security_command ::
  "env \<Rightarrow> aps_codecs \<Rightarrow> nwk_mode \<Rightarrow> ext_addr \<Rightarrow> aps_command \<Rightarrow> aps_security_result aps_act" where
  "send_apsme_security_command E A mode dest cmd =
     act_bind (with_nwk (find_nwk_addr dest)) (\<lambda>n. case n of
       None \<Rightarrow> act_return (Inl (ApsdeSapError ApsNoShortAddress))
     | Some a \<Rightarrow> sap_result (aps_cmd_transfer E A mode (aps_command_frame_new a cmd) a SECURE_CMD))"

definition transport_key_command :: "ext_addr \<Rightarrow> ext_addr \<Rightarrow> transport_key_data \<Rightarrow> key_descriptor \<times> ext_addr" where
  "transport_key_command slf dst data = (case data of
     NetworkKeyData d \<Rightarrow> (StandardNetworkKey \<lparr> nkd_key = nkt_key d, nkd_sequence_number = nkt_key_sequence d,
         nkd_destination_address = dst, nkd_source_address = slf \<rparr>,
       case nkt_parent_address d of Some p \<Rightarrow> p | None \<Rightarrow> dst)
   | ApplicationKeyData d \<Rightarrow> (ApplicationLinkKey \<lparr> akd_key = akt_key d, akd_partner_address = akt_partner_address d,
         akd_initiation_flag = False \<rparr>, dst)
   | TrustCenterKeyData k \<Rightarrow> (TrustCenterLinkKey \<lparr> tkd_key = k, tkd_destination_address = dst,
         tkd_source_address = slf \<rparr>, dst))"

definition transport_key ::
  "env \<Rightarrow> aps_codecs \<Rightarrow> nwk_mode \<Rightarrow> ext_addr \<Rightarrow> transport_key_data \<Rightarrow> aps_security_result aps_act" where
  "transport_key E A mode dst data =
     act_bind (act_gets (\<lambda>s. transport_key_command (get_ext_addr (as_nwk s)) dst data)) (\<lambda>(desc, dest).
     send_apsme_security_command E A mode dest (CmdTransportKey desc))"

definition aps_update_device ::
  "env \<Rightarrow> aps_codecs \<Rightarrow> nwk_mode \<Rightarrow> ext_addr \<Rightarrow> update_device \<Rightarrow> aps_security_result aps_act" where
  "aps_update_device E A mode dst req = send_apsme_security_command E A mode dst (CmdUpdateDevice req)"

definition aps_remove_device ::
  "env \<Rightarrow> aps_codecs \<Rightarrow> nwk_mode \<Rightarrow> ext_addr \<Rightarrow> ext_addr \<Rightarrow> aps_security_result aps_act" where
  "aps_remove_device E A mode parent target = send_apsme_security_command E A mode parent (CmdRemoveDevice target)"

definition aps_request_key ::
  "env \<Rightarrow> aps_codecs \<Rightarrow> nwk_mode \<Rightarrow> ext_addr \<Rightarrow> request_key_type \<Rightarrow> aps_security_result aps_act" where
  "aps_request_key E A mode dest kt = send_apsme_security_command E A mode dest (CmdRequestKey kt)"

definition switch_key :: "env \<Rightarrow> aps_codecs \<Rightarrow> nwk_mode \<Rightarrow> ext_addr \<Rightarrow> u8 \<Rightarrow> aps_security_result aps_act" where
  "switch_key E A mode dest seq =
     (if dest \<noteq> - 1 then send_apsme_security_command E A mode dest (CmdSwitchKey seq)
      else sap_result (aps_cmd_transfer E A mode (aps_command_frame_new 0xfffd (CmdSwitchKey seq)) 0xfffd
        tx_options_default))"

definition verify_key :: "env \<Rightarrow> aps_codecs \<Rightarrow> nwk_mode \<Rightarrow> aps_security_result aps_act" where
  "verify_key E A mode =
     act_bind (act_gets get_tc_addr) (\<lambda>t. case t of
       None \<Rightarrow> act_return (Inl CommandValidationError)
     | Some tc \<Rightarrow>
         act_bind (act_gets (\<lambda>s. find (\<lambda>k. dk_device_address k = tc) (as_device_key_pair_set s))) (\<lambda>kp. case kp of
           None \<Rightarrow> act_return (Inl CommandValidationError)
         | Some k \<Rightarrow>
             act_bind (act_run (hmac (ev_crypto E) (dk_link_key k) [3])) (\<lambda>h. case h of
               Inl _ \<Rightarrow> act_return (Inl CommandValidationError)
             | Inr hash \<Rightarrow>
                 act_bind (act_gets (\<lambda>s. get_ext_addr (as_nwk s))) (\<lambda>slf.
                 act_bind (with_nwk (find_nwk_addr tc)) (\<lambda>n. case n of
                   None \<Rightarrow> act_return (Inl (ApsdeSapError ApsNoShortAddress))
                 | Some a \<Rightarrow> sap_result (aps_cmd_transfer E A mode (aps_command_frame_new a (CmdVerifyKey
                     \<lparr> vk_key_type = TrustCenterLinkKeyType, vk_source_address = slf,
                       vk_initiator_hash_value = hash \<rparr>)) a tx_options_default))))))"

definition confirm_key ::
  "env \<Rightarrow> aps_codecs \<Rightarrow> nwk_mode \<Rightarrow> ext_addr \<Rightarrow> confirm_key_status \<Rightarrow> aps_security_result aps_act" where
  "confirm_key E A mode dest status =
     act_bind (act_gets get_tc_addr) (\<lambda>t. case t of
       None \<Rightarrow> act_return (Inl CommandValidationError)
     | Some _ \<Rightarrow>
         (let cmd = (\<lambda>st. CmdConfirmKey \<lparr> ck_status = st, ck_key_type = TrustCenterLinkKeyType,
                ck_destination_address = dest \<rparr>) in
          act_bind (act_gets (\<lambda>s. find (\<lambda>k. dk_device_address k = dest) (as_device_key_pair_set s))) (\<lambda>kp. case kp of
            None \<Rightarrow> send_apsme_security_command E A mode dest (cmd ConfirmFailure)
          | Some _ \<Rightarrow> act_then
              (act_modify (\<lambda>s. s\<lparr> as_device_key_pair_set := update_first (\<lambda>k. dk_device_address k = dest)
                 (dk_incoming_frame_counter_update (\<lambda>_. 0)) (as_device_key_pair_set s) \<rparr>))
              (send_apsme_security_command E A mode dest (cmd status)))))"

end
