(* ===== verification/Aps_Delivery.thy ===== *)
theory Aps_Delivery
  imports Aps_Data
begin

text \<open>
  What the application support sublayer delivers: frames that are encrypted under a link key are
  decrypted by a receiver with the same key, messages arrive with their payload and addressing, and
  what the counters of the link keys, the windows of fragments and unexpected frames do.
\<close>

section \<open>What a frame consists of\<close>

definition aps_body :: "aps_frame \<Rightarrow> bytes \<Rightarrow> bytes" where
  "aps_body f eb = (case f of ApsData d \<Rightarrow> adf_payload d | ApsCommand _ \<Rightarrow> eb | ApsAcknowledgement _ \<Rightarrow> [])"

definition aps_body_law :: "aps_codecs \<Rightarrow> aps_frame \<Rightarrow> bytes \<Rightarrow> bool" where
  "aps_body_law A f eb \<longleftrightarrow> (case f of
     ApsCommand c \<Rightarrow> codec_law (ac_write_command A) (ac_read_command A) (acf_command c) eb | _ \<Rightarrow> True)"

definition aps_type_ok :: "aps_frame \<Rightarrow> bool" where
  "aps_type_ok f \<longleftrightarrow> afc_frame_type (aph_frame_control (aps_frame_header f)) =
     (case f of ApsData _ \<Rightarrow> ApsDataType | ApsCommand _ \<Rightarrow> ApsCommandType | ApsAcknowledgement _ \<Rightarrow> ApsAckType)"

definition secured_frame :: "aps_frame \<Rightarrow> aps_frame" where "secured_frame = map_aps_header secured_header"

lemma secured_frame_simps [simp]:
  "aps_body (secured_frame f) eb = aps_body f eb" "aps_body_law A (secured_frame f) eb = aps_body_law A f eb"
  "aps_type_ok (secured_frame f) = aps_type_ok f" "aps_frame_key C (secured_frame f) k = aps_frame_key C f k"
  "afc_security (aph_frame_control (aps_frame_header (secured_frame f)))"
  by (cases f; simp add: secured_frame_def aps_body_def aps_body_law_def aps_type_ok_def aps_frame_key_def
      secured_header_def Let_def)+

lemma aps_from_payload_body:
  assumes "aps_type_ok f" and "aps_body_law A f eb"
  shows "aps_from_payload A (aps_frame_header f) (aps_body f eb) = Done (Inr f)"
proof (cases f)
  case (ApsCommand c)
  with assms(2) have "codec_law (ac_write_command A) (ac_read_command A) (acf_command c) eb"
    by (simp add: aps_body_law_def)
  from codec_law_read [OF this, of "[]" "[]"] ApsCommand assms(1) show ?thesis
    by (simp add: aps_from_payload_def aps_type_ok_def aps_body_def)
qed (use assms in \<open>simp_all add: aps_from_payload_def aps_type_ok_def aps_body_def\<close>)

lemma write_aps_frame_Inr:
  assumes "write_aps_frame A f (replicate n 0) = Inr (bs, k)"
    and "codec_law (ac_write_header A) (ac_read_header A) (aps_frame_header f) eh" and "aps_body_law A f eb"
  shows "take k bs = eh @ aps_body f eb"
proof -
  note [simp del] = write_with.simps
  let ?h = "write_with (ac_write_header A (aps_frame_header f)) (replicate n 0, 0)"
  obtain r where r: "parse_error ?h = Inr r"
    using assms(1) by (cases f; cases ?h) (auto simp: write_aps_frame_def parse_error_def simp del: write_with.simps)
  from write_with_zero [OF zero_writer_codec [OF assms(2)], of "[]", simplified, OF this]
  obtain n1 where r1: "r = (eh @ replicate n1 0, length eh)" .
  with r have h: "?h = Inr (eh @ replicate n1 0, length eh)"
    by (cases ?h) (simp_all add: parse_error_def del: write_with.simps)
  have body: "take k bs = eh @ b"
    if "write_with w (eh @ replicate n1 0, length eh) = Inr (bs, k)" "zero_writer w b" for w b
  proof -
    have "parse_error (write_with w (eh @ replicate n1 0, length eh)) = Inr (bs, k)"
      using that(1) by (simp add: parse_error_def del: write_with.simps)
    from write_with_zero [OF that(2) this]
    obtain n' where "(bs, k) = ((eh @ b) @ replicate n' 0, length (eh @ b))" .
    then show ?thesis by simp
  qed
  show ?thesis
  proof (cases f)
    case (ApsData d)
    with assms(1) h body [OF _ zero_writer_slice] show ?thesis
      by (simp add: write_aps_frame_def aps_body_def del: write_with.simps)
  next
    case (ApsCommand c)
    with assms(3) have "zero_writer (ac_write_command A (acf_command c)) eb"
      by (auto simp: aps_body_law_def intro: zero_writer_codec)
    with ApsCommand assms(1) h body show ?thesis
      by (simp add: write_aps_frame_def aps_body_def del: write_with.simps)
  next
    case (ApsAcknowledgement x)
    with assms(1) h show ?thesis by (auto simp: write_aps_frame_def aps_body_def simp del: write_with.simps)
  qed
qed

section \<open>Encryption and decryption\<close>

definition nonce_extended :: "tx_options \<Rightarrow> aps_frame \<Rightarrow> bool" where
  "nonce_extended opts f \<longleftrightarrow> tx_include_extended_nonce opts \<or> (case f of ApsCommand _ \<Rightarrow> True | _ \<Rightarrow> False)"

lemma nonce_extended_secured [simp]: "nonce_extended opts (secured_frame f) = nonce_extended opts f"
  by (cases f) (simp_all add: nonce_extended_def secured_frame_def)

lemma written_command:
  assumes "codec_law wr rd c eb" and "parse_error (write_with (wr c) (replicate n 0, 0)) = Inr (bs, k)"
  shows "take k bs = eb"
proof -
  note [simp del] = write_with.simps
  from assms have "parse_error (write_with (wr c) ([] @ replicate n 0, length [])) = Inr (bs, k)" by simp
  from write_with_zero [OF zero_writer_codec [OF assms(1)] this]
  obtain n' where "(bs, k) = (([] @ eb) @ replicate n' 0, length ([] @ eb))" .
  then show ?thesis by simp
qed

lemma encrypt_aps_frame_Inr:
  assumes "encrypt_aps_frame C W D A level ext f dest opts buf keys = Done (Inr r, keys')"
    and "aps_body_law A f eb"
  obtains kp k kid where "find (encryption_key_for dest) keys = Some kp"
    and "aps_frame_key C f (dk_link_key kp) = Done (Inr (k, kid))" and "dk_outgoing_frame_counter kp \<noteq> - 1"
    and "write_and_encrypt_in_place C W level buf
      (cd_write_aux D (aps_aux_header level kid (nonce_extended opts f) ext (dk_outgoing_frame_counter kp)))
      (aps_aux_header level kid (nonce_extended opts f) ext (dk_outgoing_frame_counter kp)) k
      (ac_write_header A (aps_frame_header (secured_frame f))) (write_slice (aps_body f eb)) = Done (Inr r)"
    and "keys' = update_first (encryption_key_for dest) bump_link_key keys"
proof -
  note [simp del] = write_with.simps
  have key: "aps_frame_key C (map_aps_header secured_header f) = aps_frame_key C f"
    using secured_frame_simps(4) by (auto simp: secured_frame_def)
  from assms(1) obtain kp where kp: "find (encryption_key_for dest) keys = Some kp"
    by (auto simp: encrypt_aps_frame_def Let_def split: option.splits)
  from assms(1) kp obtain rk where rk: "aps_frame_key C f (dk_link_key kp) = Done rk"
    by (cases "aps_frame_key C f (dk_link_key kp)") (simp_all add: encrypt_aps_frame_def Let_def key)
  from assms(1) kp rk obtain k kid where kk: "rk = Inr (k, kid)"
    by (cases rk) (auto simp: encrypt_aps_frame_def Let_def key)
  with assms(1) kp rk have counter: "dk_outgoing_frame_counter kp \<noteq> - 1"
    by (auto simp: encrypt_aps_frame_def Let_def key)
  have sum: "run_map (\<lambda>r. case r of Inl e \<Rightarrow> (Inl e, keys) | Inr x \<Rightarrow> (Inr x, kk')) m = Done (Inr r, keys') \<longleftrightarrow>
      m = Done (Inr r) \<and> keys' = kk'" for m kk'
  proof (cases m)
    case (Done x)
    then show ?thesis by (cases x) auto
  qed simp
  note enc = assms(1) [unfolded encrypt_aps_frame_def Let_def key kp option.case rk kk run_bind.simps sum.case prod.case]
  show thesis
  proof (cases f)
    case (ApsData d)
    with enc counter show thesis
      by (intro that [OF kp rk [unfolded kk] counter])
        (simp_all add: sum nonce_extended_def secured_frame_def aps_body_def)
  next
    case (ApsCommand c)
    with assms(2) have law: "codec_law (ac_write_command A) (ac_read_command A) (acf_command c) eb"
      by (simp add: aps_body_law_def)
    from ApsCommand enc counter obtain bs n where
      w: "parse_error (write_with (ac_write_command A (acf_command c)) (replicate MAX_APS_PAYLOAD_SIZE 0, 0)) = Inr (bs, n)"
      by (cases "parse_error (write_with (ac_write_command A (acf_command c)) (replicate MAX_APS_PAYLOAD_SIZE 0, 0))")
        auto
    with ApsCommand enc counter written_command [OF law w] show thesis
      by (intro that [OF kp rk [unfolded kk] counter])
        (simp_all add: sum nonce_extended_def secured_frame_def aps_body_def)
  qed (use enc counter in simp)
qed

lemma map_sum_Inr_iff: "Inr y = map_sum id f r \<longleftrightarrow> (\<exists>x. r = Inr x \<and> y = f x)"
  by (cases r) auto

lemma aps_keys_agree: "aps_frame_key C f lk = Done (Inr (k, kid)) \<Longrightarrow> aps_decryption_key C kid lk = Done (Inr k)"
  by (cases f) (auto simp: aps_frame_key_def aps_decryption_key_def run_simps Let_def map_sum_Inr_iff
      split: aps_command.splits key_descriptor.splits)


lemma open_written:
  assumes hdr: "codec_law (ac_write_header A) (ac_read_header A) (aps_frame_header f) eh"
      "afc_security (aph_frame_control (aps_frame_header f))"
    and body: "aps_type_ok f" "aps_body_law A f eb"
    and aux: "aux_law D aux ea" "sc_security_level (ah_security_control aux) = level"
      "ah_frame_counter aux \<noteq> - 1" "ah_source_address aux = Some ext"
    and key: "find (decryption_key_for authorized ext) rkeys = Some rk"
      "aps_decryption_key C (sc_key_identifier (ah_security_control aux)) (dk_link_key rk) = Done (Inr k)"
      "dk_link_key_type rk = UniqueLinkKey \<Longrightarrow> dk_incoming_frame_counter rk \<le> ah_frame_counter aux"
    and nonce: "create_nonce W aux = Done (Inr nonce)"
    and ct: "length ct = length (aps_body f eb) + mic_length level"
      "decrypt_in_place C k (eh @ ea) (take (length (aps_body f eb)) ct) (drop (length (aps_body f eb)) ct) nonce =
        Inr (aps_body f eb)"
  shows "decrypt_aps_frame C W D A level authorized rkeys (eh @ (hd ea AND 0xf8) # tl ea @ ct) = Done (Inr (f, Some rk))"
proof -
  let ?a = "(hd ea AND 0xf8) # tl ea"
  have "ac_read_header A (eh @ ?a @ ct) = Inr (aps_frame_header f, length eh)"
    using hdr(1) by (simp only: codec_law_def)
  moreover from aux(1) have "cd_read_aux D (?a @ ct) = Inr (clear_level aux, length ea)"
    by (simp add: aux_law_def)
  moreover have "set_level level (clear_level aux) = aux"
    using aux(2) by (simp add: clear_level_def set_level_def)
  moreover have "write_with (cd_write_aux D aux) (eh @ ?a @ ct, length eh) =
      Inr (eh @ ea @ ct, length eh + length ea)"
    using aux(1) by (simp add: aux_law_def)
  moreover have "ah_frame_counter (clear_level aux) = ah_frame_counter aux"
    "ah_source_address (clear_level aux) = ah_source_address aux"
    "sc_key_identifier (ah_security_control (clear_level aux)) = sc_key_identifier (ah_security_control aux)"
    by (simp_all add: clear_level_def)
  ultimately show ?thesis
    using hdr(2) aux(3-) key nonce ct aps_from_payload_body [OF body]
    by (auto simp: decrypt_aps_frame_def open_aps_frame_def parse_error_def Let_def not_less)
qed

text \<open>A frame that was encrypted into a zeroed buffer is decrypted by a receiver with the same link key
  for the sender, whose incoming counter is not ahead or whose key is global.\<close>

lemma encrypt_decrypt_aps_frame:
  assumes C: "crypto_ok C"
    and hdr: "codec_law (ac_write_header A) (ac_read_header A) (aps_frame_header (secured_frame f)) eh"
    and body: "aps_body_law A f eb" "aps_type_ok f"
    and kp: "find (encryption_key_for dest) keys = Some kp"
    and aux: "\<And>k kid. aps_frame_key C f (dk_link_key kp) = Done (Inr (k, kid)) \<Longrightarrow>
      aux_law D (aps_aux_header level kid True ext (dk_outgoing_frame_counter kp)) ea"
    and ext: "nonce_extended opts f"
    and enc: "encrypt_aps_frame C W D A level ext f dest opts (replicate n 0) keys = Done (Inr (bs, len), keys')"
    and rk: "find (decryption_key_for authorized ext) rkeys = Some rk" "dk_link_key rk = dk_link_key kp"
      "dk_link_key_type rk = UniqueLinkKey \<Longrightarrow> dk_incoming_frame_counter rk \<le> dk_outgoing_frame_counter kp"
  shows "decrypt_aps_frame C W D A level authorized rkeys (take len bs) = Done (Inr (secured_frame f, Some rk))"
proof -
  obtain k kid where k: "aps_frame_key C f (dk_link_key kp) = Done (Inr (k, kid))" and
    counter: "dk_outgoing_frame_counter kp \<noteq> - 1" and
    we: "write_and_encrypt_in_place C W level (replicate n 0)
      (cd_write_aux D (aps_aux_header level kid True ext (dk_outgoing_frame_counter kp)))
      (aps_aux_header level kid True ext (dk_outgoing_frame_counter kp)) k
      (ac_write_header A (aps_frame_header (secured_frame f))) (write_slice (aps_body f eb)) = Done (Inr (bs, len))"
  proof (rule encrypt_aps_frame_Inr [OF enc body(1)])
    fix kp' k kid
    assume "find (encryption_key_for dest) keys = Some kp'"
    with kp have eq: "kp' = kp" by simp
    assume "aps_frame_key C f (dk_link_key kp') = Done (Inr (k, kid))" "dk_outgoing_frame_counter kp' \<noteq> - 1"
      "write_and_encrypt_in_place C W level (replicate n 0)
        (cd_write_aux D (aps_aux_header level kid (nonce_extended opts f) ext (dk_outgoing_frame_counter kp')))
        (aps_aux_header level kid (nonce_extended opts f) ext (dk_outgoing_frame_counter kp')) k
        (ac_write_header A (aps_frame_header (secured_frame f))) (write_slice (aps_body f eb)) = Done (Inr (bs, len))"
    then show thesis unfolding eq eqTrueI [OF ext] by (rule that)
  qed
  let ?aux = "aps_aux_header level kid True ext (dk_outgoing_frame_counter kp)"
  note aux = aux [OF k]
  from aux have ea: "zero_writer (cd_write_aux D ?aux) ea" "ea \<noteq> []"
    by (simp_all add: aux_law_def)
  from write_and_encrypt_shape [OF zero_writer_codec [OF hdr] ea(1) zero_writer_slice ea(2) C we]
  obtain nonce ct where nonce: "create_nonce W ?aux = Done (Inr nonce)" and
    ct: "encrypt_in_place C k level (eh @ ea)
      (aps_body f eb @ replicate (mic_length level) 0) nonce = Done (Inr ct)" and
    bs: "take len bs = eh @ (hd ea AND 0xf8) # tl ea @ ct" .
  have key: "aps_decryption_key C (sc_key_identifier (ah_security_control ?aux)) (dk_link_key rk) = Done (Inr k)"
    using aps_keys_agree [OF k] rk(2) by (simp add: aps_aux_header_def)
  have facts: "aps_type_ok (secured_frame f)" "aps_body_law A (secured_frame f) eb"
    "sc_security_level (ah_security_control ?aux) = level" "ah_frame_counter ?aux \<noteq> - 1"
    "ah_source_address ?aux = Some ext"
    "dk_link_key_type rk = UniqueLinkKey \<Longrightarrow> dk_incoming_frame_counter rk \<le> ah_frame_counter ?aux"
    using body counter rk(3) by (simp_all add: aps_aux_header_def)
  from encrypt_decrypt [OF C ct length_replicate] have dec: "length ct = length (aps_body (secured_frame f) eb) + mic_length level"
    "decrypt_in_place C k (eh @ ea) (take (length (aps_body (secured_frame f) eb)) ct)
       (drop (length (aps_body (secured_frame f) eb)) ct) nonce = Inr (aps_body (secured_frame f) eb)"
    unfolding secured_frame_simps by blast+
  show ?thesis unfolding bs
    by (rule open_written [OF hdr secured_frame_simps(5) facts(1,2) aux facts(3,4,5) rk(1) key facts(6) nonce dec])
qed

section \<open>Messages\<close>

lemma decrypt_plain_aps:
  assumes "codec_law (ac_write_header A) (ac_read_header A) (aps_frame_header f) eh"
    and "\<not> afc_security (aph_frame_control (aps_frame_header f))"
    and "aps_type_ok f" and "aps_body_law A f eb" and "mic_length level \<le> length eh + length (aps_body f eb)"
  shows "decrypt_aps_frame C W D A level authorized keys (eh @ aps_body f eb) = Done (Inr (f, None))"
proof -
  have "ac_read_header A (eh @ aps_body f eb) = Inr (aps_frame_header f, length eh)"
    using assms(1) by (simp only: codec_law_def)
  with assms(2,5) aps_from_payload_body [OF assms(3,4)] show ?thesis
    by (simp add: decrypt_aps_frame_def parse_error_def)
qed

text \<open>The frame of a message, and what reaches the receiver.\<close>

definition message_frame :: "aps_address \<Rightarrow> apsde_request \<Rightarrow> bytes \<Rightarrow> u8 \<Rightarrow> aps_frame" where
  "message_frame dst rq p c = map_aps_header (set_aps_counter c) (ApsData (aps_data_frame_new (data_init dst rq p None)))"

definition on_air :: "tx_options \<Rightarrow> aps_frame \<Rightarrow> aps_frame" where
  "on_air opts f = (if tx_security_enabled opts then secured_frame f else f)"

definition received_header :: "aps_address \<Rightarrow> apsde_request \<Rightarrow> u8 \<Rightarrow> aps_header" where
  "received_header dst rq c = aps_frame_header (on_air (rq_tx_options rq) (message_frame dst rq [] c))"

lemma message_frame_data: "on_air (rq_tx_options rq) (message_frame dst rq p c) =
    ApsData \<lparr> adf_header = received_header dst rq c, adf_payload = p \<rparr>"
  by (simp add: message_frame_def on_air_def received_header_def secured_frame_def aps_data_frame_new_def data_init_def)

lemma received_header_simps:
  "aph_source_endpoint (received_header dst rq c) = Some (rq_src_endpoint rq)"
  "aph_cluster_id (received_header dst rq c) = Some (rq_cluster_id rq)"
  "aph_profile_id (received_header dst rq c) = Some (rq_profile_id rq)"
  "aph_destination_endpoint (received_header dst rq c) = get_destination_endpoint dst"
  "aph_counter (received_header dst rq c) = c"
  "afc_ack_request (aph_frame_control (received_header dst rq c)) = tx_acknowledged (rq_tx_options rq)"
  "afc_security (aph_frame_control (received_header dst rq c)) = tx_security_enabled (rq_tx_options rq)"
  "afc_frame_type (aph_frame_control (received_header dst rq c)) = ApsDataType"
  by (simp_all add: received_header_def on_air_def message_frame_def secured_frame_def aps_data_frame_new_def
      data_init_def set_aps_counter_def secured_header_def)

definition delivered_status :: "tx_options \<Rightarrow> bool \<Rightarrow> aps_security_status" where
  "delivered_status opts nwk_secured = (if tx_security_enabled opts then ApsSecuredLinkKey
     else if nwk_secured then ApsSecuredNwkKey else ApsUnsecured)"

lemma handle_message:
  assumes "find_ext_addr (di_src_address ind) (as_nwk r) = Done (e, as_nwk r)"
    and "kd \<noteq> None \<longleftrightarrow> tx_security_enabled (rq_tx_options rq)"
  shows "case dst of
      ApsGroup _ \<Rightarrow> handle_data_frame E A mode \<lparr> adf_header = received_header dst rq c, adf_payload = p \<rparr> ind kd r = Panic
    | ApsNetwork a ep \<Rightarrow>
        (case handle_data_frame E A mode \<lparr> adf_header = received_header dst rq c, adf_payload = p \<rparr> ind kd r of
           Panic \<Rightarrow> tx_acknowledged (rq_tx_options rq)
         | Done (i, r') \<Rightarrow> i = Some (ApsIndData \<lparr> adi_dst = ApsNetwork (aps_dst_of (di_dst_address ind)) ep,
             adi_src = (case e of Some x \<Rightarrow> ApsdeExtended x (rq_src_endpoint rq)
               | None \<Rightarrow> ApsdeNetwork (di_src_address ind) (rq_src_endpoint rq)),
             adi_profile_id = rq_profile_id rq, adi_cluster_id = rq_cluster_id rq, adi_asdu = p,
             adi_security_status = delivered_status (rq_tx_options rq) (di_security_use ind),
             adi_link_quality = di_link_quality ind \<rparr>) \<and>
             (\<not> tx_acknowledged (rq_tx_options rq) \<longrightarrow> r' = r))"
proof -
  note [simp] = handle_data_frame_def received_header_simps act_bind_def act_run_def unwrap_run_def
    with_nwk_def assms(1) act_return_def get_destination_endpoint_def Let_def delivered_status_def
  show ?thesis
  proof (cases dst)
    case (ApsNetwork a ep)
    with assms(2) show ?thesis
      by (auto simp: run_simps split: run.splits)
  qed simp
qed

text \<open>The two devices share the link key that the sender uses for the destination: the receiver finds it
  under the sender's extended address (or, before it is authorized, as its first global key), and its
  counter is not ahead if the key is unique.\<close>

definition link_agrees :: "codecs \<Rightarrow> nwk_addr \<Rightarrow> aps \<Rightarrow> aps \<Rightarrow> bool" where
  "link_agrees D n s r \<longleftrightarrow> (\<exists>dest kp rk.
     find_ext_addr n (as_nwk s) = Done (Some dest, as_nwk s) \<and>
     find (encryption_key_for dest) (as_device_key_pair_set s) = Some kp \<and>
     find (decryption_key_for (as_is_authorized r) (get_ext_addr (as_nwk s))) (as_device_key_pair_set r) = Some rk \<and>
     dk_link_key rk = dk_link_key kp \<and>
     (dk_link_key_type rk = UniqueLinkKey \<longrightarrow> dk_incoming_frame_counter rk \<le> dk_outgoing_frame_counter kp) \<and>
     (\<exists>ea. aux_law D (aps_aux_header (nwk_security_level (profile_params (as_nwk s))) DataKey True
       (get_ext_addr (as_nwk s)) (dk_outgoing_frame_counter kp)) ea))"

lemma message_bytes_received:
  assumes C: "crypto_ok (ev_crypto E)"
    and law: "codec_law (ac_write_header A) (ac_read_header A) (received_header dst rq c) eh"
    and sent: "aps_frame_bytes E A (message_frame dst rq p c) n (rq_tx_options rq) s = Done (Inr bs, s')"
    and link: "tx_security_enabled (rq_tx_options rq) \<Longrightarrow>
      tx_include_extended_nonce (rq_tx_options rq) \<and> link_agrees (ev_codecs E) n s r"
    and level: "profile_params (as_nwk r) = profile_params (as_nwk s)"
      "mic_length (nwk_security_level (profile_params (as_nwk s))) \<le> length eh + length p"
  obtains kd where "aps_decrypt E A bs r =
      Done (Inr (ApsData \<lparr> adf_header = received_header dst rq c, adf_payload = p \<rparr>, kd), r)"
    and "kd \<noteq> None \<longleftrightarrow> tx_security_enabled (rq_tx_options rq)"
proof -
  let ?f = "message_frame dst rq p c" let ?g = "on_air (rq_tx_options rq) ?f"
  let ?level = "nwk_security_level (profile_params (as_nwk s))"
  have g: "?g = ApsData \<lparr> adf_header = received_header dst rq c, adf_payload = p \<rparr>" by (rule message_frame_data)
  have ok: "aps_type_ok ?f" "aps_body_law A ?f []" "aps_type_ok ?g" "aps_body_law A ?g []" "aps_body ?g [] = p"
    by (simp_all add: message_frame_def on_air_def secured_frame_def aps_type_ok_def aps_body_law_def aps_body_def
        aps_data_frame_new_def data_init_def secured_header_def set_aps_counter_def)
  have law': "codec_law (ac_write_header A) (ac_read_header A) (aps_frame_header ?g) eh"
    using law by (simp add: g)
  show thesis
  proof (cases "tx_security_enabled (rq_tx_options rq)")
    case True
    with link obtain dest kp rk where ext: "tx_include_extended_nonce (rq_tx_options rq)"
      and dest: "find_ext_addr n (as_nwk s) = Done (Some dest, as_nwk s)"
      and kp: "find (encryption_key_for dest) (as_device_key_pair_set s) = Some kp"
      and rk: "find (decryption_key_for (as_is_authorized r) (get_ext_addr (as_nwk s))) (as_device_key_pair_set r) = Some rk"
        "dk_link_key rk = dk_link_key kp"
        "dk_link_key_type rk = UniqueLinkKey \<Longrightarrow> dk_incoming_frame_counter rk \<le> dk_outgoing_frame_counter kp"
      and aux: "\<exists>ea. aux_law (ev_codecs E) (aps_aux_header ?level DataKey True (get_ext_addr (as_nwk s))
        (dk_outgoing_frame_counter kp)) ea"
      unfolding link_agrees_def by blast
    from aux obtain ea where ea: "aux_law (ev_codecs E) (aps_aux_header ?level kid True
        (get_ext_addr (as_nwk s)) (dk_outgoing_frame_counter kp)) ea"
      if "aps_frame_key (ev_crypto E) ?f (dk_link_key kp) = Done (Inr (k, kid))" for k kid
      by (auto simp: aps_frame_key_def message_frame_def)
    let ?enc = "encrypt_aps_frame (ev_crypto E) (ev_wire E) (ev_codecs E) A ?level (get_ext_addr (as_nwk s)) ?f dest
        (rq_tx_options rq) (replicate 127 0) (as_device_key_pair_set s)"
    note unfolded = sent [unfolded aps_frame_bytes_def act_bind_def with_nwk_def dest run_map.simps run_bind.simps
      aps_encrypt_def Let_def if_P [OF True] prod.case option.case]
    from unfolded dest obtain x keys where x: "?enc = Done (x, keys)"
      by (cases ?enc) auto
    from unfolded x dest obtain buf len where enc: "?enc = Done (Inr (buf, len), keys)" and bs: "bs = take len buf"
      by (cases x) (auto simp: act_return_def)
    have "?g = secured_frame ?f" using True by (simp add: on_air_def)
    note encrypt_decrypt_aps_frame [OF C law' [unfolded this] ok(2,1) kp ea _ enc rk, folded bs, folded this]
    moreover have "nonce_extended (rq_tx_options rq) ?f" using ext by (simp add: nonce_extended_def)
    ultimately show thesis using True level(1)
      by (intro that [of "Some rk"]) (simp_all add: aps_decrypt_def g)
  next
    case False
    then have gf: "?g = ?f" by (simp add: on_air_def)
    from sent False obtain buf len where w: "write_aps_frame A ?f (replicate 127 0) = Inr (buf, len)"
      and bs: "bs = take len buf"
      by (auto simp: aps_frame_bytes_def Let_def act_return_def split: sum.splits)
    from write_aps_frame_Inr [OF w law' [unfolded gf] ok(2)] ok(5) gf bs have "bs = eh @ aps_body ?g []" by simp
    moreover have "\<not> afc_security (aph_frame_control (aps_frame_header ?g))"
      using False by (simp add: g received_header_simps)
    from decrypt_plain_aps [OF law' this ok(3,4), of ?level] level(2) ok(5)
    have "decrypt_aps_frame (ev_crypto E) (ev_wire E) (ev_codecs E) A ?level (as_is_authorized r)
        (as_device_key_pair_set r) (eh @ aps_body ?g []) = Done (Inr (?g, None))" by simp
    ultimately show thesis using False level(1)
      by (intro that [of None]) (simp_all add: aps_decrypt_def g)
  qed
qed

text \<open>C22. A message arrives: the bytes that a device builds for a message, secured or not, give a receiver
  that shares the link key the indication with the same payload, cluster, profile and endpoints; the
  receiver can only panic while it sends the acknowledgement. A message to a group makes every receiver
  panic.\<close>
theorem aps_message_delivered:
  assumes "crypto_ok (ev_crypto E)"
    and "codec_law (ac_write_header A) (ac_read_header A) (received_header dst rq c) eh"
    and "aps_frame_bytes E A (message_frame dst rq p c) n (rq_tx_options rq) s = Done (Inr (di_nsdu ind), s')"
    and "tx_security_enabled (rq_tx_options rq) \<Longrightarrow>
      tx_include_extended_nonce (rq_tx_options rq) \<and> link_agrees (ev_codecs E) n s r"
    and "profile_params (as_nwk r) = profile_params (as_nwk s)"
      "mic_length (nwk_security_level (profile_params (as_nwk s))) \<le> length eh + length p"
    and "find_ext_addr (di_src_address ind) (as_nwk r) = Done (e, as_nwk r)"
  shows "case dst of
      ApsGroup _ \<Rightarrow> aps_handle_data_indication E A mode ind r = Panic
    | ApsNetwork a ep \<Rightarrow>
        (case aps_handle_data_indication E A mode ind r of
           Panic \<Rightarrow> tx_acknowledged (rq_tx_options rq)
         | Done (i, r') \<Rightarrow> i = Some (ApsIndData \<lparr> adi_dst = ApsNetwork (aps_dst_of (di_dst_address ind)) ep,
             adi_src = (case e of Some x \<Rightarrow> ApsdeExtended x (rq_src_endpoint rq)
               | None \<Rightarrow> ApsdeNetwork (di_src_address ind) (rq_src_endpoint rq)),
             adi_profile_id = rq_profile_id rq, adi_cluster_id = rq_cluster_id rq, adi_asdu = p,
             adi_security_status = delivered_status (rq_tx_options rq) (di_security_use ind),
             adi_link_quality = di_link_quality ind \<rparr>) \<and>
             (\<not> tx_acknowledged (rq_tx_options rq) \<longrightarrow> r' = r))"
proof -
  from message_bytes_received [OF assms(1-6)] obtain kd where
    "aps_decrypt E A (di_nsdu ind) r =
      Done (Inr (ApsData \<lparr> adf_header = received_header dst rq c, adf_payload = p \<rparr>, kd), r)"
    and kd: "kd \<noteq> None \<longleftrightarrow> tx_security_enabled (rq_tx_options rq)" by blast
  then have eq: "aps_handle_data_indication E A mode ind r =
      handle_data_frame E A mode \<lparr> adf_header = received_header dst rq c, adf_payload = p \<rparr> ind kd r"
    by (simp add: aps_handle_data_indication_def act_bind_def)
  show ?thesis unfolding eq by (rule handle_message [OF assms(7) kd])
qed

section \<open>Witnesses\<close>

definition link_key_std :: device_key_pair where
  "link_key_std = \<lparr> dk_device_address = 5, dk_key_attributes = VerifiedKey, dk_link_key = replicate 16 1,
     dk_outgoing_frame_counter = 5, dk_incoming_frame_counter = 3, dk_link_key_type = UniqueLinkKey \<rparr>"

text \<open>A device with the extended address 9 that knows the one of address 0.\<close>

definition aps_std :: aps where
  "aps_std = \<lparr> as_nwk = nwk_std\<lparr> nk_ctx := (nk_ctx nwk_std)\<lparr> cx_addr_map := [(0, 5)] \<rparr> \<rparr>, as_counter = 0,
     as_binding_table = {}, as_group_table = [], as_max_window_size = [], as_device_key_pair_set = [link_key_std],
     as_security_network_params = Centralized 5, as_is_authorized = True \<rparr>"

definition aps_codecs_std :: "aps_header \<Rightarrow> aps_command \<Rightarrow> aps_codecs" where
  "aps_codecs_std h c = \<lparr> ac_write_header = (\<lambda>_. write_slice [0x40, 1, 2, 3]), ac_read_header = (\<lambda>_. Inr (h, 4)),
     ac_write_command = (\<lambda>_. write_slice [8]), ac_read_command = (\<lambda>_. Inr (c, 1)) \<rparr>"

definition aps_env_std :: env where
  "aps_env_std = env_std\<lparr> ev_codecs := codecs_std\<lparr>
     cd_read_aux := (\<lambda>_. Inr (clear_level (aps_aux_header EncMic32 DataKey True 9 5), 1)) \<rparr> \<rparr>"

lemma aps_std_simps:
  "find_ext_addr 0 (as_nwk aps_std) = Done (Some 5, as_nwk aps_std)"
  "find_ext_addr 0x1001 (as_nwk aps_std) = Done (Some 9, as_nwk aps_std)"
  "as_device_key_pair_set aps_std = [link_key_std]" "as_is_authorized aps_std"
  "as_security_network_params aps_std = Centralized 5" "get_ext_addr (as_nwk aps_std) = 9"
  "profile_params (as_nwk aps_std) = profile_params nwk_std"
  by (simp_all add: aps_std_def find_ext_addr_def get_addr_def unwrap_run_def act_run_def act_bind_def act_gets_def
      am_find_ext_addr_def im_get_def nwk_std_simps nwk_std_simps(3) [unfolded get_ext_addr_def] get_ext_addr_def
      profile_params_def)

lemma aps_aux_std_law: "aux_law (ev_codecs aps_env_std) (aps_aux_header EncMic32 DataKey True 9 5) [0x2d]"
proof -
  let ?aux = "aps_aux_header EncMic32 DataKey True 9 5"
  have "zero_writer (cd_write_aux (ev_codecs aps_env_std) ?aux) [0x2d]"
    unfolding zero_writer_def
  proof
    fix n
    show "if length [0x2d :: u8] \<le> n
      then cd_write_aux (ev_codecs aps_env_std) ?aux (replicate n 0) =
        Inr ([0x2d] @ replicate (n - length [0x2d :: u8]) 0, length [0x2d :: u8])
      else \<exists>err. cd_write_aux (ev_codecs aps_env_std) ?aux (replicate n 0) = Inl err"
      by (cases n) (simp_all add: aps_env_std_def codecs_std_def aps_aux_header_def)
  qed
  then show ?thesis by (simp add: aux_law_def aps_env_std_def codecs_std_def aps_aux_header_def)
qed

definition request_std :: apsde_request where
  "request_std = \<lparr> rq_dst_address = ApsdeNetwork 0 1, rq_profile_id = 0x0104, rq_cluster_id = 6, rq_src_endpoint = 2,
     rq_asdu = write_slice [1, 2, 3], rq_tx_options = SECURE_CMD, rq_alias = None, rq_radius = None \<rparr>"

definition receiver_std :: aps where
  "receiver_std = aps_std\<lparr> as_device_key_pair_set := [link_key_std\<lparr> dk_device_address := 9 \<rparr>] \<rparr>"

lemma link_agrees_std: "link_agrees (ev_codecs aps_env_std) 0 aps_std receiver_std"
  unfolding link_agrees_def
  by (rule exI [of _ 5], rule exI [of _ link_key_std], rule exI [of _ "link_key_std\<lparr> dk_device_address := 9 \<rparr>"])
    (use aps_aux_std_law in \<open>auto simp: aps_std_simps receiver_std_def encryption_key_for_def decryption_key_for_def
      link_key_std_def nwk_std_simps\<close>)

lemma message_std_sent:
  "\<exists>bs s'. aps_frame_bytes aps_env_std (aps_codecs_std (received_header (ApsNetwork 0 1) request_std 7) c)
     (message_frame (ApsNetwork 0 1) request_std [1, 2, 3] 7) 0 SECURE_CMD aps_std = Done (Inr bs, s')"
proof -
  obtain nonce where "create_nonce wire_std (aps_aux_header EncMic32 DataKey True 9 5) = Done (Inr nonce)"
    using create_nonce_ex [OF wire_std_ok, of "aps_aux_header EncMic32 DataKey True 9 5" 9]
    by (auto simp: aps_aux_header_def)
  then have "\<exists>buf len. write_and_encrypt_in_place crypto_std wire_std EncMic32 (replicate 127 0)
      (cd_write_aux (ev_codecs aps_env_std) (aps_aux_header EncMic32 DataKey True 9 5))
      (aps_aux_header EncMic32 DataKey True 9 5) (replicate 16 1)
      (write_slice [0x40, 1, 2, 3]) (write_slice [1, 2, 3]) = Done (Inr (buf, len))"
    by (simp add: write_and_encrypt_in_place_def aps_aux_header_def aps_env_std_def codecs_std_def write_slice_def
        parse_error_def encrypt_in_place_def ccm_encrypt_def crypto_std_def Let_def numeral_eq_Suc)
  then show ?thesis
    by (auto simp: aps_frame_bytes_def SECURE_CMD_def Let_def act_bind_def with_nwk_def aps_std_simps aps_encrypt_def
        encrypt_aps_frame_def encryption_key_for_def link_key_std_def aps_frame_key_def message_frame_def
        aps_data_frame_new_def data_init_def aps_codecs_std_def nwk_std_simps aps_env_std_def env_std_simps
        act_return_def)
qed

theorem aps_message_delivered_witness:
  "\<exists>bs s'. aps_frame_bytes aps_env_std (aps_codecs_std (received_header (ApsNetwork 0 1) request_std 7) (CmdSwitchKey 0))
       (message_frame (ApsNetwork 0 1) request_std [1, 2, 3] 7) 0 SECURE_CMD aps_std = Done (Inr bs, s') \<and>
     (\<exists>di. aps_handle_data_indication aps_env_std
        (aps_codecs_std (received_header (ApsNetwork 0 1) request_std 7) (CmdSwitchKey 0)) JoinedAsEndDevice
        \<lparr> di_dst_address = UnicastOrBroadcastDst 0, di_src_address = 0x1001, di_nsdu = bs, di_link_quality = 200,
           di_security_use = True \<rparr> receiver_std = Done (Some (ApsIndData di), receiver_std) \<and>
        adi_asdu di = [1, 2, 3] \<and> adi_security_status di = ApsSecuredLinkKey \<and> adi_src di = ApsdeExtended 9 2)"
proof -
  let ?A = "aps_codecs_std (received_header (ApsNetwork 0 1) request_std 7) (CmdSwitchKey 0)"
  obtain bs s' where sent: "aps_frame_bytes aps_env_std ?A (message_frame (ApsNetwork 0 1) request_std [1, 2, 3] 7) 0
      SECURE_CMD aps_std = Done (Inr bs, s')" using message_std_sent by blast
  let ?ind = "\<lparr> di_dst_address = UnicastOrBroadcastDst 0, di_src_address = 0x1001, di_nsdu = bs,
    di_link_quality = 200, di_security_use = True \<rparr>"
  have "crypto_ok (ev_crypto aps_env_std)" by (simp add: aps_env_std_def env_std_simps crypto_std_ok)
  moreover have "codec_law (ac_write_header ?A) (ac_read_header ?A) (received_header (ApsNetwork 0 1) request_std 7)
      [0x40, 1, 2, 3]"
    by (auto simp: codec_law_def aps_codecs_std_def write_slice_def)
  moreover have "aps_frame_bytes aps_env_std ?A (message_frame (ApsNetwork 0 1) request_std [1, 2, 3] 7) 0
      (rq_tx_options request_std) aps_std = Done (Inr (di_nsdu ?ind), s')"
    using sent by (simp add: request_std_def)
  moreover have "tx_include_extended_nonce (rq_tx_options request_std) \<and>
      link_agrees (ev_codecs aps_env_std) 0 aps_std receiver_std"
    using link_agrees_std by (simp add: request_std_def SECURE_CMD_def)
  moreover have "profile_params (as_nwk receiver_std) = profile_params (as_nwk aps_std)"
    "mic_length (nwk_security_level (profile_params (as_nwk aps_std))) \<le>
      length [0x40, 1, 2, 3 :: u8] + length [1, 2, 3 :: u8]"
    "find_ext_addr (di_src_address ?ind) (as_nwk receiver_std) = Done (Some 9, as_nwk receiver_std)"
    by (simp_all add: receiver_std_def aps_std_simps nwk_std_simps)
  ultimately show ?thesis
    using sent aps_message_delivered [of aps_env_std ?A "ApsNetwork 0 1" request_std 7 "[0x40, 1, 2, 3]" "[1, 2, 3]" 0
        aps_std ?ind s' receiver_std "Some 9" JoinedAsEndDevice]
    by (auto simp: request_std_def SECURE_CMD_def delivered_status_def split: run.splits)
qed

end
