(* ===== verification/Loops.thy ===== *)
theory Loops
  imports Aps_Data
begin

text \<open>
  Rules for operations that may not end, and for operations on a part of a larger state. The locale
  \<open>state_part\<close> states what a part has to be: it can be read and replaced. It is interpreted for the
  network layer inside the application support sublayer here, and for that sublayer inside a node in
  \<open>Zdp\<close>.
\<close>

section \<open>Loops\<close>

definition returns :: "('s, 'a) loop \<Rightarrow> bool" where
  "returns m \<longleftrightarrow> (\<forall>s. m s \<noteq> None)"

definition lp_keeps :: "('s \<Rightarrow> bool) \<Rightarrow> ('s, 'a) loop \<Rightarrow> bool" where
  "lp_keeps I m \<longleftrightarrow> (\<forall>s x s'. I s \<longrightarrow> m s = Some (Done (x, s')) \<longrightarrow> I s')"

named_theorems loop_rules \<open>rules that show that a loop returns or keeps a property\<close>

lemma lp_bind_of [simp]: "lp_bind (lp_of m) f s = (case m s of Panic \<Rightarrow> Some Panic | Done (x, s') \<Rightarrow> f x s')"
  by (simp add: lp_bind_def lp_of_def split: run.split)

lemma lp_bind_Done: "lp_bind m f s = Some (Done (y, s')) \<longleftrightarrow>
    (\<exists>x s1. m s = Some (Done (x, s1)) \<and> f x s1 = Some (Done (y, s')))"
  by (auto simp: lp_bind_def split: option.splits run.splits)

lemma lp_bindE:
  assumes "lp_bind m f s = Some (Done (y, s'))"
  obtains x s1 where "m s = Some (Done (x, s1))" "f x s1 = Some (Done (y, s'))"
  using assms lp_bind_Done [of m f s y s'] that by blast

lemma lp_of_Done [simp]: "lp_of m s = Some r \<longleftrightarrow> m s = r"
  by (simp add: lp_of_def)

lemma lp_bind_total:
  assumes "\<exists>res. m s = Some res" and "\<And>x s1. m s = Some (Done (x, s1)) \<Longrightarrow> \<exists>res. f x s1 = Some res"
  shows "\<exists>res. lp_bind m f s = Some res"
proof -
  from assms(1) obtain r where "m s = Some r" by blast
  with assms(2) show ?thesis by (cases r) (auto simp: lp_bind_def)
qed

lemma returns_iff: "returns m \<longleftrightarrow> (\<forall>s. \<exists>res. m s = Some res)"
  by (simp add: returns_def)

lemma returns_bind [loop_rules]: "returns m \<Longrightarrow> (\<And>x. returns (f x)) \<Longrightarrow> returns (lp_bind m f)"
  by (simp add: returns_iff lp_bind_total)

lemma returns_of [loop_rules]: "returns (lp_of m)"
  by (simp add: returns_def lp_of_def)

lemma each_until_error_total:
  "(\<And>i s. \<exists>res. f i s = Some res) \<Longrightarrow> \<exists>res. each_until_error f is s = Some res"
proof (induction "is" arbitrary: s)
  case (Cons i "is")
  show ?case
    unfolding each_until_error.simps
    by (rule lp_bind_total) (use Cons in \<open>auto simp: lp_of_def split: sum.split\<close>)
qed (simp add: lp_of_def)

lemma returns_each [loop_rules]: "(\<And>i. returns (f i)) \<Longrightarrow> returns (each_until_error f is)"
  by (simp add: returns_iff each_until_error_total)

lemma lp_keeps_bind [loop_rules]: "lp_keeps I m \<Longrightarrow> (\<And>x. lp_keeps I (f x)) \<Longrightarrow> lp_keeps I (lp_bind m f)"
  unfolding lp_keeps_def lp_bind_Done by blast

lemma lp_keeps_of [loop_rules]: "keeps I m \<Longrightarrow> lp_keeps I (lp_of m)"
  by (simp add: lp_keeps_def keeps_def)

lemma loop_cases [loop_rules]:
  "(b \<Longrightarrow> lp_keeps I m) \<Longrightarrow> (\<not> b \<Longrightarrow> lp_keeps I n) \<Longrightarrow> lp_keeps I (if b then m else n)"
  "(x = None \<Longrightarrow> lp_keeps I m) \<Longrightarrow> (\<And>y. x = Some y \<Longrightarrow> lp_keeps I (f y)) \<Longrightarrow>
     lp_keeps I (case x of None \<Rightarrow> m | Some y \<Rightarrow> f y)"
  "(\<And>e. z = Inl e \<Longrightarrow> lp_keeps I (g e)) \<Longrightarrow> (\<And>y. z = Inr y \<Longrightarrow> lp_keeps I (h y)) \<Longrightarrow>
     lp_keeps I (case z of Inl e \<Rightarrow> g e | Inr y \<Rightarrow> h y)"
  "(b \<Longrightarrow> returns m) \<Longrightarrow> (\<not> b \<Longrightarrow> returns n) \<Longrightarrow> returns (if b then m else n)"
  "(x = None \<Longrightarrow> returns m) \<Longrightarrow> (\<And>y. x = Some y \<Longrightarrow> returns (f y)) \<Longrightarrow>
     returns (case x of None \<Rightarrow> m | Some y \<Rightarrow> f y)"
  "(\<And>e. z = Inl e \<Longrightarrow> returns (g e)) \<Longrightarrow> (\<And>y. z = Inr y \<Longrightarrow> returns (h y)) \<Longrightarrow>
     returns (case z of Inl e \<Rightarrow> g e | Inr y \<Rightarrow> h y)"
  by (auto split: option.split sum.split)

lemma lp_keeps_each [loop_rules]:
  assumes "\<And>i. lp_keeps I (f i)"
  shows "lp_keeps I (each_until_error f is)"
proof (induction "is")
  case (Cons i "is")
  then show ?case unfolding each_until_error.simps by (intro loop_rules keeps_rules assms)
qed (simp add: lp_keeps_of keeps_basic)

section \<open>A part of the state\<close>

definition act_within :: "('s \<Rightarrow> 't) \<Rightarrow> ('t \<Rightarrow> 's \<Rightarrow> 's) \<Rightarrow> ('t, 'a) action \<Rightarrow> ('s, 'a) action" where
  "act_within get put m s = run_map (\<lambda>(x, t). (x, put t s)) (m (get s))"

definition lp_within :: "('s \<Rightarrow> 't) \<Rightarrow> ('t \<Rightarrow> 's \<Rightarrow> 's) \<Rightarrow> ('t, 'a) loop \<Rightarrow> ('s, 'a) loop" where
  "lp_within get put m s = map_option (run_map (\<lambda>(x, t). (x, put t s))) (m (get s))"

locale state_part =
  fixes get :: "'s \<Rightarrow> 't" and put :: "'t \<Rightarrow> 's \<Rightarrow> 's"
  assumes get_put: "get (put t s) = t"
    and put_put: "put t' (put t s) = put t' s"
    and put_get: "put (get s) s = s"
begin

lemma within_Done:
  "act_within get put m s = Done (x, s') \<longleftrightarrow> (\<exists>t. m (get s) = Done (x, t) \<and> s' = put t s)"
  by (auto simp: act_within_def run_simps)

lemma within_Panic: "act_within get put m s = Panic \<longleftrightarrow> m (get s) = Panic"
  by (cases "m (get s)") (simp_all add: act_within_def)

lemma within_bind:
  "act_within get put (act_bind m f) = act_bind (act_within get put m) (\<lambda>x. act_within get put (f x))"
proof
  fix s
  show "act_within get put (act_bind m f) s = act_bind (act_within get put m) (\<lambda>x. act_within get put (f x)) s"
  proof (cases "m (get s)")
    case (Done p)
    then show ?thesis
      by (cases p; cases "f (fst p) (snd p)") (auto simp: act_within_def act_bind_def get_put put_put)
  qed (simp add: act_within_def act_bind_def)
qed

lemma keeps_part: "keeps P m \<Longrightarrow> keeps (\<lambda>s. P (get s)) (act_within get put m)"
  by (auto simp: keeps_def within_Done get_put)

lemma keeps_rest: "(\<And>t s. Q (put t s) = Q s) \<Longrightarrow> keeps Q (act_within get put m)"
  by (auto simp: keeps_def within_Done)

lemma lp_within_Done:
  "lp_within get put m s = Some (Done (x, s')) \<longleftrightarrow> (\<exists>t. m (get s) = Some (Done (x, t)) \<and> s' = put t s)"
  by (auto simp: lp_within_def run_simps)

lemma lp_keeps_part: "lp_keeps P m \<Longrightarrow> lp_keeps (\<lambda>s. P (get s)) (lp_within get put m)"
  by (auto simp: lp_keeps_def lp_within_Done get_put)

lemma lp_keeps_rest: "(\<And>t s. Q (put t s) = Q s) \<Longrightarrow> lp_keeps Q (lp_within get put m)"
  by (auto simp: lp_keeps_def lp_within_Done)

lemma returns_within: "returns m \<Longrightarrow> returns (lp_within get put m)"
  by (simp add: returns_def lp_within_def)

end

interpretation nwk_part: state_part as_nwk "\<lambda>n s. s\<lparr> as_nwk := n \<rparr>"
  by unfold_locales simp_all

lemma with_nwk_within: "with_nwk m = act_within as_nwk (\<lambda>n s. s\<lparr> as_nwk := n \<rparr>) m"
  by (simp add: with_nwk_def act_within_def fun_eq_iff)

end
