(* ===== verification/Aps_Fragments.thy ===== *)
theory Aps_Fragments
  imports Aps_Delivery Loops
begin

text \<open>
  The transmission of long messages in fragments: when it ends, and which messages it can carry.
\<close>

section \<open>One window\<close>

lemma window_step:
  "retry < MAX_FRAME_RETRIES \<Longrightarrow> window_loop send wait first retry ack s =
     (case send ack s of
        Panic \<Rightarrow> Some Panic
      | Done (Inl e, s1) \<Rightarrow> Some (Done (Inl e, s1))
      | Done (Inr _, s1) \<Rightarrow> (case wait s1 of
          Panic \<Rightarrow> Some Panic
        | Done (h, s2) \<Rightarrow> (case ack_blocks h of
            Some (b, bf) \<Rightarrow> if unat b \<noteq> first \<or> bf \<noteq> - 1 then window_loop send wait first 0 bf s2
              else Some (Done (Inr (), s2))
          | None \<Rightarrow> window_loop send wait first (Suc retry) 0 s2)))"
  by (subst window_loop.simps) simp

lemma window_gives_up: "MAX_FRAME_RETRIES \<le> retry \<Longrightarrow> window_loop send wait first retry ack s = Some (Done (Inl ApsNoAck, s))"
  by (subst window_loop.simps) simp

text \<open>When every acknowledgement completes the window, the loop ends; a run without any ends after three passes.\<close>

lemma window_ends:
  assumes "\<And>s h s'. wait s = Done (h, s') \<Longrightarrow> ack_blocks h = None \<or>
      (\<exists>b. ack_blocks h = Some (b, - 1) \<and> unat b = first)"
  shows "\<exists>res. window_loop send wait first retry ack s = Some res"
proof (induction "MAX_FRAME_RETRIES - retry" arbitrary: retry ack s)
  case 0
  then show ?case by (auto simp: window_gives_up)
next
  case (Suc k)
  then have step: "retry < MAX_FRAME_RETRIES" "k = MAX_FRAME_RETRIES - Suc retry" by simp_all
  show ?case
  proof (cases "send ack s")
    case (Done x)
    obtain r s1 where x: "x = (r, s1)" by fastforce
    show ?thesis
    proof (cases r)
      case (Inr u)
      show ?thesis
      proof (cases "wait s1")
        case W: (Done y)
        obtain h s2 where y: "y = (h, s2)" by fastforce
        from assms(1) [OF W [unfolded y]] show ?thesis
        proof
          assume "ack_blocks h = None"
          with Suc.hyps(1) [OF step(2), of 0 s2] show ?thesis
            by (simp add: window_step [OF step(1)] Done x Inr W y)
        qed (auto simp: window_step [OF step(1)] Done x Inr W y)
      qed (simp add: window_step [OF step(1)] Done x Inr)
    qed (simp add: window_step [OF step(1)] Done x)
  qed (simp add: window_step [OF step(1)])
qed

section \<open>How many frames are sent\<close>

text \<open>An operation that makes the log, as \<open>len\<close> measures it, longer by at most a number that its result
  gives.\<close>

definition sends :: "('s \<Rightarrow> nat) \<Rightarrow> ('a \<Rightarrow> nat) \<Rightarrow> ('s, 'a) action \<Rightarrow> bool" where
  "sends len w m \<longleftrightarrow> (\<forall>s r s'. m s = Done (r, s') \<longrightarrow> len s' \<le> len s + w r)"

abbreviation nwk_log :: "nwk \<Rightarrow> nat" where "nwk_log s \<equiv> length (nk_sent s)"
abbreviation aps_log :: "aps \<Rightarrow> nat" where "aps_log s \<equiv> length (nk_sent (as_nwk s))"

named_theorems sends_rules

lemma sendsI: "(\<And>s r s'. m s = Done (r, s') \<Longrightarrow> len s' \<le> len s + w r) \<Longrightarrow> sends len w m"
  by (simp add: sends_def)

lemma sendsD: "sends len w m \<Longrightarrow> m s = Done (r, s') \<Longrightarrow> len s' \<le> len s + w r"
  by (simp add: sends_def)

lemma sends_return [sends_rules]: "sends len w (act_return x)" "sends len w (act_gets f)" "sends len w act_panic"
  by (auto simp: sends_def act_return_def act_gets_def act_panic_def)

lemma sends_none: "(\<And>s r s'. m s = Done (r, s') \<Longrightarrow> len s' = len s) \<Longrightarrow> sends len w m"
  by (auto intro!: sendsI)

lemma sends_bind [sends_rules]:
  assumes "sends len (\<lambda>_. 0) m" and "\<And>x. sends len w (f x)"
  shows "sends len w (act_bind m f)"
proof (rule sendsI)
  fix s r s'
  assume "act_bind m f s = Done (r, s')"
  then obtain x s1 where "m s = Done (x, s1)" "f x s1 = Done (r, s')" by (rule act_bindE)
  with sendsD [OF assms(1)] sendsD [OF assms(2)] show "len s' \<le> len s + w r" by fastforce
qed

lemma sends_then [sends_rules]: "sends len (\<lambda>_. 0) m \<Longrightarrow> sends len w n \<Longrightarrow> sends len w (act_then m n)"
  by (simp add: act_then_def sends_bind)

lemma sends_map:
  assumes "sends len w m" and "\<And>x. w x \<le> v (g x)"
  shows "sends len v (act_bind m (\<lambda>x. act_return (g x)))"
proof (rule sendsI)
  fix s r s'
  assume "act_bind m (\<lambda>x. act_return (g x)) s = Done (r, s')"
  then obtain x where "m s = Done (x, s')" "r = g x" by (auto simp: act_return_def elim!: act_bindE)
  with sendsD [OF assms(1)] assms(2) [of x] show "len s' \<le> len s + v r" by fastforce
qed

lemma sends_or_else [sends_rules]:
  assumes "sends len (\<lambda>r. case r of None \<Rightarrow> 0 | Some _ \<Rightarrow> Suc 0) m" and "sends len (\<lambda>_. 1) n"
  shows "sends len (\<lambda>_. 1) (or_else m n)"
proof (rule sendsI)
  fix s r s'
  assume "or_else m n s = Done (r, s')"
  then obtain x s1 where "m s = Done (x, s1)" "(case x of Some y \<Rightarrow> act_return y | None \<Rightarrow> n) s1 = Done (r, s')"
    unfolding or_else_def by (rule act_bindE)
  with sendsD [OF assms(1)] sendsD [OF assms(2)] show "len s' \<le> len s + 1"
    by (cases x) (fastforce simp: act_return_def)+
qed

lemma sends_cases [sends_rules]:
  "(b \<Longrightarrow> sends len w m) \<Longrightarrow> (\<not> b \<Longrightarrow> sends len w n) \<Longrightarrow> sends len w (if b then m else n)"
  "(x = None \<Longrightarrow> sends len w m) \<Longrightarrow> (\<And>y. x = Some y \<Longrightarrow> sends len w (f y)) \<Longrightarrow>
     sends len w (case x of None \<Rightarrow> m | Some y \<Rightarrow> f y)"
  "(\<And>e. z = Inl e \<Longrightarrow> sends len w (g e)) \<Longrightarrow> (\<And>y. z = Inr y \<Longrightarrow> sends len w (h y)) \<Longrightarrow>
     sends len w (case z of Inl e \<Rightarrow> g e | Inr y \<Rightarrow> h y)"
  by (auto split: option.split sum.split)

lemma sends_transmit [sends_rules]: "sends nwk_log (\<lambda>_. 1) (transmit_frame E f dst ack)"
  by (rule sendsI) (use link.log_send in fastforce)

lemma sends_one [sends_rules]:
  "sends nwk_log (\<lambda>r. case r of None \<Rightarrow> 0 | Some _ \<Rightarrow> Suc 0) (act_bind (transmit_frame E f dst ack) (\<lambda>r. act_return (Some r)))"
  "sends nwk_log (\<lambda>_. 1) (act_bind (transmit_frame E f dst ack) (\<lambda>r. act_return (r, d)))"
  by (rule sends_map [OF sends_transmit]; simp)+

lemma sends_quiet [sends_rules]:
  "sends nwk_log wu (ctx_update f)" "sends nwk_log wu (btt_update g)" "sends nwk_log wk (route_key a b)"
  "sends nwk_log wu (route_modify k h)" "sends nwk_log wb (route_upsert k h v)" "sends nwk_log wq get_next_seq_number"
  by (auto intro!: sends_none simp: ctx_update_def act_modify_def btt_update_def route_key_def act_gets_def route_modify_def
      get_next_seq_number_def route_upsert_def split: option.splits)

lemma sends_unchanged: "(\<And>v. keeps (\<lambda>s. s = v) m) \<Longrightarrow> sends len w m"
  by (auto intro!: sends_none simp: keeps_def)

lemma sends_reads [sends_rules]:
  "sends nwk_log wa get_addr" "sends nwk_log wa (get_routing_address_for_address a)"
  "sends nwk_log wa (tree_routing_next_hop a)" "sends nwk_log we (find_ext_addr a)" "sends nwk_log wr (route_get k)"
  by (intro sends_unchanged keeps_rules)+

lemma sends_routing [sends_rules]:
  "sends nwk_log (\<lambda>_. 1) (route_unicast_frame E d)" "sends nwk_log (\<lambda>_. 1) (route_multicast_frame E d)"
proof -
  note rules = sends_rules
  have direct: "sends nwk_log (\<lambda>r. case r of None \<Rightarrow> 0 | Some _ \<Rightarrow> Suc 0) (try_unicast_direct_relay E d)"
    unfolding try_unicast_direct_relay_def by (intro rules)
  have tree: "sends nwk_log (\<lambda>r. case r of None \<Rightarrow> 0 | Some _ \<Rightarrow> Suc 0) (try_unicast_tree_routing E d)"
    unfolding try_unicast_tree_routing_def by (intro rules)
  have table: "sends nwk_log (\<lambda>r. case r of None \<Rightarrow> 0 | Some _ \<Rightarrow> Suc 0) (try_unicast_route_table E d)"
    unfolding try_unicast_route_table_def by (intro rules tree)
  have source: "sends nwk_log (\<lambda>r. case r of None \<Rightarrow> 0 | Some _ \<Rightarrow> Suc 0) (try_source_routing E d)"
    unfolding try_source_routing_def by (intro rules) (auto intro!: sends_one sends_return split: bool.splits option.splits)
  show "sends nwk_log (\<lambda>_. 1) (route_unicast_frame E d)"
    unfolding route_unicast_frame_def by (intro rules direct tree table source)
  show "sends nwk_log (\<lambda>_. 1) (route_multicast_frame E d)"
    unfolding route_multicast_frame_def Let_def by (intro rules)
qed

lemma sends_data_frame: "sends nwk_log (\<lambda>_. 1) (transmit_data_frame E mode nsdu c)"
proof -
  have header: "sends nwk_log (\<lambda>_. 0) (nwk_header_new ft sec disc dst di si sr src seq radius)"
    for ft sec disc dst di si sr src seq radius
    by (rule sends_none) (auto simp: nwk_header_new_def act_bind_Done act_gets_def act_run_def run_map_Done_iff get_addr_def
      get_next_seq_number_def act_return_def)
  have build: "sends nwk_log (\<lambda>_. 0) (build_data_frame nsdu c)"
    by (rule sends_none) (auto simp: build_data_frame_def nwk_header_new_def act_bind_Done act_gets_def act_run_def
      run_map_Done_iff get_addr_def get_next_seq_number_def act_return_def split: option.splits prod.splits)
  have first: "sends nwk_log (\<lambda>_. 1) (act_bind (route_multicast_frame E d) (\<lambda>(r, _). act_return r))" for d
    using sends_map [OF sends_routing(2), of "\<lambda>_. 1" fst E d] by (simp add: case_prod_unfold)
  show ?thesis
    unfolding transmit_data_frame_def transmit_data_frame_end_device_def transmit_data_frame_routing_def
    by (intro sends_rules build first)
qed

lemma sends_nwk: "sends nwk_log w m \<Longrightarrow> sends aps_log w (with_nwk m)"
  by (auto simp: sends_def with_nwk_def run_map_Done_iff)

lemma sends_add:
  assumes "sends len (\<lambda>_. a) m" and "\<And>x. sends len (\<lambda>_. b) (f x)"
  shows "sends len (\<lambda>_. a + b) (act_bind m f)"
proof (rule sendsI)
  fix s r s'
  assume "act_bind m f s = Done (r, s')"
  then obtain x s1 where "m s = Done (x, s1)" "f x s1 = Done (r, s')" by (rule act_bindE)
  with sendsD [OF assms(1)] sendsD [OF assms(2)] show "len s' \<le> len s + (a + b)" by fastforce
qed

lemma sends_frame: "sends aps_log (\<lambda>_. 1) (aps_send_data E A mode dst rq payload x counter)"
proof -
  have encrypt: "sends aps_log (\<lambda>_. 0) (aps_encrypt E A f ext opts buf)" for f ext opts buf
    by (rule sends_none) (auto simp: aps_encrypt_def run_map_Done_iff)
  have frame: "sends aps_log (\<lambda>_. 0) (aps_frame_bytes E A f dst opts)" for f dst opts
    unfolding aps_frame_bytes_def Let_def by (intro sends_rules sends_nwk encrypt)
  show ?thesis
    unfolding aps_send_data_def aps_transfer_def Let_def
    by (intro sends_cases sends_return sends_bind [OF frame] sends_map [OF sends_nwk [OF sends_data_frame]]) simp_all
qed

text \<open>A block from the ninth on is never sent, it panics.\<close>

lemma sends_blocks:
  "sends aps_log (\<lambda>_. length (filter (\<lambda>i. i < 8) is)) (send_blocks E A mode dst rq c win first ack is)"
proof (induction "is")
  case (Cons i "is")
  show ?case
  proof (cases "i < 8")
    case True
    let ?n = "length (filter (\<lambda>i. i < 8) is)"
    have "sends aps_log (\<lambda>_. 1 + ?n) (act_bind (aps_send_data E A mode dst rq p x counter)
      (\<lambda>r. case r of Inl e \<Rightarrow> act_return (Inl e) | Inr _ \<Rightarrow> send_blocks E A mode dst rq c win first ack is))" for p x counter
      by (intro sends_add sends_frame sends_cases sends_return Cons)
    moreover have "sends aps_log (\<lambda>_. 1 + ?n) (send_blocks E A mode dst rq c win first ack is)"
      using Cons by (auto simp: sends_def le_Suc_eq)
    moreover have "length (filter (\<lambda>i. i < 8) (i # is)) = 1 + ?n" using True by simp
    ultimately show ?thesis unfolding send_blocks.simps by (auto intro!: sends_cases sends_return)
  qed (simp add: sends_return)
qed (simp add: sends_return)

lemma blocks_below_8: "length (filter (\<lambda>i. i < 8) [0..<n]) \<le> 8"
proof -
  have "length (filter (\<lambda>i. i < 8) [0..<n]) = card (set (filter (\<lambda>i. i < 8) [0..<n]))"
    by (rule distinct_card [symmetric]) simp
  also have "\<dots> \<le> card {0..<8 :: nat}" by (rule card_mono) auto
  finally show ?thesis by simp
qed

text \<open>A window that hears nothing: at most three passes, and never a success.\<close>

lemma silent_window:
  assumes wait: "\<And>s. wait s = Done (None, s)" and send: "\<And>ack. sends aps_log (\<lambda>_. n) (send ack)"
    and "window_loop send wait first retry ack s = Some (Done (r, s'))"
  shows "r \<noteq> Inr () \<and> aps_log s' \<le> aps_log s + (MAX_FRAME_RETRIES - retry) * n"
  using assms(3)
proof (induction "MAX_FRAME_RETRIES - retry" arbitrary: retry ack s)
  case 0
  then show ?case by (auto simp: window_gives_up)
next
  case (Suc k)
  then have step: "retry < MAX_FRAME_RETRIES" "k = MAX_FRAME_RETRIES - Suc retry" by simp_all
  from Suc.prems obtain x s1 where x: "send ack s = Done (x, s1)"
    by (cases "send ack s") (auto simp: window_step [OF step(1)])
  from sendsD [OF send x] have one: "aps_log s1 \<le> aps_log s + n" by simp
  have split: "(MAX_FRAME_RETRIES - retry) * n = n + (MAX_FRAME_RETRIES - Suc retry) * n"
    using step by (metis Suc.hyps(2) mult_Suc)
  show ?case
  proof (cases x)
    case (Inl e)
    with Suc.prems x one split show ?thesis by (auto simp: window_step [OF step(1)])
  next
    case (Inr u)
    with Suc.prems x have "window_loop send wait first (Suc retry) 0 s1 = Some (Done (r, s'))"
      by (simp add: window_step [OF step(1)] wait ack_blocks_def)
    from Suc.hyps(1) [OF step(2) this] one split show ?thesis by simp
  qed
qed

section \<open>A whole message\<close>

lemma silent_transfer:
  assumes silent: "\<And>k. rd_frames R k = []" and run: "aps_data_transfer E R A mode dst rq s = Some (Done (r, s'))"
  shows "(tx_acknowledged (rq_tx_options rq) \<longrightarrow> r \<noteq> Inr ()) \<and> aps_log s' \<le> aps_log s + 24"
proof -
  have wait: "wait_for_ack E R A mode c s = Done (None, s)" for c s
    by (simp add: wait_for_ack_def silent act_return_def)
  have window: "x \<noteq> Inr () \<and> aps_log t' \<le> aps_log t + 24"
    if "transfer_window E R A mode dst rq c w win first t = Some (Done (x, t'))" for c w win first t t' x
  proof -
    have "sends aps_log (\<lambda>_. 8) (send_blocks E A mode dst rq c win first ack [0..<min w (remaining_blocks win)])" for ack
      using sends_blocks blocks_below_8 unfolding sends_def by (meson add_left_mono le_trans)
    from silent_window [OF wait this that [unfolded transfer_window_def]] show ?thesis by (simp add: MAX_FRAME_RETRIES_def)
  qed
  have single: "(tx_acknowledged (rq_tx_options rq) \<longrightarrow> r \<noteq> Inr ()) \<and> aps_log s' \<le> aps_log s + 1"
    if "transfer_single E R A mode dst rq p s = Done (r, s')" for p
    using that sendsD [OF sends_frame]
    by (fastforce simp: transfer_single_def get_aps_counter_def act_return_def wait elim!: act_bindE
        split: sum.split_asm if_split_asm)
  have long: "r \<noteq> Inr () \<and> aps_log s' \<le> aps_log s + 24"
    if frag: "transfer_fragmented E R A mode dst rq w asdu len s = Some (Done (r, s'))" for w asdu len
  proof -
    have list: "[0..<n + 1] = 0 # [1..<n + 1]" for n :: nat by (simp add: upt_rec)
    from frag show ?thesis
      unfolding transfer_fragmented_def list
      by (auto simp: lp_bind_def lp_of_def get_aps_counter_def act_panic_def act_return_def dest!: window
          split: option.split_asm run.split_asm sum.split_asm if_split_asm)
  qed
  from run single long show ?thesis
    by (fastforce simp: aps_data_transfer_def split: sum.split_asm byte_error.split_asm option.split_asm if_split_asm prod.split_asm)
qed

lemma transfer_total:
  assumes silent: "\<And>k. rd_frames R k = []"
  shows "\<exists>res. aps_data_transfer E R A mode dst rq s = Some res"
proof -
  have wait: "wait_for_ack E R A mode c s = Done (None, s)" for c s
    by (simp add: wait_for_ack_def silent act_return_def)
  have window: "\<exists>res. transfer_window E R A mode dst rq c w win first s = Some res" for c w win first s
    unfolding transfer_window_def by (rule window_ends) (simp add: wait ack_blocks_def)
  have "\<exists>res. transfer_fragmented E R A mode dst rq w asdu size s = Some res" for w asdu size s
    unfolding transfer_fragmented_def
    by (rule lp_bind_total) (auto simp: lp_of_def intro!: each_until_error_total window)
  then show ?thesis
    by (simp add: aps_data_transfer_def split: sum.split byte_error.split option.split)
qed

text \<open>C24. While the radio receives nothing, the transmission of a message ends: a window gives up after three
  passes and the message with it, so at most 24 frames are sent however long the message is, and a message that
  asks for an acknowledgement is never reported as sent.\<close>
theorem fragment_transmission_ends:
  assumes "\<And>k. rd_frames R k = []"
  shows "\<exists>res. aps_data_transfer E R A mode dst rq s = Some res \<and>
    (\<forall>r s'. res = Done (r, s') \<longrightarrow> (tx_acknowledged (rq_tx_options rq) \<longrightarrow> r \<noteq> Inr ()) \<and>
      length (nk_sent (as_nwk s')) \<le> length (nk_sent (as_nwk s)) + 24)"
proof -
  obtain res where res: "aps_data_transfer E R A mode dst rq s = Some res" using transfer_total [OF assms] by blast
  show ?thesis
  proof (intro exI conjI allI impI)
    fix r s'
    assume "res = Done (r, s')"
    from silent_transfer [OF assms res [unfolded this]]
    show "length (nk_sent (as_nwk s')) \<le> length (nk_sent (as_nwk s)) + 24"
      "tx_acknowledged (rq_tx_options rq) \<Longrightarrow> r \<noteq> Inr ()" by simp_all
  qed (rule res)
qed

section \<open>What can be carried\<close>

lemma send_blocks_success:
  assumes "send_blocks E A mode dst rq c win first ack is s = Done (Inr (), s')" and "i \<in> set is"
  shows "i < 8 \<and> (bit ack i \<or> (i + 1) * MAX_APS_PAYLOAD_SIZE \<le> length win)"
  using assms
proof (induction "is" arbitrary: s)
  case (Cons j "is")
  then have j: "j < 8" by (auto simp: act_panic_def split: if_splits)
  show ?case
  proof (cases "bit ack j")
    case True
    with Cons j show ?thesis by auto
  next
    case False
    with Cons.prems j have room: "(j + 1) * MAX_APS_PAYLOAD_SIZE \<le> length win"
      by (auto simp: act_panic_def split: if_splits)
    with Cons.prems j False obtain s1 where "send_blocks E A mode dst rq c win first ack is s1 = Done (Inr (), s')"
      by (auto simp: not_less act_return_def elim!: act_bindE split: sum.split_asm)
    with Cons j room show ?thesis by auto
  qed
qed simp

lemma window_success_pass:
  assumes "window_loop send wait first 0 0 s = Some (Done (Inr (), s'))"
  shows "\<exists>s1. send 0 s = Done (Inr (), s1)"
proof -
  have "0 < MAX_FRAME_RETRIES" by (simp add: MAX_FRAME_RETRIES_def)
  from trans [OF window_step [OF this, symmetric] assms] show ?thesis
    by (auto split: run.splits prod.splits sum.splits)
qed

lemma each_success:
  assumes "each_until_error f is s = Some (Done (Inr (), s'))" and "i \<in> set is"
  shows "\<exists>s1 s2. f i s1 = Some (Done (Inr (), s2))"
  using assms
proof (induction "is" arbitrary: s)
  case (Cons j "is")
  then obtain s1 where "f j s = Some (Done (Inr (), s1))" "each_until_error f is s1 = Some (Done (Inr (), s'))"
    by (auto simp: lp_bind_def lp_of_def act_return_def split: option.splits run.splits sum.splits)
  with Cons show ?case by auto
qed simp

lemma window_success_blocks:
  assumes "transfer_window E R A mode dst rq c w win first s = Some (Done (Inr (), s'))"
    and "i < min w (remaining_blocks win)"
  shows "i < 8 \<and> (i + 1) * MAX_APS_PAYLOAD_SIZE \<le> length win"
proof -
  from window_success_pass [OF assms(1) [unfolded transfer_window_def]] obtain s1 where
    "send_blocks E A mode dst rq c win first 0 [0..<min w (remaining_blocks win)] s = Done (Inr (), s1)" by blast
  from send_blocks_success [OF this, of i] assms(2) show ?thesis by simp
qed

lemma payload_size: "MAX_APS_PAYLOAD_SIZE = 96"
  by (simp add: MAX_APS_PAYLOAD_SIZE_def A_MAX_MAC_PAYLOAD_SIZE_def)

lemma remaining_after:
  assumes "length asdu = MAX_APS_FRAME_SIZE" and "k \<le> 21"
  shows "remaining_blocks (drop (k * MAX_APS_PAYLOAD_SIZE) asdu) = 22 - k"
proof -
  have "2048 - k * 96 - 1 = (21 - k) * 96 + 31" using assms(2) by simp
  then show ?thesis
    using assms by (simp add: remaining_blocks_def payload_size MAX_APS_FRAME_SIZE_def)
qed

lemma fragmented_success:
  assumes "write_with (rq_asdu rq) (replicate MAX_APS_FRAME_SIZE 0, 0) = Inr (asdu, len)"
    and "length asdu = MAX_APS_FRAME_SIZE" and "MAX_APS_PAYLOAD_SIZE < len" "len \<le> MAX_APS_FRAME_SIZE"
    and "aps_data_transfer E R A mode dst rq s = Some (Done (Inr (), s'))"
  shows "\<exists>w. aps_window_size dst rq s = Some w \<and> 0 < unat w \<and>
      unat w \<le> 8 \<and> ((len - 1) div MAX_APS_PAYLOAD_SIZE div unat w + 1) * unat w \<le> 21"
proof -
  from assms(1,3,5) obtain w where w: "aps_window_size dst rq s = Some w" and
    frag: "transfer_fragmented E R A mode dst rq (unat w) asdu len s = Some (Done (Inr (), s'))"
    by (auto simp: aps_data_transfer_def not_le split: option.splits if_splits)
  let ?w = "unat w" let ?n = "(len - 1) div MAX_APS_PAYLOAD_SIZE div ?w"
  from frag have pos: "0 < ?w"
    by (auto simp: transfer_fragmented_def lp_bind_def lp_of_def act_panic_def split: run.splits if_splits)
  from frag pos obtain c s0 where
    each: "each_until_error
       (\<lambda>i. transfer_window E R A mode dst rq c ?w (drop (i * ?w * MAX_APS_PAYLOAD_SIZE) asdu) (i * ?w))
       [0..<?n + 1] s0 = Some (Done (Inr (), s'))"
    by (auto simp: transfer_fragmented_def lp_bind_def lp_of_def split: run.splits)
  have last: "?n * ?w \<le> 21"
  proof -
    have "?n * ?w \<le> (len - 1) div 96" by (simp add: payload_size)
    also have "\<dots> \<le> 21" using assms(4) by (simp add: MAX_APS_FRAME_SIZE_def)
    finally show ?thesis .
  qed
  have block: "i < 8 \<and> (k * ?w + i + 1) * 96 \<le> 2048" if "k \<le> ?n" "i < ?w" "i < 22 - k * ?w" for k i
  proof -
    have k: "k * ?w \<le> 21" using that(1) last by (meson le_trans mult_le_mono1)
    from that(1) have "k \<in> set [0..<?n + 1]" by (auto simp: le_less)
    from each_success [OF each this] obtain s1 s2 where
      "transfer_window E R A mode dst rq c ?w (drop (k * ?w * MAX_APS_PAYLOAD_SIZE) asdu) (k * ?w) s1 =
        Some (Done (Inr (), s2))" by blast
    from window_success_blocks [OF this, of i] that(2,3) remaining_after [OF assms(2) k] k
    have "i < 8 \<and> (i + 1) * 96 \<le> 2048 - k * ?w * 96"
      by (simp add: payload_size assms(2) MAX_APS_FRAME_SIZE_def)
    moreover have "(k * ?w + i + 1) * 96 = k * ?w * 96 + (i + 1) * 96" by (simp only: distrib_right add.assoc)
    ultimately show ?thesis using k by linarith
  qed
  have "?w \<le> 8"
  proof (rule ccontr)
    assume "\<not> ?w \<le> 8"
    with block [of 0 8] show False by simp
  qed
  moreover have "(?n + 1) * ?w \<le> 21"
  proof (rule ccontr)
    assume "\<not> (?n + 1) * ?w \<le> 21"
    with pos have "21 - ?n * ?w < ?w" by (simp only: distrib_right mult_1)
    moreover have "21 - ?n * ?w < 22 - ?n * ?w" "?n * ?w + (21 - ?n * ?w) + 1 = 22" using last by linarith+
    ultimately show False using block [OF le_refl, of "21 - ?n * ?w"] by simp
  qed
  ultimately show "\<exists>w. aps_window_size dst rq s = Some w \<and> 0 < unat w \<and>
      unat w \<le> 8 \<and> ((len - 1) div MAX_APS_PAYLOAD_SIZE div unat w + 1) * unat w \<le> 21"
    using w pos by blast
qed

text \<open>C25. The limits of fragmentation: a message of more than one block is never sent successfully with a
  window of more than eight blocks, or when the whole windows that cover it pass the first 21 blocks of
  the buffer; so no message above 2016 bytes gets through, and with a window of eight none above 1536
  bytes. The first fragment announces 22 blocks whatever the size.\<close>
theorem fragmentation_limits:
  assumes "write_with (rq_asdu rq) (replicate MAX_APS_FRAME_SIZE 0, 0) = Inr (asdu, len)"
    and "length asdu = MAX_APS_FRAME_SIZE" and "MAX_APS_PAYLOAD_SIZE < len" "len \<le> MAX_APS_FRAME_SIZE"
    and "aps_window_size dst rq s = Some w"
    and "8 < unat w \<or> 21 < ((len - 1) div MAX_APS_PAYLOAD_SIZE div unat w + 1) * unat w"
  shows "aps_data_transfer E R A mode dst rq s \<noteq> Some (Done (Inr (), s')) \<and>
    fragment_header asdu 0 = FragmentationFirst 22 None"
proof
  show "aps_data_transfer E R A mode dst rq s \<noteq> Some (Done (Inr (), s'))"
    using fragmented_success [OF assms(1-4)] assms(5,6) by fastforce
  show "fragment_header asdu 0 = FragmentationFirst 22 None"
    using remaining_after [OF assms(2), of 0] by (simp add: fragment_header_def)
qed

section \<open>Witnesses\<close>

text \<open>A short message that asks for an acknowledgement: it is sent once and gets none.\<close>

definition acked_request_std :: apsde_request where
  "acked_request_std = request_std\<lparr> rq_tx_options := tx_options_default\<lparr> tx_acknowledged := True \<rparr> \<rparr>"

lemma acked_data_sent:
  "\<exists>n'. transmit_data_frame env_std JoinedAsEndDevice [0x40, 1, 2, 3, 1, 2, 3] (aps_frame_config 0 None None) (as_nwk aps_std) =
     Done (Inr (), n') \<and> length (nk_sent n') = 1"
proof -
  let ?p = "[0x40, 1, 2, 3, 1, 2, 3 :: u8]" let ?n = "as_nwk aps_std"
  have built: "\<exists>h k. build_data_frame ?p (aps_frame_config 0 None None) ?n =
      Done (\<lparr> df_header = h, df_payload = ?p \<rparr>, ?n\<lparr> nk_seq_number := k \<rparr>) \<and> fc_security (nh_control h)"
    by (simp add: build_data_frame_def aps_frame_config_def act_bind_def act_gets_def act_run_def get_addr_def
      unwrap_run_def get_next_seq_number_def act_return_def nwk_header_new_def nwk_header_new_no_ctx_def aps_std_def nwk_std_def
      profile_params_def profile_defs chk_mul_def nwk_context_default_def)
  then obtain h k where built: "build_data_frame ?p (aps_frame_config 0 None None) ?n =
      Done (\<lparr> df_header = h, df_payload = ?p \<rparr>, ?n\<lparr> nk_seq_number := k \<rparr>)" and h: "fc_security (nh_control h)" by blast
  let ?n1 = "?n\<lparr> nk_seq_number := k \<rparr>" and ?d = "\<lparr> df_header = h, df_payload = ?p \<rparr>"
  obtain nonce where nonce: "create_nonce wire_std aux_std = Done (Inr nonce)"
    using create_nonce_ex [OF wire_std_ok, of aux_std 9] by (auto simp: aux_std_def)
  have ctx: "cx_security_material_set (nk_ctx ?n1) = [sm_std]" "cx_active_key_seq_number (nk_ctx ?n1) = 0"
    "nwk_security_level (profile_params ?n1) = EncMic32" "get_ext_addr ?n1 = 9" "nk_sent ?n1 = []"
    "ms_pan_id (nk_mac ?n1) = Some 0x1a62" "ms_short_address (nk_mac ?n1) = Some 0x1001"
    by (simp_all add: aps_std_def nwk_std_def nwk_context_default_def profile_params_def profile_defs get_ext_addr_def)
  have "\<exists>buf len. write_and_encrypt_in_place crypto_std wire_std EncMic32
      (replicate A_MAX_MAC_PAYLOAD_SIZE 0) (cd_write_aux codecs_std aux_std) aux_std (sm_key sm_std)
      (cd_write_header codecs_std h) (write_slice ?p) = Done (Inr (buf, len))"
    using nonce [unfolded aux_std_def]
    by (simp add: A_MAX_MAC_PAYLOAD_SIZE_def write_and_encrypt_in_place_def aux_std_def codecs_std_def
        write_slice_def parse_error_def encrypt_in_place_def ccm_encrypt_def crypto_std_def Let_def numeral_eq_Suc)
  then obtain n' where "transmit_frame env_std (Data ?d) (nb_nwk_addr (nwk_parent ?n1)) True ?n1 = Done (Inr (), n')"
    and "length (nk_sent n') = 1"
    using ctx h
    by (auto simp: transmit_frame_def build_mac_payload_def build_mac_payload_with_def env_std_simps is_secured_def
        is_reserved_def frame_header_def make_encrypted_frame_def sm_std_facts aux_std_eq data_transmit_request_def
        act_bind_def act_return_def Let_def)
  with built show ?thesis by (simp add: transmit_data_frame_def transmit_data_frame_end_device_def act_bind_def act_gets_def)
qed

theorem fragment_transmission_ends_witness:
  "\<exists>s'. aps_data_transfer env_std radio_std (aps_codecs_std (ack_header (AckData 1 6 0x0104 2) 7) (CmdSwitchKey 0)) JoinedAsEndDevice
      (ApsNetwork 0 1) acked_request_std aps_std = Some (Done (Inl ApsNoAck, s')) \<and>
     length (nk_sent (as_nwk s')) = 1 \<and> length (nk_sent (as_nwk s')) \<le> length (nk_sent (as_nwk aps_std)) + 24"
proof -
  let ?A = "aps_codecs_std (ack_header (AckData 1 6 0x0104 2) 7) (CmdSwitchKey 0)"
  have silent: "rd_frames radio_std k = []" for k by (simp add: radio_std_def)
  have payload: "adf_payload (aps_data_frame_new (data_init x y z w)) = z" for x y z w
    by (simp add: aps_data_frame_new_def data_init_def)
  obtain n' where "transmit_data_frame env_std JoinedAsEndDevice [0x40, 1, 2, 3, 1, 2, 3] (aps_frame_config 0 None None) (as_nwk aps_std) =
     Done (Inr (), n')" and one: "length (nk_sent n') = 1" using acked_data_sent by blast
  then have run: "\<exists>s'. aps_data_transfer env_std radio_std ?A JoinedAsEndDevice (ApsNetwork 0 1) acked_request_std aps_std =
      Some (Done (Inl ApsNoAck, s')) \<and> as_nwk s' = n'"
    by (simp add: aps_data_transfer_def acked_request_std_def request_std_def write_slice_def payload aps_codecs_std_def
        MAX_APS_FRAME_SIZE_def MAX_APS_PAYLOAD_SIZE_def A_MAX_MAC_PAYLOAD_SIZE_def transfer_single_def aps_send_data_def
        aps_transfer_def aps_frame_bytes_def tx_options_default_def write_aps_frame_def act_bind_def act_return_def
        get_aps_counter_def with_nwk_def get_nwk_address_def Let_def numeral_eq_Suc wait_for_ack_def silent)
  then obtain s' where run: "aps_data_transfer env_std radio_std ?A JoinedAsEndDevice (ApsNetwork 0 1) acked_request_std aps_std =
      Some (Done (Inl ApsNoAck, s'))" and s': "as_nwk s' = n'" by blast
  from fragment_transmission_ends [OF silent, of env_std ?A JoinedAsEndDevice "ApsNetwork 0 1" acked_request_std aps_std] run
  have "length (nk_sent (as_nwk s')) \<le> length (nk_sent (as_nwk aps_std)) + 24" by auto
  with run s' one show ?thesis by blast
qed

theorem fragmentation_limits_witness:
  "aps_data_transfer env_std radio_std (aps_codecs_std (ack_header (AckData 1 6 0x0104 2) 7) (CmdSwitchKey 0)) JoinedAsEndDevice (ApsNetwork 0 1)
     (request_std\<lparr> rq_asdu := write_slice (replicate 1537 7) \<rparr>) (aps_std\<lparr> as_max_window_size := [(1, 8)] \<rparr>)
   \<noteq> Some (Done (Inr (), aps_std))"
proof -
  let ?rq = "request_std\<lparr> rq_asdu := write_slice (replicate 1537 7) \<rparr>"
  let ?s = "aps_std\<lparr> as_max_window_size := [(1, 8)] \<rparr>"
  have written: "write_with (rq_asdu ?rq) (replicate MAX_APS_FRAME_SIZE 0, 0) =
      Inr (replicate 1537 7 @ replicate 511 0, 1537)"
    by (simp add: write_slice_def MAX_APS_FRAME_SIZE_def)
  have window: "aps_window_size (ApsNetwork 0 1) ?rq ?s = Some 8"
    by (simp add: aps_window_size_def request_std_def is_broadcast_def)
  show ?thesis
    using fragmentation_limits [OF written _ _ _ window, of env_std radio_std
        "aps_codecs_std (ack_header (AckData 1 6 0x0104 2) 7) (CmdSwitchKey 0)" JoinedAsEndDevice aps_std]
    by (simp add: payload_size MAX_APS_FRAME_SIZE_def)
qed

end
