(* ===== verification/Zdp_Types.thy ===== *)
theory Zdp_Types
  imports Aps_Data
begin

unbundle bit_operations_syntax

text \<open>
  The data of the device profile: the configuration of a node and its descriptors
  (\<open>apl/zdo/config.rs\<close>, \<open>apl/zdp/types/descriptors.rs\<close>), requests and responses
  (\<open>apl/zdp/types/mod.rs\<close>, \<open>discovery.rs\<close>, \<open>network.rs\<close>) and the hand-written codecs among them
  with \<open>WithLength\<close> of \<open>common/bytes.rs\<close>. Derived codecs are parameters.
\<close>

section \<open>Values with a length prefix\<close>

text \<open>\<open>Integer::to_le_bytes\<close>, \<open>from_usize\<close> and \<open>from_le_bytes\<close> of a type of \<open>n\<close> bytes.\<close>

definition usize_le :: "nat \<Rightarrow> nat \<Rightarrow> bytes" where
  "usize_le n v = map (\<lambda>i. of_nat (v div 256 ^ i)) [0..<n]"

fun le_usize :: "bytes \<Rightarrow> nat" where
  "le_usize [] = 0"
| "le_usize (b # bs) = unat b + 256 * le_usize bs"

text \<open>The value is read even when the length is zero.\<close>

definition with_length_read :: "nat \<Rightarrow> 'a breader \<Rightarrow> 'a option breader" where
  "with_length_read n rd bs =
     (if length bs < n then Inl Incomplete
      else res_bind (rd (drop n bs)) (\<lambda>(x, _).
        let len = le_usize (take n bs) in
        Inr (if len = 0 then (None, n) else (Some x, n + len))))"

definition with_length_write :: "nat \<Rightarrow> ('a \<Rightarrow> bwriter) \<Rightarrow> 'a option \<Rightarrow> bwriter" where
  "with_length_write n w v bs =
     (if length bs < n then Inl Incomplete
      else case v of
          None \<Rightarrow> Inr (usize_le n 0 @ drop n bs, n)
        | Some x \<Rightarrow> res_bind (write_with (w x) (bs, n)) (\<lambda>(bs', off).
            Inr (usize_le n (off - n) @ drop n bs', off)))"

section \<open>Descriptors\<close>

datatype current_power_mode = Synchronized | Periodically | Stimulated

datatype current_power_source = MainsPower | RechargeableBattery | DisposableBattery

datatype current_power_source_level = PowerCritical | PowerOneThird | PowerTwoThirds | PowerFull

record available_power_sources =
  aps_mains_power :: bool
  aps_rechargeable_battery :: bool
  aps_disposable_battery :: bool

record frequency_bands =
  fb_low :: bool
  fb_mid :: bool
  fb_high :: bool
  fb_european_fsk :: bool

definition frequency_bands_default :: frequency_bands where
  "frequency_bands_default = \<lparr> fb_low = False, fb_mid = False, fb_high = True, fb_european_fsk = False \<rparr>"

record server_mask =
  sv_primary_trust_center :: bool
  sv_backup_trust_center :: bool
  sv_primary_binding_table_cache :: bool
  sv_backup_binding_table_cache :: bool
  sv_primary_discovery_cache :: bool
  sv_backup_discovery_cache :: bool
  sv_network_manager :: bool
  sv_stack_compliance_revision :: u8

record node_descriptor_info =
  ni_logical_type :: device_type
  ni_complex_descriptor_available :: bool
  ni_user_descriptor_available :: bool

record descriptor_capabilities =
  dc_extended_active_endpoint_list_available :: bool
  dc_extended_simple_descriptor_list_available :: bool

record node_descriptor =
  nds_info :: node_descriptor_info
  nds_frequency_bands :: frequency_bands
  nds_mac_capabilities :: mac_capabilities
  nds_manufacturer_code :: u16
  nds_maximum_buffer_size :: u8
  nds_maximum_incoming_transfer_size :: u16
  nds_server_mask :: server_mask
  nds_maximum_outgoing_transfer_size :: u16
  nds_descriptor_capabilities :: descriptor_capabilities

record node_power_descriptor =
  np_current_power_mode :: current_power_mode
  np_available_power_sources :: available_power_sources
  np_current_power_source :: current_power_source
  np_current_power_source_level :: current_power_source_level

record simple_descriptor =
  sd_endpoint :: aps_endpoint
  sd_application_profile_identifier :: u16
  sd_application_device_identifier :: u16
  sd_application_device_version :: u8
  sd_application_input_cluster_list :: "u16 list"
  sd_application_output_cluster_list :: "u16 list"

text \<open>A user descriptor is an array of 16 bytes. What is read is padded with spaces.\<close>

definition USER_DESCRIPTOR_SIZE :: nat where "USER_DESCRIPTOR_SIZE = 16"

definition read_user_descriptor :: "bytes breader" where
  "read_user_descriptor bs =
     (let v = take (min (length bs) USER_DESCRIPTOR_SIZE) bs in
      if list_all (\<lambda>b. 0x1f < b \<and> b < 0x80) v
      then Inr (v @ replicate (USER_DESCRIPTOR_SIZE - length v) 0x20, length v)
      else Inl (BadInput ''InvalidUserDescriptor: Input is not valid ASCII''))"

definition write_user_descriptor :: "bytes \<Rightarrow> bwriter" where
  "write_user_descriptor d = write_slice d"

section \<open>Layouts of the descriptors\<close>

text \<open>The derived codecs of the enums.\<close>

record desc_wire =
  dw_device_type :: "device_type fcodec"
  dw_power_mode :: "current_power_mode fcodec"
  dw_power_source :: "current_power_source fcodec"
  dw_power_level :: "current_power_source_level fcodec"

definition frequency_bands_layout :: "bs_field list" where
  "frequency_bands_layout = [(1, 3), (1, 1), (1, 0), (1, 0)]"

definition frequency_bands_enc :: "wire \<Rightarrow> frequency_bands \<Rightarrow> u8 list" where
  "frequency_bands_enc W b = map (snd (w_bool W)) [fb_low b, fb_mid b, fb_high b, fb_european_fsk b]"

fun frequency_bands_dec :: "wire \<Rightarrow> u8 list \<Rightarrow> byte_error + frequency_bands" where
  "frequency_bands_dec W [l, m, h, e] =
     res_bind (fst (w_bool W) l) (\<lambda>l'. res_bind (fst (w_bool W) m) (\<lambda>m'.
     res_bind (fst (w_bool W) h) (\<lambda>h'. res_bind (fst (w_bool W) e) (\<lambda>e'.
       Inr \<lparr> fb_low = l', fb_mid = m', fb_high = h', fb_european_fsk = e' \<rparr>))))"
| "frequency_bands_dec W _ = Inl Incomplete"

definition node_descriptor_info_layout :: "bs_field list" where
  "node_descriptor_info_layout = [(3, 0), (1, 0), (1, 0)]"

definition node_descriptor_info_enc :: "wire \<Rightarrow> desc_wire \<Rightarrow> node_descriptor_info \<Rightarrow> u8 list" where
  "node_descriptor_info_enc W V i =
     [snd (dw_device_type V) (ni_logical_type i), snd (w_bool W) (ni_complex_descriptor_available i),
      snd (w_bool W) (ni_user_descriptor_available i)]"

fun node_descriptor_info_dec :: "wire \<Rightarrow> desc_wire \<Rightarrow> u8 list \<Rightarrow> byte_error + node_descriptor_info" where
  "node_descriptor_info_dec W V [t, c, u] =
     res_bind (fst (dw_device_type V) t) (\<lambda>t'. res_bind (fst (w_bool W) c) (\<lambda>c'.
     res_bind (fst (w_bool W) u) (\<lambda>u'.
       Inr \<lparr> ni_logical_type = t', ni_complex_descriptor_available = c', ni_user_descriptor_available = u' \<rparr>)))"
| "node_descriptor_info_dec W V _ = Inl Incomplete"

definition server_mask_layout :: "bs_field list" where
  "server_mask_layout = [(1, 0), (1, 0), (1, 0), (1, 0), (1, 0), (1, 0), (1, 0), (7, 2)]"

definition server_mask_enc :: "wire \<Rightarrow> server_mask \<Rightarrow> u8 list" where
  "server_mask_enc W m = map (snd (w_bool W)) [sv_primary_trust_center m, sv_backup_trust_center m,
      sv_primary_binding_table_cache m, sv_backup_binding_table_cache m, sv_primary_discovery_cache m,
      sv_backup_discovery_cache m, sv_network_manager m] @ [sv_stack_compliance_revision m]"

fun server_mask_dec :: "wire \<Rightarrow> u8 list \<Rightarrow> byte_error + server_mask" where
  "server_mask_dec W [a, b, c, d, e, f, g, r] =
     res_bind (fst (w_bool W) a) (\<lambda>a'. res_bind (fst (w_bool W) b) (\<lambda>b'.
     res_bind (fst (w_bool W) c) (\<lambda>c'. res_bind (fst (w_bool W) d) (\<lambda>d'.
     res_bind (fst (w_bool W) e) (\<lambda>e'. res_bind (fst (w_bool W) f) (\<lambda>f'.
     res_bind (fst (w_bool W) g) (\<lambda>g'.
       Inr \<lparr> sv_primary_trust_center = a', sv_backup_trust_center = b', sv_primary_binding_table_cache = c',
         sv_backup_binding_table_cache = d', sv_primary_discovery_cache = e', sv_backup_discovery_cache = f',
         sv_network_manager = g', sv_stack_compliance_revision = r \<rparr>)))))))"
| "server_mask_dec W _ = Inl Incomplete"

definition descriptor_capabilities_layout :: "bs_field list" where
  "descriptor_capabilities_layout = [(1, 0), (1, 0)]"

definition descriptor_capabilities_enc :: "wire \<Rightarrow> descriptor_capabilities \<Rightarrow> u8 list" where
  "descriptor_capabilities_enc W c = map (snd (w_bool W))
     [dc_extended_active_endpoint_list_available c, dc_extended_simple_descriptor_list_available c]"

fun descriptor_capabilities_dec :: "wire \<Rightarrow> u8 list \<Rightarrow> byte_error + descriptor_capabilities" where
  "descriptor_capabilities_dec W [a, b] =
     res_bind (fst (w_bool W) a) (\<lambda>a'. res_bind (fst (w_bool W) b) (\<lambda>b'.
       Inr \<lparr> dc_extended_active_endpoint_list_available = a', dc_extended_simple_descriptor_list_available = b' \<rparr>))"
| "descriptor_capabilities_dec W _ = Inl Incomplete"

definition available_power_sources_layout :: "bs_field list" where
  "available_power_sources_layout = [(1, 0), (1, 0), (1, 0)]"

definition available_power_sources_enc :: "wire \<Rightarrow> available_power_sources \<Rightarrow> u8 list" where
  "available_power_sources_enc W s = map (snd (w_bool W))
     [aps_mains_power s, aps_rechargeable_battery s, aps_disposable_battery s]"

fun available_power_sources_dec :: "wire \<Rightarrow> u8 list \<Rightarrow> byte_error + available_power_sources" where
  "available_power_sources_dec W [a, b, c] =
     res_bind (fst (w_bool W) a) (\<lambda>a'. res_bind (fst (w_bool W) b) (\<lambda>b'. res_bind (fst (w_bool W) c) (\<lambda>c'.
       Inr \<lparr> aps_mains_power = a', aps_rechargeable_battery = b', aps_disposable_battery = c' \<rparr>)))"
| "available_power_sources_dec W _ = Inl Incomplete"

text \<open>The power sources are a bit struct inside the field of another one: the field holds what they write
  into an array of one byte. Neither direction can panic there.\<close>

definition power_sources_u8 :: "wire \<Rightarrow> available_power_sources \<Rightarrow> u8" where
  "power_sources_u8 W s =
     (case struct_value 1 available_power_sources_layout (available_power_sources_enc W) s of
        Done [b] \<Rightarrow> b | _ \<Rightarrow> 0)"

definition read_power_sources :: "wire \<Rightarrow> u8 \<Rightarrow> byte_error + available_power_sources" where
  "read_power_sources W b =
     (case struct_read 1 available_power_sources_layout (available_power_sources_dec W) [b] of
        Done r \<Rightarrow> map_sum id fst r | Panic \<Rightarrow> Inl Incomplete)"

definition node_power_descriptor_layout :: "bs_field list" where
  "node_power_descriptor_layout = [(4, 0), (4, 0), (4, 0), (4, 0)]"

definition node_power_descriptor_enc :: "wire \<Rightarrow> desc_wire \<Rightarrow> node_power_descriptor \<Rightarrow> u8 list" where
  "node_power_descriptor_enc W V d =
     [snd (dw_power_mode V) (np_current_power_mode d), power_sources_u8 W (np_available_power_sources d),
      snd (dw_power_source V) (np_current_power_source d), snd (dw_power_level V) (np_current_power_source_level d)]"

fun node_power_descriptor_dec :: "wire \<Rightarrow> desc_wire \<Rightarrow> u8 list \<Rightarrow> byte_error + node_power_descriptor" where
  "node_power_descriptor_dec W V [m, a, s, l] =
     res_bind (fst (dw_power_mode V) m) (\<lambda>m'. res_bind (read_power_sources W a) (\<lambda>a'.
     res_bind (fst (dw_power_source V) s) (\<lambda>s'. res_bind (fst (dw_power_level V) l) (\<lambda>l'.
       Inr \<lparr> np_current_power_mode = m', np_available_power_sources = a', np_current_power_source = s',
         np_current_power_source_level = l' \<rparr>))))"
| "node_power_descriptor_dec W V _ = Inl Incomplete"

text \<open>\<open>ServerMask::get_value\<close> and \<open>ServerMask::new\<close>, on \<open>u16\<close>.\<close>

definition u16_of_le :: "bytes \<Rightarrow> u16" where
  "u16_of_le bs = of_nat (le_usize bs)"

definition server_mask_value :: "wire \<Rightarrow> server_mask \<Rightarrow> u16 run" where
  "server_mask_value W m = run_map u16_of_le (struct_value 2 server_mask_layout (server_mask_enc W) m)"

definition server_mask_new :: "wire \<Rightarrow> u16 \<Rightarrow> server_mask run" where
  "server_mask_new W v = run_bind (struct_read 2 server_mask_layout (server_mask_dec W) (le_bytes 2 v))
     (\<lambda>r. case r of Inl _ \<Rightarrow> Panic | Inr (m, _) \<Rightarrow> Done m)"

section \<open>The configuration of a node\<close>

record zb_config =
  zf_nwk_scan_attempts :: u8
  zf_nwk_time_between_scans :: nat
  zf_user_descriptor :: "bytes option"
  zf_primary_channel_set :: channel_mask
  zf_secondary_channel_set :: channel_mask
  zf_scan_duration :: u8
  zf_use_insecure_join :: bool
  zf_use_extended_pan_id :: "ext_addr option"
  zf_touchlink_supported :: bool
  zf_device_type :: device_type
  zf_manufacturer_code :: u16
  zf_rx_on_when_idle :: bool
  zf_frequency_bands :: frequency_bands
  zf_available_power_sources :: available_power_sources
  zf_current_power_mode :: current_power_mode

definition DEFAULT_PRIMARY_CHANNEL_SET :: channel_mask where "DEFAULT_PRIMARY_CHANNEL_SET = 0x02108800"
definition DEFAULT_SECONDARY_CHANNEL_SET :: channel_mask where
  "DEFAULT_SECONDARY_CHANNEL_SET = 0x07fff800 XOR 0x2108800"

definition zb_config_default :: zb_config where
  "zb_config_default = \<lparr> zf_nwk_scan_attempts = 5, zf_nwk_time_between_scans = 100, zf_user_descriptor = None,
     zf_primary_channel_set = DEFAULT_PRIMARY_CHANNEL_SET, zf_secondary_channel_set = DEFAULT_SECONDARY_CHANNEL_SET,
     zf_scan_duration = 3, zf_use_insecure_join = False, zf_use_extended_pan_id = None,
     zf_touchlink_supported = False, zf_device_type = EndDevice, zf_manufacturer_code = 0x1234,
     zf_rx_on_when_idle = True, zf_frequency_bands = frequency_bands_default,
     zf_available_power_sources = \<lparr> aps_mains_power = True, aps_rechargeable_battery = False,
       aps_disposable_battery = False \<rparr>,
     zf_current_power_mode = Synchronized \<rparr>"

definition get_mac_device_type :: "zb_config \<Rightarrow> mac_device_type" where
  "get_mac_device_type c = (case zf_device_type c of
     Coordinator \<Rightarrow> FullFunctionDevice | Router \<Rightarrow> FullFunctionDevice | EndDevice \<Rightarrow> ReducedFunctionDevice)"

definition get_server_mask :: "zb_config \<Rightarrow> server_mask" where
  "get_server_mask c = \<lparr> sv_primary_trust_center = False, sv_backup_trust_center = False,
     sv_primary_binding_table_cache = False, sv_backup_binding_table_cache = False,
     sv_primary_discovery_cache = False, sv_backup_discovery_cache = False, sv_network_manager = False,
     sv_stack_compliance_revision = 22 \<rparr>"

definition get_node_descriptor :: "zb_config \<Rightarrow> node_descriptor" where
  "get_node_descriptor c = \<lparr>
     nds_info = \<lparr> ni_logical_type = zf_device_type c, ni_complex_descriptor_available = False,
       ni_user_descriptor_available = (zf_user_descriptor c \<noteq> None) \<rparr>,
     nds_frequency_bands = zf_frequency_bands c,
     nds_mac_capabilities = \<lparr> alternate_pan_coordinator = False, mc_device_type = get_mac_device_type c,
       mc_current_source = Mains, mc_rx_on_when_idle = zf_rx_on_when_idle c, mc_security = False,
       mc_allocate_address = True \<rparr>,
     nds_manufacturer_code = zf_manufacturer_code c,
     nds_maximum_buffer_size = of_nat MAX_NWK_PAYLOAD_SIZE,
     nds_maximum_incoming_transfer_size = of_nat MAX_APS_FRAME_SIZE,
     nds_server_mask = get_server_mask c,
     nds_maximum_outgoing_transfer_size = of_nat MAX_APS_FRAME_SIZE,
     nds_descriptor_capabilities = \<lparr> dc_extended_active_endpoint_list_available = False,
       dc_extended_simple_descriptor_list_available = False \<rparr> \<rparr>"

definition get_power_descriptor :: "zb_config \<Rightarrow> node_power_descriptor" where
  "get_power_descriptor c = \<lparr> np_current_power_mode = zf_current_power_mode c,
     np_available_power_sources = zf_available_power_sources c, np_current_power_source = MainsPower,
     np_current_power_source_level = PowerFull \<rparr>"

definition cfg_is_end_device :: "zb_config \<Rightarrow> bool" where
  "cfg_is_end_device c \<longleftrightarrow> zf_device_type c = EndDevice"

definition get_capabilities :: "zb_config \<Rightarrow> zb_capabilities" where
  "get_capabilities c = \<lparr> zc_device_type = get_mac_device_type c, zc_current_source = Mains,
     zc_receiver_on_when_idle = zf_rx_on_when_idle c, zc_allocate_address = True \<rparr>"

section \<open>Requests and responses\<close>

datatype addr_request_type = SingleDevice | ExtendedResponse u8

record nwk_addr_req =
  nar_ieee_address :: ext_addr
  nar_request_type :: addr_request_type

record ieee_addr_req =
  iar_nwk_addr_of_interest :: nwk_addr
  iar_request_type :: addr_request_type

record simple_desc_req =
  sdr_nwk_addr_of_interest :: nwk_addr
  sdr_endpoint :: aps_endpoint

record match_desc_req =
  mdr_nwk_addr_of_interest :: nwk_addr
  mdr_profile_id :: u16
  mdr_in_cluster_list :: "u16 list"
  mdr_out_cluster_list :: "u16 list"

record device_annce =
  da_nwk_addr :: nwk_addr
  da_ieee_addr :: ext_addr
  da_capability :: zb_capabilities

datatype addr_rsp_status = AddrSuccess | AddrInvRequestType | AddrDeviceNotFound

record addr_rsp =
  ar_status :: addr_rsp_status
  ar_ieee_addr :: ext_addr
  ar_nwk_addr :: nwk_addr
  ar_num_assoc :: "u16 option"
  ar_start_index :: "u8 option"
  ar_nwk_addr_assoc_dev_list :: "u16 list option"

datatype desc_rsp_status = DescSuccess | DescInvRequestType | DescDeviceNotFound | DescNoDescriptor

record node_desc_rsp =
  nd_rsp_status :: desc_rsp_status
  nd_rsp_nwk_addr :: nwk_addr
  nd_rsp_node_descriptor :: "node_descriptor option"

record power_desc_rsp =
  pd_rsp_status :: desc_rsp_status
  pd_rsp_nwk_addr :: nwk_addr
  pd_rsp_power_descriptor :: "node_power_descriptor option"

datatype simple_desc_rsp_status = SimpleSuccess | SimpleInvRequestType | SimpleDeviceNotFound
  | SimpleInvalidEp | SimpleNotActive | SimpleNoDescriptor

record simple_desc_rsp =
  sd_rsp_status :: simple_desc_rsp_status
  sd_rsp_nwk_addr :: nwk_addr
  sd_rsp_simple_descriptor :: "simple_descriptor option"

text \<open>The responses to the requests for endpoints, active or matching, have the same fields.\<close>

record ep_list_rsp =
  el_status :: desc_rsp_status
  el_nwk_addr :: nwk_addr
  el_ep_list :: "aps_endpoint list"

datatype parent_annce_rsp_status = ParentAnnceSuccess | ParentAnnceNotSupported

record parent_annce_rsp =
  pa_status :: parent_annce_rsp_status
  pa_children :: "ext_addr list"

datatype mgmt_permit_joining_req = PermitReqDisable | PermitReqEnable u8

datatype mgmt_permit_joining_rsp = PermitRspSuccess | PermitRspInvalidRequest | PermitRspNotAuthorized

datatype bind_status = BindSuccess | BindInvalidEp | BindNotSupported | BindStatusTableFull | BindNotAuthorized

datatype unbind_status = UnbindSuccess | UnbindInvalidEp | UnbindNotSupported | UnbindNoEntry | UnbindNotAuthorized

datatype transaction_data =
    NwkAddrReq nwk_addr_req | IeeeAddrReq ieee_addr_req | NodeDescReq nwk_addr | PowerDescReq nwk_addr
  | SimpleDescReq simple_desc_req | ActiveEpReq nwk_addr | MatchDescReq match_desc_req
  | DeviceAnnce device_annce | ParentAnnce "ext_addr list" | SystemServerDiscoveryReq server_mask
  | BindReq binding | UnbindReq binding | MgmtPermitJoiningReq mgmt_permit_joining_req
  | NwkAddrRsp addr_rsp | IeeeAddrRsp addr_rsp | NodeDescRsp node_desc_rsp | PowerDescRsp power_desc_rsp
  | SimpleDescRsp simple_desc_rsp | ActiveEpRsp ep_list_rsp | MatchDescRsp ep_list_rsp
  | ParentAnnceRsp parent_annce_rsp | SystemServerDiscoveryRsp server_mask
  | BindRsp bind_status | UnbindRsp unbind_status | MgmtPermitJoiningRsp mgmt_permit_joining_rsp

text \<open>The discriminants are the cluster ids.\<close>

primrec discriminant :: "transaction_data \<Rightarrow> u16" where
  "discriminant (NwkAddrReq _) = 0x0000"
| "discriminant (IeeeAddrReq _) = 0x0001"
| "discriminant (NodeDescReq _) = 0x0002"
| "discriminant (PowerDescReq _) = 0x0003"
| "discriminant (SimpleDescReq _) = 0x0004"
| "discriminant (ActiveEpReq _) = 0x0005"
| "discriminant (MatchDescReq _) = 0x0006"
| "discriminant (DeviceAnnce _) = 0x0013"
| "discriminant (ParentAnnce _) = 0x001f"
| "discriminant (SystemServerDiscoveryReq _) = 0x0015"
| "discriminant (BindReq _) = 0x0021"
| "discriminant (UnbindReq _) = 0x0022"
| "discriminant (MgmtPermitJoiningReq _) = 0x0036"
| "discriminant (NwkAddrRsp _) = 0x8000"
| "discriminant (IeeeAddrRsp _) = 0x8001"
| "discriminant (NodeDescRsp _) = 0x8002"
| "discriminant (PowerDescRsp _) = 0x8003"
| "discriminant (SimpleDescRsp _) = 0x8004"
| "discriminant (ActiveEpRsp _) = 0x8005"
| "discriminant (MatchDescRsp _) = 0x8006"
| "discriminant (ParentAnnceRsp _) = 0x801f"
| "discriminant (SystemServerDiscoveryRsp _) = 0x8015"
| "discriminant (BindRsp _) = 0x8021"
| "discriminant (UnbindRsp _) = 0x8022"
| "discriminant (MgmtPermitJoiningRsp _) = 0x8036"

record zdp_command =
  zp_transaction_sequence_number :: u8
  zp_transaction_data :: transaction_data

definition ZDP_PROFILE :: u16 where "ZDP_PROFILE = 0"
definition ZDP_ENDPOINT :: aps_endpoint where "ZDP_ENDPOINT = 0"
definition MGMT_PERMIT_JOINING_RSP :: u16 where "MGMT_PERMIT_JOINING_RSP = 0x8036"

section \<open>Hand-written codecs\<close>

text \<open>The derived codecs that the hand-written ones and the services use.\<close>

record zdp_codecs =
  zx_write_addr_status :: "addr_rsp_status \<Rightarrow> bwriter"
  zx_read_addr_status :: "addr_rsp_status breader"
  zx_write_ext_addr :: "ext_addr \<Rightarrow> bwriter"
  zx_read_ext_addr :: "ext_addr breader"
  zx_write_nwk_addr :: "nwk_addr \<Rightarrow> bwriter"
  zx_read_nwk_addr :: "nwk_addr breader"
  zx_write_u16 :: "u16 \<Rightarrow> bwriter"
  zx_read_u16 :: "u16 breader"
  zx_write_command :: "zdp_command \<Rightarrow> bwriter"
  zx_read_data :: "u16 \<Rightarrow> transaction_data breader"
  zx_read_permit_rsp :: "mgmt_permit_joining_rsp breader"

text \<open>The list of associated devices is neither written nor read. Writing a count without a start index
  panics.\<close>

definition write_addr_rsp :: "zdp_codecs \<Rightarrow> addr_rsp \<Rightarrow> bytes \<Rightarrow> (byte_error + bytes \<times> nat) run" where
  "write_addr_rsp X r bs =
     (case res_bind (write_with (zx_write_addr_status X (ar_status r)) (bs, 0)) (\<lambda>st.
        res_bind (write_with (zx_write_ext_addr X (ar_ieee_addr r)) st)
          (write_with (zx_write_nwk_addr X (ar_nwk_addr r)))) of
        Inl e \<Rightarrow> Done (Inl e)
      | Inr st \<Rightarrow> (case ar_num_assoc r of
            None \<Rightarrow> Done (Inr st)
          | Some n \<Rightarrow> (case write_with (zx_write_u16 X n) st of
                Inl e \<Rightarrow> Done (Inl e)
              | Inr st' \<Rightarrow> (case ar_start_index r of
                    None \<Rightarrow> Panic
                  | Some i \<Rightarrow> Done (write_with (write_slice [i]) st')))))"

definition read_addr_rsp :: "zdp_codecs \<Rightarrow> addr_rsp breader" where
  "read_addr_rsp X bs =
     res_bind (read_with (zx_read_addr_status X) bs 0) (\<lambda>(st, o1).
     res_bind (read_with (zx_read_ext_addr X) bs o1) (\<lambda>(ext, o2).
     res_bind (read_with (zx_read_nwk_addr X) bs o2) (\<lambda>(nwk, o3).
     let rsp = (\<lambda>n i. \<lparr> ar_status = st, ar_ieee_addr = ext, ar_nwk_addr = nwk, ar_num_assoc = n,
       ar_start_index = i, ar_nwk_addr_assoc_dev_list = None \<rparr>) in
     if o3 < length bs then
       res_bind (read_with (zx_read_u16 X) bs o3) (\<lambda>(n, o4).
       res_bind (read_with read_u8 bs o4) (\<lambda>(i, o5). Inr (rsp (Some n) (Some i), o5)))
     else Inr (rsp None None, o3))))"

definition read_mgmt_permit_joining_req :: "mgmt_permit_joining_req breader" where
  "read_mgmt_permit_joining_req bs =
     (if length bs < 2 then Inl Incomplete
      else Inr (if hd bs = 0 then PermitReqDisable
        else if hd bs = 0xff then PermitReqEnable 0xfe else PermitReqEnable (hd bs), 2))"

definition permit_duration :: "mgmt_permit_joining_req \<Rightarrow> u8" where
  "permit_duration r = (case r of PermitReqDisable \<Rightarrow> 0
     | PermitReqEnable v \<Rightarrow> if v = 0xff then 0xfe else v)"

definition write_mgmt_permit_joining_req :: "mgmt_permit_joining_req \<Rightarrow> bwriter" where
  "write_mgmt_permit_joining_req r bs =
     (if length bs < 2 then Inl Incomplete else Inr (permit_duration r # 1 # drop 2 bs, 2))"

text \<open>\<open>TryRead\<close> of a command: an empty buffer panics, and the length leaves out the sequence number.\<close>

definition read_zdp_command :: "zdp_codecs \<Rightarrow> u16 \<Rightarrow> bytes \<Rightarrow> (byte_error + zdp_command \<times> nat) run" where
  "read_zdp_command X cluster bs =
     (case bs of [] \<Rightarrow> Panic
      | b # rest \<Rightarrow> Done (res_bind (zx_read_data X cluster rest) (\<lambda>(d, n).
          Inr (\<lparr> zp_transaction_sequence_number = b, zp_transaction_data = d \<rparr>, n))))"

end
