(* ===== verification/Nlme.thy ===== *)
theory Nlme
  imports Nwk_Reception
begin

text \<open>
  The management interface of the network layer (\<open>nwk/nlme.rs\<close>): discovery, joining by association
  and by rejoin, direct joins, leaving, and the transitions between the modes of a device
  (\<open>nwk/ctx.rs\<close>), with the context that survives a restart.

  The devices of a network descriptor that the code borrows mutably are named by their positions.
\<close>

section \<open>Network discovery\<close>

record nwk_neighbor_join_data =
  jd_depth :: u8
  jd_beacon_order :: nat
  jd_permit_joining :: bool
  jd_router_capacity :: bool
  jd_end_device_capacity :: bool
  jd_potential_parent :: bool

record pan_descriptor_device =
  pdd_neighbor :: nwk_neighbor
  pdd_join_data :: nwk_neighbor_join_data

record network_descriptor =
  nd_extended_pan_id :: ext_addr
  nd_pan_id :: pan_id
  nd_update_id :: u8
  nd_logical_channel :: channel
  nd_stack_profile :: stack_profile
  nd_zigbee_version :: u8
  nd_superframe_order :: nat
  nd_neighbors :: "pan_descriptor_device list"

definition is_permit_joining :: "network_descriptor \<Rightarrow> bool" where
  "is_permit_joining nd \<longleftrightarrow> (\<exists>d\<in>set (nd_neighbors nd). jd_permit_joining (pdd_join_data d))"

definition is_potential_parent :: "bool \<Rightarrow> mac_device_type \<Rightarrow> pan_descriptor_device \<Rightarrow> bool" where
  "is_potential_parent require_permit join_as d \<longleftrightarrow>
     jd_potential_parent (pdd_join_data d) \<and>
     (\<not> require_permit \<or> jd_permit_joining (pdd_join_data d)) \<and>
     (case join_as of
        ReducedFunctionDevice \<Rightarrow> jd_end_device_capacity (pdd_join_data d)
      | FullFunctionDevice \<Rightarrow> jd_router_capacity (pdd_join_data d)) \<and>
     nb_incoming_cost (pdd_neighbor d) \<le> Cost3"

text \<open>The positions of the potential parents, the best first.\<close>

definition get_potential_parents :: "bool \<Rightarrow> mac_device_type \<Rightarrow> network_descriptor \<Rightarrow> nat list" where
  "get_potential_parents require_permit join_as nd =
     (let ds = nd_neighbors nd;
          ps = filter (\<lambda>i. is_potential_parent require_permit join_as (ds ! i)) [0..<length ds] in
      if nd_stack_profile nd = Zigbee then sort_key (\<lambda>i. jd_depth (pdd_join_data (ds ! i))) ps
      else sort_key (\<lambda>i. nb_incoming_cost (pdd_neighbor (ds ! i))) ps)"

definition discovered_device :: "instant \<Rightarrow> nwk_addr \<Rightarrow> pan_descriptor \<Rightarrow> zigbee_beacon \<Rightarrow> pan_descriptor_device" where
  "discovered_device now addr pd b = \<lparr>
     pdd_neighbor = (neighbor_default now)\<lparr> nb_nwk_addr := addr, nb_device_type := Router,
       nb_relationship := OtherRelationship, nb_incoming_cost := compute_routing_cost (pd_link_quality pd),
       nb_outgoing_cost := link_cost_default \<rparr>,
     pdd_join_data = \<lparr> jd_depth = np_device_depth (zb_network_parameters b),
       jd_beacon_order = ss_beacon_order (pd_superframe_spec pd),
       jd_permit_joining = ss_association_permit (pd_superframe_spec pd),
       jd_router_capacity = np_router_capacity (zb_network_parameters b),
       jd_end_device_capacity = np_end_device_capacity (zb_network_parameters b),
       jd_potential_parent = True \<rparr> \<rparr>"

definition discovered_network :: "pan_id \<Rightarrow> pan_descriptor \<Rightarrow> zigbee_beacon \<Rightarrow> pan_descriptor_device \<Rightarrow> network_descriptor" where
  "discovered_network pan pd b d = \<lparr> nd_extended_pan_id = zb_extended_pan_id b, nd_pan_id = pan,
     nd_update_id = zb_update_id b, nd_logical_channel = pd_channel pd,
     nd_stack_profile = np_stack_profile (zb_network_parameters b),
     nd_zigbee_version = np_protocol_version (zb_network_parameters b),
     nd_superframe_order = ss_superframe_order (pd_superframe_spec pd), nd_neighbors = [d] \<rparr>"

text \<open>A beacon of a known network adds a device to it, another one a network.\<close>

definition add_descriptor :: "instant \<Rightarrow> radio \<Rightarrow> pan_descriptor \<Rightarrow> network_descriptor list \<Rightarrow> network_descriptor list" where
  "add_descriptor now R pd nds =
     (case (pd_coord_address pd, rd_beacon R (pd_payload pd)) of
        (MacShort pan addr, Inr b) \<Rightarrow>
          (let d = discovered_device now addr pd b;
               same = (\<lambda>nd. nd_extended_pan_id nd = zb_extended_pan_id b) in
           if find same nds = None then nds @ [discovered_network pan pd b d]
           else update_first same (nd_neighbors_update (\<lambda>ds. ds @ [d])) nds)
      | _ \<Rightarrow> nds)"

fun scan_masks :: "env \<Rightarrow> radio \<Rightarrow> channel_mask list \<Rightarrow> pan_descriptor list act" where
  "scan_masks E R [] = act_return []"
| "scan_masks E R (m # ms) =
     act_bind (mac_scan E R m) (\<lambda>b. act_bind (scan_masks E R ms) (\<lambda>pds. act_return (b @ pds)))"

fun channel_intersections :: "channel_mask \<Rightarrow> channel_mask list \<Rightarrow> channel_mask list run" where
  "channel_intersections mac [] = Done []"
| "channel_intersections mac (m # ms) =
     run_bind (intersect_with m mac) (\<lambda>i. run_map (\<lambda>is. if i = 0 then is else i # is) (channel_intersections mac ms))"

definition network_discovery ::
  "env \<Rightarrow> radio \<Rightarrow> channel_mask list \<Rightarrow> (string + network_descriptor list) act" where
  "network_discovery E R masks =
     act_bind (act_run (channel_intersections (rd_channel_mask R) masks)) (\<lambda>is.
     if is = [] then act_return (Inl ''requested channels do not match any available channels'')
     else act_bind (scan_masks E R is) (\<lambda>pds.
       act_return (Inr (fold (add_descriptor (ev_now E) R) pds []))))"

section \<open>Permitting joins\<close>

datatype permit_joining_config = PermitDisabled | PermitForPeriod u8 | PermitEnabled

text \<open>\<open>Instant::MAX\<close> counts the ticks of a 64-bit clock.\<close>

definition permit_joining :: "env \<Rightarrow> permit_joining_config \<Rightarrow> unit act" where
  "permit_joining E cfg = set_association_permit_timeout (case cfg of
       PermitDisabled \<Rightarrow> 0
     | PermitForPeriod secs \<Rightarrow> ev_now E + from_secs (unat secs)
     | PermitEnabled \<Rightarrow> 2 ^ 64 - 1)"

section \<open>Joining\<close>

datatype join_error = JoinInvalidRequest | JoinNotPermitted string | JoinNoNetworks
  | JoinAssociationError association_error | JoinScanError scan_error | JoinSecurityError sec_error
  | JoinTransferError transfer_error

definition joined_mode :: "zb_capabilities \<Rightarrow> nwk_mode" where
  "joined_mode caps = (case zc_device_type caps of
     ReducedFunctionDevice \<Rightarrow> JoinedAsEndDevice | FullFunctionDevice \<Rightarrow> JoinedAsRouter)"

definition joined_depth :: "u8 \<Rightarrow> u8 run" where
  "joined_depth d = (if d = 0xf then Done 0xf else chk_add d 1)"

definition to_joined ::
  "env \<Rightarrow> pan_descriptor_device \<Rightarrow> nwk_neighbor list \<Rightarrow> stack_profile \<Rightarrow> zb_capabilities \<Rightarrow> nwk_mode act" where
  "to_joined E parent ns profile caps =
     act_bind (act_run (joined_depth (jd_depth (pdd_join_data parent)))) (\<lambda>depth.
     act_then (ctx_update (\<lambda>_. (nwk_context_default (ev_now E))\<lparr>
         cx_neighbors := neighbor_table_new (pdd_neighbor parent) ns,
         cx_profile := profile, cx_depth := depth \<rparr>))
       (act_return (joined_mode caps)))"

definition to_joined_pending :: "nwk_neighbor \<Rightarrow> u8 \<Rightarrow> zb_capabilities \<Rightarrow> nwk_mode act" where
  "to_joined_pending parent parent_depth caps =
     act_then (neighbors_update (\<lambda>_. neighbor_table_new parent []))
     (act_bind (act_run (joined_depth parent_depth)) (\<lambda>depth.
      act_then (ctx_update (\<lambda>c. c\<lparr> cx_depth := depth \<rparr>)) (act_return (joined_mode caps))))"

definition joined_parent :: "ext_addr \<Rightarrow> pan_descriptor_device \<Rightarrow> pan_descriptor_device" where
  "joined_parent ext = pdd_neighbor_update (\<lambda>nb. nb\<lparr> nb_ext_addr := Some ext, nb_relationship := Parent \<rparr>)"

definition refuse_parent :: "association_error \<Rightarrow> pan_descriptor_device \<Rightarrow> pan_descriptor_device" where
  "refuse_parent e d =
     (if e = AssocErrPanAccessDenied \<or> e = AssocErrPanAtCapacity
      then pdd_join_data_update (jd_potential_parent_update (\<lambda>_. False)) d else d)"

text \<open>The parents are asked in turn; the result is the position of the one that answered, or the
  last error.\<close>

fun associate_loop ::
  "env \<Rightarrow> radio \<Rightarrow> channel \<Rightarrow> pan_id \<Rightarrow> zb_capabilities \<Rightarrow> nat list \<Rightarrow> join_error \<Rightarrow>
   pan_descriptor_device list \<Rightarrow> ((join_error + nat) \<times> pan_descriptor_device list) act" where
  "associate_loop E R ch pan caps [] err ds = act_return (Inl err, ds)"
| "associate_loop E R ch pan caps (i # is) err ds =
     act_bind (mac_associate E R ch (MacShort pan (nb_nwk_addr (pdd_neighbor (ds ! i))))
         (mac_of_zb_capabilities caps)) (\<lambda>r. case r of
       Inl e \<Rightarrow> associate_loop E R ch pan caps is (JoinAssociationError e) (ds[i := refuse_parent e (ds ! i)])
     | Inr (_, ext) \<Rightarrow> act_return (Inr i, ds[i := joined_parent ext (ds ! i)]))"

definition association_join ::
  "env \<Rightarrow> radio \<Rightarrow> network_descriptor \<Rightarrow> zb_capabilities \<Rightarrow>
   ((join_error + nwk_mode) \<times> network_descriptor) act" where
  "association_join E R nd caps =
     (let ps = get_potential_parents True (zc_device_type caps) nd in
      act_bind (associate_loop E R (nd_logical_channel nd) (nd_pan_id nd) caps ps
         (JoinNotPermitted ''no potential parent devices found'') (nd_neighbors nd)) (\<lambda>(r, ds). case r of
        Inl e \<Rightarrow> act_return (Inl e, nd\<lparr> nd_neighbors := ds \<rparr>)
      | Inr i \<Rightarrow>
          act_bind (to_joined E (ds ! i) (map (\<lambda>j. pdd_neighbor (ds ! j)) (filter (\<lambda>j. j \<noteq> i) ps))
             (nd_stack_profile nd) caps) (\<lambda>mode. act_return (Inr mode, nd\<lparr> nd_neighbors := ds \<rparr>))))"

section \<open>Rejoining\<close>

text \<open>\<open>wait_for_frame\<close>: the frames that arrive before the timeout, until one is accepted. A frame that
  cannot be decrypted is skipped.\<close>

fun wait_for_frame :: "env \<Rightarrow> (nwk_frame \<Rightarrow> 'v option) \<Rightarrow> received_mac_frame list \<Rightarrow> 'v option act" where
  "wait_for_frame E eval [] = act_return None"
| "wait_for_frame E eval (rf # rfs) =
     act_bind (poll_frame rf) (\<lambda>mi. case mi of
       Some (MacData ind) \<Rightarrow>
         (if mi_dest_address ind = None then wait_for_frame E eval rfs
          else act_bind (nwk_decrypt_frame E (mi_payload ind)) (\<lambda>r. case r of
            Inl _ \<Rightarrow> wait_for_frame E eval rfs
          | Inr (frame, _) \<Rightarrow>
              (case eval frame of Some v \<Rightarrow> act_return (Some v) | None \<Rightarrow> wait_for_frame E eval rfs)))
     | _ \<Rightarrow> wait_for_frame E eval rfs)"

definition rejoin_response_of :: "nwk_frame \<Rightarrow> (nwk_header \<times> rejoin_response) option" where
  "rejoin_response_of f = (case f of
     NwkCommand c \<Rightarrow> (case cf_command c of RejoinResponse rsp \<Rightarrow> Some (cf_header c, rsp) | _ \<Rightarrow> None)
   | _ \<Rightarrow> None)"

text \<open>The parent's addresses are not known: the code asks the default addresses and accepts a
  response from the default extended address only. The address in the response is not used.\<close>

definition accept_rejoin ::
  "env \<Rightarrow> ext_addr \<Rightarrow> nwk_header \<times> rejoin_response \<Rightarrow> nwk_neighbor option" where
  "accept_rejoin E slf r =
     (case (nh_destination_ieee (fst r), nh_source_ieee (fst r)) of
        (Some dst, Some src) \<Rightarrow>
          if dst \<noteq> slf \<or> src \<noteq> ext_addr_default then None
          else (case snd r of
              RejoinSuccess _ \<Rightarrow> Some (neighbor_new (ev_now E) \<lparr> nn_ext_addr = src,
                nn_nwk_addr = nh_source (fst r), nn_device_type = Router, nn_rx_on_when_idle = False,
                nn_relationship = Parent \<rparr>)
            | _ \<Rightarrow> None)
      | _ \<Rightarrow> None)"

definition try_rejoin ::
  "env \<Rightarrow> radio \<Rightarrow> channel \<Rightarrow> pan_id \<Rightarrow> zb_capabilities \<Rightarrow> nwk_neighbor option act" where
  "try_rejoin E R ch pan caps =
     act_then (set_channel ch) (act_then (set_pan_id (Some pan))
     (act_bind (send_rejoin_request_cmd E nwk_addr_default ext_addr_default caps) (\<lambda>r. case r of
        Inl _ \<Rightarrow> act_return None
      | Inr _ \<Rightarrow>
          act_bind (received R) (\<lambda>fs.
          act_bind (wait_for_frame E rejoin_response_of fs) (\<lambda>rsp.
          act_bind (act_gets get_ext_addr) (\<lambda>slf.
            act_return (Option.bind rsp (accept_rejoin E slf))))))))"

fun rejoin_loop ::
  "env \<Rightarrow> radio \<Rightarrow> channel \<Rightarrow> pan_id \<Rightarrow> zb_capabilities \<Rightarrow> pan_descriptor_device list \<Rightarrow>
   (join_error + nwk_mode) act" where
  "rejoin_loop E R ch pan caps [] = act_return (Inl JoinNoNetworks)"
| "rejoin_loop E R ch pan caps (d # ds) =
     act_bind (try_rejoin E R ch pan caps) (\<lambda>p. case p of
       None \<Rightarrow> rejoin_loop E R ch pan caps ds
     | Some parent \<Rightarrow> act_bind (to_joined_pending parent (jd_depth (pdd_join_data d)) caps)
         (\<lambda>mode. act_return (Inr mode)))"

record rejoin_request_params =
  rj_ext_pan_id :: ext_addr
  rj_channels :: "channel_mask list"
  rj_capability_information :: zb_capabilities

definition rejoin :: "env \<Rightarrow> radio \<Rightarrow> rejoin_request_params \<Rightarrow> (join_error + nwk_mode) act" where
  "rejoin E R req =
     act_bind (network_discovery E R (rj_channels req)) (\<lambda>r. case r of
       Inl _ \<Rightarrow> act_return (Inl JoinInvalidRequest)
     | Inr nds \<Rightarrow>
         (case find (\<lambda>nd. nd_extended_pan_id nd = rj_ext_pan_id req) nds of
            None \<Rightarrow> act_return (Inl JoinNoNetworks)
          | Some nd \<Rightarrow>
              rejoin_loop E R (nd_logical_channel nd) (nd_pan_id nd) (rj_capability_information req)
                (map (\<lambda>i. nd_neighbors nd ! i)
                  (get_potential_parents False (zc_device_type (rj_capability_information req)) nd))))"

section \<open>Direct joins and leaving\<close>

record direct_join_req =
  dj_ext_addr :: ext_addr
  dj_full_function_device :: bool
  dj_idle_receive :: bool

datatype direct_join_error = DirectInvalidRequest string | DirectAlreadyPresent | DirectNeighborTableFull

definition direct_join :: "env \<Rightarrow> direct_join_req \<Rightarrow> (direct_join_error + unit) act" where
  "direct_join E req =
     act_bind (assign_child_address E) (\<lambda>addr.
     act_bind (act_gets (\<lambda>s. find_by_ext_addr (dj_ext_addr req) (cx_neighbors (nk_ctx s)))) (\<lambda>old.
     if old \<noteq> None then act_return (Inl DirectAlreadyPresent)
     else act_then (neighbors_update (\<lambda>t. nbs_push (neighbor_new (ev_now E) \<lparr> nn_ext_addr = dj_ext_addr req,
          nn_nwk_addr = addr, nn_device_type = (if dj_full_function_device req then Coordinator else EndDevice),
          nn_rx_on_when_idle = dj_idle_receive req, nn_relationship = Child \<rparr>) (nbs_cleanup (ev_now E) t)))
        (act_return (Inr ()))))"

datatype leave_error = LeaveInvalidRequest | LeaveUnknownDevice | LeaveSecurityError sec_error
  | LeaveTransferError transfer_error

datatype router_leave_req = RemoveSelf bool bool | RemoveChild ext_addr bool bool

definition leave_result :: "transfer_result \<Rightarrow> leave_error + unit" where
  "leave_result r = map_sum LeaveTransferError id r"

definition leave_end_device :: "env \<Rightarrow> bool \<Rightarrow> (leave_error + unit) act" where
  "leave_end_device E rj =
     act_bind (emit_leave_cmd E \<lparr> lv_rejoin = rj, lv_request = False, lv_remove_children = False \<rparr>
       BROADCAST_RX_ON_IDLE None) (\<lambda>r. act_return (leave_result r))"

definition leave_router :: "env \<Rightarrow> router_leave_req \<Rightarrow> (leave_error + unit) act" where
  "leave_router E req =
     (case req of
        RemoveSelf remove_children rj \<Rightarrow>
          act_bind (emit_leave_cmd E \<lparr> lv_rejoin = rj, lv_request = False, lv_remove_children = remove_children \<rparr>
            NWK_ADDR_MAX None) (\<lambda>r. act_return (leave_result r))
      | RemoveChild ext remove_children rj \<Rightarrow>
          act_bind (act_gets (\<lambda>s. map_option nb_nwk_addr (find_by_ext_addr ext (cx_neighbors (nk_ctx s))))) (\<lambda>a.
          case a of
            None \<Rightarrow> act_return (Inl LeaveUnknownDevice)
          | Some addr \<Rightarrow>
              act_bind (emit_leave_cmd E \<lparr> lv_rejoin = rj, lv_request = False, lv_remove_children = remove_children \<rparr>
                addr (Some ext)) (\<lambda>r. act_return (leave_result r))))"

section \<open>Transitions\<close>

definition nwk_reset :: "env \<Rightarrow> radio \<Rightarrow> nwk_mode act" where
  "nwk_reset E R = act_then (mac_reset R)
     (act_then (ctx_update (\<lambda>_. nwk_context_default (ev_now E))) (act_return Uninitialized))"

definition to_pending_rejoin :: "nwk_mode act" where
  "to_pending_rejoin =
     act_then (neighbors_update (\<lambda>t. neighbor_table_new (nt_parent t) [])) (act_return PendingJoin)"

definition to_router :: "nwk_mode act" where
  "to_router = act_return JoinedAsRouter"

section \<open>The persistent context\<close>

record persistent_nwk_context =
  pn_addr :: nwk_addr
  pn_ext_pan_id :: ext_addr
  pn_pan_id :: pan_id
  pn_parent :: nwk_neighbor
  pn_parent_information :: parent_information
  pn_profile :: stack_profile
  pn_depth :: u8
  pn_active_key_seq_number :: u8
  pn_all_fresh :: bool
  pn_security_material_set :: "security_material list"
  pn_neighbor_table :: "neighbor_table option"

definition persistent_of :: "persistent_nwk_context act" where
  "persistent_of =
     act_bind get_addr (\<lambda>addr. act_bind get_ext_pan_id (\<lambda>ext. act_bind get_pan_id (\<lambda>pan.
     act_gets (\<lambda>s. \<lparr> pn_addr = addr, pn_ext_pan_id = ext, pn_pan_id = pan,
       pn_parent = nwk_parent s, pn_parent_information = cx_parent_information (nk_ctx s),
       pn_profile = cx_profile (nk_ctx s), pn_depth = cx_depth (nk_ctx s),
       pn_active_key_seq_number = cx_active_key_seq_number (nk_ctx s),
       pn_all_fresh = cx_all_fresh (nk_ctx s),
       pn_security_material_set = cx_security_material_set (nk_ctx s),
       pn_neighbor_table = Some (cx_neighbors (nk_ctx s)) \<rparr>))))"

text \<open>Writing to the storage and reading back are parameters: the derived codec of the record, and the
  driver of the storage. \<open>load\<close> gets what the storage reads, and the MAC.\<close>

definition nwk_persist ::
  "(persistent_nwk_context \<Rightarrow> byte_error + bytes) \<Rightarrow> (byte_error + bytes) act" where
  "nwk_persist enc = act_bind persistent_of (\<lambda>p. act_return (enc p))"

definition nwk_load ::
  "instant \<Rightarrow> (bytes \<Rightarrow> byte_error + persistent_nwk_context) \<Rightarrow> bytes \<Rightarrow> mac_state \<Rightarrow> byte_error + nwk" where
  "nwk_load now dec buf mac = map_sum id (\<lambda>p. \<lparr>
     nk_mac = mac\<lparr> ms_pan_id := Some (pn_pan_id p), ms_short_address := Some (pn_addr p),
       ms_extended_pan_id := Some (pn_ext_pan_id p) \<rparr>,
     nk_seq_number = 0,
     nk_ctx = (nwk_context_default now)\<lparr> cx_addr_map := [], cx_group_table := [],
       cx_neighbors := neighbor_table_new (pn_parent p) [],
       cx_parent_information := pn_parent_information p, cx_profile := pn_profile p, cx_update_id := 0,
       cx_active_key_seq_number := pn_active_key_seq_number p, cx_all_fresh := pn_all_fresh p,
       cx_security_material_set := pn_security_material_set p, cx_route_request_counter := 0,
       cx_depth := pn_depth p \<rparr>,
     nk_rand = 0, nk_sent = [] \<rparr>) (dec buf)"

end
