(* ===== verification/Zdp.thy ===== *)
theory Zdp
  imports Zdp_Types Loops Nlme
begin

text \<open>
  The services of the device profile (\<open>apl/zdp/service.rs\<close>): how a node on a network answers the
  requests of the profile and which it sends itself. The node is the record \<open>joined_node\<close>
  (\<open>ZbNode\<close> with one of its two joined contexts, \<open>apl/zdo/mod.rs\<close>); what belongs to the hardware and to
  derived codecs is in the record \<open>node_env\<close>, with a radio of its own for the wait for the network key, before
  which nothing is sent.
\<close>

section \<open>The node\<close>

text \<open>What an application, an object behind a trait, answers to the questions of the profile.\<close>

datatype cluster_type = ServerCluster | ClientCluster

record zb_application =
  za_profile_id :: u16
  za_device_id :: u16
  za_version :: u8
  za_clusters :: "(cluster_type \<times> u16) list"

text \<open>The regions of the storage that the layers own, and its driver.\<close>

record storage =
  st_nwk :: bytes
  st_aps :: bytes

record storage_driver =
  dr_load :: "bytes \<Rightarrow> string + bytes"
  dr_persist :: "bytes \<Rightarrow> bytes \<Rightarrow> (string + unit) \<times> bytes"
  dr_clear :: "bytes \<Rightarrow> bytes"

record joined_node =
  nd_mode :: nwk_mode
  nd_aps :: aps
  nd_zcl_transaction_number :: u8
  nd_config :: zb_config
  nd_applications :: "(aps_endpoint, zb_application) imap"
  nd_storage :: storage

record node_env =
  ne_env :: env
  ne_radio :: radio
  ne_key_radio :: radio
  ne_aps :: aps_codecs
  ne_zdp :: zdp_codecs
  ne_iter :: "binding set \<Rightarrow> binding list"
  ne_driver :: storage_driver
  ne_write_nwk :: "persistent_nwk_context \<Rightarrow> byte_error + bytes"
  ne_read_nwk :: "bytes \<Rightarrow> byte_error + persistent_nwk_context"
  ne_write_aps :: "binding set \<times> aps_group_entry list \<Rightarrow> byte_error + bytes"
  ne_read_aps :: "bytes \<Rightarrow> byte_error + binding set \<times> aps_group_entry list"

type_synonym 'a node_act = "(joined_node, 'a) action"
type_synonym 'a node_loop = "(joined_node, 'a) loop"

definition with_aps :: "'a aps_act \<Rightarrow> 'a node_act" where
  "with_aps = act_within nd_aps (\<lambda>a s. s\<lparr> nd_aps := a \<rparr>)"

definition aps_in_node :: "'a aps_loop \<Rightarrow> 'a node_loop" where
  "aps_in_node = lp_within nd_aps (\<lambda>a s. s\<lparr> nd_aps := a \<rparr>)"

interpretation aps_part: state_part nd_aps "\<lambda>a s. s\<lparr> nd_aps := a \<rparr>"
  by unfold_locales simp_all

definition node_nwk :: "'a act \<Rightarrow> 'a node_act" where
  "node_nwk m = with_aps (with_nwk m)"

abbreviation nwk_of :: "joined_node \<Rightarrow> nwk" where
  "nwk_of s \<equiv> as_nwk (nd_aps s)"

definition node_is_router :: "joined_node \<Rightarrow> bool" where
  "node_is_router s \<longleftrightarrow> nd_mode s \<noteq> JoinedAsEndDevice"

text \<open>The incremented number is not stored.\<close>

definition get_zcl_transaction_number :: "joined_node \<Rightarrow> u8" where
  "get_zcl_transaction_number s = nd_zcl_transaction_number s + 1"

definition get_descriptor_for_endpoint :: "aps_endpoint \<Rightarrow> zb_application \<Rightarrow> simple_descriptor" where
  "get_descriptor_for_endpoint ep a = \<lparr> sd_endpoint = ep,
     sd_application_profile_identifier = za_profile_id a, sd_application_device_identifier = za_device_id a,
     sd_application_device_version = za_version a,
     sd_application_input_cluster_list = map snd (List.filter (\<lambda>c. fst c = ServerCluster) (za_clusters a)),
     sd_application_output_cluster_list = map snd (List.filter (\<lambda>c. fst c = ClientCluster) (za_clusters a)) \<rparr>"

section \<open>Sending\<close>

definition zdp_request ::
  "node_env \<Rightarrow> apsde_address \<Rightarrow> transaction_data \<Rightarrow> u8 \<Rightarrow> apsde_request" where
  "zdp_request N dst d seq = \<lparr> rq_dst_address = dst, rq_profile_id = ZDP_PROFILE, rq_cluster_id = discriminant d,
     rq_src_endpoint = ZDP_ENDPOINT,
     rq_asdu = zx_write_command (ne_zdp N)
       \<lparr> zp_transaction_sequence_number = seq, zp_transaction_data = d \<rparr>,
     rq_tx_options = tx_options_default, rq_alias = None, rq_radius = None \<rparr>"

definition transmit_zdp_command ::
  "node_env \<Rightarrow> apsde_address \<Rightarrow> transaction_data \<Rightarrow> u8 option \<Rightarrow> aps_result node_loop" where
  "transmit_zdp_command N dst d seq s =
     aps_in_node (aps_data_request (ne_iter N) (ne_env N) (ne_radio N) (ne_aps N) (nd_mode s)
       (zdp_request N dst d (case seq of Some n \<Rightarrow> n | None \<Rightarrow> get_zcl_transaction_number s))) s"

type_synonym optional_aps_result = "apsde_error + unit option"

definition to_optional :: "aps_result \<Rightarrow> optional_aps_result" where
  "to_optional r = map_sum id Some r"

text \<open>How a handler ends: with the transmission of a response to the source, or without one.\<close>

definition respond ::
  "node_env \<Rightarrow> aps_data_indication \<Rightarrow> u8 \<Rightarrow> transaction_data option \<Rightarrow> optional_aps_result node_loop" where
  "respond N ind seq d = (case d of
     None \<Rightarrow> lp_of (act_return (Inr None))
   | Some x \<Rightarrow> lp_bind (transmit_zdp_command N (adi_src ind) x (Some seq)) (\<lambda>r. lp_of (act_return (to_optional r))))"

section \<open>Requests for addresses\<close>

datatype status_result = ThisDevice nwk_addr | Neighbour nwk_neighbor | InvRequestType | DeviceNotFound

definition get_status_and_neighbours :: "nwk_addr \<Rightarrow> status_result node_act" where
  "get_status_and_neighbours a =
     act_bind (node_nwk get_addr) (\<lambda>slf.
     if a = slf then act_return (ThisDevice a)
     else act_gets (\<lambda>s. case find (\<lambda>nb. nb_nwk_addr nb = a) (neighbors (nwk_of s)) of
       Some nb \<Rightarrow> Neighbour nb | None \<Rightarrow> DeviceNotFound))"

definition associated_devices :: "nat \<Rightarrow> joined_node \<Rightarrow> nwk_addr list" where
  "associated_devices start s =
     map nb_nwk_addr (drop start (List.filter (\<lambda>nb. nb_device_type nb = EndDevice) (neighbors (nwk_of s))))"

definition handle_extended_addr_request :: "u8 \<Rightarrow> addr_rsp \<Rightarrow> addr_rsp node_act" where
  "handle_extended_addr_request start rsp =
     act_bind (node_nwk get_addr) (\<lambda>addr. act_gets (\<lambda>s.
       let devices = associated_devices (unat start) s in
       rsp\<lparr> ar_status := AddrSuccess, ar_nwk_addr := addr, ar_ieee_addr := get_ext_addr (nwk_of s),
         ar_num_assoc := Some (of_nat (length devices)), ar_start_index := Some start,
         ar_nwk_addr_assoc_dev_list := Some devices \<rparr>))"

definition handle_addr_request_no_matches :: "aps_data_indication \<Rightarrow> transaction_data \<Rightarrow> transaction_data option" where
  "handle_addr_request_no_matches ind d = (if aps_is_broadcast (adi_dst ind) then Some d else None)"

definition nwk_addr_response :: "aps_data_indication \<Rightarrow> nwk_addr_req \<Rightarrow> transaction_data option node_act" where
  "nwk_addr_response ind req =
     (let rsp = \<lparr> ar_status = AddrDeviceNotFound, ar_ieee_addr = nar_ieee_address req, ar_nwk_addr = NWK_ADDR_MAX,
        ar_num_assoc = None, ar_start_index = None, ar_nwk_addr_assoc_dev_list = None \<rparr> in
      act_bind (node_nwk (find_nwk_addr (nar_ieee_address req))) (\<lambda>a. case a of
        None \<Rightarrow> act_return (handle_addr_request_no_matches ind (NwkAddrRsp rsp))
      | Some addr \<Rightarrow>
          act_bind (case nar_request_type req of
              SingleDevice \<Rightarrow> act_return (rsp\<lparr> ar_status := AddrSuccess, ar_nwk_addr := addr \<rparr>)
            | ExtendedResponse start \<Rightarrow> handle_extended_addr_request start rsp)
            (\<lambda>r. act_return (Some (NwkAddrRsp r)))))"

definition ieee_addr_response :: "aps_data_indication \<Rightarrow> ieee_addr_req \<Rightarrow> transaction_data option node_act" where
  "ieee_addr_response ind req =
     act_bind (node_nwk get_addr) (\<lambda>slf.
     let rsp = \<lparr> ar_status = AddrDeviceNotFound, ar_ieee_addr = - 1, ar_nwk_addr = slf,
        ar_num_assoc = None, ar_start_index = None, ar_nwk_addr_assoc_dev_list = None \<rparr> in
     act_bind (node_nwk (find_ext_addr (iar_nwk_addr_of_interest req))) (\<lambda>a. case a of
       None \<Rightarrow> act_return (handle_addr_request_no_matches ind (IeeeAddrRsp rsp))
     | Some addr \<Rightarrow>
         act_bind (case iar_request_type req of
             SingleDevice \<Rightarrow> act_return (rsp\<lparr> ar_status := AddrSuccess, ar_ieee_addr := addr \<rparr>)
           | ExtendedResponse start \<Rightarrow> handle_extended_addr_request start rsp)
           (\<lambda>r. act_return (Some (IeeeAddrRsp r)))))"

section \<open>Requests for descriptors\<close>

definition desc_status :: "status_result \<Rightarrow> desc_rsp_status" where
  "desc_status r = (case r of ThisDevice _ \<Rightarrow> DescSuccess | Neighbour _ \<Rightarrow> DescNoDescriptor
     | InvRequestType \<Rightarrow> DescInvRequestType | DeviceNotFound \<Rightarrow> DescDeviceNotFound)"

definition if_this_device :: "status_result \<Rightarrow> 'a \<Rightarrow> 'a option" where
  "if_this_device r x = (case r of ThisDevice _ \<Rightarrow> Some x | _ \<Rightarrow> None)"

definition node_desc_response :: "nwk_addr \<Rightarrow> transaction_data option node_act" where
  "node_desc_response a =
     act_bind (get_status_and_neighbours a) (\<lambda>r. act_gets (\<lambda>s. Some (NodeDescRsp \<lparr> nd_rsp_status = desc_status r,
       nd_rsp_nwk_addr = a, nd_rsp_node_descriptor = if_this_device r (get_node_descriptor (nd_config s)) \<rparr>)))"

definition power_desc_response :: "nwk_addr \<Rightarrow> transaction_data option node_act" where
  "power_desc_response a =
     act_bind (get_status_and_neighbours a) (\<lambda>r. act_gets (\<lambda>s. Some (PowerDescRsp \<lparr> pd_rsp_status = desc_status r,
       pd_rsp_nwk_addr = a, pd_rsp_power_descriptor = if_this_device r (get_power_descriptor (nd_config s)) \<rparr>)))"

definition simple_desc_response :: "simple_desc_req \<Rightarrow> transaction_data option node_act" where
  "simple_desc_response req =
     (let a = sdr_nwk_addr_of_interest req; ep = sdr_endpoint req;
          rsp = (\<lambda>st d. Some (SimpleDescRsp \<lparr> sd_rsp_status = st, sd_rsp_nwk_addr = a, sd_rsp_simple_descriptor = d \<rparr>)) in
      if ep = 0 \<or> 240 < ep then act_return (rsp SimpleInvalidEp None)
      else act_bind (get_status_and_neighbours a) (\<lambda>r. case r of
        ThisDevice _ \<Rightarrow> act_gets (\<lambda>s. case im_get ep (nd_applications s) of
            Some app \<Rightarrow> rsp SimpleSuccess (Some (get_descriptor_for_endpoint ep app))
          | None \<Rightarrow> rsp SimpleInvalidEp None)
      | Neighbour _ \<Rightarrow> act_return (rsp SimpleNoDescriptor None)
      | InvRequestType \<Rightarrow> act_return (rsp SimpleInvRequestType None)
      | DeviceNotFound \<Rightarrow> act_return (rsp SimpleDeviceNotFound None)))"

definition active_ep_response :: "nwk_addr \<Rightarrow> transaction_data option node_act" where
  "active_ep_response a =
     act_bind (get_status_and_neighbours a) (\<lambda>r. act_gets (\<lambda>s. Some (ActiveEpRsp \<lparr> el_status = desc_status r,
       el_nwk_addr = a,
       el_ep_list = (case r of ThisDevice _ \<Rightarrow> map fst (nd_applications s) | _ \<Rightarrow> []) \<rparr>)))"

definition descriptor_matches_request :: "simple_descriptor \<Rightarrow> match_desc_req \<Rightarrow> bool" where
  "descriptor_matches_request d req \<longleftrightarrow>
     (if sd_application_profile_identifier d \<noteq> mdr_profile_id req \<and> mdr_profile_id req \<noteq> - 1 then False
      else if list_ex (\<lambda>c. c \<in> set (sd_application_input_cluster_list d)) (mdr_in_cluster_list req) then True
      else list_ex (\<lambda>c. c \<in> set (sd_application_output_cluster_list d)) (mdr_out_cluster_list req))"

definition match_list :: "match_desc_req \<Rightarrow> joined_node \<Rightarrow> aps_endpoint list" where
  "match_list req s = map fst (List.filter
     (\<lambda>(ep, app). descriptor_matches_request (get_descriptor_for_endpoint ep app) req) (nd_applications s))"

text \<open>The simple descriptors of a neighbor are never filled in, so the search through those of a child
  finds none.\<close>

definition child_match_status :: "nwk_addr \<Rightarrow> joined_node \<Rightarrow> desc_rsp_status" where
  "child_match_status a s =
     (case find (\<lambda>nb. nb_device_type nb = EndDevice \<and> nb_nwk_addr nb = a) (neighbors (nwk_of s)) of
        Some _ \<Rightarrow> DescNoDescriptor | None \<Rightarrow> DescDeviceNotFound)"

definition match_desc_response :: "aps_data_indication \<Rightarrow> match_desc_req \<Rightarrow> transaction_data option node_act" where
  "match_desc_response ind req =
     (let a = mdr_nwk_addr_of_interest req;
          rsp = (\<lambda>st eps. MatchDescRsp \<lparr> el_status = st, el_nwk_addr = a, el_ep_list = eps \<rparr>) in
      act_bind (node_nwk get_addr) (\<lambda>slf.
      act_gets (\<lambda>s.
        if \<not> node_is_router s \<and> a \<noteq> slf \<and> \<not> is_broadcast a then
          (if aps_is_broadcast (adi_dst ind) then None else Some (rsp DescInvRequestType []))
        else if a = slf \<or> is_broadcast a then
          (let eps = match_list req s in
           if eps = [] \<and> is_broadcast a then None else Some (rsp DescSuccess eps))
        else Some (rsp (child_match_status a s) []))))"

section \<open>Announcements\<close>

definition handle_device_annce :: "aps_data_indication \<Rightarrow> device_annce \<Rightarrow> unit node_act" where
  "handle_device_annce ind req =
     act_bind (act_gets (\<lambda>s. find_by_ext_addr_and_type (da_ieee_addr req) EndDevice (cx_neighbors (nk_ctx (nwk_of s))) \<noteq> None
         \<and> aps_is_broadcast (adi_dst ind))) (\<lambda>known.
     if known then
       (case adi_src ind of
          ApsdeGroup a \<Rightarrow>
            act_bind (act_gets (\<lambda>s. find (\<lambda>r. tr_source_address r = a)
                (cx_broadcast_transaction_table (nk_ctx (nwk_of s))) = None)) (\<lambda>absent.
            if absent then node_nwk (neighbors_update (nbs_retain (\<lambda>nb. nb_ext_addr nb \<noteq> Some (da_ieee_addr req))))
            else act_return ())
        | _ \<Rightarrow> act_return ())
     else node_nwk (addr_map_update (am_insert (da_nwk_addr req) (da_ieee_addr req))))"

definition emit_device_annce :: "node_env \<Rightarrow> aps_result node_loop" where
  "emit_device_annce N =
     lp_bind (lp_of (node_nwk get_addr)) (\<lambda>addr.
     lp_bind (lp_of (act_gets (\<lambda>s. \<lparr> da_nwk_addr = addr, da_ieee_addr = get_ext_addr (nwk_of s),
         da_capability = get_capabilities (nd_config s) \<rparr>))) (\<lambda>annce.
     transmit_zdp_command N (ApsdeNetwork BROADCAST_RX_ON_IDLE ZDP_ENDPOINT) (DeviceAnnce annce) None))"

definition emit_node_desc_request :: "node_env \<Rightarrow> nwk_addr \<Rightarrow> u8 \<Rightarrow> aps_result node_loop" where
  "emit_node_desc_request N a seq = transmit_zdp_command N (ApsdeNetwork a ZDP_ENDPOINT) (NodeDescReq a) (Some seq)"

text \<open>The end devices of the neighbor table that another parent announces. The jitter of the timer is
  drawn; the timer itself is written and never read.\<close>

definition kept_children :: "ext_addr list \<Rightarrow> joined_node \<Rightarrow> ext_addr list" where
  "kept_children announced s = List.map_filter nb_ext_addr
     (List.filter (\<lambda>nb. (case nb_ext_addr nb of Some e \<Rightarrow> e \<in> set announced | None \<Rightarrow> False)
        \<and> nb_device_type nb = EndDevice \<and> nb_keepalive_received nb) (neighbors (nwk_of s)))"

definition parent_annce_response :: "env \<Rightarrow> ext_addr list \<Rightarrow> transaction_data option node_act" where
  "parent_annce_response E announced =
     act_bind (act_gets (kept_children announced)) (\<lambda>children.
     if children = [] then act_return None
     else act_bind (node_nwk (random_range E 0 10)) (\<lambda>_.
       act_return (Some (ParentAnnceRsp \<lparr> pa_status = ParentAnnceSuccess, pa_children = children \<rparr>))))"

definition server_discovery_response :: "wire \<Rightarrow> server_mask \<Rightarrow> transaction_data option node_act" where
  "server_discovery_response W m =
     act_bind (act_gets (\<lambda>s. get_server_mask (nd_config s))) (\<lambda>own.
     act_bind (act_run (server_mask_value W own)) (\<lambda>v.
     act_bind (act_run (server_mask_value W m)) (\<lambda>w.
     if v AND w = 0 then act_return None
     else act_bind (act_run (server_mask_new W (v AND w))) (\<lambda>x. act_return (Some (SystemServerDiscoveryRsp x))))))"

section \<open>Bindings\<close>

definition bind_response :: "aps_data_indication \<Rightarrow> binding \<Rightarrow> transaction_data option node_act" where
  "bind_response ind b =
     (if aps_is_broadcast (adi_dst ind) then act_return None
      else act_bind (with_aps (bind_request b)) (\<lambda>r. act_return (Some (BindRsp (case r of
        Inr _ \<Rightarrow> BindSuccess | Inl BindTableFull \<Rightarrow> BindStatusTableFull)))))"

definition unbind_response :: "aps_data_indication \<Rightarrow> binding \<Rightarrow> transaction_data option node_act" where
  "unbind_response ind b =
     (if aps_is_broadcast (adi_dst ind) then act_return None
      else act_bind (with_aps (unbind_request b)) (\<lambda>r. act_return (Some (UnbindRsp (case r of
        Inr _ \<Rightarrow> UnbindSuccess | Inl UnbindIllegalRequest \<Rightarrow> UnbindNotAuthorized
      | Inl UnbindInvalidBinding \<Rightarrow> UnbindNoEntry)))))"

section \<open>The dispatch\<close>

text \<open>The response that a command asks for: \<open>None\<close> for the commands that are not implemented.\<close>

definition zdp_response ::
  "env \<Rightarrow> aps_data_indication \<Rightarrow> transaction_data \<Rightarrow> transaction_data option node_act option" where
  "zdp_response E ind d = (case d of
     NwkAddrReq req \<Rightarrow> Some (nwk_addr_response ind req)
   | IeeeAddrReq req \<Rightarrow> Some (ieee_addr_response ind req)
   | NodeDescReq a \<Rightarrow> Some (node_desc_response a)
   | PowerDescReq a \<Rightarrow> Some (power_desc_response a)
   | SimpleDescReq req \<Rightarrow> Some (simple_desc_response req)
   | ActiveEpReq a \<Rightarrow> Some (active_ep_response a)
   | MatchDescReq req \<Rightarrow> Some (match_desc_response ind req)
   | DeviceAnnce req \<Rightarrow> Some (act_then (handle_device_annce ind req) (act_return None))
   | ParentAnnce children \<Rightarrow> Some (parent_annce_response E children)
   | SystemServerDiscoveryReq m \<Rightarrow> Some (server_discovery_response (ev_wire E) m)
   | BindReq b \<Rightarrow> Some (bind_response ind b)
   | UnbindReq b \<Rightarrow> Some (unbind_response ind b)
   | _ \<Rightarrow> None)"

definition handle_zdp_command :: "node_env \<Rightarrow> aps_data_indication \<Rightarrow> optional_aps_result node_loop" where
  "handle_zdp_command N ind =
     lp_bind (lp_of (act_run (read_zdp_command (ne_zdp N) (adi_cluster_id ind) (adi_asdu ind)))) (\<lambda>r. case r of
       Inl e \<Rightarrow> lp_of (act_return (Inl (ApsByteError e)))
     | Inr (cmd, _) \<Rightarrow> (case zdp_response (ne_env N) ind (zp_transaction_data cmd) of
           None \<Rightarrow> lp_of (act_return (Inl (ApsNotSupported ''command not implemented for cluster'')))
         | Some m \<Rightarrow> lp_bind (lp_of m) (respond N ind (zp_transaction_sequence_number cmd))))"

section \<open>Permission to join\<close>

text \<open>The response is read from the start of the ASDU, where the sequence number is; a value that cannot
  be read panics.\<close>

definition permit_rsp_of :: "zdp_codecs \<Rightarrow> aps_indication \<Rightarrow> mgmt_permit_joining_rsp run option" where
  "permit_rsp_of X i = (case i of
     ApsIndData d \<Rightarrow> if adi_profile_id d = 0 \<and> adi_cluster_id d = MGMT_PERMIT_JOINING_RSP
       then Some (case zx_read_permit_rsp X (adi_asdu d) of Inl _ \<Rightarrow> Panic | Inr (r, _) \<Rightarrow> Done r) else None
   | _ \<Rightarrow> None)"

definition emit_permit_joining_req ::
  "node_env \<Rightarrow> mgmt_permit_joining_req \<Rightarrow> apsde_address \<Rightarrow> (apsde_error + mgmt_permit_joining_rsp) node_loop" where
  "emit_permit_joining_req N req dst =
     lp_bind (transmit_zdp_command N dst (MgmtPermitJoiningReq req) None) (\<lambda>r. case r of
       Inl e \<Rightarrow> lp_of (act_return (Inl e))
     | Inr _ \<Rightarrow>
         lp_bind (lp_of (act_gets nd_mode)) (\<lambda>mode.
         lp_bind (lp_of (with_aps (wait_for_indication (ne_env N) (ne_radio N) (ne_aps N) mode
             (permit_rsp_of (ne_zdp N))))) (\<lambda>w. case w of
           None \<Rightarrow> lp_of (act_return (Inl (ApsNotSupported ''permit joining didn't succeed'')))
         | Some rsp \<Rightarrow> lp_bind (lp_of (act_run rsp)) (\<lambda>x. lp_of (act_return (Inr x))))))"

end
