(* ===== verification/Zdp_Codecs.thy ===== *)
theory Zdp_Codecs
  imports Zdp_Types
begin

text \<open>
  Round trips of the device profile: the bit structs of the descriptors, the length prefix, and the
  hand-written codecs of requests and responses.
\<close>

section \<open>The enums of the descriptors\<close>

primrec device_type_u8 :: "device_type \<Rightarrow> u8" where
  "device_type_u8 Coordinator = 0" | "device_type_u8 Router = 1" | "device_type_u8 EndDevice = 2"

primrec power_mode_u8 :: "current_power_mode \<Rightarrow> u8" where
  "power_mode_u8 Synchronized = 0" | "power_mode_u8 Periodically = 1" | "power_mode_u8 Stimulated = 2"

primrec power_source_u8 :: "current_power_source \<Rightarrow> u8" where
  "power_source_u8 MainsPower = 0" | "power_source_u8 RechargeableBattery = 2"
| "power_source_u8 DisposableBattery = 4"

primrec power_level_u8 :: "current_power_source_level \<Rightarrow> u8" where
  "power_level_u8 PowerCritical = 0" | "power_level_u8 PowerOneThird = 4"
| "power_level_u8 PowerTwoThirds = 8" | "power_level_u8 PowerFull = 12"

definition desc_wire_ok :: "desc_wire \<Rightarrow> bool" where
  "desc_wire_ok V \<longleftrightarrow> enum_codec device_type_u8 (dw_device_type V) \<and> enum_codec power_mode_u8 (dw_power_mode V) \<and>
     enum_codec power_source_u8 (dw_power_source V) \<and> enum_codec power_level_u8 (dw_power_level V)"

definition desc_wire_std :: desc_wire where
  "desc_wire_std = \<lparr> dw_device_type = codec_of [Coordinator, Router, EndDevice] device_type_u8,
     dw_power_mode = codec_of [Synchronized, Periodically, Stimulated] power_mode_u8,
     dw_power_source = codec_of [MainsPower, RechargeableBattery, DisposableBattery] power_source_u8,
     dw_power_level = codec_of [PowerCritical, PowerOneThird, PowerTwoThirds, PowerFull] power_level_u8 \<rparr>"

lemma desc_wire_std_ok: "desc_wire_ok desc_wire_std"
  unfolding desc_wire_ok_def desc_wire_std_def desc_wire.simps
  by (intro conjI enum_codec_of)
    (use device_type.nchotomy current_power_mode.nchotomy current_power_source.nchotomy
      current_power_source_level.nchotomy in auto)

lemma desc_disc_ranges [simp]:
  "unat (device_type_u8 t) < 8" "unat (power_mode_u8 m) < 16" "unat (power_source_u8 s) < 16"
  "unat (power_level_u8 l) < 16"
  by ((cases t; simp), (cases m; simp), (cases s; simp), (cases l; simp))

section \<open>The bit structs of the descriptors\<close>

lemmas desc_layout_defs = frequency_bands_layout_def node_descriptor_info_layout_def server_mask_layout_def
  descriptor_capabilities_layout_def available_power_sources_layout_def node_power_descriptor_layout_def

lemma power_sources_bits:
  assumes "bool_codec (w_bool W)"
  shows "read_power_sources W (power_sources_u8 W s) = Inr s"
    and "unat (power_sources_u8 W s) < 16"
proof -
  note ev = power_sources_u8_def read_power_sources_def struct_value_def struct_read_def bs_get_value_def
    bs_try_write_def bs_try_read_def available_power_sources_layout_def available_power_sources_enc_def
    Let_def bs_mask_def
  obtain a b c where s: "s = \<lparr> aps_mains_power = a, aps_rechargeable_battery = b, aps_disposable_battery = c \<rparr>"
    by (cases s) simp
  have codec: "snd (w_bool W) v = (if v then 1 else 0)" "fst (w_bool W) x = Inr (x \<noteq> 0)" for v x
    using assms by (simp_all add: bool_codec_def)
  show "read_power_sources W (power_sources_u8 W s) = Inr s" "unat (power_sources_u8 W s) < 16"
    by (cases a; cases b; cases c; simp add: s ev codec)+
qed

locale desc_codecs = wire_codecs +
  fixes V :: desc_wire
  assumes desc_ok: "desc_wire_ok V"
begin

lemma desc_enc:
  "snd (dw_device_type V) t = device_type_u8 t" "snd (dw_power_mode V) m = power_mode_u8 m"
  "snd (dw_power_source V) s = power_source_u8 s" "snd (dw_power_level V) l = power_level_u8 l"
  using desc_ok by (simp_all add: desc_wire_ok_def enum_codec_def)

lemma desc_dec:
  "fst (dw_device_type V) (device_type_u8 t) = Inr t" "fst (dw_power_mode V) (power_mode_u8 m) = Inr m"
  "fst (dw_power_source V) (power_source_u8 s) = Inr s" "fst (dw_power_level V) (power_level_u8 l) = Inr l"
  using desc_ok by (simp_all add: desc_wire_ok_def enum_codec_def)

lemma bool_ok: "bool_codec (w_bool W)"
  using wire_ok by (simp add: wire_ok_def)

sublocale bands: bit_struct_type 1 frequency_bands_layout "frequency_bands_enc W" "frequency_bands_dec W" "\<lambda>_. True"
  by unfold_locales (auto simp: desc_layout_defs Let_def frequency_bands_enc_def wire_enc wire_dec)

sublocale ninfo: bit_struct_type 1 node_descriptor_info_layout "node_descriptor_info_enc W V"
  "node_descriptor_info_dec W V" "\<lambda>_. True"
  by unfold_locales (auto simp: desc_layout_defs Let_def node_descriptor_info_enc_def wire_enc wire_dec desc_enc desc_dec)

sublocale server: bit_struct_type 2 server_mask_layout "server_mask_enc W" "server_mask_dec W"
  "\<lambda>m. unat (sv_stack_compliance_revision m) < 128"
  by unfold_locales (auto simp: desc_layout_defs Let_def server_mask_enc_def wire_enc wire_dec)

sublocale dcap: bit_struct_type 1 descriptor_capabilities_layout "descriptor_capabilities_enc W"
  "descriptor_capabilities_dec W" "\<lambda>_. True"
  by unfold_locales (auto simp: desc_layout_defs Let_def descriptor_capabilities_enc_def wire_enc wire_dec)

sublocale power: bit_struct_type 2 node_power_descriptor_layout "node_power_descriptor_enc W V"
  "node_power_descriptor_dec W V" "\<lambda>_. True"
  by unfold_locales (auto simp: desc_layout_defs Let_def node_power_descriptor_enc_def desc_enc desc_dec
      power_sources_bits [OF bool_ok])

lemma descriptor_rounds:
  "bit_round 1 frequency_bands_layout (frequency_bands_enc W) (frequency_bands_dec W) b"
  "bit_round 1 node_descriptor_info_layout (node_descriptor_info_enc W V) (node_descriptor_info_dec W V) i"
  "unat (sv_stack_compliance_revision m) < 128 \<Longrightarrow>
     bit_round 2 server_mask_layout (server_mask_enc W) (server_mask_dec W) m"
  "bit_round 1 descriptor_capabilities_layout (descriptor_capabilities_enc W) (descriptor_capabilities_dec W) c"
  "bit_round 2 node_power_descriptor_layout (node_power_descriptor_enc W V) (node_power_descriptor_dec W V) p"
  by (rule bit_roundI, blast intro: bands.value_ex ninfo.value_ex server.value_ex dcap.value_ex power.value_ex)+

end

interpretation std_desc: desc_codecs wire_std desc_wire_std
  by unfold_locales (rule desc_wire_std_ok)

text \<open>With the codecs of the enums as documented, the bit structs of the node and power descriptors, one
  of which holds another in a field of four bits, survive being written and read; the server mask does
  when its revision fits seven bits.\<close>
theorem descriptors_roundtrip:
  assumes "wire_ok W" and "desc_wire_ok V" and "unat (sv_stack_compliance_revision m) < 128"
  shows "bit_round 1 frequency_bands_layout (frequency_bands_enc W) (frequency_bands_dec W) b \<and>
    bit_round 1 node_descriptor_info_layout (node_descriptor_info_enc W V) (node_descriptor_info_dec W V) i \<and>
    bit_round 2 server_mask_layout (server_mask_enc W) (server_mask_dec W) m \<and>
    bit_round 1 descriptor_capabilities_layout (descriptor_capabilities_enc W) (descriptor_capabilities_dec W) c \<and>
    bit_round 2 node_power_descriptor_layout (node_power_descriptor_enc W V) (node_power_descriptor_dec W V) p"
  using desc_codecs.descriptor_rounds [OF desc_codecs.intro [OF wire_codecs.intro [OF assms(1)]
      desc_codecs_axioms.intro [OF assms(2)]]] assms(3) by blast

theorem descriptors_roundtrip_witness:
  "bit_round 2 node_power_descriptor_layout (node_power_descriptor_enc wire_std desc_wire_std)
     (node_power_descriptor_dec wire_std desc_wire_std) (get_power_descriptor zb_config_default)"
proof -
  have "unat (sv_stack_compliance_revision (get_server_mask zb_config_default)) < 128" by (simp add: get_server_mask_def)
  from descriptors_roundtrip [OF wire_std_ok desc_wire_std_ok this] show ?thesis by blast
qed

section \<open>Values with a length prefix\<close>

lemma usize_le_Suc: "usize_le (Suc n) v = of_nat v # usize_le n (v div 256)"
proof -
  have "[0..<Suc n] = 0 # map Suc [0..<n]" by (simp add: upt_conv_Cons map_Suc_upt del: upt_Suc)
  then show ?thesis by (simp add: usize_le_def div_mult2_eq del: upt_Suc)
qed

lemma le_usize_le: "v < 256 ^ n \<Longrightarrow> le_usize (usize_le n v) = v"
proof (induction n arbitrary: v)
  case (Suc n)
  then have "v div 256 < 256 ^ n" by (simp add: less_mult_imp_div_less mult.commute)
  with Suc.IH [OF this] show ?case by (simp add: usize_le_Suc unat_of_nat)
qed (simp add: usize_le_def)

lemma length_usize_le [simp]: "length (usize_le n v) = n"
  by (simp add: usize_le_def)

lemma with_length_written:
  assumes "codec_law w rd x e" and "n + length e \<le> k"
  shows "with_length_write n w (Some x) (replicate k 0) =
    Inr (usize_le n (length e) @ e @ replicate (k - n - length e) 0, n + length e)"
proof -
  have "replicate k (0::u8) = replicate n 0 @ replicate (k - n) 0"
    using assms(2) by (simp add: replicate_add [symmetric])
  moreover have "length e \<le> k - n" using assms(2) by simp
  from codec_law_write [OF assms(1) _ this, of "replicate n 0" n]
  have "write_with (w x) (replicate n 0 @ replicate (k - n) 0, n) =
      Inr (replicate n 0 @ e @ replicate (k - n - length e) 0, n + length e)" by simp
  ultimately show ?thesis using assms(2) by (simp add: with_length_write_def del: write_with.simps)
qed

lemma with_length_read_written:
  assumes "codec_law w rd x e" and "length e < 256 ^ n"
  shows "with_length_read n rd (usize_le n (length e) @ e @ rest) =
    Inr (if e = [] then (None, n) else (Some x, n + length e))"
  using assms by (simp add: with_length_read_def codec_law_def le_usize_le)

lemma with_length_read_none:
  "with_length_read n rd (usize_le n 0 @ rest) = (case rd rest of Inl e \<Rightarrow> Inl e | Inr _ \<Rightarrow> Inr (None, n))"
proof -
  have "le_usize (usize_le n 0) = 0" by (rule le_usize_le) simp
  then show ?thesis by (auto simp: with_length_read_def split: sum.split)
qed

section \<open>Requests and responses\<close>

definition permit_normal :: "mgmt_permit_joining_req \<Rightarrow> mgmt_permit_joining_req" where
  "permit_normal r = (let d = permit_duration r in if d = 0 then PermitReqDisable else PermitReqEnable d)"

lemma permit_read_write:
  "2 \<le> n \<Longrightarrow> write_mgmt_permit_joining_req r (replicate n 0) = Inr (permit_duration r # 1 # replicate (n - 2) 0, 2)"
  "read_mgmt_permit_joining_req (permit_duration r # 1 # rest) = Inr (permit_normal r, 2)"
proof -
  show "2 \<le> n \<Longrightarrow> write_mgmt_permit_joining_req r (replicate n 0) = Inr (permit_duration r # 1 # replicate (n - 2) 0, 2)"
    by (simp add: write_mgmt_permit_joining_req_def)
  show "read_mgmt_permit_joining_req (permit_duration r # 1 # rest) = Inr (permit_normal r, 2)"
    by (cases r) (auto simp: read_mgmt_permit_joining_req_def permit_normal_def permit_duration_def Let_def)
qed

definition user_text :: "bytes \<Rightarrow> bool" where
  "user_text d \<longleftrightarrow> length d = USER_DESCRIPTOR_SIZE \<and> list_all (\<lambda>b. 0x1f < b \<and> b < 0x80) d"

lemma user_descriptor_read_write:
  assumes "user_text d" and "16 \<le> n"
  shows "write_user_descriptor d (replicate n 0) = Inr (d @ replicate (n - 16) 0, 16)"
    and "read_user_descriptor (d @ rest) = Inr (d, 16)"
  using assms by (simp_all add: user_text_def USER_DESCRIPTOR_SIZE_def write_user_descriptor_def write_slice_def
      read_user_descriptor_def Let_def)

record addr_rsp_bytes =
  arb_status :: bytes
  arb_ext :: bytes
  arb_nwk :: bytes
  arb_num :: bytes

definition addr_rsp_law :: "zdp_codecs \<Rightarrow> addr_rsp \<Rightarrow> addr_rsp_bytes \<Rightarrow> bool" where
  "addr_rsp_law X r b \<longleftrightarrow>
     codec_law (zx_write_addr_status X) (zx_read_addr_status X) (ar_status r) (arb_status b) \<and>
     codec_law (zx_write_ext_addr X) (zx_read_ext_addr X) (ar_ieee_addr r) (arb_ext b) \<and>
     codec_law (zx_write_nwk_addr X) (zx_read_nwk_addr X) (ar_nwk_addr r) (arb_nwk b) \<and>
     (case ar_num_assoc r of None \<Rightarrow> arb_num b = []
      | Some m \<Rightarrow> codec_law (zx_write_u16 X) (zx_read_u16 X) m (arb_num b))"

lemma write_addr_head:
  assumes "addr_rsp_law X r b" and "length (arb_status b) + length (arb_ext b) + length (arb_nwk b) \<le> n"
  shows "res_bind (write_with (zx_write_addr_status X (ar_status r)) (replicate n 0, 0)) (\<lambda>st.
      res_bind (write_with (zx_write_ext_addr X (ar_ieee_addr r)) st)
        (write_with (zx_write_nwk_addr X (ar_nwk_addr r)))) =
    Inr (arb_status b @ arb_ext b @ arb_nwk b @
        replicate (n - (length (arb_status b) + length (arb_ext b) + length (arb_nwk b))) 0,
      length (arb_status b) + length (arb_ext b) + length (arb_nwk b))"
proof -
  from assms(1) have laws:
    "codec_law (zx_write_addr_status X) (zx_read_addr_status X) (ar_status r) (arb_status b)"
    "codec_law (zx_write_ext_addr X) (zx_read_ext_addr X) (ar_ieee_addr r) (arb_ext b)"
    "codec_law (zx_write_nwk_addr X) (zx_read_nwk_addr X) (ar_nwk_addr r) (arb_nwk b)"
    by (simp_all add: addr_rsp_law_def)
  let ?s = "arb_status b" and ?e = "arb_ext b" and ?w = "arb_nwk b"
  have room: "length ?s \<le> n" "length ?e \<le> n - length ?s" "length ?w \<le> n - length ?s - length ?e"
    using assms(2) by simp_all
  have "write_with (zx_write_addr_status X (ar_status r)) (replicate n 0, 0) =
      Inr (?s @ replicate (n - length ?s) 0, length ?s)"
    using codec_law_write [OF laws(1) _ room(1), of "[]" 0] by simp
  moreover have "write_with (zx_write_ext_addr X (ar_ieee_addr r)) (?s @ replicate (n - length ?s) 0, length ?s) =
      Inr ((?s @ ?e) @ replicate (n - length ?s - length ?e) 0, length ?s + length ?e)"
    using codec_law_write [OF laws(2) refl room(2), of ?s] by simp
  moreover have "write_with (zx_write_nwk_addr X (ar_nwk_addr r))
      ((?s @ ?e) @ replicate (n - length ?s - length ?e) 0, length ?s + length ?e) =
      Inr ((?s @ ?e) @ ?w @ replicate (n - length ?s - length ?e - length ?w) 0, length ?s + length ?e + length ?w)"
    using codec_law_write [OF laws(3) _ room(3), of "?s @ ?e"] by simp
  ultimately show ?thesis by (simp del: write_with.simps)
qed

definition addr_head :: "addr_rsp_bytes \<Rightarrow> bytes" where
  "addr_head b = arb_status b @ arb_ext b @ arb_nwk b"

lemma write_addr_rsp_eq:
  assumes "addr_rsp_law X r b" and "length (addr_head b) + length (arb_num b) < n"
  shows "write_addr_rsp X r (replicate n 0) =
    (case ar_num_assoc r of
       None \<Rightarrow> Done (Inr (addr_head b @ replicate (n - length (addr_head b)) 0, length (addr_head b)))
     | Some _ \<Rightarrow> (case ar_start_index r of None \<Rightarrow> Panic
         | Some i \<Rightarrow> Done (Inr (addr_head b @ arb_num b @ i # replicate (n - length (addr_head b) - length (arb_num b) - 1) 0,
             length (addr_head b) + length (arb_num b) + 1))))"
proof -
  let ?h = "addr_head b" and ?m = "arb_num b"
  have room: "length (arb_status b) + length (arb_ext b) + length (arb_nwk b) \<le> n"
    using assms(2) by (simp add: addr_head_def)
  have head: "res_bind (write_with (zx_write_addr_status X (ar_status r)) (replicate n 0, 0)) (\<lambda>st.
      res_bind (write_with (zx_write_ext_addr X (ar_ieee_addr r)) st)
        (write_with (zx_write_nwk_addr X (ar_nwk_addr r)))) = Inr (?h @ replicate (n - length ?h) 0, length ?h)"
    using write_addr_head [OF assms(1) room] by (simp add: addr_head_def)
  show ?thesis
  proof (cases "ar_num_assoc r")
    case None
    then show ?thesis unfolding write_addr_rsp_def head by simp
  next
    case (Some k)
    with assms(1) have law: "codec_law (zx_write_u16 X) (zx_read_u16 X) k ?m" by (simp add: addr_rsp_law_def)
    have "write_with (zx_write_u16 X k) (?h @ replicate (n - length ?h) 0, length ?h) =
        Inr ((?h @ ?m) @ replicate (n - length ?h - length ?m) 0, length ?h + length ?m)"
      using codec_law_write [OF law refl, of "n - length ?h" ?h] assms(2) by simp
    moreover have "write_with (write_slice [i]) ((?h @ ?m) @ replicate (n - length ?h - length ?m) 0, length ?h + length ?m) =
        Inr (?h @ ?m @ i # replicate (n - length ?h - length ?m - 1) 0, length ?h + length ?m + 1)" for i
      using write_slice_zeros [of "?h @ ?m" _ "[i]" "n - length ?h - length ?m"] assms(2) by simp
    ultimately show ?thesis
      unfolding write_addr_rsp_def head Some by (simp split: option.split del: write_with.simps)
  qed
qed

lemma read_addr_rsp_head:
  assumes "addr_rsp_law X r b"
  shows "read_addr_rsp X (addr_head b @ rest) =
    (let rsp = (\<lambda>n i. r\<lparr> ar_num_assoc := n, ar_start_index := i, ar_nwk_addr_assoc_dev_list := None \<rparr>);
         o3 = length (addr_head b) in
     if rest \<noteq> [] then
       res_bind (read_with (zx_read_u16 X) (addr_head b @ rest) o3) (\<lambda>(n, o4).
       res_bind (read_with read_u8 (addr_head b @ rest) o4) (\<lambda>(i, o5). Inr (rsp (Some n) (Some i), o5)))
     else Inr (rsp None None, o3))"
proof -
  let ?s = "arb_status b" and ?e = "arb_ext b" and ?w = "arb_nwk b"
  from assms have laws:
    "codec_law (zx_write_addr_status X) (zx_read_addr_status X) (ar_status r) ?s"
    "codec_law (zx_write_ext_addr X) (zx_read_ext_addr X) (ar_ieee_addr r) ?e"
    "codec_law (zx_write_nwk_addr X) (zx_read_nwk_addr X) (ar_nwk_addr r) ?w"
    by (simp_all add: addr_rsp_law_def)
  have "read_with (zx_read_addr_status X) (addr_head b @ rest) 0 = Inr (ar_status r, length ?s)"
    using codec_law_read [OF laws(1), of "[]"] by (simp add: addr_head_def)
  moreover have "read_with (zx_read_ext_addr X) (addr_head b @ rest) (length ?s) = Inr (ar_ieee_addr r, length ?s + length ?e)"
    using codec_law_read [OF laws(2), of ?s] by (simp add: addr_head_def)
  moreover have "read_with (zx_read_nwk_addr X) (addr_head b @ rest) (length ?s + length ?e) =
      Inr (ar_nwk_addr r, length (addr_head b))"
    using codec_law_read [OF laws(3), of "?s @ ?e"] by (simp add: addr_head_def add.assoc)
  ultimately show ?thesis by (cases r) (simp add: read_addr_rsp_def Let_def)
qed

text \<open>C30. What survives the hand-written codecs. An address response keeps everything but its list of
  associated devices, which never goes on the air, and a start index without a count; a count without a
  start index panics. A value with a length prefix survives unless it takes no bytes; a missing one is
  read back only if the bytes that follow can be read as a value. A request for permission keeps its
  duration, but for \<open>255\<close>, which becomes \<open>254\<close>. A user descriptor of 16 printable bytes survives.\<close>
theorem zdp_values_roundtrip:
  assumes "addr_rsp_law X r b" and "length (addr_head b) + length (arb_num b) < n"
    and "codec_law w rd x e" and "k + length e \<le> n" and "length e < 256 ^ k"
    and "user_text d" and "16 \<le> n"
  shows "((case write_addr_rsp X r (replicate n 0) of
            Panic \<Rightarrow> ar_num_assoc r \<noteq> None \<and> ar_start_index r = None
          | Done (Inl _) \<Rightarrow> False
          | Done (Inr (buf, len)) \<Rightarrow> read_addr_rsp X (take len buf) =
              Inr (r\<lparr> ar_start_index := (if ar_num_assoc r = None then None else ar_start_index r),
                ar_nwk_addr_assoc_dev_list := None \<rparr>, len))) \<and>
    ((\<exists>buf len. with_length_write k w (Some x) (replicate n 0) = Inr (buf, len) \<and>
          with_length_read k rd (take len buf) = Inr (if e = [] then None else Some x, len)) \<and>
         (\<exists>buf. with_length_write k w None (replicate n 0) = Inr (buf, k) \<and>
          (\<forall>rest. with_length_read k rd (take k buf @ rest) = (case rd rest of Inl err \<Rightarrow> Inl err | Inr _ \<Rightarrow> Inr (None, k))))) \<and>
    (\<exists>buf. write_mgmt_permit_joining_req q (replicate n 0) = Inr (buf, 2) \<and>
          read_mgmt_permit_joining_req buf = Inr (permit_normal q, 2)) \<and>
    (\<exists>buf. write_user_descriptor d (replicate n 0) = Inr (buf, 16) \<and> read_user_descriptor buf = Inr (d, 16))"
  (is "?A \<and> ?B \<and> ?C \<and> ?D")
proof -
  have none: "ar_num_assoc r = None \<Longrightarrow> r\<lparr> ar_num_assoc := None, ar_start_index := i, ar_nwk_addr_assoc_dev_list := l \<rparr> =
      r\<lparr> ar_start_index := i, ar_nwk_addr_assoc_dev_list := l \<rparr>" for i l by (cases r) simp
  have some: "ar_num_assoc r = Some m \<Longrightarrow> ar_start_index r = Some j \<Longrightarrow>
      r\<lparr> ar_num_assoc := Some m, ar_start_index := Some j, ar_nwk_addr_assoc_dev_list := l \<rparr> =
      r\<lparr> ar_start_index := Some j, ar_nwk_addr_assoc_dev_list := l \<rparr>" for m j l by (cases r) simp
  have a: ?A
  proof (cases "ar_num_assoc r")
    case None
    then show ?thesis
      using read_addr_rsp_head [OF assms(1), of "[]"] by (simp add: write_addr_rsp_eq [OF assms(1,2)] none)
  next
    case (Some m)
    with assms(1) have law: "codec_law (zx_write_u16 X) (zx_read_u16 X) m (arb_num b)" by (simp add: addr_rsp_law_def)
    have "read_addr_rsp X (addr_head b @ arb_num b @ [j]) =
        Inr (r\<lparr> ar_start_index := Some j, ar_nwk_addr_assoc_dev_list := None \<rparr>,
          length (addr_head b) + length (arb_num b) + 1)" if "ar_start_index r = Some j" for j
      using codec_law_read [OF law, of "addr_head b" "[j]"] that Some
      by (simp add: read_addr_rsp_head [OF assms(1)] read_with_def [of read_u8] read_u8_def some)
    with Some show ?thesis
      by (auto simp: write_addr_rsp_eq [OF assms(1,2)] split: option.split)
  qed
  have b: ?B
    using with_length_written [OF assms(3,4)] with_length_read_written [OF assms(3,5), of "[]"]
      with_length_read_none [of k rd] assms(4)
    by (auto simp: with_length_write_def)
  have c: ?C
    using permit_read_write(1) [of n q] permit_read_write(2) [of q] assms(7) by simp
  have d: ?D
    using user_descriptor_read_write [OF assms(6,7)] by blast
  show ?thesis by (rule conjI [OF a conjI [OF b conjI [OF c d]]])
qed

section \<open>Witnesses\<close>

definition read_le :: "nat \<Rightarrow> ('n::len) word breader" where
  "read_le n bs = (if length bs < n then Inl Incomplete else Inr (of_nat (le_usize (take n bs)), n))"

definition addr_status_u8 :: "addr_rsp_status \<Rightarrow> u8" where
  "addr_status_u8 s = (case s of AddrSuccess \<Rightarrow> 0 | AddrInvRequestType \<Rightarrow> 0x80 | AddrDeviceNotFound \<Rightarrow> 0x81)"

text \<open>Codecs that satisfy the hypotheses. What a command is read as is given for its cluster.\<close>

definition zdp_codecs_std :: "(u16 \<Rightarrow> transaction_data) \<Rightarrow> zdp_codecs" where
  "zdp_codecs_std d = \<lparr> zx_write_addr_status = (\<lambda>s. write_slice [addr_status_u8 s]),
     zx_read_addr_status = (\<lambda>bs. res_bind (read_u8 bs) (\<lambda>(b, n). if b = 0 then Inr (AddrSuccess, n)
       else if b = 0x80 then Inr (AddrInvRequestType, n) else if b = 0x81 then Inr (AddrDeviceNotFound, n)
       else Inl (BadInput ''status''))),
     zx_write_ext_addr = (\<lambda>a. write_slice (le_bytes 8 a)), zx_read_ext_addr = read_le 8,
     zx_write_nwk_addr = (\<lambda>a. write_slice (le_bytes 2 a)), zx_read_nwk_addr = read_le 2,
     zx_write_u16 = (\<lambda>a. write_slice (le_bytes 2 a)), zx_read_u16 = read_le 2,
     zx_write_command = (\<lambda>c. write_slice [zp_transaction_sequence_number c]),
     zx_read_data = (\<lambda>cluster bs. Inr (d cluster, 0)),
     zx_read_permit_rsp = (\<lambda>bs. res_bind (read_u8 bs) (\<lambda>(b, n). if b = 0 then Inr (PermitRspSuccess, n)
       else if b = 0xc2 then Inr (PermitRspInvalidRequest, n) else if b = 0xc3 then Inr (PermitRspNotAuthorized, n)
       else Inl (BadInput ''status''))) \<rparr>"

lemma codec_law_slice:
  "wr x = write_slice xs \<Longrightarrow> (\<And>rest. rd (xs @ rest) = Inr (x, length xs)) \<Longrightarrow> codec_law wr rd x xs"
  by (simp add: codec_law_def write_slice_def)

definition addr_rsp_std :: addr_rsp where
  "addr_rsp_std = \<lparr> ar_status = AddrSuccess, ar_ieee_addr = 5, ar_nwk_addr = 0x1001, ar_num_assoc = Some 1,
     ar_start_index = Some 0, ar_nwk_addr_assoc_dev_list = Some [7] \<rparr>"

definition addr_rsp_bytes_std :: addr_rsp_bytes where
  "addr_rsp_bytes_std = \<lparr> arb_status = [0], arb_ext = le_bytes 8 (5::u64), arb_nwk = le_bytes 2 (0x1001::u16),
     arb_num = le_bytes 2 (1::u16) \<rparr>"

lemma le_bytes_std:
  "le_bytes 8 (5::u64) = [5, 0, 0, 0, 0, 0, 0, 0]" "le_bytes 2 (0x1001::u16) = [1, 0x10]" "le_bytes 2 (1::u16) = [1, 0]"
  by code_simp+

lemma addr_rsp_std_law: "addr_rsp_law (zdp_codecs_std d) addr_rsp_std addr_rsp_bytes_std"
  unfolding addr_rsp_law_def addr_rsp_std_def addr_rsp_bytes_std_def zdp_codecs_std_def le_bytes_std
    addr_rsp.simps addr_rsp_bytes.simps zdp_codecs.simps option.case
  by (intro conjI codec_law_slice)
    (simp_all add: addr_status_u8_def read_u8_def read_le_def le_bytes_std)

theorem zdp_values_roundtrip_witness:
  "\<exists>buf len. write_addr_rsp (zdp_codecs_std (\<lambda>_. NodeDescReq 0)) addr_rsp_std (replicate 20 0) = Done (Inr (buf, len)) \<and>
     read_addr_rsp (zdp_codecs_std (\<lambda>_. NodeDescReq 0)) (take len buf) = Inr (addr_rsp_std\<lparr> ar_nwk_addr_assoc_dev_list := None \<rparr>, len)"
proof -
  have room: "length (addr_head addr_rsp_bytes_std) + length (arb_num addr_rsp_bytes_std) < 20"
    by (simp add: addr_head_def addr_rsp_bytes_std_def le_bytes_std)
  have law: "codec_law (\<lambda>b. write_slice [b]) read_u8 0x20 [0x20]"
    by (rule codec_law_slice) (simp_all add: read_u8_def)
  have printable: "user_text (replicate 16 0x20)" by (simp add: user_text_def USER_DESCRIPTOR_SIZE_def list_all_iff)
  from zdp_values_roundtrip [OF addr_rsp_std_law [of "\<lambda>_. NodeDescReq 0"] room law _ _ printable, of 1, THEN conjunct1] show ?thesis
    by (auto simp: addr_rsp_std_def split: run.splits sum.splits)
qed

end
