(* ===== verification/Aps_Safety.thy ===== *)
theory Aps_Safety
  imports Aps_Delivery
begin

text \<open>
  What reception can do to the keys and the network parameters of the application support sublayer,
  the errors of secured transmission, and the limits of fragmentation.
\<close>

section \<open>The security state\<close>

definition sec :: "aps \<Rightarrow> device_key_pair list \<times> bool \<times> security_network_params \<times> binding set" where
  "sec s = (as_device_key_pair_set s, as_is_authorized s, as_security_network_params s, as_binding_table s)"

lemma keeps_with_nwk: "(\<And>s n. I s \<Longrightarrow> I (s\<lparr> as_nwk := n \<rparr>)) \<Longrightarrow> keeps I (with_nwk m)"
  by (auto simp: keeps_def with_nwk_def run_simps)

lemma sec_with_nwk [simp]: "sec (s\<lparr> as_nwk := n \<rparr>) = sec s" by (simp add: sec_def)

lemma keeps_sec_nwk [keeps_rules]: "keeps (\<lambda>s. sec s = v) (with_nwk m)"
  by (rule keeps_with_nwk) simp

lemma frame_bytes_plain: "\<not> tx_security_enabled opts \<Longrightarrow> keeps I (aps_frame_bytes E A f n opts)"
  by (simp add: aps_frame_bytes_def Let_def keeps_rules)

lemma keeps_sec_transfer [keeps_rules]:
  "\<not> tx_security_enabled opts \<Longrightarrow> keeps (\<lambda>s. sec s = v) (aps_transfer E A mode f n al radius opts c)"
  unfolding aps_transfer_def Let_def by (intro keeps_rules frame_bytes_plain)

lemma keeps_sec_ack [keeps_rules]: "keeps (\<lambda>s. sec s = v) (send_ack E A mode fmt c n)"
  unfolding send_ack_def by (rule keeps_sec_transfer) (simp add: tx_options_default_def)

lemma keeps_sec_data [keeps_rules]: "keeps (\<lambda>s. sec s = v) (handle_data_frame E A mode f ind kd)"
  unfolding handle_data_frame_def Let_def by (intro keeps_rules)

lemma keeps_sec_simple [keeps_rules]:
  "keeps (\<lambda>s. sec s = v) (handle_update_device_command src c)"
  "keeps (\<lambda>s. sec s = v) (handle_remove_device_command src t)"
  "keeps (\<lambda>s. sec s = v) (validate_incoming_apsme_command src f kd)"
  unfolding handle_update_device_command_def handle_remove_device_command_def
  by (intro keeps_rules)+
    (auto simp: keeps_def validate_incoming_apsme_command_def split: option.splits if_splits)

lemma keeps_sec_router [keeps_rules]: "keeps (\<lambda>s. sec s = v) (handle_router_aps_command mode src c)"
proof (cases c)
  case (CmdRemoveDevice t)
  then show ?thesis by (simp only: handle_router_aps_command_def aps_command.case) (intro keeps_rules)
qed (simp_all only: handle_router_aps_command_def aps_command.case keeps_basic)

text \<open>What an operation can give, whatever the state.\<close>

definition gives :: "('a \<Rightarrow> bool) \<Rightarrow> ('s, 'a) action \<Rightarrow> bool" where
  "gives P m \<longleftrightarrow> (\<forall>s x s'. m s = Done (x, s') \<longrightarrow> P x)"

named_theorems gives_rules \<open>rules that show what an operation gives\<close>

lemma gives_basic [gives_rules]:
  "P x \<Longrightarrow> gives P (act_return x)"
  "(\<And>y. gives P (g y)) \<Longrightarrow> gives P (act_bind m g)"
  "gives P n \<Longrightarrow> gives P (act_then m n)"
  "(b \<Longrightarrow> gives P m') \<Longrightarrow> (\<not> b \<Longrightarrow> gives P n) \<Longrightarrow> gives P (if b then m' else n)"
  "(x' = None \<Longrightarrow> gives P n) \<Longrightarrow> (\<And>y. x' = Some y \<Longrightarrow> gives P (g y)) \<Longrightarrow> gives P (case x' of None \<Rightarrow> n | Some y \<Rightarrow> g y)"
  by (auto simp: gives_def act_return_def act_bind_Done act_then_def split: option.split)

definition confirms :: "aps_indication option \<Rightarrow> bool" where
  "confirms i \<longleftrightarrow> (\<exists>st d t. i = Some (ApsIndConfirmKey st d t))"

lemma confirms_simps [simp]:
  "\<not> confirms None" "\<not> confirms (Some (ApsIndData d))" "\<not> confirms (Some (ApsIndTransportKey e k))"
  "\<not> confirms (Some (ApsIndUpdateDevice e u))" "\<not> confirms (Some (ApsIndRemoveDevice e t0))"
  "\<not> confirms (Some (ApsIndLeave l))" "confirms (Some (ApsIndConfirmKey st e t))"
  "\<not> confirms (map_option (\<lambda>y. ApsIndUpdateDevice (ud y) (uc y)) o1)"
  "\<not> confirms (map_option (\<lambda>y. ApsIndTransportKey (td y) (tk y)) o2)"
  "\<not> confirms (map_option (\<lambda>y. ApsIndRemoveDevice (rd y) (rt y)) o3)"
  by (auto simp: confirms_def)

lemma data_gives [gives_rules]: "gives (\<lambda>i. \<not> confirms i) (handle_data_frame E A mode f ind kd)"
  unfolding handle_data_frame_def Let_def by (intro gives_rules) simp_all

lemma router_gives [gives_rules]: "gives (\<lambda>i. \<not> confirms i) (handle_router_aps_command mode src c)"
  unfolding handle_router_aps_command_def handle_remove_device_command_def
  by (cases c) (auto intro!: gives_rules split: option.split)

lemma update_gives [gives_rules]: "gives (\<lambda>i. \<not> confirms i) (handle_update_device_command src c)"
  unfolding handle_update_device_command_def by (intro gives_rules) simp

lemma givesD: "gives P m \<Longrightarrow> m s = Done (x, s') \<Longrightarrow> P x"
  by (auto simp: gives_def)

text \<open>The one command that changes keys and the one that changes the network parameters.\<close>

lemma confirm_key_effect:
  assumes "handle_confirm_key_command src dst cmd r = Done (i, r')"
  shows "sec r' = sec r \<and> \<not> confirms i \<or> (\<exists>tc d kp. as_security_network_params r = Centralized tc \<and>
    i = Some (ApsIndConfirmKey ConfirmSuccess d TrustCenterLinkKeyType) \<and>
    find (\<lambda>k. dk_device_address k = tc) (as_device_key_pair_set r) = Some kp \<and>
    sec r' = (update_first (\<lambda>k. dk_device_address k = tc) confirm_link_key (as_device_key_pair_set r),
      snd (sec r)))"
proof (cases "case dst of MulticastDst _ \<Rightarrow> True | UnicastOrBroadcastDst a \<Rightarrow> is_broadcast a")
  case True
  with assms show ?thesis by (simp add: handle_confirm_key_command_def act_return_def)
next
  case False
  from assms [unfolded handle_confirm_key_command_def if_not_P [OF False]] show ?thesis
  proof (elim act_bindE, goal_cases)
    case (1 a s1)
    note find = 1(1) and rest = 1(2)
    have same: "as_device_key_pair_set s1 = as_device_key_pair_set r" "as_is_authorized s1 = as_is_authorized r"
      "as_security_network_params s1 = as_security_network_params r" "as_binding_table s1 = as_binding_table r"
      using keepsD_eq [OF keeps_sec_nwk find] by (simp_all add: sec_def)
    show ?thesis
    proof (cases a)
      case (Some e)
      show ?thesis
      proof (cases "as_security_network_params r")
        case (Centralized tc)
        let ?has = "\<lambda>k. dk_device_address k = tc"
        note step = rest [unfolded Some option.case, simplified act_gets_bind get_tc_addr_def same Centralized
            security_network_params.case option.case act_return_def act_then_modify]
        show ?thesis
        proof (cases "ck_status cmd \<noteq> ConfirmSuccess \<or> ck_key_type cmd \<noteq> TrustCenterLinkKeyType \<or> e \<noteq> tc \<or>
            find ?has (as_device_key_pair_set r) = None")
          case True
          with step have "r' = s1" "i = None" by (auto simp: act_return_def act_gets_bind same split: if_splits)
          with same show ?thesis by (simp add: sec_def)
        next
          case False
          with step have "i = Some (ApsIndConfirmKey ConfirmSuccess (ck_destination_address cmd) TrustCenterLinkKeyType)"
            "r' = s1\<lparr> as_device_key_pair_set := update_first ?has confirm_link_key (as_device_key_pair_set s1) \<rparr>"
            by (auto simp: act_return_def act_gets_bind act_then_modify same)
          with same Centralized False show ?thesis by (auto simp: sec_def)
        qed
      qed (use rest Some same in \<open>auto simp: act_gets_bind act_return_def get_tc_addr_def sec_def\<close>)
    qed (use rest same in \<open>auto simp: act_return_def sec_def\<close>)
  qed
qed

lemma transport_key_effect:
  assumes "handle_transport_key_command src hdr desc r = Done (i, r')"
  shows "sec r' = sec r \<and> \<not> confirms i \<or> (\<exists>tc d p. i = Some (ApsIndTransportKey tc (NetworkKeyData d)) \<and>
    afc_security (aph_frame_control hdr) \<and> p \<in> {Distributed, Centralized tc} \<and>
    sec r' = (as_device_key_pair_set r, as_is_authorized r, p, as_binding_table r))"
proof (cases desc)
  case (StandardNetworkKey d)
  show ?thesis
  proof (cases "afc_security (aph_frame_control hdr)")
    case True
    with assms StandardNetworkKey show ?thesis
      by (auto simp: handle_transport_key_command_def act_gets_bind act_return_def act_then_modify act_then_def
          act_bind_Done act_modify_def with_nwk_def run_simps sec_def Let_def split: if_splits)
  qed (use assms StandardNetworkKey in
    \<open>simp add: handle_transport_key_command_def act_gets_bind act_return_def sec_def\<close>)
next
  case (ApplicationLinkKey d)
  with assms show ?thesis
    by (auto simp: handle_transport_key_command_def act_gets_bind act_return_def act_bind_Done with_nwk_def
        run_simps sec_def split: if_splits)
qed (use assms in \<open>auto simp: handle_transport_key_command_def act_gets_bind act_return_def sec_def split: if_splits\<close>)

text \<open>The header of a decrypted frame says whether it came with a key.\<close>

lemma aps_from_payload_header: "aps_from_payload A h p = Done (Inr f) \<Longrightarrow> aps_frame_header f = h"
  by (auto simp: aps_from_payload_def run_simps split: aps_frame_type.splits)

lemma with_key_iff:
  "run_map (\<lambda>r. map_sum id (\<lambda>f. (f, k)) (parse_error r)) m = Done (Inr (f, kd)) \<longleftrightarrow> m = Done (Inr f) \<and> kd = k"
proof (cases m)
  case (Done x)
  then show ?thesis by (cases x) (auto simp: parse_error_def)
qed simp

lemma open_aps_frame_Inr:
  assumes "open_aps_frame C W D A level hdr hl aux al kp k buf = Done (Inr (f, kd))"
  shows "aps_frame_header f = hdr \<and> kd = Some kp"
proof -
  note opened = assms [unfolded open_aps_frame_def Let_def]
  from opened obtain b x where w: "parse_error (write_with (cd_write_aux D (set_level level aux)) (buf, hl)) = Inr (b, x)"
    by (auto split: sum.splits)
  from opened w obtain rn where n: "create_nonce W (set_level level aux) = Done rn"
    by (auto simp: run_bind_Done_iff split: if_splits)
  from opened w n obtain nonce where rn: "rn = Inr nonce" by (cases rn) (auto split: if_splits)
  from opened w n rn obtain p where "aps_from_payload A hdr p = Done (Inr f)" "kd = Some kp"
    by (auto simp: with_key_iff split: if_splits sum.splits)
  then show ?thesis using aps_from_payload_header by blast
qed

lemma decrypted_with_key:
  assumes "decrypt_aps_frame C W D A level authorized keys buf = Done (Inr (f, kd))"
  shows "kd \<noteq> None \<longleftrightarrow> afc_security (aph_frame_control (aps_frame_header f))"
proof -
  from assms obtain hdr n where hdr: "ac_read_header A buf = Inr (hdr, n)"
    by (auto simp: decrypt_aps_frame_def parse_error_def split: if_splits sum.splits)
  show ?thesis
  proof (cases "afc_security (aph_frame_control hdr)")
    case True
    with assms hdr obtain aux al src kp where
      rest: "run_bind (aps_decryption_key C (sc_key_identifier (ah_security_control aux)) (dk_link_key kp))
        (\<lambda>rk. case rk of Inl e \<Rightarrow> Done (Inl e)
         | Inr k \<Rightarrow> if dk_link_key_type kp = UniqueLinkKey \<and> ah_frame_counter aux < dk_incoming_frame_counter kp
             then Done (Inl Unspecified) else open_aps_frame C W D A level hdr n aux al kp k buf) = Done (Inr (f, kd))"
      by (auto simp: decrypt_aps_frame_def parse_error_def split: if_splits sum.splits option.splits)
    then obtain rk where "aps_decryption_key C (sc_key_identifier (ah_security_control aux)) (dk_link_key kp) = Done rk"
      by (auto simp: run_bind_Done_iff)
    with rest True show ?thesis
      by (cases rk) (auto dest!: open_aps_frame_Inr split: if_splits)
  next
    case False
    with assms hdr show ?thesis
      by (auto simp: decrypt_aps_frame_def parse_error_done with_key_iff
          dest!: aps_from_payload_header split: if_splits)
  qed
qed

lemma handled_command_effect:
  assumes "act_bind (handle_aps_command_common src dst c) (\<lambda>i. if i \<noteq> None then act_return i
      else handle_router_aps_command mode src (acf_command c)) r = Done (i, r')"
  shows "sec r' = sec r \<and> \<not> confirms i \<or>
    (\<exists>tc d kp. as_security_network_params r = Centralized tc \<and>
       i = Some (ApsIndConfirmKey ConfirmSuccess d TrustCenterLinkKeyType) \<and>
       find (\<lambda>k. dk_device_address k = tc) (as_device_key_pair_set r) = Some kp \<and>
       sec r' = (update_first (\<lambda>k. dk_device_address k = tc) confirm_link_key (as_device_key_pair_set r), snd (sec r))) \<or>
    (\<exists>tc d p. i = Some (ApsIndTransportKey tc (NetworkKeyData d)) \<and>
       afc_security (aph_frame_control (acf_header c)) \<and> p \<in> {Distributed, Centralized tc} \<and>
       sec r' = (as_device_key_pair_set r, as_is_authorized r, p, as_binding_table r))"
proof -
  from assms obtain j r1 where common: "handle_aps_command_common src dst c r = Done (j, r1)" and
    rest: "(if j \<noteq> None then act_return j else handle_router_aps_command mode src (acf_command c)) r1 = Done (i, r')"
    by (auto simp: act_bind_Done)
  show ?thesis
  proof (cases "j = None")
    case True
    with rest have "sec r' = sec r1" "\<not> confirms i"
      using keepsD_eq [OF keeps_sec_router] givesD [OF router_gives] by simp_all
    moreover have "sec r1 = sec r"
    proof (cases "acf_command c")
      case (CmdTransportKey d)
      with common True transport_key_effect [of src "acf_header c" d r j r1] show ?thesis
        by (simp add: handle_aps_command_common_def)
    next
      case (CmdConfirmKey d)
      with common True confirm_key_effect [of src dst d r j r1] show ?thesis
        by (simp add: handle_aps_command_common_def)
    next
      case (CmdUpdateDevice d)
      with common keepsD_eq [OF keeps_sec_simple(1)] show ?thesis
        by (simp add: handle_aps_command_common_def)
    qed (use common in \<open>simp_all add: handle_aps_command_common_def act_return_def\<close>)
    ultimately show ?thesis by simp
  next
    case False
    with rest have i: "i = j" "r' = r1" by (auto simp: act_return_def)
    show ?thesis
    proof (cases "acf_command c")
      case (CmdTransportKey d)
      with common have "handle_transport_key_command src (acf_header c) d r = Done (j, r1)"
        by (simp add: handle_aps_command_common_def)
      from transport_key_effect [OF this] show ?thesis unfolding i by blast
    next
      case (CmdConfirmKey d)
      with common have "handle_confirm_key_command src dst d r = Done (j, r1)"
        by (simp add: handle_aps_command_common_def)
      from confirm_key_effect [OF this] show ?thesis unfolding i by blast
    next
      case (CmdUpdateDevice d)
      with common keepsD_eq [OF keeps_sec_simple(1)] givesD [OF update_gives] show ?thesis
        unfolding i by (simp add: handle_aps_command_common_def)
    qed (use common in \<open>simp_all add: i handle_aps_command_common_def act_return_def\<close>)
  qed
qed


section \<open>Effects of reception\<close>

lemma handle_decrypted:
  assumes "decrypt_aps_frame (ev_crypto E) (ev_wire E) (ev_codecs E) A (nwk_security_level (profile_params (as_nwk r)))
    (as_is_authorized r) (as_device_key_pair_set r) (di_nsdu ind) = Done (Inr (f, kd))"
  shows "aps_handle_data_indication E A mode ind r = (case f of
      ApsData d \<Rightarrow> handle_data_frame E A mode d ind kd r
    | ApsCommand c \<Rightarrow>
        act_bind (validate_incoming_apsme_command (di_src_address ind) c kd) (\<lambda>ok.
        if \<not> ok then act_return None
        else act_bind (handle_aps_command_common (di_src_address ind) (di_dst_address ind) c) (\<lambda>i.
          if i \<noteq> None then act_return i
          else handle_router_aps_command mode (di_src_address ind) (acf_command c))) r
    | ApsAcknowledgement _ \<Rightarrow> Done (None, r))"
proof -
  have "aps_decrypt E A (di_nsdu ind) r = Done (Inr (f, kd), r)" using assms by (simp add: aps_decrypt_def)
  then show ?thesis
    unfolding aps_handle_data_indication_def by (cases f) (simp_all add: act_bind_of act_return_def)
qed

lemma reception_effect:
  assumes "aps_handle_data_indication E A mode ind r = Done (i, r')"
  shows "sec r' = sec r \<and> \<not> confirms i \<or>
    (\<exists>tc d kp. as_security_network_params r = Centralized tc \<and>
       i = Some (ApsIndConfirmKey ConfirmSuccess d TrustCenterLinkKeyType) \<and>
       find (\<lambda>k. dk_device_address k = tc) (as_device_key_pair_set r) = Some kp \<and>
       sec r' = (update_first (\<lambda>k. dk_device_address k = tc) confirm_link_key (as_device_key_pair_set r), snd (sec r))) \<or>
    (\<exists>tc d p c kp. i = Some (ApsIndTransportKey tc (NetworkKeyData d)) \<and>
       decrypt_aps_frame (ev_crypto E) (ev_wire E) (ev_codecs E) A (nwk_security_level (profile_params (as_nwk r)))
         (as_is_authorized r) (as_device_key_pair_set r) (di_nsdu ind) = Done (Inr (ApsCommand c, Some kp)) \<and>
       p \<in> {Distributed, Centralized tc} \<and>
       sec r' = (as_device_key_pair_set r, as_is_authorized r, p, as_binding_table r))"
    (is "_ \<or> ?confirmed \<or> ?transported")
proof -
  let ?dec = "decrypt_aps_frame (ev_crypto E) (ev_wire E) (ev_codecs E) A (nwk_security_level (profile_params (as_nwk r)))
          (as_is_authorized r) (as_device_key_pair_set r) (di_nsdu ind)"
  from assms obtain x where dec: "?dec = Done x"
    by (cases ?dec) (simp_all add: aps_handle_data_indication_def aps_decrypt_def act_bind_def)
  show ?thesis
  proof (cases x)
    case (Inl e)
    with assms dec show ?thesis
      by (simp add: aps_handle_data_indication_def aps_decrypt_def act_bind_def act_return_def)
  next
    case (Inr y)
    obtain f kd where y: "y = (f, kd)" by (cases y)
    note handled = assms [unfolded handle_decrypted [OF dec [unfolded Inr y]]]
    show ?thesis
    proof (cases f)
      case (ApsData d)
      with handled keepsD_eq [OF keeps_sec_data] givesD [OF data_gives] show ?thesis by simp
    next
      case (ApsAcknowledgement h)
      with handled show ?thesis by simp
    next
      case (ApsCommand c)
      with handled obtain ok r1 where val: "validate_incoming_apsme_command (di_src_address ind) c kd r = Done (ok, r1)"
        and rest: "(if \<not> ok then act_return None
          else act_bind (handle_aps_command_common (di_src_address ind) (di_dst_address ind) c) (\<lambda>i.
            if i \<noteq> None then act_return i
            else handle_router_aps_command mode (di_src_address ind) (acf_command c))) r1 = Done (i, r')"
        by (auto elim!: act_bindE simp del: if_split)
      have r1: "r1 = r"
        using val by (auto simp: validate_incoming_apsme_command_def split: option.splits if_splits)
      have key: "\<exists>kp. kd = Some kp" if "afc_security (aph_frame_control (acf_header c))"
        using decrypted_with_key [OF dec [unfolded Inr y ApsCommand]] that by auto
      show ?thesis
      proof (cases ok)
        case True
        with rest r1 have "act_bind (handle_aps_command_common (di_src_address ind) (di_dst_address ind) c) (\<lambda>i.
            if i \<noteq> None then act_return i
            else handle_router_aps_command mode (di_src_address ind) (acf_command c)) r = Done (i, r')" by simp
        from handled_command_effect [OF this] key dec Inr y ApsCommand show ?thesis by fastforce
      qed (use rest r1 in \<open>simp add: act_return_def\<close>)
    qed
  qed
qed

text \<open>C23. What a received frame can do to the security state: authorization and bindings never change;
  link keys change only by a key confirmation, which resets counters and never advances one; and the
  network parameters change only by a transported network key that was decrypted under a link key.\<close>
theorem reception_security_effects:
  assumes "aps_handle_data_indication E A mode ind r = Done (i, r')"
  shows "as_is_authorized r' = as_is_authorized r \<and> as_binding_table r' = as_binding_table r \<and>
    (as_device_key_pair_set r' = as_device_key_pair_set r \<or>
      (\<exists>tc d. as_security_network_params r = Centralized tc \<and>
        i = Some (ApsIndConfirmKey ConfirmSuccess d TrustCenterLinkKeyType) \<and>
        as_device_key_pair_set r' =
          update_first (\<lambda>k. dk_device_address k = tc) confirm_link_key (as_device_key_pair_set r))) \<and>
    (as_security_network_params r' = as_security_network_params r \<or>
      (\<exists>tc d c kp. i = Some (ApsIndTransportKey tc (NetworkKeyData d)) \<and>
        decrypt_aps_frame (ev_crypto E) (ev_wire E) (ev_codecs E) A (nwk_security_level (profile_params (as_nwk r)))
          (as_is_authorized r) (as_device_key_pair_set r) (di_nsdu ind) = Done (Inr (ApsCommand c, Some kp)) \<and>
        as_security_network_params r' \<in> {Distributed, Centralized tc}))"
  using reception_effect [OF assms] by (fastforce simp: sec_def)


text \<open>Once a device is authorized, a key confirmation without security at this layer, from the address
  that the device has on record for the trust center, is obeyed: the link key counts as verified and
  its incoming counter starts again at zero.\<close>
theorem unsecured_confirm_obeyed:
  assumes "ac_read_header A (di_nsdu ind) = Inr (h, n)" "n \<le> length (di_nsdu ind)"
    and "mic_length (nwk_security_level (profile_params (as_nwk r))) \<le> length (di_nsdu ind)"
    and "afc_frame_type (aph_frame_control h) = ApsCommandType" "\<not> afc_security (aph_frame_control h)"
    and "read_with (ac_read_command A) (drop n (di_nsdu ind)) 0 = Inr (CmdConfirmKey c, m)"
    and "ck_status c = ConfirmSuccess" "ck_key_type c = TrustCenterLinkKeyType"
    and "di_dst_address ind = UnicastOrBroadcastDst a" "\<not> is_broadcast a"
    and "as_is_authorized r" "as_security_network_params r = Centralized tc"
    and "find_ext_addr (di_src_address ind) (as_nwk r) = Done (Some tc, as_nwk r)"
    and "find (\<lambda>k. dk_device_address k = tc) (as_device_key_pair_set r) = Some kp"
  shows "aps_handle_data_indication E A mode ind r =
    Done (Some (ApsIndConfirmKey ConfirmSuccess (ck_destination_address c) TrustCenterLinkKeyType),
      r\<lparr> as_device_key_pair_set :=
        update_first (\<lambda>k. dk_device_address k = tc) confirm_link_key (as_device_key_pair_set r) \<rparr>)"
proof -
  let ?f = "\<lparr> acf_header = h, acf_command = CmdConfirmKey c \<rparr>"
  have "decrypt_aps_frame (ev_crypto E) (ev_wire E) (ev_codecs E) A (nwk_security_level (profile_params (as_nwk r)))
      (as_is_authorized r) (as_device_key_pair_set r) (di_nsdu ind) = Done (Inr (ApsCommand ?f, None))"
    using assms(1-6) by (simp add: decrypt_aps_frame_def parse_error_done aps_from_payload_def)
  moreover have "validate_incoming_apsme_command (di_src_address ind) ?f None r = Done (True, r)"
    using assms(11,12) by (simp add: validate_incoming_apsme_command_def get_tc_addr_def)
  moreover have "with_nwk (find_ext_addr (di_src_address ind)) r = Done (Some tc, r)"
    using assms(13) by (simp add: with_nwk_def)
  ultimately show ?thesis
    using assms(7-10,12,14)
    by (simp add: handle_decrypted act_bind_of handle_aps_command_common_def handle_confirm_key_command_def
        act_gets_bind get_tc_addr_def act_then_modify act_return_def)
qed

section \<open>Errors of secured transmission\<close>

text \<open>What stops a secured frame: a destination without a known extended address, no usable link key,
  an outgoing counter at its maximum, and for anything but a command a request without the extended
  nonce, since the nonce is built from the source address that the auxiliary header then lacks. An
  acknowledgement panics. No error moves a counter.\<close>
theorem secured_send_refused:
  assumes "tx_security_enabled opts" and "find_ext_addr n (as_nwk s) = Done (e, as_nwk s)"
    and "aps_frame_key (ev_crypto E) f lk = Done (Inr (k, kid))"
  shows "case e of None \<Rightarrow> aps_frame_bytes E A f n opts s = Done (Inl (ApsSecurityError Unspecified), s)
    | Some dest \<Rightarrow>
        (case find (encryption_key_for dest) (as_device_key_pair_set s) of
           None \<Rightarrow> aps_frame_bytes E A f n opts s = Done (Inl (ApsSecurityError Unspecified), s)
         | Some kp \<Rightarrow> dk_link_key kp = lk \<longrightarrow>
             (if dk_outgoing_frame_counter kp = - 1
              then aps_frame_bytes E A f n opts s = Done (Inl (ApsSecurityError InvalidData), s)
              else case f of
                ApsAcknowledgement _ \<Rightarrow> aps_frame_bytes E A f n opts s = Panic
              | ApsData _ \<Rightarrow> \<not> tx_include_extended_nonce opts \<longrightarrow>
                  aps_frame_bytes E A f n opts s = Done (Inl (ApsSecurityError InvalidData), s)
              | ApsCommand _ \<Rightarrow> True))"
proof (cases e)
  case None
  with assms(1,2) show ?thesis
    by (simp add: aps_frame_bytes_def Let_def act_bind_def with_nwk_def act_return_def)
next
  case (Some dest)
  let ?enc = "encrypt_aps_frame (ev_crypto E) (ev_wire E) (ev_codecs E) A
    (nwk_security_level (profile_params (as_nwk s))) (get_ext_addr (as_nwk s)) f dest opts (replicate 127 0)
    (as_device_key_pair_set s)"
  have key: "aps_frame_key C (map_aps_header secured_header f) = aps_frame_key C f" for C
    using secured_frame_simps(4) by (auto simp: secured_frame_def)
  have err: "aps_frame_bytes E A f n opts s = Done (Inl (ApsSecurityError x), s)"
    if "?enc = Done (Inl x, as_device_key_pair_set s)" for x
    using assms(1,2) Some that
    by (simp add: aps_frame_bytes_def Let_def act_bind_def with_nwk_def act_return_def aps_encrypt_def)
  have panic: "aps_frame_bytes E A f n opts s = Panic" if "?enc = Panic"
    using assms(1,2) Some that
    by (simp add: aps_frame_bytes_def Let_def act_bind_def with_nwk_def act_return_def aps_encrypt_def)
  show ?thesis
  proof (cases "find (encryption_key_for dest) (as_device_key_pair_set s)")
    case None
    with err [of Unspecified] Some show ?thesis by (simp add: encrypt_aps_frame_def Let_def)
  next
    case (Some kp)
    note kp = Some
    show ?thesis
    proof (cases "dk_link_key kp = lk \<and> dk_outgoing_frame_counter kp \<noteq> - 1")
      case True
      show ?thesis
      proof (cases f)
        case (ApsData d)
        have "?enc = Done (Inl InvalidData, as_device_key_pair_set s)" if "\<not> tx_include_extended_nonce opts"
          using that kp True assms(3) key [of "ev_crypto E"] ApsData
          by (simp add: encrypt_aps_frame_def Let_def write_and_encrypt_in_place_def create_nonce_def aps_aux_header_def)
        with err [of InvalidData] kp \<open>e = Some dest\<close> True ApsData show ?thesis by simp
      next
        case (ApsAcknowledgement h)
        then have "?enc = Panic"
          using kp True assms(3) key [of "ev_crypto E"] by (simp add: encrypt_aps_frame_def Let_def)
        with panic kp \<open>e = Some dest\<close> True ApsAcknowledgement show ?thesis by simp
      qed (use kp \<open>e = Some dest\<close> True in simp)
    next
      case False
      have "?enc = Done (Inl InvalidData, as_device_key_pair_set s)"
        if "dk_link_key kp = lk" "dk_outgoing_frame_counter kp = - 1"
        using that kp assms(3) key [of "ev_crypto E"] by (simp add: encrypt_aps_frame_def Let_def)
      with err [of InvalidData] kp \<open>e = Some dest\<close> False show ?thesis by simp
    qed
  qed
qed


section \<open>Witnesses\<close>

definition confirm_std :: confirm_key_cmd where
  "confirm_std = \<lparr> ck_status = ConfirmSuccess, ck_key_type = TrustCenterLinkKeyType, ck_destination_address = 9 \<rparr>"

definition confirm_header :: aps_header where
  "confirm_header = acf_header (aps_command_frame_new 0x1001 (CmdConfirmKey confirm_std))"

definition confirm_ind :: Nwk_Context.data_indication where
  "confirm_ind = \<lparr> di_dst_address = UnicastOrBroadcastDst 0x1001, di_src_address = 0, di_nsdu = [0x40, 1, 2, 3, 8],
     di_link_quality = 200, di_security_use = True \<rparr>"

lemma confirm_std_facts:
  "ac_read_header (aps_codecs_std h c) (di_nsdu confirm_ind) = Inr (h, 4)" "4 \<le> length (di_nsdu confirm_ind)"
  "mic_length (nwk_security_level (profile_params (as_nwk aps_std))) \<le> length (di_nsdu confirm_ind)"
  "afc_frame_type (aph_frame_control confirm_header) = ApsCommandType"
  "\<not> afc_security (aph_frame_control confirm_header)"
  "read_with (ac_read_command (aps_codecs_std h c)) (drop 4 (di_nsdu confirm_ind)) 0 = Inr (c, 1)"
  "ck_status confirm_std = ConfirmSuccess" "ck_key_type confirm_std = TrustCenterLinkKeyType"
  "di_dst_address confirm_ind = UnicastOrBroadcastDst 0x1001" "\<not> is_broadcast 0x1001"
  "find_ext_addr (di_src_address confirm_ind) (as_nwk aps_std) = Done (Some 5, as_nwk aps_std)"
  "find (\<lambda>k. dk_device_address k = 5) (as_device_key_pair_set aps_std) = Some link_key_std"
  by (simp_all add: confirm_ind_def confirm_header_def aps_command_frame_new_def confirm_std_def aps_codecs_std_def
      aps_std_simps nwk_std_simps read_with_def is_broadcast_def link_key_std_def)

theorem unsecured_confirm_obeyed_witness:
  "aps_handle_data_indication env_std (aps_codecs_std confirm_header (CmdConfirmKey confirm_std)) JoinedAsEndDevice
     confirm_ind aps_std =
   Done (Some (ApsIndConfirmKey ConfirmSuccess 9 TrustCenterLinkKeyType),
     aps_std\<lparr> as_device_key_pair_set := [link_key_std\<lparr> dk_incoming_frame_counter := 0 \<rparr>] \<rparr>)"
proof -
  let ?c = "CmdConfirmKey confirm_std"
  from unsecured_confirm_obeyed [OF confirm_std_facts(1) [of confirm_header ?c] confirm_std_facts(2-5)
      confirm_std_facts(6) [of confirm_header ?c] confirm_std_facts(7-10) aps_std_simps(4,5) confirm_std_facts(11,12),
      where E = env_std and mode = JoinedAsEndDevice]
  show ?thesis by (simp add: aps_std_simps link_key_std_def confirm_link_key_def confirm_std_def)
qed

lemma key_of_data: "aps_frame_key C (ApsData d) lk = Done (Inr (lk, DataKey))"
  by (simp add: aps_frame_key_def)

theorem secured_send_refused_witness:
  "aps_frame_bytes env_std (aps_codecs_std confirm_header (CmdSwitchKey 0))
     (ApsData (aps_data_frame_new (data_init (ApsNetwork 0 1) request_std [1] None))) 0
     (tx_options_default\<lparr> tx_security_enabled := True \<rparr>) aps_std = Done (Inl (ApsSecurityError InvalidData), aps_std)"
proof -
  have "tx_security_enabled (tx_options_default\<lparr> tx_security_enabled := True \<rparr>)" by simp
  from secured_send_refused [OF this aps_std_simps(1) key_of_data [of _ _ "replicate 16 1"]]
  show ?thesis
    by (simp add: aps_std_simps encryption_key_for_def link_key_std_def tx_options_default_def)
qed

theorem reception_security_effects_witness:
  "\<exists>i r'. aps_handle_data_indication env_std (aps_codecs_std confirm_header (CmdSwitchKey 0)) JoinedAsRouter
      confirm_ind aps_std = Done (i, r') \<and> i = None \<and> as_device_key_pair_set r' = [link_key_std]"
proof -
  let ?A = "aps_codecs_std confirm_header (CmdSwitchKey 0)"
  let ?f = "\<lparr> acf_header = confirm_header, acf_command = CmdSwitchKey 0 \<rparr>"
  have "decrypt_aps_frame (ev_crypto env_std) (ev_wire env_std) (ev_codecs env_std) ?A
      (nwk_security_level (profile_params (as_nwk aps_std))) (as_is_authorized aps_std) (as_device_key_pair_set aps_std)
      (di_nsdu confirm_ind) = Done (Inr (ApsCommand ?f, None))"
    using confirm_std_facts(2-5)
    by (simp add: decrypt_aps_frame_def parse_error_done aps_from_payload_def confirm_std_facts not_less)
  from handle_decrypted [OF this]
  have handled: "aps_handle_data_indication env_std ?A JoinedAsRouter confirm_ind aps_std = Done (None, aps_std)"
    by (simp add: act_bind_def validate_incoming_apsme_command_def get_tc_addr_def aps_std_simps
        handle_aps_command_common_def handle_router_aps_command_def act_return_def)
  with reception_security_effects [OF handled] show ?thesis by (simp add: aps_std_simps)
qed

end
