(* ===== verification/Zdp_Services.thy ===== *)
theory Zdp_Services
  imports Zdp Zdp_Codecs Aps_Safety
begin

text \<open>
  What the services of the device profile do: they always come to an end, what they can change, how
  requests and responses belong together, and where discovery goes wrong.
\<close>

section \<open>Sending comes to an end\<close>

text \<open>Without acknowledgement a message goes out in one frame or not at all.\<close>

definition send_plain ::
  "env \<Rightarrow> radio \<Rightarrow> aps_codecs \<Rightarrow> nwk_mode \<Rightarrow> apsde_request \<Rightarrow> aps_address \<Rightarrow> aps_result aps_act" where
  "send_plain E R A mode rq dst = (case write_with (rq_asdu rq) (replicate MAX_APS_FRAME_SIZE 0, 0) of
     Inl e \<Rightarrow> act_return (Inl (if e = Incomplete then ApsTooLong else ApsByteError e))
   | Inr (asdu, len) \<Rightarrow>
       if len \<le> MAX_APS_PAYLOAD_SIZE then transfer_single E R A mode dst rq (take len asdu)
       else act_return (Inl ApsTooLong))"

lemma aps_data_transfer_plain:
  "\<not> tx_acknowledged (rq_tx_options rq) \<Longrightarrow>
     aps_data_transfer E R A mode dst rq = lp_of (send_plain E R A mode rq dst)"
  by (auto simp: aps_data_transfer_def send_plain_def lp_of_def fun_eq_iff act_return_def
      split: sum.split byte_error.split option.split)

lemma send_plain_sec:
  "\<not> tx_security_enabled (rq_tx_options rq) \<Longrightarrow> \<not> tx_acknowledged (rq_tx_options rq) \<Longrightarrow>
     keeps (\<lambda>s. sec s = v) (send_plain E R A mode rq dst)"
  unfolding send_plain_def transfer_single_def aps_send_data_def get_aps_counter_def [abs_def]
  by (intro keeps_rules) (auto simp: keeps_def sec_def)

lemma bound_destinations_keeps: "keeps (\<lambda>s. sec s = v) (bound_destinations bs)"
proof (induction bs)
  case (Cons b bs)
  then show ?case
    by (cases "bd_dst_address b"; simp only: bound_destinations.simps get_short_address_def binding_address.case
        apsde_address.case) (intro keeps_rules, assumption?)+
qed (simp add: keeps_rules)

lemma plain_request_rules:
  assumes "\<not> tx_acknowledged (rq_tx_options rq)"
  shows "returns (aps_data_request iter E R A mode rq)"
    and "\<not> tx_security_enabled (rq_tx_options rq) \<Longrightarrow> lp_keeps (\<lambda>s. sec s = v) (aps_data_request iter E R A mode rq)"
proof -
  note plain = aps_data_transfer_plain [OF assms]
  show "returns (aps_data_request iter E R A mode rq)"
    by (cases "rq_dst_address rq"; simp only: aps_data_request_def apsde_address.case plain)
      (intro loop_rules)+
  assume sec: "\<not> tx_security_enabled (rq_tx_options rq)"
  note keep = send_plain_sec [OF sec assms]
  show "lp_keeps (\<lambda>s. sec s = v) (aps_data_request iter E R A mode rq)"
    by (cases "rq_dst_address rq"; simp only: aps_data_request_def apsde_address.case plain)
      (intro loop_rules keeps_rules keep bound_destinations_keeps)+
qed

lemma zdp_request_options: "rq_tx_options (zdp_request N dst d seq) = tx_options_default"
  by (simp add: zdp_request_def)

lemma zdp_request_dst: "rq_dst_address (zdp_request N dst d seq) = dst"
  by (simp add: zdp_request_def)

lemma zdp_plain: "\<not> tx_acknowledged (rq_tx_options (zdp_request N dst d seq))"
  "\<not> tx_security_enabled (rq_tx_options (zdp_request N dst d seq))"
  by (simp_all add: zdp_request_options tx_options_default_def)

lemma transmit_returns [loop_rules]: "returns (transmit_zdp_command N dst d seq)"
  unfolding returns_def transmit_zdp_command_def aps_in_node_def
  using aps_part.returns_within [OF plain_request_rules(1) [OF zdp_plain(1)]] by (fast dest: returns_def [THEN iffD1])

text \<open>The part of a node that sending leaves alone.\<close>

definition fixed :: "joined_node \<Rightarrow> nwk_mode \<times> u8 \<times> zb_config \<times> (aps_endpoint, zb_application) imap \<times> storage" where
  "fixed s = (nd_mode s, nd_zcl_transaction_number s, nd_config s, nd_applications s, nd_storage s)"

lemma fixed_aps [simp]: "fixed (s\<lparr> nd_aps := a \<rparr>) = fixed s"
  by (simp add: fixed_def)

lemma keeps_fixed [keeps_rules]: "keeps (\<lambda>s. fixed s = v) (with_aps m)" "keeps (\<lambda>s. fixed s = v) (node_nwk n)"
  unfolding node_nwk_def with_aps_def by (rule aps_part.keeps_rest, simp)+

lemma keeps_node_sec [keeps_rules]: "keeps (\<lambda>s. sec (nd_aps s) = v) (node_nwk n)"
  unfolding node_nwk_def with_aps_def by (rule aps_part.keeps_part [OF keeps_sec_nwk])

lemma transmit_keeps [loop_rules]:
  "lp_keeps (\<lambda>s. fixed s = v) (transmit_zdp_command N dst d seq)"
  "lp_keeps (\<lambda>s. sec (nd_aps s) = w) (transmit_zdp_command N dst d seq)"
proof -
  have eff: "fixed s' = fixed s" "sec (nd_aps s') = sec (nd_aps s)"
    if sent: "transmit_zdp_command N dst d seq s = Some (Done (r, s'))" for s r s'
  proof -
    let ?rq = "zdp_request N dst d (case seq of Some n \<Rightarrow> n | None \<Rightarrow> get_zcl_transaction_number s)"
    from sent obtain a where a: "aps_data_request (ne_iter N) (ne_env N) (ne_radio N) (ne_aps N) (nd_mode s) ?rq (nd_aps s) =
        Some (Done (r, a))" and s': "s' = s\<lparr> nd_aps := a \<rparr>"
      by (auto simp: transmit_zdp_command_def aps_in_node_def aps_part.lp_within_Done)
    have "sec a = sec (nd_aps s)"
      using plain_request_rules(2) [OF zdp_plain, of "sec (nd_aps s)", unfolded lp_keeps_def] a by blast
    with s' show "fixed s' = fixed s" "sec (nd_aps s') = sec (nd_aps s)" by simp_all
  qed
  then show "lp_keeps (\<lambda>s. fixed s = v) (transmit_zdp_command N dst d seq)"
    "lp_keeps (\<lambda>s. sec (nd_aps s) = w) (transmit_zdp_command N dst d seq)"
    by (simp_all add: lp_keeps_def eff)
qed

lemma respond_rules [loop_rules]:
  "returns (respond N ind seq d)"
  "lp_keeps (\<lambda>s. fixed s = v) (respond N ind seq d)"
  "lp_keeps (\<lambda>s. sec (nd_aps s) = w) (respond N ind seq d)"
  unfolding respond_def by (intro loop_rules keeps_rules)+

section \<open>What a request can change\<close>

lemmas response_defs = nwk_addr_response_def ieee_addr_response_def node_desc_response_def power_desc_response_def
  simple_desc_response_def active_ep_response_def match_desc_response_def handle_device_annce_def
  parent_annce_response_def server_discovery_response_def get_status_and_neighbours_def
  handle_extended_addr_request_def

lemma keeps_addr_kinds [keeps_rules]:
  "keeps I m \<Longrightarrow> (\<And>n. keeps I (f n)) \<Longrightarrow> keeps I (case k of SingleDevice \<Rightarrow> m | ExtendedResponse n \<Rightarrow> f n)"
  "(\<And>a. keeps I (t a)) \<Longrightarrow> (\<And>b. keeps I (g b)) \<Longrightarrow> keeps I p \<Longrightarrow> keeps I q \<Longrightarrow>
     keeps I (case r of ThisDevice a \<Rightarrow> t a | Neighbour b \<Rightarrow> g b | InvRequestType \<Rightarrow> p | DeviceNotFound \<Rightarrow> q)"
  "(\<And>a. keeps I (w a)) \<Longrightarrow> keeps I p \<Longrightarrow> keeps I (case z of ApsdeGroup a \<Rightarrow> w a | _ \<Rightarrow> p)"
  by ((cases k; simp), (cases r; simp), (cases z; simp))

text \<open>Every response but those to bindings leaves what the nodes of the network may not touch alone.\<close>

definition nwk_frame_property :: "(joined_node \<Rightarrow> bool) \<Rightarrow> bool" where
  "nwk_frame_property I \<longleftrightarrow> (\<forall>s n. I (s\<lparr> nd_aps := (nd_aps s)\<lparr> as_nwk := n \<rparr> \<rparr>) = I s)"

lemma keeps_node_nwk: "nwk_frame_property I \<Longrightarrow> keeps I (node_nwk m)"
  by (auto simp: nwk_frame_property_def keeps_def node_nwk_def with_aps_def aps_part.within_Done with_nwk_within
      nwk_part.within_Done)

lemma responses_keep:
  assumes I: "nwk_frame_property I"
  shows "keeps I (nwk_addr_response ind r1)" "keeps I (ieee_addr_response ind r2)" "keeps I (node_desc_response a)"
    "keeps I (power_desc_response a)" "keeps I (simple_desc_response r3)" "keeps I (active_ep_response a)"
    "keeps I (match_desc_response ind r4)" "keeps I (handle_device_annce ind r5)"
    "keeps I (parent_annce_response E cs)" "keeps I (server_discovery_response W sm)"
  by (unfold response_defs Let_def, (intro keeps_rules keeps_node_nwk [OF I])+)

lemma zdp_response_keeps:
  assumes "nwk_frame_property I" and "zdp_response E ind d = Some m" and "\<And>b. d \<noteq> BindReq b" and "\<And>b. d \<noteq> UnbindReq b"
  shows "keeps I m"
  using assms(2-) responses_keep [OF assms(1)]
  by (cases d) (auto simp: zdp_response_def intro: keeps_rules)

definition bindings_after :: "aps_data_indication \<Rightarrow> transaction_data \<Rightarrow> binding set \<Rightarrow> binding set" where
  "bindings_after ind d bt = (if aps_is_broadcast (adi_dst ind) then bt
     else case d of BindReq b \<Rightarrow> insert b bt | UnbindReq b \<Rightarrow> bt - {b} | _ \<Rightarrow> bt)"

lemma response_effect:
  assumes "zdp_response E ind d = Some m" and "m s = Done (x, s1)"
  shows "fixed s1 = fixed s \<and> (let v = sec (nd_aps s); w = sec (nd_aps s1) in
    fst w = fst v \<and> fst (snd w) = fst (snd v) \<and> fst (snd (snd w)) = fst (snd (snd v)) \<and>
    snd (snd (snd w)) = bindings_after ind d (snd (snd (snd v))))"
proof (cases "\<exists>b. d = BindReq b \<or> d = UnbindReq b")
  case True
  then obtain b where "d = BindReq b \<or> d = UnbindReq b" by blast
  then show ?thesis
  proof
    assume d: "d = BindReq b"
    with assms show ?thesis
      by (auto simp: zdp_response_def bind_response_def bindings_after_def with_aps_def aps_part.within_Done
          act_bind_Done act_return_def bind_request_def act_then_modify sec_def Let_def split: if_splits)
  next
    assume d: "d = UnbindReq b"
    with assms show ?thesis
      by (auto simp: zdp_response_def unbind_response_def bindings_after_def with_aps_def aps_part.within_Done
          act_bind_Done act_return_def unbind_request_def sec_def Let_def split: if_splits)
  qed
next
  case False
  then have other: "\<And>b. d \<noteq> BindReq b" "\<And>b. d \<noteq> UnbindReq b" by auto
  have "fixed s1 = fixed s"
    by (rule keepsD_eq [OF zdp_response_keeps [OF _ assms(1) other] assms(2)]) (simp add: nwk_frame_property_def)
  moreover have "sec (nd_aps s1) = sec (nd_aps s)"
    by (rule keepsD_eq [OF zdp_response_keeps [OF _ assms(1) other] assms(2)]) (simp add: nwk_frame_property_def)
  ultimately show ?thesis using other by (auto simp: bindings_after_def Let_def split: transaction_data.split)
qed

lemma zdp_effects:
  assumes fin: "handle_zdp_command N ind s = Some (Done (r, s'))"
  shows "nd_mode s' = nd_mode s \<and> nd_config s' = nd_config s \<and> nd_applications s' = nd_applications s \<and> nd_storage s' = nd_storage s \<and>
      nd_zcl_transaction_number s' = nd_zcl_transaction_number s \<and>
      as_device_key_pair_set (nd_aps s') = as_device_key_pair_set (nd_aps s) \<and>
      as_is_authorized (nd_aps s') = as_is_authorized (nd_aps s) \<and>
      as_security_network_params (nd_aps s') = as_security_network_params (nd_aps s) \<and>
      as_binding_table (nd_aps s') = (case read_zdp_command (ne_zdp N) (adi_cluster_id ind) (adi_asdu ind) of
        Done (Inr (cmd, _)) \<Rightarrow> bindings_after ind (zp_transaction_data cmd) (as_binding_table (nd_aps s))
      | _ \<Rightarrow> as_binding_table (nd_aps s))"
proof -
  from fin obtain q where q: "read_zdp_command (ne_zdp N) (adi_cluster_id ind) (adi_asdu ind) = Done q"
    by (auto simp: handle_zdp_command_def act_run_def run_map_Done_iff split: run.splits)
  have eff: "fixed s' = fixed s \<and> fst (sec (nd_aps s')) = fst (sec (nd_aps s)) \<and>
      fst (snd (sec (nd_aps s'))) = fst (snd (sec (nd_aps s))) \<and>
      fst (snd (snd (sec (nd_aps s')))) = fst (snd (snd (sec (nd_aps s)))) \<and>
      snd (snd (snd (sec (nd_aps s')))) = (case q of Inr (cmd, _) \<Rightarrow>
        bindings_after ind (zp_transaction_data cmd) (snd (snd (snd (sec (nd_aps s))))) | _ \<Rightarrow> snd (snd (snd (sec (nd_aps s)))))"
  proof (cases q)
    case (Inl e)
    with fin q show ?thesis by (auto simp: handle_zdp_command_def act_run_def act_return_def)
  next
    case (Inr p)
    obtain cmd n where p: "p = (cmd, n)" by (cases p)
    show ?thesis
    proof (cases "zdp_response (ne_env N) ind (zp_transaction_data cmd)")
      case None
      with fin q Inr p have "s' = s" by (simp add: handle_zdp_command_def act_run_def act_return_def)
      moreover have "bindings_after ind (zp_transaction_data cmd) bt = bt" for bt
        using None by (auto simp: bindings_after_def zdp_response_def split: transaction_data.splits)
      ultimately show ?thesis by (simp add: Inr p)
    next
      case (Some m)
      with fin q Inr p have "lp_bind (lp_of m) (respond N ind (zp_transaction_sequence_number cmd)) s = Some (Done (r, s'))"
        by (simp add: handle_zdp_command_def act_run_def)
      then obtain x s1 where m: "m s = Done (x, s1)"
        and sent: "respond N ind (zp_transaction_sequence_number cmd) x s1 = Some (Done (r, s'))"
        by (elim lp_bindE) simp
      have "fixed s' = fixed s1" "sec (nd_aps s') = sec (nd_aps s1)"
        using respond_rules(2) [of "fixed s1" N ind "zp_transaction_sequence_number cmd" x]
          respond_rules(3) [of "sec (nd_aps s1)" N ind "zp_transaction_sequence_number cmd" x] sent
        unfolding lp_keeps_def by blast+
      with response_effect [OF Some m] show ?thesis by (simp add: Inr p Let_def)
    qed
  qed
  show ?thesis
    using eff by (simp add: q fixed_def sec_def split: sum.splits prod.splits)
qed

text \<open>C28. What a device-profile request can do to a node, whoever sends it and with whatever security: its
  handling always comes to an end, and if it does so without a panic then mode, configuration,
  applications, storage, transaction number, link keys, authorization and network parameters are as before;
  the binding table changes exactly by a binding request that was not broadcast.\<close>
theorem zdp_request_effects:
  "\<exists>x. handle_zdp_command N ind s = Some x \<and> (case x of Panic \<Rightarrow> True | Done (r, s') \<Rightarrow>
      nd_mode s' = nd_mode s \<and> nd_config s' = nd_config s \<and> nd_applications s' = nd_applications s \<and> nd_storage s' = nd_storage s \<and>
      nd_zcl_transaction_number s' = nd_zcl_transaction_number s \<and>
      as_device_key_pair_set (nd_aps s') = as_device_key_pair_set (nd_aps s) \<and>
      as_is_authorized (nd_aps s') = as_is_authorized (nd_aps s) \<and>
      as_security_network_params (nd_aps s') = as_security_network_params (nd_aps s) \<and>
      as_binding_table (nd_aps s') = (case read_zdp_command (ne_zdp N) (adi_cluster_id ind) (adi_asdu ind) of
        Done (Inr (cmd, _)) \<Rightarrow> bindings_after ind (zp_transaction_data cmd) (as_binding_table (nd_aps s))
      | _ \<Rightarrow> as_binding_table (nd_aps s)))"
proof -
  have "returns (handle_zdp_command N ind)"
    unfolding handle_zdp_command_def by (intro loop_rules) (auto intro!: loop_rules split: prod.split)
  then obtain x where x: "handle_zdp_command N ind s = Some x" by (auto simp: returns_def)
  show ?thesis
  proof (intro exI conjI, rule x, cases x)
    case (Done p)
    with x zdp_effects [of N ind s "fst p" "snd p"] show "case x of Panic \<Rightarrow> True | Done (r, s') \<Rightarrow>
      nd_mode s' = nd_mode s \<and> nd_config s' = nd_config s \<and> nd_applications s' = nd_applications s \<and> nd_storage s' = nd_storage s \<and>
      nd_zcl_transaction_number s' = nd_zcl_transaction_number s \<and>
      as_device_key_pair_set (nd_aps s') = as_device_key_pair_set (nd_aps s) \<and>
      as_is_authorized (nd_aps s') = as_is_authorized (nd_aps s) \<and>
      as_security_network_params (nd_aps s') = as_security_network_params (nd_aps s) \<and>
      as_binding_table (nd_aps s') = (case read_zdp_command (ne_zdp N) (adi_cluster_id ind) (adi_asdu ind) of
        Done (Inr (cmd, _)) \<Rightarrow> bindings_after ind (zp_transaction_data cmd) (as_binding_table (nd_aps s))
      | _ \<Rightarrow> as_binding_table (nd_aps s))"
      by (simp add: case_prod_beta)
  qed simp
qed

section \<open>Requests and responses\<close>

lemma response_discriminant:
  assumes "zdp_response E ind d = Some m" and "m s = Done (Some x, s1)"
  shows "discriminant x = discriminant d OR 0x8000"
  using assms(2,1)
  by (cases d)
    (auto simp: zdp_response_def response_defs bind_response_def unbind_response_def act_bind_Done act_return_def
      act_then_def act_gets_def Let_def handle_addr_request_no_matches_def split: if_splits option.splits status_result.splits)

text \<open>C27. A request and its response belong together: the response goes to the source of the request, to its
  endpoint, under the cluster of the request with the top bit set, profile and endpoint zero, without an
  acknowledgement; what is written is the transaction number of the request and the data of the response. It goes
  out in one frame of what the writer wrote, at most 96 bytes; a longer one, or one that does not fit the buffer, is
  refused as too long, and nothing else of the node changes after the response was made.\<close>
theorem zdp_exchange:
  assumes "read_zdp_command (ne_zdp N) (adi_cluster_id ind) (adi_asdu ind) = Done (Inr (cmd, n))"
    and "zdp_response (ne_env N) ind (zp_transaction_data cmd) = Some m" and "m s = Done (Some d, s1)"
    and "adi_src ind = ApsdeNetwork a ep \<or>
      (\<exists>x. adi_src ind = ApsdeExtended x ep \<and> find_nwk_addr x (nwk_of s1) = Done (Some a, nwk_of s1))"
  shows "handle_zdp_command N ind s = Some (run_map (\<lambda>(r, t). (map_sum id Some r, s1\<lparr> nd_aps := t \<rparr>))
    (let w = zx_write_command (ne_zdp N) \<lparr> zp_transaction_sequence_number = zp_transaction_sequence_number cmd,
           zp_transaction_data = d \<rparr>
     in case w (replicate 2048 0) of
       Inl e \<Rightarrow> Done (Inl (if e = Incomplete then ApsTooLong else ApsByteError e), nd_aps s1)
     | Inr (buf, len) \<Rightarrow>
         if 96 < len then Done (Inl ApsTooLong, nd_aps s1)
         else transfer_single (ne_env N) (ne_radio N) (ne_aps N) (nd_mode s) (ApsNetwork a ep)
           \<lparr> rq_dst_address = adi_src ind, rq_profile_id = 0,
             rq_cluster_id = discriminant (zp_transaction_data cmd) OR 0x8000, rq_src_endpoint = 0, rq_asdu = w,
             rq_tx_options = tx_options_default, rq_alias = None, rq_radius = None \<rparr> (take len buf) (nd_aps s1)))"
proof -
  let ?seq = "zp_transaction_sequence_number cmd" and ?rq = "zdp_request N (adi_src ind) d (zp_transaction_sequence_number cmd)"
  let ?send = "send_plain (ne_env N) (ne_radio N) (ne_aps N) (nd_mode s) ?rq (ApsNetwork a ep) (nd_aps s1)"
  have mode: "nd_mode s1 = nd_mode s" using response_effect [OF assms(2,3)] by (simp add: fixed_def)
  have rq: "?rq = \<lparr> rq_dst_address = adi_src ind, rq_profile_id = 0,
      rq_cluster_id = discriminant (zp_transaction_data cmd) OR 0x8000, rq_src_endpoint = 0,
      rq_asdu = zx_write_command (ne_zdp N) \<lparr> zp_transaction_sequence_number = ?seq, zp_transaction_data = d \<rparr>,
      rq_tx_options = tx_options_default, rq_alias = None, rq_radius = None \<rparr>"
    using response_discriminant [OF assms(2,3)] by (simp add: zdp_request_def ZDP_PROFILE_def ZDP_ENDPOINT_def)
  have req: "aps_data_request (ne_iter N) (ne_env N) (ne_radio N) (ne_aps N) (nd_mode s) ?rq (nd_aps s1) = Some ?send"
    using assms(4)
    by (auto simp: aps_data_request_def aps_data_transfer_plain [OF zdp_plain(1)] zdp_request_dst lp_of_def
        lp_bind_def with_nwk_def)
  have "handle_zdp_command N ind s = Some (run_map (\<lambda>(r, t). (map_sum id Some r, s1\<lparr> nd_aps := t \<rparr>)) ?send)"
    using req assms(1-3)
    by (cases ?send) (auto simp: handle_zdp_command_def act_run_def respond_def transmit_zdp_command_def aps_in_node_def
        lp_within_def mode lp_bind_def act_return_def lp_of_def to_optional_def)
  also have "?send = (let w = zx_write_command (ne_zdp N) \<lparr> zp_transaction_sequence_number = ?seq, zp_transaction_data = d \<rparr>
     in case w (replicate 2048 0) of
       Inl e \<Rightarrow> Done (Inl (if e = Incomplete then ApsTooLong else ApsByteError e), nd_aps s1)
     | Inr (buf, len) \<Rightarrow> if 96 < len then Done (Inl ApsTooLong, nd_aps s1)
         else transfer_single (ne_env N) (ne_radio N) (ne_aps N) (nd_mode s) (ApsNetwork a ep) ?rq (take len buf) (nd_aps s1))"
    by (cases "zx_write_command (ne_zdp N) \<lparr> zp_transaction_sequence_number = ?seq, zp_transaction_data = d \<rparr> (replicate 2048 0)")
      (auto simp: send_plain_def rq MAX_APS_FRAME_SIZE_def MAX_APS_PAYLOAD_SIZE_def A_MAX_MAC_PAYLOAD_SIZE_def act_return_def
        not_less)
  finally show ?thesis by (simp only: rq Let_def)
qed

section \<open>The node's own address\<close>

lemma node_addr_eq:
  assumes "ms_short_address (nk_mac (nwk_of s)) = Some a"
  shows "act_bind (node_nwk get_addr) f s = f a s"
  using assms by (simp add: act_bind_def node_nwk_def with_aps_def act_within_def with_nwk_def get_addr_def act_run_def
      unwrap_run_def)

lemma node_find_nwk:
  assumes "ms_short_address (nk_mac (nwk_of s)) = Some a"
  shows "act_bind (node_nwk (find_nwk_addr e)) f s =
    f (if e = get_ext_addr (nwk_of s) then Some a
       else case am_find_nwk_addr e (cx_addr_map (nk_ctx (nwk_of s))) of Some n \<Rightarrow> Some n
         | None \<Rightarrow> map_option nb_nwk_addr (find_by_ext_addr e (cx_neighbors (nk_ctx (nwk_of s))))) s"
  using assms by (simp add: act_bind_def node_nwk_def with_aps_def act_within_def with_nwk_def find_nwk_addr_def
      get_addr_def act_run_def unwrap_run_def act_gets_def act_return_def)

lemma status_of:
  assumes "ms_short_address (nk_mac (nwk_of s)) = Some slf"
  shows "act_bind (get_status_and_neighbours a) f s =
    f (if a = slf then ThisDevice a else case find (\<lambda>nb. nb_nwk_addr nb = a) (neighbors (nwk_of s)) of
        Some nb \<Rightarrow> Neighbour nb | None \<Rightarrow> DeviceNotFound) s"
  unfolding get_status_and_neighbours_def
  using node_addr_eq [OF assms, of "\<lambda>slf. if a = slf then act_return (ThisDevice a)
     else act_gets (\<lambda>s. case find (\<lambda>nb. nb_nwk_addr nb = a) (neighbors (nwk_of s)) of
       Some nb \<Rightarrow> Neighbour nb | None \<Rightarrow> DeviceNotFound)"]
  by (auto simp: act_bind_def act_return_def act_gets_def)

section \<open>Witnesses\<close>

definition app_std :: zb_application where
  "app_std = \<lparr> za_profile_id = 0x0104, za_device_id = 0x0100, za_version = 1,
     za_clusters = [(ServerCluster, 6), (ClientCluster, 0x19)] \<rparr>"

definition node_std :: joined_node where
  "node_std = \<lparr> nd_mode = JoinedAsEndDevice, nd_aps = aps_std, nd_zcl_transaction_number = 0,
     nd_config = zb_config_default, nd_applications = [(1, app_std)],
     nd_storage = \<lparr> st_nwk = [], st_aps = [] \<rparr> \<rparr>"

text \<open>A storage that reads what was written, and nothing where it is empty.\<close>

definition driver_std :: storage_driver where
  "driver_std = \<lparr> dr_load = (\<lambda>b. if b = [] then Inl ''empty'' else Inr b), dr_persist = (\<lambda>_ b. (Inr (), b)),
     dr_clear = (\<lambda>_. []) \<rparr>"

definition node_env_std :: "(u16 \<Rightarrow> transaction_data) \<Rightarrow> node_env" where
  "node_env_std d = \<lparr> ne_env = aps_env_std, ne_radio = radio_std, ne_key_radio = radio_std,
     ne_aps = aps_codecs_std (ack_header AckCommand 0) (CmdSwitchKey 0), ne_zdp = zdp_codecs_std d,
     ne_iter = (\<lambda>_. []), ne_driver = driver_std, ne_write_nwk = (\<lambda>_. Inl Incomplete),
     ne_read_nwk = (\<lambda>_. Inl Incomplete), ne_write_aps = (\<lambda>_. Inl Incomplete), ne_read_aps = (\<lambda>_. Inl Incomplete) \<rparr>"

lemma node_std_simps:
  "nd_mode node_std = JoinedAsEndDevice" "nd_aps node_std = aps_std" "nd_zcl_transaction_number node_std = 0"
  "nd_config node_std = zb_config_default" "nd_applications node_std = [(1, app_std)]"
  "ms_short_address (nk_mac (as_nwk aps_std)) = Some 0x1001" "get_ext_addr (as_nwk aps_std) = 9"
  "cx_addr_map (nk_ctx (as_nwk aps_std)) = [(0, 5)]" "neighbors (as_nwk aps_std) = []"
  "cx_neighbors (nk_ctx (as_nwk aps_std)) = neighbor_table_default 0"
  by (simp_all add: node_std_def aps_std_def nwk_std_simps nwk_std_def get_ext_addr_def nwk_context_default_def
      neighbors_def neighbor_table_default_def neighbor_table_new_def)

lemma node_std_addr: "ms_short_address (nk_mac (nwk_of node_std)) = Some 0x1001"
  by (simp add: node_std_simps)

definition zdp_ind_std :: "apsde_address \<Rightarrow> u16 \<Rightarrow> aps_data_indication" where
  "zdp_ind_std src cluster = \<lparr> adi_dst = ApsNetwork 0x1001 0, adi_src = src, adi_profile_id = 0,
     adi_cluster_id = cluster, adi_asdu = [7], adi_security_status = ApsUnsecured, adi_link_quality = 200 \<rparr>"

lemma zdp_ind_std_simps:
  "adi_src (zdp_ind_std src c) = src" "adi_cluster_id (zdp_ind_std src c) = c" "\<not> aps_is_broadcast (adi_dst (zdp_ind_std src c))"
  "read_zdp_command (zdp_codecs_std d) c (adi_asdu (zdp_ind_std src c)) =
     Done (Inr (\<lparr> zp_transaction_sequence_number = 7, zp_transaction_data = d c \<rparr>, 0))"
  by (simp_all add: zdp_ind_std_def aps_is_broadcast_def is_broadcast_def read_zdp_command_def zdp_codecs_std_def)

definition binding_std :: binding where
  "binding_std = \<lparr> bd_src_address = 9, bd_src_endpoint = 1, bd_cluster_id = 6, bd_dst_address = BindGroup 3 \<rparr>"

theorem zdp_request_effects_witness:
  "\<exists>s'. handle_zdp_command (node_env_std (\<lambda>_. BindReq binding_std)) (zdp_ind_std ApsdeNone 0x21) node_std =
      Some (Done (Inl ApsNoBoundDevice, s')) \<and> as_binding_table (nd_aps s') = {binding_std} \<and>
      as_is_authorized (nd_aps s')"
proof -
  let ?N = "node_env_std (\<lambda>_. BindReq binding_std)" and ?ind = "zdp_ind_std ApsdeNone 0x21"
  have "\<exists>s'. handle_zdp_command ?N ?ind node_std = Some (Done (Inl ApsNoBoundDevice, s'))"
    by (simp add: handle_zdp_command_def node_env_std_def zdp_ind_std_simps act_run_def zdp_response_def
        bind_response_def with_aps_def act_within_def act_bind_def bind_request_def act_then_modify act_return_def
        respond_def transmit_zdp_command_def aps_in_node_def lp_within_def aps_data_request_def zdp_request_dst
        lp_bind_def lp_of_def act_gets_def to_optional_def)
  then obtain s' where fin: "handle_zdp_command ?N ?ind node_std = Some (Done (Inl ApsNoBoundDevice, s'))" by blast
  from zdp_request_effects [of ?N ?ind node_std] show ?thesis
    using fin by (simp add: node_env_std_def zdp_ind_std_simps bindings_after_def node_std_simps aps_std_def)
qed

theorem zdp_exchange_witness:
  "\<exists>r. node_desc_response 0x1001 node_std = Done (Some (NodeDescRsp r), node_std) \<and>
     handle_zdp_command (node_env_std (\<lambda>c. NodeDescReq 0x1001)) (zdp_ind_std (ApsdeNetwork 0 0) 2) node_std =
       Some (run_map (\<lambda>(r, t). (map_sum id Some r, node_std\<lparr> nd_aps := t \<rparr>))
         (transfer_single aps_env_std radio_std (aps_codecs_std (ack_header AckCommand 0) (CmdSwitchKey 0)) JoinedAsEndDevice
           (ApsNetwork 0 0)
           \<lparr> rq_dst_address = ApsdeNetwork 0 0, rq_profile_id = 0, rq_cluster_id = 0x8002, rq_src_endpoint = 0,
             rq_asdu = write_slice [7], rq_tx_options = tx_options_default, rq_alias = None, rq_radius = None \<rparr> [7] aps_std))"
proof -
  have "\<exists>r. node_desc_response 0x1001 node_std = Done (Some (NodeDescRsp r), node_std)"
    by (simp add: node_desc_response_def status_of [OF node_std_addr] act_gets_def)
  then obtain r where r: "node_desc_response 0x1001 node_std = Done (Some (NodeDescRsp r), node_std)" by blast
  let ?N = "node_env_std (\<lambda>c. NodeDescReq 0x1001)" and ?ind = "zdp_ind_std (ApsdeNetwork 0 0) 2"
  let ?cmd = "\<lparr> zp_transaction_sequence_number = 7, zp_transaction_data = NodeDescReq 0x1001 \<rparr>"
  have read: "read_zdp_command (ne_zdp ?N) (adi_cluster_id ?ind) (adi_asdu ?ind) = Done (Inr (?cmd, 0))"
    by (simp add: node_env_std_def zdp_ind_std_simps)
  have response: "zdp_response (ne_env ?N) ?ind (zp_transaction_data ?cmd) = Some (node_desc_response 0x1001)"
    by (simp add: zdp_response_def)
  have src: "adi_src ?ind = ApsdeNetwork 0 0 \<or> (\<exists>x. adi_src ?ind = ApsdeExtended x 0 \<and>
      find_nwk_addr x (nwk_of node_std) = Done (Some 0, nwk_of node_std))" by (simp add: zdp_ind_std_simps)
  from zdp_exchange [OF read response r src] r show ?thesis
    by (simp add: node_env_std_def zdp_ind_std_simps zdp_codecs_std_def write_slice_def node_std_simps)
qed

end
