(* ===== verification/Zdp_Discovery.thy ===== *)
theory Zdp_Discovery
  imports Zdp_Services
begin

text \<open>
  Discovery through the device profile: the descriptors a node gives of itself agree with each other,
  the addresses it gives of others need not be right, and announcements do not replace what is known.
\<close>

section \<open>Descriptors\<close>

definition known_neighbor :: "nwk_addr \<Rightarrow> joined_node \<Rightarrow> bool" where
  "known_neighbor a s \<longleftrightarrow> (\<exists>nb \<in> set (neighbors (nwk_of s)). nb_nwk_addr nb = a)"

lemma known_neighbor_find: "known_neighbor a s \<longleftrightarrow> find (\<lambda>nb. nb_nwk_addr nb = a) (neighbors (nwk_of s)) \<noteq> None"
  by (auto simp: known_neighbor_def find_None_prop)

definition application_matches :: "match_desc_req \<Rightarrow> zb_application \<Rightarrow> bool" where
  "application_matches req app \<longleftrightarrow> (mdr_profile_id req = za_profile_id app \<or> mdr_profile_id req = - 1) \<and>
     ((\<exists>c \<in> set (mdr_in_cluster_list req). (ServerCluster, c) \<in> set (za_clusters app)) \<or>
      (\<exists>c \<in> set (mdr_out_cluster_list req). (ClientCluster, c) \<in> set (za_clusters app)))"

lemma descriptor_matches: "descriptor_matches_request (get_descriptor_for_endpoint ep app) req = application_matches req app"
proof -
  have "c \<in> snd ` {x \<in> set (za_clusters app). fst x = k} \<longleftrightarrow> (k, c) \<in> set (za_clusters app)" for c k by force
  then show ?thesis
    by (auto simp: descriptor_matches_request_def get_descriptor_for_endpoint_def application_matches_def list_ex_iff)
qed

text \<open>C29. Service discovery is consistent. Asked about itself a node lists the endpoints of its applications,
  gives for each of them between 1 and 240 the descriptor of its application and for any other that the
  endpoint is invalid, matches exactly the endpoints whose application has the profile and shares a
  cluster, and describes itself with the capabilities that it announces. Asked about another device it
  gives no descriptor and only tells whether the device is a neighbor, whatever the type of the asked node.\<close>
theorem service_discovery_consistent:
  assumes "ms_short_address (nk_mac (nwk_of s)) = Some slf"
  shows "(active_ep_response a s = Done (Some (ActiveEpRsp
      (if a = slf then \<lparr> el_status = DescSuccess, el_nwk_addr = a, el_ep_list = map fst (nd_applications s) \<rparr>
       else \<lparr> el_status = (if known_neighbor a s then DescNoDescriptor else DescDeviceNotFound), el_nwk_addr = a,
         el_ep_list = [] \<rparr>)), s)) \<and>
    (1 \<le> ep \<and> ep \<le> 240 \<longrightarrow> simple_desc_response \<lparr> sdr_nwk_addr_of_interest = a, sdr_endpoint = ep \<rparr> s =
      Done (Some (SimpleDescRsp (if a = slf then (case map_of (nd_applications s) ep of
          Some app \<Rightarrow> \<lparr> sd_rsp_status = SimpleSuccess, sd_rsp_nwk_addr = a,
            sd_rsp_simple_descriptor = Some (get_descriptor_for_endpoint ep app) \<rparr>
        | None \<Rightarrow> \<lparr> sd_rsp_status = SimpleInvalidEp, sd_rsp_nwk_addr = a, sd_rsp_simple_descriptor = None \<rparr>)
       else \<lparr> sd_rsp_status = (if known_neighbor a s then SimpleNoDescriptor else SimpleDeviceNotFound),
         sd_rsp_nwk_addr = a, sd_rsp_simple_descriptor = None \<rparr>)), s)) \<and>
    (\<exists>r. match_desc_response ind req s = Done (r, s) \<and>
      (let eps = map fst (filter (\<lambda>(ep, app). application_matches req app) (nd_applications s));
           b = mdr_nwk_addr_of_interest req;
           rsp = (\<lambda>st eps. Some (MatchDescRsp \<lparr> el_status = st, el_nwk_addr = b, el_ep_list = eps \<rparr>)) in
       if b = slf \<or> is_broadcast b then r = (if eps = [] \<and> is_broadcast b then None else rsp DescSuccess eps)
       else r = None \<or> (\<exists>st. st \<noteq> DescSuccess \<and> r = rsp st []))) \<and>
    (\<exists>d. node_desc_response slf s = Done (Some (NodeDescRsp \<lparr> nd_rsp_status = DescSuccess, nd_rsp_nwk_addr = slf,
        nd_rsp_node_descriptor = Some d \<rparr>), s) \<and>
      zb_of_mac_capabilities (nds_mac_capabilities d) = get_capabilities (nd_config s))"
  (is "?A \<and> ?B \<and> ?C \<and> ?D")
proof -
  have a: ?A
    by (auto simp: active_ep_response_def status_of [OF assms] act_gets_def desc_status_def known_neighbor_find
        split: option.split)
  have b: ?B
    by (auto simp: simple_desc_response_def Let_def status_of [OF assms] act_gets_def act_return_def known_neighbor_find
        im_get_def split: option.split)
  have c: ?C
    unfolding match_desc_response_def Let_def node_addr_eq [OF assms] match_list_def descriptor_matches
    by (simp add: act_gets_def child_match_status_def split: option.split)
  have d: ?D
    by (auto simp: node_desc_response_def status_of [OF assms] act_gets_def desc_status_def if_this_device_def
        get_node_descriptor_def zb_of_mac_capabilities_def get_capabilities_def)
  show ?thesis by (rule conjI [OF a conjI [OF b conjI [OF c d]]])
qed

section \<open>Addresses\<close>

text \<open>The network address on record for an extended address.\<close>

lemma act_return_bind: "act_bind (act_return x) f = f x"
  by (simp add: act_bind_def act_return_def fun_eq_iff)

definition nwk_on_record :: "ext_addr \<Rightarrow> joined_node \<Rightarrow> nwk_addr option" where
  "nwk_on_record e s = (case am_find_nwk_addr e (cx_addr_map (nk_ctx (nwk_of s))) of Some n \<Rightarrow> Some n
     | None \<Rightarrow> map_option nb_nwk_addr (find_by_ext_addr e (cx_neighbors (nk_ctx (nwk_of s)))))"

lemma extended_response:
  assumes "ms_short_address (nk_mac (nwk_of s)) = Some slf"
  shows "act_bind (handle_extended_addr_request start rsp) f s = f (rsp\<lparr> ar_status := AddrSuccess, ar_nwk_addr := slf,
      ar_ieee_addr := get_ext_addr (nwk_of s), ar_num_assoc := Some (of_nat (length (associated_devices (unat start) s))),
      ar_start_index := Some start, ar_nwk_addr_assoc_dev_list := Some (associated_devices (unat start) s) \<rparr>) s"
  by (rule act_bind_of) (simp add: handle_extended_addr_request_def node_addr_eq [OF assms] act_gets_def Let_def)

text \<open>Requests for the network address of another device. The code answers that the device is unknown
  only when the request was broadcast, and stays silent to a unicast; the response for a known device is
  right when it is asked for alone, and in the extended form gives the addresses of the answering node
  instead, with the number of its end devices from the start index on.\<close>
theorem nwk_addr_answers:
  assumes "ms_short_address (nk_mac (nwk_of s)) = Some slf" and "e \<noteq> get_ext_addr (nwk_of s)"
  shows "\<exists>r. nwk_addr_response ind \<lparr> nar_ieee_address = e, nar_request_type = t \<rparr> s = Done (r, s) \<and>
    (case nwk_on_record e s of
       None \<Rightarrow> (r \<noteq> None \<longleftrightarrow> aps_is_broadcast (adi_dst ind)) \<and>
         (\<forall>x. r = Some (NwkAddrRsp x) \<longrightarrow> ar_status x = AddrDeviceNotFound \<and> ar_ieee_addr x = e)
     | Some n \<Rightarrow> (\<exists>x. r = Some (NwkAddrRsp x) \<and> ar_status x = AddrSuccess \<and> (case t of
           SingleDevice \<Rightarrow> ar_ieee_addr x = e \<and> ar_nwk_addr x = n \<and> ar_num_assoc x = None
         | ExtendedResponse start \<Rightarrow> ar_ieee_addr x = get_ext_addr (nwk_of s) \<and> ar_nwk_addr x = slf \<and>
             ar_num_assoc x = Some (of_nat (length (associated_devices 0 s) - unat start)))))"
proof -
  have len: "length (associated_devices k s) = length (associated_devices 0 s) - k" for k
    by (simp add: associated_devices_def)
  note eq = nwk_addr_response_def Let_def node_find_nwk [OF assms(1)] if_not_P [OF assms(2)]
    nwk_on_record_def [symmetric]
  show ?thesis
    unfolding eq
    by (cases "nwk_on_record e s"; cases t)
      (simp_all add: assms(2) handle_addr_request_no_matches_def act_return_bind extended_response [OF assms(1)]
        act_return_def len [of "unat _"])
qed

section \<open>Announcements\<close>

lemma im_set_absent: "im_get k m = None \<Longrightarrow> im_set k v m = m @ [(k, v)]"
  unfolding im_get_def by (induction k v m rule: im_set.induct) (auto split: if_splits)

lemma am_insert_keeps_first:
  assumes "am_find_nwk_addr e m = Some old" and "im_get n m = None"
  shows "am_find_nwk_addr e (am_insert n e m) = Some old"
proof -
  from assms(1) obtain x where "find (\<lambda>(n, x). x = e) m = Some (old, x)" by (auto simp: am_find_nwk_addr_def)
  then have "find (\<lambda>(n, x). x = e) (m @ [(n, e)]) = Some (old, x)"
    by (induction m) (auto split: if_splits)
  then show ?thesis
    using assms by (auto simp: am_insert_def im_insert_def im_set_absent am_find_nwk_addr_def)
qed

lemma am_insert_found:
  assumes "im_get n m \<noteq> None \<or> length m < ADDR_MAP_CAP"
  shows "am_find_ext_addr n (am_insert n e m) = Some e"
  using assms by (auto simp: am_find_ext_addr_def am_insert_def im_insert_def im_contains_def im_is_full_def im_get_def
      map_of_im_set split: option.split)

text \<open>An announcement of a device is entered into the address map, if there is room, unless it was broadcast and
  the device is an end device of the neighbor table; then nothing at all happens, the neighbor stays. An
  address already on record for the device is not replaced: messages to its extended address still
  go to the old network address.\<close>
theorem device_annce_effect:
  assumes "adi_src ind = ApsdeNetwork p ep \<or> adi_src ind = ApsdeExtended x ep"
  shows "\<exists>s'. handle_device_annce ind req s = Done ((), s') \<and>
    (if find_by_ext_addr_and_type (da_ieee_addr req) EndDevice (cx_neighbors (nk_ctx (nwk_of s))) \<noteq> None \<and>
        aps_is_broadcast (adi_dst ind)
     then s' = s
     else s' = s\<lparr> nd_aps := (nd_aps s)\<lparr> as_nwk := (nwk_of s)\<lparr> nk_ctx := (nk_ctx (nwk_of s))\<lparr> cx_addr_map :=
         am_insert (da_nwk_addr req) (da_ieee_addr req) (cx_addr_map (nk_ctx (nwk_of s))) \<rparr> \<rparr> \<rparr> \<rparr> \<and>
       (im_get (da_nwk_addr req) (cx_addr_map (nk_ctx (nwk_of s))) \<noteq> None \<or>
          length (cx_addr_map (nk_ctx (nwk_of s))) < ADDR_MAP_CAP \<longrightarrow>
        am_find_ext_addr (da_nwk_addr req) (cx_addr_map (nk_ctx (nwk_of s'))) = Some (da_ieee_addr req))) \<and>
    (\<forall>old. am_find_nwk_addr (da_ieee_addr req) (cx_addr_map (nk_ctx (nwk_of s))) = Some old \<longrightarrow>
       im_get (da_nwk_addr req) (cx_addr_map (nk_ctx (nwk_of s))) = None \<longrightarrow>
       nwk_on_record (da_ieee_addr req) s' = Some old)"
  (is "\<exists>s'. _ \<and> (if ?known then _ else _) \<and> ?kept s'")
proof (cases ?known)
  case True
  then have "handle_device_annce ind req s = Done ((), s)"
    using assms by (auto simp: handle_device_annce_def act_gets_bind act_return_def)
  with True show ?thesis by (simp add: nwk_on_record_def)
next
  case False
  let ?s = "s\<lparr> nd_aps := (nd_aps s)\<lparr> as_nwk := (nwk_of s)\<lparr> nk_ctx := (nk_ctx (nwk_of s))\<lparr> cx_addr_map :=
    am_insert (da_nwk_addr req) (da_ieee_addr req) (cx_addr_map (nk_ctx (nwk_of s))) \<rparr> \<rparr> \<rparr> \<rparr>"
  have "handle_device_annce ind req s = Done ((), ?s)"
    unfolding handle_device_annce_def act_gets_bind if_not_P [OF False]
    by (simp add: node_nwk_def with_aps_def act_within_def with_nwk_def
        addr_map_update_def ctx_update_def act_modify_def)
  moreover have "?kept ?s"
    by (simp add: nwk_on_record_def am_insert_keeps_first)
  ultimately show ?thesis unfolding if_not_P [OF False] by (simp add: am_insert_found)
qed

section \<open>What makes a node panic\<close>

text \<open>Reading the status of a permission response fails unless the first byte is the discriminant of a status.\<close>

definition permit_status_law :: "mgmt_permit_joining_rsp breader \<Rightarrow> bool" where
  "permit_status_law rd \<longleftrightarrow> (\<forall>b rest r n. rd (b # rest) = Inr (r, n) \<longrightarrow> b \<in> {0, 0xc2, 0xc3})"

text \<open>Two ways to stop a node with one message. A message to the device profile without a payload panics. The
  response to a request for permission to join panics the node that asked, if it echoes, as it has to, the
  transaction number of the request: requests always carry the number \<open>1\<close>, and the number is read as
  the status.\<close>
theorem zdp_reception_panics:
  assumes "nd_zcl_transaction_number s = 0" and law: "permit_status_law (zx_read_permit_rsp (ne_zdp N))"
    and d: "adi_profile_id d = ZDP_PROFILE" "adi_cluster_id d = MGMT_PERMIT_JOINING_RSP"
    and "adi_asdu d = get_zcl_transaction_number s # rest"
  shows "handle_zdp_command N (ind\<lparr> adi_asdu := [] \<rparr>) s = Some Panic \<and>
    permit_rsp_of (ne_zdp N) (ApsIndData d) = Some Panic \<and>
    (\<forall>s1 s2. transmit_zdp_command N dst (MgmtPermitJoiningReq req) None s = Some (Done (Inr (), s1)) \<longrightarrow>
      with_aps (wait_for_indication (ne_env N) (ne_radio N) (ne_aps N) (nd_mode s1) (permit_rsp_of (ne_zdp N))) s1 =
        Done (permit_rsp_of (ne_zdp N) (ApsIndData d), s2) \<longrightarrow>
      emit_permit_joining_req N req dst s = Some Panic)"
proof -
  from assms have "adi_asdu d = 1 # rest" by (simp add: get_zcl_transaction_number_def)
  moreover have "zx_read_permit_rsp (ne_zdp N) (1 # rest) \<noteq> Inr (r, n)" for r n
    using law [unfolded permit_status_law_def, THEN spec, of 1] by auto
  ultimately obtain e where "zx_read_permit_rsp (ne_zdp N) (adi_asdu d) = Inl e"
    by (cases "zx_read_permit_rsp (ne_zdp N) (adi_asdu d)") auto
  with d have "permit_rsp_of (ne_zdp N) (ApsIndData d) = Some Panic"
    by (simp add: permit_rsp_of_def ZDP_PROFILE_def)
  then show ?thesis
    by (auto simp: emit_permit_joining_req_def lp_bind_def [of "transmit_zdp_command N dst (MgmtPermitJoiningReq req) None"]
        act_gets_def act_run_def handle_zdp_command_def read_zdp_command_def)
qed

section \<open>Witnesses\<close>

theorem service_discovery_consistent_witness:
  "active_ep_response 0x1001 node_std = Done (Some (ActiveEpRsp
     \<lparr> el_status = DescSuccess, el_nwk_addr = 0x1001, el_ep_list = [1] \<rparr>), node_std)"
  using service_discovery_consistent [OF node_std_addr, where a = "0x1001", THEN conjunct1] by (simp add: node_std_simps)

theorem nwk_addr_answers_witness:
  "\<exists>x. nwk_addr_response (zdp_ind_std (ApsdeNetwork 0 0) 0) \<lparr> nar_ieee_address = 5, nar_request_type = ExtendedResponse 0 \<rparr> node_std =
     Done (Some (NwkAddrRsp x), node_std) \<and> ar_ieee_addr x = 9"
proof -
  have "5 \<noteq> get_ext_addr (nwk_of node_std)" "nwk_on_record 5 node_std = Some 0"
    by (simp_all add: node_std_simps nwk_on_record_def am_find_nwk_addr_def)
  with nwk_addr_answers [OF node_std_addr this(1), of "zdp_ind_std (ApsdeNetwork 0 0) 0" "ExtendedResponse 0"]
  show ?thesis by (auto simp: node_std_simps)
qed

definition annce_std :: device_annce where
  "annce_std = \<lparr> da_nwk_addr = 0x2002, da_ieee_addr = 5, da_capability = get_capabilities zb_config_default \<rparr>"

theorem device_annce_effect_witness:
  "\<exists>s'. handle_device_annce (zdp_ind_std (ApsdeNetwork 0x2002 0) 0x13) annce_std node_std = Done ((), s') \<and>
     am_find_ext_addr 0x2002 (cx_addr_map (nk_ctx (nwk_of s'))) = Some 5 \<and> nwk_on_record 5 s' = Some 0"
proof -
  have src: "adi_src (zdp_ind_std (ApsdeNetwork 0x2002 0) 0x13) = ApsdeNetwork 0x2002 0 \<or>
      adi_src (zdp_ind_std (ApsdeNetwork 0x2002 0) 0x13) = ApsdeExtended 0 0" by (simp add: zdp_ind_std_simps)
  have "am_find_nwk_addr 5 [(0, 5)] = Some 0" by (simp add: am_find_nwk_addr_def)
  with device_annce_effect [OF src, of annce_std node_std] show ?thesis
    by (auto simp: zdp_ind_std_simps node_std_simps annce_std_def im_get_def ADDR_MAP_CAP_def)
qed

theorem zdp_reception_panics_witness:
  "handle_zdp_command (node_env_std (\<lambda>_. NodeDescReq 0)) (zdp_ind_std ApsdeNone 2\<lparr> adi_asdu := [] \<rparr>) node_std = Some Panic \<and>
   permit_rsp_of (zdp_codecs_std (\<lambda>_. NodeDescReq 0))
     (ApsIndData (zdp_ind_std ApsdeNone 0x8036\<lparr> adi_asdu := [1, 0] \<rparr>)) = Some Panic"
proof -
  let ?N = "node_env_std (\<lambda>_. NodeDescReq 0)" and ?d = "zdp_ind_std ApsdeNone 0x8036\<lparr> adi_asdu := [1, 0] \<rparr>"
  have law: "permit_status_law (zx_read_permit_rsp (ne_zdp ?N))"
    by (auto simp: permit_status_law_def node_env_std_def zdp_codecs_std_def read_u8_def split: if_splits)
  have "adi_profile_id ?d = ZDP_PROFILE" "adi_cluster_id ?d = MGMT_PERMIT_JOINING_RSP"
    "adi_asdu ?d = get_zcl_transaction_number node_std # [0]"
    by (simp_all add: zdp_ind_std_def ZDP_PROFILE_def MGMT_PERMIT_JOINING_RSP_def get_zcl_transaction_number_def
        node_std_simps)
  from zdp_reception_panics [OF node_std_simps(3) law this, of "zdp_ind_std ApsdeNone 2"]
  show ?thesis by (simp add: node_env_std_def)
qed

end
