(* ===== verification/Zdo.thy ===== *)
theory Zdo
  imports Zdp
begin

text \<open>
  The device object (\<open>apl/zdo/mod.rs\<close>): how a node starts, joins a network and is authenticated,
  listens, leaves and rejoins. A node has one of three contexts, \<open>UnjoinedCtx\<close>, \<open>PendingRejoinCtx\<close> or
  one of the joined ones; the first two have the same fields. The commands of the cluster library and
  the reports, which the node hands to its applications, are arguments.
\<close>

section \<open>The contexts of a node\<close>

record unjoined_node =
  un_nwk :: nwk
  un_storage :: storage
  un_config :: zb_config
  un_applications :: "(aps_endpoint, zb_application) imap"

datatype zb_node = Unjoined unjoined_node | PendingRejoin unjoined_node | Joined joined_node

type_synonym joining = "(unjoined_node + joined_node) run option"

definition APS_STORAGE_SIZE :: nat where "APS_STORAGE_SIZE = 4096"

text \<open>\<open>load_or_default\<close>: what cannot be loaded is read as zeros. The keys are never loaded.\<close>

definition aps_load_or_default :: "node_env \<Rightarrow> nwk \<Rightarrow> storage \<Rightarrow> aps" where
  "aps_load_or_default N n stg =
     (let buf = (case dr_load (ne_driver N) (st_aps stg) of Inr b \<Rightarrow> b | Inl _ \<Rightarrow> replicate APS_STORAGE_SIZE 0) in
      case ne_read_aps N buf of Inr (bt, gt) \<Rightarrow> aps_new n bt gt | Inl _ \<Rightarrow> aps_new n {} [])"

definition node_joined :: "node_env \<Rightarrow> unjoined_node \<Rightarrow> nwk_mode \<Rightarrow> nwk \<Rightarrow> joined_node" where
  "node_joined N u mode n = \<lparr> nd_mode = mode, nd_aps = aps_load_or_default N n (un_storage u),
     nd_zcl_transaction_number = 0, nd_config = un_config u, nd_applications = un_applications u,
     nd_storage = un_storage u \<rparr>"

definition node_left :: "joined_node \<Rightarrow> nwk \<Rightarrow> unjoined_node" where
  "node_left s n = \<lparr> un_nwk = n, un_storage = nd_storage s, un_config = nd_config s,
     un_applications = nd_applications s \<rparr>"

definition clear_nwk_region :: "node_env \<Rightarrow> unjoined_node \<Rightarrow> unjoined_node" where
  "clear_nwk_region N u = u\<lparr> un_storage := (un_storage u)\<lparr> st_nwk := dr_clear (ne_driver N) (st_nwk (un_storage u)) \<rparr> \<rparr>"

text \<open>The reset of the network layer clears its region.\<close>

definition to_unjoined :: "node_env \<Rightarrow> joined_node \<Rightarrow> unjoined_node run" where
  "to_unjoined N s = run_map (\<lambda>(_, n). clear_nwk_region N (node_left s n))
     (nwk_reset (ne_env N) (ne_radio N) (nwk_of s))"

definition to_pending :: "joined_node \<Rightarrow> unjoined_node run" where
  "to_pending s = run_map (\<lambda>(_, n). node_left s n) (to_pending_rejoin (nwk_of s))"

section \<open>Persistence\<close>

definition store_nwk :: "node_env \<Rightarrow> bytes \<Rightarrow> (string + unit) node_act" where
  "store_nwk N buf s = (case dr_persist (ne_driver N) (st_nwk (nd_storage s)) buf of
     (r, b) \<Rightarrow> Done (r, s\<lparr> nd_storage := (nd_storage s)\<lparr> st_nwk := b \<rparr> \<rparr>))"

definition store_aps :: "node_env \<Rightarrow> bytes \<Rightarrow> (string + unit) node_act" where
  "store_aps N buf s = (case dr_persist (ne_driver N) (st_aps (nd_storage s)) buf of
     (r, b) \<Rightarrow> Done (r, s\<lparr> nd_storage := (nd_storage s)\<lparr> st_aps := b \<rparr> \<rparr>))"

definition aps_persist :: "node_env \<Rightarrow> (string + unit) node_act" where
  "aps_persist N =
     act_bind (node_nwk (nwk_persist (ne_write_nwk N))) (\<lambda>w. case w of
       Inl _ \<Rightarrow> act_return (Inl ''byte error'')
     | Inr buf \<Rightarrow> act_bind (store_nwk N buf) (\<lambda>r. case r of
         Inl e \<Rightarrow> act_return (Inl e)
       | Inr _ \<Rightarrow> act_bind (act_gets (\<lambda>s. ne_write_aps N (as_binding_table (nd_aps s), as_group_table (nd_aps s)))) (\<lambda>v.
           case v of Inl _ \<Rightarrow> act_return (Inl ''byte error'') | Inr buf' \<Rightarrow> store_aps N buf')))"

section \<open>Authentication\<close>

definition network_key_of :: "aps_indication \<Rightarrow> (ext_addr \<times> network_key_data) option" where
  "network_key_of i = (case i of ApsIndTransportKey src (NetworkKeyData d) \<Rightarrow> Some (src, d) | _ \<Rightarrow> None)"

definition trust_center_key_of :: "aps_indication \<Rightarrow> (ext_addr \<times> key) option" where
  "trust_center_key_of i = (case i of ApsIndTransportKey src (TrustCenterKeyData k) \<Rightarrow> Some (src, k) | _ \<Rightarrow> None)"

definition confirmation_of :: "aps_indication \<Rightarrow> confirm_key_status option" where
  "confirmation_of i = (case i of ApsIndConfirmKey st _ _ \<Rightarrow> Some st | _ \<Rightarrow> None)"

definition node_wait :: "node_env \<Rightarrow> radio \<Rightarrow> (aps_indication \<Rightarrow> 't option) \<Rightarrow> 't option node_act" where
  "node_wait N R eval = act_bind (act_gets nd_mode) (\<lambda>mode.
     with_aps (wait_for_indication (ne_env N) R (ne_aps N) mode eval))"

definition keys_update :: "(device_key_pair list \<Rightarrow> device_key_pair list) \<Rightarrow> unit aps_act" where
  "keys_update f = act_modify (\<lambda>s. s\<lparr> as_device_key_pair_set := f (as_device_key_pair_set s) \<rparr>)"

definition add_network_key :: "network_key_data \<Rightarrow> unit act" where
  "add_network_key d = ctx_update (\<lambda>c. c\<lparr> cx_security_material_set := cx_security_material_set c @
     [\<lparr> sm_key_seq_number = nkt_key_sequence d, sm_outgoing_frame_counter = 0,
        sm_incoming_frame_counter_set = [], sm_key = nkt_key d \<rparr>] \<rparr>)"

text \<open>\<open>True\<close> when a key arrived in time. The active sequence number is not set.\<close>

definition wait_for_nwk_key :: "node_env \<Rightarrow> bool node_act" where
  "wait_for_nwk_key N = act_bind (node_wait N (ne_key_radio N) network_key_of) (\<lambda>w. case w of
     None \<Rightarrow> act_return False
   | Some (src, d) \<Rightarrow>
       act_then (with_aps (keys_update (update_first (\<lambda>k. dk_link_key_type k = GlobalLinkKey)
           (\<lambda>k. k\<lparr> dk_device_address := src \<rparr>))))
       (act_then (node_nwk (add_network_key d)) (act_return True)))"

definition unverified_key :: "key \<Rightarrow> device_key_pair \<Rightarrow> device_key_pair" where
  "unverified_key k d = d\<lparr> dk_key_attributes := UnverifiedKey, dk_link_key := k, dk_link_key_type := UniqueLinkKey \<rparr>"

text \<open>A key from a device without an entry panics.\<close>

definition install_link_key :: "ext_addr \<Rightarrow> key \<Rightarrow> unit aps_act" where
  "install_link_key src k =
     act_bind (act_gets (\<lambda>s. find (\<lambda>d. dk_device_address d = src) (as_device_key_pair_set s))) (\<lambda>d.
     if d = None then act_panic
     else keys_update (update_first (\<lambda>d. dk_device_address d = src) (unverified_key k)))"

definition update_trust_center_link_key :: "node_env \<Rightarrow> aps_security_result node_act" where
  "update_trust_center_link_key N =
     act_bind (act_gets nd_mode) (\<lambda>mode.
     act_bind (act_gets (\<lambda>s. get_tc_addr (nd_aps s))) (\<lambda>t. case t of
       None \<Rightarrow> act_return (Inr ())
     | Some tc \<Rightarrow>
         act_bind (with_aps (aps_request_key (ne_env N) (ne_aps N) mode tc RequestTrustCenterLinkKey)) (\<lambda>r. case r of
           Inl e \<Rightarrow> act_return (Inl e)
         | Inr _ \<Rightarrow>
             act_bind (node_wait N (ne_radio N) trust_center_key_of) (\<lambda>w. case w of
               None \<Rightarrow> act_return (Inl CommandValidationError)
             | Some (src, k) \<Rightarrow>
                 act_then (with_aps (install_link_key src k))
                 (act_bind (with_aps (verify_key (ne_env N) (ne_aps N) mode)) (\<lambda>v. case v of
                   Inl e \<Rightarrow> act_return (Inl e)
                 | Inr _ \<Rightarrow>
                     act_bind (node_wait N (ne_radio N) confirmation_of) (\<lambda>c. act_return
                       (if c = Some ConfirmSuccess then Inr () else Inl CommandValidationError))))))))"

definition node_leave :: "node_env \<Rightarrow> bool \<Rightarrow> (leave_error + unit) node_act" where
  "node_leave N rj = act_bind (act_gets node_is_router) (\<lambda>router. node_nwk
     (act_bind (emit_leave_cmd (ne_env N) \<lparr> lv_rejoin = rj, lv_request = False, lv_remove_children = False \<rparr>
        (if router then NWK_ADDR_MAX else BROADCAST_RX_ON_IDLE) None) (\<lambda>r. act_return (leave_result r))))"

definition MIN_COMMISSIONING_TIME :: nat where "MIN_COMMISSIONING_TIME = 180"

text \<open>The exchange of the link key that follows in a centralized network; the device leaves when it fails.\<close>

definition exchange_link_key :: "node_env \<Rightarrow> bool node_act" where
  "exchange_link_key N = act_bind (act_gets (\<lambda>s. as_security_network_params (nd_aps s))) (\<lambda>p. case p of
     Distributed \<Rightarrow> act_return True
   | Centralized _ \<Rightarrow> act_bind (update_trust_center_link_key N) (\<lambda>r. case r of
       Inr _ \<Rightarrow> act_return True
     | Inl _ \<Rightarrow> act_then (node_leave N False) (act_return False)))"

definition authenticate :: "node_env \<Rightarrow> bool node_loop" where
  "authenticate N =
     lp_bind (lp_of (wait_for_nwk_key N)) (\<lambda>got.
     if \<not> got then lp_of (act_return False)
     else lp_bind (lp_of (with_aps set_authorized)) (\<lambda>_.
          lp_bind (emit_device_annce N) (\<lambda>r. case r of
            Inl _ \<Rightarrow> lp_of (act_return False)
          | Inr _ \<Rightarrow> lp_bind (lp_of (exchange_link_key N)) (\<lambda>ok.
              if \<not> ok then lp_of (act_return False)
              else lp_bind (emit_permit_joining_req N (PermitReqEnable (of_nat MIN_COMMISSIONING_TIME))
                  (ApsdeNetwork BROADCAST_ALL ZDP_ENDPOINT)) (\<lambda>_. lp_of (act_return True))))))"

definition try_authenticate :: "node_env \<Rightarrow> joined_node \<Rightarrow> joining" where
  "try_authenticate N s = map_option (\<lambda>r. run_bind r (\<lambda>(ok, s').
     if ok then Done (Inr s') else run_map Inl (to_unjoined N s'))) (authenticate N s)"

section \<open>Network steering\<close>

definition REC_SAME_NETWORK_RETRY_ATTEMPTS :: nat where "REC_SAME_NETWORK_RETRY_ATTEMPTS = 3"

fun join_attempts :: "env \<Rightarrow> radio \<Rightarrow> zb_capabilities \<Rightarrow> nat \<Rightarrow> network_descriptor \<Rightarrow> nwk_mode option act" where
  "join_attempts E R caps 0 nd = act_return None"
| "join_attempts E R caps (Suc n) nd = act_bind (association_join E R nd caps) (\<lambda>(r, nd'). case r of
     Inr mode \<Rightarrow> act_return (Some mode) | Inl _ \<Rightarrow> join_attempts E R caps n nd')"

fun join_networks :: "env \<Rightarrow> radio \<Rightarrow> zb_capabilities \<Rightarrow> network_descriptor list \<Rightarrow> nwk_mode option act" where
  "join_networks E R caps [] = act_return None"
| "join_networks E R caps (nd # nds) =
     act_bind (join_attempts E R caps REC_SAME_NETWORK_RETRY_ATTEMPTS nd) (\<lambda>m. case m of
       Some mode \<Rightarrow> act_return (Some mode) | None \<Rightarrow> join_networks E R caps nds)"

definition join_on_channels :: "node_env \<Rightarrow> zb_capabilities \<Rightarrow> channel_mask \<Rightarrow> nwk_mode option act" where
  "join_on_channels N caps m =
     act_bind (network_discovery (ne_env N) (ne_radio N) [m]) (\<lambda>r. case r of
       Inl _ \<Rightarrow> act_return None
     | Inr nds \<Rightarrow> join_networks (ne_env N) (ne_radio N) caps (filter is_permit_joining nds))"

definition try_join_for_channels :: "node_env \<Rightarrow> channel_mask \<Rightarrow> unjoined_node \<Rightarrow> joining" where
  "try_join_for_channels N m u =
     (case join_on_channels N (get_capabilities (un_config u)) m (un_nwk u) of
        Panic \<Rightarrow> Some Panic
      | Done (None, n) \<Rightarrow> Some (Done (Inl (u\<lparr> un_nwk := n \<rparr>)))
      | Done (Some mode, n) \<Rightarrow> try_authenticate N (node_joined N u mode n))"

definition network_steering :: "node_env \<Rightarrow> unjoined_node \<Rightarrow> joining" where
  "network_steering N u =
     (let primary = zf_primary_channel_set (un_config u); secondary = zf_secondary_channel_set (un_config u) in
      case try_join_for_channels N primary u of
        Some (Done (Inl u')) \<Rightarrow> try_join_for_channels N secondary u'
      | r \<Rightarrow> r)"

section \<open>Rejoining and starting\<close>

definition capabilities_default :: zb_capabilities where
  "capabilities_default = \<lparr> zc_device_type = ReducedFunctionDevice, zc_current_source = Mains,
     zc_receiver_on_when_idle = False, zc_allocate_address = False \<rparr>"

definition node_rejoin :: "node_env \<Rightarrow> unjoined_node \<Rightarrow> zb_node run option" where
  "node_rejoin N u =
     (case act_bind get_ext_pan_id (\<lambda>e. rejoin (ne_env N) (ne_radio N) \<lparr> rj_ext_pan_id = e,
          rj_channels = [zf_primary_channel_set (un_config u)], rj_capability_information = capabilities_default \<rparr>)
        (un_nwk u) of
        Panic \<Rightarrow> Some Panic
      | Done (Inr mode, n) \<Rightarrow> map_option (run_map (\<lambda>(_, s). Joined s))
          (lp_bind (emit_device_annce N) (\<lambda>_. lp_of (aps_persist N)) (node_joined N u mode n))
      | Done (Inl _, n) \<Rightarrow> Some (run_map (\<lambda>(_, n'). Unjoined (clear_nwk_region N (u\<lparr> un_nwk := n' \<rparr>)))
          (nwk_reset (ne_env N) (ne_radio N) n)))"

definition nwk_new :: "instant \<Rightarrow> mac_state \<Rightarrow> nwk" where
  "nwk_new now mac = \<lparr> nk_mac = mac, nk_seq_number = 0, nk_ctx = nwk_context_default now, nk_rand = 0, nk_sent = [] \<rparr>"

text \<open>The storage regions are reserved before, and the applications load their attributes.\<close>

definition initialize ::
  "node_env \<Rightarrow> zb_config \<Rightarrow> (aps_endpoint, zb_application) imap \<Rightarrow> storage \<Rightarrow> mac_state \<Rightarrow> zb_node run option" where
  "initialize N cfg apps stg mac =
     (let u = (\<lambda>n. \<lparr> un_nwk = n, un_storage = stg, un_config = cfg, un_applications = apps \<rparr>);
          fresh = Some (Done (Unjoined (u (nwk_new (ev_now (ne_env N)) mac)))) in
      case dr_load (ne_driver N) (st_nwk stg) of
        Inl _ \<Rightarrow> fresh
      | Inr buf \<Rightarrow> (case nwk_load (ev_now (ne_env N)) (ne_read_nwk N) buf mac of
            Inl _ \<Rightarrow> fresh
          | Inr n \<Rightarrow> if cfg_is_end_device cfg then node_rejoin N (u n)
              else Some (Done (Joined (node_joined N (u n) JoinedAsRouter n)))))"

section \<open>Listening\<close>

record zcl_services =
  zs_command :: "aps_endpoint \<Rightarrow> aps_data_indication \<Rightarrow> optional_aps_result node_loop"
  zs_reports :: "unit node_loop"

text \<open>One received frame through the layers, up to the handlers; the result is the leave indication that
  ends the listening.\<close>

definition node_listen_step :: "node_env \<Rightarrow> zcl_services \<Rightarrow> received_mac_frame \<Rightarrow> leave_indication option node_loop" where
  "node_listen_step N Z rf =
     lp_bind (lp_of (act_gets nd_mode)) (\<lambda>mode.
     lp_bind (lp_of (with_aps (listen_aps_step (ne_env N) (ne_radio N) (ne_aps N) mode rf))) (\<lambda>i. case i of
       Some (ApsIndData ind) \<Rightarrow> (case adi_dst ind of
           ApsNetwork _ ep \<Rightarrow> lp_bind (if ep = ZDP_ENDPOINT then handle_zdp_command N ind else zs_command Z ep ind)
             (\<lambda>_. lp_of (act_return None))
         | _ \<Rightarrow> lp_of (act_return None))
     | Some (ApsIndLeave l) \<Rightarrow> lp_of (act_return (Some l))
     | _ \<Rightarrow> lp_of (act_return None)))"

definition after_leave :: "node_env \<Rightarrow> leave_indication \<Rightarrow> joined_node \<Rightarrow> zb_node run" where
  "after_leave N l s = (case l of
     LeaveSelf _ \<Rightarrow> run_map Unjoined (to_unjoined N s)
   | LeaveChild _ _ \<Rightarrow> run_map PendingRejoin (to_pending s)
   | LeaveParent _ \<Rightarrow> Panic)"

section \<open>The life of a node\<close>

fun node_storage :: "zb_node \<Rightarrow> storage" where
  "node_storage (Unjoined u) = un_storage u"
| "node_storage (PendingRejoin u) = un_storage u"
| "node_storage (Joined s) = nd_storage s"

text \<open>The rounds of \<open>run\<close> and of the task that listens, and a restart, which keeps the storage alone.\<close>

inductive node_step :: "node_env \<Rightarrow> zcl_services \<Rightarrow> zb_node \<Rightarrow> zb_node \<Rightarrow> bool" for N Z where
  steer: "network_steering (N\<lparr> ne_env := E \<rparr>) u = Some (Done (Inr s)) \<Longrightarrow> node_step N Z (Unjoined u) (Joined s)"
| steer_fails: "network_steering (N\<lparr> ne_env := E \<rparr>) u = Some (Done (Inl u')) \<Longrightarrow>
    node_step N Z (Unjoined u) (Unjoined u')"
| rejoin: "node_rejoin (N\<lparr> ne_env := E \<rparr>) u = Some (Done n) \<Longrightarrow> node_step N Z (PendingRejoin u) n"
| receive: "node_listen_step (N\<lparr> ne_env := E \<rparr>) Z rf s = Some (Done (None, s')) \<Longrightarrow>
    node_step N Z (Joined s) (Joined s')"
| leave: "node_listen_step (N\<lparr> ne_env := E \<rparr>) Z rf s = Some (Done (Some l, s')) \<Longrightarrow>
    after_leave (N\<lparr> ne_env := E \<rparr>) l s' = Done n \<Longrightarrow> node_step N Z (Joined s) n"
| report: "zs_reports Z s = Some (Done ((), s')) \<Longrightarrow> node_step N Z (Joined s) (Joined s')"
| restart: "initialize (N\<lparr> ne_env := E \<rparr>) cfg apps (node_storage m) mac = Some (Done n) \<Longrightarrow> node_step N Z m n"

inductive node_reach :: "node_env \<Rightarrow> zcl_services \<Rightarrow> zb_node \<Rightarrow> zb_node \<Rightarrow> bool" for N Z m where
  start: "node_reach N Z m m"
| step: "node_reach N Z m n \<Longrightarrow> node_step N Z n n' \<Longrightarrow> node_reach N Z m n'"

end
