(* ===== verification/Nwk_Machine.thy ===== *)
theory Nwk_Machine
  imports Nlme
begin

text \<open>
  The network layer as a state machine: the modes of a device, what it does in each, the states that
  it reaches, and the invariants of these states.
\<close>

section \<open>The tables stay well formed\<close>

lemma keeps_decrypt [keeps_rules]: "keeps I (nwk_decrypt_frame E p)"
  by (simp add: nwk_decrypt_frame_def keeps_rules)

lemma keeps_reception_reads [keeps_rules]:
  "keeps I (frame_passes_security_check a f)" "keeps I (frame_matches_self_end_device d)"
  "keeps I (frame_matches_self_router d)" "keeps I (handle_end_device_frame f)" "keeps I (poll_frame rf)"
  "keeps I (received R)" "keeps I (indicate_own_data d ind sec)"
  by (auto simp: frame_passes_security_check_def frame_matches_self_end_device_def frame_matches_self_router_def
      handle_end_device_frame_def poll_frame_def received_def indicate_own_data_def Let_def
      intro!: keeps_rules split: nwk_frame.splits command.splits)

lemma keeps_relay_sends [keeps_rules]:
  assumes "quiet I"
  shows "keeps I (relay_to E d a)" "keeps I (build_mac_payload E f b)" "keeps I (relay_source_routing E d)"
    "keeps I (transmit_broadcast_frame E d)"
proof -
  show to: "keeps I (relay_to E d a)" for d a
    using assms by (simp add: relay_to_def keeps_rules)
  show build: "keeps I (build_mac_payload E f b)" for f b
    using assms unfolding quiet_def by (intro keepsI) (auto elim!: build_mac_payload_Done)
  show "keeps I (relay_source_routing E d)"
    unfolding relay_source_routing_def Let_def by (intro keeps_rules to)
  show "keeps I (transmit_broadcast_frame E d)"
    using assms unfolding transmit_broadcast_frame_def by (intro keeps_rules build)
qed

lemma nbs_unique_remove:
  assumes "nbs_unique t"
  shows "nbs_unique (t\<lparr> nt_neighbors := take i (nt_neighbors t) @ drop (Suc i) (nt_neighbors t) \<rparr>)"
proof (cases "i < length (nt_neighbors t)")
  case True
  have drop: "distinct (filter P (map f (a @ b)))" if "distinct (filter P (map f (a @ x # b)))"
    for P f a b and x :: nwk_neighbor
    using that by (auto split: if_splits)
  from assms have "distinct (filter (\<lambda>a. a \<noteq> None) (map nb_ext_addr (nt_neighbors t)))"
    by (simp add: nbs_unique_def)
  from drop [OF this [unfolded arg_cong [OF id_take_nth_drop [OF True], of "map nb_ext_addr"]]]
  show ?thesis by (simp add: nbs_unique_def)
qed (use assms in simp)

lemma keeps_ok_examine [keeps_rules]:
  "keeps nwk_ok (examine_end_devices_that_have_changed_router_parents h m)"
proof -
  have remove: "keeps nwk_ok (act_bind (act_gets neighbors) (\<lambda>ns. act_bind (act_run (remove_at i ns)) (\<lambda>ns'.
      neighbors_update (\<lambda>t. t\<lparr> nt_neighbors := ns' \<rparr>))))" for i
    by (rule keepsI) (auto simp: act_defs run_simps remove_at_def neighbors_def nwk_ok_def nbs_unique_remove
      split: if_splits)
  show ?thesis
    unfolding examine_end_devices_that_have_changed_router_parents_def Let_def
    by (intro keeps_rules(1-6) keeps_basic keeps_if keeps_option keeps_bind [OF keeps_basic(3)] remove)
qed

lemma keeps_ok_relay [keeps_rules]:
  "keeps nwk_ok (relay_unicast_frame E d)" "keeps nwk_ok (check_and_update_broadcast_transaction_table E d)"
  "keeps nwk_ok (relay_multicast_frame E d)" "keeps nwk_ok (relay_broadcast_frame E d)"
proof -
  show "keeps nwk_ok (relay_unicast_frame E d)"
    unfolding relay_unicast_frame_def Let_def by (intro keeps_rules) simp_all
  show check: "keeps nwk_ok (check_and_update_broadcast_transaction_table E d)" for d
    unfolding check_and_update_broadcast_transaction_table_def by (intro keeps_rules)
  have member: "keeps nwk_ok (relay_member_mode_multicast E d)" for d
    unfolding relay_member_mode_multicast_def by (intro keeps_rules check) simp_all
  show "keeps nwk_ok (relay_multicast_frame E d)"
    unfolding relay_multicast_frame_def by (intro keeps_rules keeps_with_key member) simp_all
  show "keeps nwk_ok (relay_broadcast_frame E d)"
    unfolding relay_broadcast_frame_def by (intro keeps_rules check) simp_all
qed

lemma keeps_ok_incoming [keeps_rules]: "keeps nwk_ok (process_incoming_indication E ind a)"
  unfolding process_incoming_indication_def Let_def by (intro keeps_rules)

text \<open>What the MAC does leaves the tables of the network layer alone.\<close>

definition ctx_only :: "(nwk \<Rightarrow> bool) \<Rightarrow> bool" where
  "ctx_only I \<longleftrightarrow> (\<forall>s s'. nk_ctx s' = nk_ctx s \<and> I s \<longrightarrow> I s')"

lemma ctx_only_ok [simp]: "ctx_only nwk_ok"
  by (simp add: ctx_only_def nwk_ok_def)

lemma keeps_mac:
  assumes "ctx_only I"
  shows "keeps I (mac_update f)" "keeps I (mac_send E ev)" "keeps I (send_mac_command E ev)"
    "keeps I (scan_channels E R chs)" "keeps I (mac_scan E R m)" "keeps I (mac_associate E R ch c caps)"
proof -
  show upd: "keeps I (mac_update f)" for f
    using assms by (auto simp: mac_update_def ctx_only_def intro!: keeps_modify)
  show send: "keeps I (mac_send E ev)" for ev
    using assms by (auto simp: mac_send_def ctx_only_def Let_def intro!: keepsI)
  show cmd: "keeps I (send_mac_command E ev)" for ev
    unfolding send_mac_command_def by (intro keeps_rules send)
  show scan: "keeps I (scan_channels E R chs)" for chs
    by (induction chs) (auto simp: scan_channel_active_def set_channel_def intro!: keeps_rules upd send)
  then show "keeps I (mac_scan E R m)" by (simp add: mac_scan_def)
  show "keeps I (mac_associate E R ch c caps)"
    unfolding mac_associate_def set_channel_def set_pan_id_def set_short_address_def set_extended_pan_id_def
    by (intro keeps_rules upd cmd)
qed

lemmas keeps_ok_mac [keeps_rules] = keeps_mac [OF ctx_only_ok]

lemma keeps_ok_handle [keeps_rules]: "keeps nwk_ok (handle_mac_indication E R mode a mi)"
proof -
  have cmd: "keeps nwk_ok (handle_router_command E src lqi h c)" for src lqi h c
    by (cases c) (auto simp: handle_router_command_def intro!: keeps_rules split: sum.splits option.splits)
  have ed: "keeps nwk_ok (handle_end_device_commands E src lqi h c)" for src lqi h c
    by (cases c) (auto simp: handle_end_device_commands_def intro!: keeps_rules)
  have relay: "keeps nwk_ok (relay_decision E d)" for d
    unfolding relay_decision_def Let_def by (intro keeps_rules)
  have beacon: "keeps nwk_ok (handle_beacon_notify_indication E R pd)" for pd
    unfolding handle_beacon_notify_indication_def by (intro keeps_rules) simp_all
  have router: "keeps nwk_ok (handle_data_indication E ind a)" for ind
    unfolding handle_data_indication_def
    by (intro keeps_rules) (auto intro!: keeps_rules cmd relay split: nwk_frame.splits option.splits)
  have "keeps nwk_ok (handle_data_indication_end_device E ind a)" for ind
    unfolding handle_data_indication_end_device_def
    by (intro keeps_rules) (auto intro!: keeps_rules ed split: nwk_frame.splits option.splits)
  moreover have "keeps nwk_ok (handle_data_indication_pending E ind a)" for ind
    unfolding handle_data_indication_pending_def
    by (intro keeps_rules) (auto intro!: keeps_rules split: nwk_frame.splits option.splits)
  ultimately show ?thesis
    by (cases mi) (auto simp: handle_mac_indication_def intro!: keeps_rules router beacon)
qed

section \<open>Reception keeps addresses and keys\<close>

text \<open>The accessors of the addresses unwrap options of the MAC.\<close>

definition addressed :: "nwk \<Rightarrow> bool" where
  "addressed s \<longleftrightarrow> ms_short_address (nk_mac s) \<noteq> None \<and> ms_pan_id (nk_mac s) \<noteq> None \<and>
     ms_extended_pan_id (nk_mac s) \<noteq> None"

text \<open>What a device is known by and the network keys, which nothing that it receives can change.\<close>

definition identity ::
  "nwk \<Rightarrow> nwk_addr option \<times> pan_id option \<times> ext_addr option \<times> u8 \<times> security_material list" where
  "identity s = (ms_short_address (nk_mac s), ms_pan_id (nk_mac s), ms_extended_pan_id (nk_mac s),
     cx_active_key_seq_number (nk_ctx s), map blank_counter (cx_security_material_set (nk_ctx s)))"

lemma quiet_identity [simp]: "quiet (\<lambda>s. identity s = v)"
  unfolding quiet_def
proof (intro allI impI, elim conjE)
  fix s s' :: nwk
  assume ctx: "blank_counters (nk_ctx s') = blank_counters (nk_ctx s)"
    and eq: "(nk_mac s')\<lparr> ms_seq_number := 0 \<rparr> = (nk_mac s)\<lparr> ms_seq_number := 0 \<rparr>" and ok: "identity s = v"
  show "identity s' = v"
    using ok arg_cong [OF eq, of ms_short_address] arg_cong [OF eq, of ms_pan_id]
      arg_cong [OF eq, of ms_extended_pan_id] arg_cong [OF ctx, of cx_active_key_seq_number]
      arg_cong [OF ctx, of cx_security_material_set] by (simp add: identity_def)
qed

lemma addressed_identity: "identity s' = identity s \<Longrightarrow> addressed s \<Longrightarrow> addressed s'"
  by (auto simp: identity_def addressed_def)

lemma quiet_addressed [simp]: "quiet addressed"
  using quiet_identity unfolding quiet_def by (blast intro: addressed_identity)

lemma keeps_addressed: "(\<And>v. keeps (\<lambda>s. identity s = v) m) \<Longrightarrow> keeps addressed m"
  unfolding keeps_def by (blast intro: addressed_identity)

lemma keeps_identity_ctx:
  "(\<And>c. cx_active_key_seq_number (f c) = cx_active_key_seq_number c) \<Longrightarrow>
   (\<And>c. cx_security_material_set (f c) = cx_security_material_set c) \<Longrightarrow>
   keeps (\<lambda>s. identity s = v) (ctx_update f)"
  by (auto simp: ctx_update_def identity_def intro!: keeps_modify)

lemma keeps_identity_updates [keeps_rules]:
  "keeps (\<lambda>s. identity s = v) (neighbors_update g)" "keeps (\<lambda>s. identity s = v) (btt_update h)"
  "keeps (\<lambda>s. identity s = v) (route_modify k r)" "keeps (\<lambda>s. identity s = v) (route_upsert k r t)"
  "keeps (\<lambda>s. identity s = v) (route_cleanup E)" "keeps (\<lambda>s. identity s = v) (addr_map_update m)"
  "keeps (\<lambda>s. identity s = v) (assign_child_address E)"
  "keeps (\<lambda>s. identity s = v) (ctx_update (cx_update_id_update (\<lambda>_. i)))"
  "keeps (\<lambda>s. identity s = v) (ctx_update (cx_parent_information_update (\<lambda>_. p)))"
proof -
  show "keeps (\<lambda>s. identity s = v) (neighbors_update g)" "keeps (\<lambda>s. identity s = v) (btt_update h)"
    "keeps (\<lambda>s. identity s = v) (route_modify k r)" "keeps (\<lambda>s. identity s = v) (route_cleanup E)"
    "keeps (\<lambda>s. identity s = v) (addr_map_update m)"
    "keeps (\<lambda>s. identity s = v) (ctx_update (cx_update_id_update (\<lambda>_. i)))"
    "keeps (\<lambda>s. identity s = v) (ctx_update (cx_parent_information_update (\<lambda>_. p)))"
    by (simp_all add: neighbors_update_def btt_update_def route_modify_def route_cleanup_def addr_map_update_def
        keeps_identity_ctx)
  show "keeps (\<lambda>s. identity s = v) (route_upsert k r t)"
    by (rule keepsI) (auto simp: route_upsert_def identity_def split: option.splits)
  show "keeps (\<lambda>s. identity s = v) (assign_child_address E)"
    by (rule keepsI)
      (auto simp: assign_child_address_def run_simps identity_def split: addr_alloc_method.splits option.splits)
qed

lemma keeps_route_key [keeps_rules]: "keeps I (route_key a g)"
  by (simp add: route_key_def keeps_rules)

lemma keeps_identity_routing [keeps_rules]:
  "keeps (\<lambda>s. identity s = v) (route_unicast_frame E d)" "keeps (\<lambda>s. identity s = v) (route_multicast_frame E d)"
  "keeps (\<lambda>s. identity s = v) (try_unicast_direct_relay E d)" "keeps (\<lambda>s. identity s = v) (try_unicast_route_table E d)"
  "keeps (\<lambda>s. identity s = v) (try_unicast_tree_routing E d)"
proof -
  show direct: "keeps (\<lambda>s. identity s = v) (try_unicast_direct_relay E d)"
    unfolding try_unicast_direct_relay_def by (intro keeps_rules) simp_all
  show tree: "keeps (\<lambda>s. identity s = v) (try_unicast_tree_routing E d)"
    unfolding try_unicast_tree_routing_def by (intro keeps_rules) simp_all
  show table: "keeps (\<lambda>s. identity s = v) (try_unicast_route_table E d)"
    unfolding try_unicast_route_table_def by (intro keeps_rules tree) simp_all
  have source: "keeps (\<lambda>s. identity s = v) (try_source_routing E d)"
    unfolding try_source_routing_def
    by (intro keeps_rules) (auto intro!: keeps_rules split: bool.splits option.splits)
  show "keeps (\<lambda>s. identity s = v) (route_unicast_frame E d)"
    unfolding route_unicast_frame_def by (intro keeps_rules direct tree table source)
  show "keeps (\<lambda>s. identity s = v) (route_multicast_frame E d)"
    unfolding route_multicast_frame_def Let_def by (intro keeps_rules) simp_all
qed

lemma keeps_identity_discovery [keeps_rules]:
  "keeps (\<lambda>s. identity s = v) (handle_route_reply_command E fr)" "keeps (\<lambda>s. identity s = v) (handle_route_request_command E rq)"
  "keeps (\<lambda>s. identity s = v) (route_discovery E req)"
proof -
  show "keeps (\<lambda>s. identity s = v) (handle_route_reply_command E fr)"
    unfolding handle_route_reply_command_def Let_def by (intro keeps_rules)
  have forward: "keeps (\<lambda>s. identity s = v) (note_forward_route E rq pc)" for pc
    unfolding note_forward_route_def Let_def by (intro keeps_rules)
  have reverse: "keeps (\<lambda>s. identity s = v) (note_reverse_route rq)"
    unfolding note_reverse_route_def Let_def by (intro keeps_rules)
  have matches: "keeps (\<lambda>s. identity s = v) (matches_self_or_children c)" for c
    unfolding matches_self_or_children_def by (intro keeps_rules)
  have tree: "keeps (\<lambda>s. identity s = v) (tree_request_accepted rq)"
    unfolding tree_request_accepted_def by (intro keeps_rules)
  show "keeps (\<lambda>s. identity s = v) (handle_route_request_command E rq)"
    unfolding handle_route_request_command_def request_answer_def Let_def
    by (intro keeps_rules forward reverse matches tree) simp_all
  have init: "keeps (\<lambda>s. identity s = v) (initiate_unicast_discovery E a b)" for a b
    unfolding initiate_unicast_discovery_def
    by (intro keeps_rules) (auto intro!: keeps_rules split: option.splits)
  show "keeps (\<lambda>s. identity s = v) (route_discovery E req)"
    unfolding route_discovery_def Let_def by (cases req) (auto intro!: keeps_rules init)
qed

lemma keeps_identity_membership [keeps_rules]:
  "keeps (\<lambda>s. identity s = v) (handle_associate_indication E ind)" "keeps (\<lambda>s. identity s = v) (handle_rejoin_request_command E fr)"
  "keeps (\<lambda>s. identity s = v) (handle_leave_request E l)" "keeps (\<lambda>s. identity s = v) (handle_leave_request_end_device E l)"
  "keeps (\<lambda>s. identity s = v) (handle_link_status_command E ls)" "keeps (\<lambda>s. identity s = v) (handle_end_device_timeout_request_command E t)"
  "keeps (\<lambda>s. identity s = v) (handle_end_device_timeout_response_command r)"
  by (auto simp: handle_associate_indication_def handle_rejoin_request_command_def rejoin_address_def
      handle_leave_request_def handle_leave_request_request_def handle_leave_request_end_device_def
      handle_link_status_command_def handle_end_device_timeout_request_command_def Let_def
      handle_end_device_timeout_response_command_def intro!: keeps_rules)

lemma keeps_identity_scan [keeps_rules]: "keeps (\<lambda>s. identity s = v) (mac_scan E R m)"
proof -
  have "keeps (\<lambda>s. identity s = v) (set_channel c)" "keeps (\<lambda>s. identity s = v) (mac_send E ev)" for c ev
    by (auto simp: set_channel_def mac_update_def mac_send_def identity_def Let_def act_modify_def intro!: keepsI)
  then have "keeps (\<lambda>s. identity s = v) (scan_channels E R chs)" for chs
    by (induction chs) (auto simp: scan_channel_active_def intro!: keeps_rules)
  then show ?thesis by (simp add: mac_scan_def)
qed

lemma keeps_identity_handle [keeps_rules]: "keeps (\<lambda>s. identity s = v) (handle_mac_indication E R mode a mi)"
proof -
  have incoming: "keeps (\<lambda>s. identity s = v) (process_incoming_indication E ind a)" for ind
    unfolding process_incoming_indication_def Let_def by (intro keeps_rules)
  have cmd: "keeps (\<lambda>s. identity s = v) (handle_router_command E src lqi h c)" for src lqi h c
    by (cases c) (auto simp: handle_router_command_def intro!: keeps_rules split: sum.splits option.splits)
  have ed: "keeps (\<lambda>s. identity s = v) (handle_end_device_commands E src lqi h c)" for src lqi h c
    by (cases c) (auto simp: handle_end_device_commands_def intro!: keeps_rules)
  have check: "keeps (\<lambda>s. identity s = v) (check_and_update_broadcast_transaction_table E d)" for d
    unfolding check_and_update_broadcast_transaction_table_def by (intro keeps_rules)
  have member: "keeps (\<lambda>s. identity s = v) (relay_member_mode_multicast E d)" for d
    unfolding relay_member_mode_multicast_def by (intro keeps_rules check) simp_all
  have relay: "keeps (\<lambda>s. identity s = v) (relay_decision E d)" for d
    unfolding relay_decision_def relay_multicast_frame_def relay_broadcast_frame_def relay_unicast_frame_def Let_def
    by (intro keeps_rules check member) simp_all
  have examine: "keeps (\<lambda>s. identity s = v) (examine_end_devices_that_have_changed_router_parents h m)" for h m
    unfolding examine_end_devices_that_have_changed_router_parents_def Let_def by (intro keeps_rules)
  have beacon: "keeps (\<lambda>s. identity s = v) (handle_beacon_notify_indication E R pd)" for pd
    unfolding handle_beacon_notify_indication_def by (intro keeps_rules) simp_all
  have router: "keeps (\<lambda>s. identity s = v) (handle_data_indication E ind a)" for ind
    unfolding handle_data_indication_def
    by (intro keeps_rules incoming examine) (auto intro!: keeps_rules cmd relay split: nwk_frame.splits option.splits)
  have "keeps (\<lambda>s. identity s = v) (handle_data_indication_end_device E ind a)" for ind
    unfolding handle_data_indication_end_device_def
    by (intro keeps_rules incoming) (auto intro!: keeps_rules ed split: nwk_frame.splits option.splits)
  moreover have "keeps (\<lambda>s. identity s = v) (handle_data_indication_pending E ind a)" for ind
    unfolding handle_data_indication_pending_def
    by (intro keeps_rules incoming) (auto intro!: keeps_rules split: nwk_frame.splits option.splits)
  ultimately show ?thesis
    by (cases mi) (auto simp: handle_mac_indication_def intro!: keeps_rules router beacon)
qed

lemma keeps_addressed_rules [keeps_rules]:
  "keeps addressed (ctx_update f)" "keeps addressed (neighbors_update g)" "keeps addressed (assign_child_address E)"
  "keeps addressed (mac_scan E R m)" "keeps addressed (handle_mac_indication E R mode a mi)"
  "keeps addressed (route_unicast_frame E d)" "keeps addressed (route_multicast_frame E d)"
  "keeps addressed (route_discovery E req)"
  by (auto simp: ctx_update_def addressed_def intro!: keeps_modify)
    (rule keeps_addressed, rule keeps_rules)+

lemma keeps_identity_listen [keeps_rules]: "keeps (\<lambda>s. identity s = v) (listen_step E R mode a rf)"
  by (simp add: listen_step_def keeps_rules)

section \<open>Management keeps both\<close>

lemma keeps_scan_masks [keeps_rules]: "(\<And>m. keeps I (mac_scan E R m)) \<Longrightarrow> keeps I (scan_masks E R ms)"
  by (induction ms) (auto intro!: keeps_rules)

lemma keeps_discovery_nlme [keeps_rules]:
  "(\<And>m. keeps I (mac_scan E R m)) \<Longrightarrow> keeps I (network_discovery E R ms)"
  unfolding network_discovery_def by (intro keeps_rules) auto

lemma keeps_header_data [keeps_rules]: "quiet I \<Longrightarrow> keeps I (build_data_frame n c)"
  by (auto simp: build_data_frame_def intro!: keeps_rules)

lemma keeps_transmit_data [keeps_rules]:
  assumes "quiet I" and "\<And>d. keeps I (route_unicast_frame E d)" and "\<And>d. keeps I (route_multicast_frame E d)"
  shows "keeps I (transmit_data_frame_routing E n c)" "keeps I (transmit_data_frame_end_device E n c)"
  using assms by (auto simp: transmit_data_frame_routing_def transmit_data_frame_end_device_def intro!: keeps_rules)

lemma keeps_leaving [keeps_rules]:
  assumes "quiet I"
  shows "keeps I (leave_end_device E r)" "keeps I (leave_router E l)"
  using assms by (auto simp: leave_end_device_def leave_router_def intro!: keeps_rules split: router_leave_req.splits)

lemma nbs_unique_new: "(\<And>nb. nb \<in> set ns \<Longrightarrow> nb_ext_addr nb = None) \<Longrightarrow> nbs_unique (neighbor_table_new p ns)"
  by (induction ns) (auto simp: nbs_unique_def neighbor_table_new_def)

lemma keeps_direct_join [keeps_rules]: "keeps nwk_ok (direct_join E req)" "keeps addressed (direct_join E req)"
proof -
  let ?new = "\<lambda>addr. neighbor_new (ev_now E) \<lparr> nn_ext_addr = dj_ext_addr req, nn_nwk_addr = addr,
    nn_device_type = (if dj_full_function_device req then Coordinator else EndDevice),
    nn_rx_on_when_idle = dj_idle_receive req, nn_relationship = Child \<rparr>"
  have fresh: "nbs_unique (nbs_push (?new a) (nbs_cleanup (ev_now E) t))"
    if "nbs_unique t" "find_by_ext_addr (dj_ext_addr req) t = None" for a t
    using that by (intro nbs_unique_push nbs_unique_cleanup)
      (auto simp: nbs_cleanup_def neighbor_new_def find_by_ext_addr_def has_ext_addr_def find_None_iff)
  have push: "keeps nwk_ok (act_bind (act_gets (\<lambda>s. find_by_ext_addr (dj_ext_addr req) (cx_neighbors (nk_ctx s)))) (\<lambda>old.
      if old \<noteq> None then act_return (Inl DirectAlreadyPresent)
      else act_then (neighbors_update (\<lambda>t. nbs_push (?new a) (nbs_cleanup (ev_now E) t))) (act_return (Inr ()))))" for a
    by (rule keepsI) (auto simp: act_defs nwk_ok_def fresh split: if_splits)
  show "keeps nwk_ok (direct_join E req)"
    unfolding direct_join_def by (rule keeps_bind [OF keeps_ok_rand push])
  show "keeps addressed (direct_join E req)"
    unfolding direct_join_def by (intro keeps_rules)
qed

section \<open>Joining\<close>

text \<open>What discovery finds carries no extended addresses of neighbors yet.\<close>

definition discovered :: "network_descriptor \<Rightarrow> bool" where
  "discovered nd \<longleftrightarrow> (\<forall>d\<in>set (nd_neighbors nd). nb_ext_addr (pdd_neighbor d) = None)"

lemma discovered_add:
  assumes "\<forall>nd\<in>set nds. discovered nd"
  shows "\<forall>nd\<in>set (add_descriptor now R pd nds). discovered nd"
proof -
  let ?add = "\<lambda>d P. update_first P (nd_neighbors_update (\<lambda>ds. ds @ [d])) nds"
  have old: "discovered nd" if "nb_ext_addr (pdd_neighbor d) = None" "nd \<in> set (?add d P)" for P d nd
    using that assms by (induction nds) (auto simp: discovered_def split: if_splits)
  have dev: "nb_ext_addr (pdd_neighbor (discovered_device now a pd b)) = None" for a b
    by (simp add: discovered_device_def neighbor_default_def)
  then have new: "discovered (discovered_network p pd b (discovered_device now a pd b))" for p b a
    by (simp add: discovered_network_def discovered_def)
  from assms new old [OF dev] show ?thesis
    by (auto simp: add_descriptor_def Let_def split: mac_address.splits sum.splits)
qed

lemma discovered_fold:
  "\<forall>nd\<in>set nds. discovered nd \<Longrightarrow> \<forall>nd\<in>set (fold (add_descriptor now R) pds nds). discovered nd"
  by (induction pds arbitrary: nds) (auto dest: discovered_add)

lemma network_discovery_discovers:
  assumes "network_discovery E R masks s = Done (Inr nds, s')"
  shows "\<forall>nd\<in>set nds. discovered nd"
  using assms discovered_fold [of "[]"]
  by (auto simp: network_discovery_def act_bind_Done act_return_def split: if_splits)

lemma potential_parents_valid:
  "i \<in> set (get_potential_parents b t nd) \<longleftrightarrow>
     i < length (nd_neighbors nd) \<and> is_potential_parent b t (nd_neighbors nd ! i)"
  by (auto simp: get_potential_parents_def Let_def)

lemma mac_associate_Done:
  assumes "mac_associate E R ch coord caps s = Done (r, s')"
  shows "nk_ctx s' = nk_ctx s \<and> (\<forall>x. r = Inr x \<longrightarrow> addressed s')"
proof -
  have "keeps (\<lambda>s'. nk_ctx s' = nk_ctx s) (mac_associate E R ch coord caps)"
    by (rule keeps_mac(6)) (simp add: ctx_only_def)
  from keepsD [OF this _ assms] have ctx: "nk_ctx s' = nk_ctx s" by simp
  have "addressed s'" if "r = Inr x" for x
    using assms that
    by (auto simp: mac_associate_def act_then_def act_bind_Done act_return_def set_channel_def set_pan_id_def
        set_short_address_def set_extended_pan_id_def mac_update_def act_modify_def send_mac_command_def
        mac_send_def received_def act_gets_def Let_def addressed_def split: if_splits sum.splits option.splits prod.splits)
  with ctx show ?thesis by simp
qed

lemma associate_loop_Done:
  assumes "associate_loop E R ch pan caps is err ds s = Done ((r, ds'), s')"
  shows "nk_ctx s' = nk_ctx s \<and> length ds' = length ds \<and>
    (\<forall>e. r = Inl e \<longrightarrow> map pdd_neighbor ds' = map pdd_neighbor ds) \<and>
    (\<forall>i. r = Inr i \<longrightarrow> i \<in> set is \<and> addressed s' \<and>
       (\<forall>j. j \<noteq> i \<and> j < length ds \<longrightarrow> pdd_neighbor (ds' ! j) = pdd_neighbor (ds ! j)))"
  using assms
proof (induction "is" arbitrary: err ds s)
  case Nil
  then show ?case by (auto simp: act_return_def)
next
  case (Cons i js)
  have refuse: "pdd_neighbor (refuse_parent e d) = pdd_neighbor d" for e d
    by (simp add: refuse_parent_def)
  from Cons.prems obtain q s1 where q: "mac_associate E R ch (MacShort pan (nb_nwk_addr (pdd_neighbor (ds ! i))))
      (mac_of_zb_capabilities caps) s = Done (q, s1)" and
    rest: "(case q of
       Inl e \<Rightarrow> associate_loop E R ch pan caps js (JoinAssociationError e) (ds[i := refuse_parent e (ds ! i)])
     | Inr (_, ext) \<Rightarrow> act_return (Inr i, ds[i := joined_parent ext (ds ! i)])) s1 = Done ((r, ds'), s')"
    by (auto simp: act_bind_Done)
  note mac = mac_associate_Done [OF q]
  show ?case
  proof (cases q)
    case (Inl e)
    have keep: "map pdd_neighbor (ds[i := refuse_parent e (ds ! i)]) = map pdd_neighbor ds"
      by (cases "i < length ds") (simp_all add: map_update refuse list_update_same_conv list_update_beyond)
    have "pdd_neighbor (ds[i := refuse_parent e (ds ! i)] ! j) = pdd_neighbor (ds ! j)" for j
      by (cases "i < length ds"; cases "i = j") (simp_all add: refuse list_update_beyond)
    with Cons.IH [OF rest [unfolded Inl sum.case]] mac keep show ?thesis by auto
  next
    case (Inr x)
    with rest mac show ?thesis by (cases x) (auto simp: act_return_def)
  qed
qed

lemma joined_unique:
  assumes "discovered nd" and "\<forall>j. j \<noteq> i \<and> j < length (nd_neighbors nd) \<longrightarrow>
      pdd_neighbor (ds ! j) = pdd_neighbor (nd_neighbors nd ! j)"
  shows "nbs_unique (neighbor_table_new p (map (\<lambda>j. pdd_neighbor (ds ! j))
    (filter (\<lambda>j. j \<noteq> i) (get_potential_parents b t nd))))"
  using assms by (intro nbs_unique_new) (auto simp: potential_parents_valid discovered_def)

lemma to_joined_Done:
  assumes "to_joined E parent ns profile caps s = Done (m, s')"
  obtains depth where "joined_depth (jd_depth (pdd_join_data parent)) = Done depth" and "m = joined_mode caps"
    and "s' = s\<lparr> nk_ctx := (nwk_context_default (ev_now E))\<lparr> cx_neighbors := neighbor_table_new (pdd_neighbor parent) ns,
      cx_profile := profile, cx_depth := depth \<rparr> \<rparr>"
  using assms by (auto simp: to_joined_def act_defs run_simps)

lemma nwk_ok_default:
  "nwk_ok s \<longleftrightarrow> nbs_unique t" if "nk_ctx s = (nwk_context_default now)\<lparr> cx_neighbors := t, cx_profile := p, cx_depth := d \<rparr>"
  using that by (simp add: nwk_ok_def nwk_context_default_def rt_ok_def im_ok_def)

lemma association_join_ok:
  assumes "association_join E R nd caps s = Done ((r, nd'), s')" and "discovered nd" and "nwk_ok s"
  shows "nwk_ok s' \<and> (\<forall>m. r = Inr m \<longrightarrow> addressed s' \<and> m = joined_mode caps) \<and> (\<forall>e. r = Inl e \<longrightarrow> discovered nd')"
proof -
  let ?ps = "get_potential_parents True (zc_device_type caps) nd"
  from assms(1) obtain q ds s1 where
    loop: "associate_loop E R (nd_logical_channel nd) (nd_pan_id nd) caps ?ps
      (JoinNotPermitted ''no potential parent devices found'') (nd_neighbors nd) s = Done ((q, ds), s1)" and
    rest: "(case q of Inl e \<Rightarrow> act_return (Inl e, nd\<lparr> nd_neighbors := ds \<rparr>)
      | Inr i \<Rightarrow> act_bind (to_joined E (ds ! i) (map (\<lambda>j. pdd_neighbor (ds ! j)) (filter (\<lambda>j. j \<noteq> i) ?ps))
          (nd_stack_profile nd) caps) (\<lambda>mode. act_return (Inr mode, nd\<lparr> nd_neighbors := ds \<rparr>))) s1 = Done ((r, nd'), s')"
    by (auto simp: association_join_def Let_def act_bind_Done)
  note spec = associate_loop_Done [OF loop]
  show ?thesis
  proof (cases q)
    case (Inl e)
    have "discovered (nd\<lparr> nd_neighbors := ds \<rparr>)"
    proof -
      have "(\<forall>d\<in>set ds. nb_ext_addr (pdd_neighbor d) = None) \<longleftrightarrow> (\<forall>nb\<in>set (map pdd_neighbor ds). nb_ext_addr nb = None)"
        by simp
      also have "\<dots>" using spec Inl assms(2) by (simp add: discovered_def)
      finally show ?thesis by (simp add: discovered_def)
    qed
    with rest Inl spec assms(3) show ?thesis
      by (auto simp: act_return_def nwk_ok_def)
  next
    case (Inr i)
    with rest obtain m where joined: "to_joined E (ds ! i) (map (\<lambda>j. pdd_neighbor (ds ! j))
        (filter (\<lambda>j. j \<noteq> i) ?ps)) (nd_stack_profile nd) caps s1 = Done (m, s')"
      and r: "r = Inr m"
      by (auto simp: act_bind_Done act_return_def)
    from to_joined_Done [OF joined] obtain depth where m: "m = joined_mode caps" and
      s': "s' = s1\<lparr> nk_ctx := (nwk_context_default (ev_now E))\<lparr> cx_neighbors := neighbor_table_new (pdd_neighbor (ds ! i))
        (map (\<lambda>j. pdd_neighbor (ds ! j)) (filter (\<lambda>j. j \<noteq> i) ?ps)),
        cx_profile := nd_stack_profile nd, cx_depth := depth \<rparr> \<rparr>" by metis
    have ctx: "nk_ctx s' = (nwk_context_default (ev_now E))\<lparr> cx_neighbors := neighbor_table_new (pdd_neighbor (ds ! i))
        (map (\<lambda>j. pdd_neighbor (ds ! j)) (filter (\<lambda>j. j \<noteq> i) ?ps)),
        cx_profile := nd_stack_profile nd, cx_depth := depth \<rparr>"
      by (simp add: s')
    have "nbs_unique (neighbor_table_new (pdd_neighbor (ds ! i)) (map (\<lambda>j. pdd_neighbor (ds ! j)) (filter (\<lambda>j. j \<noteq> i) ?ps)))"
      using spec Inr assms(2) by (intro joined_unique) auto
    then have "nwk_ok s'" using nwk_ok_default [OF ctx] by simp
    moreover have "addressed s'" using spec Inr by (simp add: s' addressed_def)
    ultimately show ?thesis using r m by simp
  qed
qed

lemma rejoin_keeps:
  assumes "\<And>ch. keeps I (set_channel ch)" and "\<And>p. keeps I (set_pan_id (Some p))"
    and "\<And>d x c. keeps I (send_rejoin_request_cmd E d x c)" and "\<And>m. keeps I (mac_scan E R m)"
    and "\<And>p d c. keeps I (to_joined_pending p d c)"
  shows "keeps I (rejoin E R req)"
proof -
  have wait: "keeps I (wait_for_frame E eval rfs)" for eval :: "nwk_frame \<Rightarrow> 'v option" and rfs
    by (induction rfs) (auto intro!: keeps_rules split: mac_indication.splits option.splits)
  have "keeps I (try_rejoin E R ch pan caps)" for ch pan caps
    unfolding try_rejoin_def by (intro keeps_rules assms wait)
  then have "keeps I (rejoin_loop E R ch pan caps ds)" for ch pan caps ds
    by (induction ds) (auto intro!: keeps_rules assms)
  then show ?thesis unfolding rejoin_def by (intro keeps_rules assms)
qed

lemma keeps_rejoin_request [keeps_rules]:
  "keeps nwk_ok (send_rejoin_request_cmd E d x c)" "keeps addressed (send_rejoin_request_cmd E d x c)"
proof -
  let ?set = "\<lambda>a. act_modify (\<lambda>s. s\<lparr> nk_mac := (nk_mac s)\<lparr> ms_short_address := Some a \<rparr> \<rparr>)"
  have set: "keeps nwk_ok (?set a)" "keeps addressed (?set a)" for a
    by (auto simp: addressed_def nwk_ok_def act_modify_def intro!: keepsI)
  show "keeps nwk_ok (send_rejoin_request_cmd E d x c)" "keeps addressed (send_rejoin_request_cmd E d x c)"
    by (simp_all add: send_rejoin_request_cmd_def keeps_rules set)
qed

lemma keeps_rejoin [keeps_rules]: "keeps nwk_ok (rejoin E R req)" "keeps addressed (rejoin E R req)"
proof -
  have "nbs_unique (neighbor_table_new p [])" for p by (rule nbs_unique_new) simp
  then have "keeps nwk_ok (to_joined_pending p d c)" "keeps addressed (to_joined_pending p d c)" for p d c
    by (auto simp: to_joined_pending_def intro!: keeps_rules keeps_ok_ctx)
  moreover have "keeps nwk_ok (set_channel ch)" "keeps nwk_ok (set_pan_id q)" for ch q
    by (auto simp: set_channel_def set_pan_id_def intro!: keeps_rules)
  moreover have "keeps addressed (set_channel ch)" "keeps addressed (set_pan_id (Some p))" for ch p
    by (auto simp: set_channel_def set_pan_id_def mac_update_def addressed_def act_modify_def intro!: keepsI)
  ultimately show "keeps nwk_ok (rejoin E R req)" "keeps addressed (rejoin E R req)"
    by (auto intro!: rejoin_keeps keeps_rules)
qed

section \<open>The machine\<close>

definition is_joined :: "nwk_mode \<Rightarrow> bool" where
  "is_joined m \<longleftrightarrow> m = JoinedAsEndDevice \<or> is_routing m"

text \<open>The operations that each mode offers, with whatever the environment does meanwhile. A device
  joins a network that it has discovered.\<close>

inductive nwk_step :: "radio \<Rightarrow> nwk_mode \<times> nwk \<Rightarrow> nwk_mode \<times> nwk \<Rightarrow> bool" for R where
  receive: "mode \<noteq> Uninitialized \<Longrightarrow> listen_step E R mode auth rf s = Done (r, s') \<Longrightarrow> nwk_step R (mode, s) (mode, s')"
| send_router: "is_routing mode \<Longrightarrow> transmit_data_frame_routing E nsdu c s = Done (t, s') \<Longrightarrow>
    nwk_step R (mode, s) (mode, s')"
| send_end_device: "transmit_data_frame_end_device E nsdu c s = Done (t, s') \<Longrightarrow>
    nwk_step R (JoinedAsEndDevice, s) (JoinedAsEndDevice, s')"
| discover: "mode = Uninitialized \<or> mode = PendingJoin \<Longrightarrow> network_discovery E R masks s = Done (d, s') \<Longrightarrow>
    nwk_step R (mode, s) (mode, s')"
| join: "discovered nd \<Longrightarrow> association_join E R nd caps s = Done ((Inr mode, nd'), s') \<Longrightarrow>
    nwk_step R (Uninitialized, s) (mode, s')"
| join_fails: "discovered nd \<Longrightarrow> association_join E R nd caps s = Done ((Inl e, nd'), s') \<Longrightarrow>
    nwk_step R (Uninitialized, s) (Uninitialized, s')"
| rejoin: "rejoin E R req s = Done (Inr mode, s') \<Longrightarrow> nwk_step R (PendingJoin, s) (mode, s')"
| rejoin_fails: "rejoin E R req s = Done (Inl e, s') \<Longrightarrow> nwk_step R (PendingJoin, s) (PendingJoin, s')"
| direct_join: "direct_join E dj s = Done (j, s') \<Longrightarrow> nwk_step R (JoinedAsRouter, s) (JoinedAsRouter, s')"
| permit: "is_routing mode \<Longrightarrow> permit_joining E cfg s = Done (u, s') \<Longrightarrow> nwk_step R (mode, s) (mode, s')"
| discover_route: "route_discovery E ra s = Done (q, s') \<Longrightarrow> nwk_step R (JoinedAsRouter, s) (JoinedAsRouter, s')"
| leave_end_device: "leave_end_device E rj s = Done (l, s') \<Longrightarrow>
    nwk_step R (JoinedAsEndDevice, s) (JoinedAsEndDevice, s')"
| leave_router: "leave_router E lr s = Done (l, s') \<Longrightarrow> nwk_step R (JoinedAsRouter, s) (JoinedAsRouter, s')"
| timeout: "send_end_device_timeout_request_cmd E dt s = Done (t, s') \<Longrightarrow>
    nwk_step R (JoinedAsEndDevice, s) (JoinedAsEndDevice, s')"
| reset: "mode \<noteq> Uninitialized \<Longrightarrow> nwk_reset E R s = Done (mode', s') \<Longrightarrow> nwk_step R (mode, s) (mode', s')"
| pend: "is_joined mode \<Longrightarrow> to_pending_rejoin s = Done (mode', s') \<Longrightarrow> nwk_step R (mode, s) (mode', s')"
| become_router: "mode = PendingJoin \<or> mode = JoinedAsEndDevice \<Longrightarrow> to_router s = Done (mode', s') \<Longrightarrow>
    nwk_step R (mode, s) (mode', s')"

text \<open>A device starts with a default context, or with one that the storage has kept.\<close>

inductive nwk_reach :: "radio \<Rightarrow> nwk_mode \<times> nwk \<Rightarrow> bool" for R where
  fresh: "nk_ctx s = nwk_context_default now \<Longrightarrow> nwk_reach R (Uninitialized, s)"
| loaded: "nwk_load now dec buf mac = Inr s \<Longrightarrow> nwk_reach R (PendingJoin, s)"
| step: "nwk_reach R ms \<Longrightarrow> nwk_step R ms ms' \<Longrightarrow> nwk_reach R ms'"

inductive_cases uninitialized_stepE: "nwk_step R (Uninitialized, s) (mode, s')"

definition nwk_inv :: "nwk_mode \<times> nwk \<Rightarrow> bool" where
  "nwk_inv ms \<longleftrightarrow> nwk_ok (snd ms) \<and> (fst ms \<noteq> Uninitialized \<longrightarrow> addressed (snd ms))"

lemma keeps_listen [keeps_rules]: "keeps nwk_ok (listen_step E R mode a rf)" "keeps addressed (listen_step E R mode a rf)"
  by (simp_all add: listen_step_def keeps_rules)

lemma nbs_unique_empty [simp]: "nbs_unique (neighbor_table_new p [])"
  by (rule nbs_unique_new) simp

lemma nwk_ok_fresh: "nk_ctx s = nwk_context_default now \<Longrightarrow> nwk_ok s"
  by (simp add: nwk_ok_def nwk_context_default_def rt_ok_def im_ok_def neighbor_table_default_def)

lemma keeps_permit: "keeps nwk_ok (permit_joining E cfg)" "keeps addressed (permit_joining E cfg)"
  by (auto simp: permit_joining_def set_association_permit_timeout_def mac_update_def act_modify_def nwk_ok_def
      addressed_def intro!: keepsI)

lemma keeps_operations:
  assumes "I = nwk_ok \<or> I = addressed"
  shows "keeps I (listen_step E R mode a rf)" "keeps I (transmit_data_frame_routing E nsdu c)"
    "keeps I (transmit_data_frame_end_device E nsdu c)" "keeps I (network_discovery E R masks)"
    "keeps I (rejoin E R req)" "keeps I (direct_join E dj)" "keeps I (permit_joining E cfg)"
    "keeps I (route_discovery E ra)" "keeps I (leave_end_device E rj)" "keeps I (leave_router E lr)"
    "keeps I (send_end_device_timeout_request_cmd E dt)"
proof -
  have I: "quiet I" using assms by auto
  have "keeps I (route_unicast_frame E d)" "keeps I (route_multicast_frame E d)" "keeps I (mac_scan E R m)" for d m
    using assms by (auto intro: keeps_rules)
  with I show "keeps I (transmit_data_frame_routing E nsdu c)" "keeps I (transmit_data_frame_end_device E nsdu c)"
    "keeps I (network_discovery E R masks)" "keeps I (leave_end_device E rj)" "keeps I (leave_router E lr)"
    "keeps I (send_end_device_timeout_request_cmd E dt)"
    by (simp_all add: keeps_rules)
qed (use assms in \<open>auto intro: keeps_rules keeps_permit\<close>)

lemma operation_step:
  assumes "\<And>I. I = nwk_ok \<or> I = addressed \<Longrightarrow> keeps I m" and "m s = Done (x, s')"
    and "nwk_inv (mode, s)" and "mode' = mode \<or> addressed s"
  shows "nwk_inv (mode', s')"
  using assms(2-4) assms(1) [of nwk_ok] assms(1) [of addressed] by (auto simp: nwk_inv_def dest: keepsD)

lemma step_inv: "nwk_step R ms ms' \<Longrightarrow> nwk_inv ms \<Longrightarrow> nwk_inv ms'"
proof (induction rule: nwk_step.induct)
  case (rejoin E req s mode s')
  have "nwk_ok s'" "addressed s'"
    using rejoin by (auto simp: nwk_inv_def intro: keepsD [OF keeps_rejoin(1)] keepsD [OF keeps_rejoin(2)])
  then show ?case by (simp add: nwk_inv_def)
next
  case (reset mode E s mode' s')
  then have "mode' = Uninitialized" "nk_ctx s' = nwk_context_default (ev_now E)"
    by (auto simp: nwk_reset_def mac_reset_def mac_update_def act_defs run_simps)
  with nwk_ok_fresh show ?case by (simp add: nwk_inv_def)
next
  case (pend mode s mode' s')
  then show ?case
    by (auto simp: to_pending_rejoin_def act_defs run_simps nwk_inv_def nwk_ok_def nbs_unique_new addressed_def
        is_joined_def is_routing_def)
next
  case (join nd E caps s mode nd' s')
  then show ?case by (auto simp: nwk_inv_def dest!: association_join_ok)
next
  case (join_fails nd E caps s e nd' s')
  then show ?case by (auto simp: nwk_inv_def dest!: association_join_ok)
next
  case (become_router mode s mode' s')
  then show ?case by (auto simp: nwk_inv_def to_router_def act_return_def)
qed (erule operation_step [rotated], assumption, simp, rule keeps_operations, assumption)+

lemma reach_inv: "nwk_reach R ms \<Longrightarrow> nwk_inv ms"
proof (induction rule: nwk_reach.induct)
  case (fresh s now)
  with nwk_ok_fresh show ?case by (simp add: nwk_inv_def)
next
  case (loaded now dec buf mac s)
  then obtain p where "dec buf = Inr p" by (cases "dec buf") (auto simp: nwk_load_def)
  with loaded show ?case
    by (auto simp: nwk_load_def nwk_context_default_def nwk_inv_def nwk_ok_def rt_ok_def im_ok_def addressed_def)
qed (rule step_inv)

section \<open>Properties\<close>

text \<open>C4. In every state that a device reaches from a fresh start or from its storage, whatever it
  receives and whichever of its operations it performs, the tables are well formed; and in every mode
  but the uninitialized one the accessors of the short address, the PAN id and the extended PAN id do
  not panic.\<close>
theorem reachable_modes_have_addresses:
  assumes "nwk_reach R (mode, s)"
  shows "rt_ok (cx_route_table (nk_ctx s)) \<and> im_ok ADDR_MAP_CAP (cx_addr_map (nk_ctx s)) \<and>
    nbs_unique (cx_neighbors (nk_ctx s)) \<and>
    (mode = Uninitialized \<or> (\<exists>a p e. get_addr s = Done (a, s) \<and> get_pan_id s = Done (p, s) \<and> get_ext_pan_id s = Done (e, s)))"
  using reach_inv [OF assms]
  by (auto simp: nwk_inv_def nwk_ok_def addressed_def get_addr_def get_pan_id_def get_ext_pan_id_def act_run_def
      unwrap_run_def split: option.splits)

definition persistent_std :: persistent_nwk_context where
  "persistent_std = \<lparr> pn_addr = 0x1234, pn_ext_pan_id = 3, pn_pan_id = 0x1a62, pn_parent = neighbor_default 0,
     pn_parent_information = parent_information_default, pn_profile = ZigbeePro, pn_depth = 1,
     pn_active_key_seq_number = 0, pn_all_fresh = False, pn_security_material_set = [sm_std],
     pn_neighbor_table = None \<rparr>"

definition loaded_std :: nwk where
  "loaded_std = (case nwk_load 0 (\<lambda>_. Inr persistent_std) [] (nk_mac nwk_std) of Inr s \<Rightarrow> s)"

lemma loaded_std_load: "nwk_load 0 (\<lambda>_. Inr persistent_std) [] (nk_mac nwk_std) = Inr loaded_std"
  by (simp add: loaded_std_def nwk_load_def)

theorem reachable_modes_have_addresses_witness:
  "nwk_reach radio_std (PendingJoin, loaded_std) \<and> (\<exists>a. get_addr loaded_std = Done (a, loaded_std))"
proof -
  have reach: "nwk_reach radio_std (PendingJoin, loaded_std)"
    by (rule nwk_reach.loaded [OF loaded_std_load])
  from reachable_modes_have_addresses [OF this] reach show ?thesis by blast
qed

end
