(* ===== verification/Aps_Invariants.thy ===== *)
theory Aps_Invariants
  imports Aps_Safety Loops Nwk_Machine
begin

text \<open>
  What stays the same while the application support sublayer sends, receives and waits: the identity of
  the device in its network, authorization, bindings, and every property of its link key that
  confirmations and the counting of frames respect.
\<close>

section \<open>The identity of the device\<close>

lemma keeps_identity_nwk [keeps_rules]:
  "keeps (\<lambda>s. identity s = v) m \<Longrightarrow> keeps (\<lambda>a. identity (as_nwk a) = v) (with_nwk m)"
  unfolding with_nwk_within by (rule nwk_part.keeps_part)

lemma keeps_identity_modify: "(\<And>a. as_nwk (f a) = as_nwk a) \<Longrightarrow> keeps (\<lambda>a. identity (as_nwk a) = v) (act_modify f)"
  by (rule keeps_modify) simp

lemma keeps_identity_sends [keeps_rules]:
  "keeps (\<lambda>s. identity s = v) (transmit_data_frame E mode bs c)"
  "keeps (\<lambda>a. identity (as_nwk a) = v) (aps_encrypt E A f x opts buf)"
  "keeps (\<lambda>a. identity (as_nwk a) = v) get_aps_counter"
  by (auto simp: transmit_data_frame_def intro!: keeps_rules)
    (auto simp: aps_encrypt_def get_aps_counter_def run_simps keeps_def)

lemma keeps_identity_transfer [keeps_rules]:
  "keeps (\<lambda>a. identity (as_nwk a) = v) (aps_transfer E A mode f n al radius opts c)"
  "keeps (\<lambda>a. identity (as_nwk a) = v) (aps_cmd_transfer E A mode cf n opts)"
  "keeps (\<lambda>a. identity (as_nwk a) = v) (send_ack E A mode fmt k n)"
proof -
  have bytes: "keeps (\<lambda>a. identity (as_nwk a) = v) (aps_frame_bytes E A f n opts)" for f n opts
    unfolding aps_frame_bytes_def Let_def by (intro keeps_rules)
  show transfer: "keeps (\<lambda>a. identity (as_nwk a) = v) (aps_transfer E A mode f n al radius opts c)"
    for f n al radius opts c
    unfolding aps_transfer_def Let_def by (intro keeps_rules bytes)
  show "keeps (\<lambda>a. identity (as_nwk a) = v) (aps_cmd_transfer E A mode cf n opts)"
    unfolding aps_cmd_transfer_def by (intro keeps_rules transfer)
  show "keeps (\<lambda>a. identity (as_nwk a) = v) (send_ack E A mode fmt k n)"
    unfolding send_ack_def by (rule transfer)
qed

lemma keeps_identity_commands [keeps_rules]:
  "keeps (\<lambda>a. identity (as_nwk a) = v) (handle_data_frame E A mode f ind kd)"
  "keeps (\<lambda>a. identity (as_nwk a) = v) (handle_router_aps_command mode src c)"
  "keeps (\<lambda>a. identity (as_nwk a) = v) (handle_aps_command_common src dst cf)"
  "keeps (\<lambda>a. identity (as_nwk a) = v) (validate_incoming_apsme_command src cf kd)"
proof -
  show "keeps (\<lambda>a. identity (as_nwk a) = v) (handle_data_frame E A mode f ind kd)"
    unfolding handle_data_frame_def Let_def by (intro keeps_rules)
  show "keeps (\<lambda>a. identity (as_nwk a) = v) (handle_router_aps_command mode src c)"
    by (cases c) (auto simp: handle_router_aps_command_def handle_remove_device_command_def intro!: keeps_rules)
  have transport: "keeps (\<lambda>a. identity (as_nwk a) = v) (handle_transport_key_command src h d)" for h d
    by (cases d) (auto simp: handle_transport_key_command_def Let_def intro!: keeps_rules keeps_identity_modify)
  have confirm: "keeps (\<lambda>a. identity (as_nwk a) = v) (handle_confirm_key_command src dst c)" for c
    unfolding handle_confirm_key_command_def by (intro keeps_rules keeps_identity_modify) simp_all
  show "keeps (\<lambda>a. identity (as_nwk a) = v) (handle_aps_command_common src dst cf)"
    by (cases "acf_command cf")
      (auto simp: handle_aps_command_common_def handle_update_device_command_def intro!: keeps_rules transport confirm)
  show "keeps (\<lambda>a. identity (as_nwk a) = v) (validate_incoming_apsme_command src cf kd)"
    by (auto simp: validate_incoming_apsme_command_def keeps_def split: option.splits if_splits)
qed

lemma keeps_identity_reception [keeps_rules]:
  "keeps (\<lambda>a. identity (as_nwk a) = v) (aps_handle_data_indication E A mode ind)"
proof -
  have dec: "keeps (\<lambda>a. identity (as_nwk a) = v) (aps_decrypt E A p)" for p
    by (auto simp: aps_decrypt_def keeps_def run_simps)
  show ?thesis
    unfolding aps_handle_data_indication_def
    by (intro keeps_rules dec) (auto intro!: keeps_rules split: aps_frame.split)
qed

section \<open>One received frame\<close>

lemma listen_aps_effect:
  assumes "listen_aps_step E R A mode rf a = Done (i, a')"
  shows "identity (as_nwk a') = identity (as_nwk a) \<and>
    (sec a' = sec a \<and> \<not> confirms i \<or>
     (\<exists>tc d kp. as_security_network_params a = Centralized tc \<and>
       i = Some (ApsIndConfirmKey ConfirmSuccess d TrustCenterLinkKeyType) \<and>
       find (\<lambda>k. dk_device_address k = tc) (as_device_key_pair_set a) = Some kp \<and>
       sec a' = (update_first (\<lambda>k. dk_device_address k = tc) confirm_link_key (as_device_key_pair_set a), snd (sec a))) \<or>
     (\<exists>tc d p. i = Some (ApsIndTransportKey tc (NetworkKeyData d)) \<and> p \<in> {Distributed, Centralized tc} \<and>
       sec a' = (as_device_key_pair_set a, as_is_authorized a, p, as_binding_table a)))"
proof -
  from assms obtain j a1 where listen: "with_nwk (listen_step E R mode (as_is_authorized a) rf) a = Done (j, a1)"
    and rest: "(case j of None \<Rightarrow> act_return None | Some ind \<Rightarrow> handle_nwk_indication E A mode ind) a1 = Done (i, a')"
    by (auto simp: listen_aps_step_def act_gets_bind elim!: act_bindE)
  have same: "identity (as_nwk a1) = identity (as_nwk a)" "sec a1 = sec a"
    using keepsD_eq [OF keeps_identity_nwk [OF keeps_identity_listen] listen] keepsD_eq [OF keeps_sec_nwk listen] by simp_all
  show ?thesis
  proof (cases j)
    case (Some ind)
    show ?thesis
    proof (cases ind)
      case (IndData d)
      with rest Some have handled: "aps_handle_data_indication E A mode d a1 = Done (i, a')"
        by (simp add: handle_nwk_indication_def)
      have "identity (as_nwk a') = identity (as_nwk a)"
        using keepsD_eq [OF keeps_identity_reception handled] same(1) by simp
      moreover from same(2) have parts: "as_device_key_pair_set a1 = as_device_key_pair_set a"
        "as_is_authorized a1 = as_is_authorized a" "as_security_network_params a1 = as_security_network_params a"
        "as_binding_table a1 = as_binding_table a"
        by (simp_all add: sec_def)
      ultimately show ?thesis using reception_effect [OF handled, unfolded parts same(2)] by blast
    qed (use rest Some same in \<open>auto simp: handle_nwk_indication_def handle_indication_common_def act_return_def
      split: leave_indication.splits\<close>)
  qed (use rest same in \<open>simp add: act_return_def\<close>)
qed

text \<open>Only the device itself is ever said to leave.\<close>

lemma listen_aps_leaves:
  assumes "listen_aps_step E R A mode rf a = Done (Some (ApsIndLeave l), a')"
  shows "\<exists>rj. l = LeaveSelf rj"
proof -
  from assms obtain j a1 where rest: "(case j of None \<Rightarrow> act_return None | Some ind \<Rightarrow> handle_nwk_indication E A mode ind) a1 =
      Done (Some (ApsIndLeave l), a')"
    by (auto simp: listen_aps_step_def act_gets_bind elim!: act_bindE)
  have data: "gives (\<lambda>i. \<forall>l. i \<noteq> Some (ApsIndLeave l)) (aps_handle_data_indication E A mode d)" for d
  proof -
    have frame: "gives (\<lambda>i. \<forall>l. i \<noteq> Some (ApsIndLeave l)) (handle_data_frame E A mode f ind kd)" for f ind kd
      unfolding handle_data_frame_def Let_def by (intro gives_rules) simp_all
    have transport: "gives (\<lambda>i. \<forall>l. i \<noteq> Some (ApsIndLeave l)) (handle_transport_key_command src h k)" for src h k
      by (cases k) (auto simp: handle_transport_key_command_def Let_def intro!: gives_rules split: if_splits)
    have confirm: "gives (\<lambda>i. \<forall>l. i \<noteq> Some (ApsIndLeave l)) (handle_confirm_key_command src dst c)" for src dst c
      unfolding handle_confirm_key_command_def by (intro gives_rules) simp_all
    have common: "gives (\<lambda>i. \<forall>l. i \<noteq> Some (ApsIndLeave l)) (handle_aps_command_common src dst c)" for src dst c
      by (cases "acf_command c") (auto simp: handle_aps_command_common_def handle_update_device_command_def
          intro!: gives_rules transport confirm)
    have router: "gives (\<lambda>i. \<forall>l. i \<noteq> Some (ApsIndLeave l)) (handle_router_aps_command mode src c)" for src c
      by (cases c) (auto simp: handle_router_aps_command_def handle_remove_device_command_def intro!: gives_rules)
    show ?thesis
      unfolding gives_def
    proof (intro allI impI)
      fix r i r' l
      assume "aps_handle_data_indication E A mode d r = Done (i, r')"
      then show "i \<noteq> Some (ApsIndLeave l)"
        by (auto simp: aps_handle_data_indication_def act_return_def elim!: act_bindE split: sum.splits prod.splits
            aps_frame.splits if_splits dest!: givesD [OF frame] givesD [OF router] givesD [OF common])
    qed
  qed
  show ?thesis
  proof (cases j)
    case (Some ind)
    with rest show ?thesis
      by (cases ind) (auto simp: handle_nwk_indication_def handle_indication_common_def act_return_def
          dest!: givesD [OF data] split: leave_indication.splits)
  qed (use rest in \<open>simp add: act_return_def\<close>)
qed

section \<open>The link key\<close>

text \<open>A property of a link key that confirmations and the counting of frames respect.\<close>

definition respected :: "(device_key_pair \<Rightarrow> bool) \<Rightarrow> bool" where
  "respected P \<longleftrightarrow> (\<forall>d n. P d \<longrightarrow> P (confirm_link_key d) \<and> P (d\<lparr> dk_outgoing_frame_counter := n \<rparr>))"

text \<open>A device with one link key.\<close>

type_synonym nwk_identity = "nwk_addr option \<times> pan_id option \<times> ext_addr option \<times> u8 \<times> security_material list"

definition link_state :: "nwk_identity \<Rightarrow> bool \<Rightarrow> binding set \<Rightarrow> (device_key_pair \<Rightarrow> bool) \<Rightarrow> aps \<Rightarrow> bool" where
  "link_state v b bt P a \<longleftrightarrow> identity (as_nwk a) = v \<and> as_is_authorized a = b \<and> as_binding_table a = bt \<and>
     (\<exists>d. as_device_key_pair_set a = [d] \<and> P d)"

lemma link_state_sec:
  "link_state v b bt P a \<Longrightarrow> identity (as_nwk a') = identity (as_nwk a) \<Longrightarrow>
     sec a' = (ks, as_is_authorized a, p, as_binding_table a) \<Longrightarrow> (\<And>d. as_device_key_pair_set a = [d] \<Longrightarrow> P d \<Longrightarrow> \<exists>d'. ks = [d'] \<and> Q d') \<Longrightarrow>
     link_state v b bt Q a'"
  by (auto simp: link_state_def sec_def)

lemma update_one: "(\<And>d. P d \<Longrightarrow> P (f d)) \<Longrightarrow> P d \<Longrightarrow> \<exists>d'. update_first p f [d] = [d'] \<and> P d'"
  by simp

lemma listen_link_state:
  assumes "respected P" and "link_state v b bt P a" and "listen_aps_step E R A mode rf a = Done (i, a')"
  shows "link_state v b bt P a'"
    and "confirms i \<Longrightarrow> link_state v b bt (\<lambda>d. P d \<and> dk_key_attributes d = VerifiedKey) a'"
proof -
  have conf: "P (confirm_link_key d)" if "P d" for d using assms(1) that by (simp add: respected_def)
  note effect = listen_aps_effect [OF assms(3)]
  consider (same) "sec a' = sec a" "\<not> confirms i"
    | (confirmed) tc kp where "confirms i" "find (\<lambda>k. dk_device_address k = tc) (as_device_key_pair_set a) = Some kp"
        "sec a' = (update_first (\<lambda>k. dk_device_address k = tc) confirm_link_key (as_device_key_pair_set a), snd (sec a))"
    | (transported) p where "\<not> confirms i" "sec a' = (as_device_key_pair_set a, as_is_authorized a, p, as_binding_table a)"
    using effect by auto
  then show "link_state v b bt P a'"
  proof cases
    case same
    then show ?thesis by (intro link_state_sec [OF assms(2)]) (use effect in \<open>auto simp: sec_def\<close>)
  next
    case confirmed
    then show ?thesis by (intro link_state_sec [OF assms(2)]) (use effect conf in \<open>auto simp: sec_def\<close>)
  next
    case transported
    then show ?thesis by (intro link_state_sec [OF assms(2)]) (use effect in \<open>auto simp: sec_def\<close>)
  qed
  assume conf_i: "confirms i"
  have same: "identity (as_nwk a') = identity (as_nwk a)" using effect by blast
  from effect conf_i obtain tc kp where found: "find (\<lambda>k. dk_device_address k = tc) (as_device_key_pair_set a) = Some kp"
    and a': "sec a' = (update_first (\<lambda>k. dk_device_address k = tc) confirm_link_key (as_device_key_pair_set a), snd (sec a))"
    by auto
  from assms(2) obtain d where d: "as_device_key_pair_set a = [d]" "P d" by (auto simp: link_state_def)
  with found have "dk_device_address d = tc" by (auto split: if_splits)
  then have "as_device_key_pair_set a' = [confirm_link_key d]" using a' d by (simp add: sec_def)
  moreover have "as_is_authorized a' = as_is_authorized a" "as_binding_table a' = as_binding_table a"
    using a' by (simp_all add: sec_def)
  moreover have "dk_key_attributes (confirm_link_key d) = VerifiedKey" by (simp add: confirm_link_key_def)
  ultimately show "link_state v b bt (\<lambda>d. P d \<and> dk_key_attributes d = VerifiedKey) a'"
    using assms(2) same conf [OF d(2)] by (simp add: link_state_def)
qed

lemma indication_among_keeps:
  assumes "\<And>rf. keeps I (listen_aps_step E R A mode rf)"
  shows "keeps I (indication_among E R A mode eval rfs)"
proof (induction rfs)
  case (Cons rf rfs)
  then show ?case unfolding indication_among.simps by (intro keeps_rules assms)
qed (simp add: keeps_rules)

lemma wait_keeps:
  "(\<And>rf. keeps I (listen_aps_step E R A mode rf)) \<Longrightarrow> keeps I (wait_for_indication E R A mode eval)"
  using indication_among_keeps unfolding keeps_def wait_for_indication_def by blast

text \<open>The indication that ends a wait comes from a state that has the properties of the states before.\<close>

lemma indication_among_last:
  assumes "\<And>rf. keeps I (listen_aps_step E R A mode rf)"
  shows "indication_among E R A mode eval rfs a = Done (Some x, a') \<Longrightarrow> I a \<Longrightarrow>
    \<exists>a1 rf i. I a1 \<and> listen_aps_step E R A mode rf a1 = Done (Some i, a') \<and> eval i = Some x"
proof (induction rfs arbitrary: a)
  case (Cons rf rfs)
  from Cons.prems(1) obtain i a1 where step: "listen_aps_step E R A mode rf a = Done (i, a1)"
    and rest: "(case Option.bind i eval of Some x \<Rightarrow> act_return (Some x)
      | None \<Rightarrow> indication_among E R A mode eval rfs) a1 = Done (Some x, a')"
    by (auto simp: act_bind_Done)
  show ?case
  proof (cases "Option.bind i eval")
    case None
    with rest Cons.IH [of a1] keepsD [OF assms Cons.prems(2) step] show ?thesis by simp
  next
    case (Some y)
    with rest step Cons.prems(2) show ?thesis by (cases i) (auto simp: act_return_def)
  qed
qed (simp add: act_return_def)

lemma wait_last:
  assumes "\<And>rf. keeps I (listen_aps_step E R A mode rf)"
    and "wait_for_indication E R A mode eval a = Done (Some x, a')" and "I a"
  shows "\<exists>a1 rf i. I a1 \<and> listen_aps_step E R A mode rf a1 = Done (Some i, a') \<and> eval i = Some x"
  by (rule indication_among_last [OF assms(1) _ assms(3)]) (rule assms(2) [unfolded wait_for_indication_def])

lemma keeps_link_state_listen [keeps_rules]: "respected P \<Longrightarrow> keeps (link_state v b bt P) (listen_aps_step E R A mode rf)"
  by (rule keepsI) (rule listen_link_state(1))

lemma keeps_link_state_wait [keeps_rules]: "respected P \<Longrightarrow> keeps (link_state v b bt P) (wait_for_indication E R A mode eval)"
  by (rule wait_keeps) (rule keeps_rules)

section \<open>Secured commands\<close>

lemma encrypt_aps_keys:
  assumes "encrypt_aps_frame C W D A level ext frame dest opts buf keys = Done (r, keys')"
  shows "keys' = keys \<or> keys' = update_first (encryption_key_for dest) bump_link_key keys"
proof -
  have sum: "k' = ks \<or> k' = ks'"
    if "run_map (\<lambda>r. case r of Inl e \<Rightarrow> (Inl e, ks) | Inr x \<Rightarrow> (Inr x, ks')) m = Done (r', k')"
    for m :: "('x + 'y) run" and ks ks' k' r'
  proof (cases m)
    case (Done x)
    with that show ?thesis by (cases x) auto
  qed (use that in simp)
  define f where "f = map_aps_header secured_header frame"
  show ?thesis
  proof (cases "find (encryption_key_for dest) keys")
    case None
    with assms show ?thesis by (simp add: encrypt_aps_frame_def)
  next
    case (Some kp)
    with assms obtain rk where rk: "aps_frame_key C f (dk_link_key kp) = Done rk"
      by (auto simp: encrypt_aps_frame_def Let_def f_def [symmetric] run_bind_Done_iff)
    show ?thesis
    proof (cases rk)
      case (Inl e)
      with assms Some rk show ?thesis by (simp add: encrypt_aps_frame_def Let_def f_def [symmetric])
    next
      case (Inr x)
      show ?thesis
      proof (cases "dk_outgoing_frame_counter kp = - 1")
        case True
        with assms Some rk Inr show ?thesis
          by (cases x) (simp add: encrypt_aps_frame_def Let_def f_def [symmetric])
      next
        case False
        show ?thesis
          using assms Some rk Inr False
          by (cases x, cases f) (auto simp: encrypt_aps_frame_def Let_def f_def [symmetric] simp del: write_with.simps
              dest!: sum split: sum.splits prod.splits)
      qed
    qed
  qed
qed

lemma keeps_link_state_sends [keeps_rules]:
  assumes "respected P"
  shows "keeps (link_state v b bt P) (aps_cmd_transfer E A mode cf n opts)"
    and "keeps (link_state v b bt P) (with_nwk (find_nwk_addr e))"
    and "keeps (link_state v b bt P) (with_nwk (find_ext_addr x))"
    and "keeps (link_state v b bt P) (aps_transfer E A mode f n al radius opts c)"
proof -
  have nwk: "keeps (link_state v b bt P) (with_nwk m)" if "keeps (\<lambda>s. identity s = v) m" for m :: "'z act"
  proof (rule keepsI)
    fix a r a'
    assume I: "link_state v b bt P a" and "with_nwk m a = Done (r, a')"
    then obtain n where n: "m (as_nwk a) = Done (r, n)" and a': "a' = a\<lparr> as_nwk := n \<rparr>"
      by (auto simp: with_nwk_within nwk_part.within_Done)
    from keepsD [OF that _ n] I have "identity n = v" by (simp add: link_state_def)
    with I a' show "link_state v b bt P a'" by (simp add: link_state_def)
  qed
  show find: "keeps (link_state v b bt P) (with_nwk (find_nwk_addr e))"
    "keeps (link_state v b bt P) (with_nwk (find_ext_addr x))" for e x
    by (rule nwk, rule keeps_rules)+
  have bump: "\<exists>d'. ks = [d'] \<and> P d'" if "ks = [d] \<or> ks = update_first p bump_link_key [d]" "P d" for ks d p
    using that assms by (auto simp: respected_def bump_link_key_def)
  have enc: "keeps (link_state v b bt P) (aps_encrypt E A f x opts buf)" for f x opts buf
    by (rule keepsI) (auto simp: aps_encrypt_def run_simps link_state_def dest!: encrypt_aps_keys intro: bump)
  have counter: "keeps (link_state v b bt P) get_aps_counter"
    by (auto simp: keeps_def get_aps_counter_def link_state_def)
  have bytes: "keeps (link_state v b bt P) (aps_frame_bytes E A f n opts)" for f n opts
    unfolding aps_frame_bytes_def Let_def by (intro keeps_rules find enc)
  have sent: "keeps (link_state v b bt P) (with_nwk (transmit_data_frame E mode bs c))" for bs c
    by (rule nwk) (rule keeps_rules)
  show transfer: "keeps (link_state v b bt P) (aps_transfer E A mode f n al radius opts c)" for f n al radius opts c
    unfolding aps_transfer_def Let_def by (intro keeps_rules bytes sent)
  show "keeps (link_state v b bt P) (aps_cmd_transfer E A mode cf n opts)"
    unfolding aps_cmd_transfer_def by (intro keeps_rules counter transfer)
qed

lemma keeps_link_state_security [keeps_rules]:
  assumes "respected P"
  shows "keeps (link_state v b bt P) (aps_request_key E A mode dest kt)"
    and "keeps (link_state v b bt P) (verify_key E A mode)"
  unfolding aps_request_key_def send_apsme_security_command_def verify_key_def sap_result_def
  by (intro keeps_rules assms)+

end
