(* ===== verification/Zdo_Safety.thy ===== *)
theory Zdo_Safety
  imports Zdo Zdp_Services Aps_Invariants
begin

text \<open>
  What the life of a node comes to: what joining leaves alone, what is in the storage of a node, and
  what a restart finds there.
\<close>

section \<open>What joining leaves alone\<close>

lemma keeps_params [keeps_rules]:
  "(\<And>tc. p = Centralized tc \<Longrightarrow> keeps I (f tc)) \<Longrightarrow> keeps I m \<Longrightarrow>
     keeps I (case p of Centralized tc \<Rightarrow> f tc | Distributed \<Rightarrow> m)"
  by (cases p) simp_all

lemma keeps_fixed_waits [keeps_rules]:
  "keeps (\<lambda>s. fixed s = v) (node_wait N R eval)" "keeps (\<lambda>s. fixed s = v) (node_leave N rj)"
  by (simp_all add: node_wait_def node_leave_def keeps_rules)

lemma keeps_fixed_keys [keeps_rules]:
  "keeps (\<lambda>s. fixed s = v) (wait_for_nwk_key N)" "keeps (\<lambda>s. fixed s = v) (exchange_link_key N)"
  unfolding wait_for_nwk_key_def exchange_link_key_def update_trust_center_link_key_def
  by (intro keeps_rules)+

lemma permit_fixed [loop_rules]: "lp_keeps (\<lambda>s. fixed s = v) (emit_permit_joining_req N req dst)"
  unfolding emit_permit_joining_req_def by (intro loop_rules keeps_rules)

lemma annce_fixed [loop_rules]: "lp_keeps (\<lambda>s. fixed s = v) (emit_device_annce N)"
  unfolding emit_device_annce_def by (intro loop_rules keeps_rules)

lemma authenticate_fixed: "lp_keeps (\<lambda>s. fixed s = v) (authenticate N)"
  unfolding authenticate_def by (intro loop_rules keeps_rules)

section \<open>The storage\<close>

definition clear_nwk :: "node_env \<Rightarrow> storage \<Rightarrow> storage" where
  "clear_nwk N g = g\<lparr> st_nwk := dr_clear (ne_driver N) (st_nwk g) \<rparr>"

lemma authenticate_result:
  assumes "try_authenticate N s = Some (Done r)"
  shows "case r of Inr s' \<Rightarrow> fixed s' = fixed s \<and> authenticate N s = Some (Done (True, s'))
    | Inl u \<Rightarrow> un_storage u = clear_nwk N (nd_storage s) \<and> un_config u = nd_config s \<and>
        un_applications u = nd_applications s"
proof -
  from assms obtain ok s' where auth: "authenticate N s = Some (Done (ok, s'))"
    and r: "(if ok then Done (Inr s') else run_map Inl (to_unjoined N s')) = Done r"
    by (auto simp: try_authenticate_def run_simps split: prod.splits)
  have "fixed s' = fixed s"
    using authenticate_fixed [of "fixed s" N] auth unfolding lp_keeps_def by blast
  with r auth show ?thesis
    by (cases ok) (auto simp: to_unjoined_def run_simps clear_nwk_region_def clear_nwk_def node_left_def fixed_def)
qed

text \<open>What an attempt to join comes to, from one set of channels or from both.\<close>

definition unchanged :: "node_env \<Rightarrow> unjoined_node \<Rightarrow> unjoined_node \<Rightarrow> bool" where
  "unchanged N u u' \<longleftrightarrow> un_config u' = un_config u \<and> un_applications u' = un_applications u \<and>
     (\<exists>k. un_storage u' = (clear_nwk N ^^ k) (un_storage u))"

lemma unchanged_refl: "unchanged N u (u\<lparr> un_nwk := n \<rparr>)" "unchanged N u u"
  by (auto simp: unchanged_def intro: exI [of _ "0 :: nat"])

lemma unchanged_clear:
  "un_storage u' = clear_nwk N (un_storage u) \<Longrightarrow> un_config u' = un_config u \<Longrightarrow>
     un_applications u' = un_applications u \<Longrightarrow> unchanged N u u'"
  by (auto simp: unchanged_def intro: exI [of _ "1 :: nat"])

lemma unchanged_trans: "unchanged N u u1 \<Longrightarrow> unchanged N u1 u2 \<Longrightarrow> unchanged N u u2"
  by (auto simp: unchanged_def funpow_add [THEN fun_cong, simplified comp_apply, symmetric])

definition steered :: "node_env \<Rightarrow> unjoined_node \<Rightarrow> unjoined_node + joined_node \<Rightarrow> bool" where
  "steered N u r \<longleftrightarrow> (case r of
     Inr s \<Rightarrow> (\<exists>u' m mode n. unchanged N u u' \<and>
         join_on_channels N (get_capabilities (un_config u)) m (un_nwk u') = Done (Some mode, n) \<and>
         authenticate N (node_joined N u' mode n) = Some (Done (True, s)))
   | Inl u' \<Rightarrow> unchanged N u u')"

lemma try_join_steered:
  assumes "try_join_for_channels N m u = Some (Done r)"
  shows "steered N u r"
proof (cases "join_on_channels N (get_capabilities (un_config u)) m (un_nwk u)")
  case (Done p)
  obtain j n where p: "p = (j, n)" by (cases p)
  show ?thesis
  proof (cases j)
    case None
    with assms Done p show ?thesis
      by (auto simp: try_join_for_channels_def steered_def unchanged_refl)
  next
    case (Some mode)
    with assms Done p have auth: "try_authenticate N (node_joined N u mode n) = Some (Done r)"
      by (simp add: try_join_for_channels_def)
    show ?thesis
    proof (cases r)
      case (Inl u')
      with authenticate_result [OF auth] show ?thesis
        by (simp add: steered_def node_joined_def unchanged_clear)
    next
      case (Inr s)
      with authenticate_result [OF auth] have "authenticate N (node_joined N u mode n) = Some (Done (True, s))" by simp
      with Done p Some Inr show ?thesis
        unfolding steered_def by (auto intro: unchanged_refl)
    qed
  qed
qed (use assms in \<open>simp add: try_join_for_channels_def\<close>)

lemma steered_trans:
  assumes "steered N u (Inl u1)" and "steered N u1 r"
  shows "steered N u r"
proof -
  from assms(1) have u1: "unchanged N u u1" "un_config u1 = un_config u" by (simp_all add: steered_def unchanged_def)
  show ?thesis
  proof (cases r)
    case (Inr s)
    with assms(2) u1 show ?thesis unfolding steered_def by (auto intro: unchanged_trans)
  qed (use assms(2) u1 in \<open>auto simp: steered_def intro: unchanged_trans\<close>)
qed

lemma steering_steered:
  assumes "network_steering N u = Some (Done r)"
  shows "steered N u r"
proof (cases "try_join_for_channels N (zf_primary_channel_set (un_config u)) u")
  case (Some x)
  show ?thesis
  proof (cases x)
    case (Done q)
    show ?thesis
    proof (cases q)
      case (Inl u1)
      with assms Some Done have "try_join_for_channels N (zf_secondary_channel_set (un_config u)) u1 = Some (Done r)"
        by (simp add: network_steering_def Let_def)
      from try_join_steered [OF this] try_join_steered [OF Some [unfolded Done Inl]] show ?thesis
        by (rule steered_trans [rotated])
    next
      case (Inr s)
      with assms Some Done have "r = q" by (simp add: network_steering_def Let_def)
      with try_join_steered [OF Some [unfolded Done]] show ?thesis by simp
    qed
  qed (use assms Some in \<open>simp add: network_steering_def Let_def\<close>)
qed (use assms in \<open>simp add: network_steering_def Let_def\<close>)

section \<open>A restart\<close>

text \<open>A region from which no network context can be read.\<close>

definition unreadable :: "node_env \<Rightarrow> bytes \<Rightarrow> bool" where
  "unreadable N b \<longleftrightarrow> (case dr_load (ne_driver N) b of Inl _ \<Rightarrow> True
     | Inr buf \<Rightarrow> (case ne_read_nwk N buf of Inl _ \<Rightarrow> True | Inr _ \<Rightarrow> False))"

definition leaves_storage :: "zcl_services \<Rightarrow> bool" where
  "leaves_storage Z \<longleftrightarrow> (\<forall>v. (\<forall>ep ind. lp_keeps (\<lambda>s. nd_storage s = v) (zs_command Z ep ind)) \<and>
     lp_keeps (\<lambda>s. nd_storage s = v) (zs_reports Z))"

lemma initialize_unreadable:
  assumes "unreadable N (st_nwk stg)"
  shows "\<exists>v. initialize (N\<lparr> ne_env := E \<rparr>) cfg apps stg mac = Some (Done (Unjoined v)) \<and> un_storage v = stg"
  using assms
  by (auto simp: unreadable_def initialize_def Let_def nwk_load_def split: sum.splits)

lemma fixed_storage: "lp_keeps (\<lambda>s. fixed s = v) m \<Longrightarrow> fixed s = v \<Longrightarrow> m s = Some (Done (x, s')) \<Longrightarrow> fixed s' = fixed s"
  unfolding lp_keeps_def by blast

lemma listen_step_storage:
  assumes "leaves_storage Z"
  shows "lp_keeps (\<lambda>s. nd_storage s = v) (node_listen_step N Z rf)"
proof -
  have zdp: "lp_keeps (\<lambda>s. nd_storage s = v) (handle_zdp_command N ind)" for ind
    using zdp_effects by (auto simp: lp_keeps_def)
  have zcl: "lp_keeps (\<lambda>s. nd_storage s = v) (zs_command Z ep ind)" for ep ind
    using assms by (simp add: leaves_storage_def)
  have aps: "keeps (\<lambda>s. nd_storage s = v) (with_aps m)" for m :: "'x aps_act"
    unfolding with_aps_def by (rule aps_part.keeps_rest) simp
  have indication: "lp_keeps (\<lambda>s. nd_storage s = v) (case i of
       Some (ApsIndData ind) \<Rightarrow> (case adi_dst ind of
           ApsNetwork _ ep \<Rightarrow> lp_bind (if ep = ZDP_ENDPOINT then handle_zdp_command N ind else zs_command Z ep ind)
             (\<lambda>_. lp_of (act_return None))
         | _ \<Rightarrow> lp_of (act_return None))
     | Some (ApsIndLeave l) \<Rightarrow> lp_of (act_return (Some l))
     | _ \<Rightarrow> lp_of (act_return None))" for i
    by (auto split: option.split aps_indication.split aps_address.split intro!: loop_rules keeps_rules zdp zcl)
  show ?thesis
    unfolding node_listen_step_def by (intro loop_rules keeps_rules aps indication)
qed

lemma listen_step_same:
  assumes "leaves_storage Z" and "node_listen_step N Z rf s = Some (Done (l, s'))"
  shows "nd_storage s' = nd_storage s"
  using listen_step_storage [OF assms(1), of "nd_storage s" N rf] assms(2) unfolding lp_keeps_def by blast

lemma listen_step_leaves:
  assumes "node_listen_step N Z rf s = Some (Done (Some l, s'))"
  shows "\<exists>rj. l = LeaveSelf rj"
proof -
  from assms obtain i a1 s1 where
    step: "listen_aps_step (ne_env N) (ne_radio N) (ne_aps N) (nd_mode s) rf (nd_aps s) = Done (i, a1)" and
    rest: "(case i of
       Some (ApsIndData ind) \<Rightarrow> (case adi_dst ind of
           ApsNetwork _ ep \<Rightarrow> lp_bind (if ep = ZDP_ENDPOINT then handle_zdp_command N ind else zs_command Z ep ind)
             (\<lambda>_. lp_of (act_return None))
         | _ \<Rightarrow> lp_of (act_return None))
     | Some (ApsIndLeave l) \<Rightarrow> lp_of (act_return (Some l))
     | _ \<Rightarrow> lp_of (act_return None)) s1 = Some (Done (Some l, s'))"
    by (auto simp: node_listen_step_def act_gets_def with_aps_def act_within_def run_map_Done_iff split: run.splits)
  have "i = Some (ApsIndLeave l)"
    using rest by (auto simp: act_return_def lp_bind_Done split: option.splits aps_indication.splits aps_address.splits)
  with step listen_aps_leaves show ?thesis by blast
qed

section \<open>The life of a node\<close>

text \<open>What is true of the storage of a node that has nothing to read, and stays true.\<close>

definition nothing_stored :: "node_env \<Rightarrow> bytes \<Rightarrow> zb_node \<Rightarrow> bool" where
  "nothing_stored N b n \<longleftrightarrow> unreadable N (st_nwk (node_storage n)) \<and> st_aps (node_storage n) = b \<and>
     (\<forall>p. n \<noteq> PendingRejoin p)"

lemma unchanged_nothing_stored:
  assumes "\<And>b. unreadable N b \<Longrightarrow> unreadable N (dr_clear (ne_driver N) b)"
    and "unreadable N (st_nwk g)"
  shows "unreadable N (st_nwk ((clear_nwk N ^^ k) g)) \<and> st_aps ((clear_nwk N ^^ k) g) = st_aps g"
  using assms by (induction k) (auto simp: clear_nwk_def)

lemma steered_nothing_stored:
  assumes "\<And>b. unreadable N b \<Longrightarrow> unreadable N (dr_clear (ne_driver N) b)"
    and "steered (N\<lparr> ne_env := E \<rparr>) u r" and "nothing_stored N b (Unjoined u)"
  shows "nothing_stored N b (case r of Inl u' \<Rightarrow> Unjoined u' | Inr s \<Rightarrow> Joined s)"
proof -
  have clear: "clear_nwk (N\<lparr> ne_env := E \<rparr>) = clear_nwk N" by (simp add: clear_nwk_def fun_eq_iff)
  note stored = unchanged_nothing_stored [OF assms(1)]
  show ?thesis
  proof (cases r)
    case (Inl u')
    with assms(2,3) stored show ?thesis by (auto simp: steered_def unchanged_def clear nothing_stored_def)
  next
    case (Inr s)
    with assms(2) obtain u' mode n k where u': "un_storage u' = (clear_nwk N ^^ k) (un_storage u)"
      and auth: "authenticate (N\<lparr> ne_env := E \<rparr>) (node_joined (N\<lparr> ne_env := E \<rparr>) u' mode n) = Some (Done (True, s))"
      by (auto simp: steered_def unchanged_def clear)
    have "nd_storage s = un_storage u'"
      using fixed_storage [OF authenticate_fixed refl auth] by (simp add: fixed_def node_joined_def)
    with u' Inr assms(3) stored show ?thesis by (auto simp: nothing_stored_def)
  qed
qed

lemma node_step_nothing_stored:
  assumes clear: "\<And>b. unreadable N b \<Longrightarrow> unreadable N (dr_clear (ne_driver N) b)" and zcl: "leaves_storage Z"
    and "node_step N Z n n'" and "nothing_stored N b n"
  shows "nothing_stored N b n'"
  using assms(3,4)
proof (induction rule: node_step.induct)
  case (steer E u s)
  with steered_nothing_stored [OF clear steering_steered [OF steer.hyps]] show ?case by simp
next
  case (steer_fails E u u')
  with steered_nothing_stored [OF clear steering_steered [OF steer_fails.hyps]] show ?case by simp
next
  case (rejoin E u n)
  then show ?case by (simp add: nothing_stored_def)
next
  case (receive E rf s s')
  then show ?case using listen_step_same [OF zcl receive.hyps] by (simp add: nothing_stored_def)
next
  case (leave E rf s l s' n)
  note same = listen_step_same [OF zcl leave.hyps(1)]
  from listen_step_leaves [OF leave.hyps(1)] obtain rj where "l = LeaveSelf rj" by blast
  with leave.hyps(2) obtain q where "n = Unjoined (clear_nwk_region N (node_left s' q))"
    by (auto simp: after_leave_def to_unjoined_def run_simps clear_nwk_region_def)
  then show ?case
    using same leave.prems clear by (simp add: clear_nwk_region_def node_left_def nothing_stored_def)
next
  case (report s s')
  have "lp_keeps (\<lambda>t. nd_storage t = nd_storage s) (zs_reports Z)" using zcl by (simp add: leaves_storage_def)
  with report.hyps have "nd_storage s' = nd_storage s" unfolding lp_keeps_def by blast
  with report.prems show ?case by (simp add: nothing_stored_def)
next
  case (restart E cfg apps m mac n)
  then show ?case
    using initialize_unreadable [of N "node_storage m" E cfg apps mac] by (auto simp: nothing_stored_def)
qed

lemma node_reach_nothing_stored:
  assumes "\<And>b. unreadable N b \<Longrightarrow> unreadable N (dr_clear (ne_driver N) b)" and "leaves_storage Z"
    and "node_reach N Z m n" and "nothing_stored N b m"
  shows "nothing_stored N b n"
  using assms(3,4) by induction (auto intro: node_step_nothing_stored [OF assms(1,2)])

end
