(* ===== verification/Nwk_Listen.thy ===== *)
theory Nwk_Listen
  imports Nwk_Machine
begin

text \<open>
  What a device hears: the check of incoming frames, the loop of \<open>listen_nwk\<close>, and a data frame from the
  transmission at the sender to the indication at the receiver.
\<close>

section \<open>Incoming frames\<close>

text \<open>When a frame is let through, on an own address \<open>slf\<close>.\<close>

definition admitted :: "security_level \<Rightarrow> nwk_addr \<Rightarrow> bool \<Rightarrow> nwk_frame \<Rightarrow> bool" where
  "admitted level slf authorized f \<longleftrightarrow>
     is_secured f \<or> level = SecNone \<or>
     (case f of
        Data _ \<Rightarrow> \<not> authorized
      | NwkCommand c \<Rightarrow>
          (case cf_command c of
             RejoinRequest _ \<Rightarrow> nh_destination (cf_header c) = slf
           | RejoinResponse _ \<Rightarrow> True
           | _ \<Rightarrow> authorized)
      | _ \<Rightarrow> authorized)"

lemma security_check_admits:
  assumes "ms_short_address (nk_mac s) = Some slf"
  shows "frame_passes_security_check authorized f s =
    Done (admitted (nwk_security_level (profile_params s)) slf authorized f, s)"
  using assms
  by (auto simp: frame_passes_security_check_def admitted_def act_defs get_addr_def unwrap_run_def is_data_def
      split: nwk_frame.splits command.splits)

definition with_source :: "nwk_header \<Rightarrow> addr_map \<Rightarrow> addr_map" where
  "with_source h m = (case nh_source_ieee h of None \<Rightarrow> m | Some e \<Rightarrow> am_insert (nh_source h) e m)"

definition note_source :: "nwk_header \<Rightarrow> nwk \<Rightarrow> nwk" where
  "note_source h s = s\<lparr> nk_ctx := (nk_ctx s)\<lparr> cx_addr_map := with_source h (cx_addr_map (nk_ctx s)) \<rparr> \<rparr>"

definition hop :: "nwk_frame \<Rightarrow> nwk_frame" where
  "hop f = map_frame_header (nh_radius_update (\<lambda>_. nh_radius (frame_header f) - 1)) f"

lemma process_incoming_decrypted:
  assumes "ms_short_address (nk_mac s) = Some slf"
    and "nwk_decrypt_frame E (mi_payload ind) s = Done (Inr (f, sec), s)"
  shows "process_incoming_indication E ind authorized s =
    (if nh_radius (frame_header f) = 0 then Panic
     else Done (if admitted (nwk_security_level (profile_params s)) slf authorized (hop f)
       then Some (hop f, sec) else None, note_source (frame_header f) s))"
proof -
  let ?s = "note_source (frame_header f) s"
  have addr: "ms_short_address (nk_mac ?s) = Some slf" and level: "profile_params ?s = profile_params s"
    using assms(1) by (simp_all add: note_source_def profile_params_def)
  have sub: "chk_sub r 1 = (if r = 0 then Panic else Done (r - 1))" for r :: u8
    by (simp add: chk_sub_def word_le_nat_alt) (simp add: unat_eq_0 [symmetric] Suc_le_eq)
  show ?thesis
    using assms(2) security_check_admits [OF addr] level
    by (cases "nh_source_ieee (frame_header f)")
      (simp_all add: process_incoming_indication_def act_bind_def act_run_def act_then_def sub Let_def hop_def
        act_return_def note_source_def with_source_def addr_map_update_def ctx_update_def act_modify_def)
qed

section \<open>What decryption vouches for\<close>

text \<open>A key of the device accepted the frame.\<close>

definition vouched :: "env \<Rightarrow> security_material list \<Rightarrow> bool" where
  "vouched E keys \<longleftrightarrow> (\<exists>sm\<in>set keys. \<exists>aad data tag nonce p.
     decrypt_in_place (ev_crypto E) (sm_key sm) aad data tag nonce = Inr p)"

lemma read_frame_body_header: "read_frame_body D hdr bs = Inr (f, n) \<Longrightarrow> frame_header f = hdr"
  by (auto simp: read_frame_body_def Let_def run_simps split: frame_type.splits if_splits)

lemma parse_error_Inr [simp]: "parse_error r = Inr x \<longleftrightarrow> r = Inr x"
  by (cases r) (auto simp: parse_error_def)

lemma decrypt_frame_flag:
  assumes "decrypt_frame C W D level keys buf = Done (Inr (f, sec))"
  shows "sec \<longleftrightarrow> is_secured f"
    and "sec \<Longrightarrow> \<exists>sm\<in>set keys. \<exists>aad data tag nonce p. decrypt_in_place C (sm_key sm) aad data tag nonce = Inr p"
proof -
  have bindE: "P" if "run_bind m g = Done y" "\<And>x. m = Done x \<Longrightarrow> g x = Done y \<Longrightarrow> P" for m g y P
    using that by (cases m) auto
  show "sec \<longleftrightarrow> is_secured f"
    using assms unfolding decrypt_frame_def Let_def
    by (auto simp: is_secured_def dest!: read_frame_body_header elim!: bindE
      split: sum.split_asm if_split_asm option.split_asm prod.split_asm)
  show "\<exists>sm\<in>set keys. \<exists>aad data tag nonce p. decrypt_in_place C (sm_key sm) aad data tag nonce = Inr p" if sec
    using assms that unfolding decrypt_frame_def Let_def
    by (auto simp: find_material_def bind_eq_Some_conv dest!: find_Some_prop elim!: bindE
      split: sum.split_asm if_split_asm option.split_asm prod.split_asm) blast+
qed

lemma nwk_decrypt_Done:
  "nwk_decrypt_frame E p s = Done (r, s') \<longleftrightarrow> s' = s \<and>
     decrypt_frame (ev_crypto E) (ev_wire E) (ev_codecs E) (nwk_security_level (profile_params s))
       (cx_security_material_set (nk_ctx s)) p = Done r"
  by (auto simp: nwk_decrypt_frame_def act_bind_Done act_gets_def act_run_def run_map_Done_iff)

lemma process_incoming_Some:
  assumes "process_incoming_indication E ind authorized s = Done (Some (f', sec), s')"
    and "ms_short_address (nk_mac s) = Some slf"
  obtains f where "f' = hop f" and "nh_radius (frame_header f) \<noteq> 0" and "s' = note_source (frame_header f) s"
    and "decrypt_frame (ev_crypto E) (ev_wire E) (ev_codecs E) (nwk_security_level (profile_params s))
       (cx_security_material_set (nk_ctx s)) (mi_payload ind) = Done (Inr (f, sec))"
    and "admitted (nwk_security_level (profile_params s)) slf authorized (hop f)"
proof -
  from assms(1) obtain q where "nwk_decrypt_frame E (mi_payload ind) s = Done (q, s)"
    by (auto simp: process_incoming_indication_def act_bind_Done nwk_decrypt_Done)
  moreover from this assms(1) obtain f sec' where "q = Inr (f, sec')"
    by (cases q) (auto simp: process_incoming_indication_def act_bind_def act_return_def)
  ultimately have q: "nwk_decrypt_frame E (mi_payload ind) s = Done (Inr (f, sec'), s)" by simp
  from process_incoming_decrypted [OF assms(2) q, of authorized] assms(1) q that show ?thesis
    by (auto simp: nwk_decrypt_Done split: if_splits)
qed

text \<open>The destinations that a device passes up.\<close>

definition meant_for :: "nwk_mode \<Rightarrow> nwk \<Rightarrow> data_frame \<Rightarrow> bool" where
  "meant_for mode s d \<longleftrightarrow>
     (if fc_multicast (nh_control (df_header d)) then df_destination d \<in> set (cx_group_table (nk_ctx s))
      else ms_short_address (nk_mac s) = Some (df_destination d) \<or> df_destination d = BROADCAST_ALL) \<or>
     is_routing mode \<and> (df_destination d = BROADCAST_RX_ON_IDLE \<and> ms_rx_on_when_idle (nk_mac s) \<or>
       df_destination d = BROADCAST_ROUTERS)"

lemma matches_end_device_Done:
  "frame_matches_self_end_device d s = Done (m, s') \<Longrightarrow> s' = s \<and> (m \<longrightarrow> meant_for mode s d)"
  by (auto simp: frame_matches_self_end_device_def meant_for_def act_bind_Done act_gets_def act_return_def
      get_addr_def act_run_def unwrap_run_def split: if_splits option.splits)

lemma matches_router_Done:
  "frame_matches_self_router d s = Done (m, s') \<Longrightarrow> is_routing mode \<Longrightarrow> s' = s \<and> (m \<longrightarrow> meant_for mode s d)"
  by (auto simp: frame_matches_self_router_def act_bind_Done act_gets_def act_return_def meant_for_def
      dest!: matches_end_device_Done [where mode = mode] split: if_splits)

lemma commands_indicate_no_data:
  "handle_router_command E src lqi h c s = Done (Some (IndData di), s') \<Longrightarrow> False"
  "handle_end_device_commands E src lqi h c s = Done (Some (IndData di), s') \<Longrightarrow> False"
proof -
  show "handle_router_command E src lqi h c s = Done (Some (IndData di), s') \<Longrightarrow> False"
    by (cases c; auto simp: handle_router_command_def act_then_def act_return_def elim!: act_bindE
      split: if_split_asm sum.split_asm option.split_asm)
  show "handle_end_device_commands E src lqi h c s = Done (Some (IndData di), s') \<Longrightarrow> False"
    by (cases c; auto simp: handle_end_device_commands_def act_then_def act_return_def elim!: act_bindE)
qed

lemma indicate_own_data_Done:
  "indicate_own_data d ind sec s = Done (Some (IndData di), s') \<Longrightarrow>
     IndData di = data_indication_of d ind sec \<and> s' = s \<and> meant_for mode s d"
  by (auto simp: indicate_own_data_def act_bind_Done act_return_def dest!: matches_end_device_Done [where mode = mode]
      split: if_splits)

lemma data_indicated:
  assumes "handle_mac_indication E R mode authorized (MacData ind) s = Done (Some (IndData di), s')"
  obtains d sec s1 where "process_incoming_indication E ind authorized s = Done (Some (Data d, sec), s1)"
    and "IndData di = data_indication_of d ind sec" and "meant_for mode s' d"
proof -
  let ?r = "\<exists>d sec s1. process_incoming_indication E ind authorized s = Done (Some (Data d, sec), s1) \<and>
    IndData di = data_indication_of d ind sec \<and> meant_for mode s' d"
  consider "is_routing mode" | "\<not> is_routing mode" "mode = JoinedAsEndDevice" | "\<not> is_routing mode" "mode \<noteq> JoinedAsEndDevice" by blast
  then have ?r
  proof cases
    case 1
    with assms show ?thesis
      by (auto simp: handle_mac_indication_def handle_data_indication_def act_then_def act_return_def elim!: act_bindE
          dest!: matches_router_Done [OF _ 1] commands_indicate_no_data
          split: option.split_asm if_split_asm nwk_frame.split_asm prod.split_asm)
  next
    case 2
    with assms show ?thesis
      by (auto simp: handle_mac_indication_def handle_data_indication_end_device_def act_return_def elim!: act_bindE
          dest!: indicate_own_data_Done [where mode = mode] commands_indicate_no_data
          split: option.split_asm nwk_frame.split_asm prod.split_asm)
  next
    case 3
    with assms show ?thesis
      by (auto simp: handle_mac_indication_def handle_data_indication_pending_def act_return_def elim!: act_bindE
          dest!: indicate_own_data_Done [where mode = mode] split: option.split_asm nwk_frame.split_asm prod.split_asm)
  qed
  with that show ?thesis by blast
qed

section \<open>The loop that listens\<close>

text \<open>The state after \<open>k\<close> rounds that gave no indication.\<close>

fun idle_rounds ::
  "(nat \<Rightarrow> env) \<Rightarrow> radio \<Rightarrow> nwk_mode \<Rightarrow> bool \<Rightarrow> (nat \<Rightarrow> received_mac_frame) \<Rightarrow> nat \<Rightarrow> nat \<Rightarrow> nwk \<Rightarrow> nwk option" where
  "idle_rounds E R mode a rfs 0 n s = Some s"
| "idle_rounds E R mode a rfs (Suc k) n s =
     (case listen_step (E n) R mode a (rfs n) s of
        Done (None, s') \<Rightarrow> idle_rounds E R mode a rfs k (Suc n) s' | _ \<Rightarrow> None)"

lemma listen_after_idle:
  "idle_rounds E R mode a rfs k n s = Some s1 \<Longrightarrow>
     listen_nwk E R mode a rfs n s = listen_nwk E R mode a rfs (n + k) s1"
proof (induction k arbitrary: n s)
  case (Suc k)
  then obtain s2 where "listen_step (E n) R mode a (rfs n) s = Done (None, s2)"
    "idle_rounds E R mode a rfs k (Suc n) s2 = Some s1"
    by (auto split: run.split_asm prod.split_asm option.split_asm)
  with Suc.IH show ?case by (subst listen_nwk.simps) simp
qed simp

text \<open>How a loop ends: some rounds without an indication, then one with an indication or a panic.\<close>

definition listened ::
  "(nat \<Rightarrow> env) \<Rightarrow> radio \<Rightarrow> nwk_mode \<Rightarrow> bool \<Rightarrow> (nat \<Rightarrow> received_mac_frame) \<Rightarrow> nat \<Rightarrow> nwk \<Rightarrow>
   (nwk_indication \<times> nwk) run \<Rightarrow> bool" where
  "listened E R mode a rfs n s res \<longleftrightarrow> (\<exists>k s1. idle_rounds E R mode a rfs k n s = Some s1 \<and>
     (case listen_step (E (n + k)) R mode a (rfs (n + k)) s1 of
        Panic \<Rightarrow> res = Panic | Done (r, s') \<Rightarrow> \<exists>i. r = Some i \<and> res = Done (i, s')))"

lemma listenedI:
  "(case listen_step (E n) R mode a (rfs n) s of
      Panic \<Rightarrow> res = Panic | Done (r, s') \<Rightarrow> \<exists>i. r = Some i \<and> res = Done (i, s')) \<Longrightarrow> listened E R mode a rfs n s res"
  unfolding listened_def by (rule exI [of _ 0]) simp

lemma listened_Suc:
  assumes "listen_step (E n) R mode a (rfs n) s = Done (None, s2)" and "listened E R mode a rfs (Suc n) s2 res"
  shows "listened E R mode a rfs n s res"
proof -
  from assms(2) obtain k s1 where "idle_rounds E R mode a rfs k (Suc n) s2 = Some s1"
    "case listen_step (E (Suc n + k)) R mode a (rfs (Suc n + k)) s1 of
       Panic \<Rightarrow> res = Panic | Done (r, s') \<Rightarrow> \<exists>i. r = Some i \<and> res = Done (i, s')"
    unfolding listened_def by blast
  with assms(1) show ?thesis unfolding listened_def by (intro exI [of _ "Suc k"]) simp
qed

lemma listen_returned:
  assumes "listen_nwk E R mode a rfs n s = Some res"
  shows "listened E R mode a rfs n s res"
proof (rule listen_nwk.raw_induct [where P = listened, OF _ assms])
  fix listen E R mode a rfs n s res
  assume IH: "\<And>E R mode a rfs n s res. listen E R mode a rfs n s = Some res \<Longrightarrow> listened E R mode a rfs n s res"
    and step: "(case listen_step (E n) R mode a (rfs n) s of
      Panic \<Rightarrow> Some Panic
    | Done (r, s') \<Rightarrow>
        (case r of Some i \<Rightarrow> Some (Done (i, s')) | None \<Rightarrow> listen E R mode a rfs (Suc n) s')) = Some res"
  show "listened E R mode a rfs n s res"
  proof (cases "listen_step (E n) R mode a (rfs n) s")
    case Panic
    with step show ?thesis by (intro listenedI) auto
  next
    case (Done x)
    obtain r s2 where x: "x = (r, s2)" by fastforce
    show ?thesis
    proof (cases r)
      case None
      from Done x None have round: "listen_step (E n) R mode a (rfs n) s = Done (None, s2)" by simp
      with step have "listen E R mode a rfs (Suc n) s2 = Some res" by simp
      with IH have "listened E R mode a rfs (Suc n) s2 res" .
      with round show ?thesis by (rule listened_Suc)
    qed (use step Done x in \<open>auto intro!: listenedI\<close>)
  qed
qed

text \<open>Frames that the MAC filters out leave the device as it is.\<close>

lemma foreign_idle:
  assumes "\<And>m. n \<le> m \<Longrightarrow> m < n + k \<Longrightarrow> filter_frame (nk_mac s) (rfs m) = None"
  shows "idle_rounds E R mode a rfs k n s = Some s"
  using assms
proof (induction k arbitrary: n)
  case (Suc k)
  then have "filter_frame (nk_mac s) (rfs n) = None" by simp
  then have "listen_step (E n) R mode a (rfs n) s = Done (None, s)"
    by (simp add: listen_step_def poll_frame_def act_gets_bind act_return_def)
  with Suc show ?case by simp
qed simp

section \<open>Properties\<close>

text \<open>\<open>listen_nwk\<close> returns exactly when, after some number of rounds that gave no indication, a
  round gives one or panics, and then with the result of that round; on a stream of frames that never
  gives an indication it does not return.\<close>
theorem listen_nwk_returns_iff:
  "listen_nwk E R mode a rfs n s = Some res \<longleftrightarrow>
     (\<exists>k s1. idle_rounds E R mode a rfs k n s = Some s1 \<and>
       (case listen_step (E (n + k)) R mode a (rfs (n + k)) s1 of
          Panic \<Rightarrow> res = Panic | Done (r, s') \<Rightarrow> \<exists>i. r = Some i \<and> res = Done (i, s')))"
    (is "?l = ?r")
proof
  assume ?r
  then obtain k s1 where idle: "idle_rounds E R mode a rfs k n s = Some s1" and
    last: "case listen_step (E (n + k)) R mode a (rfs (n + k)) s1 of
          Panic \<Rightarrow> res = Panic | Done (r, s') \<Rightarrow> \<exists>i. r = Some i \<and> res = Done (i, s')" by blast
  from last show ?l
    unfolding listen_after_idle [OF idle] by (subst listen_nwk.simps) (auto split: run.splits)
qed (use listen_returned in \<open>simp add: listened_def\<close>)

text \<open>A device with the address that the frame of the other witnesses is sent to.\<close>

definition recv_std :: nwk where
  "recv_std = nwk_std\<lparr> nk_mac := (nk_mac nwk_std)\<lparr> ms_short_address := Some 0x1234 \<rparr> \<rparr>"

definition mac_data_std :: "pan_id \<Rightarrow> bytes \<Rightarrow> received_mac_frame" where
  "mac_data_std pan p = \<lparr> rf_channel = Channel11, rf_frame = \<lparr> mf_type = MacDataFrame,
     mf_destination = Some (MacShort pan 0x1234), mf_source = Some (MacShort pan 0x1001),
     mf_has_security = False, mf_content = DataContent, mf_payload = p \<rparr>, rf_lqi = 200 \<rparr>"

definition ind_std :: "bytes \<Rightarrow> mcps_indication" where
  "ind_std p = \<lparr> mi_src_address = Some (MacShort 0x1a62 0x1001), mi_dest_address = Some (MacShort 0x1a62 0x1234),
     mi_link_quality = 200, mi_payload = p \<rparr>"

lemma recv_std_simps:
  "ms_short_address (nk_mac recv_std) = Some 0x1234" "profile_params recv_std = profile_params nwk_std"
  "nk_ctx recv_std = nk_ctx nwk_std"
  "filter_frame (nk_mac recv_std) (mac_data_std 0x1a62 p) = Some (MacData (ind_std p))"
  "filter_frame (nk_mac recv_std) (mac_data_std 0x77 p) = None"
  by (simp_all add: recv_std_def nwk_std_simps filter_frame_def mac_data_std_def ind_std_def profile_params_def Let_def)

definition data_frame_std :: data_frame where
  "data_frame_std = \<lparr> df_header = header_std, df_payload = [1, 2, 3] \<rparr>"

lemma data_std_frame: "data_std = Data data_frame_std"
  by (simp add: data_std_def data_frame_std_def)

lemma header_std_simps: "df_destination data_frame_std = 0x1234" "\<not> fc_multicast (nh_control (df_header data_frame_std))"
  "nh_radius (df_header data_frame_std) \<noteq> 0" "fc_security (nh_control (df_header data_frame_std))"
  by (simp_all add: data_frame_std_def df_destination_def header_std_def nwk_header_new_no_ctx_def)

text \<open>C6. Data that an authorized device passes up on a secured network was accepted by the cipher
  under a key of the device, in a frame whose security flag was set, and the destination of that frame
  is the device, a group of it, or a broadcast that its mode listens to.\<close>
theorem indicated_data_is_vouched:
  assumes "handle_mac_indication E R mode True (MacData ind) s = Done (Some (IndData di), s')"
    and "ms_short_address (nk_mac s) = Some slf"
    and "nwk_security_level (profile_params s) \<noteq> SecNone"
  shows "\<exists>d. decrypt_frame (ev_crypto E) (ev_wire E) (ev_codecs E) (nwk_security_level (profile_params s))
      (cx_security_material_set (nk_ctx s)) (mi_payload ind) = Done (Inr (Data d, True)) \<and>
    fc_security (nh_control (df_header d)) \<and> vouched E (cx_security_material_set (nk_ctx s)) \<and>
    di_security_use di \<and> di_nsdu di = df_payload d \<and> di_src_address di = nh_source (df_header d) \<and>
    meant_for mode s' d"
proof -
  from data_indicated [OF assms(1)] obtain d sec s1 where
    inc: "process_incoming_indication E ind True s = Done (Some (Data d, sec), s1)" and
    di: "IndData di = data_indication_of d ind sec" and own: "meant_for mode s' d" by metis
  from process_incoming_Some [OF inc assms(2)] obtain f where f: "Data d = hop f" and
    dec: "decrypt_frame (ev_crypto E) (ev_wire E) (ev_codecs E) (nwk_security_level (profile_params s))
      (cx_security_material_set (nk_ctx s)) (mi_payload ind) = Done (Inr (f, sec))" and
    adm: "admitted (nwk_security_level (profile_params s)) slf True (hop f)" by metis
  from f obtain d0 where f0: "f = Data d0" and d: "d = df_header_update (nh_radius_update (\<lambda>_. nh_radius (df_header d0) - 1)) d0"
    by (cases f) (auto simp: hop_def)
  have "is_secured (Data d)" using adm assms(3) f [symmetric] by (auto simp: admitted_def)
  then have secured: "fc_security (nh_control (df_header d0))" by (simp add: is_secured_def d)
  with decrypt_frame_flag [OF dec] f0 have sec: "sec" "vouched E (cx_security_material_set (nk_ctx s))"
    by (auto simp: is_secured_def vouched_def)
  have "df_destination d0 = df_destination d" "nh_control (df_header d0) = nh_control (df_header d)"
    by (simp_all add: d df_destination_def)
  with own have "meant_for mode s' d0" by (simp only: meant_for_def)
  with dec f0 secured sec di show ?thesis
    by (auto simp: data_indication_of_def Let_def d)
qed

lemma end_device_indicates:
  assumes "filter_frame (nk_mac s) rf = Some (MacData ind)"
    and "decrypt_frame (ev_crypto E) (ev_wire E) (ev_codecs E) (nwk_security_level (profile_params s))
      (cx_security_material_set (nk_ctx s)) (mi_payload ind) = Done (Inr (Data d, True))"
    and "fc_security (nh_control (df_header d))" and "nh_radius (df_header d) \<noteq> 0"
    and "ms_short_address (nk_mac s) = Some (df_destination d)" and "\<not> fc_multicast (nh_control (df_header d))"
  shows "\<exists>s'. listen_step E R JoinedAsEndDevice auth rf s = Done (Some (data_indication_of d ind True), s')"
proof -
  have "nwk_decrypt_frame E (mi_payload ind) s = Done (Inr (Data d, True), s)"
    using assms(2) by (simp add: nwk_decrypt_Done)
  from process_incoming_decrypted [OF assms(5) this, of auth] assms(3,4)
  have "process_incoming_indication E ind auth s = Done (Some (hop (Data d), True), note_source (df_header d) s)"
    by (simp add: admitted_def hop_def is_secured_def)
  then show ?thesis
    using assms(1,5,6)
    by (simp add: listen_step_def poll_frame_def act_gets_def Let_def handle_mac_indication_def is_routing_def
        handle_data_indication_end_device_def act_bind_def hop_def indicate_own_data_def act_return_def
        frame_matches_self_end_device_def get_addr_def act_run_def unwrap_run_def note_source_def df_destination_def
        data_indication_of_def)
qed

lemma sent_std: "\<exists>p. (\<exists>s'. transmit_frame env_std data_std 7 True nwk_std = Done (Inr (), s') \<and>
     nk_sent s' = [TxData 7 data_std p True]) \<and>
   decrypt_frame crypto_std wire_std codecs_std EncMic32 [sm_std] p = Done (Inr (data_std, True))"
proof -
  obtain s' where tx: "transmit_frame env_std data_std 7 True nwk_std = Done (Inr (), s')"
    using transmit_std by blast
  have "\<exists>p. nk_sent s' = nk_sent nwk_std @ [TxData 7 data_std p True] \<and> length p \<le> 116 \<and>
    decrypt_frame (ev_crypto env_std) (ev_wire env_std) (ev_codecs env_std)
      (nwk_security_level (profile_params nwk_std)) [sm_std] p = Done (Inr (data_std, True)) \<and>
    tables s' = tables nwk_std \<and> cx_security_material_set (nk_ctx s') =
      update_first (\<lambda>k. sm_key_seq_number k = cx_active_key_seq_number (nk_ctx nwk_std)) bump_counter
        (cx_security_material_set (nk_ctx nwk_std))"
    by (rule transmitted_frame_decrypts [where eh = "[0x48, 0x02]" and eb = "[]" and sm = sm_std
          and ea = "[0x2d]" and rm = sm_std, OF _ _ _ _ _ _ _ _ _ _ _ tx])
      (simp_all add: nwk_std_simps env_std_simps crypto_std_ok header_std_law data_std_facts
        is_secured_def sm_std_facts aux_std_eq aux_std_law data_std_reserved)
  with tx show ?thesis by (auto simp: nwk_std_simps env_std_simps)
qed

theorem indicated_data_is_vouched_witness:
  "\<exists>p di s'. handle_mac_indication env_std radio_std JoinedAsEndDevice True (MacData (ind_std p)) recv_std = Done (Some (IndData di), s') \<and>
     di_nsdu di = [1, 2, 3] \<and> di_security_use di"
proof -
  obtain p where dec: "decrypt_frame crypto_std wire_std codecs_std EncMic32 [sm_std] p = Done (Inr (data_std, True))"
    using sent_std by blast
  have "\<exists>s'. listen_step env_std radio_std JoinedAsEndDevice True (mac_data_std 0x1a62 p) recv_std =
      Done (Some (data_indication_of data_frame_std (ind_std p) True), s')"
    by (rule end_device_indicates)
      (simp_all add: recv_std_simps header_std_simps env_std_simps nwk_std_simps ind_std_def dec data_std_frame)
  then obtain di s' where run: "handle_mac_indication env_std radio_std JoinedAsEndDevice True (MacData (ind_std p)) recv_std = Done (Some (IndData di), s')"
    by (auto simp: listen_step_def poll_frame_def act_gets_bind recv_std_simps data_indication_of_def Let_def)
  from indicated_data_is_vouched [where slf = "0x1234", OF run] dec run show ?thesis
    by (auto simp: recv_std_simps nwk_std_simps env_std_simps ind_std_def data_std_frame data_frame_std_def)
qed

text \<open>C5. A secured data frame that a sender transmits successfully reaches the upper layer of the end
  device it is addressed to: if the device has the same key and no counter ahead of the frame's, and the
  bytes that were sent come in after frames that the MAC filters out, then \<open>listen_nwk\<close> returns, with the
  payload that was sent.\<close>
theorem end_device_receives:
  assumes C: "crypto_ok (ev_crypto E0)"
    and hdr: "codec_law (cd_write_header (ev_codecs E0)) (cd_read_header (ev_codecs E0)) (df_header d) eh"
    and body: "body_law (ev_codecs E0) (Data d) eb" "frame_type_ok (Data d)" "fc_security (nh_control (df_header d))"
    and sm: "find_material (cx_active_key_seq_number (nk_ctx t)) (cx_security_material_set (nk_ctx t)) = Some sm"
    and aux: "aux_law (ev_codecs E0) (nwk_aux_header (nwk_security_level (profile_params t)) (get_ext_addr t) sm) ea"
    and rm: "find_material (cx_active_key_seq_number (nk_ctx t)) (cx_security_material_set (nk_ctx s)) = Some rm"
      "sm_key rm = sm_key sm"
      "\<And>i. find_incoming (get_ext_addr t) rm = Some i \<Longrightarrow> ifc_counter i \<le> sm_outgoing_frame_counter sm"
    and tx: "transmit_frame E0 (Data d) dst ack t = Done (Inr (), t')"
    and env: "ev_crypto (E k) = ev_crypto E0" "ev_wire (E k) = ev_wire E0" "ev_codecs (E k) = ev_codecs E0"
      "nwk_security_level (profile_params s) = nwk_security_level (profile_params t)"
    and foreign: "\<And>m. m < k \<Longrightarrow> filter_frame (nk_mac s) (rfs m) = None"
    and arrival: "filter_frame (nk_mac s) (rfs k) = Some (MacData ind)"
      "TxData dst (Data d) (mi_payload ind) ack \<in> set (drop (length (nk_sent t)) (nk_sent t'))"
    and own: "ms_short_address (nk_mac s) = Some (df_destination d)" "\<not> fc_multicast (nh_control (df_header d))"
      "nh_radius (df_header d) \<noteq> 0"
  shows "\<exists>s'. listen_nwk E R JoinedAsEndDevice auth rfs 0 s = Some (Done (data_indication_of d ind True, s'))"
proof -
  from transmitted_frame_decrypts [OF C _ body(1,2) _ _ sm aux rm tx, of eh] hdr body(3) obtain p where
    sent: "nk_sent t' = nk_sent t @ [TxData dst (Data d) p ack]" and
    dec: "decrypt_frame (ev_crypto E0) (ev_wire E0) (ev_codecs E0) (nwk_security_level (profile_params t))
      (cx_security_material_set (nk_ctx s)) p = Done (Inr (Data d, True))"
    by (auto simp: is_secured_def is_reserved_def)
  from sent arrival(2) have p: "mi_payload ind = p" by simp
  have "idle_rounds E R JoinedAsEndDevice auth rfs k 0 s = Some s" by (rule foreign_idle) (simp add: foreign)
  moreover have "\<exists>s'. listen_step (E k) R JoinedAsEndDevice auth (rfs k) s = Done (Some (data_indication_of d ind True), s')"
    by (rule end_device_indicates [OF arrival(1) _ body(3) own(3,1,2)]) (simp add: env p dec)
  ultimately show ?thesis
    using listen_after_idle [of E R JoinedAsEndDevice auth rfs k 0 s s] by (auto simp: listen_nwk.simps [of E R JoinedAsEndDevice auth rfs k s])
qed

theorem end_device_receives_witness:
  "\<exists>p s'. listen_nwk (\<lambda>_. env_std) radio_std JoinedAsEndDevice True
     (\<lambda>n. if n = 0 then mac_data_std 0x77 [] else mac_data_std 0x1a62 p) 0 recv_std =
     Some (Done (data_indication_of data_frame_std (ind_std p) True, s'))"
proof -
  obtain p t' where tx: "transmit_frame env_std (Data data_frame_std) 7 True nwk_std = Done (Inr (), t')"
    and sent: "nk_sent t' = [TxData 7 (Data data_frame_std) p True]"
    using sent_std unfolding data_std_frame by blast
  have facts: "df_header data_frame_std = header_std" "Data data_frame_std = data_std"
    by (simp_all add: data_frame_std_def data_std_def)
  have "\<exists>s'. listen_nwk (\<lambda>_. env_std) radio_std JoinedAsEndDevice True
     (\<lambda>n. if n = 0 then mac_data_std 0x77 [] else mac_data_std 0x1a62 p) 0 recv_std =
     Some (Done (data_indication_of data_frame_std (ind_std p) True, s'))"
    by (rule end_device_receives [where eh = "[0x48, 0x02]" and eb = "[]" and sm = sm_std
          and ea = "[0x2d]" and rm = sm_std and k = 1, OF _ _ _ _ _ _ _ _ _ _ tx])
      (simp_all add: recv_std_simps nwk_std_simps env_std_simps crypto_std_ok header_std_law data_std_facts
        sm_std_facts aux_std_eq aux_std_law header_std_simps sent ind_std_def facts
        header_std_simps [unfolded facts])
  then show ?thesis by blast
qed

text \<open>C21. On a secured network the check of incoming frames lets every unsecured command through to an
  authorized device, whatever the command, except a rejoin request for another device. So an authorized
  end device obeys an unsecured leave request that names the device's parent as its source and is not
  broadcast: if it can decrement the radius and does not panic, it indicates its own leave.\<close>
theorem unsecured_leave_obeyed:
  assumes "nwk_security_level (profile_params s) \<noteq> SecNone" and "ms_short_address (nk_mac s) = Some slf"
  shows "(\<forall>c. \<not> is_secured (NwkCommand c) \<longrightarrow> frame_passes_security_check True (NwkCommand c) s =
       Done (case cf_command c of RejoinRequest _ \<Rightarrow> nh_destination (cf_header c) = slf | _ \<Rightarrow> True, s)) \<and>
    (decrypt_frame (ev_crypto E) (ev_wire E) (ev_codecs E) (nwk_security_level (profile_params s))
       (cx_security_material_set (nk_ctx s)) (mi_payload ind) = Done (Inr (NwkCommand c, False)) \<and>
     cf_command c = Leave l \<and> lv_request l \<and> nh_radius (cf_header c) \<noteq> 0 \<and>
     \<not> is_broadcast (nh_destination (cf_header c)) \<and> nh_source (cf_header c) = nb_nwk_addr (nwk_parent s) \<and>
     mi_src_address ind = Some (MacShort pan a) \<and>
     handle_mac_indication E R JoinedAsEndDevice True (MacData ind) s = Done (r, s') \<longrightarrow>
     \<not> is_secured (NwkCommand c) \<and> r = Some (IndLeave (LeaveSelf (lv_rejoin l))))"
proof (intro conjI impI)
  show "\<forall>c. \<not> is_secured (NwkCommand c) \<longrightarrow> frame_passes_security_check True (NwkCommand c) s =
       Done (case cf_command c of RejoinRequest _ \<Rightarrow> nh_destination (cf_header c) = slf | _ \<Rightarrow> True, s)"
    using security_check_admits [OF assms(2), of True] assms(1)
    by (auto simp: admitted_def split: command.splits)
  assume *: "decrypt_frame (ev_crypto E) (ev_wire E) (ev_codecs E) (nwk_security_level (profile_params s))
       (cx_security_material_set (nk_ctx s)) (mi_payload ind) = Done (Inr (NwkCommand c, False)) \<and>
     cf_command c = Leave l \<and> lv_request l \<and> nh_radius (cf_header c) \<noteq> 0 \<and>
     \<not> is_broadcast (nh_destination (cf_header c)) \<and> nh_source (cf_header c) = nb_nwk_addr (nwk_parent s) \<and>
     mi_src_address ind = Some (MacShort pan a) \<and>
     handle_mac_indication E R JoinedAsEndDevice True (MacData ind) s = Done (r, s')"
  then have dec: "decrypt_frame (ev_crypto E) (ev_wire E) (ev_codecs E) (nwk_security_level (profile_params s))
      (cx_security_material_set (nk_ctx s)) (mi_payload ind) = Done (Inr (NwkCommand c, False))"
    and leave: "cf_command c = Leave l" "lv_request l" "\<not> is_broadcast (nh_destination (cf_header c))"
      "nh_source (cf_header c) = nb_nwk_addr (nwk_parent s)" "mi_src_address ind = Some (MacShort pan a)"
      "handle_mac_indication E R JoinedAsEndDevice True (MacData ind) s = Done (r, s')"
    by blast+
  show unsecured: "\<not> is_secured (NwkCommand c)" using decrypt_frame_flag(1) [OF dec] by simp
  have "nwk_decrypt_frame E (mi_payload ind) s = Done (Inr (NwkCommand c, False), s)"
    using dec by (simp add: nwk_decrypt_Done)
  from process_incoming_decrypted [OF assms(2) this, of True] *
  have inc: "process_incoming_indication E ind True s = Done (Some (hop (NwkCommand c), False), note_source (cf_header c) s)"
    by (simp add: admitted_def hop_def)
  have parent: "nwk_parent (note_source h s) = nwk_parent s" for h by (simp add: nwk_parent_def note_source_def)
  from leave inc parent unsecured show "r = Some (IndLeave (LeaveSelf (lv_rejoin l)))"
    by (auto simp: handle_mac_indication_def is_routing_def handle_data_indication_end_device_def act_bind_def hop_def
        short_source_def handle_end_device_commands_def received_command_of_def handle_leave_request_end_device_def
        act_gets_def act_then_def act_return_def Let_def run_bind_Done_iff)
qed

definition leave_codecs_std :: codecs where
  "leave_codecs_std = codecs_std\<lparr>
     cd_read_header := (\<lambda>_. Inr (nwk_header_cmd_no_ctx False 0xffff 9 0x1234 None None 7 2, 2)),
     cd_read_command := (\<lambda>_. Inr (Leave \<lparr> lv_rejoin = True, lv_request = True, lv_remove_children = False \<rparr>, 2)) \<rparr>"

definition leave_env_std :: env where
  "leave_env_std = env_std\<lparr> ev_codecs := leave_codecs_std \<rparr>"

definition keyless_std :: nwk where
  "keyless_std = recv_std\<lparr> nk_ctx := (nk_ctx nwk_std)\<lparr> cx_security_material_set := [] \<rparr> \<rparr>"

lemma ind_std_short: "short_source (ind_std p) = Some 0x1001"
  by (simp add: short_source_def ind_std_def)

lemma keyless_simps:
  "ms_short_address (nk_mac keyless_std) = Some 0x1234" "nwk_security_level (profile_params keyless_std) = EncMic32"
  "cx_security_material_set (nk_ctx keyless_std) = []" "nwk_parent keyless_std = neighbor_default 0"
  "nwk_max_depth (profile_params keyless_std) = 15"
  by (simp_all add: keyless_std_def recv_std_def nwk_std_def nwk_context_default_def profile_params_def profile_defs
      nwk_parent_def neighbor_table_default_def neighbor_table_new_def)

text \<open>Without a key nothing is sent, and the request is obeyed all the same.\<close>

lemma keyless_emit: "\<exists>r s'. emit_leave_cmd leave_env_std l a e (note_source h keyless_std) = Done (r, s')"
proof -
  have state: "ms_short_address (nk_mac (note_source h keyless_std)) = Some 0x1234"
    "nwk_max_depth (profile_params (note_source h keyless_std)) = 15"
    "cx_security_material_set (nk_ctx (note_source h keyless_std)) = []"
    using keyless_simps by (simp_all add: note_source_def profile_params_def)
  have params: "profile_params (s\<lparr> nk_seq_number := q \<rparr>) = profile_params s" for s q by (simp add: profile_params_def)
  show ?thesis
    by (auto simp: emit_leave_cmd_def nwk_header_cmd_def nwk_header_new_def act_defs get_addr_def unwrap_run_def state
        params chk_mul_def get_next_seq_number_def transmit_frame_def build_mac_payload_def build_mac_payload_with_def
        is_secured_def is_reserved_def new_cmd_frame_def nwk_header_new_no_ctx_def make_encrypted_frame_def
        find_material_def)
qed

theorem unsecured_leave_obeyed_witness:
  "\<exists>r s'. handle_mac_indication leave_env_std radio_std JoinedAsEndDevice True (MacData (ind_std [0, 0, 0, 0])) keyless_std = Done (r, s') \<and>
     r = Some (IndLeave (LeaveSelf True))"
proof -
  let ?l = "\<lparr> lv_rejoin = True, lv_request = True, lv_remove_children = False \<rparr>"
  let ?c = "\<lparr> cf_header = nwk_header_cmd_no_ctx False 0xffff 9 0x1234 None None 7 2, cf_command = Leave ?l \<rparr>"
  have dec: "decrypt_frame (ev_crypto leave_env_std) (ev_wire leave_env_std) (ev_codecs leave_env_std)
      (nwk_security_level (profile_params keyless_std)) (cx_security_material_set (nk_ctx keyless_std))
      (mi_payload (ind_std [0, 0, 0, 0])) = Done (Inr (NwkCommand ?c, False))"
    by (simp add: leave_env_std_def leave_codecs_std_def decrypt_frame_def parse_error_def nwk_header_cmd_no_ctx_def
        nwk_header_new_no_ctx_def ind_std_def read_frame_body_def read_with_def)
  have "\<exists>r s'. handle_mac_indication leave_env_std radio_std JoinedAsEndDevice True (MacData (ind_std [0, 0, 0, 0])) keyless_std = Done (r, s')"
  proof -
    have "nwk_decrypt_frame leave_env_std (mi_payload (ind_std [0, 0, 0, 0])) keyless_std = Done (Inr (NwkCommand ?c, False), keyless_std)"
      using dec by (simp add: nwk_decrypt_Done)
    from process_incoming_decrypted [OF keyless_simps(1) this, of True]
    have inc: "process_incoming_indication leave_env_std (ind_std [0, 0, 0, 0]) True keyless_std =
        Done (Some (hop (NwkCommand ?c), False), note_source (cf_header ?c) keyless_std)"
      by (simp add: admitted_def hop_def nwk_header_cmd_no_ctx_def nwk_header_new_no_ctx_def)
    have parent: "nwk_parent (note_source h keyless_std) = neighbor_default 0" for h
      using keyless_simps(4) by (simp add: note_source_def nwk_parent_def)
    obtain r s' where "emit_leave_cmd leave_env_std \<lparr> lv_rejoin = True, lv_request = False, lv_remove_children = False \<rparr>
        (nb_nwk_addr (neighbor_default 0)) (nb_ext_addr (neighbor_default 0)) (note_source (cf_header ?c) keyless_std) = Done (r, s')"
      using keyless_emit by blast
    then show ?thesis
      by (simp add: handle_mac_indication_def is_routing_def handle_data_indication_end_device_def act_bind_def inc hop_def
          ind_std_short handle_end_device_commands_def received_command_of_def parent
          handle_leave_request_end_device_def act_gets_def act_then_def act_return_def Let_def
          nwk_header_cmd_no_ctx_def nwk_header_new_no_ctx_def is_broadcast_def neighbor_default_def nwk_addr_default_def)
  qed
  then obtain r s' where run: "handle_mac_indication leave_env_std radio_std JoinedAsEndDevice True
      (MacData (ind_std [0, 0, 0, 0])) keyless_std = Done (r, s')" by blast
  have "r = Some (IndLeave (LeaveSelf (lv_rejoin ?l)))"
    by (rule unsecured_leave_obeyed [where s = keyless_std and slf = "0x1234" and E = leave_env_std and R = radio_std
          and ind = "ind_std [0, 0, 0, 0]" and c = ?c and l = ?l and pan = "0x1a62" and a = "0x1001" and r = r
          and s' = s', THEN conjunct2, THEN mp, THEN conjunct2])
      (use dec run in \<open>simp_all add: keyless_simps nwk_header_cmd_no_ctx_def nwk_header_new_no_ctx_def is_broadcast_def
        ind_std_def neighbor_default_def nwk_addr_default_def\<close>)
  with run show ?thesis by auto
qed

end
