(* ===== verification/Nwk_Relay.thy ===== *)
theory Nwk_Relay
  imports Nwk_Listen
begin

text \<open>
  What a router relays: source-routed frames, were they read with their relays, hop by hop to their
  destination, broadcasts and multicasts only as far as the broadcast transaction table and the jitter let
  them. The source-routed frames of this code are read without their relays and get lost.
\<close>

section \<open>Source routes\<close>

text \<open>A node takes a source-routed frame and hands it on, once.\<close>

definition forwards :: "env \<times> nwk \<Rightarrow> data_frame \<Rightarrow> nwk_addr \<Rightarrow> data_frame \<Rightarrow> bool" where
  "forwards node d next d' \<longleftrightarrow> (case node of (E, s) \<Rightarrow>
     \<exists>s' p. relay_source_routing E d s = Done (Some (Inr ()), s') \<and> nk_sent s' = nk_sent s @ [TxData next (Data d') p True])"

text \<open>A frame travels from a node along the hops to its destination.\<close>

inductive travels :: "(nwk_addr \<Rightarrow> env \<times> nwk) \<Rightarrow> nwk_addr \<Rightarrow> data_frame \<Rightarrow> nwk_addr list \<Rightarrow> bool" for net where
  arrived: "df_destination d = a \<Longrightarrow> travels net a d []"
| forwarded: "forwards (net a) d b d' \<Longrightarrow> travels net b d' hops \<Longrightarrow> travels net a d (b # hops)"

text \<open>A relay that knows its own address, is not the destination, has no neighbor of its own address
  and reaches the next hop with each of the frames of the route.\<close>

definition relay_ready :: "env \<times> nwk \<Rightarrow> nwk_addr \<Rightarrow> data_frame \<Rightarrow> bool" where
  "relay_ready node a d \<longleftrightarrow> (case node of (E, s) \<Rightarrow>
     ms_short_address (nk_mac s) = Some a \<and> a \<noteq> df_destination d \<and>
     find_by_short_addr a (cx_neighbors (nk_ctx s)) = None \<and>
     (\<forall>i b. \<exists>s'. transmit_frame E (Data (set_relay_index i d)) b True s = Done (Inr (), s')))"

lemma set_relay_index_simps [simp]:
  "df_destination (set_relay_index i d) = df_destination d"
  "set_relay_index i (set_relay_index j d) = set_relay_index i d"
  "nh_source_route (df_header (set_relay_index i d)) =
     map_option (sr_relay_index_update (\<lambda>_. i)) (nh_source_route (df_header d))"
  by (cases "nh_source_route (df_header d)"; simp add: set_relay_index_def df_destination_def)+

lemma relay_ready_sends:
  assumes "relay_ready (E, s) a d"
  obtains s' p where "relay_to E (set_relay_index i d) b s = Done (Some (Inr ()), s')"
    and "nk_sent s' = nk_sent s @ [TxData b (Data (set_relay_index i d)) p True]"
proof -
  from assms obtain s' where tx: "transmit_frame E (Data (set_relay_index i d)) b True s = Done (Inr (), s')"
    by (auto simp: relay_ready_def)
  from link.ok_sends [OF tx] tx that show ?thesis
    by (auto simp: relay_to_def act_bind_def act_return_def)
qed

lemma relay_step:
  assumes "ms_short_address (nk_mac s) = Some (rs ! i)" and "rs ! i \<noteq> df_destination d"
    and "find_by_short_addr (rs ! i) (cx_neighbors (nk_ctx s)) = None"
    and "nh_source_route (df_header d) = Some sub" and "sr_relay_list sub = rs" and "i < length rs" and "i < 256"
  shows "relay_source_routing E (set_relay_index (of_nat i) d) s =
    relay_to E (set_relay_index (of_nat (i - 1)) d) (if i = 0 then df_destination d else rs ! (i - 1)) s"
proof (cases "i = 0")
  case True
  with assms show ?thesis
    by (simp add: relay_source_routing_def act_bind_def get_addr_def act_run_def unwrap_run_def)
next
  case False
  have idx: "unat (of_nat i :: u8) = i" using assms(7) by (simp add: unat_of_nat)
  from False have pred: "(of_nat (i - 1) :: u8) = of_nat i - 1" by (cases i) simp_all
  from assms False show ?thesis unfolding pred
    by (simp add: relay_source_routing_def act_bind_def get_addr_def act_run_def unwrap_run_def idx act_gets_def)
qed

lemma relay_forwards:
  assumes "relay_ready node (rs ! i) d" and "nh_source_route (df_header d) = Some sub" and "sr_relay_list sub = rs"
    and "i < length rs" and "i < 256"
  shows "forwards node (set_relay_index (of_nat i) d) (if i = 0 then df_destination d else rs ! (i - 1))
    (set_relay_index (of_nat (i - 1)) d)"
proof -
  obtain E s where node: "node = (E, s)" by fastforce
  have step: "relay_source_routing E (set_relay_index (of_nat i) d) s =
      relay_to E (set_relay_index (of_nat (i - 1)) d) (if i = 0 then df_destination d else rs ! (i - 1)) s"
    using assms by (intro relay_step) (simp_all add: relay_ready_def node)
  obtain s' p where "relay_to E (set_relay_index (of_nat (i - 1)) d)
      (if i = 0 then df_destination d else rs ! (i - 1)) s = Done (Some (Inr ()), s')"
    and "nk_sent s' = nk_sent s @ [TxData (if i = 0 then df_destination d else rs ! (i - 1))
      (Data (set_relay_index (of_nat (i - 1)) d)) p True]"
    using relay_ready_sends [OF assms(1) [unfolded node]] by blast
  then show ?thesis unfolding forwards_def node prod.case step by (intro exI conjI)
qed

lemma travels_from:
  assumes "nh_source_route (df_header d) = Some sub" and "sr_relay_list sub = rs" and "length rs \<le> 256"
    and "\<And>a. a \<in> set rs \<Longrightarrow> relay_ready (net a) a d" and "i < length rs"
  shows "travels net (rs ! i) (set_relay_index (of_nat i) d) (rev (take i rs) @ [df_destination d])"
  using assms(5)
proof (induction i)
  case 0
  with assms(3) have "forwards (net (rs ! 0)) (set_relay_index (of_nat 0) d) (df_destination d) (set_relay_index (of_nat 0) d)"
    using relay_forwards [OF assms(4) assms(1,2), of 0] by simp
  then show ?case by (auto intro!: travels.intros)
next
  case (Suc i)
  then have "forwards (net (rs ! Suc i)) (set_relay_index (of_nat (Suc i)) d) (rs ! i) (set_relay_index (of_nat i) d)"
    using relay_forwards [OF assms(4) assms(1,2), of "Suc i"] assms(3) by simp
  moreover have "rev (take (Suc i) rs) = rs ! i # rev (take i rs)" using Suc.prems by (simp add: take_Suc_conv_app_nth)
  ultimately show ?case using Suc by (auto intro: travels.forwarded)
qed

section \<open>The broadcast transaction table\<close>

definition live_transaction :: "instant \<Rightarrow> data_frame \<Rightarrow> nwk \<Rightarrow> bool" where
  "live_transaction now d s \<longleftrightarrow> (\<exists>t\<in>set (cx_broadcast_transaction_table (nk_ctx s)).
     same_transaction d t \<and> now \<le> tr_expiration_time t)"

definition with_transaction :: "env \<Rightarrow> data_frame \<Rightarrow> nwk \<Rightarrow> nwk" where
  "with_transaction E d s = s\<lparr> nk_ctx := (nk_ctx s)\<lparr> cx_broadcast_transaction_table :=
     filter (\<lambda>t. tr_expiration_time t < ev_now E) (cx_broadcast_transaction_table (nk_ctx s)) @
       [record_of E (profile_params s) d] \<rparr> \<rparr>"

lemma check_transaction:
  "check_and_update_broadcast_transaction_table E d s =
     (if live_transaction (ev_now E) d s then Done (False, s) else Done (True, with_transaction E d s))"
  by (simp add: check_and_update_broadcast_transaction_table_def live_transaction_def with_transaction_def act_defs
      btt_update_def)

lemma live_after:
  assumes "ev_now E \<le> now"
  shows "live_transaction now d' (with_transaction E d s) \<longleftrightarrow>
    same_transaction d' (record_of E (profile_params s) d) \<and> now \<le> ev_now E + broadcast_delivery_time (profile_params s)"
  using assms by (auto simp: live_transaction_def with_transaction_def record_of_def)

lemma same_record: "same_transaction d' (record_of E p d) \<longleftrightarrow>
    nh_source (df_header d') = nh_source (df_header d) \<and> nh_sequence_number (df_header d') = nh_sequence_number (df_header d)"
  by (auto simp: same_transaction_def record_of_def)

section \<open>Broadcasts and multicasts\<close>

lemma build_mac_payload_log: "build_mac_payload E f b s = Done (r, s') \<Longrightarrow> nk_sent s' = nk_sent s"
  by (auto elim!: build_mac_payload_Done)

text \<open>The jitter is drawn from an empty range: what could be built is never sent.\<close>

lemma transmit_broadcast_Done:
  "transmit_broadcast_frame E d s = Done (u, s') \<Longrightarrow>
     nk_sent s' = nk_sent s \<and> (\<exists>e. build_mac_payload E (Data d) (replicate A_MAX_MAC_PAYLOAD_SIZE 0) s = Done (Inl e, s'))"
  by (auto simp: transmit_broadcast_frame_def act_then_def act_return_def random_range_def from_octets_zero
      dest: build_mac_payload_log elim!: act_bindE split: sum.split_asm if_split_asm)

section \<open>Properties\<close>

text \<open>The relaying of source routes alone, on frames that still have their subframe: sent to the last relay of
  the list, every relay that is ready hands the frame to the one before it with the index lowered by one, and
  the first relay of the list hands it to the destination, whatever the length of the list. No frame of this
  code arrives at a relay with its subframe, see below.\<close>
theorem source_route_reaches:
  assumes "rs \<noteq> []" and "length rs \<le> 256" and "\<And>a. a \<in> set rs \<Longrightarrow> relay_ready (net a) a (with_source_route rs d)"
  shows "travels net (last rs) (with_source_route rs d) (rev (butlast rs) @ [df_destination d])"
proof -
  let ?d = "with_source_route rs d" and ?i = "length rs - 1"
  have sub: "nh_source_route (df_header ?d) = Some \<lparr> sr_relay_count = of_nat (length rs),
      sr_relay_index = of_nat ?i, sr_relay_list = rs \<rparr>" and dst: "df_destination ?d = df_destination d"
    by (simp_all add: with_source_route_def df_destination_def)
  have "set_relay_index (of_nat ?i) ?d = ?d" by (simp add: set_relay_index_def with_source_route_def)
  moreover have "take ?i rs = butlast rs" by (simp add: butlast_conv_take)
  moreover have "rs ! ?i = last rs" using assms(1) by (simp add: last_conv_nth)
  ultimately show ?thesis
    using travels_from [OF sub _ assms(2,3), of ?i] assms(1) by (simp add: dst)
qed

text \<open>A broadcast is new exactly if the table has no record of its source and sequence number that has
  not expired. The delivery time is zero, so a record only lasts for the tick it was made in: a copy that
  comes later is taken for new again. Making a record forgets the live records of the other broadcasts
  and keeps the expired ones, so the table only grows.\<close>
theorem broadcast_table_correct:
  assumes "check_and_update_broadcast_transaction_table E d s = Done (new, s1)"
  shows "(new \<longleftrightarrow> \<not> live_transaction (ev_now E) d s) \<and> (\<not> new \<longrightarrow> s1 = s) \<and>
    (new \<longrightarrow>
      (\<forall>E'. ev_now E' = ev_now E \<longrightarrow> check_and_update_broadcast_transaction_table E' d s1 = Done (False, s1)) \<and>
      (\<forall>E'. ev_now E < ev_now E' \<longrightarrow> (\<exists>s2. check_and_update_broadcast_transaction_table E' d s1 = Done (True, s2) \<and>
        length (cx_broadcast_transaction_table (nk_ctx s2)) = Suc (length (cx_broadcast_transaction_table (nk_ctx s1))))) \<and>
      (\<forall>E' d'. ev_now E \<le> ev_now E' \<and> (nh_source (df_header d') \<noteq> nh_source (df_header d) \<or>
          nh_sequence_number (df_header d') \<noteq> nh_sequence_number (df_header d)) \<longrightarrow>
        (\<exists>s2. check_and_update_broadcast_transaction_table E' d' s1 = Done (True, s2))))"
proof -
  have zero: "broadcast_delivery_time p = 0" for p by (simp add: broadcast_delivery_time_def)
  have grows: "length (cx_broadcast_transaction_table (nk_ctx (with_transaction E' d' (with_transaction E d s)))) =
      Suc (length (cx_broadcast_transaction_table (nk_ctx (with_transaction E d s))))" if "ev_now E < ev_now E'" for E' d'
  proof -
    have "filter (\<lambda>t. tr_expiration_time t < ev_now E') (filter (\<lambda>t. tr_expiration_time t < ev_now E) ts) =
        filter (\<lambda>t. tr_expiration_time t < ev_now E) ts" for ts :: "transaction_record list"
      by (rule filter_True) (use that in auto)
    then show ?thesis using that by (simp add: with_transaction_def record_of_def zero)
  qed
  from assms have new: "new \<longleftrightarrow> \<not> live_transaction (ev_now E) d s" "\<not> new \<longrightarrow> s1 = s"
    "new \<longrightarrow> s1 = with_transaction E d s"
    by (auto simp: check_transaction split: if_splits)
  have live: "live_transaction (ev_now E') d' (with_transaction E d s) \<longleftrightarrow> ev_now E' = ev_now E \<and>
      nh_source (df_header d') = nh_source (df_header d) \<and> nh_sequence_number (df_header d') = nh_sequence_number (df_header d)"
    if "ev_now E \<le> ev_now E'" for E' d'
    using that by (auto simp: live_after same_record zero)
  have "check_and_update_broadcast_transaction_table E' d (with_transaction E d s) = Done (False, with_transaction E d s)"
    if "ev_now E' = ev_now E" for E' using live [of E' d] that by (simp add: check_transaction)
  moreover have "check_and_update_broadcast_transaction_table E' d (with_transaction E d s) =
      Done (True, with_transaction E' d (with_transaction E d s))"
    if "ev_now E < ev_now E'" for E' using live [of E' d] that by (simp add: check_transaction)
  moreover have "\<exists>s2. check_and_update_broadcast_transaction_table E' d' (with_transaction E d s) = Done (True, s2)"
    if "ev_now E \<le> ev_now E' \<and> (nh_source (df_header d') \<noteq> nh_source (df_header d) \<or>
      nh_sequence_number (df_header d') \<noteq> nh_sequence_number (df_header d))" for E' d'
    using live [of E' d'] that by (auto simp: check_transaction)
  ultimately show ?thesis using new grows by metis
qed

definition unkeyed_data_std :: data_frame where
  "unkeyed_data_std = \<lparr> df_header = nwk_header_new_no_ctx DataFrame True False BROADCAST_ROUTERS None 0x2002 None None 5 7,
     df_payload = [1, 2, 3] \<rparr>"

theorem broadcast_table_correct_witness:
  "\<exists>s1. check_and_update_broadcast_transaction_table env_std unkeyed_data_std keyless_std = Done (True, s1) \<and>
     check_and_update_broadcast_transaction_table env_std unkeyed_data_std s1 = Done (False, s1) \<and>
     (\<exists>s2. check_and_update_broadcast_transaction_table (env_std\<lparr> ev_now := 1001 \<rparr>) unkeyed_data_std s1 = Done (True, s2))"
proof -
  have "\<not> live_transaction (ev_now env_std) unkeyed_data_std keyless_std"
    by (simp add: live_transaction_def keyless_std_def nwk_std_def nwk_context_default_def)
  then obtain s1 where run: "check_and_update_broadcast_transaction_table env_std unkeyed_data_std keyless_std = Done (True, s1)"
    by (simp add: check_transaction)
  from broadcast_table_correct [OF this] have
    "check_and_update_broadcast_transaction_table env_std unkeyed_data_std s1 = Done (False, s1)"
    "\<exists>s2. check_and_update_broadcast_transaction_table (env_std\<lparr> ev_now := 1001 \<rparr>) unkeyed_data_std s1 = Done (True, s2)"
    by (auto simp: env_std_simps dest: spec [of _ "env_std\<lparr> ev_now := 1001 \<rparr>"])
  with run show ?thesis by blast
qed

text \<open>C20. A router never sends a broadcast or a member-mode multicast on: when the relay returns, nothing
  was sent, and if it took the frame with radius left, the frame could not even be built; when it can be
  built, drawing the jitter panics. A multicast for another group with a non-member radius of zero panics
  before that.\<close>
theorem broadcasts_are_not_relayed:
  "(case relay_broadcast_frame E d s of Panic \<Rightarrow> True | Done (r, s') \<Rightarrow> nk_sent s' = nk_sent s \<and>
      (r \<and> 0 < nh_radius (df_header d) \<longrightarrow>
        (\<exists>s1 e. build_mac_payload E (Data d) (replicate A_MAX_MAC_PAYLOAD_SIZE 0) s1 = Done (Inl e, s')))) \<and>
   (case relay_member_mode_multicast E d s of Panic \<Rightarrow> True | Done (r, s') \<Rightarrow> nk_sent s' = nk_sent s \<and>
      (r \<longrightarrow> (\<exists>s1 e. build_mac_payload E (Data d) (replicate A_MAX_MAC_PAYLOAD_SIZE 0) s1 = Done (Inl e, s')))) \<and>
   (\<forall>mc. nh_multicast_control (df_header d) = Some mc \<and> df_destination d \<notin> set (cx_group_table (nk_ctx s)) \<and>
      \<not> live_transaction (ev_now E) d s \<and> mcc_non_member_radius mc = 0 \<longrightarrow> relay_member_mode_multicast E d s = Panic)"
proof (intro conjI)
  have match: "s1 = s" if "frame_matches_self_router d s = Done (m, s1)" for m s1
    using matches_router_Done [OF that, of JoinedAsRouter] by (simp add: is_routing_def)
  have check: "nk_sent s1 = nk_sent s" if "check_and_update_broadcast_transaction_table E d s = Done (m, s1)" for m s1
    using that by (auto simp: check_transaction with_transaction_def split: if_splits)
  show "case relay_broadcast_frame E d s of Panic \<Rightarrow> True | Done (r, s') \<Rightarrow> nk_sent s' = nk_sent s \<and>
      (r \<and> 0 < nh_radius (df_header d) \<longrightarrow>
        (\<exists>s1 e. build_mac_payload E (Data d) (replicate A_MAX_MAC_PAYLOAD_SIZE 0) s1 = Done (Inl e, s')))"
    by (cases "relay_broadcast_frame E d s")
      (auto simp: relay_broadcast_frame_def act_then_def act_return_def get_addr_def act_run_def act_gets_def run_map_Done_iff
        dest!: match check transmit_broadcast_Done elim!: act_bindE split: if_split_asm, blast+)
  show "case relay_member_mode_multicast E d s of Panic \<Rightarrow> True | Done (r, s') \<Rightarrow> nk_sent s' = nk_sent s \<and>
      (r \<longrightarrow> (\<exists>s1 e. build_mac_payload E (Data d) (replicate A_MAX_MAC_PAYLOAD_SIZE 0) s1 = Done (Inl e, s')))"
    by (cases "relay_member_mode_multicast E d s")
      (auto simp: relay_member_mode_multicast_def act_then_def act_return_def act_run_def act_gets_def run_map_Done_iff
        btt_update_def ctx_update_def act_modify_def
        dest!: check transmit_broadcast_Done elim!: act_bindE split: if_split_asm, blast+)
  show "\<forall>mc. nh_multicast_control (df_header d) = Some mc \<and> df_destination d \<notin> set (cx_group_table (nk_ctx s)) \<and>
      \<not> live_transaction (ev_now E) d s \<and> mcc_non_member_radius mc = 0 \<longrightarrow> relay_member_mode_multicast E d s = Panic"
    by (simp add: relay_member_mode_multicast_def act_bind_def act_run_def unwrap_run_def check_transaction act_gets_def
        with_transaction_def chk_sub_def)
qed

theorem broadcasts_are_not_relayed_witness:
  "\<exists>s'. relay_broadcast_frame env_std unkeyed_data_std keyless_std = Done (True, s') \<and>
     (\<exists>s1 e. build_mac_payload env_std (Data unkeyed_data_std) (replicate A_MAX_MAC_PAYLOAD_SIZE 0) s1 = Done (Inl e, s'))"
proof -
  have fresh: "\<not> live_transaction (ev_now env_std) unkeyed_data_std keyless_std"
    by (simp add: live_transaction_def keyless_std_def nwk_std_def nwk_context_default_def)
  let ?s = "with_transaction env_std unkeyed_data_std keyless_std"
  have build: "build_mac_payload env_std (Data unkeyed_data_std) (replicate A_MAX_MAC_PAYLOAD_SIZE 0) ?s = Done (Inl KeyNotFound, ?s)"
    by (simp add: build_mac_payload_def build_mac_payload_with_def is_secured_def is_reserved_def unkeyed_data_std_def
        nwk_header_new_no_ctx_def make_encrypted_frame_def find_material_def with_transaction_def keyless_std_def)
  have "frame_matches_self_router unkeyed_data_std keyless_std = Done (True, keyless_std)"
    by (simp add: frame_matches_self_router_def frame_matches_self_end_device_def act_bind_def get_addr_def act_run_def
        unwrap_run_def act_return_def keyless_simps unkeyed_data_std_def nwk_header_new_no_ctx_def df_destination_def
        BROADCAST_ALL_def BROADCAST_ROUTERS_def BROADCAST_RX_ON_IDLE_def)
  then have run: "relay_broadcast_frame env_std unkeyed_data_std keyless_std = Done (True, ?s)"
    using fresh build
    by (simp add: relay_broadcast_frame_def act_bind_def get_addr_def act_run_def unwrap_run_def keyless_simps act_gets_def
        check_transaction transmit_broadcast_frame_def act_then_def act_return_def)
      (simp add: unkeyed_data_std_def nwk_header_new_no_ctx_def)
  have "0 < nh_radius (df_header unkeyed_data_std)" by (simp add: unkeyed_data_std_def nwk_header_new_no_ctx_def)
  with broadcasts_are_not_relayed [where E = env_std and d = unkeyed_data_std and s = keyless_std] run show ?thesis by auto
qed

text \<open>Two relays on the way to a third device, in a network without security.\<close>

definition plain_data_std :: data_frame where
  "plain_data_std = \<lparr> df_header = nwk_header_new_no_ctx DataFrame False False 0x3003 None 0x2000 None None 5 7,
     df_payload = [1, 2, 3] \<rparr>"

definition relay_net_std :: "nwk_addr \<Rightarrow> env \<times> nwk" where
  "relay_net_std a = (env_std, nwk_std\<lparr> nk_mac := (nk_mac nwk_std)\<lparr> ms_short_address := Some a \<rparr> \<rparr>)"

lemma relay_net_ready: "a \<noteq> 0x3003 \<Longrightarrow> relay_ready (relay_net_std a) a (with_source_route rs plain_data_std)"
proof -
  assume ne: "a \<noteq> 0x3003"
  have sent: "\<exists>s'. transmit_frame env_std (Data (set_relay_index i (with_source_route rs plain_data_std))) b True s = Done (Inr (), s')"
    if "ms_short_address (nk_mac s) = Some a" "ms_pan_id (nk_mac s) = Some p" for i b s p
  proof -
    obtain h where h: "set_relay_index i (with_source_route rs plain_data_std) = \<lparr> df_header = h, df_payload = [1, 2, 3] \<rparr>"
      "\<not> fc_security (nh_control h)"
      by (simp add: set_relay_index_def with_source_route_def plain_data_std_def nwk_header_new_no_ctx_def)
    have "\<exists>x. write_frame codecs_std (Data \<lparr> df_header = h, df_payload = [1, 2, 3] \<rparr>) (replicate A_MAX_MAC_PAYLOAD_SIZE 0) = Inr x"
      by (simp add: write_frame_def codecs_std_def write_slice_def A_MAX_MAC_PAYLOAD_SIZE_def)
    with h that show ?thesis
      by (auto simp: transmit_frame_def act_bind_def build_mac_payload_def build_mac_payload_with_def is_secured_def
          env_std_simps parse_error_def data_transmit_request_def Let_def act_return_def)
  qed
  then show ?thesis using ne
    by (auto simp: relay_ready_def relay_net_std_def nwk_std_simps with_source_route_def plain_data_std_def
        df_destination_def nwk_header_new_no_ctx_def find_by_short_addr_def nwk_std_def nwk_context_default_def
        neighbor_table_default_def neighbor_table_new_def)
qed

theorem source_route_reaches_witness:
  "travels relay_net_std 0x2002 (with_source_route [0x2001, 0x2002] plain_data_std) [0x2001, 0x3003]"
proof -
  have "travels relay_net_std (last [0x2001, 0x2002]) (with_source_route [0x2001, 0x2002] plain_data_std)
      (rev (butlast [0x2001, 0x2002]) @ [df_destination plain_data_std])"
    by (rule source_route_reaches) (auto intro!: relay_net_ready)
  then show ?thesis by (simp add: plain_data_std_def df_destination_def nwk_header_new_no_ctx_def)
qed

section \<open>Source-routed frames on the air\<close>























end
