(* ===== verification/Joining.thy ===== *)
theory Joining
  imports Nwk_Relay
begin

text \<open>
  What discovery, joining, rejoining and a restart achieve (\<open>nwk/nlme.rs\<close>, \<open>nwk/ctx.rs\<close>): the
  networks that a scan finds, the order in which parents are asked and the state of the device that
  joined, the address after a rejoin, and what a device has after it loaded its context.
\<close>

section \<open>Discovered networks\<close>

text \<open>The beacons that count: of coordinators with a short address, with a payload that can be read.\<close>

definition usable_beacon :: "radio \<Rightarrow> pan_descriptor \<Rightarrow> (pan_id \<times> nwk_addr \<times> pan_descriptor \<times> zigbee_beacon) option" where
  "usable_beacon R pd = (case (pd_coord_address pd, rd_beacon R (pd_payload pd)) of
     (MacShort pan addr, Inr b) \<Rightarrow> Some (pan, addr, pd, b) | _ \<Rightarrow> None)"

definition beacon_network :: "pan_id \<times> nwk_addr \<times> pan_descriptor \<times> zigbee_beacon \<Rightarrow> ext_addr" where
  "beacon_network = (\<lambda>(_, _, _, b). zb_extended_pan_id b)"

definition beacon_device :: "instant \<Rightarrow> pan_id \<times> nwk_addr \<times> pan_descriptor \<times> zigbee_beacon \<Rightarrow> pan_descriptor_device" where
  "beacon_device now = (\<lambda>(_, addr, pd, b). discovered_device now addr pd b)"

definition beacon_descriptor :: "instant \<Rightarrow> pan_id \<times> nwk_addr \<times> pan_descriptor \<times> zigbee_beacon \<Rightarrow> network_descriptor" where
  "beacon_descriptor now = (\<lambda>(pan, addr, pd, b). discovered_network pan pd b (discovered_device now addr pd b))"

text \<open>A list of networks that groups beacons: one for each extended PAN id, described by the first beacon
  that has it, with a device for every beacon that has it, in order.\<close>

definition grouped ::
  "instant \<Rightarrow> (pan_id \<times> nwk_addr \<times> pan_descriptor \<times> zigbee_beacon) list \<Rightarrow> network_descriptor \<Rightarrow> bool" where
  "grouped now bs nd \<longleftrightarrow> (let f = filter (\<lambda>b. beacon_network b = nd_extended_pan_id nd) bs in
     nd = (beacon_descriptor now (hd f))\<lparr> nd_neighbors := map (beacon_device now) f \<rparr>)"

definition groups ::
  "instant \<Rightarrow> (pan_id \<times> nwk_addr \<times> pan_descriptor \<times> zigbee_beacon) list \<Rightarrow> network_descriptor list \<Rightarrow> bool" where
  "groups now bs nds \<longleftrightarrow> distinct (map nd_extended_pan_id nds) \<and>
     nd_extended_pan_id ` set nds = beacon_network ` set bs \<and> (\<forall>nd\<in>set nds. grouped now bs nd)"

lemma beacon_simps:
  "nd_extended_pan_id (beacon_descriptor now x) = beacon_network x"
  "nd_neighbors (beacon_descriptor now x) = [beacon_device now x]"
  by (simp_all add: beacon_descriptor_def beacon_network_def beacon_device_def discovered_network_def split: prod.splits)

lemma grouped_other: "beacon_network x \<noteq> nd_extended_pan_id nd \<Longrightarrow> grouped now (bs @ [x]) nd = grouped now bs nd"
  by (simp add: grouped_def)

lemma grouped_new:
  "beacon_network x \<notin> beacon_network ` set bs \<Longrightarrow> grouped now (bs @ [x]) (beacon_descriptor now x)"
proof -
  assume "beacon_network x \<notin> beacon_network ` set bs"
  then have "filter (\<lambda>b. beacon_network b = beacon_network x) bs = []"
    unfolding filter_empty_conv by (metis imageI)
  then show ?thesis
    by (simp add: grouped_def beacon_simps)
qed

lemma grouped_same:
  assumes "grouped now bs nd" and "beacon_network x = nd_extended_pan_id nd" and "beacon_network x \<in> beacon_network ` set bs"
  shows "grouped now (bs @ [x]) (nd_neighbors_update (\<lambda>ds. ds @ [beacon_device now x]) nd)"
proof -
  let ?f = "filter (\<lambda>b. beacon_network b = nd_extended_pan_id nd) bs"
    and ?nd = "nd_neighbors_update (\<lambda>ds. ds @ [beacon_device now x]) nd"
  from assms(2,3) have ne: "?f \<noteq> []" by (auto simp: filter_empty_conv)
  have fi: "filter (\<lambda>b. beacon_network b = nd_extended_pan_id ?nd) (bs @ [x]) = ?f @ [x]"
    using assms(2) by simp
  from assms(1) have "nd = (beacon_descriptor now (hd ?f))\<lparr> nd_neighbors := map (beacon_device now) ?f \<rparr>"
    by (simp add: grouped_def Let_def)
  then have eq: "?nd = (beacon_descriptor now (hd ?f))\<lparr> nd_neighbors := map (beacon_device now) ?f @ [beacon_device now x] \<rparr>"
    by (metis (no_types, lifting) network_descriptor.select_convs network_descriptor.surjective network_descriptor.update_convs(8))
  show ?thesis unfolding grouped_def Let_def fi hd_append2 [OF ne] map_append list.map by (rule eq)
qed

lemma distinct_update_first:
  assumes "distinct (map k xs)" and "\<And>x. k (f x) = k x"
  shows "update_first (\<lambda>x. k x = e) f xs = map (\<lambda>x. if k x = e then f x else x) xs"
  using assms
proof (induction xs)
  case (Cons x xs)
  then show ?case by (auto simp: image_iff intro!: map_idI [symmetric])
qed simp

lemma add_descriptor_groups:
  assumes "groups now bs nds"
  shows "groups now (bs @ (case usable_beacon R pd of Some b \<Rightarrow> [b] | None \<Rightarrow> [])) (add_descriptor now R pd nds)"
proof (cases "usable_beacon R pd")
  case None
  then have "add_descriptor now R pd nds = nds"
    by (auto simp: usable_beacon_def add_descriptor_def split: mac_address.splits sum.splits)
  with None assms show ?thesis by simp
next
  case (Some x)
  then have step: "add_descriptor now R pd nds =
      (if find (\<lambda>nd. nd_extended_pan_id nd = beacon_network x) nds = None then nds @ [beacon_descriptor now x]
       else update_first (\<lambda>nd. nd_extended_pan_id nd = beacon_network x)
         (nd_neighbors_update (\<lambda>ds. ds @ [beacon_device now x])) nds)"
    by (auto simp: add_descriptor_def Let_def usable_beacon_def beacon_descriptor_def beacon_network_def
        beacon_device_def split: mac_address.splits sum.splits)
  show ?thesis
  proof (cases "find (\<lambda>nd. nd_extended_pan_id nd = beacon_network x) nds = None")
    case True
    then have new: "beacon_network x \<notin> nd_extended_pan_id ` set nds" by (auto simp: find_None_iff)
    with assms have "beacon_network x \<notin> beacon_network ` set bs" by (simp add: groups_def)
    from grouped_new [OF this] new assms show ?thesis
      by (auto simp: groups_def step True Some beacon_simps grouped_other image_iff)
  next
    case False
    then have old: "beacon_network x \<in> nd_extended_pan_id ` set nds"
      unfolding find_None_iff by (metis imageI)
    from False assms have upd: "add_descriptor now R pd nds =
        map (\<lambda>nd. if nd_extended_pan_id nd = beacon_network x
          then nd_neighbors_update (\<lambda>ds. ds @ [beacon_device now x]) nd else nd) nds"
      by (simp add: step groups_def distinct_update_first)
    then have ids: "map nd_extended_pan_id (add_descriptor now R pd nds) = map nd_extended_pan_id nds"
      by simp
    then have "nd_extended_pan_id ` set (add_descriptor now R pd nds) = nd_extended_pan_id ` set nds"
      by (metis list.set_map)
    moreover have "grouped now (bs @ [x]) nd" if "nd \<in> set (add_descriptor now R pd nds)" for nd
      using that assms old by (auto simp: upd groups_def grouped_other intro!: grouped_same split: if_splits)
    ultimately show ?thesis
      using assms old ids by (auto simp: groups_def Some)
  qed
qed

lemma fold_add_descriptor_groups:
  "groups now bs nds \<Longrightarrow>
   groups now (bs @ List.map_filter (usable_beacon R) pds) (fold (add_descriptor now R) pds nds)"
proof (induction pds arbitrary: bs nds)
  case (Cons pd pds)
  from Cons.IH [OF add_descriptor_groups [OF Cons.prems, where R = R and pd = pd]] show ?case
    by (cases "usable_beacon R pd") (simp_all add: List.map_filter_simps)
qed (simp add: List.map_filter_simps)

lemma potential_parents_spec:
  "distinct (get_potential_parents p t nd) \<and>
   set (get_potential_parents p t nd) = {i. i < length (nd_neighbors nd) \<and> is_potential_parent p t (nd_neighbors nd ! i)} \<and>
   (if nd_stack_profile nd = Zigbee
    then sorted (map (\<lambda>i. jd_depth (pdd_join_data (nd_neighbors nd ! i))) (get_potential_parents p t nd))
    else sorted (map (\<lambda>i. nb_incoming_cost (pdd_neighbor (nd_neighbors nd ! i))) (get_potential_parents p t nd)))"
  by (auto simp: get_potential_parents_def Let_def)

section \<open>Association\<close>

text \<open>What the radio answers to the request number \<open>k\<close>: an association takes two transmissions.\<close>

definition association_answer :: "radio \<Rightarrow> nwk \<Rightarrow> nat \<Rightarrow> (nwk_addr \<times> ext_addr) option" where
  "association_answer R s k = first_some association_response (rd_frames R (length (nk_sent s) + 2 * Suc k))"

fun first_answer :: "(nat \<Rightarrow> 'a option) \<Rightarrow> nat \<Rightarrow> (nat \<times> 'a) option" where
  "first_answer f 0 = None"
| "first_answer f (Suc n) = (case f 0 of Some a \<Rightarrow> Some (0, a)
     | None \<Rightarrow> map_option (apfst Suc) (first_answer (\<lambda>k. f (Suc k)) n))"

lemma first_answer_Some:
  "first_answer f n = Some (k, a) \<Longrightarrow> k < n \<and> f k = Some a \<and> (\<forall>j<k. f j = None)"
proof (induction n arbitrary: f k)
  case (Suc n)
  then show ?case by (cases k) (auto split: option.splits simp: less_Suc_eq_0_disj)
qed simp

lemma first_answer_None: "first_answer f n = None \<longleftrightarrow> (\<forall>k<n. f k = None)"
  by (induction n arbitrary: f) (auto split: option.splits simp: less_Suc_eq_0_disj)

text \<open>The requests to a parent, and the state after them.\<close>

definition association_log :: "mac_address \<Rightarrow> zb_capabilities \<Rightarrow> radio_event list" where
  "association_log coord caps = [TxAssociationRequest coord (mac_of_zb_capabilities caps), TxDataRequest coord]"

definition asked :: "channel \<Rightarrow> mac_address \<Rightarrow> zb_capabilities \<Rightarrow> nwk \<Rightarrow> nwk" where
  "asked ch coord caps s = s\<lparr> nk_mac := (nk_mac s)\<lparr> ms_channel := ch, ms_pan_id := Some (mac_pan_id coord),
       ms_seq_number := ms_seq_number (nk_mac s) + 2 \<rparr>,
     nk_sent := nk_sent s @ association_log coord caps \<rparr>"

definition associated :: "nwk_addr \<times> ext_addr \<Rightarrow> nwk \<Rightarrow> nwk" where
  "associated a s = s\<lparr> nk_mac := (nk_mac s)\<lparr> ms_short_address := Some (fst a), ms_extended_pan_id := Some (snd a) \<rparr> \<rparr>"

lemma mac_associate_tx:
  assumes "\<forall>n. ev_tx E n"
  shows "mac_associate E R ch coord (mac_of_zb_capabilities caps) s = Done (case association_answer R s 0 of
     None \<Rightarrow> (Inl AssocNoData, asked ch coord caps s)
   | Some a \<Rightarrow> (Inr a, associated a (asked ch coord caps s)))"
  using assms
  by (simp add: mac_associate_def act_defs set_channel_def set_pan_id_def set_short_address_def
      set_extended_pan_id_def mac_update_def send_mac_command_def mac_send_def received_def Let_def
      association_answer_def asked_def associated_def association_log_def split: option.splits)

definition ask_all ::
  "channel \<Rightarrow> pan_id \<Rightarrow> zb_capabilities \<Rightarrow> pan_descriptor_device list \<Rightarrow> nat list \<Rightarrow> nwk \<Rightarrow> nwk" where
  "ask_all ch pan caps ds ps = fold (\<lambda>i. asked ch (MacShort pan (nb_nwk_addr (pdd_neighbor (ds ! i)))) caps) ps"

lemma association_answer_asked:
  "association_answer R (asked ch coord caps s) k = association_answer R s (Suc k)"
  by (simp add: association_answer_def asked_def association_log_def)

lemma associate_loop_tx:
  assumes "\<forall>n. ev_tx E n"
  shows "associate_loop E R ch pan caps ps err ds s = Done
    (case first_answer (association_answer R s) (length ps) of
       None \<Rightarrow> ((Inl (if ps = [] then err else JoinAssociationError AssocNoData), ds), ask_all ch pan caps ds ps s)
     | Some (k, a) \<Rightarrow> ((Inr (ps ! k), ds[ps ! k := joined_parent (snd a) (ds ! (ps ! k))]),
         associated a (ask_all ch pan caps ds (take (Suc k) ps) s)))"
proof (induction ps arbitrary: err s)
  case (Cons i ps)
  let ?s = "asked ch (MacShort pan (nb_nwk_addr (pdd_neighbor (ds ! i)))) caps s"
  have shift: "association_answer R ?s = (\<lambda>k. association_answer R s (Suc k))"
    by (rule ext) (rule association_answer_asked)
  show ?case
  proof (cases "association_answer R s 0")
    case None
    then have "associate_loop E R ch pan caps (i # ps) err ds s =
        associate_loop E R ch pan caps ps (JoinAssociationError AssocNoData) ds ?s"
      by (simp add: act_bind_def mac_associate_tx assms refuse_parent_def)
    also have "\<dots> = Done
      (case first_answer (\<lambda>k. association_answer R s (Suc k)) (length ps) of
         None \<Rightarrow> ((Inl (if ps = [] then JoinAssociationError AssocNoData else JoinAssociationError AssocNoData), ds),
           ask_all ch pan caps ds ps ?s)
       | Some (k, a) \<Rightarrow> ((Inr (ps ! k), ds[ps ! k := joined_parent (snd a) (ds ! (ps ! k))]),
           associated a (ask_all ch pan caps ds (take (Suc k) ps) ?s)))"
      by (simp only: Cons.IH shift)
    finally show ?thesis using None by (auto simp: ask_all_def split: option.splits)
  next
    case (Some a)
    then show ?thesis by (simp add: act_bind_def mac_associate_tx assms act_return_def ask_all_def split: prod.splits)
  qed
qed (simp add: act_return_def ask_all_def)

lemma joined_depth_spec:
  "d \<le> 15 \<Longrightarrow> \<exists>d'. joined_depth d = Done d' \<and> unat d' = min 15 (unat d + 1)"
proof -
  assume "d \<le> 15"
  then have "unat d \<le> 15" by (simp add: word_le_nat_alt)
  then have "d = 15 \<or> unat d < 15" "chk_add d 1 = Done (d + 1)" "unat (d + 1) = unat d + 1"
    by (auto simp: chk_add_def unat_word_ariths word_unat_eq_iff)
  then show ?thesis by (auto simp: joined_depth_def)
qed

lemma ask_all_simps:
  "nk_sent (ask_all ch pan caps ds ps s) = nk_sent s @
     concat (map (\<lambda>i. association_log (MacShort pan (nb_nwk_addr (pdd_neighbor (ds ! i)))) caps) ps)"
  "nk_ctx (ask_all ch pan caps ds ps s) = nk_ctx s"
  "ps \<noteq> [] \<Longrightarrow> ms_channel (nk_mac (ask_all ch pan caps ds ps s)) = ch \<and>
     ms_pan_id (nk_mac (ask_all ch pan caps ds ps s)) = Some pan"
proof -
  show "nk_sent (ask_all ch pan caps ds ps s) = nk_sent s @
      concat (map (\<lambda>i. association_log (MacShort pan (nb_nwk_addr (pdd_neighbor (ds ! i)))) caps) ps)"
    "nk_ctx (ask_all ch pan caps ds ps s) = nk_ctx s"
    by (induction ps arbitrary: s) (simp_all add: ask_all_def asked_def)
  have "ms_channel (nk_mac (ask_all ch pan caps ds (is @ [i]) s)) = ch \<and>
     ms_pan_id (nk_mac (ask_all ch pan caps ds (is @ [i]) s)) = Some pan" for "is" i
    by (simp add: ask_all_def asked_def)
  then show "ps \<noteq> [] \<Longrightarrow> ms_channel (nk_mac (ask_all ch pan caps ds ps s)) = ch \<and>
     ms_pan_id (nk_mac (ask_all ch pan caps ds ps s)) = Some pan"
    by (cases ps rule: rev_cases) simp_all
qed

lemma filter_neq_nth: "distinct xs \<Longrightarrow> k < length xs \<Longrightarrow> filter (\<lambda>x. x \<noteq> xs ! k) xs = take k xs @ drop (Suc k) xs"
proof -
  assume d: "distinct xs" and k: "k < length xs"
  have split: "xs = take k xs @ xs ! k # drop (Suc k) xs" using id_take_nth_drop [OF k] .
  with d have "xs ! k \<notin> set (take k xs) \<union> set (drop (Suc k) xs)"
    by (metis Un_iff distinct.simps(2) distinct_append not_distinct_conv_prefix disjoint_insert(2) list.set(2))
  then have "filter (\<lambda>x. x \<noteq> xs ! k) (take k xs) = take k xs" "filter (\<lambda>x. x \<noteq> xs ! k) (drop (Suc k) xs) = drop (Suc k) xs"
    by (auto intro!: filter_True)
  then show ?thesis by (subst (2) split) simp
qed

text \<open>The requests of a join that asks the parents \<open>ps\<close>.\<close>

definition join_log :: "network_descriptor \<Rightarrow> zb_capabilities \<Rightarrow> nat list \<Rightarrow> radio_event list" where
  "join_log nd caps ps = concat (map (\<lambda>i. association_log
     (MacShort (nd_pan_id nd) (nb_nwk_addr (pdd_neighbor (nd_neighbors nd ! i)))) caps) ps)"

lemma association_join_tx:
  assumes tx: "\<forall>n. ev_tx E n" and depth: "\<forall>d\<in>set (nd_neighbors nd). jd_depth (pdd_join_data d) \<le> 15"
    and ps_def: "ps = get_potential_parents True (zc_device_type caps) nd"
  shows "case first_answer (association_answer R s) (length ps) of
      None \<Rightarrow> \<exists>s'. association_join E R nd caps s = Done ((Inl (if ps = [] then
          JoinNotPermitted ''no potential parent devices found'' else JoinAssociationError AssocNoData), nd), s') \<and>
        nk_ctx s' = nk_ctx s \<and> nk_sent s' = nk_sent s @ join_log nd caps ps
    | Some (k, addr, ext) \<Rightarrow> let parent = nd_neighbors nd ! (ps ! k) in
        \<exists>nd' s'. association_join E R nd caps s = Done ((Inr (joined_mode caps), nd'), s') \<and>
        nk_sent s' = nk_sent s @ join_log nd caps (take (Suc k) ps) \<and>
        ms_short_address (nk_mac s') = Some addr \<and> ms_extended_pan_id (nk_mac s') = Some ext \<and>
        ms_pan_id (nk_mac s') = Some (nd_pan_id nd) \<and> ms_channel (nk_mac s') = nd_logical_channel nd \<and>
        nt_parent (cx_neighbors (nk_ctx s')) =
          (pdd_neighbor parent)\<lparr> nb_ext_addr := Some ext, nb_relationship := Parent \<rparr> \<and>
        nt_neighbors (cx_neighbors (nk_ctx s')) =
          map (\<lambda>i. pdd_neighbor (nd_neighbors nd ! i)) (take k ps @ drop (Suc k) ps) \<and>
        cx_profile (nk_ctx s') = nd_stack_profile nd \<and>
        unat (cx_depth (nk_ctx s')) = min 15 (unat (jd_depth (pdd_join_data parent)) + 1)"
proof (cases "first_answer (association_answer R s) (length ps)")
  case None
  then show ?thesis
    by (simp add: association_join_def Let_def act_bind_def associate_loop_tx [OF tx] act_return_def
        ask_all_simps join_log_def flip: ps_def)
next
  case (Some ka)
  obtain k addr ext where ka: "ka = (k, addr, ext)" by (cases ka)
  let ?d = "nd_neighbors nd ! (ps ! k)" and ?ds = "nd_neighbors nd" and ?pan = "nd_pan_id nd"
  from first_answer_Some [OF Some [unfolded ka]] have k: "k < length ps" by simp
  then have "ps ! k \<in> set ps" by simp
  with potential_parents_spec [of True "zc_device_type caps" nd] have pk: "ps ! k < length ?ds" and dist: "distinct ps"
    by (simp_all add: ps_def)
  have depth_k: "jd_depth (pdd_join_data ?d) \<le> 15" using depth pk by simp
  obtain dp where dp: "joined_depth (jd_depth (pdd_join_data ?d)) = Done dp"
      "unat dp = min 15 (unat (jd_depth (pdd_join_data ?d)) + 1)"
    using joined_depth_spec [OF depth_k] by blast
  have others: "map (\<lambda>j. pdd_neighbor (?ds[ps ! k := joined_parent ext ?d] ! j)) (filter (\<lambda>j. j \<noteq> ps ! k) ps) =
      map (\<lambda>i. pdd_neighbor (?ds ! i)) (take k ps @ drop (Suc k) ps)"
    unfolding filter_neq_nth [OF dist k, symmetric] by (rule map_cong) auto
  have ne: "take (Suc k) ps \<noteq> []" using k by auto
  show ?thesis
    using k pk dp
    by (simp add: Some ka Let_def association_join_def act_bind_def associate_loop_tx [OF tx] act_return_def
        others [unfolded joined_parent_def map_append] ask_all_simps(3) [OF ne] to_joined_def act_run_def act_then_def ctx_update_def act_modify_def joined_parent_def
        ask_all_simps join_log_def associated_def neighbor_table_new_def flip: ps_def)
qed

text \<open>C34. When the radio transmits, a device joins the first potential parent that answers: it asks the
  parents in their order, two commands each, up to that one, and takes the short address of the answer,
  the parent's extended address as its extended PAN id, the other potential parents as neighbors, the
  profile of the network and the depth below the parent, at most 15. The status of the answer is not
  looked at. If no parent answers the error says so, and the context of the device is what it was.\<close>
theorem association_join_correct:
  assumes tx: "\<forall>n. ev_tx E n" and depth: "\<forall>d\<in>set (nd_neighbors nd). jd_depth (pdd_join_data d) \<le> 15"
  shows "let ps = get_potential_parents True (zc_device_type caps) nd in
    case first_answer (association_answer R s) (length ps) of
      None \<Rightarrow> \<exists>s'. association_join E R nd caps s = Done ((Inl (if ps = [] then
          JoinNotPermitted ''no potential parent devices found'' else JoinAssociationError AssocNoData), nd), s') \<and>
        nk_ctx s' = nk_ctx s \<and> nk_sent s' = nk_sent s @ join_log nd caps ps
    | Some (k, addr, ext) \<Rightarrow> let parent = nd_neighbors nd ! (ps ! k) in
        \<exists>nd' s'. association_join E R nd caps s = Done ((Inr (joined_mode caps), nd'), s') \<and>
        nk_sent s' = nk_sent s @ join_log nd caps (take (Suc k) ps) \<and>
        ms_short_address (nk_mac s') = Some addr \<and> ms_extended_pan_id (nk_mac s') = Some ext \<and>
        ms_pan_id (nk_mac s') = Some (nd_pan_id nd) \<and> ms_channel (nk_mac s') = nd_logical_channel nd \<and>
        nt_parent (cx_neighbors (nk_ctx s')) =
          (pdd_neighbor parent)\<lparr> nb_ext_addr := Some ext, nb_relationship := Parent \<rparr> \<and>
        nt_neighbors (cx_neighbors (nk_ctx s')) =
          map (\<lambda>i. pdd_neighbor (nd_neighbors nd ! i)) (take k ps @ drop (Suc k) ps) \<and>
        cx_profile (nk_ctx s') = nd_stack_profile nd \<and>
        unat (cx_depth (nk_ctx s')) = min 15 (unat (jd_depth (pdd_join_data parent)) + 1)"
  unfolding Let_def [where s = "get_potential_parents True (zc_device_type caps) nd"]
  by (rule association_join_tx [OF assms refl])

definition device_std :: "nwk_addr \<Rightarrow> pan_descriptor_device" where
  "device_std a = \<lparr> pdd_neighbor = (neighbor_default 0)\<lparr> nb_nwk_addr := a, nb_device_type := Router \<rparr>,
     pdd_join_data = \<lparr> jd_depth = 1, jd_beacon_order = 15, jd_permit_joining = True, jd_router_capacity = True,
       jd_end_device_capacity = True, jd_potential_parent = True \<rparr> \<rparr>"

definition network_std :: network_descriptor where
  "network_std = \<lparr> nd_extended_pan_id = 0x99, nd_pan_id = 0x1a62, nd_update_id = 0,
     nd_logical_channel = Channel15, nd_stack_profile = ZigbeePro, nd_zigbee_version = 2,
     nd_superframe_order = 15, nd_neighbors = [device_std 0x10, device_std 0x20] \<rparr>"

text \<open>The first parent does not answer, the second one refuses.\<close>

definition refusing_radio_std :: radio where
  "refusing_radio_std = radio_std\<lparr> rd_frames := (\<lambda>n. if n = 4 then [\<lparr> rf_channel = Channel15,
     rf_frame = \<lparr> mf_type = MacCommandFrame, mf_destination = Some (MacExtended 0x1a62 9),
       mf_source = Some (MacExtended 0x1a62 0x2020), mf_has_security = False,
       mf_content = CommandContent (AssociationResponse 0xffff AccessDenied), mf_payload = [] \<rparr>, rf_lqi = 200 \<rparr>]
     else []) \<rparr>"

lemma network_std_parents: "get_potential_parents True ReducedFunctionDevice network_std = [0, 1]"
proof -
  have "[0..<Suc (Suc 0)] = [0, 1 :: nat]" by (simp add: upt_rec)
  then show ?thesis
    by (simp add: get_potential_parents_def network_std_def device_std_def is_potential_parent_def neighbor_default_def
        link_cost_default_def less_eq_link_cost_def Let_def)
qed

theorem association_join_correct_witness:
  "\<exists>nd' s'. association_join env_std refusing_radio_std network_std zb_caps_std nwk_std =
       Done ((Inr JoinedAsEndDevice, nd'), s') \<and> ms_short_address (nk_mac s') = Some 0xffff \<and>
     nb_ext_addr (nt_parent (cx_neighbors (nk_ctx s'))) = Some 0x2020 \<and> length (nk_sent s') = 4"
proof -
  have caps: "zc_device_type zb_caps_std = ReducedFunctionDevice" by (simp add: zb_caps_std_def)
  have answers: "first_answer (association_answer refusing_radio_std nwk_std) (length [0, 1 :: nat]) = Some (1, 0xffff, 0x2020)"
    by (simp add: association_answer_def refusing_radio_std_def nwk_std_simps association_response_def)
  have tx: "\<forall>n. ev_tx env_std n" and depth: "\<forall>d\<in>set (nd_neighbors network_std). jd_depth (pdd_join_data d) \<le> 15"
    by (simp_all add: env_std_simps network_std_def device_std_def)
  from association_join_correct [OF tx depth, of zb_caps_std refusing_radio_std nwk_std]
  show ?thesis
    unfolding caps network_std_parents Let_def answers
    by (auto simp: joined_mode_def caps join_log_def association_log_def nwk_std_simps)
qed

text \<open>C35. Discovery finds the networks of the beacons that the scan of the requested and available
  channels received: one for every extended PAN id among the readable beacons of devices with a short
  address, described by the first such beacon, with a device for each of them in order. The potential
  parents of a network are all devices that qualify, each once, by depth on the legacy profile and by
  link cost on the others.\<close>
theorem network_discovery_correct:
  assumes "network_discovery E R masks s = Done (Inr nds, s')"
  shows "(\<exists>ms pds. channel_intersections (rd_channel_mask R) masks = Done ms \<and> ms \<noteq> [] \<and>
      scan_masks E R ms s = Done (pds, s') \<and> groups (ev_now E) (List.map_filter (usable_beacon R) pds) nds) \<and>
    (\<forall>nd\<in>set nds. let ps = get_potential_parents p t nd; ds = nd_neighbors nd in
      distinct ps \<and> set ps = {i. i < length ds \<and> is_potential_parent p t (ds ! i)} \<and>
      (if nd_stack_profile nd = Zigbee then sorted (map (\<lambda>i. jd_depth (pdd_join_data (ds ! i))) ps)
       else sorted (map (\<lambda>i. nb_incoming_cost (pdd_neighbor (ds ! i))) ps)))"
proof -
  have "groups (ev_now E) [] []" by (simp add: groups_def)
  from fold_add_descriptor_groups [OF this] assms
  have "\<exists>ms pds. channel_intersections (rd_channel_mask R) masks = Done ms \<and> ms \<noteq> [] \<and>
      scan_masks E R ms s = Done (pds, s') \<and> groups (ev_now E) (List.map_filter (usable_beacon R) pds) nds"
    by (auto simp: network_discovery_def act_return_def act_run_def run_simps split: if_splits elim!: act_bindE)
  then show ?thesis using potential_parents_spec by (simp add: Let_def)
qed

text \<open>Two beacons of one network and one of another.\<close>

definition beacon_std :: "nwk_addr \<Rightarrow> bytes \<Rightarrow> received_mac_frame" where
  "beacon_std a p = \<lparr> rf_channel = Channel15, rf_frame = \<lparr> mf_type = BeaconFrame, mf_destination = None,
     mf_source = Some (MacShort 0x1a62 a), mf_has_security = False,
     mf_content = BeaconContent \<lparr> ss_beacon_order = 15, ss_superframe_order = 15, ss_association_permit = True \<rparr>,
     mf_payload = p \<rparr>, rf_lqi = 200 \<rparr>"

definition beacon_radio_std :: radio where
  "beacon_radio_std = radio_std\<lparr> rd_frames := (\<lambda>_. [beacon_std 0x10 [1], beacon_std 0x30 [2], beacon_std 0x20 [1]]),
     rd_beacon := (\<lambda>p. Inr \<lparr> zb_protocol_id = 0, zb_network_parameters = \<lparr> np_stack_profile = ZigbeePro,
       np_protocol_version = 2, np_router_capacity = True, np_device_depth = 1, np_end_device_capacity = True \<rparr>,
       zb_extended_pan_id = (if p = [1] then 0x99 else 0x98), zb_tx_offset = [0, 0, 0], zb_update_id = 0 \<rparr>) \<rparr>"

theorem network_discovery_correct_witness:
  "\<exists>nds s'. network_discovery env_std beacon_radio_std [channel_mask_new ChannelPage0 [Channel15]] nwk_std = Done (Inr nds, s') \<and>
     map nd_extended_pan_id nds = [0x99, 0x98] \<and> map (length \<circ> nd_neighbors) nds = [2, 1] \<and>
     (\<forall>nd\<in>set nds. distinct (get_potential_parents True ReducedFunctionDevice nd))"
proof -
  have masks: "intersect_with (channel_mask_new ChannelPage0 [Channel15]) (rd_channel_mask radio_std) =
      Done (channel_mask_new ChannelPage0 [Channel15])" "channel_mask_new ChannelPage0 [Channel15] \<noteq> 0"
    unfolding radio_std_def by code_simp+
  have chs: "filter (channel_is_set (channel_mask_new ChannelPage0 [Channel15])) channels_all = [Channel15]"
    by code_simp
  obtain nds s' where run: "network_discovery env_std beacon_radio_std [channel_mask_new ChannelPage0 [Channel15]] nwk_std = Done (Inr nds, s')"
    and nds: "map nd_extended_pan_id nds = [0x99, 0x98]" "map (length \<circ> nd_neighbors) nds = [2, 1]"
    by (simp add: network_discovery_def masks chs act_run_def act_bind_def mac_scan_def scan_channel_active_def set_channel_def
        mac_update_def mac_send_def received_def act_gets_def act_modify_def act_then_def act_return_def Let_def env_std_simps
        beacon_radio_std_def beacon_std_def scanned_beacon_def pan_descriptor_of_def List.map_filter_simps
        add_descriptor_def discovered_network_def)
  from network_discovery_correct [OF run, of True ReducedFunctionDevice] run nds show ?thesis
    by (auto simp: Let_def)
qed

section \<open>Rejoining\<close>

lemma wait_for_frame_mac: "keeps (\<lambda>s. nk_mac s = m) (wait_for_frame E eval rfs)"
  by (induction rfs) (auto simp: poll_frame_def nwk_decrypt_frame_def intro!: keeps_rules split: mac_indication.splits option.splits)

lemma keeps_short_address:
  "keeps (\<lambda>s. ms_short_address (nk_mac s) = Some a) (rejoin E R req)"
proof -
  let ?I = "\<lambda>s. ms_short_address (nk_mac s) = Some a"
  have q: "quiet ?I" unfolding quiet_def
  proof (intro allI impI, elim conjE)
    fix s s' :: nwk
    assume eq: "(nk_mac s')\<lparr> ms_seq_number := 0 \<rparr> = (nk_mac s)\<lparr> ms_seq_number := 0 \<rparr>" and ok: "?I s"
    show "?I s'" using ok arg_cong [OF eq, of ms_short_address] by simp
  qed
  have mac: "keeps ?I (mac_update f)" if "\<And>m. ms_short_address (f m) = ms_short_address m" for f
    using that by (auto simp: mac_update_def act_modify_def intro!: keepsI)
  have send: "keeps ?I (mac_send E ev)" for ev by (auto simp: mac_send_def Let_def intro!: keepsI)
  have scan: "keeps ?I (scan_channels E R chs)" for chs
    by (induction chs) (auto simp: scan_channel_active_def set_channel_def intro!: keeps_rules mac send)
  have set: "keeps ?I (act_bind get_addr (\<lambda>addr.
      act_then (act_modify (\<lambda>s. s\<lparr> nk_mac := (nk_mac s)\<lparr> ms_short_address := Some addr \<rparr> \<rparr>)) (g addr)))"
    if "\<And>x. keeps ?I (g x)" for g :: "nwk_addr \<Rightarrow> 'b act"
  proof (rule keepsI)
    fix s x s'
    assume "act_bind get_addr (\<lambda>addr.
        act_then (act_modify (\<lambda>s. s\<lparr> nk_mac := (nk_mac s)\<lparr> ms_short_address := Some addr \<rparr> \<rparr>)) (g addr)) s = Done (x, s')"
      and "?I s"
    then have "g a (s\<lparr> nk_mac := (nk_mac s)\<lparr> ms_short_address := Some a \<rparr> \<rparr>) = Done (x, s')"
      by (auto simp: act_then_def act_modify_def get_addr_def act_run_def unwrap_run_def elim!: act_bindE)
    from keepsD [OF that _ this] show "?I s'" by simp
  qed
  have req: "keeps ?I (send_rejoin_request_cmd E d x c)" for d x c
    using q by (auto simp: send_rejoin_request_cmd_def intro!: keeps_rules set)
  have pend: "keeps ?I (to_joined_pending p d c)" for p d c
    by (rule keepsI) (auto simp: to_joined_pending_def neighbors_update_def ctx_update_def act_modify_def act_then_def
        act_run_def act_return_def run_simps elim!: act_bindE)
  show ?thesis
    by (rule rejoin_keeps) (auto simp: set_channel_def set_pan_id_def mac_scan_def intro!: mac req scan pend)
qed

lemma accept_rejoin_Some: "accept_rejoin E slf r = Some parent \<Longrightarrow> nb_ext_addr parent = Some ext_addr_default"
  by (auto simp: accept_rejoin_def neighbor_new_def split: option.splits rejoin_response.splits if_splits)

lemma rejoined_parent:
  assumes "rejoin_loop E R ch pan caps ds s = Done (Inr mode, s')"
  shows "mode = joined_mode caps \<and> nb_ext_addr (nt_parent (cx_neighbors (nk_ctx s'))) = Some ext_addr_default \<and>
    nt_neighbors (cx_neighbors (nk_ctx s')) = []"
  using assms
proof (induction ds arbitrary: s)
  case (Cons d ds)
  from Cons.prems obtain p s1 where p: "try_rejoin E R ch pan caps s = Done (p, s1)" and
    rest: "(case p of None \<Rightarrow> rejoin_loop E R ch pan caps ds | Some parent \<Rightarrow>
      act_bind (to_joined_pending parent (jd_depth (pdd_join_data d)) caps) (\<lambda>mode. act_return (Inr mode))) s1 =
      Done (Inr mode, s')"
    by (auto elim!: act_bindE)
  show ?case
  proof (cases p)
    case None
    with rest Cons.IH show ?thesis by simp
  next
    case (Some parent)
    with p have "nb_ext_addr parent = Some ext_addr_default"
      by (auto simp: try_rejoin_def act_then_def act_return_def Option.bind_eq_Some_conv dest!: accept_rejoin_Some
          elim!: act_bindE split: sum.split_asm)
    with rest Some show ?thesis
      by (auto simp: to_joined_pending_def neighbors_update_def ctx_update_def act_modify_def act_then_def
          act_run_def act_return_def run_simps neighbor_table_new_def elim!: act_bindE)
  qed
qed (simp add: act_return_def)

text \<open>C36. A rejoin never changes the short address: what a response assigns is not used. It succeeds only
  by a response whose source is the default extended address, which the device takes for its parent, and
  it empties the neighbor table.\<close>
theorem rejoin_keeps_address:
  assumes "rejoin E R req s = Done (r, s')" and "ms_short_address (nk_mac s) = Some a"
  shows "ms_short_address (nk_mac s') = Some a \<and>
    (\<forall>mode. r = Inr mode \<longrightarrow> mode = joined_mode (rj_capability_information req) \<and>
       nb_ext_addr (nt_parent (cx_neighbors (nk_ctx s'))) = Some ext_addr_default \<and>
       nt_neighbors (cx_neighbors (nk_ctx s')) = [])"
proof -
  have "mode = joined_mode (rj_capability_information req) \<and>
      nb_ext_addr (nt_parent (cx_neighbors (nk_ctx s'))) = Some ext_addr_default \<and>
      nt_neighbors (cx_neighbors (nk_ctx s')) = []" if "r = Inr mode" for mode
    using assms(1) that rejoined_parent
    by (auto simp: rejoin_def act_return_def split: sum.splits option.splits elim!: act_bindE)
  with keepsD [OF keeps_short_address assms(2,1)] show ?thesis by blast
qed

text \<open>A response from the default extended address that assigns the address \<open>0x4444\<close>.\<close>

definition rejoin_codecs_std :: codecs where
  "rejoin_codecs_std = codecs_std\<lparr>
     cd_read_header := (\<lambda>_. Inr (nwk_header_cmd_no_ctx False 0x10 0xffffffff 0x1001 (Some 9) None 7 2, 2)),
     cd_read_command := (\<lambda>_. Inr (RejoinResponse (RejoinSuccess 0x4444), 2)) \<rparr>"

definition rejoin_env_std :: env where
  "rejoin_env_std = env_std\<lparr> ev_codecs := rejoin_codecs_std \<rparr>"

definition answer_std :: received_mac_frame where
  "answer_std = \<lparr> rf_channel = Channel15, rf_frame = \<lparr> mf_type = MacDataFrame,
     mf_destination = Some (MacShort 0x1a62 0x1001), mf_source = Some (MacShort 0x1a62 0x10),
     mf_has_security = False, mf_content = DataContent, mf_payload = [0, 0, 0, 0] \<rparr>, rf_lqi = 200 \<rparr>"

definition rejoin_radio_std :: radio where
  "rejoin_radio_std = beacon_radio_std\<lparr> rd_frames := (\<lambda>n. if n = 1 then rd_frames beacon_radio_std n
     else [mac_data_std 0x77 [], answer_std]) \<rparr>"

lemma rejoin_request_std:
  assumes "nk_ctx s = nk_ctx nwk_std" and "ms_ext_addr (nk_mac s) = 9" and "ms_short_address (nk_mac s) = Some 0x1001"
    and "ms_pan_id (nk_mac s) = Some p"
  shows "\<exists>s'. send_rejoin_request_cmd rejoin_env_std d x c s = Done (Inr (), s') \<and>
    length (nk_sent s') = Suc (length (nk_sent s)) \<and> nk_mac s' = (nk_mac s)\<lparr> ms_seq_number := ms_seq_number (nk_mac s) + 1 \<rparr>"
proof -
  obtain nonce where "create_nonce wire_std aux_std = Done (Inr nonce)"
    using create_nonce_ex [OF wire_std_ok, of aux_std 9] by (auto simp: aux_std_def)
  then have "\<exists>buf len. write_and_encrypt_in_place crypto_std wire_std EncMic32
      (replicate A_MAX_MAC_PAYLOAD_SIZE 0) (cd_write_aux codecs_std aux_std) aux_std (sm_key sm_std)
      (cd_write_header codecs_std h) (cd_write_command codecs_std cmd) = Done (Inr (buf, len))" for h cmd
    by (simp add: A_MAX_MAC_PAYLOAD_SIZE_def write_and_encrypt_in_place_def aux_std_def codecs_std_def
        write_slice_def parse_error_def encrypt_in_place_def ccm_encrypt_def crypto_std_def Let_def
        numeral_eq_Suc)
  then obtain buf len where enc: "write_and_encrypt_in_place crypto_std wire_std EncMic32
      (replicate A_MAX_MAC_PAYLOAD_SIZE 0) (cd_write_aux codecs_std aux_std) aux_std (sm_key sm_std)
      (cd_write_header codecs_std h) (cd_write_command codecs_std cmd) = Done (Inr (buf h cmd, len h cmd))" for h cmd
    by metis
  have "nk_ctx t = nk_ctx nwk_std \<Longrightarrow> nwk_max_depth (profile_params t) = 15 \<and>
      nwk_security_level (profile_params t) = EncMic32" for t
    by (simp add: profile_params_def nwk_std_def nwk_context_default_def profile_defs)
  moreover have "(nk_mac s)\<lparr> ms_short_address := Some 0x1001 \<rparr> = nk_mac s"
    using assms(3) by (cases "nk_mac s") simp
  ultimately show ?thesis
    using assms
    by (auto simp: enc send_rejoin_request_cmd_def transmit_frame_def build_mac_payload_def build_mac_payload_with_def nwk_std_simps
        env_std_simps rejoin_env_std_def rejoin_codecs_std_def is_secured_def is_reserved_def new_cmd_frame_def
        make_encrypted_frame_def sm_std_facts aux_std_eq data_transmit_request_def act_bind_def nwk_header_cmd_def
        nwk_header_new_def get_addr_def get_ext_addr_def act_run_def unwrap_run_def act_gets_def act_then_def act_modify_def
        get_next_seq_number_def chk_mul_def nwk_header_new_no_ctx_def
        act_return_def Let_def)
qed

lemma rejoin_answer_std:
  assumes "ms_pan_id (nk_mac s) = Some 0x1a62" and "ms_short_address (nk_mac s) = Some 0x1001"
  shows "wait_for_frame rejoin_env_std rejoin_response_of (rd_frames rejoin_radio_std 2) s = Done
    (Some (nwk_header_cmd_no_ctx False 0x10 0xffffffff 0x1001 (Some 9) None 7 2, RejoinSuccess 0x4444), s)"
proof -
  have "nwk_decrypt_frame rejoin_env_std [0, 0, 0, 0] s = Done (Inr (NwkCommand
      \<lparr> cf_header = nwk_header_cmd_no_ctx False 0x10 0xffffffff 0x1001 (Some 9) None 7 2,
        cf_command = RejoinResponse (RejoinSuccess 0x4444) \<rparr>, False), s)"
    by (simp add: nwk_decrypt_Done rejoin_env_std_def rejoin_codecs_std_def decrypt_frame_def parse_error_def
        nwk_header_cmd_no_ctx_def nwk_header_new_no_ctx_def read_frame_body_def read_with_def)
  moreover have "filter_frame (nk_mac s) (mac_data_std 0x77 []) = None"
    using assms by (simp add: mac_data_std_def filter_frame_def Let_def)
  moreover have "filter_frame (nk_mac s) answer_std = Some (MacData \<lparr> mi_src_address = Some (MacShort 0x1a62 0x10),
      mi_dest_address = Some (MacShort 0x1a62 0x1001), mi_link_quality = 200, mi_payload = [0, 0, 0, 0] \<rparr>)"
    using assms by (simp add: answer_std_def filter_frame_def Let_def)
  ultimately show ?thesis
    by (simp add: rejoin_radio_std_def poll_frame_def act_gets_def act_bind_def act_return_def rejoin_response_of_def)
qed

lemma try_rejoin_std:
  assumes "nk_ctx s = nk_ctx nwk_std" and "ms_ext_addr (nk_mac s) = 9" and "ms_short_address (nk_mac s) = Some 0x1001"
    and "length (nk_sent s) = 1"
  shows "\<exists>parent s'. try_rejoin rejoin_env_std rejoin_radio_std Channel15 0x1a62 caps s = Done (Some parent, s')"
proof -
  let ?s = "s\<lparr> nk_mac := (nk_mac s)\<lparr> ms_channel := Channel15, ms_pan_id := Some 0x1a62 \<rparr> \<rparr>"
  obtain s1 where send: "send_rejoin_request_cmd rejoin_env_std nwk_addr_default ext_addr_default caps ?s = Done (Inr (), s1)"
    and s1: "length (nk_sent s1) = Suc (length (nk_sent ?s))"
      "nk_mac s1 = (nk_mac ?s)\<lparr> ms_seq_number := ms_seq_number (nk_mac ?s) + 1 \<rparr>"
    using rejoin_request_std [of ?s "0x1a62" nwk_addr_default ext_addr_default caps] assms by auto
  have wait: "wait_for_frame rejoin_env_std rejoin_response_of (rd_frames rejoin_radio_std (length (nk_sent s1))) s1 = Done
    (Some (nwk_header_cmd_no_ctx False 0x10 0xffffffff 0x1001 (Some 9) None 7 2, RejoinSuccess 0x4444), s1)"
    using rejoin_answer_std [of s1] assms s1 by (simp add: numeral_2_eq_2)
  have "get_ext_addr s1 = 9" using s1 assms by (simp add: get_ext_addr_def)
  with send wait show ?thesis
    by (simp add: try_rejoin_def act_then_def set_channel_def set_pan_id_def mac_update_def act_modify_def act_bind_def
        received_def act_gets_def act_return_def accept_rejoin_def nwk_header_cmd_no_ctx_def nwk_header_new_no_ctx_def
        ext_addr_default_def)
qed

lemma discovery_std:
  "\<exists>nd nd' s1. network_discovery rejoin_env_std rejoin_radio_std [channel_mask_new ChannelPage0 [Channel15]] nwk_std =
      Done (Inr [nd, nd'], s1) \<and> nk_ctx s1 = nk_ctx nwk_std \<and> ms_ext_addr (nk_mac s1) = 9 \<and>
      ms_short_address (nk_mac s1) = Some 0x1001 \<and> length (nk_sent s1) = 1 \<and> nd_extended_pan_id nd = 0x99 \<and>
      nd_pan_id nd = 0x1a62 \<and> nd_logical_channel nd = Channel15 \<and> nd_neighbors nd \<noteq> [] \<and>
      (\<forall>d\<in>set (nd_neighbors nd). is_potential_parent False ReducedFunctionDevice d \<and> jd_depth (pdd_join_data d) = 1)"
proof -
  have masks: "intersect_with (channel_mask_new ChannelPage0 [Channel15]) (rd_channel_mask radio_std) =
      Done (channel_mask_new ChannelPage0 [Channel15])" "channel_mask_new ChannelPage0 [Channel15] \<noteq> 0"
    unfolding radio_std_def by code_simp+
  have chs: "filter (channel_is_set (channel_mask_new ChannelPage0 [Channel15])) channels_all = [Channel15]"
    by code_simp
  have cost: "compute_routing_cost 200 \<le> Cost3" by code_simp
  show ?thesis
    by (simp add: network_discovery_def masks chs cost act_run_def act_bind_def mac_scan_def scan_channel_active_def set_channel_def
        mac_update_def mac_send_def received_def act_gets_def act_modify_def act_then_def act_return_def Let_def env_std_simps
        rejoin_env_std_def rejoin_radio_std_def nwk_std_def is_potential_parent_def discovered_device_def
        beacon_radio_std_def beacon_std_def scanned_beacon_def pan_descriptor_of_def List.map_filter_simps
        add_descriptor_def discovered_network_def)
qed

theorem rejoin_keeps_address_witness:
  "\<exists>s'. rejoin rejoin_env_std rejoin_radio_std \<lparr> rj_ext_pan_id = 0x99,
       rj_channels = [channel_mask_new ChannelPage0 [Channel15]], rj_capability_information = zb_caps_std \<rparr> nwk_std =
     Done (Inr JoinedAsEndDevice, s') \<and> ms_short_address (nk_mac s') = Some 0x1001"
proof -
  let ?req = "\<lparr> rj_ext_pan_id = 0x99, rj_channels = [channel_mask_new ChannelPage0 [Channel15]],
    rj_capability_information = zb_caps_std \<rparr>"
  have caps: "zc_device_type zb_caps_std = ReducedFunctionDevice" by (simp add: zb_caps_std_def)
  obtain nd nd' s1 where disc: "network_discovery rejoin_env_std rejoin_radio_std [channel_mask_new ChannelPage0 [Channel15]] nwk_std =
      Done (Inr [nd, nd'], s1)" and s1: "nk_ctx s1 = nk_ctx nwk_std" "ms_ext_addr (nk_mac s1) = 9"
      "ms_short_address (nk_mac s1) = Some 0x1001" "length (nk_sent s1) = 1"
    and nd: "nd_extended_pan_id nd = 0x99" "nd_pan_id nd = 0x1a62" "nd_logical_channel nd = Channel15" "nd_neighbors nd \<noteq> []"
      "\<forall>d\<in>set (nd_neighbors nd). is_potential_parent False ReducedFunctionDevice d \<and> jd_depth (pdd_join_data d) = 1"
    using discovery_std by blast
  let ?ps = "get_potential_parents False ReducedFunctionDevice nd"
  from nd(4,5) potential_parents_spec [of False ReducedFunctionDevice nd]
  have "set ?ps = {i. i < length (nd_neighbors nd)}" by (auto simp: nth_mem)
  with nd(4) obtain i ps where ps: "?ps = i # ps" "i < length (nd_neighbors nd)"
    by (cases ?ps) (auto simp: set_eq_iff)
  from ps(2) nd(5) have depth: "jd_depth (pdd_join_data (nd_neighbors nd ! i)) = 1" by simp
  obtain parent s2 where "try_rejoin rejoin_env_std rejoin_radio_std Channel15 0x1a62 zb_caps_std s1 = Done (Some parent, s2)"
    using try_rejoin_std [OF s1] by blast
  then have run: "\<exists>s'. rejoin rejoin_env_std rejoin_radio_std ?req nwk_std = Done (Inr JoinedAsEndDevice, s')"
    using disc nd ps depth
    by (simp add: rejoin_def act_bind_def caps to_joined_pending_def neighbors_update_def ctx_update_def act_modify_def
        act_then_def act_run_def act_return_def joined_depth_def chk_add_def joined_mode_def)
  then obtain s' where run: "rejoin rejoin_env_std rejoin_radio_std ?req nwk_std = Done (Inr JoinedAsEndDevice, s')" by blast
  from rejoin_keeps_address [OF run nwk_std_simps(7)] run show ?thesis by blast
qed

section \<open>Restart\<close>

text \<open>The fields with the attribute \<open>byte(ignore = true)\<close> are not stored; the derived reader gives them their
  defaults. What is left of a neighbor and of a key:\<close>

definition stored_neighbor :: "instant \<Rightarrow> nwk_neighbor \<Rightarrow> nwk_neighbor" where
  "stored_neighbor now nb = (neighbor_default now)\<lparr> nb_ext_addr := nb_ext_addr nb, nb_nwk_addr := nb_nwk_addr nb,
     nb_device_type := nb_device_type nb, nb_end_device_configuration := nb_end_device_configuration nb,
     nb_device_timeout := nb_device_timeout nb, nb_relationship := nb_relationship nb \<rparr>"

definition stored_material :: "security_material \<Rightarrow> security_material" where
  "stored_material sm = sm\<lparr> sm_incoming_frame_counter_set := [] \<rparr>"

text \<open>What is relied upon when a stored context \<open>p\<close> is read as \<open>q\<close>: the fields up to the list of keys, in the
  order of the record, and that list, which is stored without its length, so that the reader may find more
  entries in the bytes that follow it. The neighbor table, which comes after the list, is not relied upon.\<close>

definition reads_as :: "instant \<Rightarrow> persistent_nwk_context \<Rightarrow> persistent_nwk_context \<Rightarrow> bool" where
  "reads_as now p q \<longleftrightarrow> pn_addr q = pn_addr p \<and> pn_ext_pan_id q = pn_ext_pan_id p \<and> pn_pan_id q = pn_pan_id p \<and>
     pn_parent q = stored_neighbor now (pn_parent p) \<and> pn_parent_information q = pn_parent_information p \<and>
     pn_profile q = pn_profile p \<and> pn_depth q = pn_depth p \<and>
     pn_active_key_seq_number q = pn_active_key_seq_number p \<and> pn_all_fresh q = pn_all_fresh p \<and>
     (\<exists>extra. pn_security_material_set q = map stored_material (pn_security_material_set p) @ extra)"

lemma stored_same:
  "sm_key_seq_number (stored_material k) = sm_key_seq_number k" "sm_key (stored_material k) = sm_key k"
  "sm_outgoing_frame_counter (stored_material k) = sm_outgoing_frame_counter k"
  "bump_counter (stored_material k) = stored_material (bump_counter k)"
  "nwk_aux_header level ext (stored_material k) = nwk_aux_header level ext k"
  by (simp_all add: stored_material_def bump_counter_def nwk_aux_header_def)

lemma find_material_append:
  "find_material n (xs @ ys) = (case find_material n xs of None \<Rightarrow> find_material n ys | Some sm \<Rightarrow> Some sm)"
  by (induction xs) (auto simp: find_material_def)

lemma find_material_stored: "find_material n (map stored_material keys) = map_option stored_material (find_material n keys)"
  by (induction keys) (auto simp: find_material_def stored_same)

lemma bump_stored:
  "find_material n keys = Some sm \<Longrightarrow> update_first (\<lambda>k. sm_key_seq_number k = n) bump_counter (map stored_material keys @ extra) =
     map stored_material (update_first (\<lambda>k. sm_key_seq_number k = n) bump_counter keys) @ extra"
  by (induction keys) (auto simp: stored_same find_material_def split: if_splits)

text \<open>The counters of received frames and the keys after the active one are not looked at when a frame is
  built.\<close>

lemma encrypted_stored:
  assumes "find_material active keys = Some sm"
  shows "make_encrypted_frame C W D f buf ext level active (map stored_material keys @ extra) =
     run_map (\<lambda>(r, keys', b). (r, map stored_material keys' @ extra, b)) (make_encrypted_frame C W D f buf ext level active keys)"
proof -
  have step: "run_map (case_sum (\<lambda>e. (Inl e, map stored_material keys @ extra, False)) (\<lambda>x. (Inr x, map stored_material k' @ extra, b))) m =
      run_map (\<lambda>(r, keys', b). (r, map stored_material keys' @ extra, b))
        (run_map (case_sum (\<lambda>e. (Inl e, keys, False)) (\<lambda>x. (Inr x, k', b))) m)"
    for k' b and m :: "('x + 'y) run"
  proof (cases m)
    case (Done y)
    then show ?thesis by (cases y) simp_all
  qed simp
  from assms show ?thesis
    by (cases f) (simp_all add: make_encrypted_frame_def find_material_append find_material_stored stored_same
      bump_stored Let_def step)
qed

lemma build_mac_payload_stored:
  assumes "get_ext_addr t = get_ext_addr s" and "profile_params t = profile_params s"
    and "cx_active_key_seq_number (nk_ctx t) = cx_active_key_seq_number (nk_ctx s)"
    and "cx_security_material_set (nk_ctx t) = map stored_material (cx_security_material_set (nk_ctx s)) @ extra"
    and "find_material (cx_active_key_seq_number (nk_ctx s)) (cx_security_material_set (nk_ctx s)) = Some sm"
  shows "build_mac_payload E f b t = (case build_mac_payload E f b s of Panic \<Rightarrow> Panic
    | Done (r, s1) \<Rightarrow> Done (r, t\<lparr> nk_ctx := (nk_ctx t)\<lparr> cx_security_material_set :=
        map stored_material (cx_security_material_set (nk_ctx s1)) @ extra \<rparr> \<rparr>))"
proof (cases "make_encrypted_frame (ev_crypto E) (ev_wire E) (ev_codecs E) f b (get_ext_addr s)
    (nwk_security_level (profile_params s)) (cx_active_key_seq_number (nk_ctx s)) (cx_security_material_set (nk_ctx s))")
  case (Done x)
  then show ?thesis
    by (cases x) (simp add: build_mac_payload_def build_mac_payload_with_def assms(1-4) encrypted_stored [OF assms(5)])
qed (simp add: build_mac_payload_def build_mac_payload_with_def assms(1-4) encrypted_stored [OF assms(5)])

text \<open>C37. A device that persists its context and loads it again, if the derived codec reads the bytes and
  gives the fields that are stored, has its addresses, profile, depth and keys, and its parent with the fields that are stored; the costs
  and the timeout of the parent, the counters of received frames, the neighbor table, though it was persisted, the
  address map, the groups, the update id and the sequence number are lost. The outgoing frame counters are those of
  the moment of persisting: with an active key, every frame it builds after the restart has the bytes that the same
  frame had then, so frames that were sent in between share their counters and nonces with it.\<close>
theorem reload_repeats_counters:
  assumes "nwk_persist enc s = Done (Inr buf, s0)"
    and "\<And>p q. enc p = Inr buf \<Longrightarrow> dec buf = Inr q \<Longrightarrow> reads_as now p q"
    and "ms_ext_addr mac = get_ext_addr s" and "nwk_load now dec buf mac = Inr t"
  shows "s0 = s \<and>
    ms_short_address (nk_mac t) = ms_short_address (nk_mac s) \<and> ms_pan_id (nk_mac t) = ms_pan_id (nk_mac s) \<and>
    ms_extended_pan_id (nk_mac t) = ms_extended_pan_id (nk_mac s) \<and> nwk_parent t = stored_neighbor now (nwk_parent s) \<and>
    profile_params t = profile_params s \<and> cx_depth (nk_ctx t) = cx_depth (nk_ctx s) \<and>
    neighbors t = [] \<and> cx_addr_map (nk_ctx t) = [] \<and> cx_group_table (nk_ctx t) = [] \<and>
    cx_update_id (nk_ctx t) = 0 \<and> nk_seq_number t = 0 \<and>
    (\<exists>extra. cx_security_material_set (nk_ctx t) = map stored_material (cx_security_material_set (nk_ctx s)) @ extra \<and>
      (\<forall>sm E f b. find_material (cx_active_key_seq_number (nk_ctx s)) (cx_security_material_set (nk_ctx s)) = Some sm \<longrightarrow>
        build_mac_payload E f b t = (case build_mac_payload E f b s of
           Panic \<Rightarrow> Panic
         | Done (r, s1) \<Rightarrow> Done (r, t\<lparr> nk_ctx := (nk_ctx t)\<lparr> cx_security_material_set :=
             map stored_material (cx_security_material_set (nk_ctx s1)) @ extra \<rparr> \<rparr>))))"
proof -
  from assms(1) obtain p where p: "persistent_of s = Done (p, s0)" "enc p = Inr buf"
    by (auto simp: nwk_persist_def act_return_def elim!: act_bindE)
  from p(1) have s0: "s0 = s" and addr: "ms_short_address (nk_mac s) = Some (pn_addr p)"
      "ms_pan_id (nk_mac s) = Some (pn_pan_id p)" "ms_extended_pan_id (nk_mac s) = Some (pn_ext_pan_id p)"
    and rest: "pn_parent p = nwk_parent s" "pn_profile p = cx_profile (nk_ctx s)" "pn_depth p = cx_depth (nk_ctx s)"
      "pn_active_key_seq_number p = cx_active_key_seq_number (nk_ctx s)"
      "pn_security_material_set p = cx_security_material_set (nk_ctx s)"
    by (auto simp: persistent_of_def get_addr_def get_pan_id_def get_ext_pan_id_def act_run_def unwrap_run_def act_gets_def
        elim!: act_bindE split: option.splits)
  have "\<exists>q. dec buf = Inr q" using assms(4) by (cases "dec buf") (simp_all add: nwk_load_def)
  then obtain q where q: "dec buf = Inr q" by blast
  from assms(2) [OF p(2) q] obtain extra where law: "reads_as now p q"
    and keys: "pn_security_material_set q = map stored_material (pn_security_material_set p) @ extra"
    by (auto simp: reads_as_def)
  have "get_ext_addr t = get_ext_addr s" "profile_params t = profile_params s"
    "cx_active_key_seq_number (nk_ctx t) = cx_active_key_seq_number (nk_ctx s)"
    "cx_security_material_set (nk_ctx t) = map stored_material (cx_security_material_set (nk_ctx s)) @ extra"
    using assms(3,4) q law keys rest by (auto simp: nwk_load_def get_ext_addr_def profile_params_def reads_as_def)
  note build_mac_payload_stored [OF this] and this
  moreover have "ms_short_address (nk_mac t) = ms_short_address (nk_mac s)" "ms_pan_id (nk_mac t) = ms_pan_id (nk_mac s)"
    "ms_extended_pan_id (nk_mac t) = ms_extended_pan_id (nk_mac s)" "nwk_parent t = stored_neighbor now (nwk_parent s)"
    "cx_depth (nk_ctx t) = cx_depth (nk_ctx s)" "neighbors t = []" "cx_addr_map (nk_ctx t) = []"
    "cx_group_table (nk_ctx t) = []" "cx_update_id (nk_ctx t) = 0" "nk_seq_number t = 0"
    using assms(4) q law addr rest
    by (auto simp: nwk_load_def nwk_parent_def neighbors_def neighbor_table_new_def reads_as_def)
  ultimately show ?thesis using s0 by blast
qed

text \<open>A device whose parent has costs and which has received a frame: neither comes back.\<close>

definition nwk_heard_std :: nwk where
  "nwk_heard_std = nwk_std\<lparr> nk_ctx := (nk_ctx nwk_std)\<lparr> cx_security_material_set :=
     [sm_std\<lparr> sm_incoming_frame_counter_set := [\<lparr> ifc_sender_address = 5, ifc_counter = 7 \<rparr>] \<rparr>],
     cx_neighbors := neighbor_table_new ((neighbor_default 0)\<lparr> nb_rx_on_when_idle := True \<rparr>) [] \<rparr> \<rparr>"

theorem reload_repeats_counters_witness:
  "\<exists>t p q. persistent_of nwk_heard_std = Done (p, nwk_heard_std) \<and> reads_as 5 p q \<and>
     nwk_load 5 (\<lambda>_. Inr q) [1] (nk_mac nwk_heard_std) = Inr t \<and> neighbors t = [] \<and>
     ms_short_address (nk_mac t) = Some 0x1001 \<and> cx_security_material_set (nk_ctx t) = [sm_std, sm_std] \<and>
     \<not> nb_rx_on_when_idle (nwk_parent t)"
proof -
  obtain p where p: "persistent_of nwk_heard_std = Done (p, nwk_heard_std)"
    by (simp add: persistent_of_def act_bind_def get_addr_def get_pan_id_def get_ext_pan_id_def act_run_def unwrap_run_def
        act_gets_def nwk_heard_std_def nwk_std_def)
  define q where "q = p\<lparr> pn_parent := stored_neighbor 5 (pn_parent p), pn_neighbor_table := None,
    pn_security_material_set := map stored_material (pn_security_material_set p) @ [sm_std] \<rparr>"
  let ?enc = "\<lambda>c. if c = p then Inr [1] else Inl Incomplete" and ?dec = "\<lambda>_. Inr q"
  have law: "reads_as 5 p q" by (simp add: reads_as_def q_def)
  have persist: "nwk_persist ?enc nwk_heard_std = Done (Inr [1], nwk_heard_std)"
    by (simp add: nwk_persist_def act_bind_def p act_return_def)
  have reads: "reads_as 5 c r" if "?enc c = Inr [1]" "?dec [1] = Inr r" for c r using that law by (auto split: if_splits)
  have ext: "ms_ext_addr (nk_mac nwk_heard_std) = get_ext_addr nwk_heard_std" by (simp add: get_ext_addr_def)
  obtain t where load: "nwk_load 5 ?dec [1] (nk_mac nwk_heard_std) = Inr t" by (simp add: nwk_load_def)
  from reload_repeats_counters [OF persist reads ext load]
  have t: "neighbors t = []" "ms_short_address (nk_mac t) = ms_short_address (nk_mac nwk_heard_std)"
      "nwk_parent t = stored_neighbor 5 (nwk_parent nwk_heard_std)" by blast+
  have "pn_security_material_set p = cx_security_material_set (nk_ctx nwk_heard_std)"
    using p by (auto simp: persistent_of_def act_gets_def elim!: act_bindE)
  then have "cx_security_material_set (nk_ctx t) = [sm_std, sm_std]"
    using load by (auto simp: nwk_load_def q_def nwk_heard_std_def stored_material_def sm_std_def)
  with p law load t show ?thesis
    by (intro exI [of _ t] exI [of _ p] exI [of _ q])
      (auto simp: nwk_heard_std_def nwk_std_simps stored_neighbor_def neighbor_default_def)
qed

end
