(* ===== verification/Zdo_Steering.thy ===== *)
theory Zdo_Steering
  imports Zdo_Safety Joining
begin

text \<open>
  What holds of a node that steering has brought into a network, of its authorization, its network key and
  its link key; and what is left of that after a restart.
\<close>

section \<open>Results that are nothing but success\<close>

lemma unit_result: "\<forall>e. x \<noteq> Inl e \<Longrightarrow> x = Inr ()"
  by (cases x) auto

lemma map_unit_result [simp]: "map_sum f id x = Inr () \<longleftrightarrow> x = Inr ()"
  by (cases x) simp_all

section \<open>Announcing needs a key\<close>

lemma built_data_frame:
  assumes "build_data_frame nsdu (aps_frame_config dst al radius) s = Done (d, s')"
  shows "is_secured (Data d) \<and> \<not> is_reserved (Data d) \<and> \<not> fc_multicast (nh_control (df_header d)) \<and>
    df_destination d = dst \<and> nk_ctx s' = nk_ctx s"
  using assms
  by (auto simp: build_data_frame_def aps_frame_config_def act_bind_Done act_gets_def act_run_def get_addr_def
      get_next_seq_number_def act_return_def nwk_header_new_def nwk_header_new_no_ctx_def is_secured_def
      is_reserved_def df_destination_def frame_header_def run_simps split: option.splits)

lemma broadcast_without_key:
  assumes "find_material (cx_active_key_seq_number (nk_ctx s)) (cx_security_material_set (nk_ctx s)) = None"
    and "is_broadcast dst" and "transmit_data_frame E mode bs (aps_frame_config dst al radius) s = Done (r, s')"
  shows "r \<noteq> Inr ()"
proof (cases "build_data_frame bs (aps_frame_config dst al radius) s")
  case (Done p)
  obtain d s1 where p: "p = (d, s1)" by (cases p)
  have step: "act_bind (build_data_frame bs (aps_frame_config dst al radius)) f s = f d s1" for f :: "data_frame \<Rightarrow> transfer_result act"
    using Done p by (simp add: act_bind_of)
  note built = built_data_frame [OF Done [unfolded p]]
  have "find_material (cx_active_key_seq_number (nk_ctx s1)) (cx_security_material_set (nk_ctx s1)) = None"
    using assms(1) built by simp
  then have refused: "transmit_frame E (Data d) hop ack s1 = Done (Inl (SecurityFailed KeyNotFound), s1)" for hop ack
    using no_key_transmit built by blast
  have "\<not> is_unicast (df_destination d)" using built assms(2) by (simp add: is_unicast_def)
  with assms(3) show ?thesis
    by (auto simp: transmit_data_frame_def transmit_data_frame_end_device_def transmit_data_frame_routing_def
        step built act_gets_bind refused split: if_splits)
qed (use assms(3) in \<open>auto simp: transmit_data_frame_def transmit_data_frame_end_device_def
    transmit_data_frame_routing_def act_bind_def split: if_splits\<close>)

lemma plain_broadcast_without_key:
  assumes "find_material (cx_active_key_seq_number (nk_ctx (as_nwk a))) (cx_security_material_set (nk_ctx (as_nwk a))) = None"
    and "is_broadcast dst" and "\<not> tx_security_enabled (rq_tx_options rq)" and "rq_alias rq = None"
    and "send_plain E R A mode rq (ApsNetwork dst ep) a = Done (r, a')"
  shows "r \<noteq> Inr ()"
proof (rule notI)
  assume "r = Inr ()"
  with assms(5) obtain bs c where c: "transfer_single E R A mode (ApsNetwork dst ep) rq bs a = Done (Inr (), a')"
    by (auto simp: send_plain_def act_return_def split: sum.splits prod.splits if_splits)
  then obtain a1 a2 c r1 where counter: "get_aps_counter a = Done (c, a1)"
    and sent: "aps_send_data E A mode (ApsNetwork dst ep) rq bs None c a1 = Done (r1, a2)"
    and rest: "(case r1 of Inl e \<Rightarrow> act_return (Inl e) | Inr _ \<Rightarrow>
        if tx_acknowledged (rq_tx_options rq) then act_bind (wait_for_ack E R A mode c)
           (\<lambda>h. act_return (if h = None then Inl ApsNoAck else Inr ()))
        else act_return (Inr ())) a2 = Done (Inr (), a')"
    by (auto simp: transfer_single_def act_bind_Done)
  have "r1 = Inr ()" using rest by (cases r1) (simp_all add: act_return_def)
  with sent assms(3,4) obtain x n where "transmit_data_frame E mode x (aps_frame_config dst None (rq_radius rq)) (as_nwk a1) = Done (Inr (), n)"
    by (auto simp: aps_send_data_def aps_transfer_def aps_frame_bytes_def Let_def act_bind_Done act_return_def
        get_nwk_address_def with_nwk_within nwk_part.within_Done split: sum.splits)
  moreover have "as_nwk a1 = as_nwk a" using counter by (auto simp: get_aps_counter_def)
  ultimately show False using broadcast_without_key [OF _ assms(2)] assms(1) by metis
qed

lemma announced_with_key:
  assumes "emit_device_annce N s = Some (Done (Inr (), s'))"
  shows "find_material (cx_active_key_seq_number (nk_ctx (nwk_of s))) (cx_security_material_set (nk_ctx (nwk_of s))) \<noteq> None"
proof
  assume none: "find_material (cx_active_key_seq_number (nk_ctx (nwk_of s))) (cx_security_material_set (nk_ctx (nwk_of s))) = None"
  from assms obtain d s1 where "node_nwk get_addr s = Done (d, s1)" by (auto simp: emit_device_annce_def split: run.splits)
  then have "s1 = s" by (auto simp: node_nwk_def with_aps_def aps_part.within_Done with_nwk_within nwk_part.within_Done get_addr_def
      act_run_def run_simps)
  with assms \<open>node_nwk get_addr s = Done (d, s1)\<close> obtain x where
    "transmit_zdp_command N (ApsdeNetwork BROADCAST_RX_ON_IDLE ZDP_ENDPOINT) x None s = Some (Done (Inr (), s'))"
    by (auto simp: emit_device_annce_def act_gets_def)
  then obtain q a where "send_plain (ne_env N) (ne_radio N) (ne_aps N) (nd_mode s)
      (zdp_request N (ApsdeNetwork BROADCAST_RX_ON_IDLE ZDP_ENDPOINT) x q) (ApsNetwork BROADCAST_RX_ON_IDLE ZDP_ENDPOINT)
      (nd_aps s) = Done (Inr (), a)"
    by (auto simp: transmit_zdp_command_def aps_in_node_def aps_part.lp_within_Done aps_data_request_def zdp_request_dst
        aps_data_transfer_plain [OF zdp_plain(1)] lp_of_def)
  from plain_broadcast_without_key [OF none _ _ _ this] show False
    by (simp add: address_defs zdp_request_def tx_options_default_def)
qed

section \<open>The keys of a node that is authenticated\<close>

text \<open>The link key of a node in a network: the key that everybody knows, or a key of its own that was confirmed.\<close>

definition well_known :: "device_key_pair \<Rightarrow> bool" where
  "well_known d \<longleftrightarrow> dk_link_key d = TRUST_CENTER_LINK_KEY \<and> dk_link_key_type d = GlobalLinkKey"

definition own_key :: "device_key_pair \<Rightarrow> bool" where
  "own_key d \<longleftrightarrow> dk_link_key_type d = UniqueLinkKey \<and> dk_key_attributes d = VerifiedKey"

definition unique_key :: "device_key_pair \<Rightarrow> bool" where
  "unique_key d \<longleftrightarrow> dk_link_key_type d = UniqueLinkKey"

lemma respected_keys [simp]:
  "respected well_known" "respected own_key" "respected unique_key" "respected (\<lambda>d. well_known d \<or> own_key d)"
  by (simp_all add: respected_def well_known_def own_key_def unique_key_def confirm_link_key_def)

lemma link_state_mono: "link_state v b bt P a \<Longrightarrow> (\<And>d. P d \<Longrightarrow> Q d) \<Longrightarrow> link_state v b bt Q a"
  by (auto simp: link_state_def)

abbreviation node_link where
  "node_link v b bt P s \<equiv> link_state v b bt P (nd_aps s)"

lemma keeps_node_link [keeps_rules]: "keeps (link_state v b bt P) m \<Longrightarrow> keeps (node_link v b bt P) (with_aps m)"
  unfolding with_aps_def by (rule aps_part.keeps_part)

lemma node_link_wait [keeps_rules]: "respected P \<Longrightarrow> keeps (node_link v b bt P) (node_wait N R eval)"
  unfolding node_wait_def by (intro keeps_rules)

lemma send_plain_link:
  assumes "respected P" and "\<not> tx_acknowledged (rq_tx_options rq)"
  shows "keeps (link_state v b bt P) (send_plain E R A mode rq dst)"
proof -
  have counter: "keeps (link_state v b bt P) get_aps_counter"
    by (auto simp: keeps_def get_aps_counter_def link_state_def)
  show ?thesis
    using assms(2) unfolding send_plain_def transfer_single_def aps_send_data_def
    by (intro keeps_rules counter assms(1)) simp
qed

lemma transmit_link [loop_rules]:
  assumes "respected P"
  shows "lp_keeps (node_link v b bt P) (transmit_zdp_command N (ApsdeNetwork dst ep) d seq)"
proof -
  have "node_link v b bt P s'" if "node_link v b bt P s"
    and "transmit_zdp_command N (ApsdeNetwork dst ep) d seq s = Some (Done (r, s'))" for s r s'
  proof -
    from that(2) obtain q a where "send_plain (ne_env N) (ne_radio N) (ne_aps N) (nd_mode s)
        (zdp_request N (ApsdeNetwork dst ep) d q) (ApsNetwork dst ep) (nd_aps s) = Done (r, a)" and "s' = s\<lparr> nd_aps := a \<rparr>"
      by (auto simp: transmit_zdp_command_def aps_in_node_def aps_part.lp_within_Done aps_data_request_def
          zdp_request_dst aps_data_transfer_plain [OF zdp_plain(1)] lp_of_def)
    with keepsD [OF send_plain_link [OF assms zdp_plain(1)] that(1)] show ?thesis by simp
  qed
  then show ?thesis by (auto simp: lp_keeps_def)
qed

lemma annce_link [loop_rules]: "respected P \<Longrightarrow> lp_keeps (node_link v b bt P) (emit_device_annce N)"
  unfolding emit_device_annce_def node_nwk_def
  by (intro loop_rules keeps_rules) (auto simp: with_nwk_within intro!: keepsI dest!: nwk_part.within_Done [THEN iffD1]
      simp: get_addr_def act_run_def run_simps)

lemma permit_link [loop_rules]:
  "respected P \<Longrightarrow> lp_keeps (node_link v b bt P) (emit_permit_joining_req N req (ApsdeNetwork dst ep))"
  unfolding emit_permit_joining_req_def by (intro loop_rules keeps_rules)

lemma wait_for_nwk_key_link:
  assumes "wait_for_nwk_key N s = Done (True, s')" and "node_link (x, y, z, q, []) b bt well_known s"
  shows "\<exists>m. node_link (x, y, z, q, [m]) b bt well_known s'"
proof -
  from assms(1) obtain w s1 where wait: "node_wait N (ne_key_radio N) network_key_of s = Done (w, s1)"
    and rest: "(case w of None \<Rightarrow> act_return False | Some (src, d) \<Rightarrow>
       act_then (with_aps (keys_update (update_first (\<lambda>k. dk_link_key_type k = GlobalLinkKey)
           (\<lambda>k. k\<lparr> dk_device_address := src \<rparr>))))
       (act_then (node_nwk (add_network_key d)) (act_return True))) s1 = Done (True, s')"
    by (auto simp: wait_for_nwk_key_def act_bind_Done)
  have "node_link (x, y, z, q, []) b bt well_known s1"
    by (rule keepsD [OF node_link_wait assms(2) wait]) simp
  with rest show ?thesis
    by (cases w) (auto simp: act_return_def act_then_def act_bind_Done keys_update_def act_modify_def with_aps_def
        aps_part.within_Done node_nwk_def with_nwk_within nwk_part.within_Done add_network_key_def ctx_update_def
        link_state_def identity_def well_known_def)
qed

lemma exchange_link:
  assumes "exchange_link_key N s = Done (True, s')" and "node_link v b bt well_known s"
  shows "node_link v b bt (\<lambda>d. well_known d \<or> own_key d) s'"
proof (cases "as_security_network_params (nd_aps s)")
  case Distributed
  with assms show ?thesis
    by (auto simp: exchange_link_key_def act_gets_bind act_return_def intro: link_state_mono)
next
  case (Centralized tc)
  with assms(1) obtain s1 where "update_trust_center_link_key N s = Done (Inr (), s1)" and "s' = s1"
    by (auto simp: exchange_link_key_def act_gets_bind act_return_def act_bind_Done act_then_def split: sum.splits
        dest!: unit_result)
  with Centralized obtain s2 s3 s4 s5 src k c where
    asked: "with_aps (aps_request_key (ne_env N) (ne_aps N) (nd_mode s) tc RequestTrustCenterLinkKey) s = Done (Inr (), s2)" and
    got: "node_wait N (ne_radio N) trust_center_key_of s2 = Done (Some (src, k), s3)" and
    put: "with_aps (install_link_key src k) s3 = Done ((), s4)" and
    verified: "with_aps (verify_key (ne_env N) (ne_aps N) (nd_mode s)) s4 = Done (Inr (), s5)" and
    last: "node_wait N (ne_radio N) confirmation_of s5 = Done (Some c, s')" and "c = ConfirmSuccess"
    by (auto simp: update_trust_center_link_key_def act_gets_bind get_tc_addr_def act_bind_Done act_return_def act_then_def
        split: sum.splits option.splits if_splits dest!: unit_result)
  have "node_link v b bt well_known s3"
    by (rule keepsD [OF node_link_wait keepsD [OF keeps_node_link assms(2) asked] got]) (simp_all add: keeps_rules)
  with put have "node_link v b bt unique_key s4"
    by (auto simp: with_aps_def aps_part.within_Done install_link_key_def act_gets_bind keys_update_def act_modify_def
        link_state_def unique_key_def unverified_key_def act_panic_def split: if_splits)
  then have "node_link v b bt unique_key s5"
    by (rule keepsD [OF keeps_node_link _ verified, rotated]) (simp add: keeps_rules)
  then have "node_link v b bt (\<lambda>d. unique_key d \<and> dk_key_attributes d = VerifiedKey) s'"
  proof -
    assume link: "node_link v b bt unique_key s5"
    from last obtain a where "wait_for_indication (ne_env N) (ne_radio N) (ne_aps N) (nd_mode s5) confirmation_of (nd_aps s5) =
        Done (Some c, a)" and a: "nd_aps s' = a"
      by (auto simp: node_wait_def act_gets_bind with_aps_def aps_part.within_Done)
    from wait_last [where I = "link_state v b bt unique_key", OF _ this(1) link]
    obtain a1 rf i where a1: "link_state v b bt unique_key a1"
      and step: "listen_aps_step (ne_env N) (ne_radio N) (ne_aps N) (nd_mode s5) rf a1 = Done (Some i, a)"
      and i: "confirmation_of i = Some c" by (auto simp: keeps_rules)
    have "confirms (Some i)" using i \<open>c = ConfirmSuccess\<close> by (auto simp: confirmation_of_def split: aps_indication.splits)
    from listen_link_state(2) [OF _ a1 step this] show ?thesis by (simp add: a)
  qed
  then show ?thesis by (auto intro: link_state_mono simp: own_key_def unique_key_def)
qed

section \<open>The network that is joined\<close>

definition fresh_member :: "nwk \<Rightarrow> bool" where
  "fresh_member n \<longleftrightarrow> cx_active_key_seq_number (nk_ctx n) = 0 \<and> cx_security_material_set (nk_ctx n) = []"

lemma association_join_fresh:
  assumes "association_join E R nd caps s = Done ((Inr m, nd'), s')"
  shows "fresh_member s' \<and> m = joined_mode caps"
proof -
  from assms obtain q ds s1 where
    "associate_loop E R (nd_logical_channel nd) (nd_pan_id nd) caps (get_potential_parents True (zc_device_type caps) nd)
      (JoinNotPermitted ''no potential parent devices found'') (nd_neighbors nd) s = Done ((q, ds), s1)" and
    rest: "(case q of Inl e \<Rightarrow> act_return (Inl e, nd\<lparr> nd_neighbors := ds \<rparr>)
      | Inr i \<Rightarrow> act_bind (to_joined E (ds ! i) (map (\<lambda>j. pdd_neighbor (ds ! j)) (filter (\<lambda>j. j \<noteq> i)
          (get_potential_parents True (zc_device_type caps) nd))) (nd_stack_profile nd) caps)
          (\<lambda>mode. act_return (Inr mode, nd\<lparr> nd_neighbors := ds \<rparr>))) s1 = Done ((Inr m, nd'), s')"
    by (auto simp: association_join_def Let_def act_bind_Done)
  show ?thesis
    using rest
    by (cases q) (auto simp: act_bind_Done act_return_def fresh_member_def nwk_context_default_def elim!: to_joined_Done)
qed

lemma join_attempts_fresh:
  "join_attempts E R caps k nd s = Done (Some m, s') \<Longrightarrow> fresh_member s' \<and> m = joined_mode caps"
proof (induction k arbitrary: nd s)
  case (Suc k)
  from Suc.prems obtain r nd1 s1 where join: "association_join E R nd caps s = Done ((r, nd1), s1)"
    and rest: "(case r of Inr mode \<Rightarrow> act_return (Some mode) | Inl _ \<Rightarrow> join_attempts E R caps k nd1) s1 = Done (Some m, s')"
    by (auto simp: act_bind_Done)
  show ?case
  proof (cases r)
    case (Inl e)
    with rest Suc.IH show ?thesis by simp
  next
    case (Inr mode)
    with rest join association_join_fresh show ?thesis by (auto simp: act_return_def)
  qed
qed (simp add: act_return_def)

lemma join_networks_fresh:
  "join_networks E R caps nds s = Done (Some m, s') \<Longrightarrow> fresh_member s' \<and> m = joined_mode caps"
proof (induction nds arbitrary: s)
  case (Cons nd nds)
  then show ?case
    by (auto simp: act_bind_Done act_return_def simp del: join_attempts.simps split: option.splits dest: join_attempts_fresh)
qed (simp add: act_return_def)

lemma join_on_channels_fresh:
  "join_on_channels N caps m n = Done (Some mode, n') \<Longrightarrow> fresh_member n' \<and> mode = joined_mode caps"
proof -
  assume "join_on_channels N caps m n = Done (Some mode, n')"
  then obtain r n1 where "network_discovery (ne_env N) (ne_radio N) [m] n = Done (r, n1)" and rest: "(case r of Inl _ \<Rightarrow> act_return None
      | Inr nds \<Rightarrow> join_networks (ne_env N) (ne_radio N) caps (filter is_permit_joining nds)) n1 = Done (Some mode, n')"
    by (auto simp: join_on_channels_def act_bind_Done)
  from rest show ?thesis by (cases r) (auto simp: act_return_def dest: join_networks_fresh)
qed

section \<open>Steering\<close>

lemma aps_load_new: "\<exists>bt gt. aps_load_or_default N n g = aps_new n bt gt"
  by (auto simp: aps_load_or_default_def Let_def split: sum.splits)

lemma authenticated_link:
  assumes "authenticate N s = Some (Done (True, s'))" and "node_link (x, y, z, q, []) False bt well_known s"
  shows "\<exists>m. sm_key_seq_number m = q \<and> node_link (x, y, z, q, [m]) True bt (\<lambda>d. well_known d \<or> own_key d) s'"
proof -
  from assms(1) obtain s1 s2 s3 s4 r where
    key: "wait_for_nwk_key N s = Done (True, s1)" and
    auth: "with_aps set_authorized s1 = Done ((), s2)" and
    annce: "emit_device_annce N s2 = Some (Done (Inr (), s3))" and
    link: "exchange_link_key N s3 = Done (True, s4)" and
    permit: "emit_permit_joining_req N (PermitReqEnable (of_nat MIN_COMMISSIONING_TIME))
      (ApsdeNetwork BROADCAST_ALL ZDP_ENDPOINT) s4 = Some (Done (r, s'))"
    by (auto simp: authenticate_def lp_bind_Done act_return_def simp del: lp_bind_of split: if_splits sum.splits
        dest!: unit_result)
  from wait_for_nwk_key_link [OF key assms(2)] obtain m where m: "node_link (x, y, z, q, [m]) False bt well_known s1" by blast
  with auth have s2: "node_link (x, y, z, q, [m]) True bt well_known s2"
    by (auto simp: with_aps_def aps_part.within_Done set_authorized_def act_modify_def link_state_def)
  from s2 have "cx_active_key_seq_number (nk_ctx (nwk_of s2)) = q"
    "map blank_counter (cx_security_material_set (nk_ctx (nwk_of s2))) = [m]"
    by (simp_all add: link_state_def identity_def)
  with announced_with_key [OF annce] have seq: "sm_key_seq_number m = q"
    by (auto simp: find_material_def blank_counter_def split: if_splits)
  have "node_link (x, y, z, q, [m]) True bt well_known s3"
    using annce_link [of well_known "(x, y, z, q, [m])" True bt N] s2 annce unfolding lp_keeps_def by simp
  from exchange_link [OF link this]
  have "node_link (x, y, z, q, [m]) True bt (\<lambda>d. well_known d \<or> own_key d) s'"
    using permit_link [of "\<lambda>d. well_known d \<or> own_key d" "(x, y, z, q, [m])" True bt N] permit
    unfolding lp_keeps_def by simp
  with seq show ?thesis by blast
qed

lemma steering_link:
  assumes "network_steering N u = Some (Done (Inr s))"
  shows "\<exists>x y z bt m. sm_key_seq_number m = 0 \<and> node_link (x, y, z, 0, [m]) True bt (\<lambda>d. well_known d \<or> own_key d) s"
proof -
  from steering_steered [OF assms] obtain u' c mode n where
    joined: "join_on_channels N (get_capabilities (un_config u)) c (un_nwk u') = Done (Some mode, n)"
    and auth: "authenticate N (node_joined N u' mode n) = Some (Done (True, s))"
    by (auto simp: steered_def)
  obtain bt gt where new: "aps_load_or_default N n (un_storage u') = aps_new n bt gt" using aps_load_new by blast
  have "node_link (ms_short_address (nk_mac n), ms_pan_id (nk_mac n), ms_extended_pan_id (nk_mac n), 0, []) False bt
      well_known (node_joined N u' mode n)"
    using join_on_channels_fresh [OF joined]
    by (simp add: node_joined_def new link_state_def identity_def aps_new_def fresh_member_def well_known_def)
  from authenticated_link [OF auth this] show ?thesis by blast
qed

text \<open>C8. What holds of a node that steering has brought into a network: it is authorized, in the mode of its
  capabilities, with its configuration, applications and stored bindings as before; its active network key is number
  0 and the only network key it has carries that number, so that a network whose key has any other number is never joined;
  and its only link key is the well-known one or a unique key that was confirmed.\<close>
theorem steering_outcome:
  assumes "network_steering N u = Some (Done (Inr s))"
  shows "as_is_authorized (nd_aps s) \<and> nd_mode s = joined_mode (get_capabilities (un_config u)) \<and>
    nd_config s = un_config u \<and> nd_applications s = un_applications u \<and>
    st_aps (nd_storage s) = st_aps (un_storage u) \<and>
    cx_active_key_seq_number (nk_ctx (nwk_of s)) = 0 \<and>
    (\<exists>m. cx_security_material_set (nk_ctx (nwk_of s)) = [m] \<and> sm_key_seq_number m = 0) \<and>
    (\<exists>d. as_device_key_pair_set (nd_aps s) = [d] \<and> (well_known d \<or> own_key d))"
proof -
  from steering_steered [OF assms] obtain u' c mode n where u': "unchanged N u u'"
    and joined: "join_on_channels N (get_capabilities (un_config u)) c (un_nwk u') = Done (Some mode, n)"
    and auth: "authenticate N (node_joined N u' mode n) = Some (Done (True, s))"
    by (auto simp: steered_def)
  have "fixed s = fixed (node_joined N u' mode n)" using fixed_storage [OF authenticate_fixed refl auth] .
  moreover have "st_aps ((clear_nwk N ^^ k) g) = st_aps g" for k g by (induction k) (simp_all add: clear_nwk_def)
  ultimately have "nd_mode s = joined_mode (get_capabilities (un_config u))" "nd_config s = un_config u"
    "nd_applications s = un_applications u" "st_aps (nd_storage s) = st_aps (un_storage u)"
    using u' join_on_channels_fresh [OF joined] by (auto simp: fixed_def node_joined_def unchanged_def)
  then show ?thesis
    using steering_link [OF assms] by (auto simp: link_state_def identity_def blank_counter_def)
qed

section \<open>A network that is joined\<close>

text \<open>A distributed network: the beacon of a router, its answer to the association, and the network
  key, under the well-known link key.\<close>

definition answer_frame_std :: received_mac_frame where
  "answer_frame_std = \<lparr> rf_channel = Channel15,
     rf_frame = \<lparr> mf_type = MacCommandFrame, mf_destination = Some (MacExtended 0x1a62 9),
       mf_source = Some (MacExtended 0x1a62 0x2020), mf_has_security = False,
       mf_content = CommandContent (AssociationResponse 0x1234 AssociationSuccessful), mf_payload = [] \<rparr>, rf_lqi = 200 \<rparr>"

definition key_frame_std :: received_mac_frame where
  "key_frame_std = mac_data_std 0x1a62 [0x48, 0x02, 0x40, 1, 2, 3, 0, 8, 0, 0, 0, 0]"

definition joining_radio_std :: radio where
  "joining_radio_std = beacon_radio_std\<lparr> rd_frames := (\<lambda>n. if n = 1 then [beacon_std 0x10 [1]]
     else if n = 3 then [answer_frame_std] else []) \<rparr>"

definition transport_std :: aps_command where
  "transport_std = CmdTransportKey (StandardNetworkKey \<lparr> nkd_key = replicate 16 7, nkd_sequence_number = 0,
     nkd_destination_address = - 1, nkd_source_address = 5 \<rparr>)"

definition transport_header_std :: aps_header where
  "transport_header_std = secured_header (acf_header (aps_command_frame_new 0x1234 transport_std))"

definition joining_env_std :: env where
  "joining_env_std = env_std\<lparr> ev_codecs := codecs_std\<lparr>
     cd_read_header := (\<lambda>_. Inr (nwk_header_new_no_ctx DataFrame False False 0x1234 None 0 None None 30 7, 2)),
     cd_read_aux := (\<lambda>_. Inr (clear_level (aps_aux_header EncMic32 DataKey True 5 0), 1)) \<rparr> \<rparr>"

definition joining_node_env_std :: node_env where
  "joining_node_env_std = (node_env_std (\<lambda>_. NodeDescReq 0))\<lparr> ne_env := joining_env_std, ne_radio := joining_radio_std,
     ne_key_radio := radio_std\<lparr> rd_frames := (\<lambda>_. [key_frame_std]) \<rparr>,
     ne_aps := aps_codecs_std transport_header_std transport_std \<rparr>"

definition joining_config_std :: zb_config where
  "joining_config_std = zb_config_default\<lparr> zf_primary_channel_set := channel_mask_new ChannelPage0 [Channel15] \<rparr>"

definition newcomer_std :: unjoined_node where
  "newcomer_std = \<lparr> un_nwk = nwk_std, un_storage = \<lparr> st_nwk = [], st_aps = [] \<rparr>, un_config = joining_config_std,
     un_applications = [(1, app_std)] \<rparr>"

lemma joining_discovery_std:
  "\<exists>nd s1. network_discovery joining_env_std joining_radio_std [channel_mask_new ChannelPage0 [Channel15]] nwk_std =
      Done (Inr [nd], s1) \<and> ms_ext_addr (nk_mac s1) = 9 \<and> length (nk_sent s1) = 1 \<and>
      nd_pan_id nd = 0x1a62 \<and> nd_logical_channel nd = Channel15 \<and> nd_stack_profile nd = ZigbeePro \<and> is_permit_joining nd \<and>
      (\<exists>d. nd_neighbors nd = [d] \<and> is_potential_parent True ReducedFunctionDevice d \<and> jd_depth (pdd_join_data d) = 1 \<and>
        nb_nwk_addr (pdd_neighbor d) = 0x10)"
proof -
  have masks: "intersect_with (channel_mask_new ChannelPage0 [Channel15]) (rd_channel_mask radio_std) =
      Done (channel_mask_new ChannelPage0 [Channel15])" "channel_mask_new ChannelPage0 [Channel15] \<noteq> 0"
    unfolding radio_std_def by code_simp+
  have chs: "filter (channel_is_set (channel_mask_new ChannelPage0 [Channel15])) channels_all = [Channel15]"
    by code_simp
  have cost: "compute_routing_cost 200 \<le> Cost3" by code_simp
  show ?thesis
    by (simp add: network_discovery_def masks chs cost act_run_def act_bind_def mac_scan_def scan_channel_active_def set_channel_def
        mac_update_def mac_send_def received_def act_gets_def act_modify_def act_then_def act_return_def Let_def env_std_simps
        joining_env_std_def joining_radio_std_def nwk_std_def is_potential_parent_def discovered_device_def
        beacon_radio_std_def beacon_std_def scanned_beacon_def pan_descriptor_of_def List.map_filter_simps
        add_descriptor_def discovered_network_def is_permit_joining_def)
qed


lemma joining_caps_std: "get_capabilities joining_config_std = \<lparr> zc_device_type = ReducedFunctionDevice, zc_current_source = Mains,
    zc_receiver_on_when_idle = True, zc_allocate_address = True \<rparr>"
  by (simp add: get_capabilities_def joining_config_std_def zb_config_default_def get_mac_device_type_def)

lemma joining_association_std:
  assumes "ms_ext_addr (nk_mac s) = 9" and "length (nk_sent s) = 1" and "nd_pan_id nd = 0x1a62"
    and "nd_stack_profile nd = ZigbeePro" and "nd_neighbors nd = [d]" and "is_potential_parent True ReducedFunctionDevice d"
    and "jd_depth (pdd_join_data d) = 1"
  shows "\<exists>nd' s'. association_join joining_env_std joining_radio_std nd (get_capabilities joining_config_std) s =
      Done ((Inr JoinedAsEndDevice, nd'), s') \<and> ms_short_address (nk_mac s') = Some 0x1234 \<and>
      ms_pan_id (nk_mac s') = Some 0x1a62 \<and> ms_ext_addr (nk_mac s') = 9 \<and> length (nk_sent s') = 3 \<and>
      cx_profile (nk_ctx s') = ZigbeePro"
proof -
  have parents: "get_potential_parents True ReducedFunctionDevice nd = [0]"
    using assms(4-6) by (simp add: get_potential_parents_def Let_def)
  have depth: "joined_depth 1 = Done 2" by code_simp
  have "\<exists>s1. mac_associate joining_env_std joining_radio_std (nd_logical_channel nd)
      (MacShort 0x1a62 (nb_nwk_addr (pdd_neighbor d))) (mac_of_zb_capabilities (get_capabilities joining_config_std)) s =
      Done (Inr (0x1234, 0x2020), s1) \<and> ms_short_address (nk_mac s1) = Some 0x1234 \<and>
      ms_pan_id (nk_mac s1) = Some 0x1a62 \<and> ms_ext_addr (nk_mac s1) = 9 \<and> length (nk_sent s1) = 3"
    using assms(1,2)
    by (simp add: mac_associate_def act_then_def act_bind_def set_channel_def set_pan_id_def mac_update_def act_modify_def
        send_mac_command_def act_gets_def mac_send_def joining_env_std_def env_std_simps Let_def received_def
        joining_radio_std_def association_response_def answer_frame_std_def set_short_address_def
        set_extended_pan_id_def act_return_def)
  then obtain s1 where assoc: "mac_associate joining_env_std joining_radio_std (nd_logical_channel nd)
      (MacShort 0x1a62 (nb_nwk_addr (pdd_neighbor d))) (mac_of_zb_capabilities (get_capabilities joining_config_std)) s =
      Done (Inr (0x1234, 0x2020), s1)" and s1: "ms_short_address (nk_mac s1) = Some 0x1234"
      "ms_pan_id (nk_mac s1) = Some 0x1a62" "ms_ext_addr (nk_mac s1) = 9" "length (nk_sent s1) = 3" by blast
  have type: "zc_device_type (get_capabilities joining_config_std) = ReducedFunctionDevice" by (simp add: joining_caps_std)
  show ?thesis
    using assms(3-7) s1
    by (simp add: association_join_def type parents act_bind_def assoc act_return_def Let_def joined_parent_def
        to_joined_def depth act_run_def act_then_def ctx_update_def act_modify_def joined_mode_def)
qed


lemma filter_key_frame_std:
  assumes "ms_short_address (nk_mac n) = Some 0x1234" and "ms_pan_id (nk_mac n) = Some 0x1a62"
  shows "filter_frame (nk_mac n) key_frame_std =
    Some (MacData (ind_std [0x48, 0x02, 0x40, 1, 2, 3, 0, 8, 0, 0, 0, 0]))"
  using assms by (simp add: filter_frame_def key_frame_std_def mac_data_std_def ind_std_def Let_def)

lemma key_frame_indicated_std:
  assumes "ms_short_address (nk_mac n) = Some 0x1234" and "ms_pan_id (nk_mac n) = Some 0x1a62"
    and "cx_profile (nk_ctx n) = ZigbeePro"
  shows "listen_step joining_env_std R JoinedAsEndDevice False key_frame_std n = Done (Some (IndData
    \<lparr> di_dst_address = UnicastOrBroadcastDst 0x1234, di_src_address = 0, di_nsdu = [0x40, 1, 2, 3, 0, 8, 0, 0, 0, 0],
       di_link_quality = 200, di_security_use = False \<rparr>), n)"
proof -
  have level: "nwk_security_level (profile_params n) = EncMic32"
    using assms(3) by (simp add: profile_params_def profile_defs)
  have radius: "chk_sub (30 :: u8) 1 = Done 29" by code_simp
  show ?thesis
    by (simp add: listen_step_def poll_frame_def act_gets_def act_bind_def filter_key_frame_std [OF assms(1,2)] ind_std_def
        handle_mac_indication_def is_routing_def handle_data_indication_end_device_def process_incoming_indication_def
        nwk_decrypt_frame_def act_run_def decrypt_frame_def joining_env_std_def parse_error_def nwk_header_new_no_ctx_def
        read_frame_body_def radius frame_header_def map_frame_header_def act_then_def act_return_def
        frame_passes_security_check_def level is_secured_def is_data_def indicate_own_data_def
        frame_matches_self_end_device_def get_addr_def unwrap_run_def assms df_destination_def data_indication_of_def Let_def)
qed


lemma key_transported_std:
  assumes "as_is_authorized a = False" and "as_device_key_pair_set a = [d]" and "well_known d"
    and "cx_profile (nk_ctx (as_nwk a)) = ZigbeePro" and "as_security_network_params a = Distributed"
  shows "aps_handle_data_indication joining_env_std (aps_codecs_std transport_header_std transport_std) JoinedAsEndDevice
    \<lparr> di_dst_address = UnicastOrBroadcastDst 0x1234, di_src_address = 0, di_nsdu = [0x40, 1, 2, 3, 0, 8, 0, 0, 0, 0],
       di_link_quality = 200, di_security_use = False \<rparr> a =
    Done (Some (ApsIndTransportKey 5 (NetworkKeyData \<lparr> nkt_key_sequence = 0, nkt_key = replicate 16 7,
       nkt_parent_address = None \<rparr>)), a\<lparr> as_security_network_params := Distributed \<rparr>)"
proof -
  let ?aux = "set_level EncMic32 (clear_level (aps_aux_header EncMic32 DataKey True 5 0))"
  obtain nonce where nonce: "create_nonce wire_std ?aux = Done (Inr nonce)"
    using create_nonce_ex [OF wire_std_ok, of ?aux 5] by (auto simp: set_level_def clear_level_def aps_aux_header_def)
  have level: "nwk_security_level (profile_params (as_nwk a)) = EncMic32"
    using assms(4) by (simp add: profile_params_def profile_defs)
  have "decrypt_aps_frame crypto_std wire_std (ev_codecs joining_env_std) (aps_codecs_std transport_header_std transport_std)
      EncMic32 False [d] [0x40, 1, 2, 3, 0, 8, 0, 0, 0, 0] =
      Done (Inr (ApsCommand \<lparr> acf_header = transport_header_std, acf_command = transport_std \<rparr>, Some d))"
    using assms(3) nonce
    by (simp add: decrypt_aps_frame_def aps_codecs_std_def parse_error_def transport_header_std_def secured_header_def
        aps_command_frame_new_def joining_env_std_def decryption_key_for_def well_known_def
        aps_decryption_key_def open_aps_frame_def codecs_std_def crypto_std_def decrypt_in_place_def Let_def
        aps_from_payload_def read_with_def clear_level_def aps_aux_header_def set_level_def numeral_eq_Suc)
  then show ?thesis
    using assms(1,2,5)
    by (simp add: aps_handle_data_indication_def aps_decrypt_def act_bind_def joining_env_std_def env_std_simps level
        validate_incoming_apsme_command_def get_tc_addr_def handle_aps_command_common_def transport_std_def
        handle_transport_key_command_def act_gets_def transport_header_std_def secured_header_def
        aps_command_frame_new_def act_then_def act_modify_def act_return_def Let_def)
qed


text \<open>A node that has the key, and has sent some frames with it.\<close>

definition keyed_std :: "u32 \<Rightarrow> joined_node \<Rightarrow> bool" where
  "keyed_std c s \<longleftrightarrow> nd_mode s = JoinedAsEndDevice \<and> as_security_network_params (nd_aps s) = Distributed \<and>
     ms_short_address (nk_mac (nwk_of s)) = Some 0x1234 \<and> ms_pan_id (nk_mac (nwk_of s)) = Some 0x1a62 \<and>
     3 \<le> length (nk_sent (nwk_of s)) \<and>
     cx_profile (nk_ctx (nwk_of s)) = ZigbeePro \<and> cx_active_key_seq_number (nk_ctx (nwk_of s)) = 0 \<and>
     cx_security_material_set (nk_ctx (nwk_of s)) = [\<lparr> sm_key_seq_number = 0, sm_outgoing_frame_counter = c,
       sm_incoming_frame_counter_set = [], sm_key = replicate 16 7 \<rparr>]"

lemma frame_sent_std:
  assumes "ms_short_address (nk_mac n) = Some 0x1234" and "ms_pan_id (nk_mac n) = Some 0x1a62"
    and "cx_profile (nk_ctx n) = ZigbeePro" and "cx_active_key_seq_number (nk_ctx n) = 0" and "c \<noteq> - 1"
    and "cx_security_material_set (nk_ctx n) = [\<lparr> sm_key_seq_number = 0, sm_outgoing_frame_counter = c,
       sm_incoming_frame_counter_set = [], sm_key = replicate 16 7 \<rparr>]"
    and "is_secured (Data d)" and "df_payload d = [p, q, r, t, u]"
  shows "\<exists>n'. transmit_frame joining_env_std (Data d) dst ack n = Done (Inr (), n') \<and>
    ms_short_address (nk_mac n') = Some 0x1234 \<and> ms_pan_id (nk_mac n') = Some 0x1a62 \<and>
    length (nk_sent n) < length (nk_sent n') \<and>
    cx_profile (nk_ctx n') = ZigbeePro \<and> cx_active_key_seq_number (nk_ctx n') = 0 \<and>
    cx_security_material_set (nk_ctx n') = [\<lparr> sm_key_seq_number = 0, sm_outgoing_frame_counter = c + 1,
       sm_incoming_frame_counter_set = [], sm_key = replicate 16 7 \<rparr>]"
proof -
  let ?m = "\<lparr> sm_key_seq_number = 0, sm_outgoing_frame_counter = c, sm_incoming_frame_counter_set = [], sm_key = replicate 16 7 \<rparr>"
  let ?aux = "nwk_aux_header EncMic32 (get_ext_addr n) ?m"
  have level: "nwk_security_level (profile_params n) = EncMic32"
    using assms(3) by (simp add: profile_params_def profile_defs)
  obtain nonce where nonce: "create_nonce wire_std ?aux = Done (Inr nonce)"
    using create_nonce_ex [OF wire_std_ok, of ?aux "get_ext_addr n"] by (auto simp: nwk_aux_header_def)
  have enc: "\<exists>buf len. write_and_encrypt_in_place crypto_std wire_std EncMic32
      (replicate A_MAX_MAC_PAYLOAD_SIZE 0) (cd_write_aux codecs_std ?aux) ?aux (replicate 16 7)
      (cd_write_header codecs_std h) (write_slice [p, q, r, t, u]) = Done (Inr (buf, len))" for h
    using nonce
    by (simp add: A_MAX_MAC_PAYLOAD_SIZE_def write_and_encrypt_in_place_def nwk_aux_header_def codecs_std_def
        write_slice_def parse_error_def encrypt_in_place_def ccm_encrypt_def crypto_std_def Let_def
        numeral_eq_Suc)
  then obtain buf len where "write_and_encrypt_in_place crypto_std wire_std EncMic32
      (replicate A_MAX_MAC_PAYLOAD_SIZE 0) (cd_write_aux codecs_std ?aux) ?aux (replicate 16 7)
      (cd_write_header codecs_std (df_header d)) (write_slice [p, q, r, t, u]) = Done (Inr (buf, len))" by blast
  with assms show ?thesis
    by (simp add: transmit_frame_def build_mac_payload_def build_mac_payload_with_def level
        joining_env_std_def env_std_simps is_reserved_def
        make_encrypted_frame_def find_material_def data_transmit_request_def act_bind_def
        act_return_def Let_def bump_counter_def)
qed


lemma zdp_sent_std:
  assumes "keyed_std c s" and "c \<noteq> - 1"
  shows "\<exists>s'. transmit_zdp_command joining_node_env_std (ApsdeNetwork dst ep) d None s = Some (Done (Inr (), s')) \<and>
    keyed_std (c + 1) s' \<and> length (nk_sent (nwk_of s)) < length (nk_sent (nwk_of s'))"
proof -
  let ?n = "nwk_of s" and ?q = "get_zcl_transaction_number s"
  note s = assms(1) [unfolded keyed_std_def]
  have built: "\<exists>h k. build_data_frame [0x40, 1, 2, 3, ?q] (aps_frame_config dst None None) ?n =
      Done (\<lparr> df_header = h, df_payload = [0x40, 1, 2, 3, ?q] \<rparr>, ?n\<lparr> nk_seq_number := k \<rparr>) \<and> fc_security (nh_control h)"
    using s by (simp add: build_data_frame_def aps_frame_config_def act_bind_def act_gets_def act_run_def get_addr_def
      unwrap_run_def get_next_seq_number_def act_return_def nwk_header_new_def nwk_header_new_no_ctx_def
      profile_params_def profile_defs chk_mul_def) blast
  then obtain h k where built: "build_data_frame [0x40, 1, 2, 3, ?q] (aps_frame_config dst None None) ?n =
      Done (\<lparr> df_header = h, df_payload = [0x40, 1, 2, 3, ?q] \<rparr>, ?n\<lparr> nk_seq_number := k \<rparr>)"
    and h: "fc_security (nh_control h)" by blast
  let ?d = "\<lparr> df_header = h, df_payload = [0x40, 1, 2, 3, ?q] \<rparr>" and ?n1 = "?n\<lparr> nk_seq_number := k \<rparr>"
  have "\<exists>n'. transmit_frame joining_env_std (Data ?d) hop True ?n1 = Done (Inr (), n') \<and>
    ms_short_address (nk_mac n') = Some 0x1234 \<and> ms_pan_id (nk_mac n') = Some 0x1a62 \<and>
    length (nk_sent ?n1) < length (nk_sent n') \<and>
    cx_profile (nk_ctx n') = ZigbeePro \<and> cx_active_key_seq_number (nk_ctx n') = 0 \<and>
    cx_security_material_set (nk_ctx n') = [\<lparr> sm_key_seq_number = 0, sm_outgoing_frame_counter = c + 1,
       sm_incoming_frame_counter_set = [], sm_key = replicate 16 7 \<rparr>]" for hop
    using s h assms(2) by (intro frame_sent_std) (simp_all add: is_secured_def frame_header_def)
  then obtain n' where sent: "transmit_frame joining_env_std (Data ?d) (nb_nwk_addr (nwk_parent ?n1)) True ?n1 = Done (Inr (), n')"
    and n': "ms_short_address (nk_mac n') = Some 0x1234" "ms_pan_id (nk_mac n') = Some 0x1a62"
      "length (nk_sent ?n1) < length (nk_sent n')"
      "cx_profile (nk_ctx n') = ZigbeePro" "cx_active_key_seq_number (nk_ctx n') = 0"
      "cx_security_material_set (nk_ctx n') = [\<lparr> sm_key_seq_number = 0, sm_outgoing_frame_counter = c + 1,
       sm_incoming_frame_counter_set = [], sm_key = replicate 16 7 \<rparr>]" by blast
  have data: "transmit_data_frame joining_env_std JoinedAsEndDevice [0x40, 1, 2, 3, ?q] (aps_frame_config dst None None) ?n =
      Done (Inr (), n')"
    using built sent by (simp add: transmit_data_frame_def transmit_data_frame_end_device_def act_bind_def act_gets_def)
  have codecs: "ac_write_header (ne_aps joining_node_env_std) x = write_slice [0x40, 1, 2, 3]"
    "zx_write_command (ne_zdp joining_node_env_std) cmd = write_slice [zp_transaction_sequence_number cmd]"
    "ne_env joining_node_env_std = joining_env_std" for x cmd
    by (simp_all add: joining_node_env_std_def aps_codecs_std_def node_env_std_def zdp_codecs_std_def)
  let ?rq = "zdp_request joining_node_env_std (ApsdeNetwork dst ep) d ?q"
  have rq: "rq_asdu ?rq = write_slice [?q]" "rq_tx_options ?rq = tx_options_default" "rq_alias ?rq = None" "rq_radius ?rq = None"
    by (simp_all add: zdp_request_def codecs)
  have payload: "adf_payload (aps_data_frame_new (data_init x y z w)) = z" for x y z w
    by (simp add: aps_data_frame_new_def data_init_def)
  have "send_plain joining_env_std (ne_radio joining_node_env_std) (ne_aps joining_node_env_std) JoinedAsEndDevice ?rq
      (ApsNetwork dst ep) (nd_aps s) = Done (Inr (), (nd_aps s)\<lparr> as_counter := as_counter (nd_aps s) + 1, as_nwk := n' \<rparr>)"
    by (simp add: send_plain_def rq write_slice_def codecs payload
        MAX_APS_FRAME_SIZE_def MAX_APS_PAYLOAD_SIZE_def A_MAX_MAC_PAYLOAD_SIZE_def transfer_single_def aps_send_data_def
        aps_transfer_def aps_frame_bytes_def tx_options_default_def write_aps_frame_def act_bind_def act_return_def
        get_aps_counter_def with_nwk_def data get_nwk_address_def Let_def numeral_eq_Suc)
  then have "transmit_zdp_command joining_node_env_std (ApsdeNetwork dst ep) d None s =
      Some (Done (Inr (), s\<lparr> nd_aps := (nd_aps s)\<lparr> as_counter := as_counter (nd_aps s) + 1, as_nwk := n' \<rparr> \<rparr>))"
    using s by (simp add: transmit_zdp_command_def aps_in_node_def lp_within_def aps_data_request_def zdp_request_dst
        aps_data_transfer_plain [OF zdp_plain(1)] lp_of_def codecs)
  then show ?thesis using s n' by (simp add: keyed_std_def)
qed


lemma joining_node_env_simps:
  "ne_env joining_node_env_std = joining_env_std" "ne_radio joining_node_env_std = joining_radio_std"
  "ne_aps joining_node_env_std = aps_codecs_std transport_header_std transport_std"
  "ne_driver joining_node_env_std = driver_std" "ne_read_aps joining_node_env_std b = Inl Incomplete"
  "rd_frames (ne_key_radio joining_node_env_std) n = [key_frame_std]"
  by (simp_all add: joining_node_env_std_def node_env_std_def)

lemma key_arrives_std:
  assumes "ms_short_address (nk_mac n) = Some 0x1234" "ms_pan_id (nk_mac n) = Some 0x1a62"
    and "cx_profile (nk_ctx n) = ZigbeePro" and "fresh_member n" and "3 \<le> length (nk_sent n)"
  shows "\<exists>s1. wait_for_nwk_key joining_node_env_std (node_joined joining_node_env_std u JoinedAsEndDevice n) =
    Done (True, s1) \<and> keyed_std 0 s1"
proof -
  let ?N = joining_node_env_std and ?s = "node_joined joining_node_env_std u JoinedAsEndDevice n"
  obtain bt gt where new: "nd_aps ?s = aps_new n bt gt" using aps_load_new [of ?N n "un_storage u"] by (auto simp: node_joined_def)
  have a: "as_is_authorized (nd_aps ?s) = False" "as_nwk (nd_aps ?s) = n" "as_security_network_params (nd_aps ?s) = Distributed"
    and "\<exists>d. as_device_key_pair_set (nd_aps ?s) = [d] \<and> well_known d"
    by (simp_all add: new aps_new_def well_known_def)
  then obtain d where d: "as_device_key_pair_set (nd_aps ?s) = [d]" "well_known d" by blast
  have same: "(nd_aps ?s)\<lparr> as_nwk := n \<rparr> = nd_aps ?s" "(nd_aps ?s)\<lparr> as_security_network_params := Distributed \<rparr> = nd_aps ?s"
    by (simp_all add: new aps_new_def)
  let ?i = "ApsIndTransportKey 5 (NetworkKeyData \<lparr> nkt_key_sequence = 0, nkt_key = replicate 16 7, nkt_parent_address = None \<rparr>)"
  have "listen_aps_step joining_env_std (ne_key_radio ?N) (ne_aps ?N) JoinedAsEndDevice key_frame_std (nd_aps ?s) =
      Done (Some ?i, nd_aps ?s)"
    using key_frame_indicated_std [OF assms(1-3)] key_transported_std [OF a(1) d] assms(3) a
    by (simp add: listen_aps_step_def act_gets_def act_bind_def with_nwk_def handle_nwk_indication_def joining_node_env_simps same)
  then have "node_wait ?N (ne_key_radio ?N) network_key_of ?s = Done (Some (5, \<lparr> nkt_key_sequence = 0,
      nkt_key = replicate 16 7, nkt_parent_address = None \<rparr>), ?s)"
    using a by (simp add: node_wait_def act_gets_def act_bind_def with_aps_def act_within_def wait_for_indication_def
        joining_node_env_simps network_key_of_def act_return_def node_joined_def)
  moreover have "nd_mode ?s = JoinedAsEndDevice" by (simp add: node_joined_def)
  ultimately show ?thesis
    using assms a by (simp add: wait_for_nwk_key_def act_bind_def act_then_def with_aps_def act_within_def keys_update_def
        act_modify_def node_nwk_def with_nwk_def add_network_key_def ctx_update_def act_return_def keyed_std_def fresh_member_def)
qed

lemma steering_std: "\<exists>s. network_steering joining_node_env_std newcomer_std = Some (Done (Inr s))"
proof -
  let ?N = joining_node_env_std and ?u = newcomer_std and ?caps = "get_capabilities joining_config_std"
  let ?mask = "channel_mask_new ChannelPage0 [Channel15]"
  obtain nd n1 d where disc: "network_discovery joining_env_std joining_radio_std [?mask] nwk_std = Done (Inr [nd], n1)"
    and n1: "ms_ext_addr (nk_mac n1) = 9" "length (nk_sent n1) = 1" and nd: "nd_pan_id nd = 0x1a62"
      "nd_stack_profile nd = ZigbeePro" "nd_neighbors nd = [d]" "is_potential_parent True ReducedFunctionDevice d"
      "jd_depth (pdd_join_data d) = 1" and permit: "is_permit_joining nd"
    using joining_discovery_std by blast
  obtain nd' n2 where join: "association_join joining_env_std joining_radio_std nd ?caps n1 = Done ((Inr JoinedAsEndDevice, nd'), n2)"
    and n2: "ms_short_address (nk_mac n2) = Some 0x1234" "ms_pan_id (nk_mac n2) = Some 0x1a62" "length (nk_sent n2) = 3"
      "cx_profile (nk_ctx n2) = ZigbeePro"
    using joining_association_std [OF n1 nd] by blast
  have fresh: "fresh_member n2" using association_join_fresh [OF join] by simp
  have joined: "join_on_channels ?N ?caps ?mask nwk_std = Done (Some JoinedAsEndDevice, n2)"
    by (simp add: join_on_channels_def joining_node_env_simps act_bind_def disc permit join act_return_def
        REC_SAME_NETWORK_RETRY_ATTEMPTS_def numeral_eq_Suc)
  have "3 \<le> length (nk_sent n2)" using n2(3) by simp
  from key_arrives_std [OF n2(1,2,4) fresh this, of ?u] obtain s1 where
    key: "wait_for_nwk_key ?N (node_joined ?N ?u JoinedAsEndDevice n2) = Done (True, s1)" and s1: "keyed_std 0 s1" by blast
  let ?s2 = "s1\<lparr> nd_aps := (nd_aps s1)\<lparr> as_is_authorized := True \<rparr> \<rparr>"
  have s2: "keyed_std 0 ?s2" using s1 by (simp add: keyed_std_def)
  have addr: "node_nwk get_addr ?s2 = Done (0x1234, ?s2)"
    using s2 by (simp add: node_nwk_def with_aps_def act_within_def with_nwk_def get_addr_def act_run_def unwrap_run_def keyed_std_def)
  obtain s3 where annce: "emit_device_annce ?N ?s2 = Some (Done (Inr (), s3))" and s3: "keyed_std 1 s3"
    using zdp_sent_std [OF s2, of BROADCAST_RX_ON_IDLE ZDP_ENDPOINT "DeviceAnnce \<lparr> da_nwk_addr = 0x1234,
      da_ieee_addr = get_ext_addr (nwk_of ?s2), da_capability = get_capabilities (nd_config ?s2) \<rparr>"]
    by (auto simp: emit_device_annce_def addr act_gets_def)
  have link: "exchange_link_key ?N s3 = Done (True, s3)"
    using s3 by (simp add: exchange_link_key_def act_gets_def act_bind_def act_return_def keyed_std_def)
  let ?req = "PermitReqEnable (of_nat MIN_COMMISSIONING_TIME)"
  obtain s4 where sent: "transmit_zdp_command ?N (ApsdeNetwork BROADCAST_ALL ZDP_ENDPOINT) (MgmtPermitJoiningReq ?req) None s3 =
      Some (Done (Inr (), s4))" and "length (nk_sent (nwk_of s3)) < length (nk_sent (nwk_of s4))"
    using zdp_sent_std [OF s3, of BROADCAST_ALL ZDP_ENDPOINT "MgmtPermitJoiningReq ?req"] by auto
  then have quiet: "rd_frames joining_radio_std (length (nk_sent (nwk_of s4))) = []"
    using s3 by (simp add: joining_radio_std_def keyed_std_def)
  obtain r where permitted: "emit_permit_joining_req ?N ?req (ApsdeNetwork BROADCAST_ALL ZDP_ENDPOINT) s3 = Some (Done (r, s4))"
    using quiet by (simp add: emit_permit_joining_req_def lp_bind_def sent lp_of_def act_gets_def with_aps_def act_within_def
        wait_for_indication_def joining_node_env_simps act_return_def)
  have auth: "authenticate ?N (node_joined ?N ?u JoinedAsEndDevice n2) = Some (Done (True, s4))"
    by (simp add: authenticate_def key with_aps_def act_within_def set_authorized_def act_modify_def annce link permitted
        lp_bind_def lp_of_def act_return_def)
  show ?thesis
    using joined auth by (simp add: network_steering_def try_join_for_channels_def newcomer_std_def joining_config_std_def
        try_authenticate_def)
qed

lemma authorized_std:
  "network_steering joining_node_env_std newcomer_std = Some (Done (Inr s)) \<Longrightarrow> as_is_authorized (nd_aps s)"
  using steering_link by (auto simp: link_state_def)

theorem steering_outcome_witness:
  "\<exists>s. network_steering joining_node_env_std newcomer_std = Some (Done (Inr s)) \<and> as_is_authorized (nd_aps s) \<and>
     (\<exists>m. cx_security_material_set (nk_ctx (nwk_of s)) = [m] \<and> sm_key_seq_number m = 0)"
proof -
  obtain s where "network_steering joining_node_env_std newcomer_std = Some (Done (Inr s))" using steering_std by blast
  from steering_outcome [OF this] this show ?thesis by blast
qed

section \<open>What is stored\<close>

text \<open>C9. The network a node has joined is never written to its storage: from a start with a network
  region that cannot be read, and whatever the node joins, receives, leaves and however often it restarts, the region stays unreadable,
  the bindings in storage stay those of the start, the node never gets to the state from which it would rejoin, and every further start is
  that of a node in no network. (The context is persisted after a rejoin only, and a rejoin starts from a
  readable region, or from the leave of a child, which is never reported.)\<close>
theorem storage_never_written:
  assumes "unreadable N (st_nwk (un_storage u))"
    and "\<And>b. unreadable N b \<Longrightarrow> unreadable N (dr_clear (ne_driver N) b)"
    and "leaves_storage Z" and "node_reach N Z (Unjoined u) n"
  shows "unreadable N (st_nwk (node_storage n)) \<and> st_aps (node_storage n) = st_aps (un_storage u) \<and>
    (\<forall>p. n \<noteq> PendingRejoin p) \<and>
    (\<forall>E cfg apps mac. \<exists>v. initialize (N\<lparr> ne_env := E \<rparr>) cfg apps (node_storage n) mac = Some (Done (Unjoined v)))"
proof -
  have "nothing_stored N (st_aps (un_storage u)) n"
    by (rule node_reach_nothing_stored [OF assms(2,3,4)]) (use assms(1) in \<open>simp_all add: nothing_stored_def\<close>)
  then show ?thesis using initialize_unreadable unfolding nothing_stored_def by blast
qed

definition no_zcl_std :: zcl_services where
  "no_zcl_std = \<lparr> zs_command = (\<lambda>_ _. lp_of (act_return (Inr None))), zs_reports = lp_of (act_return ()) \<rparr>"

theorem storage_never_written_witness:
  "\<exists>s. node_reach joining_node_env_std no_zcl_std (Unjoined newcomer_std) (Joined s) \<and> as_is_authorized (nd_aps s) \<and>
     st_aps (node_storage (Joined s)) = [] \<and>
     (\<exists>v. initialize joining_node_env_std joining_config_std [] (node_storage (Joined s)) (nk_mac nwk_std) =
        Some (Done (Unjoined v)))"
proof -
  let ?N = joining_node_env_std
  obtain s where steer: "network_steering ?N newcomer_std = Some (Done (Inr s))" using steering_std by blast
  have env: "?N\<lparr> ne_env := ne_env ?N \<rparr> = ?N" by simp
  have "node_step ?N no_zcl_std (Unjoined newcomer_std) (Joined s)"
    by (rule node_step.steer [where E = "ne_env ?N"]) (simp add: env steer)
  then have reach: "node_reach ?N no_zcl_std (Unjoined newcomer_std) (Joined s)"
    by (rule node_reach.step [OF node_reach.start])
  have clear: "unreadable ?N b" for b
    by (auto simp: unreadable_def joining_node_env_std_def node_env_std_def split: sum.split)
  have zcl: "leaves_storage no_zcl_std"
    by (auto simp: leaves_storage_def no_zcl_std_def intro!: loop_rules keeps_rules)
  have "\<exists>v. initialize (?N\<lparr> ne_env := ne_env ?N \<rparr>) joining_config_std [] (node_storage (Joined s)) (nk_mac nwk_std) =
      Some (Done (Unjoined v))" and "st_aps (node_storage (Joined s)) = st_aps (un_storage newcomer_std)"
    using storage_never_written [OF clear clear zcl reach] by blast+
  with reach authorized_std [OF steer] show ?thesis unfolding env by (auto simp: newcomer_std_def)
qed

section \<open>What a restart forgets\<close>

lemma rejoin_mode: "gives (\<lambda>r. \<forall>m. r = Inr m \<longrightarrow> m = joined_mode (rj_capability_information req)) (rejoin E R req)"
proof -
  let ?P = "\<lambda>r :: join_error + nwk_mode. \<forall>m. r = Inr m \<longrightarrow> m = joined_mode (rj_capability_information req)"
  have pending: "gives (\<lambda>m. m = joined_mode caps) (to_joined_pending p d caps)" for p d caps
    unfolding to_joined_pending_def by (intro gives_rules) simp
  have loop: "gives ?P (rejoin_loop E R ch pan (rj_capability_information req) ds)" for ch pan ds
  proof (induction ds)
    case (Cons d ds)
    have "gives ?P (act_bind (to_joined_pending p k (rj_capability_information req)) (\<lambda>mode. act_return (Inr mode)))" for p k
      unfolding gives_def [of ?P] by (auto simp: act_bind_Done act_return_def dest: givesD [OF pending])
    with Cons show ?case unfolding rejoin_loop.simps by - (rule gives_basic(2), rule gives_basic(5), simp_all)
  qed (auto intro: gives_rules)
  have cases: "gives ?P (case x of Inl _ \<Rightarrow> act_return (Inl JoinInvalidRequest) | Inr y \<Rightarrow> g y)"
    if "\<And>y. gives ?P (g y)" for x :: "'x + 'y" and g
    using that by (cases x) (auto intro: gives_rules)
  show ?thesis unfolding rejoin_def by (intro gives_rules cases loop) simp
qed

lemma keeps_node_sec_store [keeps_rules]:
  "keeps (\<lambda>s. sec (nd_aps s) = v) (store_nwk N buf)" "keeps (\<lambda>s. sec (nd_aps s) = v) (store_aps N buf)"
  by (auto simp: keeps_def store_nwk_def store_aps_def split: prod.splits)

lemma persist_sec: "keeps (\<lambda>s. sec (nd_aps s) = v) (aps_persist N)"
  unfolding aps_persist_def by (intro keeps_rules)

lemma persist_fixed: "keeps (\<lambda>s. (nd_mode s, nd_config s, nd_applications s) = v) (aps_persist N)"
proof -
  have nwk: "keeps (\<lambda>s. (nd_mode s, nd_config s, nd_applications s) = v) (node_nwk m)" for m :: "'x act"
    by (rule keeps_node_nwk) (simp add: nwk_frame_property_def)
  have "keeps (\<lambda>s. (nd_mode s, nd_config s, nd_applications s) = v) (store_nwk N buf)"
    "keeps (\<lambda>s. (nd_mode s, nd_config s, nd_applications s) = v) (store_aps N buf)" for buf
    by (auto simp: keeps_def store_nwk_def store_aps_def split: prod.splits)
  then show ?thesis unfolding aps_persist_def by (intro keeps_rules nwk)
qed

definition initial_link_key :: device_key_pair where
  "initial_link_key = \<lparr> dk_device_address = 0, dk_key_attributes = ProvisionalKey, dk_link_key = TRUST_CENTER_LINK_KEY,
     dk_outgoing_frame_counter = 0, dk_incoming_frame_counter = 0, dk_link_key_type = GlobalLinkKey \<rparr>"

text \<open>C26. What a restart forgets: a node that starts on its stored network, at once as a router or after the rejoin of an
  end device, is not authorized, has as its only link key the one that everybody knows, whatever it had exchanged, and
  takes its network for a distributed one; so it passes on data frames that carry no network security.\<close>
theorem restart_forgets_security:
  assumes "initialize N cfg apps stg mac = Some (Done (Joined s))"
  shows "\<not> as_is_authorized (nd_aps s) \<and> as_device_key_pair_set (nd_aps s) = [initial_link_key] \<and>
    as_security_network_params (nd_aps s) = Distributed \<and> nd_config s = cfg \<and> nd_applications s = apps \<and>
    nd_mode s = (if cfg_is_end_device cfg then JoinedAsEndDevice else JoinedAsRouter) \<and>
    (\<forall>d n. frame_passes_security_check (as_is_authorized (nd_aps s)) (Data d) n = Done (True, n))"
proof -
  have passes: "frame_passes_security_check False (Data d) n = Done (True, n)" for d n
    by (simp add: frame_passes_security_check_def act_gets_def act_bind_def act_return_def is_data_def)
  have start: "\<not> as_is_authorized (nd_aps t) \<and> as_device_key_pair_set (nd_aps t) = [initial_link_key] \<and>
      as_security_network_params (nd_aps t) = Distributed"
    if "sec (nd_aps t) = sec (nd_aps (node_joined N u mode n))" for t u mode n
    using that aps_load_new [of N n "un_storage u"]
    by (auto simp: node_joined_def sec_def aps_new_def initial_link_key_def)
  from assms obtain buf n0 where n0: "nwk_load (ev_now (ne_env N)) (ne_read_nwk N) buf mac = Inr n0"
    and rest: "(let u = \<lparr> un_nwk = n0, un_storage = stg, un_config = cfg, un_applications = apps \<rparr> in
      if cfg_is_end_device cfg then node_rejoin N u else Some (Done (Joined (node_joined N u JoinedAsRouter n0)))) =
      Some (Done (Joined s))"
    by (auto simp: initialize_def Let_def split: sum.splits)
  let ?u = "\<lparr> un_nwk = n0, un_storage = stg, un_config = cfg, un_applications = apps \<rparr>"
  have "sec (nd_aps s) = sec (nd_aps (node_joined N ?u mode n)) \<and> nd_config s = cfg \<and> nd_applications s = apps \<and>
      nd_mode s = mode"
    if joined: "lp_bind (emit_device_annce N) (\<lambda>_. lp_of (aps_persist N)) (node_joined N ?u mode n) = Some (Done (x, s))"
    for mode n x
  proof -
    let ?s0 = "node_joined N ?u mode n"
    from joined obtain r s1 where annce: "emit_device_annce N ?s0 = Some (Done (r, s1))"
      and persist: "aps_persist N s1 = Done (x, s)" by (auto simp: lp_bind_Done simp del: lp_bind_of)
    have "fixed s1 = fixed ?s0" using fixed_storage [OF annce_fixed refl annce] .
    moreover have "lp_keeps (\<lambda>t. sec (nd_aps t) = sec (nd_aps ?s0)) (emit_device_annce N)"
      unfolding emit_device_annce_def by (intro loop_rules keeps_rules)
    then have "sec (nd_aps s1) = sec (nd_aps ?s0)" using annce unfolding lp_keeps_def by blast
    moreover have "sec (nd_aps s) = sec (nd_aps s1)" by (rule keepsD_eq [OF persist_sec persist])
    moreover have "(nd_mode s, nd_config s, nd_applications s) = (nd_mode s1, nd_config s1, nd_applications s1)"
      by (rule keepsD_eq [OF persist_fixed persist])
    ultimately show ?thesis by (simp add: fixed_def node_joined_def)
  qed
  moreover have "joined_mode capabilities_default = JoinedAsEndDevice"
    by (simp add: joined_mode_def capabilities_default_def)
  ultimately have "\<exists>mode n. sec (nd_aps s) = sec (nd_aps (node_joined N ?u mode n)) \<and> nd_config s = cfg \<and>
      nd_applications s = apps \<and> nd_mode s = (if cfg_is_end_device cfg then JoinedAsEndDevice else JoinedAsRouter)"
    using rest
    by (auto simp: Let_def node_rejoin_def run_simps act_bind_Done node_joined_def split: if_splits run.splits sum.splits prod.splits
        dest!: givesD [OF rejoin_mode])
  then show ?thesis using start passes by auto
qed

theorem restart_forgets_security_witness:
  "\<exists>s. initialize (joining_node_env_std\<lparr> ne_read_nwk := (\<lambda>_. Inr persistent_std) \<rparr>)
       (zb_config_default\<lparr> zf_device_type := Router \<rparr>) [] \<lparr> st_nwk = [1], st_aps = [] \<rparr> (nk_mac nwk_std) =
       Some (Done (Joined s)) \<and> \<not> as_is_authorized (nd_aps s) \<and> nd_mode s = JoinedAsRouter \<and>
     cx_security_material_set (nk_ctx (nwk_of s)) = [sm_std]"
proof -
  let ?N = "joining_node_env_std\<lparr> ne_read_nwk := (\<lambda>_. Inr persistent_std) \<rparr>"
  have "\<exists>s. initialize ?N (zb_config_default\<lparr> zf_device_type := Router \<rparr>) [] \<lparr> st_nwk = [1], st_aps = [] \<rparr> (nk_mac nwk_std) =
      Some (Done (Joined s)) \<and> cx_security_material_set (nk_ctx (nwk_of s)) = [sm_std]"
    by (simp add: initialize_def joining_node_env_simps driver_std_def nwk_load_def cfg_is_end_device_def node_joined_def
        aps_load_or_default_def aps_new_def persistent_std_def Let_def)
  with restart_forgets_security show ?thesis by (fastforce simp: cfg_is_end_device_def)
qed

end
