(* ===== verification/Nwk_Replay.thy ===== *)
theory Nwk_Replay
  imports Nwk_Listen
begin

text \<open>
  What a joined device remembers of the frames that it has received: nothing that would make it refuse one of them a
  second time. The counters of the frames that came in (\<open>nwk/security.rs\<close>, \<open>nwk/nib.rs\<close>) are compared but never stored.
\<close>

section \<open>The keys of a device that stays joined\<close>

text \<open>Any operations and receptions of a device, as long as it is joined.\<close>

inductive nwk_works :: "radio \<Rightarrow> nwk_mode \<times> nwk \<Rightarrow> nwk_mode \<times> nwk \<Rightarrow> bool" for R where
  start: "is_joined (fst ms) \<Longrightarrow> nwk_works R ms ms"
| step: "nwk_works R ms ms1 \<Longrightarrow> nwk_step R ms1 ms2 \<Longrightarrow> is_joined (fst ms2) \<Longrightarrow> nwk_works R ms ms2"

lemma keeps_identity_operations:
  "keeps (\<lambda>s. identity s = v) (transmit_data_frame_routing E nsdu c)" "keeps (\<lambda>s. identity s = v) (transmit_data_frame_end_device E nsdu c)"
  "keeps (\<lambda>s. identity s = v) (direct_join E dj)" "keeps (\<lambda>s. identity s = v) (permit_joining E cfg)"
  "keeps (\<lambda>s. identity s = v) (leave_end_device E rj)" "keeps (\<lambda>s. identity s = v) (leave_router E lr)"
  "keeps (\<lambda>s. identity s = v) (send_end_device_timeout_request_cmd E dt)"
proof -
  show "keeps (\<lambda>s. identity s = v) (direct_join E dj)" unfolding direct_join_def by (intro keeps_rules)
  show "keeps (\<lambda>s. identity s = v) (permit_joining E cfg)"
    by (auto simp: permit_joining_def set_association_permit_timeout_def mac_update_def act_modify_def identity_def intro!: keepsI)
qed (simp_all add: keeps_rules)

lemma identity_step:
  assumes "nwk_step R ms ms'" and "is_joined (fst ms)" and "is_joined (fst ms')"
  shows "identity (snd ms') = identity (snd ms)"
  using assms
proof (induction rule: nwk_step.induct)
  case (reset mode E s mode' s')
  then have "mode' = Uninitialized" by (auto simp: nwk_reset_def mac_reset_def mac_update_def act_defs run_simps)
  with reset show ?case by (simp add: is_joined_def is_routing_def)
next
  case (pend mode s mode' s')
  then have "mode' = PendingJoin" by (auto simp: to_pending_rejoin_def act_defs run_simps)
  with pend show ?case by (simp add: is_joined_def is_routing_def)
next
  case (become_router mode s mode' s')
  then show ?case by (simp add: to_router_def act_return_def)
qed (auto simp: is_joined_def is_routing_def
  dest: keepsD [OF keeps_identity_listen refl] keepsD [OF keeps_identity_operations(1) refl]
    keepsD [OF keeps_identity_operations(2) refl] keepsD [OF keeps_identity_operations(3) refl]
    keepsD [OF keeps_identity_operations(4) refl] keepsD [OF keeps_identity_operations(5) refl]
    keepsD [OF keeps_identity_operations(6) refl] keepsD [OF keeps_identity_operations(7) refl]
    keepsD [OF keeps_identity_discovery(3) refl])

lemma works_identity: "nwk_works R ms ms' \<Longrightarrow> is_joined (fst ms') \<and> identity (snd ms') = identity (snd ms)"
  by (induction rule: nwk_works.induct) (auto dest: identity_step)

section \<open>Decryption does not look at the outgoing counters\<close>

lemma blank_counter_same:
  "sm_key_seq_number (blank_counter k) = sm_key_seq_number k" "sm_key (blank_counter k) = sm_key k"
  "find_incoming src (blank_counter k) = find_incoming src k"
  by (simp_all add: blank_counter_def find_incoming_def)

lemma find_material_blank: "find_material n (map blank_counter keys) = map_option blank_counter (find_material n keys)"
  by (induction keys) (auto simp: find_material_def blank_counter_same)

lemma bind_material_blank:
  "Option.bind x (\<lambda>n. find_material n (map blank_counter keys)) = map_option blank_counter (Option.bind x (\<lambda>n. find_material n keys))"
  by (cases x) (simp_all add: find_material_blank)

lemma decrypt_frame_blank: "decrypt_frame C W D level (map blank_counter keys) p = decrypt_frame C W D level keys p"
  unfolding decrypt_frame_def bind_material_blank case_map_option comp_def blank_counter_same ..

lemma security_level_fixed: "nwk_security_level (profile_params s) = EncMic32"
  by (cases "cx_profile (nk_ctx s)") (simp_all add: profile_params_def profile_defs)

lemma decrypt_identity:
  assumes "identity s' = identity s"
  shows "decrypt_frame C W D (nwk_security_level (profile_params s')) (cx_security_material_set (nk_ctx s')) p =
    decrypt_frame C W D (nwk_security_level (profile_params s)) (cx_security_material_set (nk_ctx s)) p"
proof -
  from assms have "map blank_counter (cx_security_material_set (nk_ctx s')) = map blank_counter (cx_security_material_set (nk_ctx s))"
    by (simp add: identity_def)
  then show ?thesis by (metis decrypt_frame_blank security_level_fixed)
qed

section \<open>Properties\<close>

text \<open>C7. Nothing stops a frame from being received again. Once a device has a key under which the bytes of a data frame
  decrypt, they decrypt to the same frame after anything that it does and receives while it is joined, however often
  it has received them; and an end device to which the frame is addressed passes its data up every time.\<close>
theorem replay_accepted:
  assumes "nwk_works R (JoinedAsEndDevice, s) (mode, s')"
    and "decrypt_frame (ev_crypto E) (ev_wire E) (ev_codecs E) (nwk_security_level (profile_params s))
      (cx_security_material_set (nk_ctx s)) (mi_payload ind) = Done (Inr (Data d, True))"
    and "ms_short_address (nk_mac s) = Some (df_destination d)" and "\<not> fc_multicast (nh_control (df_header d))"
    and "fc_security (nh_control (df_header d))" and "nh_radius (df_header d) \<noteq> 0"
  shows "nwk_decrypt_frame E (mi_payload ind) s' = Done (Inr (Data d, True), s') \<and>
    (mode = JoinedAsEndDevice \<longrightarrow> (\<exists>s''. handle_mac_indication E R mode auth (MacData ind) s' =
      Done (Some (data_indication_of d ind True), s'')))"
proof -
  have same: "identity s' = identity s" using works_identity [OF assms(1)] by simp
  then have slf: "ms_short_address (nk_mac s') = Some (df_destination d)" using assms(3) by (simp add: identity_def)
  have dec: "nwk_decrypt_frame E (mi_payload ind) s' = Done (Inr (Data d, True), s')"
    using assms(2) by (simp add: nwk_decrypt_Done decrypt_identity [OF same])
  from process_incoming_decrypted [OF slf dec, of auth] assms(5,6)
  have "process_incoming_indication E ind auth s' = Done (Some (hop (Data d), True), note_source (df_header d) s')"
    by (simp add: admitted_def hop_def is_secured_def)
  then have "\<exists>s''. handle_mac_indication E R JoinedAsEndDevice auth (MacData ind) s' = Done (Some (data_indication_of d ind True), s'')"
    using slf assms(4)
    by (simp add: handle_mac_indication_def handle_data_indication_end_device_def act_bind_def hop_def indicate_own_data_def
        act_return_def frame_matches_self_end_device_def get_addr_def act_run_def unwrap_run_def note_source_def df_destination_def
        data_indication_of_def is_routing_def Let_def)
  with dec show ?thesis by blast
qed

theorem replay_accepted_witness:
  "\<exists>p s1 s2. listen_step env_std radio_std JoinedAsEndDevice True (mac_data_std 0x1a62 p) recv_std =
       Done (Some (data_indication_of data_frame_std (ind_std p) True), s1) \<and>
     handle_mac_indication env_std radio_std JoinedAsEndDevice True (MacData (ind_std p)) s1 =
       Done (Some (data_indication_of data_frame_std (ind_std p) True), s2)"
proof -
  obtain p where dec: "decrypt_frame crypto_std wire_std codecs_std EncMic32 [sm_std] p = Done (Inr (data_std, True))"
    using sent_std by blast
  have "\<exists>s1. listen_step env_std radio_std JoinedAsEndDevice True (mac_data_std 0x1a62 p) recv_std =
      Done (Some (data_indication_of data_frame_std (ind_std p) True), s1)"
    by (rule end_device_indicates)
      (simp_all add: recv_std_simps header_std_simps env_std_simps nwk_std_simps ind_std_def dec data_std_frame)
  then obtain s1 where first: "listen_step env_std radio_std JoinedAsEndDevice True (mac_data_std 0x1a62 p) recv_std =
      Done (Some (data_indication_of data_frame_std (ind_std p) True), s1)" by blast
  then have "nwk_step radio_std (JoinedAsEndDevice, recv_std) (JoinedAsEndDevice, s1)" by (intro nwk_step.receive) simp_all
  then have works: "nwk_works radio_std (JoinedAsEndDevice, recv_std) (JoinedAsEndDevice, s1)"
    by (intro nwk_works.step [OF nwk_works.start]) (simp_all add: is_joined_def)
  have "\<exists>s2. handle_mac_indication env_std radio_std JoinedAsEndDevice True (MacData (ind_std p)) s1 =
      Done (Some (data_indication_of data_frame_std (ind_std p) True), s2)"
    using replay_accepted [OF works, of env_std "ind_std p" data_frame_std True]
    by (simp add: recv_std_simps header_std_simps env_std_simps nwk_std_simps ind_std_def dec data_std_frame)
  with first show ?thesis by blast
qed

end
