(* ===== verification/Zcl_Data.thy ===== *)
theory Zcl_Data
  imports Nwk_Frame
begin

text \<open>
  The data types of the cluster library (\<open>zcl/types.rs\<close>): status values, typed values, times and
  dates, with the hand-written reader and writer of \<open>ZclData\<close>. Signed integers and floating point numbers
  are the words that their bits are; a \<open>String\<close> is its bytes.
\<close>

section \<open>Values\<close>

datatype zcl_status =
  ZsSuccess | ZsFailure | ZsNotAuthorized | ZsReservedFieldNotZero | ZsMalformedCommand | ZsUnsupClusterCommand
  | ZsUnsupGeneralCommand | ZsUnsupManufClusterCommand | ZsUnsupManufGeneralCommand | ZsInvalidField
  | ZsUnsupportedAttribute | ZsInvalidValue | ZsReadOnly | ZsInsufficientSpace | ZsDuplicateExists | ZsNotFound
  | ZsUnreportableAttribute | ZsInvalidDataType | ZsInvalidSelector | ZsWriteOnly | ZsInconsistentStartupState
  | ZsDefinedOutOfBand | ZsInconsistent | ZsActionDenied | ZsTimeout | ZsAbort | ZsInvalidImage | ZsWaitForData
  | ZsNoImageAvailable | ZsRequireMoreImage | ZsNotificationPending | ZsHardwareFailure | ZsSoftwareFailure
  | ZsCalibrationError | ZsUnsupportedCluster

text \<open>The fields of a time (\<open>hour\<close>, \<open>minute\<close>, \<open>second\<close>, \<open>hundredth\<close>) and of a date (\<open>year\<close>, \<open>month\<close>, \<open>day\<close>,
  \<open>weekday\<close>); what is unspecified is 0xff in the bytes.\<close>

record zcl_time =
  zt_hour :: "u8 option"
  zt_minute :: "u8 option"
  zt_second :: "u8 option"
  zt_hundredth :: "u8 option"

record zcl_date =
  zd_year :: "u8 option"
  zd_month :: "u8 option"
  zd_day :: "u8 option"
  zd_weekday :: "u8 option"

datatype zcl_data =
  ZNull | ZData8 u8 | ZData16 u16 | ZData24 u32 | ZData32 u32 | ZData40 u64 | ZData48 u64 | ZData56 u64
  | ZData64 u64 | ZBool bool | ZBitmap8 u8 | ZBitmap16 u16 | ZBitmap24 u32 | ZBitmap32 u32 | ZBitmap40 u64
  | ZBitmap48 u64 | ZBitmap56 u64 | ZBitmap64 u64 | ZUInt8 u8 | ZUInt16 u16 | ZUInt24 u32 | ZUInt32 u32
  | ZUInt40 u64 | ZUInt48 u64 | ZUInt56 u64 | ZUInt64 u64 | ZInt8 u8 | ZInt16 u16 | ZInt24 u32 | ZInt32 u32
  | ZInt40 u64 | ZInt48 u64 | ZInt56 u64 | ZInt64 u64 | ZEnum8 u8 | ZEnum16 u16 | ZFloat16 u32 | ZFloat u32
  | ZDouble u64 | ZOctetString bytes | ZString bytes | ZLongOctetString bytes | ZLongString bytes
  | ZArray u16 "zcl_data list" | ZStructure u16 "zcl_data list" | ZSet u16 "zcl_data list"
  | ZBag u16 "zcl_data list" | ZTime zcl_time | ZDate zcl_date | ZTimestamp u32 | ZClusterId u16
  | ZAttributeId u16 | ZBacNetOid u16 | ZIeeeAddress ext_addr | ZSecurityKey key

primrec zcl_discriminant :: "zcl_data \<Rightarrow> u8" where
  "zcl_discriminant ZNull = 0x00"
| "zcl_discriminant (ZData8 x) = 0x08"
| "zcl_discriminant (ZData16 x) = 0x09"
| "zcl_discriminant (ZData24 x) = 0x0a"
| "zcl_discriminant (ZData32 x) = 0x0b"
| "zcl_discriminant (ZData40 x) = 0x0c"
| "zcl_discriminant (ZData48 x) = 0x0d"
| "zcl_discriminant (ZData56 x) = 0x0e"
| "zcl_discriminant (ZData64 x) = 0x0f"
| "zcl_discriminant (ZBool x) = 0x10"
| "zcl_discriminant (ZBitmap8 x) = 0x18"
| "zcl_discriminant (ZBitmap16 x) = 0x19"
| "zcl_discriminant (ZBitmap24 x) = 0x1a"
| "zcl_discriminant (ZBitmap32 x) = 0x1b"
| "zcl_discriminant (ZBitmap40 x) = 0x1c"
| "zcl_discriminant (ZBitmap48 x) = 0x1d"
| "zcl_discriminant (ZBitmap56 x) = 0x1e"
| "zcl_discriminant (ZBitmap64 x) = 0x1f"
| "zcl_discriminant (ZUInt8 x) = 0x20"
| "zcl_discriminant (ZUInt16 x) = 0x21"
| "zcl_discriminant (ZUInt24 x) = 0x22"
| "zcl_discriminant (ZUInt32 x) = 0x23"
| "zcl_discriminant (ZUInt40 x) = 0x24"
| "zcl_discriminant (ZUInt48 x) = 0x25"
| "zcl_discriminant (ZUInt56 x) = 0x26"
| "zcl_discriminant (ZUInt64 x) = 0x27"
| "zcl_discriminant (ZInt8 x) = 0x28"
| "zcl_discriminant (ZInt16 x) = 0x29"
| "zcl_discriminant (ZInt24 x) = 0x2a"
| "zcl_discriminant (ZInt32 x) = 0x2b"
| "zcl_discriminant (ZInt40 x) = 0x2c"
| "zcl_discriminant (ZInt48 x) = 0x2d"
| "zcl_discriminant (ZInt56 x) = 0x2e"
| "zcl_discriminant (ZInt64 x) = 0x2f"
| "zcl_discriminant (ZEnum8 x) = 0x30"
| "zcl_discriminant (ZEnum16 x) = 0x31"
| "zcl_discriminant (ZFloat16 x) = 0x38"
| "zcl_discriminant (ZFloat x) = 0x39"
| "zcl_discriminant (ZDouble x) = 0x3a"
| "zcl_discriminant (ZOctetString x) = 0x41"
| "zcl_discriminant (ZString x) = 0x42"
| "zcl_discriminant (ZLongOctetString x) = 0x43"
| "zcl_discriminant (ZLongString x) = 0x44"
| "zcl_discriminant (ZArray n vs) = 0x48"
| "zcl_discriminant (ZStructure n vs) = 0x4c"
| "zcl_discriminant (ZSet n vs) = 0x50"
| "zcl_discriminant (ZBag n vs) = 0x51"
| "zcl_discriminant (ZTime x) = 0xe0"
| "zcl_discriminant (ZDate x) = 0xe1"
| "zcl_discriminant (ZTimestamp x) = 0xe2"
| "zcl_discriminant (ZClusterId x) = 0xe8"
| "zcl_discriminant (ZAttributeId x) = 0xe9"
| "zcl_discriminant (ZBacNetOid x) = 0xea"
| "zcl_discriminant (ZIeeeAddress x) = 0xf0"
| "zcl_discriminant (ZSecurityKey x) = 0xf1"

section \<open>Writing\<close>

definition zcl_field :: "u8 option \<Rightarrow> u8" where
  "zcl_field f = (case f of None \<Rightarrow> 0xff | Some x \<Rightarrow> x)"

definition zcl_time_bytes :: "zcl_time \<Rightarrow> bytes" where
  "zcl_time_bytes t = map zcl_field [zt_hour t, zt_minute t, zt_second t, zt_hundredth t]"

definition zcl_date_bytes :: "zcl_date \<Rightarrow> bytes" where
  "zcl_date_bytes d = map zcl_field [zd_year d, zd_month d, zd_day d, zd_weekday d]"

text \<open>The slices that are written one after the other behind the tag, and the items that follow them. The macro
  \<open>write_zcl_data_bytes\<close> checks the room before it writes, which the writer of a slice does too.\<close>

primrec zcl_parts :: "zcl_data \<Rightarrow> bytes list" where
  "zcl_parts ZNull = []"
| "zcl_parts (ZData8 x) = [le_bytes 1 x]"
| "zcl_parts (ZData16 x) = [le_bytes 2 x]"
| "zcl_parts (ZData24 x) = [le_bytes 3 x]"
| "zcl_parts (ZData32 x) = [le_bytes 4 x]"
| "zcl_parts (ZData40 x) = [le_bytes 5 x]"
| "zcl_parts (ZData48 x) = [le_bytes 6 x]"
| "zcl_parts (ZData56 x) = [le_bytes 7 x]"
| "zcl_parts (ZData64 x) = [le_bytes 8 x]"
| "zcl_parts (ZBool x) = [[if x then 1 else 0]]"
| "zcl_parts (ZBitmap8 x) = [le_bytes 1 x]"
| "zcl_parts (ZBitmap16 x) = [le_bytes 2 x]"
| "zcl_parts (ZBitmap24 x) = [le_bytes 3 x]"
| "zcl_parts (ZBitmap32 x) = [le_bytes 4 x]"
| "zcl_parts (ZBitmap40 x) = [le_bytes 5 x]"
| "zcl_parts (ZBitmap48 x) = [le_bytes 6 x]"
| "zcl_parts (ZBitmap56 x) = [le_bytes 7 x]"
| "zcl_parts (ZBitmap64 x) = [le_bytes 8 x]"
| "zcl_parts (ZUInt8 x) = [le_bytes 1 x]"
| "zcl_parts (ZUInt16 x) = [le_bytes 2 x]"
| "zcl_parts (ZUInt24 x) = [le_bytes 3 x]"
| "zcl_parts (ZUInt32 x) = [le_bytes 4 x]"
| "zcl_parts (ZUInt40 x) = [le_bytes 5 x]"
| "zcl_parts (ZUInt48 x) = [le_bytes 6 x]"
| "zcl_parts (ZUInt56 x) = [le_bytes 7 x]"
| "zcl_parts (ZUInt64 x) = [le_bytes 8 x]"
| "zcl_parts (ZInt8 x) = [le_bytes 1 x]"
| "zcl_parts (ZInt16 x) = [le_bytes 2 x]"
| "zcl_parts (ZInt24 x) = [le_bytes 3 x]"
| "zcl_parts (ZInt32 x) = [le_bytes 4 x]"
| "zcl_parts (ZInt40 x) = [le_bytes 5 x]"
| "zcl_parts (ZInt48 x) = [le_bytes 6 x]"
| "zcl_parts (ZInt56 x) = [le_bytes 7 x]"
| "zcl_parts (ZInt64 x) = [le_bytes 8 x]"
| "zcl_parts (ZEnum8 x) = [le_bytes 1 x]"
| "zcl_parts (ZEnum16 x) = [le_bytes 2 x]"
| "zcl_parts (ZFloat16 x) = [le_bytes 2 x]"
| "zcl_parts (ZFloat x) = [le_bytes 4 x]"
| "zcl_parts (ZDouble x) = [le_bytes 8 x]"
| "zcl_parts (ZOctetString x) = [[of_nat (length x)], x]"
| "zcl_parts (ZString x) = [[of_nat (length x)], x]"
| "zcl_parts (ZLongOctetString x) = [le_bytes 2 (of_nat (length x) :: u16), x]"
| "zcl_parts (ZLongString x) = [le_bytes 2 (of_nat (length x) :: u16), x]"
| "zcl_parts (ZArray n vs) = [le_bytes 2 (of_nat (length vs) :: u16)]"
| "zcl_parts (ZStructure n vs) = [le_bytes 2 (of_nat (length vs) :: u16)]"
| "zcl_parts (ZSet n vs) = [le_bytes 2 (of_nat (length vs) :: u16)]"
| "zcl_parts (ZBag n vs) = [le_bytes 2 (of_nat (length vs) :: u16)]"
| "zcl_parts (ZTime x) = [zcl_time_bytes x]"
| "zcl_parts (ZDate x) = [zcl_date_bytes x]"
| "zcl_parts (ZTimestamp x) = [le_bytes 4 x]"
| "zcl_parts (ZClusterId x) = [le_bytes 2 x]"
| "zcl_parts (ZAttributeId x) = [le_bytes 2 x]"
| "zcl_parts (ZBacNetOid x) = [le_bytes 2 x]"
| "zcl_parts (ZIeeeAddress x) = [le_bytes 8 x]"
| "zcl_parts (ZSecurityKey x) = [x]"

fun zcl_items :: "zcl_data \<Rightarrow> zcl_data list" where
  "zcl_items (ZArray n vs) = vs"
| "zcl_items (ZStructure n vs) = vs"
| "zcl_items (ZSet n vs) = vs"
| "zcl_items (ZBag n vs) = vs"
| "zcl_items v = []"

lemma size_zcl_items: "x \<in> set (zcl_items v) \<Longrightarrow> size x < size v"
  by (cases v) (auto simp: less_Suc_eq_le size_list_estimation')

fun write_slices :: "bytes list \<Rightarrow> bytes \<times> nat \<Rightarrow> byte_error + bytes \<times> nat" where
  "write_slices [] st = Inr st"
| "write_slices (xs # xss) st = res_bind (write_with (write_slice xs) st) (write_slices xss)"

fun write_each :: "('a \<Rightarrow> bwriter) \<Rightarrow> 'a list \<Rightarrow> bytes \<times> nat \<Rightarrow> byte_error + bytes \<times> nat" where
  "write_each w [] st = Inr st"
| "write_each w (x # xs) st = res_bind (write_with (w x) st) (write_each w xs)"

lemma write_each_cong [fundef_cong]:
  "xs = ys \<Longrightarrow> (\<And>x. x \<in> set ys \<Longrightarrow> w x = w' x) \<Longrightarrow> write_each w xs = write_each w' ys"
proof -
  assume xs: "xs = ys" and w: "\<And>x. x \<in> set ys \<Longrightarrow> w x = w' x"
  from w have "write_each w ys st = write_each w' ys st" for st
  proof (induction ys arbitrary: st)
    case (Cons y ys)
    then have "write_each w ys = write_each w' ys" by auto
    with Cons.prems show ?case by (simp del: write_with.simps)
  qed simp
  with xs show "write_each w xs = write_each w' ys" by auto
qed

function zcl_write :: "nat \<Rightarrow> zcl_data \<Rightarrow> bwriter" where
  "zcl_write depth v = (\<lambda>buf.
     if 15 < depth then Inl (BadInput ''depth limit exceeded'')
     else res_bind (write_slices ([zcl_discriminant v] # zcl_parts v) (buf, 0))
       (write_each (zcl_write (depth + 1)) (zcl_items v)))"
  by pat_completeness auto
termination by (relation "measure (\<lambda>(_, v). size v)") (auto simp: size_zcl_items)

declare zcl_write.simps [simp del]

section \<open>Reading\<close>

text \<open>The well-formed byte sequences of UTF-8, by the length of a character and the range of its second byte.\<close>

definition utf8_tail :: "u8 \<Rightarrow> bool" where
  "utf8_tail b \<longleftrightarrow> 0x80 \<le> b \<and> b \<le> 0xbf"

definition utf8_second :: "u8 \<Rightarrow> u8 \<Rightarrow> bool" where
  "utf8_second a b \<longleftrightarrow>
     (if a = 0xe0 then 0xa0 \<le> b \<and> b \<le> 0xbf else if a = 0xed then 0x80 \<le> b \<and> b \<le> 0x9f
      else if a = 0xf0 then 0x90 \<le> b \<and> b \<le> 0xbf else if a = 0xf4 then 0x80 \<le> b \<and> b \<le> 0x8f
      else utf8_tail b)"

fun utf8_valid :: "bytes \<Rightarrow> bool" where
  "utf8_valid [] = True"
| "utf8_valid (a # xs) =
     (if a \<le> 0x7f then utf8_valid xs
      else if 0xc2 \<le> a \<and> a \<le> 0xdf then (case xs of b # r \<Rightarrow> utf8_tail b \<and> utf8_valid r | _ \<Rightarrow> False)
      else if 0xe0 \<le> a \<and> a \<le> 0xef then
        (case xs of b # c # r \<Rightarrow> utf8_second a b \<and> utf8_tail c \<and> utf8_valid r | _ \<Rightarrow> False)
      else if 0xf0 \<le> a \<and> a \<le> 0xf4 then
        (case xs of b # c # d # r \<Rightarrow> utf8_second a b \<and> utf8_tail c \<and> utf8_tail d \<and> utf8_valid r | _ \<Rightarrow> False)
      else False)"

type_synonym zcl_reader = "bytes \<Rightarrow> (byte_error + zcl_data \<times> nat) run"

definition zcl_scalar :: "nat \<Rightarrow> ('n::len word \<Rightarrow> zcl_data) \<Rightarrow> zcl_reader" where
  "zcl_scalar n c bs = Done (if length bs < n then Inl Incomplete else Inr (c (le_value (take n bs)), n))"

definition zcl_bool :: zcl_reader where
  "zcl_bool bs = Done (case bs of [] \<Rightarrow> Inl Incomplete | b # _ \<Rightarrow> Inr (ZBool (b \<noteq> 0), 1))"

text \<open>A string without its length byte panics; a long one without its length is an error.\<close>

definition zcl_short :: "(bytes \<Rightarrow> byte_error + zcl_data) \<Rightarrow> zcl_reader" where
  "zcl_short c bs = (case bs of [] \<Rightarrow> Panic
     | n # rest \<Rightarrow> Done (if length rest < unat n then Inl Incomplete
         else res_bind (c (take (unat n) rest)) (\<lambda>v. Inr (v, unat n + 1))))"

definition get_u16_len :: "bytes \<Rightarrow> byte_error + u16" where
  "get_u16_len bs = (if length bs < 2 then Inl Incomplete else Inr (le_value (take 2 bs)))"

definition zcl_long :: "(bytes \<Rightarrow> byte_error + zcl_data) \<Rightarrow> zcl_reader" where
  "zcl_long c bs = Done (res_bind (get_u16_len bs) (\<lambda>n.
      if length (drop 2 bs) < unat n then Inl Incomplete
      else res_bind (c (take (unat n) (drop 2 bs))) (\<lambda>v. Inr (v, unat n + 2))))"

definition zcl_utf8 :: "bytes \<Rightarrow> byte_error + zcl_data" where
  "zcl_utf8 xs = (if utf8_valid xs then Inr (ZString xs) else Inl (BadInput ''invalid utf8 format''))"

definition zcl_unfield :: "u8 \<Rightarrow> u8 option" where
  "zcl_unfield x = (if x \<noteq> 0xff then Some x else None)"

definition zcl_time_invalid :: "u8 \<Rightarrow> u8 \<Rightarrow> u8 \<Rightarrow> u8 \<Rightarrow> bool" where
  "zcl_time_invalid h m s c \<longleftrightarrow> 24 < h \<and> h \<noteq> 0xff \<or> 60 < m \<and> m \<noteq> 0xff \<or> 60 < s \<and> s \<noteq> 0xff \<or> 100 < c \<and> c \<noteq> 0xff"

definition read_zcl_time :: "zcl_time breader" where
  "read_zcl_time bs = (case bs of
     h # m # s # c # _ \<Rightarrow> if zcl_time_invalid h m s c then Inl (BadInput ''invalid range received for `ZclTime` value'')
       else Inr (\<lparr> zt_hour = zcl_unfield h, zt_minute = zcl_unfield m, zt_second = zcl_unfield s,
         zt_hundredth = zcl_unfield c \<rparr>, 4)
   | _ \<Rightarrow> Inl Incomplete)"

definition zcl_leap_year :: "u8 \<Rightarrow> bool" where
  "zcl_leap_year y \<longleftrightarrow> y mod 4 = 0 \<and> y \<noteq> 0 \<and> y \<noteq> 200"

definition zcl_date_invalid :: "u8 \<Rightarrow> u8 \<Rightarrow> u8 \<Rightarrow> u8 \<Rightarrow> bool" where
  "zcl_date_invalid y m d w \<longleftrightarrow> 12 < m \<and> m \<noteq> 0xff \<or> 31 < d \<and> d \<noteq> 0xff \<or> 7 < w \<and> w \<noteq> 0xff
     \<or> m \<in> {2, 4, 6, 9, 11} \<and> 30 < d \<or> y \<noteq> 0xff \<and> \<not> zcl_leap_year y \<and> m = 2 \<and> 29 < d"

definition read_zcl_date :: "zcl_date breader" where
  "read_zcl_date bs = (case bs of
     y # m # d # w # _ \<Rightarrow> if zcl_date_invalid y m d w then Inl (BadInput ''invalid range received for `ZclTime` value'')
       else Inr (\<lparr> zd_year = zcl_unfield y, zd_month = zcl_unfield m, zd_day = zcl_unfield d,
         zd_weekday = zcl_unfield w \<rparr>, 4)
   | _ \<Rightarrow> Inl Incomplete)"

definition zcl_key :: zcl_reader where
  "zcl_key bs = Done (if length bs < 16 then Inl Incomplete else Inr (ZSecurityKey (take 16 bs), 16))"

text \<open>A length of 4 is reported for the eight bytes of an address.\<close>

definition zcl_ieee :: zcl_reader where
  "zcl_ieee bs = Done (if length bs < 8 then Inl Incomplete else Inr (ZIeeeAddress (le_value (take 8 bs)), 4))"

text \<open>The match on the tag: the values without items, and those with items.\<close>

definition zcl_readers :: "(u8 \<times> zcl_reader) list" where
  "zcl_readers = [(0x00, \<lambda>_. Done (Inr (ZNull, 0))), (0x10, zcl_bool),
    (0x08, zcl_scalar 1 ZData8), (0x09, zcl_scalar 2 ZData16), (0x0a, zcl_scalar 3 ZData24),
    (0x0b, zcl_scalar 4 ZData32), (0x0c, zcl_scalar 5 ZData40), (0x0d, zcl_scalar 6 ZData48),
    (0x0e, zcl_scalar 7 ZData56), (0x0f, zcl_scalar 8 ZData64), (0x18, zcl_scalar 1 ZBitmap8),
    (0x19, zcl_scalar 2 ZBitmap16), (0x1a, zcl_scalar 3 ZBitmap24), (0x1b, zcl_scalar 4 ZBitmap32),
    (0x1c, zcl_scalar 5 ZBitmap40), (0x1d, zcl_scalar 6 ZBitmap48), (0x1e, zcl_scalar 7 ZBitmap56),
    (0x1f, zcl_scalar 8 ZBitmap64), (0x20, zcl_scalar 1 ZUInt8), (0x21, zcl_scalar 2 ZUInt16),
    (0x22, zcl_scalar 3 ZUInt24), (0x23, zcl_scalar 4 ZUInt32), (0x24, zcl_scalar 5 ZUInt40),
    (0x25, zcl_scalar 6 ZUInt48), (0x26, zcl_scalar 7 ZUInt56), (0x27, zcl_scalar 8 ZUInt64),
    (0x28, zcl_scalar 1 ZInt8), (0x29, zcl_scalar 2 ZInt16), (0x2a, zcl_scalar 3 ZInt24),
    (0x2b, zcl_scalar 4 ZInt32), (0x2c, zcl_scalar 5 ZInt40), (0x2d, zcl_scalar 6 ZInt48),
    (0x2e, zcl_scalar 7 ZInt56), (0x2f, zcl_scalar 8 ZInt64), (0x30, zcl_scalar 1 ZEnum8),
    (0x31, zcl_scalar 2 ZEnum16), (0x38, zcl_scalar 2 ZFloat16), (0x39, zcl_scalar 4 ZFloat),
    (0x3a, zcl_scalar 8 ZDouble), (0xe2, zcl_scalar 4 ZTimestamp), (0xe8, zcl_scalar 2 ZClusterId),
    (0xe9, zcl_scalar 2 ZAttributeId), (0xea, zcl_scalar 2 ZBacNetOid),
    (0x41, zcl_short (Inr \<circ> ZOctetString)), (0x42, zcl_short zcl_utf8),
    (0x43, zcl_long (Inr \<circ> ZLongOctetString)), (0x44, zcl_long zcl_utf8),
    (0xe0, \<lambda>bs. Done (res_bind (read_zcl_time bs) (\<lambda>(t, _). Inr (ZTime t, 4)))),
    (0xe1, \<lambda>bs. Done (res_bind (read_zcl_date bs) (\<lambda>(d, _). Inr (ZDate d, 4)))),
    (0xf0, zcl_ieee), (0xf1, zcl_key)]"

definition zcl_structs :: "(u8 \<times> (u16 \<Rightarrow> zcl_data list \<Rightarrow> zcl_data)) list" where
  "zcl_structs = [(0x48, ZArray), (0x4c, ZStructure), (0x50, ZSet), (0x51, ZBag)]"

function zcl_read :: "nat \<Rightarrow> zcl_reader" and
  zcl_read_items :: "nat \<Rightarrow> nat \<Rightarrow> bytes \<Rightarrow> nat \<Rightarrow> (byte_error + zcl_data list \<times> nat) run" where
  "zcl_read depth bs =
     (if 15 < depth then Done (Inl (BadInput ''depth limit exceeded''))
      else case bs of [] \<Rightarrow> Panic | tag # rest \<Rightarrow>
        (case map_of zcl_structs tag of
           Some c \<Rightarrow> if length rest < 2 then Done (Inl Incomplete) else
             run_map (\<lambda>r. res_bind r (\<lambda>(vs, idx). Inr (c (le_value (take 2 rest)) vs, idx + 1)))
               (zcl_read_items depth (unat (le_value (take 2 rest) :: u16)) rest 2)
         | None \<Rightarrow> (case map_of zcl_readers tag of
             Some rd \<Rightarrow> run_map (\<lambda>r. res_bind r (\<lambda>(v, n). Inr (v, n + 1))) (rd rest)
           | None \<Rightarrow> Done (Inl (BadInput ''invalid data type'')))))"
| "zcl_read_items depth 0 bs idx = Done (Inr ([], idx))"
| "zcl_read_items depth (Suc k) bs idx =
     (if length bs < idx then Panic
      else run_bind (zcl_read (depth + 1) (drop idx bs)) (\<lambda>r. case r of
        Inl e \<Rightarrow> Done (Inl e)
      | Inr (v, n) \<Rightarrow> run_map (\<lambda>r. res_bind r (\<lambda>(vs, i). Inr (v # vs, i))) (zcl_read_items depth k bs (idx + n))))"
  by pat_completeness auto
termination
  by (relation "inv_image (less_than <*lex*> less_than <*lex*> less_than)
        (\<lambda>x. case x of Inl (d, _) \<Rightarrow> (16 - d, 0, 0) | Inr (d, k, _, _) \<Rightarrow> (15 - d, 1, k))") auto

declare zcl_read.simps [simp del]

section \<open>What survives writing and reading\<close>

lemma zcl_scalar_le: "zcl_scalar n c (le_bytes n w @ rest) = Done (Inr (c (take_bit (8 * n) w), n))"
  by (simp add: zcl_scalar_def le_value_le_bytes)

text \<open>The values that fit what is written of them.\<close>

definition zcl_count :: "u16 \<Rightarrow> zcl_data list \<Rightarrow> bool" where
  "zcl_count n vs \<longleftrightarrow> length vs < 2 ^ 16 \<and> n = of_nat (length vs)"

definition zcl_fits :: "zcl_data \<Rightarrow> bool" where
  "zcl_fits v = (case v of
     ZData24 x \<Rightarrow> take_bit 24 x = x | ZBitmap24 x \<Rightarrow> take_bit 24 x = x | ZUInt24 x \<Rightarrow> take_bit 24 x = x
   | ZInt24 x \<Rightarrow> take_bit 24 x = x | ZFloat16 x \<Rightarrow> take_bit 16 x = x
   | ZData40 x \<Rightarrow> take_bit 40 x = x | ZBitmap40 x \<Rightarrow> take_bit 40 x = x | ZUInt40 x \<Rightarrow> take_bit 40 x = x
   | ZInt40 x \<Rightarrow> take_bit 40 x = x
   | ZData48 x \<Rightarrow> take_bit 48 x = x | ZBitmap48 x \<Rightarrow> take_bit 48 x = x | ZUInt48 x \<Rightarrow> take_bit 48 x = x
   | ZInt48 x \<Rightarrow> take_bit 48 x = x
   | ZData56 x \<Rightarrow> take_bit 56 x = x | ZBitmap56 x \<Rightarrow> take_bit 56 x = x | ZUInt56 x \<Rightarrow> take_bit 56 x = x
   | ZInt56 x \<Rightarrow> take_bit 56 x = x
   | ZOctetString xs \<Rightarrow> length xs < 2 ^ 8 | ZString xs \<Rightarrow> length xs < 2 ^ 8 \<and> utf8_valid xs
   | ZLongOctetString xs \<Rightarrow> length xs < 2 ^ 16 | ZLongString xs \<Rightarrow> False
   | ZArray n vs \<Rightarrow> zcl_count n vs | ZStructure n vs \<Rightarrow> zcl_count n vs
   | ZSet n vs \<Rightarrow> zcl_count n vs | ZBag n vs \<Rightarrow> zcl_count n vs
   | ZTime t \<Rightarrow> Some 0xff \<notin> {zt_hour t, zt_minute t, zt_second t, zt_hundredth t} \<and>
       \<not> zcl_time_invalid (zcl_field (zt_hour t)) (zcl_field (zt_minute t)) (zcl_field (zt_second t)) (zcl_field (zt_hundredth t))
   | ZDate d \<Rightarrow> Some 0xff \<notin> {zd_year d, zd_month d, zd_day d, zd_weekday d} \<and>
       \<not> zcl_date_invalid (zcl_field (zd_year d)) (zcl_field (zd_month d)) (zcl_field (zd_day d)) (zcl_field (zd_weekday d))
   | ZIeeeAddress a \<Rightarrow> False | ZSecurityKey k \<Rightarrow> length k = 16
   | _ \<Rightarrow> True)"

function zcl_plain :: "nat \<Rightarrow> zcl_data \<Rightarrow> bool" where
  "zcl_plain d v \<longleftrightarrow> d \<le> 15 \<and> zcl_fits v \<and> (\<forall>x\<in>set (zcl_items v). zcl_plain (d + 1) x)"
  by pat_completeness auto
termination by (relation "measure (\<lambda>(_, v). size v)") (auto simp: size_zcl_items)

function zcl_bytes :: "zcl_data \<Rightarrow> bytes" where
  "zcl_bytes v = zcl_discriminant v # concat (zcl_parts v) @ concat (map zcl_bytes (zcl_items v))"
  by pat_completeness auto
termination by (relation "measure size") (auto simp: size_zcl_items)

declare zcl_plain.simps [simp del] zcl_bytes.simps [simp del]

lemma write_slices_room:
  "length (concat xss) \<le> length b \<Longrightarrow> write_slices xss (a @ b, length a) =
     Inr (a @ concat xss @ drop (length (concat xss)) b, length a + length (concat xss))"
proof (induction xss arbitrary: a b)
  case (Cons xs xss)
  from Cons.prems have "write_with (write_slice xs) (a @ b, length a) = Inr ((a @ xs) @ drop (length xs) b, length (a @ xs))"
    by (simp add: write_slice_def)
  moreover from Cons.prems have "length (concat xss) \<le> length (drop (length xs) b)" by simp
  note Cons.IH [OF this, of "a @ xs"]
  ultimately show ?case by (simp add: add.assoc add.commute del: write_with.simps)
qed simp

definition writes :: "bwriter \<Rightarrow> bytes \<Rightarrow> bool" where
  "writes w e \<longleftrightarrow> (\<forall>b. length e \<le> length b \<longrightarrow> w b = Inr (e @ drop (length e) b, length e))"

lemma write_each_room:
  assumes "\<And>x. x \<in> set xs \<Longrightarrow> writes (w x) (e x)" and "length (concat (map e xs)) \<le> length b"
  shows "write_each w xs (a @ b, length a) =
     Inr (a @ concat (map e xs) @ drop (length (concat (map e xs))) b, length a + length (concat (map e xs)))"
  using assms
proof (induction xs arbitrary: a b)
  case (Cons x xs)
  from Cons.prems have "write_with (w x) (a @ b, length a) = Inr ((a @ e x) @ drop (length (e x)) b, length (a @ e x))"
    by (simp add: writes_def)
  moreover from Cons.prems have "length (concat (map e xs)) \<le> length (drop (length (e x)) b)" by simp
  note Cons.IH [OF Cons.prems(1) this, of "a @ e x"]
  ultimately show ?case by (simp add: add.assoc add.commute del: write_with.simps)
qed simp

lemma zcl_write_room: "zcl_plain d v \<Longrightarrow> writes (zcl_write d v) (zcl_bytes v)"
proof (induction d v rule: zcl_plain.induct)
  case (1 d v)
  let ?h = "zcl_discriminant v # concat (zcl_parts v)" and ?is = "concat (map zcl_bytes (zcl_items v))"
  have "zcl_write d v b = Inr (zcl_bytes v @ drop (length (zcl_bytes v)) b, length (zcl_bytes v))"
    if room: "length (zcl_bytes v) \<le> length b" for b
  proof -
    from "1.prems" have d: "\<not> 15 < d" and items: "\<And>x. x \<in> set (zcl_items v) \<Longrightarrow> writes (zcl_write (d + 1) x) (zcl_bytes x)"
      using "1.IH" by (auto simp: zcl_plain.simps [of d v])
    have e: "zcl_bytes v = ?h @ ?is" by (simp add: zcl_bytes.simps [of v])
    from room e have "write_slices ([zcl_discriminant v] # zcl_parts v) (b, 0) = Inr (?h @ drop (length ?h) b, length ?h)"
      using write_slices_room [of "[zcl_discriminant v] # zcl_parts v" b "[]"] by (simp del: write_slices.simps)
    moreover from room e have "length ?is \<le> length (drop (length ?h) b)" by simp
    note write_each_room [of "zcl_items v" "zcl_write (d + 1)", OF items this, of ?h]
    ultimately show ?thesis using d e by (simp add: zcl_write.simps [of d v] add.commute del: write_slices.simps)
  qed
  then show ?case by (simp add: writes_def)
qed

end
