(* ===== verification/Zcl_Commands.thy ===== *)
theory Zcl_Commands
  imports Zcl_Data
begin

unbundle bit_operations_syntax

text \<open>
  Frames and global commands of the cluster library (\<open>zcl/frame.rs\<close>, \<open>zcl/command/global.rs\<close>) with the
  hand-written codecs among them. The derived codecs of the header and of the commands are the record
  \<open>zcl_codecs\<close>; the reader of a command runs the reader of values, which can panic. A struct whose only
  field is a vector is that list.
\<close>

section \<open>Global commands\<close>

datatype reporting_direction = ReportDirection | ReceiveDirection

record attribute_record =
  atr_identifier :: u16
  atr_data :: zcl_data

record read_status_record =
  rsr_identifier :: u16
  rsr_status :: zcl_status
  rsr_data :: "zcl_data option"

record write_status_record =
  wsr_status :: zcl_status
  wsr_identifier :: u16

record reporting_config_record =
  rcr_direction :: reporting_direction
  rcr_identifier :: u16
  rcr_data_type :: "u8 option"
  rcr_minimum :: "u16 option"
  rcr_maximum :: "u16 option"
  rcr_change :: "zcl_data option"
  rcr_timeout :: "u16 option"

record attribute_status_record =
  asr_status :: zcl_status
  asr_direction :: reporting_direction
  asr_identifier :: u16

record reporting_query =
  rpq_direction :: reporting_direction
  rpq_identifier :: u16

record read_reporting_record =
  rrr_status :: zcl_status
  rrr_direction :: reporting_direction
  rrr_identifier :: u16
  rrr_data_type :: "u8 option"
  rrr_minimum :: "u16 option"
  rrr_maximum :: "u16 option"
  rrr_change :: "zcl_data option"
  rrr_timeout :: "u16 option"

record discover_record =
  dcr_identifier :: u16
  dcr_data_type :: u8

record attribute_selector =
  sel_identifier :: u16
  sel_indices :: "u16 list"

record extended_attribute_information =
  eai_identifier :: u16
  eai_data_type :: u8
  eai_access_control :: u8

datatype global_command =
  ReadAttributes "u16 list"
  | ReadAttributesResponse "read_status_record list"
  | WriteAttributes "attribute_record list"
  | WriteAttributesUndivided "attribute_record list"
  | WriteAttributesResponse "write_status_record list"
  | WriteAttributesNoResponse "attribute_record list"
  | ConfigureReporting "reporting_config_record list"
  | ConfigureReportingResponse "attribute_status_record list"
  | ReadReportingConfiguration "reporting_query list"
  | ReadReportingConfigurationResponse "read_reporting_record list"
  | ReportAttributes "attribute_record list"
  | DefaultResponse u8 zcl_status
  | DiscoverAttributes u16 u8
  | DiscoverAttributesResponse bool "discover_record list"
  | ReadAttributesStructured "attribute_selector list"
  | WriteAttributesStructured "(attribute_selector \<times> zcl_data) list"
  | WriteAttributesStructuredResponse "(zcl_status \<times> attribute_selector) list"
  | DiscoverCommandsReceived u8 u8
  | DiscoverCommandsReceivedResponse bool "u8 list"
  | DiscoverCommandsGenerated u8 u8
  | DiscoverCommandsGeneratedResponse bool "u8 list"
  | DiscoverAttributesExtended u16 u8
  | DiscoverAttributesExtendedResponse bool "extended_attribute_information list"

primrec global_command_identifier :: "global_command \<Rightarrow> u8" where
  "global_command_identifier (ReadAttributes x) = 0x0"
| "global_command_identifier (ReadAttributesResponse x) = 0x1"
| "global_command_identifier (WriteAttributes x) = 0x2"
| "global_command_identifier (WriteAttributesUndivided x) = 0x3"
| "global_command_identifier (WriteAttributesResponse x) = 0x4"
| "global_command_identifier (WriteAttributesNoResponse x) = 0x5"
| "global_command_identifier (ConfigureReporting x) = 0x6"
| "global_command_identifier (ConfigureReportingResponse x) = 0x7"
| "global_command_identifier (ReadReportingConfiguration x) = 0x8"
| "global_command_identifier (ReadReportingConfigurationResponse x) = 0x9"
| "global_command_identifier (ReportAttributes x) = 0xa"
| "global_command_identifier (DefaultResponse x y) = 0xb"
| "global_command_identifier (DiscoverAttributes x y) = 0xc"
| "global_command_identifier (DiscoverAttributesResponse x y) = 0xd"
| "global_command_identifier (ReadAttributesStructured x) = 0xe"
| "global_command_identifier (WriteAttributesStructured x) = 0xf"
| "global_command_identifier (WriteAttributesStructuredResponse x) = 0x10"
| "global_command_identifier (DiscoverCommandsReceived x y) = 0x11"
| "global_command_identifier (DiscoverCommandsReceivedResponse x y) = 0x12"
| "global_command_identifier (DiscoverCommandsGenerated x y) = 0x13"
| "global_command_identifier (DiscoverCommandsGeneratedResponse x y) = 0x14"
| "global_command_identifier (DiscoverAttributesExtended x y) = 0x15"
| "global_command_identifier (DiscoverAttributesExtendedResponse x y) = 0x16"

section \<open>Hand-written codecs of the commands\<close>

definition read_u16 :: "u16 breader" where
  "read_u16 bs = (if length bs < 2 then Inl Incomplete else Inr (le_value (take 2 bs), 2))"

definition write_u16 :: "u16 \<Rightarrow> bwriter" where
  "write_u16 w = write_slice (le_bytes 2 w)"

definition read_code :: "'a fcodec \<Rightarrow> 'a breader" where
  "read_code c bs = res_bind (read_u8 bs) (\<lambda>(b, n). res_bind (fst c b) (\<lambda>x. Inr (x, n)))"

text \<open>The reportable change of a record is never read.\<close>

definition read_reporting_config :: "reporting_direction fcodec \<Rightarrow> reporting_config_record breader" where
  "read_reporting_config D bs =
     res_bind (read_with (read_code D) bs 0) (\<lambda>(dir, off).
     res_bind (read_with read_u16 bs off) (\<lambda>(ident, off).
     if dir = ReportDirection then
       res_bind (read_with read_u8 bs off) (\<lambda>(ty, off).
       res_bind (read_with read_u16 bs off) (\<lambda>(mn, off).
       res_bind (read_with read_u16 bs off) (\<lambda>(mx, off).
         Inr (\<lparr> rcr_direction = dir, rcr_identifier = ident, rcr_data_type = Some ty, rcr_minimum = Some mn,
           rcr_maximum = Some mx, rcr_change = None, rcr_timeout = None \<rparr>, off))))
     else
       res_bind (read_with read_u16 bs off) (\<lambda>(t, off).
         Inr (\<lparr> rcr_direction = dir, rcr_identifier = ident, rcr_data_type = None, rcr_minimum = None,
           rcr_maximum = None, rcr_change = None, rcr_timeout = Some t \<rparr>, off))))"

definition write_opt :: "('a \<Rightarrow> bwriter) \<Rightarrow> 'a option \<Rightarrow> bytes \<times> nat \<Rightarrow> byte_error + bytes \<times> nat" where
  "write_opt w x st = (case x of None \<Rightarrow> Inr st | Some y \<Rightarrow> write_with (w y) st)"

definition write_reporting_config :: "reporting_direction fcodec \<Rightarrow> reporting_config_record \<Rightarrow> bwriter" where
  "write_reporting_config D r buf =
     res_bind (write_with (write_slice [snd D (rcr_direction r)]) (buf, 0)) (\<lambda>st.
     res_bind (write_with (write_u16 (rcr_identifier r)) st) (\<lambda>st.
     res_bind (write_opt (\<lambda>b. write_slice [b]) (rcr_data_type r) st) (\<lambda>st.
     res_bind (write_opt write_u16 (rcr_minimum r) st) (\<lambda>st.
     res_bind (write_opt write_u16 (rcr_maximum r) st) (\<lambda>st.
     res_bind (write_opt (zcl_write 0) (rcr_change r) st)
       (write_opt write_u16 (rcr_timeout r)))))))"

text \<open>The selector of a part of an attribute: the bytes 0, 1 and 3 are indexed, byte 2 is skipped.\<close>

definition read_selector :: "bytes \<Rightarrow> (byte_error + attribute_selector \<times> nat) run" where
  "read_selector bs =
     (if length bs < 4 then Panic
      else let n = unat (bs ! 3) in
        if length (drop 4 bs) < n * 2 then Done (Inl Incomplete)
        else Done (Inr (\<lparr> sel_identifier = le_value (take 2 bs),
          sel_indices = map (\<lambda>i. le_value [bs ! (4 + 2 * i), bs ! (5 + 2 * i)]) [0..<n] \<rparr>, n * 2 + 1)))"

definition write_selector :: "attribute_selector \<Rightarrow> bwriter" where
  "write_selector a buf =
     res_bind (write_slices ([le_bytes 2 (sel_identifier a), [of_nat (length (sel_indices a))]]
         @ map (le_bytes 2) (sel_indices a)) (buf, 0))
       (\<lambda>(buf', _). Inr (buf', length (sel_indices a) * 2 + 1))"

section \<open>Frames\<close>

datatype zcl_frame_type = ZclGlobal | ZclSpecific

datatype zcl_direction = ClientToServer | ServerToClient

record zcl_frame_control =
  zfc_frame_type :: zcl_frame_type
  zfc_manufacturer_specific :: bool
  zfc_direction :: zcl_direction
  zfc_disable_default_response :: bool

record zcl_header =
  zh_frame_control :: zcl_frame_control
  zh_manufacturer_code :: "u16 option"
  zh_sequence_number :: u8

record specific_command =
  spc_identifier :: u8
  spc_data :: bytes

datatype zcl_command = GlobalCommand global_command | SpecificCommand specific_command

record zcl_frame =
  zf_header :: zcl_header
  zf_command :: zcl_command

definition new_global_command :: "global_command \<Rightarrow> u8 \<Rightarrow> zcl_direction \<Rightarrow> bool \<Rightarrow> zcl_frame" where
  "new_global_command c seq dir no_default = \<lparr> zf_header = \<lparr> zh_frame_control =
     \<lparr> zfc_frame_type = ZclGlobal, zfc_manufacturer_specific = False, zfc_direction = dir,
       zfc_disable_default_response = no_default \<rparr>, zh_manufacturer_code = None, zh_sequence_number = seq \<rparr>,
     zf_command = GlobalCommand c \<rparr>"

definition new_specific_command :: "specific_command \<Rightarrow> u16 \<Rightarrow> zcl_direction \<Rightarrow> bool \<Rightarrow> zcl_frame" where
  "new_specific_command c code dir no_default = \<lparr> zf_header = \<lparr> zh_frame_control =
     \<lparr> zfc_frame_type = ZclSpecific, zfc_manufacturer_specific = True, zfc_direction = dir,
       zfc_disable_default_response = no_default \<rparr>, zh_manufacturer_code = Some code, zh_sequence_number = 0 \<rparr>,
     zf_command = SpecificCommand c \<rparr>"

text \<open>The bit struct of the frame control, over the codecs of its enums.\<close>

record zcl_wire =
  zw_frame_type :: "zcl_frame_type fcodec"
  zw_direction :: "zcl_direction fcodec"

definition zcl_frame_control_layout :: "bs_field list" where
  "zcl_frame_control_layout = [(2, 0), (1, 0), (1, 0), (1, 0)]"

definition zcl_frame_control_enc :: "wire \<Rightarrow> zcl_wire \<Rightarrow> zcl_frame_control \<Rightarrow> u8 list" where
  "zcl_frame_control_enc W V c = [snd (zw_frame_type V) (zfc_frame_type c), snd (w_bool W) (zfc_manufacturer_specific c),
     snd (zw_direction V) (zfc_direction c), snd (w_bool W) (zfc_disable_default_response c)]"

fun zcl_frame_control_dec :: "wire \<Rightarrow> zcl_wire \<Rightarrow> u8 list \<Rightarrow> byte_error + zcl_frame_control" where
  "zcl_frame_control_dec W V [t, m, d, r] =
     res_bind (fst (zw_frame_type V) t) (\<lambda>t'. res_bind (fst (w_bool W) m) (\<lambda>m'.
     res_bind (fst (zw_direction V) d) (\<lambda>d'. res_bind (fst (w_bool W) r) (\<lambda>r'.
       Inr \<lparr> zfc_frame_type = t', zfc_manufacturer_specific = m', zfc_direction = d',
         zfc_disable_default_response = r' \<rparr>))))"
| "zcl_frame_control_dec W V _ = Inl Incomplete"

record zcl_codecs =
  zc_write_header :: "zcl_header \<Rightarrow> bwriter"
  zc_read_header :: "zcl_header breader"
  zc_write_global :: "global_command \<Rightarrow> bwriter"
  zc_read_global :: "bytes \<Rightarrow> (byte_error + global_command \<times> nat) run"
  zc_read_specific :: "specific_command breader"

text \<open>Of a specific command only the data are written.\<close>

definition write_zcl_frame :: "zcl_codecs \<Rightarrow> zcl_frame \<Rightarrow> bwriter" where
  "write_zcl_frame C f buf =
     res_bind (write_with (zc_write_header C (zf_header f)) (buf, 0)) (\<lambda>st. case zf_command f of
       GlobalCommand g \<Rightarrow> write_with (zc_write_global C g) st
     | SpecificCommand s \<Rightarrow> write_with (write_slice (spc_data s)) st)"

definition read_zcl_frame :: "zcl_codecs \<Rightarrow> bytes \<Rightarrow> (byte_error + zcl_frame \<times> nat) run" where
  "read_zcl_frame C bs = (case read_with (zc_read_header C) bs 0 of
       Inl e \<Rightarrow> Done (Inl e)
     | Inr (h, off) \<Rightarrow> if length bs < off then Done (Inl (BadOffset off)) else
         (case zfc_frame_type (zh_frame_control h) of
            ZclGlobal \<Rightarrow> run_map (\<lambda>r. res_bind r (\<lambda>(g, n).
              Inr (\<lparr> zf_header = h, zf_command = GlobalCommand g \<rparr>, off + n))) (zc_read_global C (drop off bs))
          | ZclSpecific \<Rightarrow> Done (res_bind (zc_read_specific C (drop off bs)) (\<lambda>(s, n).
              Inr (\<lparr> zf_header = h, zf_command = SpecificCommand s \<rparr>, off + n)))))"

end
