(* ===== verification/Zcl_Cluster.thy ===== *)
theory Zcl_Cluster
  imports Zcl_Commands Zdp
begin

text \<open>
  Attributes and clusters (\<open>zcl/cluster/types.rs\<close>): what attributes and clusters are behind their traits, the
  intervals of reports, and the operations of a cluster on its attributes. A cluster is an object over the state
  \<open>'s\<close> of whoever owns it: the methods of the traits are the fields of the records, a method with \<open>&mut self\<close>
  returns the state after it.
\<close>

section \<open>Attributes\<close>

record attribute_access =
  aa_read :: bool
  aa_write :: bool
  aa_report :: bool
  aa_scene :: bool

definition ACCESS_ALL :: attribute_access where
  "ACCESS_ALL = \<lparr> aa_read = True, aa_write = True, aa_report = True, aa_scene = True \<rparr>"
definition READ_ONLY :: attribute_access where
  "READ_ONLY = \<lparr> aa_read = True, aa_write = False, aa_report = False, aa_scene = False \<rparr>"
definition READ_REPORT :: attribute_access where
  "READ_REPORT = \<lparr> aa_read = True, aa_write = False, aa_report = True, aa_scene = False \<rparr>"
definition READ_WRITE :: attribute_access where
  "READ_WRITE = \<lparr> aa_read = True, aa_write = True, aa_report = False, aa_scene = False \<rparr>"
definition READ_WRITE_REPORT :: attribute_access where
  "READ_WRITE_REPORT = \<lparr> aa_read = True, aa_write = True, aa_report = True, aa_scene = False \<rparr>"

record 's attribute_object =
  ao_identifier :: u16
  ao_data_identifier :: u8
  ao_access :: attribute_access
  ao_get :: "'s \<Rightarrow> zcl_data"
  ao_set :: "zcl_data \<Rightarrow> 's \<Rightarrow> (zcl_status + unit) \<times> 's"
  ao_validate :: "zcl_data \<Rightarrow> 's \<Rightarrow> zcl_status + unit"

record 's reportable_object = "'s attribute_object" +
  ro_set_config :: "u16 \<Rightarrow> u16 \<Rightarrow> zcl_data option \<Rightarrow> 's \<Rightarrow> ((zcl_status + unit) \<times> 's) run"
  ro_should_report :: "instant \<Rightarrow> 's \<Rightarrow> (bool \<times> 's) run"
  ro_get_config :: "'s \<Rightarrow> (u16 \<times> u16 \<times> zcl_data option) run"

section \<open>The intervals of reports\<close>

text \<open>\<open>Instant::MIN\<close> is the instant 0.\<close>

record 'v report_intervals =
  ri_default :: "u16 \<times> u16"
  ri_current :: "u16 \<times> u16"
  ri_change :: "'v option"
  ri_last_reported_on :: instant

definition report_intervals_new :: "u16 \<times> u16 \<Rightarrow> 'v option \<Rightarrow> 'v report_intervals" where
  "report_intervals_new d c = \<lparr> ri_default = d, ri_current = d, ri_change = c, ri_last_reported_on = 0 \<rparr>"

text \<open>The default is restored and then overwritten.\<close>

definition set_values :: "u16 \<Rightarrow> u16 \<Rightarrow> 'v option \<Rightarrow> 'v report_intervals \<Rightarrow> (zcl_status + unit) \<times> 'v report_intervals" where
  "set_values mn mx change r =
     (if mx = 0 \<and> mn = 0xffff then
        (Inr (), (r\<lparr> ri_current := ri_default r \<rparr>)\<lparr> ri_current := (mn, mx), ri_change := change \<rparr>)
      else if mx < mn then (Inl ZsInvalidValue, r)
      else (Inr (), r\<lparr> ri_current := (mn, mx), ri_change := change \<rparr>))"

text \<open>An instant is a number of milliseconds; \<open>duration_since\<close> panics when the clock went back.\<close>

definition should_report :: "instant \<Rightarrow> 'v report_intervals \<Rightarrow> (bool \<times> 'v report_intervals) run" where
  "should_report now r =
     (if snd (ri_current r) = 0xffff then Done (False, r)
      else if ri_last_reported_on r = 0 then Done (True, r\<lparr> ri_last_reported_on := now \<rparr>)
      else if now < ri_last_reported_on r then Panic
      else if unat (fst (ri_current r)) < (now - ri_last_reported_on r) div 1000
        then Done (True, r\<lparr> ri_last_reported_on := now \<rparr>)
      else Done (False, r))"

section \<open>Clusters\<close>

record 's cluster_object =
  co_identifier :: u16
  co_type :: cluster_type
  co_attributes :: "(u16 \<times> 's attribute_object) list"
  co_reportable :: "(u16 \<times> 's reportable_object) list"
  co_custom_command :: "specific_command \<Rightarrow> 's \<Rightarrow> (zcl_command option \<times> 's) run"
  co_update_frequency :: u8
  co_update :: "'s \<Rightarrow> 's"
  co_read_with :: "bytes \<times> nat \<Rightarrow> 's \<Rightarrow> ((byte_error + nat) \<times> 's) run"
  co_write_with :: "'s \<Rightarrow> bytes \<times> nat \<Rightarrow> byte_error + bytes \<times> nat"

definition read_attribute :: "'s cluster_object \<Rightarrow> 's \<Rightarrow> u16 \<Rightarrow> read_status_record" where
  "read_attribute c s k = (case map_of (co_attributes c) k of
     None \<Rightarrow> \<lparr> rsr_identifier = k, rsr_status = ZsUnsupportedAttribute, rsr_data = None \<rparr>
   | Some a \<Rightarrow> if aa_read (ao_access a) then \<lparr> rsr_identifier = k, rsr_status = ZsSuccess, rsr_data = Some (ao_get a s) \<rparr>
       else \<lparr> rsr_identifier = k, rsr_status = ZsFailure, rsr_data = None \<rparr>)"

definition read_attributes :: "'s cluster_object \<Rightarrow> u16 list \<Rightarrow> 's \<Rightarrow> read_status_record list" where
  "read_attributes c ks s = map (read_attribute c s) ks"

definition write_attribute :: "'s cluster_object \<Rightarrow> attribute_record \<Rightarrow> 's \<Rightarrow> zcl_status \<times> 's" where
  "write_attribute c v s = (case map_of (co_attributes c) (atr_identifier v) of
     None \<Rightarrow> (ZsUnsupportedAttribute, s)
   | Some a \<Rightarrow> if \<not> aa_write (ao_access a) then (ZsReadOnly, s)
       else (case ao_set a (atr_data v) s of (Inr _, s') \<Rightarrow> (ZsSuccess, s') | (Inl e, s') \<Rightarrow> (e, s')))"

fun write_attributes :: "'s cluster_object \<Rightarrow> attribute_record list \<Rightarrow> 's \<Rightarrow> write_status_record list \<times> 's" where
  "write_attributes c [] s = ([], s)"
| "write_attributes c (v # vs) s = (case write_attribute c v s of (st, s1) \<Rightarrow>
     case write_attributes c vs s1 of (rs, s2) \<Rightarrow> (\<lparr> wsr_status = st, wsr_identifier = atr_identifier v \<rparr> # rs, s2))"

definition check_attribute :: "'s cluster_object \<Rightarrow> 's \<Rightarrow> attribute_record \<Rightarrow> zcl_status" where
  "check_attribute c s v = (case map_of (co_attributes c) (atr_identifier v) of
     None \<Rightarrow> ZsUnsupportedAttribute
   | Some a \<Rightarrow> if \<not> aa_write (ao_access a) then ZsReadOnly
       else (case ao_validate a (atr_data v) s of Inr _ \<Rightarrow> ZsSuccess | Inl e \<Rightarrow> e))"

text \<open>Whether the checks let the write happen: the flag is cleared in the branches of errors, whatever the status.\<close>

definition check_passes :: "'s cluster_object \<Rightarrow> 's \<Rightarrow> attribute_record \<Rightarrow> bool" where
  "check_passes c s v \<longleftrightarrow> (case map_of (co_attributes c) (atr_identifier v) of
     None \<Rightarrow> False
   | Some a \<Rightarrow> aa_write (ao_access a) \<and> ao_validate a (atr_data v) s = Inr ())"

fun set_all :: "'s cluster_object \<Rightarrow> attribute_record list \<Rightarrow> 's \<Rightarrow> 's run" where
  "set_all c [] s = Done s"
| "set_all c (v # vs) s = (case map_of (co_attributes c) (atr_identifier v) of
     None \<Rightarrow> Panic
   | Some a \<Rightarrow> (case ao_set a (atr_data v) s of (Inr _, s') \<Rightarrow> set_all c vs s' | (Inl _, _) \<Rightarrow> Panic))"

definition write_attributes_undivided ::
  "'s cluster_object \<Rightarrow> attribute_record list \<Rightarrow> 's \<Rightarrow> (write_status_record list \<times> 's) run" where
  "write_attributes_undivided c vs s =
     (let rs = map (\<lambda>v. \<lparr> wsr_status = check_attribute c s v, wsr_identifier = atr_identifier v \<rparr>) vs in
      if list_all (check_passes c s) vs then run_map (\<lambda>s'. (rs, s')) (set_all c vs s) else Done (rs, s))"

definition configure_attribute :: "'s cluster_object \<Rightarrow> reporting_config_record \<Rightarrow> 's \<Rightarrow> (zcl_status \<times> 's) run" where
  "configure_attribute c v s =
     (if rcr_direction v \<noteq> ReportDirection then Done (ZsUnsupportedAttribute, s)
      else (case map_of (co_reportable c) (rcr_identifier v) of
        None \<Rightarrow> Done (ZsUnreportableAttribute, s)
      | Some a \<Rightarrow> (case (rcr_minimum v, rcr_maximum v) of
          (Some mn, Some mx) \<Rightarrow> run_map (\<lambda>(r, s'). (case r of Inr _ \<Rightarrow> ZsSuccess | Inl e \<Rightarrow> e, s'))
            (ro_set_config a mn mx (rcr_change v) s)
        | _ \<Rightarrow> Panic)))"

fun configure_reporting ::
  "'s cluster_object \<Rightarrow> reporting_config_record list \<Rightarrow> 's \<Rightarrow> (attribute_status_record list \<times> 's) run" where
  "configure_reporting c [] s = Done ([], s)"
| "configure_reporting c (v # vs) s = run_bind (configure_attribute c v s) (\<lambda>(st, s1).
     run_map (\<lambda>(rs, s2). (\<lparr> asr_status = st, asr_direction = rcr_direction v, asr_identifier = rcr_identifier v \<rparr> # rs, s2))
       (configure_reporting c vs s1))"

definition reporting_record :: "zcl_status \<Rightarrow> reporting_query \<Rightarrow> read_reporting_record" where
  "reporting_record st q = \<lparr> rrr_status = st, rrr_direction = rpq_direction q, rrr_identifier = rpq_identifier q,
     rrr_data_type = None, rrr_minimum = None, rrr_maximum = None, rrr_change = None, rrr_timeout = None \<rparr>"

definition read_reporting :: "'s cluster_object \<Rightarrow> 's \<Rightarrow> reporting_query \<Rightarrow> read_reporting_record run" where
  "read_reporting c s q =
     (if rpq_direction q \<noteq> ReportDirection then Done (reporting_record ZsUnsupportedAttribute q)
      else (case map_of (co_reportable c) (rpq_identifier q) of
        None \<Rightarrow> Done (reporting_record ZsUnsupportedAttribute q)
      | Some a \<Rightarrow> run_map (\<lambda>(mn, mx, _). (reporting_record ZsSuccess q)
          \<lparr> rrr_data_type := Some (ao_data_identifier a), rrr_minimum := Some mn, rrr_maximum := Some mx \<rparr>)
          (ro_get_config a s)))"

fun read_reporting_configs :: "'s cluster_object \<Rightarrow> reporting_query list \<Rightarrow> 's \<Rightarrow> read_reporting_record list run" where
  "read_reporting_configs c [] s = Done []"
| "read_reporting_configs c (q # qs) s = run_bind (read_reporting c s q) (\<lambda>r.
     run_map (\<lambda>rs. r # rs) (read_reporting_configs c qs s))"

text \<open>The keys of the map are distinct, so that sorting them does not depend on the order of the map.\<close>

definition discover_attributes :: "'s cluster_object \<Rightarrow> u16 \<Rightarrow> u8 \<Rightarrow> discover_record list" where
  "discover_attributes c start maximum =
     List.map_filter (\<lambda>k. map_option (\<lambda>a. \<lparr> dcr_identifier = ao_identifier a, dcr_data_type = ao_data_identifier a \<rparr>)
         (map_of (co_attributes c) k))
       (take (unat maximum) (List.filter (\<lambda>k. start \<le> k) (sort (map fst (co_attributes c)))))"

section \<open>What the operations need of the attributes\<close>

lemma write_attributes_Cons:
  "write_attributes c (v # vs) s = (let (st, s1) = write_attribute c v s in
     (\<lparr> wsr_status = st, wsr_identifier = atr_identifier v \<rparr> # fst (write_attributes c vs s1), snd (write_attributes c vs s1)))"
  by (simp split: prod.split)

declare write_attributes.simps(2) [simp del]

text \<open>The data of the last record for an attribute.\<close>

definition last_value :: "u16 \<Rightarrow> attribute_record list \<Rightarrow> zcl_data option" where
  "last_value k vs = map_of (rev (map (\<lambda>v. (atr_identifier v, atr_data v)) vs)) k"

lemma last_value_Cons:
  "last_value k (v # vs) = (case last_value k vs of Some x \<Rightarrow> Some x | None \<Rightarrow> if atr_identifier v = k then Some (atr_data v) else None)"
  by (simp add: last_value_def map_add_def split: option.split)

text \<open>What an undivided write promises: it does not panic, it answers like the other writes, and it does
  what they do if every record is accepted and nothing otherwise.\<close>

definition all_or_nothing :: "'s cluster_object \<Rightarrow> attribute_record list \<Rightarrow> 's \<Rightarrow> bool" where
  "all_or_nothing c vs s \<longleftrightarrow> (\<exists>rs s'. write_attributes_undivided c vs s = Done (rs, s') \<and>
     rs = fst (write_attributes c vs s) \<and>
     (if \<forall>r\<in>set rs. wsr_status r = ZsSuccess then s' = snd (write_attributes c vs s) else s' = s))"

text \<open>Setting an attribute succeeds exactly when the data are valid for it, with the answer of the check; otherwise nothing
  changes, and what is valid does not depend on the values.\<close>

locale checked_cluster =
  fixes c :: "'s cluster_object"
  assumes set_checks: "map_of (co_attributes c) k = Some a \<Longrightarrow> fst (ao_set a x s) = ao_validate a x s"
    and set_failed: "map_of (co_attributes c) k = Some a \<Longrightarrow> ao_set a x s = (Inl e, s') \<Longrightarrow> s' = s"
    and valid_fixed: "map_of (co_attributes c) k = Some a \<Longrightarrow> ao_validate a x s = ao_validate a x s'"
    and error_is_one: "map_of (co_attributes c) k = Some a \<Longrightarrow> ao_validate a x s \<noteq> Inl ZsSuccess"
begin

lemma check_iff: "check_attribute c s v = ZsSuccess \<longleftrightarrow> check_passes c s v"
  using error_is_one [of "atr_identifier v"]
  by (auto simp: check_attribute_def check_passes_def split: option.split sum.split)

lemma check_fixed: "check_attribute c s v = check_attribute c s' v" "check_passes c s v \<longleftrightarrow> check_passes c s' v"
proof -
  have "ao_validate a x s = ao_validate a x s'" if "map_of (co_attributes c) (atr_identifier v) = Some a" for a x
    using that by (rule valid_fixed)
  then show "check_attribute c s v = check_attribute c s' v" "check_passes c s v \<longleftrightarrow> check_passes c s' v"
    by (auto simp: check_attribute_def check_passes_def split: option.split)
qed

lemma write_attribute_check: "fst (write_attribute c v s) = check_attribute c s v"
proof (cases "map_of (co_attributes c) (atr_identifier v)")
  case (Some a)
  obtain r s' where p: "ao_set a (atr_data v) s = (r, s')" by fastforce
  from set_checks [OF Some, of "atr_data v" s] p have "ao_validate a (atr_data v) s = r" by simp
  with Some p show ?thesis by (cases r) (simp_all add: write_attribute_def check_attribute_def)
qed (simp add: write_attribute_def check_attribute_def)

lemma write_attribute_failed: "\<not> check_passes c s v \<Longrightarrow> snd (write_attribute c v s) = s"
proof (cases "map_of (co_attributes c) (atr_identifier v)")
  case (Some a)
  obtain r s' where p: "ao_set a (atr_data v) s = (r, s')" by fastforce
  assume "\<not> check_passes c s v"
  with Some p set_checks [OF Some, of "atr_data v" s] have r: "\<not> (aa_write (ao_access a) \<and> r = Inr ())"
    by (auto simp: check_passes_def)
  show ?thesis
  proof (cases r)
    case (Inl e)
    with set_failed [OF Some, of "atr_data v" s] p have "s' = s" by blast
    with Inl p Some show ?thesis by (simp add: write_attribute_def)
  qed (use r Some in \<open>simp add: write_attribute_def\<close>)
qed (simp add: write_attribute_def)

lemma write_attributes_statuses:
  "fst (write_attributes c vs s) = map (\<lambda>v. \<lparr> wsr_status = check_attribute c s v, wsr_identifier = atr_identifier v \<rparr>) vs"
proof (induction vs arbitrary: s)
  case (Cons v vs)
  from Cons [of "snd (write_attribute c v s)"] show ?case
    using write_attribute_check [of v s] check_fixed(1) [of "snd (write_attribute c v s)" _ s]
    by (simp add: write_attributes_Cons split_beta Let_def)
qed simp

lemma set_all_writes: "list_all (check_passes c s) vs \<Longrightarrow> set_all c vs s = Done (snd (write_attributes c vs s))"
proof (induction vs arbitrary: s)
  case (Cons v vs)
  then have pass: "check_passes c s v" by simp
  then obtain a where a: "map_of (co_attributes c) (atr_identifier v) = Some a" and w: "aa_write (ao_access a)"
    and ok: "ao_validate a (atr_data v) s = Inr ()" by (auto simp: check_passes_def split: option.splits)
  obtain r s' where p: "ao_set a (atr_data v) s = (r, s')" by fastforce
  with set_checks [OF a, of "atr_data v" s] ok have p: "ao_set a (atr_data v) s = (Inr (), s')" by simp
  have "list_all (check_passes c s') vs" using Cons.prems check_fixed(2) [of s' _ s] by (simp add: list_all_iff)
  from Cons.IH [OF this] a w p show ?case by (simp add: write_attribute_def write_attributes_Cons)
qed simp

lemma undivided_eq:
  "write_attributes_undivided c vs s = Done (fst (write_attributes c vs s),
     if list_all (check_passes c s) vs then snd (write_attributes c vs s) else s)"
  by (simp add: write_attributes_undivided_def Let_def write_attributes_statuses set_all_writes)

lemma undivided_all_or_nothing: "all_or_nothing c vs s"
proof -
  have "(\<forall>r\<in>set (fst (write_attributes c vs s)). wsr_status r = ZsSuccess) \<longleftrightarrow> list_all (check_passes c s) vs"
    by (auto simp: write_attributes_statuses check_iff list_all_iff)
  then show ?thesis by (simp add: undivided_eq all_or_nothing_def)
qed

end

text \<open>The attribute then has what the cluster keeps of these data; other attributes keep theirs.\<close>

locale lawful_cluster = checked_cluster c for c :: "'s cluster_object" +
  fixes kept :: "u16 \<Rightarrow> zcl_data \<Rightarrow> zcl_data"
  assumes set_get: "map_of (co_attributes c) k = Some a \<Longrightarrow> ao_set a x s = (Inr (), s') \<Longrightarrow> ao_get a s' = kept k x"
    and set_other: "map_of (co_attributes c) k = Some a \<Longrightarrow> map_of (co_attributes c) j = Some b \<Longrightarrow> j \<noteq> k \<Longrightarrow>
      ao_get b (snd (ao_set a x s)) = ao_get b s"
begin

lemma write_attribute_passed:
  assumes "check_passes c s v" and "map_of (co_attributes c) k = Some b"
  shows "ao_get b (snd (write_attribute c v s)) = (if k = atr_identifier v then kept k (atr_data v) else ao_get b s)"
proof -
  from assms(1) obtain a where a: "map_of (co_attributes c) (atr_identifier v) = Some a" and w: "aa_write (ao_access a)"
    and ok: "ao_validate a (atr_data v) s = Inr ()" by (auto simp: check_passes_def split: option.splits)
  obtain r s' where p: "ao_set a (atr_data v) s = (r, s')" by fastforce
  with set_checks [OF a, of "atr_data v" s] ok have p: "ao_set a (atr_data v) s = (Inr (), s')" by simp
  from set_other [OF a assms(2), of "atr_data v" s] p have "k \<noteq> atr_identifier v \<Longrightarrow> ao_get b s' = ao_get b s" by simp
  with a w p set_get [OF a p] assms(2) show ?thesis by (auto simp: write_attribute_def)
qed

lemma write_attributes_values:
  assumes "map_of (co_attributes c) k = Some a"
  shows "ao_get a (snd (write_attributes c vs s)) =
    (case last_value k (filter (check_passes c s) vs) of Some x \<Rightarrow> kept k x | None \<Rightarrow> ao_get a s)"
proof (induction vs arbitrary: s)
  case (Cons v vs)
  let ?s = "snd (write_attribute c v s)"
  have "check_passes c ?s = check_passes c s" using check_fixed(2) by blast
  with Cons.IH [of ?s] have step: "ao_get a (snd (write_attributes c (v # vs) s)) =
      (case last_value k (filter (check_passes c s) vs) of Some x \<Rightarrow> kept k x | None \<Rightarrow> ao_get a ?s)"
    by (simp add: write_attributes_Cons split_beta Let_def)
  show ?case
  proof (cases "check_passes c s v")
    case True
    with step write_attribute_passed [OF True assms] show ?thesis by (simp add: last_value_Cons split: option.split)
  next
    case False
    with step write_attribute_failed [OF False] show ?thesis by (simp split: option.split)
  qed
qed (simp add: last_value_def)

end

end
