(* ===== verification/Zcl_Clusters.thy ===== *)
theory Zcl_Clusters
  imports Zcl_Cluster
begin

text \<open>
  The attributes and clusters that the macros \<open>zcl_attr\<close> and \<open>zcl_cluster\<close> generate
  (\<open>zb-macros/src/zcl.rs\<close>), for any definition of an attribute, and the clusters of \<open>zb-zcl-clusters\<close> that are
  built with them: on/off, identify and temperature measurement. What a cluster controls is behind a trait; its state and
  its methods are arguments, as are the derived codecs of the commands.
\<close>

section \<open>The attribute that zcl_attr generates\<close>

record 'v zcl_attr =
  at_value :: 'v
  at_report_config :: "'v report_intervals option"

text \<open>The parameters of the macro: \<open>df_wrap\<close> is the conversion into the variant of \<open>ZclData\<close> and \<open>df_unwrap\<close> the match on
  the variant with the conversion of its value; the range is \<open>\<lambda>_. True\<close> without that parameter.\<close>

record 'v attr_def =
  df_identifier :: u16
  df_data_identifier :: u8
  df_access :: attribute_access
  df_default :: 'v
  df_wrap :: "'v \<Rightarrow> zcl_data"
  df_unwrap :: "zcl_data \<Rightarrow> zcl_status + 'v"
  df_range :: "'v \<Rightarrow> bool"
  df_reported :: "((u16 \<times> u16) \<times> 'v option) option"

definition attr_new :: "'v attr_def \<Rightarrow> 'v \<Rightarrow> 'v zcl_attr" where
  "attr_new d v = \<lparr> at_value = v,
     at_report_config = map_option (\<lambda>(iv, step). report_intervals_new iv step) (df_reported d) \<rparr>"

definition attr_default :: "'v attr_def \<Rightarrow> 'v zcl_attr" where
  "attr_default d = attr_new d (df_default d)"

definition validate_value :: "'v attr_def \<Rightarrow> 'v \<Rightarrow> zcl_status + unit" where
  "validate_value d v = (if df_range d v then Inr () else Inl ZsInvalidValue)"

definition set_value :: "'v attr_def \<Rightarrow> 'v \<Rightarrow> 'v zcl_attr \<Rightarrow> (zcl_status + unit) \<times> 'v zcl_attr" where
  "set_value d v a = (case validate_value d v of Inl e \<Rightarrow> (Inl e, a) | Inr _ \<Rightarrow> (Inr (), a\<lparr> at_value := v \<rparr>))"

definition set_from_zcl_data :: "'v attr_def \<Rightarrow> zcl_data \<Rightarrow> 'v zcl_attr \<Rightarrow> (zcl_status + unit) \<times> 'v zcl_attr" where
  "set_from_zcl_data d x a = (case df_unwrap d x of Inl e \<Rightarrow> (Inl e, a) | Inr v \<Rightarrow> set_value d v a)"

definition validate_from_zcl_data :: "'v attr_def \<Rightarrow> zcl_data \<Rightarrow> zcl_status + unit" where
  "validate_from_zcl_data d x = (case df_unwrap d x of Inl e \<Rightarrow> Inl e | Inr v \<Rightarrow> validate_value d v)"

definition validate_zcl_data_id :: "'v attr_def \<Rightarrow> u8 \<Rightarrow> zcl_status + unit" where
  "validate_zcl_data_id d i = (if i \<noteq> df_data_identifier d then Inl ZsInvalidDataType else Inr ())"

text \<open>The methods of the reports unwrap the configuration.\<close>

definition attr_set_reporting ::
  "'v attr_def \<Rightarrow> u16 \<Rightarrow> u16 \<Rightarrow> zcl_data option \<Rightarrow> 'v zcl_attr \<Rightarrow> ((zcl_status + unit) \<times> 'v zcl_attr) run" where
  "attr_set_reporting d mn mx change a =
     (case (case change of None \<Rightarrow> Inr None
            | Some x \<Rightarrow> (case df_unwrap d x of Inr v \<Rightarrow> Inr (Some v) | Inl _ \<Rightarrow> Inl ZsInvalidDataType)) of
        Inl e \<Rightarrow> Done (Inl e, a)
      | Inr v \<Rightarrow> (case at_report_config a of
          None \<Rightarrow> Panic
        | Some r \<Rightarrow> (case set_values mn mx v r of (res, r') \<Rightarrow> Done (res, a\<lparr> at_report_config := Some r' \<rparr>))))"

definition attr_should_report :: "instant \<Rightarrow> 'v zcl_attr \<Rightarrow> (bool \<times> 'v zcl_attr) run" where
  "attr_should_report now a = (case at_report_config a of
     None \<Rightarrow> Panic
   | Some r \<Rightarrow> run_map (\<lambda>(b, r'). (b, a\<lparr> at_report_config := Some r' \<rparr>)) (should_report now r))"

definition attr_get_reporting :: "'v attr_def \<Rightarrow> 'v zcl_attr \<Rightarrow> (u16 \<times> u16 \<times> zcl_data option) run" where
  "attr_get_reporting d a = (case at_report_config a of
     None \<Rightarrow> Panic
   | Some r \<Rightarrow> Done (fst (ri_current r), snd (ri_current r), map_option (df_wrap d) (ri_change r)))"

text \<open>How an attribute is stored: its value, and the current intervals when it is reported.\<close>

definition attr_intervals :: "'v attr_def \<Rightarrow> bytes \<Rightarrow> nat \<Rightarrow> byte_error + 'v report_intervals option \<times> nat" where
  "attr_intervals d bs off = (case df_reported d of
     None \<Rightarrow> Inr (None, off)
   | Some (iv, step) \<Rightarrow>
       res_bind (read_with read_u16 bs off) (\<lambda>(mn, off).
       res_bind (read_with read_u16 bs off) (\<lambda>(mx, off).
         Inr (Some (snd (set_values mn mx step (report_intervals_new iv step))), off))))"

definition attr_read :: "'v attr_def \<Rightarrow> bytes \<Rightarrow> (byte_error + 'v zcl_attr \<times> nat) run" where
  "attr_read d bs = run_map (\<lambda>r.
     res_bind r (\<lambda>(x, off).
     res_bind (attr_intervals d bs off) (\<lambda>(iv, off).
       case df_unwrap d x of
         Inl e \<Rightarrow> Inl (BadInput (if e = ZsInvalidDataType then ''invalid ZCL variant received'' else ''invalid ZCL value received''))
       | Inr v \<Rightarrow> Inr (\<lparr> at_value = v, at_report_config = iv \<rparr>, off)))) (zcl_read 0 bs)"

definition attr_write :: "'v attr_def \<Rightarrow> 'v zcl_attr \<Rightarrow> bwriter" where
  "attr_write d a buf =
     res_bind (write_with (zcl_write 0 (df_wrap d (at_value a))) (buf, 0)) (\<lambda>st. case at_report_config a of
       None \<Rightarrow> Inr st
     | Some r \<Rightarrow> res_bind (write_with (write_u16 (fst (ri_current r))) st) (write_with (write_u16 (snd (ri_current r)))))"

section \<open>Attributes as objects over a cluster\<close>

definition attr_object :: "'v attr_def \<Rightarrow> ('s \<Rightarrow> 'v zcl_attr) \<Rightarrow> ('v zcl_attr \<Rightarrow> 's \<Rightarrow> 's) \<Rightarrow> 's attribute_object" where
  "attr_object d get put = \<lparr> ao_identifier = df_identifier d, ao_data_identifier = df_data_identifier d,
     ao_access = df_access d, ao_get = (\<lambda>s. df_wrap d (at_value (get s))),
     ao_set = (\<lambda>x s. case set_from_zcl_data d x (get s) of (r, a) \<Rightarrow> (r, put a s)),
     ao_validate = (\<lambda>x s. validate_from_zcl_data d x) \<rparr>"

definition reportable_attr :: "'v attr_def \<Rightarrow> ('s \<Rightarrow> 'v zcl_attr) \<Rightarrow> ('v zcl_attr \<Rightarrow> 's \<Rightarrow> 's) \<Rightarrow> 's reportable_object" where
  "reportable_attr d get put = attribute_object.extend (attr_object d get put)
     \<lparr> ro_set_config = (\<lambda>mn mx c s. run_map (\<lambda>(r, a). (r, put a s)) (attr_set_reporting d mn mx c (get s))),
       ro_should_report = (\<lambda>now s. run_map (\<lambda>(b, a). (b, put a s)) (attr_should_report now (get s))),
       ro_get_config = (\<lambda>s. attr_get_reporting d (get s)) \<rparr>"

text \<open>One step of \<open>read_with\<close> of a cluster, and their sequence, which keeps what was read before an error.\<close>

definition read_field :: "'v attr_def \<Rightarrow> ('v zcl_attr \<Rightarrow> 's \<Rightarrow> 's) \<Rightarrow> bytes \<times> nat \<Rightarrow> 's \<Rightarrow> ((byte_error + nat) \<times> 's) run" where
  "read_field d put st s = (case st of (bs, off) \<Rightarrow>
     if length bs < off then Done (Inl (BadOffset off), s)
     else run_map (\<lambda>r. case r of Inl e \<Rightarrow> (Inl e, s) | Inr (a, n) \<Rightarrow> (Inr (off + n), put a s)) (attr_read d (drop off bs)))"

fun read_fields :: "(bytes \<times> nat \<Rightarrow> 's \<Rightarrow> ((byte_error + nat) \<times> 's) run) list \<Rightarrow> bytes \<times> nat \<Rightarrow> 's \<Rightarrow> ((byte_error + nat) \<times> 's) run" where
  "read_fields [] (bs, off) s = Done (Inr off, s)"
| "read_fields (f # fs) (bs, off) s = run_bind (f (bs, off) s) (\<lambda>(r, s'). case r of
     Inl e \<Rightarrow> Done (Inl e, s') | Inr off' \<Rightarrow> read_fields fs (bs, off') s')"

fun write_fields :: "bwriter list \<Rightarrow> bytes \<times> nat \<Rightarrow> byte_error + bytes \<times> nat" where
  "write_fields [] st = Inr st"
| "write_fields (w # ws) st = res_bind (write_with w st) (write_fields ws)"

section \<open>Types of attributes\<close>

definition unwrap_bool :: "zcl_data \<Rightarrow> zcl_status + bool" where
  "unwrap_bool x = (case x of ZBool b \<Rightarrow> Inr b | _ \<Rightarrow> Inl ZsInvalidDataType)"
definition unwrap_u16 :: "zcl_data \<Rightarrow> zcl_status + u16" where
  "unwrap_u16 x = (case x of ZUInt16 w \<Rightarrow> Inr w | _ \<Rightarrow> Inl ZsInvalidDataType)"
definition unwrap_i16 :: "zcl_data \<Rightarrow> zcl_status + u16" where
  "unwrap_i16 x = (case x of ZInt16 w \<Rightarrow> Inr w | _ \<Rightarrow> Inl ZsInvalidDataType)"

definition bool_def :: "u16 \<Rightarrow> attribute_access \<Rightarrow> ((u16 \<times> u16) \<times> bool option) option \<Rightarrow> bool attr_def" where
  "bool_def i acc rep = \<lparr> df_identifier = i, df_data_identifier = 0x10, df_access = acc, df_default = False,
     df_wrap = ZBool, df_unwrap = unwrap_bool, df_range = (\<lambda>_. True), df_reported = rep \<rparr>"
definition u16_def :: "u16 \<Rightarrow> attribute_access \<Rightarrow> (u16 \<Rightarrow> bool) \<Rightarrow> ((u16 \<times> u16) \<times> u16 option) option \<Rightarrow> u16 attr_def" where
  "u16_def i acc rg rep = \<lparr> df_identifier = i, df_data_identifier = 0x21, df_access = acc, df_default = 0,
     df_wrap = ZUInt16, df_unwrap = unwrap_u16, df_range = rg, df_reported = rep \<rparr>"
definition i16_def :: "u16 \<Rightarrow> attribute_access \<Rightarrow> (u16 \<Rightarrow> bool) \<Rightarrow> ((u16 \<times> u16) \<times> u16 option) option \<Rightarrow> u16 attr_def" where
  "i16_def i acc rg rep = \<lparr> df_identifier = i, df_data_identifier = 0x29, df_access = acc, df_default = 0,
     df_wrap = ZInt16, df_unwrap = unwrap_i16, df_range = rg, df_reported = rep \<rparr>"

section \<open>The on/off cluster\<close>

record 'h on_off_handler =
  oh_turn_on :: "'h \<Rightarrow> 'h"
  oh_turn_off :: "'h \<Rightarrow> 'h"

record 'h on_off =
  oo_onoff :: "bool zcl_attr"
  oo_global_scene_control :: "bool zcl_attr"
  oo_on_time :: "u16 zcl_attr"
  oo_off_wait_time :: "u16 zcl_attr"
  oo_handler :: 'h

definition onoff_def :: "bool attr_def" where
  "onoff_def = bool_def 0x0 READ_REPORT (Some ((0x0, 0xffff), None))"
definition global_scene_control_def :: "bool attr_def" where
  "global_scene_control_def = bool_def 0x4000 READ_ONLY None"
definition on_time_def :: "u16 attr_def" where "on_time_def = u16_def 0x4001 READ_WRITE (\<lambda>_. True) None"
definition off_wait_time_def :: "u16 attr_def" where "off_wait_time_def = u16_def 0x4002 READ_WRITE (\<lambda>_. True) None"

definition on_off_new :: "'h \<Rightarrow> 'h on_off" where
  "on_off_new h = \<lparr> oo_onoff = attr_default onoff_def, oo_global_scene_control = attr_default global_scene_control_def,
     oo_on_time = attr_default on_time_def, oo_off_wait_time = attr_default off_wait_time_def, oo_handler = h \<rparr>"

abbreviation is_on :: "'h on_off \<Rightarrow> bool" where "is_on s \<equiv> at_value (oo_onoff s)"
abbreviation on_time :: "'h on_off \<Rightarrow> u16" where "on_time s \<equiv> at_value (oo_on_time s)"
abbreviation off_wait_time :: "'h on_off \<Rightarrow> u16" where "off_wait_time s \<equiv> at_value (oo_off_wait_time s)"

definition set_onoff :: "bool \<Rightarrow> 'h on_off \<Rightarrow> 'h on_off" where
  "set_onoff b s = s\<lparr> oo_onoff := (oo_onoff s)\<lparr> at_value := b \<rparr> \<rparr>"
definition set_scene :: "bool \<Rightarrow> 'h on_off \<Rightarrow> 'h on_off" where
  "set_scene b s = s\<lparr> oo_global_scene_control := (oo_global_scene_control s)\<lparr> at_value := b \<rparr> \<rparr>"
definition set_on_time :: "u16 \<Rightarrow> 'h on_off \<Rightarrow> 'h on_off" where
  "set_on_time t s = s\<lparr> oo_on_time := (oo_on_time s)\<lparr> at_value := t \<rparr> \<rparr>"
definition set_off_wait_time :: "u16 \<Rightarrow> 'h on_off \<Rightarrow> 'h on_off" where
  "set_off_wait_time t s = s\<lparr> oo_off_wait_time := (oo_off_wait_time s)\<lparr> at_value := t \<rparr> \<rparr>"
definition notify :: "('h \<Rightarrow> 'h) \<Rightarrow> 'h on_off \<Rightarrow> 'h on_off" where
  "notify f s = s\<lparr> oo_handler := f (oo_handler s) \<rparr>"

definition turn_on :: "'h on_off_handler \<Rightarrow> 'h on_off \<Rightarrow> 'h on_off" where
  "turn_on H s = notify (oh_turn_on H) (set_off_wait_time 0 (set_onoff True s))"

definition turn_off :: "'h on_off_handler \<Rightarrow> 'h on_off \<Rightarrow> 'h on_off" where
  "turn_off H s = notify (oh_turn_off H) (set_on_time 0 (set_onoff False s))"

definition toggle :: "'h on_off_handler \<Rightarrow> 'h on_off \<Rightarrow> 'h on_off" where
  "toggle H s = (if \<not> is_on s then turn_on H s else turn_off H s)"

datatype delayed_effects = NoFade | DimDownThenFade
datatype dying_light_effects = DimUpThenFadeOff
datatype effect = DelayedAllOff delayed_effects | DyingLight dying_light_effects

record timed_off_cmd =
  to_accept_only_when_on :: bool
  to_on_time :: u16
  to_off_wait_time :: u16

datatype on_off_zcl_command = CmdOff | CmdOn | CmdToggle | CmdOffWithEffect effect | CmdRecallScene
  | CmdTimedOff timed_off_cmd

record on_off_codecs =
  oc_read_effect :: "effect breader"
  oc_read_timed_off :: "timed_off_cmd breader"

definition read_on_off_command :: "on_off_codecs \<Rightarrow> u8 \<Rightarrow> on_off_zcl_command breader" where
  "read_on_off_command C ident bs =
     (if ident = 0x0 then Inr (CmdOff, 0) else if ident = 0x1 then Inr (CmdOn, 0)
      else if ident = 0x2 then Inr (CmdToggle, 0)
      else if ident = 0x40 then res_bind (oc_read_effect C bs) (\<lambda>(e, n). Inr (CmdOffWithEffect e, n))
      else if ident = 0x41 then Inr (CmdRecallScene, 0)
      else if ident = 0x42 then res_bind (oc_read_timed_off C bs) (\<lambda>(c, n). Inr (CmdTimedOff c, n))
      else Inl (BadInput ''invalid command id for OnOff cluster''))"

fun on_off_command :: "'h on_off_handler \<Rightarrow> on_off_zcl_command \<Rightarrow> 'h on_off \<Rightarrow> 'h on_off" where
  "on_off_command H CmdOff s = turn_off H s"
| "on_off_command H CmdOn s = turn_on H s"
| "on_off_command H CmdToggle s = toggle H s"
| "on_off_command H (CmdOffWithEffect _) s = turn_off H s"
| "on_off_command H CmdRecallScene s =
     (if at_value (oo_global_scene_control s) then s
      else (let s' = set_scene True s in if on_time s' = 0 then set_off_wait_time 0 s' else s'))"
| "on_off_command H (CmdTimedOff c) s =
     (if to_accept_only_when_on c \<and> \<not> is_on s then s
      else if 0 < to_off_wait_time c \<and> \<not> is_on s
        then set_off_wait_time (min (to_off_wait_time c) (off_wait_time s)) s
      else notify (oh_turn_on H) (set_onoff True (set_on_time (max (to_on_time c) (on_time s)) s)))"

text \<open>No command of the cluster is answered.\<close>

definition on_off_custom_command ::
  "'h on_off_handler \<Rightarrow> on_off_codecs \<Rightarrow> specific_command \<Rightarrow> 'h on_off \<Rightarrow> (zcl_command option \<times> 'h on_off) run" where
  "on_off_custom_command H C c s = Done (None, case read_on_off_command C (spc_identifier c) (spc_data c) of
     Inl _ \<Rightarrow> s | Inr (cmd, _) \<Rightarrow> on_off_command H cmd s)"

definition saturating_pred :: "u16 \<Rightarrow> u16" where
  "saturating_pred w = (if w = 0 then 0 else w - 1)"

definition on_off_update :: "'h on_off_handler \<Rightarrow> 'h on_off \<Rightarrow> 'h on_off" where
  "on_off_update H s =
     (if is_on s \<and> 0 < on_time s \<and> on_time s \<noteq> 0xffff then
        (let s' = set_on_time (saturating_pred (on_time s)) s in
         if on_time s' = 0 then set_off_wait_time 0 (turn_off H s') else s')
      else set_off_wait_time (saturating_pred (off_wait_time s)) s)"

definition put_onoff :: "bool zcl_attr \<Rightarrow> 'h on_off \<Rightarrow> 'h on_off" where "put_onoff a s = s\<lparr> oo_onoff := a \<rparr>"
definition put_scene :: "bool zcl_attr \<Rightarrow> 'h on_off \<Rightarrow> 'h on_off" where "put_scene a s = s\<lparr> oo_global_scene_control := a \<rparr>"
definition put_on_time :: "u16 zcl_attr \<Rightarrow> 'h on_off \<Rightarrow> 'h on_off" where "put_on_time a s = s\<lparr> oo_on_time := a \<rparr>"
definition put_off_wait_time :: "u16 zcl_attr \<Rightarrow> 'h on_off \<Rightarrow> 'h on_off" where
  "put_off_wait_time a s = s\<lparr> oo_off_wait_time := a \<rparr>"

definition on_off_cluster :: "'h on_off_handler \<Rightarrow> on_off_codecs \<Rightarrow> 'h on_off cluster_object" where
  "on_off_cluster H C = \<lparr> co_identifier = 0x0006, co_type = ServerCluster,
     co_attributes = [(0x0, attr_object onoff_def oo_onoff put_onoff),
       (0x4000, attr_object global_scene_control_def oo_global_scene_control put_scene),
       (0x4001, attr_object on_time_def oo_on_time put_on_time),
       (0x4002, attr_object off_wait_time_def oo_off_wait_time put_off_wait_time)],
     co_reportable = [(0x0, reportable_attr onoff_def oo_onoff put_onoff)],
     co_custom_command = on_off_custom_command H C, co_update_frequency = 1, co_update = on_off_update H,
     co_read_with = read_fields [read_field onoff_def put_onoff, read_field global_scene_control_def put_scene,
       read_field on_time_def put_on_time, read_field off_wait_time_def put_off_wait_time],
     co_write_with = (\<lambda>s. write_fields [attr_write onoff_def (oo_onoff s),
       attr_write global_scene_control_def (oo_global_scene_control s),
       attr_write on_time_def (oo_on_time s), attr_write off_wait_time_def (oo_off_wait_time s)]) \<rparr>"

section \<open>The identify cluster\<close>

datatype effect_identifier = EffectBlink | EffectBreathe | EffectOkay | EffectChannelChange | EffectFinish | EffectStop
datatype effect_variant = DefaultVariant

record 'h identify_handler =
  ih_start :: "u16 \<Rightarrow> 'h \<Rightarrow> 'h"
  ih_stop :: "'h \<Rightarrow> 'h"
  ih_effect :: "effect_identifier \<Rightarrow> effect_variant \<Rightarrow> 'h \<Rightarrow> 'h"

record 'h identify =
  id_time :: "u16 zcl_attr"
  id_handler :: 'h

record identify_codecs =
  ic_read_effect :: "effect_identifier breader"
  ic_read_variant :: "effect_variant breader"

datatype identify_zcl_command = Identify u16 | IdentifyQuery | TriggerEffect effect_identifier effect_variant

definition identify_time_def :: "u16 attr_def" where "identify_time_def = u16_def 0x0 READ_WRITE (\<lambda>_. True) None"

definition read_identify_command :: "identify_codecs \<Rightarrow> u8 \<Rightarrow> identify_zcl_command breader" where
  "read_identify_command C ident bs =
     (if ident = 0x0 then res_bind (read_with read_u16 bs 0) (\<lambda>(t, _). Inr (Identify t, 2))
      else if ident = 0x1 then Inr (IdentifyQuery, 0)
      else if ident = 0x40 then
        res_bind (read_with (ic_read_effect C) bs 0) (\<lambda>(e, _).
        res_bind (read_with (ic_read_variant C) bs 1) (\<lambda>(v, _). Inr (TriggerEffect e v, 2)))
      else Inl (BadInput ''invalid command id for Identify cluster''))"

fun identify_command :: "'h identify_handler \<Rightarrow> identify_zcl_command \<Rightarrow> 'h identify \<Rightarrow> zcl_command option \<times> 'h identify" where
  "identify_command H (Identify t) s = (case set_value identify_time_def t (id_time s) of
     (Inr _, a) \<Rightarrow> (None, s\<lparr> id_time := a,
       id_handler := (if t = 0 then ih_stop H else ih_start H t) (id_handler s) \<rparr>)
   | (Inl _, a) \<Rightarrow> (None, s\<lparr> id_time := a \<rparr>))"
| "identify_command H IdentifyQuery s = (if 0 < at_value (id_time s)
     then Some (SpecificCommand \<lparr> spc_identifier = 0, spc_data = le_bytes 2 (at_value (id_time s)) \<rparr>) else None, s)"
| "identify_command H (TriggerEffect e v) s = (None, s\<lparr> id_handler := ih_effect H e v (id_handler s) \<rparr>)"

definition identify_custom_command ::
  "'h identify_handler \<Rightarrow> identify_codecs \<Rightarrow> specific_command \<Rightarrow> 'h identify \<Rightarrow> (zcl_command option \<times> 'h identify) run" where
  "identify_custom_command H C c s = Done (case read_identify_command C (spc_identifier c) (spc_data c) of
     Inl _ \<Rightarrow> (None, s) | Inr (cmd, _) \<Rightarrow> identify_command H cmd s)"

text \<open>The handler is not told when the time is over.\<close>

definition identify_update :: "'h identify \<Rightarrow> 'h identify" where
  "identify_update s = s\<lparr> id_time := (id_time s)\<lparr> at_value := saturating_pred (at_value (id_time s)) \<rparr> \<rparr>"

definition identify_cluster :: "'h identify_handler \<Rightarrow> identify_codecs \<Rightarrow> 'h identify cluster_object" where
  "identify_cluster H C = \<lparr> co_identifier = 0x0003, co_type = ServerCluster,
     co_attributes = [(0x0, attr_object identify_time_def id_time (\<lambda>a s. s\<lparr> id_time := a \<rparr>))],
     co_reportable = [], co_custom_command = identify_custom_command H C,
     co_update_frequency = 10, co_update = identify_update,
     co_read_with = read_fields [read_field identify_time_def (\<lambda>a s. s\<lparr> id_time := a \<rparr>)],
     co_write_with = (\<lambda>s. write_fields [attr_write identify_time_def (id_time s)]) \<rparr>"

section \<open>The temperature cluster\<close>

record temperature =
  tp_measured :: "u16 zcl_attr"
  tp_min :: "u16 zcl_attr"
  tp_max :: "u16 zcl_attr"
  tp_tolerance :: "u16 zcl_attr"

definition measured_range :: "u16 \<Rightarrow> bool" where
  "measured_range w \<longleftrightarrow> - 27315 \<le> sint w \<and> sint w \<le> 32766"

definition measured_value_def :: "u16 attr_def" where
  "measured_value_def = i16_def 0x0 READ_REPORT (\<lambda>_. True) (Some ((0x0, 0xffff), None))"
definition min_measured_value_def :: "u16 attr_def" where "min_measured_value_def = i16_def 0x1 READ_ONLY measured_range None"
definition max_measured_value_def :: "u16 attr_def" where "max_measured_value_def = i16_def 0x2 READ_ONLY measured_range None"
definition tolerance_def :: "u16 attr_def" where
  "tolerance_def = u16_def 0x4 READ_REPORT (\<lambda>w. w \<le> 0x8000) (Some ((0x0, 0xffff), None))"

definition temperature_cluster :: "temperature cluster_object" where
  "temperature_cluster = \<lparr> co_identifier = 0x0402, co_type = ServerCluster,
     co_attributes = [(0x0, attr_object measured_value_def tp_measured (\<lambda>a s. s\<lparr> tp_measured := a \<rparr>)),
       (0x1, attr_object min_measured_value_def tp_min (\<lambda>a s. s\<lparr> tp_min := a \<rparr>)),
       (0x2, attr_object max_measured_value_def tp_max (\<lambda>a s. s\<lparr> tp_max := a \<rparr>)),
       (0x4, attr_object tolerance_def tp_tolerance (\<lambda>a s. s\<lparr> tp_tolerance := a \<rparr>))],
     co_reportable = [(0x0, reportable_attr measured_value_def tp_measured (\<lambda>a s. s\<lparr> tp_measured := a \<rparr>)),
       (0x4, reportable_attr tolerance_def tp_tolerance (\<lambda>a s. s\<lparr> tp_tolerance := a \<rparr>))],
     co_custom_command = (\<lambda>_ s. Done (None, s)), co_update_frequency = 1, co_update = id,
     co_read_with = read_fields [read_field measured_value_def (\<lambda>a s. s\<lparr> tp_measured := a \<rparr>),
       read_field min_measured_value_def (\<lambda>a s. s\<lparr> tp_min := a \<rparr>),
       read_field max_measured_value_def (\<lambda>a s. s\<lparr> tp_max := a \<rparr>),
       read_field tolerance_def (\<lambda>a s. s\<lparr> tp_tolerance := a \<rparr>)],
     co_write_with = (\<lambda>s. write_fields [attr_write measured_value_def (tp_measured s),
       attr_write min_measured_value_def (tp_min s), attr_write max_measured_value_def (tp_max s),
       attr_write tolerance_def (tp_tolerance s)]) \<rparr>"

section \<open>The laws of generated attributes\<close>

definition attr_ok :: "'v attr_def \<Rightarrow> bool" where
  "attr_ok d \<longleftrightarrow> (\<forall>x v. df_unwrap d x = Inr v \<longrightarrow> df_wrap d v = x) \<and> (\<forall>x. df_unwrap d x \<noteq> Inl ZsSuccess)"

lemma attr_ok_defs [simp]: "attr_ok (bool_def i acc brep)" "attr_ok (u16_def i acc rg rep)" "attr_ok (i16_def i acc rg rep)"
  by (auto simp: attr_ok_def bool_def_def u16_def_def i16_def_def unwrap_bool_def unwrap_u16_def unwrap_i16_def
      split: zcl_data.splits)

lemma attr_object_checks [simp]: "fst (ao_set (attr_object d get put) x s) = ao_validate (attr_object d get put) x s"
  by (simp add: attr_object_def set_from_zcl_data_def validate_from_zcl_data_def set_value_def validate_value_def
      split: sum.split)

lemma attr_object_set:
  "attr_ok d \<Longrightarrow> (\<And>a. get (put a s) = a) \<Longrightarrow> ao_set (attr_object d get put) x s = (Inr (), s') \<Longrightarrow>
     ao_get (attr_object d get put) s' = x"
  by (auto simp: attr_object_def set_from_zcl_data_def set_value_def validate_value_def attr_ok_def
      split: sum.splits if_splits)

lemma attr_object_failed:
  "put (get s) s = s \<Longrightarrow> ao_set (attr_object d get put) x s = (Inl e, s') \<Longrightarrow> s' = s"
  by (auto simp: attr_object_def set_from_zcl_data_def set_value_def validate_value_def split: sum.splits if_splits)

lemma attr_object_other:
  "(\<And>a. get' (put a s) = get' s) \<Longrightarrow>
     ao_get (attr_object d' get' put') (snd (ao_set (attr_object d get put) x s)) = ao_get (attr_object d' get' put') s"
  by (simp add: attr_object_def split: prod.split)

lemma attr_object_valid [simp]:
  "ao_validate (attr_object d get put) x s = validate_from_zcl_data d x" "ao_access (attr_object d get put) = df_access d"
  by (simp_all add: attr_object_def)

lemma attr_object_error: "attr_ok d \<Longrightarrow> validate_from_zcl_data d x \<noteq> Inl ZsSuccess"
  by (auto simp: validate_from_zcl_data_def validate_value_def attr_ok_def split: sum.splits)

lemmas on_off_defs = onoff_def_def global_scene_control_def_def on_time_def_def off_wait_time_def_def
lemmas on_off_puts = put_onoff_def put_scene_def put_on_time_def put_off_wait_time_def

lemma on_off_attributes:
  "map_of (co_attributes (on_off_cluster H C)) k =
     (if k = 0x0 then Some (attr_object onoff_def oo_onoff put_onoff)
      else if k = 0x4000 then Some (attr_object global_scene_control_def oo_global_scene_control put_scene)
      else if k = 0x4001 then Some (attr_object on_time_def oo_on_time put_on_time)
      else if k = 0x4002 then Some (attr_object off_wait_time_def oo_off_wait_time put_off_wait_time) else None)"
  by (simp add: on_off_cluster_def)

interpretation on_off_laws: lawful_cluster "on_off_cluster H C" "\<lambda>_ x. x"
proof (unfold_locales, goal_cases)
  case (5 k a x s s')
  then show ?case by (auto simp: on_off_attributes on_off_defs on_off_puts split: if_splits elim!: attr_object_set [rotated 2])
next
  case (2 k a x s e s')
  then show ?case by (auto simp: on_off_attributes on_off_puts split: if_splits elim!: attr_object_failed [rotated])
qed (auto simp: on_off_attributes on_off_puts on_off_defs attr_object_error intro!: attr_object_other split: if_splits)

interpretation identify_laws: lawful_cluster "identify_cluster H C" "\<lambda>_ x. x"
  by (unfold_locales)
    (auto simp: identify_cluster_def identify_time_def_def attr_object_error split: if_splits
      elim!: attr_object_set [rotated 2] attr_object_failed [rotated])

lemma temperature_attributes:
  "map_of (co_attributes temperature_cluster) k =
     (if k = 0x0 then Some (attr_object measured_value_def tp_measured (\<lambda>a s. s\<lparr> tp_measured := a \<rparr>))
      else if k = 0x1 then Some (attr_object min_measured_value_def tp_min (\<lambda>a s. s\<lparr> tp_min := a \<rparr>))
      else if k = 0x2 then Some (attr_object max_measured_value_def tp_max (\<lambda>a s. s\<lparr> tp_max := a \<rparr>))
      else if k = 0x4 then Some (attr_object tolerance_def tp_tolerance (\<lambda>a s. s\<lparr> tp_tolerance := a \<rparr>)) else None)"
  by (simp add: temperature_cluster_def)

lemmas temperature_defs = measured_value_def_def min_measured_value_def_def max_measured_value_def_def tolerance_def_def

interpretation temperature_laws: lawful_cluster temperature_cluster "\<lambda>_ x. x"
proof (unfold_locales, goal_cases)
  case (5 k a x s s')
  then show ?case by (auto simp: temperature_attributes temperature_defs split: if_splits elim!: attr_object_set [rotated 2])
next
  case (2 k a x s e s')
  then show ?case by (auto simp: temperature_attributes split: if_splits elim!: attr_object_failed [rotated])
qed (auto simp: temperature_attributes temperature_defs attr_object_error intro!: attr_object_other split: if_splits)

end
