(* ===== verification/Zcl_Basic.thy ===== *)
theory Zcl_Basic
  imports Zcl_Clusters Bit_Struct
begin

unbundle bit_operations_syntax

text \<open>
  The basic cluster (\<open>zb-zcl-clusters/src/general/basic.rs\<close>): what a device says of itself.
\<close>

section \<open>Types of the attributes\<close>

datatype power_sources = UnknownSource | MainsSinglePhase | MainsThreePhase | BatterySource | DCSource
  | EmergencyMainsConstantlyPowered | EmergencyMainsAndTransferSwitch

primrec power_source_u8 :: "power_sources \<Rightarrow> u8" where
  "power_source_u8 UnknownSource = 0" | "power_source_u8 MainsSinglePhase = 1" | "power_source_u8 MainsThreePhase = 2"
| "power_source_u8 BatterySource = 3" | "power_source_u8 DCSource = 4"
| "power_source_u8 EmergencyMainsConstantlyPowered = 5" | "power_source_u8 EmergencyMainsAndTransferSwitch = 6"

definition power_source_of :: "u8 \<Rightarrow> unit + power_sources" where
  "power_source_of w = (if w = 0 then Inr UnknownSource else if w = 1 then Inr MainsSinglePhase
     else if w = 2 then Inr MainsThreePhase else if w = 3 then Inr BatterySource else if w = 4 then Inr DCSource
     else if w = 5 then Inr EmergencyMainsConstantlyPowered else if w = 6 then Inr EmergencyMainsAndTransferSwitch
     else Inl ())"

text \<open>The 107 physical environments have no data; an environment is its discriminant here.\<close>

definition physical_environment_of :: "u8 \<Rightarrow> unit + u8" where
  "physical_environment_of w = (if w \<le> 0x59 \<or> 0x60 \<le> w \<and> w \<le> 0x6f \<or> w = 0xff then Inr w else Inl ())"

text \<open>The masks are bit structs with two flags in one byte.\<close>

record alarm_mask =
  am_hardware_fault :: bool
  am_software_fault :: bool

record disable_local_config_mask =
  dl_reset_disabled :: bool
  dl_configuration_disabled :: bool

definition mask_layout :: "bs_field list" where "mask_layout = [(1, 0), (1, 0)]"

definition alarm_of :: "u8 \<Rightarrow> alarm_mask" where
  "alarm_of w = \<lparr> am_hardware_fault = bit w 0, am_software_fault = bit w 1 \<rparr>"
definition disable_local_config_of :: "u8 \<Rightarrow> disable_local_config_mask" where
  "disable_local_config_of w = \<lparr> dl_reset_disabled = bit w 0, dl_configuration_disabled = bit w 1 \<rparr>"

definition alarm_value :: "alarm_mask \<Rightarrow> u8" where
  "alarm_value m = of_bool (am_hardware_fault m) OR push_bit 1 (of_bool (am_software_fault m))"
definition disable_local_config_value :: "disable_local_config_mask \<Rightarrow> u8" where
  "disable_local_config_value m = of_bool (dl_reset_disabled m) OR push_bit 1 (of_bool (dl_configuration_disabled m))"

text \<open>This is what the generated code reads and writes.\<close>

lemma low_mask: "bs_mask (Suc 0) = 1"
  by (rule bit_word_eqI) (auto simp only: bit_bs_mask bit_1_iff possible_bit_word)

lemma mask_read: "bs_try_read 1 mask_layout [w] = Done (Inr ([of_bool (bit w 0), of_bool (bit w 1)], 1))"
proof -
  have "w AND 1 = of_bool (bit w 0)"
    by (rule bit_word_eqI) (auto simp: bit_simps)
  moreover have "drop_bit (Suc 0) (w AND 2) = of_bool (bit w 1)"
  proof (rule bit_word_eqI)
    show "bit (drop_bit (Suc 0) (w AND 2)) n \<longleftrightarrow> bit (of_bool (bit w 1) :: u8) n" for n
      unfolding bit_drop_bit_eq bit_and_iff comp_def bit_2_iff by (auto simp: bit_simps)
  qed
  ultimately show ?thesis
    by (simp add: bs_try_read_def mask_layout_def low_mask)
qed

lemma mask_written: "bs_get_value 1 mask_layout [of_bool a, of_bool b] = Done [of_bool a OR push_bit 1 (of_bool b)]"
  by (simp add: bs_get_value_def bs_try_write_def mask_layout_def low_mask)

section \<open>Definitions of attributes\<close>

definition u8_def :: "u16 \<Rightarrow> u8 \<Rightarrow> u8 attr_def" where
  "u8_def i dflt = \<lparr> df_identifier = i, df_data_identifier = 0x20, df_access = READ_ONLY, df_default = dflt,
     df_wrap = ZUInt8, df_unwrap = (\<lambda>x. case x of ZUInt8 w \<Rightarrow> Inr w | _ \<Rightarrow> Inl ZsInvalidDataType),
     df_range = (\<lambda>_. True), df_reported = None \<rparr>"

definition string_def :: "u16 \<Rightarrow> bytes attr_def" where
  "string_def i = \<lparr> df_identifier = i, df_data_identifier = 0x42, df_access = READ_ONLY, df_default = [],
     df_wrap = ZString, df_unwrap = (\<lambda>x. case x of ZString s \<Rightarrow> Inr s | _ \<Rightarrow> Inl ZsInvalidDataType),
     df_range = (\<lambda>_. True), df_reported = None \<rparr>"

definition enum8_def :: "u16 \<Rightarrow> 'v \<Rightarrow> ('v \<Rightarrow> u8) \<Rightarrow> (u8 \<Rightarrow> unit + 'v) \<Rightarrow> 'v attr_def" where
  "enum8_def i dflt to_u8 of_u8 = \<lparr> df_identifier = i, df_data_identifier = 0x30, df_access = READ_ONLY, df_default = dflt,
     df_wrap = (\<lambda>v. ZEnum8 (to_u8 v)),
     df_unwrap = (\<lambda>x. case x of ZEnum8 w \<Rightarrow> map_sum (\<lambda>_. ZsInvalidValue) id (of_u8 w) | _ \<Rightarrow> Inl ZsInvalidDataType),
     df_range = (\<lambda>_. True), df_reported = None \<rparr>"

definition mask_def :: "u16 \<Rightarrow> 'v \<Rightarrow> ('v \<Rightarrow> u8) \<Rightarrow> (u8 \<Rightarrow> 'v) \<Rightarrow> 'v attr_def" where
  "mask_def i dflt to_u8 of_u8 = \<lparr> df_identifier = i, df_data_identifier = 0x18, df_access = READ_WRITE, df_default = dflt,
     df_wrap = (\<lambda>v. ZBitmap8 (to_u8 v)),
     df_unwrap = (\<lambda>x. case x of ZBitmap8 w \<Rightarrow> Inr (of_u8 w) | _ \<Rightarrow> Inl ZsInvalidDataType),
     df_range = (\<lambda>_. True), df_reported = None \<rparr>"

definition zcl_version_def :: "u8 attr_def" where "zcl_version_def = u8_def 0x0 2"
definition application_version_def :: "u8 attr_def" where "application_version_def = u8_def 0x1 0"
definition stack_version_def :: "u8 attr_def" where "stack_version_def = u8_def 0x2 0"
definition hw_version_def :: "u8 attr_def" where "hw_version_def = u8_def 0x3 0"
definition manufacturer_name_def :: "bytes attr_def" where "manufacturer_name_def = string_def 0x4"
definition model_identifier_def :: "bytes attr_def" where "model_identifier_def = string_def 0x5"
definition date_code_def :: "bytes attr_def" where "date_code_def = string_def 0x6"
definition power_source_def :: "power_sources attr_def" where
  "power_source_def = enum8_def 0x7 UnknownSource power_source_u8 power_source_of"
definition location_description_def :: "bytes attr_def" where "location_description_def = string_def 0x10"
definition physical_environment_def :: "u8 attr_def" where
  "physical_environment_def = enum8_def 0x11 0 (\<lambda>w. w) physical_environment_of"
definition device_enabled_def :: "bool attr_def" where
  "device_enabled_def = (bool_def 0x12 READ_WRITE None)\<lparr> df_default := True \<rparr>"
definition alarm_def :: "alarm_mask attr_def" where
  "alarm_def = mask_def 0x13 (alarm_of 0) alarm_value alarm_of"
definition disable_local_config_def :: "disable_local_config_mask attr_def" where
  "disable_local_config_def = mask_def 0x14 (disable_local_config_of 0) disable_local_config_value disable_local_config_of"
definition sw_build_id_def :: "bytes attr_def" where "sw_build_id_def = string_def 0x15"

section \<open>The basic cluster\<close>

record basic =
  ba_version :: "u8 zcl_attr"
  ba_application_version :: "u8 zcl_attr"
  ba_stack_version :: "u8 zcl_attr"
  ba_hw_version :: "u8 zcl_attr"
  ba_manufacturer_name :: "bytes zcl_attr"
  ba_model_identifier :: "bytes zcl_attr"
  ba_date_code :: "bytes zcl_attr"
  ba_power_source :: "power_sources zcl_attr"
  ba_location :: "bytes zcl_attr"
  ba_physical_environment :: "u8 zcl_attr"
  ba_device_enabled :: "bool zcl_attr"
  ba_alarm :: "alarm_mask zcl_attr"
  ba_disable_local_config :: "disable_local_config_mask zcl_attr"
  ba_sw_build_id :: "bytes zcl_attr"

record basic_config =
  bc_application_version :: u8
  bc_stack_version :: u8
  bc_hw_version :: u8
  bc_manufacturer_name :: bytes
  bc_model_identifier :: bytes
  bc_date_code :: bytes
  bc_power_source :: power_sources
  bc_sw_build_id :: bytes

definition basic_config_default :: basic_config where
  "basic_config_default = \<lparr> bc_application_version = 0, bc_stack_version = 0, bc_hw_version = 0, bc_manufacturer_name = [],
     bc_model_identifier = [], bc_date_code = [], bc_power_source = UnknownSource, bc_sw_build_id = [] \<rparr>"

definition basic_with_config :: "basic_config \<Rightarrow> basic" where
  "basic_with_config c = \<lparr> ba_version = attr_default zcl_version_def,
     ba_application_version = attr_new application_version_def (bc_application_version c),
     ba_stack_version = attr_new stack_version_def (bc_stack_version c),
     ba_hw_version = attr_new hw_version_def (bc_hw_version c),
     ba_manufacturer_name = attr_new manufacturer_name_def (bc_manufacturer_name c),
     ba_model_identifier = attr_new model_identifier_def (bc_model_identifier c),
     ba_date_code = attr_new date_code_def (bc_date_code c),
     ba_power_source = attr_new power_source_def (bc_power_source c),
     ba_location = attr_default location_description_def,
     ba_physical_environment = attr_default physical_environment_def,
     ba_device_enabled = attr_default device_enabled_def, ba_alarm = attr_default alarm_def,
     ba_disable_local_config = attr_default disable_local_config_def,
     ba_sw_build_id = attr_new sw_build_id_def (bc_sw_build_id c) \<rparr>"

datatype basic_zcl_command = ResetToFactoryDefaults

definition read_basic_command :: "u8 \<Rightarrow> basic_zcl_command breader" where
  "read_basic_command ident bs =
     (if ident = 0 then Inr (ResetToFactoryDefaults, 0) else Inl (BadInput ''invalid command id for Basic cluster''))"

text \<open>The handler of the only command is \<open>todo!()\<close>.\<close>

definition basic_custom_command :: "specific_command \<Rightarrow> basic \<Rightarrow> (zcl_command option \<times> basic) run" where
  "basic_custom_command c s = (case read_basic_command (spc_identifier c) (spc_data c) of
     Inl _ \<Rightarrow> Done (None, s) | Inr (ResetToFactoryDefaults, _) \<Rightarrow> Panic)"

definition put_version :: "u8 zcl_attr \<Rightarrow> basic \<Rightarrow> basic" where "put_version a s = s\<lparr> ba_version := a \<rparr>"
definition put_application_version :: "u8 zcl_attr \<Rightarrow> basic \<Rightarrow> basic" where
  "put_application_version a s = s\<lparr> ba_application_version := a \<rparr>"
definition put_stack_version :: "u8 zcl_attr \<Rightarrow> basic \<Rightarrow> basic" where "put_stack_version a s = s\<lparr> ba_stack_version := a \<rparr>"
definition put_hw_version :: "u8 zcl_attr \<Rightarrow> basic \<Rightarrow> basic" where "put_hw_version a s = s\<lparr> ba_hw_version := a \<rparr>"
definition put_manufacturer_name :: "bytes zcl_attr \<Rightarrow> basic \<Rightarrow> basic" where
  "put_manufacturer_name a s = s\<lparr> ba_manufacturer_name := a \<rparr>"
definition put_model_identifier :: "bytes zcl_attr \<Rightarrow> basic \<Rightarrow> basic" where
  "put_model_identifier a s = s\<lparr> ba_model_identifier := a \<rparr>"
definition put_date_code :: "bytes zcl_attr \<Rightarrow> basic \<Rightarrow> basic" where "put_date_code a s = s\<lparr> ba_date_code := a \<rparr>"
definition put_power_source :: "power_sources zcl_attr \<Rightarrow> basic \<Rightarrow> basic" where "put_power_source a s = s\<lparr> ba_power_source := a \<rparr>"
definition put_location :: "bytes zcl_attr \<Rightarrow> basic \<Rightarrow> basic" where "put_location a s = s\<lparr> ba_location := a \<rparr>"
definition put_physical_environment :: "u8 zcl_attr \<Rightarrow> basic \<Rightarrow> basic" where
  "put_physical_environment a s = s\<lparr> ba_physical_environment := a \<rparr>"
definition put_device_enabled :: "bool zcl_attr \<Rightarrow> basic \<Rightarrow> basic" where "put_device_enabled a s = s\<lparr> ba_device_enabled := a \<rparr>"
definition put_alarm :: "alarm_mask zcl_attr \<Rightarrow> basic \<Rightarrow> basic" where "put_alarm a s = s\<lparr> ba_alarm := a \<rparr>"
definition put_disable_local_config :: "disable_local_config_mask zcl_attr \<Rightarrow> basic \<Rightarrow> basic" where
  "put_disable_local_config a s = s\<lparr> ba_disable_local_config := a \<rparr>"
definition put_sw_build_id :: "bytes zcl_attr \<Rightarrow> basic \<Rightarrow> basic" where "put_sw_build_id a s = s\<lparr> ba_sw_build_id := a \<rparr>"

definition basic_cluster :: "basic cluster_object" where
  "basic_cluster = \<lparr> co_identifier = 0x0000, co_type = ClientCluster,
     co_attributes = [(0x0, attr_object zcl_version_def ba_version put_version),
       (0x1, attr_object application_version_def ba_application_version put_application_version),
       (0x2, attr_object stack_version_def ba_stack_version put_stack_version),
       (0x3, attr_object hw_version_def ba_hw_version put_hw_version),
       (0x4, attr_object manufacturer_name_def ba_manufacturer_name put_manufacturer_name),
       (0x5, attr_object model_identifier_def ba_model_identifier put_model_identifier),
       (0x6, attr_object date_code_def ba_date_code put_date_code),
       (0x7, attr_object power_source_def ba_power_source put_power_source),
       (0x10, attr_object location_description_def ba_location put_location),
       (0x11, attr_object physical_environment_def ba_physical_environment put_physical_environment),
       (0x12, attr_object device_enabled_def ba_device_enabled put_device_enabled),
       (0x13, attr_object alarm_def ba_alarm put_alarm),
       (0x14, attr_object disable_local_config_def ba_disable_local_config put_disable_local_config),
       (0x15, attr_object sw_build_id_def ba_sw_build_id put_sw_build_id)],
     co_reportable = [], co_custom_command = basic_custom_command, co_update_frequency = 1, co_update = id,
     co_read_with = read_fields [read_field zcl_version_def put_version,
       read_field application_version_def put_application_version, read_field stack_version_def put_stack_version,
       read_field hw_version_def put_hw_version, read_field manufacturer_name_def put_manufacturer_name,
       read_field model_identifier_def put_model_identifier, read_field date_code_def put_date_code,
       read_field power_source_def put_power_source, read_field location_description_def put_location,
       read_field physical_environment_def put_physical_environment, read_field device_enabled_def put_device_enabled,
       read_field alarm_def put_alarm, read_field disable_local_config_def put_disable_local_config,
       read_field sw_build_id_def put_sw_build_id],
     co_write_with = (\<lambda>s. write_fields [attr_write zcl_version_def (ba_version s),
       attr_write application_version_def (ba_application_version s), attr_write stack_version_def (ba_stack_version s),
       attr_write hw_version_def (ba_hw_version s), attr_write manufacturer_name_def (ba_manufacturer_name s),
       attr_write model_identifier_def (ba_model_identifier s), attr_write date_code_def (ba_date_code s),
       attr_write power_source_def (ba_power_source s), attr_write location_description_def (ba_location s),
       attr_write physical_environment_def (ba_physical_environment s), attr_write device_enabled_def (ba_device_enabled s),
       attr_write alarm_def (ba_alarm s), attr_write disable_local_config_def (ba_disable_local_config s),
       attr_write sw_build_id_def (ba_sw_build_id s)]) \<rparr>"

section \<open>Its laws\<close>

text \<open>What the laws of a cluster ask of each of its attributes, and of two of them.\<close>

definition lawful_attribute :: "(zcl_data \<Rightarrow> zcl_data) \<Rightarrow> 's attribute_object \<Rightarrow> bool" where
  "lawful_attribute f a \<longleftrightarrow> (\<forall>x s s'. fst (ao_set a x s) = ao_validate a x s \<and> ao_validate a x s = ao_validate a x s' \<and>
     ao_validate a x s \<noteq> Inl ZsSuccess \<and> (\<forall>e. ao_set a x s = (Inl e, s') \<longrightarrow> s' = s) \<and>
     (ao_set a x s = (Inr (), s') \<longrightarrow> ao_get a s' = f x))"

definition independent :: "'s attribute_object \<Rightarrow> 's attribute_object \<Rightarrow> bool" where
  "independent a b \<longleftrightarrow> (\<forall>x s. ao_get b (snd (ao_set a x s)) = ao_get b s)"

definition pairwise_independent :: "(u16 \<times> 's attribute_object) list \<Rightarrow> bool" where
  "pairwise_independent as \<longleftrightarrow> list_all (\<lambda>(k, a). list_all (\<lambda>(j, b). j = k \<or> independent a b) as) as"

lemma lawful_clusterI:
  assumes "list_all (\<lambda>(k, a). lawful_attribute (kept k) a) (co_attributes c)" and "pairwise_independent (co_attributes c)"
  shows "lawful_cluster c kept"
proof -
  have one: "lawful_attribute (kept k) a" if "map_of (co_attributes c) k = Some a" for k a
    using map_of_SomeD [OF that] assms(1) by (auto simp: list_all_iff)
  have two: "independent a b"
    if "map_of (co_attributes c) k = Some a" and "map_of (co_attributes c) j = Some b" and "j \<noteq> k" for k j a b
    using map_of_SomeD [OF that(1)] map_of_SomeD [OF that(2)] that(3) assms(2)
    by (fastforce simp: pairwise_independent_def list_all_iff)
  show ?thesis
  proof unfold_locales
    fix k a x s assume a: "map_of (co_attributes c) k = Some a"
    from one [OF a] show "fst (ao_set a x s) = ao_validate a x s" "ao_validate a x s \<noteq> Inl ZsSuccess"
      and "\<And>e s'. ao_set a x s = (Inl e, s') \<Longrightarrow> s' = s" "\<And>s'. ao_validate a x s = ao_validate a x s'"
      "\<And>s'. ao_set a x s = (Inr (), s') \<Longrightarrow> ao_get a s' = kept k x"
      unfolding lawful_attribute_def by blast+
  qed (use two in \<open>simp add: independent_def\<close>)
qed

definition attr_keeps :: "(zcl_data \<Rightarrow> zcl_data) \<Rightarrow> 'v attr_def \<Rightarrow> bool" where
  "attr_keeps f d \<longleftrightarrow> (\<forall>x v. df_unwrap d x = Inr v \<longrightarrow> df_wrap d v = f x) \<and> (\<forall>x. df_unwrap d x \<noteq> Inl ZsSuccess)"

lemma lawful_attr_object:
  assumes "attr_keeps f d" and "\<And>a s. get (put a s) = a" and "\<And>s. put (get s) s = s"
  shows "lawful_attribute f (attr_object d get put)"
  unfolding lawful_attribute_def
proof (intro allI conjI impI)
  fix x s s' e
  show "fst (ao_set (attr_object d get put) x s) = ao_validate (attr_object d get put) x s" by simp
  show "ao_validate (attr_object d get put) x s = ao_validate (attr_object d get put) x s'" by simp
  show "ao_validate (attr_object d get put) x s \<noteq> Inl ZsSuccess"
    using assms(1) by (auto simp: attr_keeps_def validate_from_zcl_data_def validate_value_def split: sum.splits if_splits)
  show "ao_set (attr_object d get put) x s = (Inl e, s') \<Longrightarrow> s' = s" by (rule attr_object_failed [of put get, OF assms(3)])
  assume "ao_set (attr_object d get put) x s = (Inr (), s')"
  then show "ao_get (attr_object d get put) s' = f x"
    using assms(1,2) by (auto simp: attr_object_def set_from_zcl_data_def set_value_def attr_keeps_def split: sum.splits)
qed

lemma independent_objects:
  "(\<And>a s. get' (put a s) = get' s) \<Longrightarrow> independent (attr_object d get put) (attr_object d' get' put')"
  by (simp add: independent_def attr_object_other)

lemma power_source_back: "power_source_of w = Inr v \<Longrightarrow> power_source_u8 v = w"
  by (auto simp: power_source_of_def split: if_splits)

lemma alarm_back: "alarm_value (alarm_of w) = w AND 3"
proof (rule bit_word_eqI)
  show "bit (alarm_value (alarm_of w)) n \<longleftrightarrow> bit (w AND 3) n" if "n < LENGTH(8)" for n
  proof -
    have "(3 :: u8) = 1 OR 2" by simp
    then show ?thesis by (simp only: alarm_value_def alarm_of_def alarm_mask.simps bit_or_iff bit_and_iff bit_push_bit_iff
      bit_of_bool_iff bit_1_iff bit_2_iff) (use that in auto)
  qed
qed

lemma disable_local_config_back: "disable_local_config_value (disable_local_config_of w) = w AND 3"
  using alarm_back [of w]
  by (simp add: disable_local_config_value_def disable_local_config_of_def alarm_value_def alarm_of_def)

text \<open>Of the masks only the declared bits are kept.\<close>

definition basic_kept :: "u16 \<Rightarrow> zcl_data \<Rightarrow> zcl_data" where
  "basic_kept k x = (case x of ZBitmap8 w \<Rightarrow> if k = 0x13 \<or> k = 0x14 then ZBitmap8 (w AND 3) else x | _ \<Rightarrow> x)"

lemma attr_keeps_generic:
  "k \<noteq> 0x13 \<Longrightarrow> k \<noteq> 0x14 \<Longrightarrow> attr_keeps (basic_kept k) (u8_def i v)"
  "k \<noteq> 0x13 \<Longrightarrow> k \<noteq> 0x14 \<Longrightarrow> attr_keeps (basic_kept k) (string_def i)"
  by (auto simp: attr_keeps_def basic_kept_def u8_def_def string_def_def split: zcl_data.splits)

lemma attr_keeps_enum: "(\<And>w v. of_u8 w = Inr v \<Longrightarrow> to_u8 v = w) \<Longrightarrow> attr_keeps (basic_kept k) (enum8_def i dflt to_u8 of_u8)"
  by (auto simp: attr_keeps_def basic_kept_def enum8_def_def map_sum_def split: zcl_data.splits sum.splits)

lemma attr_keeps_mask:
  "(\<And>w. to_u8 (of_u8 w) = w AND 3) \<Longrightarrow> k = 0x13 \<or> k = 0x14 \<Longrightarrow> attr_keeps (basic_kept k) (mask_def i dflt to_u8 of_u8)"
  by (auto simp: attr_keeps_def basic_kept_def mask_def_def split: zcl_data.splits)

lemma attr_keeps_enabled: "attr_keeps (basic_kept k) device_enabled_def"
  by (auto simp: attr_keeps_def basic_kept_def device_enabled_def_def bool_def_def unwrap_bool_def split: zcl_data.splits)

lemmas basic_attr_defs = zcl_version_def_def application_version_def_def stack_version_def_def hw_version_def_def
  manufacturer_name_def_def model_identifier_def_def date_code_def_def power_source_def_def location_description_def_def
  physical_environment_def_def alarm_def_def disable_local_config_def_def sw_build_id_def_def

lemmas basic_puts = put_version_def put_application_version_def put_stack_version_def put_hw_version_def
  put_manufacturer_name_def put_model_identifier_def put_date_code_def put_power_source_def put_location_def
  put_physical_environment_def put_device_enabled_def put_alarm_def put_disable_local_config_def put_sw_build_id_def

lemma physical_environment_back: "physical_environment_of w = Inr v \<Longrightarrow> v = w"
  by (auto simp: physical_environment_of_def split: if_splits)

lemma basic_lawful: "list_all (\<lambda>(k, a). lawful_attribute (basic_kept k) a) (co_attributes basic_cluster)"
  by (simp add: basic_cluster_def basic_attr_defs lawful_attr_object basic_puts attr_keeps_generic attr_keeps_enabled
      attr_keeps_enum power_source_back physical_environment_back attr_keeps_mask alarm_back disable_local_config_back)

lemma basic_independent: "pairwise_independent (co_attributes basic_cluster)"
  by (simp add: pairwise_independent_def basic_cluster_def independent_objects basic_puts)

interpretation basic_laws: lawful_cluster basic_cluster basic_kept
  by (rule lawful_clusterI [OF basic_lawful basic_independent])

text \<open>Which records of a write the cluster accepts.\<close>

definition basic_writable :: "attribute_record \<Rightarrow> bool" where
  "basic_writable v \<longleftrightarrow> atr_identifier v = 0x12 \<and> (\<exists>b. atr_data v = ZBool b) \<or>
     (atr_identifier v = 0x13 \<or> atr_identifier v = 0x14) \<and> (\<exists>w. atr_data v = ZBitmap8 w)"

lemma basic_access:
  "df_access (u8_def i v) = READ_ONLY" "df_access (string_def i) = READ_ONLY" "df_access (enum8_def i e f g) = READ_ONLY"
  by (simp_all add: u8_def_def string_def_def enum8_def_def)

lemma basic_mask_valid: "df_access (mask_def i dflt f g) = READ_WRITE \<and>
    (validate_from_zcl_data (mask_def i dflt f g) x = Inr () \<longleftrightarrow> (\<exists>w. x = ZBitmap8 w))"
  by (auto simp: mask_def_def validate_from_zcl_data_def validate_value_def split: zcl_data.splits)

lemma basic_enabled_valid: "df_access device_enabled_def = READ_WRITE \<and>
    (validate_from_zcl_data device_enabled_def x = Inr () \<longleftrightarrow> (\<exists>b. x = ZBool b))"
  by (auto simp: device_enabled_def_def bool_def_def unwrap_bool_def validate_from_zcl_data_def validate_value_def split: zcl_data.splits)

lemma basic_check: "check_passes basic_cluster s v \<longleftrightarrow> basic_writable v"
  by (auto simp: check_passes_def basic_cluster_def basic_writable_def basic_attr_defs basic_access basic_mask_valid basic_enabled_valid
      READ_ONLY_def READ_WRITE_def split: if_splits)

end
