(* ===== verification/Zcl_Service.thy ===== *)
theory Zcl_Service
  imports Zcl_Clusters Zdo
begin

text \<open>
  How a node serves its applications (\<open>zcl/service.rs\<close>, \<open>apl/zb_application.rs\<close>, \<open>apl/application/types.rs\<close> and
  the reports of \<open>apl/zdo/mod.rs\<close>): commands that arrive for an endpoint, their answers, what is stored of
  the applications, reports and updates. An application is an object over its state, like a cluster, with the methods that
  \<open>define_application\<close> generates; the node here is the node of \<open>Zdp\<close> with its applications and their storage region.
\<close>

section \<open>Devices and applications\<close>

datatype home_automation_device = OnOffSwitch | LevelControlSwitch | OnOffOutput | LevelControllableOutput
  | SceneSelector | ConfigurationTool | RemoteControl | CombinedInterface | RangeExtender | MainsPowerOutlet
  | OnOffLight | DimmableLight | ColorDimmableLight | OnOffLightSwitch | DimmerSwitch | ColorDimmerSwitch
  | LightSensor | OccupancySensor | Shade | ShadeController | HeatingCoolingUnit | Thermostat
  | TemperatureSensor | Pump | PumpController | PressureSensor | FlowSensor
  | IASControlAndIndicatingEquipment | IASAncillaryControlEquipment | IASZone | IASWarningDevice

primrec home_automation_id :: "home_automation_device \<Rightarrow> u16" where
  "home_automation_id OnOffSwitch = 0x0000" | "home_automation_id LevelControlSwitch = 0x0001"
| "home_automation_id OnOffOutput = 0x0002" | "home_automation_id LevelControllableOutput = 0x0003"
| "home_automation_id SceneSelector = 0x0004" | "home_automation_id ConfigurationTool = 0x0005"
| "home_automation_id RemoteControl = 0x0006" | "home_automation_id CombinedInterface = 0x0007"
| "home_automation_id RangeExtender = 0x0008" | "home_automation_id MainsPowerOutlet = 0x0009"
| "home_automation_id OnOffLight = 0x0100" | "home_automation_id DimmableLight = 0x0101"
| "home_automation_id ColorDimmableLight = 0x0102" | "home_automation_id OnOffLightSwitch = 0x0103"
| "home_automation_id DimmerSwitch = 0x0104" | "home_automation_id ColorDimmerSwitch = 0x0105"
| "home_automation_id LightSensor = 0x0106" | "home_automation_id OccupancySensor = 0x0107"
| "home_automation_id Shade = 0x0200" | "home_automation_id ShadeController = 0x0201"
| "home_automation_id HeatingCoolingUnit = 0x0300" | "home_automation_id Thermostat = 0x0301"
| "home_automation_id TemperatureSensor = 0x0302" | "home_automation_id Pump = 0x0303"
| "home_automation_id PumpController = 0x0304" | "home_automation_id PressureSensor = 0x0305"
| "home_automation_id FlowSensor = 0x0306" | "home_automation_id IASControlAndIndicatingEquipment = 0x0400"
| "home_automation_id IASAncillaryControlEquipment = 0x0401" | "home_automation_id IASZone = 0x0402"
| "home_automation_id IASWarningDevice = 0x0403"

datatype zb_device = IndustrialPlantMonitoring u16 | HomeAutomation home_automation_device
  | CommercialBuildingAutomation u16 | TelecomApplications u16 | PersonalHomeAndHospitalCare u16
  | AdvancedMeteringInitiative u16 | ManufacturerSpecific u16 u16

primrec get_profile_and_device_ids :: "zb_device \<Rightarrow> u16 \<times> u16" where
  "get_profile_and_device_ids (IndustrialPlantMonitoring d) = (0x0101, d)"
| "get_profile_and_device_ids (HomeAutomation d) = (0x0104, home_automation_id d)"
| "get_profile_and_device_ids (CommercialBuildingAutomation d) = (0x0105, d)"
| "get_profile_and_device_ids (TelecomApplications d) = (0x0107, d)"
| "get_profile_and_device_ids (PersonalHomeAndHospitalCare d) = (0x0108, d)"
| "get_profile_and_device_ids (AdvancedMeteringInitiative d) = (0x0109, d)"
| "get_profile_and_device_ids (ManufacturerSpecific p d) = (p, d)"

record 's application_object =
  ap_device :: zb_device
  ap_version :: u8
  ap_clusters :: "'s cluster_object list"
  ap_ctx_update :: "'s \<Rightarrow> 's"

definition get_cluster_by_id :: "u16 \<Rightarrow> 's application_object \<Rightarrow> 's cluster_object option" where
  "get_cluster_by_id k a = find (\<lambda>c. co_identifier c = k) (ap_clusters a)"

definition get_profile :: "'s application_object \<Rightarrow> u16" where
  "get_profile a = fst (get_profile_and_device_ids (ap_device a))"

text \<open>What the device profile sees of an application.\<close>

definition application_view :: "'s application_object \<Rightarrow> zb_application" where
  "application_view a = \<lparr> za_profile_id = get_profile a, za_device_id = snd (get_profile_and_device_ids (ap_device a)),
     za_version = ap_version a, za_clusters = map (\<lambda>c. (co_type c, co_identifier c)) (ap_clusters a) \<rparr>"

fun load_clusters :: "'s cluster_object list \<Rightarrow> bytes \<times> nat \<Rightarrow> 's \<Rightarrow> ((byte_error + unit) \<times> 's) run" where
  "load_clusters [] st s = Done (Inr (), s)"
| "load_clusters (c # cs) st s = run_bind (co_read_with c st s) (\<lambda>(r, s'). case r of
     Inl e \<Rightarrow> Done (Inl e, s') | Inr off \<Rightarrow> load_clusters cs (fst st, off) s')"

definition app_load :: "'s application_object \<Rightarrow> bytes \<Rightarrow> 's \<Rightarrow> ((byte_error + unit) \<times> 's) run" where
  "app_load a bs s = load_clusters (ap_clusters a) (bs, 0) s"

fun write_clusters :: "'s cluster_object list \<Rightarrow> 's \<Rightarrow> bytes \<times> nat \<Rightarrow> byte_error + bytes \<times> nat" where
  "write_clusters [] s st = Inr st"
| "write_clusters (c # cs) s st = res_bind (co_write_with c s st) (write_clusters cs s)"

definition app_write :: "'s application_object \<Rightarrow> 's \<Rightarrow> bytes \<Rightarrow> byte_error + bytes \<times> nat" where
  "app_write a s buf = write_clusters (ap_clusters a) s (buf, 0)"

text \<open>An update frequency of 0 would divide by zero.\<close>

fun update_clusters :: "u64 \<Rightarrow> 's cluster_object list \<Rightarrow> 's \<Rightarrow> 's run" where
  "update_clusters n [] s = Done s"
| "update_clusters n (c # cs) s =
     (if co_update_frequency c = 0 then Panic
      else update_clusters n cs (if n mod ucast (co_update_frequency c) = 0 then co_update c s else s))"

definition app_update :: "u64 \<Rightarrow> 's application_object \<Rightarrow> 's \<Rightarrow> 's run" where
  "app_update n a s = run_map (ap_ctx_update a) (update_clusters n (ap_clusters a) s)"

section \<open>The applications of a node\<close>

definition APPLICATION_STORAGE_SIZE :: nat where "APPLICATION_STORAGE_SIZE = 1024"

record 's zcl_node =
  zn_node :: joined_node
  zn_apps :: "(aps_endpoint, 's application_object \<times> 's) imap"
  zn_storage :: bytes

type_synonym ('s, 'a) zcl_act = "('s zcl_node, 'a) action"
type_synonym ('s, 'a) zcl_loop = "('s zcl_node, 'a) loop"

definition in_node :: "'a node_loop \<Rightarrow> ('s, 'a) zcl_loop" where
  "in_node = lp_within zn_node (\<lambda>n s. s\<lparr> zn_node := n \<rparr>)"

interpretation node_part: state_part zn_node "\<lambda>n s. s\<lparr> zn_node := n \<rparr>"
  by unfold_locales simp_all

datatype use_app_error = ApplicationNotFound | ClusterNotFound | AppStorage string | AppByteError byte_error

text \<open>\<open>use_application_mut\<close>: the buffer of the application is persisted at the beginning of the region, whichever
  application it is.\<close>

definition persist_app_bytes :: "node_env \<Rightarrow> bytes \<Rightarrow> ('s, string + unit) zcl_act" where
  "persist_app_bytes N buf s = (case dr_persist (ne_driver N) (zn_storage s) buf of
     (r, region) \<Rightarrow> Done (r, s\<lparr> zn_storage := region \<rparr>))"

definition put_app :: "aps_endpoint \<Rightarrow> 's application_object \<Rightarrow> 's \<Rightarrow> ('s, unit) zcl_act" where
  "put_app ep a x = act_modify (\<lambda>s. s\<lparr> zn_apps := im_set ep (a, x) (zn_apps s) \<rparr>)"

definition use_application ::
  "node_env \<Rightarrow> aps_endpoint \<Rightarrow> u16 \<Rightarrow> ('s cluster_object \<Rightarrow> 's \<Rightarrow> ('t \<times> 's) run) \<Rightarrow> ('s, use_app_error + 't) zcl_act" where
  "use_application N ep k cb =
     act_bind (act_gets (\<lambda>s. im_get ep (zn_apps s))) (\<lambda>app. case app of
       None \<Rightarrow> act_return (Inl ApplicationNotFound)
     | Some (a, x) \<Rightarrow> (case get_cluster_by_id k a of
         None \<Rightarrow> act_return (Inl ClusterNotFound)
       | Some c \<Rightarrow> act_bind (act_run (cb c x)) (\<lambda>(t, x').
           act_then (put_app ep a x')
           (case app_write a x' (replicate APPLICATION_STORAGE_SIZE 0) of
              Inl e \<Rightarrow> act_return (Inl (AppByteError e))
            | Inr (buf, _) \<Rightarrow> act_bind (persist_app_bytes N buf) (\<lambda>r. act_return
                (case r of Inl e \<Rightarrow> Inl (AppStorage e) | Inr _ \<Rightarrow> Inr t))))))"

text \<open>\<open>load_all\<close> reads the applications, in the order of their endpoints, at multiples of the size of their share;
  errors are ignored, but what was read before one stays.\<close>

fun load_apps :: "(bytes \<Rightarrow> nat \<Rightarrow> string + bytes) \<Rightarrow> nat \<Rightarrow> aps_endpoint list \<Rightarrow> ('s, unit) zcl_act" where
  "load_apps ld n [] = act_return ()"
| "load_apps ld n (ep # eps) =
     act_then (act_bind (act_gets (\<lambda>s. (ld (zn_storage s) (APPLICATION_STORAGE_SIZE * n), im_get ep (zn_apps s)))) (\<lambda>(l, app).
       case (l, app) of
         (_, None) \<Rightarrow> act_panic
       | (Inl _, _) \<Rightarrow> act_return ()
       | (Inr bs, Some (a, x)) \<Rightarrow> act_bind (act_run (app_load a bs x)) (\<lambda>(_, x'). put_app ep a x')))
     (load_apps ld (Suc n) eps)"

definition load_all :: "(bytes \<Rightarrow> nat \<Rightarrow> string + bytes) \<Rightarrow> ('s, unit) zcl_act" where
  "load_all ld = act_bind (act_gets (\<lambda>s. sort (map fst (zn_apps s)))) (load_apps ld 0)"

fun update_apps :: "u64 \<Rightarrow> (aps_endpoint \<times> 's application_object \<times> 's) list \<Rightarrow>
    (aps_endpoint \<times> 's application_object \<times> 's) list run" where
  "update_apps n [] = Done []"
| "update_apps n ((ep, a, x) # apps) = run_bind (app_update n a x) (\<lambda>x'.
     run_map (\<lambda>rest. (ep, a, x') # rest) (update_apps n apps))"

section \<open>Commands\<close>

definition handle_global_command :: "global_command \<Rightarrow> 's cluster_object \<Rightarrow> 's \<Rightarrow> (zcl_command option \<times> 's) run" where
  "handle_global_command cmd c s = (case cmd of
     ReadAttributes ks \<Rightarrow> Done (Some (GlobalCommand (ReadAttributesResponse (read_attributes c ks s))), s)
   | WriteAttributes vs \<Rightarrow> (case write_attributes c vs s of (rs, s') \<Rightarrow>
       Done (Some (GlobalCommand (WriteAttributesResponse rs)), s'))
   | WriteAttributesUndivided vs \<Rightarrow> run_map (\<lambda>(rs, s'). (Some (GlobalCommand (WriteAttributesResponse rs)), s'))
       (write_attributes_undivided c vs s)
   | WriteAttributesNoResponse vs \<Rightarrow> Done (None, snd (write_attributes c vs s))
   | ConfigureReporting rs \<Rightarrow> run_map (\<lambda>(r, s'). (Some (GlobalCommand (ConfigureReportingResponse r)), s'))
       (configure_reporting c rs s)
   | ReadReportingConfiguration qs \<Rightarrow>
       run_map (\<lambda>r. (Some (GlobalCommand (ReadReportingConfigurationResponse r)), s)) (read_reporting_configs c qs s)
   | DiscoverAttributes start n \<Rightarrow>
       Done (Some (GlobalCommand (DiscoverAttributesResponse True (discover_attributes c start n))), s)
   | DiscoverCommandsReceived _ _ \<Rightarrow> Done (Some (GlobalCommand (DiscoverCommandsReceivedResponse False [])), s)
   | _ \<Rightarrow> Done (None, s))"

definition handle_cluster_command :: "zcl_command \<Rightarrow> 's cluster_object \<Rightarrow> 's \<Rightarrow> (zcl_command option \<times> 's) run" where
  "handle_cluster_command cmd c s = (case cmd of
     GlobalCommand g \<Rightarrow> handle_global_command g c s | SpecificCommand x \<Rightarrow> co_custom_command c x s)"

definition generate_default_response :: "u8 \<Rightarrow> zcl_status \<Rightarrow> zcl_command" where
  "generate_default_response i st = GlobalCommand (DefaultResponse i st)"

record emit_config =
  em_direction :: zcl_direction
  em_manufacturer_specific :: bool
  em_sequence_number :: "u8 option"
  em_manufacturer_code :: "u16 option"

record request_config =
  rc_dst_address :: apsde_address
  rc_profile_id :: u16
  rc_cluster_id :: u16
  rc_src_endpoint :: aps_endpoint

definition emitted_frame :: "zcl_command \<Rightarrow> emit_config \<Rightarrow> joined_node \<Rightarrow> zcl_frame" where
  "emitted_frame cmd cfg s = \<lparr> zf_header = \<lparr>
       zh_frame_control = \<lparr> zfc_frame_type = (case cmd of GlobalCommand _ \<Rightarrow> ZclGlobal | SpecificCommand _ \<Rightarrow> ZclSpecific),
         zfc_manufacturer_specific = em_manufacturer_specific cfg, zfc_direction = em_direction cfg,
         zfc_disable_default_response = True \<rparr>,
       zh_manufacturer_code = em_manufacturer_code cfg,
       zh_sequence_number = (case em_sequence_number cfg of Some n \<Rightarrow> n | None \<Rightarrow> get_zcl_transaction_number s) \<rparr>,
     zf_command = cmd \<rparr>"

definition zcl_request :: "zcl_codecs \<Rightarrow> zcl_frame \<Rightarrow> request_config \<Rightarrow> apsde_request" where
  "zcl_request C f rc = \<lparr> rq_dst_address = rc_dst_address rc, rq_profile_id = rc_profile_id rc,
     rq_cluster_id = rc_cluster_id rc, rq_src_endpoint = rc_src_endpoint rc, rq_asdu = write_zcl_frame C f,
     rq_tx_options = tx_options_default, rq_alias = None, rq_radius = Some 0 \<rparr>"

definition emit_zcl_command_frame ::
  "node_env \<Rightarrow> zcl_codecs \<Rightarrow> zcl_command \<Rightarrow> emit_config \<Rightarrow> request_config \<Rightarrow> optional_aps_result node_loop" where
  "emit_zcl_command_frame N C cmd cfg rc s =
     lp_bind (aps_in_node (aps_data_request (ne_iter N) (ne_env N) (ne_radio N) (ne_aps N) (nd_mode s)
       (zcl_request C (emitted_frame cmd cfg s) rc))) (\<lambda>r. lp_of (act_return (to_optional r))) s"

definition answer_of :: "zcl_frame \<Rightarrow> aps_data_indication \<Rightarrow> zcl_command option \<Rightarrow> zcl_command option" where
  "answer_of f ind response = (case response of
     Some x \<Rightarrow> Some x
   | None \<Rightarrow> if aps_is_unicast (adi_dst ind) \<and> (case zf_command f of GlobalCommand (DefaultResponse _ _) \<Rightarrow> False | _ \<Rightarrow> True)
         \<and> \<not> zfc_disable_default_response (zh_frame_control (zf_header f))
       then Some (generate_default_response (zh_sequence_number (zf_header f)) ZsSuccess) else None)"

primrec opposite :: "zcl_direction \<Rightarrow> zcl_direction" where
  "opposite ClientToServer = ServerToClient"
| "opposite ServerToClient = ClientToServer"

definition answer_config :: "zcl_frame \<Rightarrow> emit_config" where
  "answer_config f = \<lparr> em_direction = opposite (zfc_direction (zh_frame_control (zf_header f))),
     em_manufacturer_specific = zfc_manufacturer_specific (zh_frame_control (zf_header f)),
     em_sequence_number = Some (zh_sequence_number (zf_header f)),
     em_manufacturer_code = zh_manufacturer_code (zf_header f) \<rparr>"

definition answer_request :: "aps_endpoint \<Rightarrow> aps_data_indication \<Rightarrow> request_config" where
  "answer_request ep ind = \<lparr> rc_dst_address = adi_src ind, rc_profile_id = adi_profile_id ind,
     rc_cluster_id = adi_cluster_id ind, rc_src_endpoint = ep \<rparr>"

definition handle_zcl_command ::
  "node_env \<Rightarrow> zcl_codecs \<Rightarrow> aps_endpoint \<Rightarrow> aps_data_indication \<Rightarrow> ('s, optional_aps_result) zcl_loop" where
  "handle_zcl_command N C ep ind =
     lp_bind (lp_of (act_run (read_zcl_frame C (adi_asdu ind)))) (\<lambda>r. case r of
       Inl e \<Rightarrow> lp_of (act_return (Inl (ApsByteError e)))
     | Inr (f, _) \<Rightarrow>
         lp_bind (lp_of (use_application N ep (adi_cluster_id ind) (handle_cluster_command (zf_command f)))) (\<lambda>u. case u of
           Inl _ \<Rightarrow> lp_of (act_return (Inl (ApsNotSupported ''application and cluster not found'')))
         | Inr response \<Rightarrow> (case answer_of f ind response of
             None \<Rightarrow> lp_of (act_return (Inr None))
           | Some cmd \<Rightarrow> in_node (emit_zcl_command_frame N C cmd (answer_config f) (answer_request ep ind)))))"

section \<open>Reports\<close>

text \<open>The attributes of a cluster that should report now, in the order of its map.\<close>

fun report_attributes :: "instant \<Rightarrow> (u16 \<times> 's reportable_object) list \<Rightarrow> 's \<Rightarrow> (attribute_record list \<times> 's) run" where
  "report_attributes now [] s = Done ([], s)"
| "report_attributes now ((k, a) # as) s = run_bind (ro_should_report a now s) (\<lambda>(b, s1).
     run_map (\<lambda>(rs, s2). ((if b then [\<lparr> atr_identifier = ao_identifier a, atr_data = ao_get a s1 \<rparr>] else []) @ rs, s2))
       (report_attributes now as s1))"

fun report_clusters :: "instant \<Rightarrow> 's cluster_object list \<Rightarrow> 's \<Rightarrow> ((u16 \<times> attribute_record list) list \<times> 's) run" where
  "report_clusters now [] s = Done ([], s)"
| "report_clusters now (c # cs) s = run_bind (report_attributes now (co_reportable c) s) (\<lambda>(rs, s1).
     run_map (\<lambda>(rest, s2). ((if rs = [] then [] else [(co_identifier c, rs)]) @ rest, s2)) (report_clusters now cs s1))"

text \<open>The reports are collected in a map: a later report under the same key replaces an earlier one. The order in which
  they are sent is that of the map, here that of the keys' first insertion.\<close>

fun report_apps :: "instant \<Rightarrow> (aps_endpoint \<times> 's application_object \<times> 's) list \<Rightarrow>
    (aps_endpoint \<times> u16 \<times> u16, attribute_record list) imap \<Rightarrow>
    ((aps_endpoint \<times> u16 \<times> u16, attribute_record list) imap \<times> (aps_endpoint \<times> 's application_object \<times> 's) list) run" where
  "report_apps now [] m = Done (m, [])"
| "report_apps now ((ep, a, x) # apps) m = run_bind (report_clusters now (ap_clusters a) x) (\<lambda>(rs, x').
     run_map (\<lambda>(m', rest). (m', (ep, a, x') # rest))
       (report_apps now apps (fold (\<lambda>(k, r) m. im_set (ep, get_profile a, k) r m) rs m)))"

definition get_report :: "node_env \<Rightarrow> ('s, (aps_endpoint \<times> u16 \<times> u16, attribute_record list) imap) zcl_act" where
  "get_report N s = run_map (\<lambda>(m, apps). (m, s\<lparr> zn_apps := apps \<rparr>)) (report_apps (ev_now (ne_env N)) (zn_apps s) [])"

definition emit_report_attributes ::
  "node_env \<Rightarrow> zcl_codecs \<Rightarrow> attribute_record list \<Rightarrow> emit_config \<Rightarrow> request_config \<Rightarrow> optional_aps_result node_loop" where
  "emit_report_attributes N C rs cfg rc = emit_zcl_command_frame N C (GlobalCommand (ReportAttributes rs)) cfg rc"

text \<open>A report goes to the bound devices; whether it arrives is ignored.\<close>

fun emit_reports ::
  "node_env \<Rightarrow> zcl_codecs \<Rightarrow> (aps_endpoint \<times> u16 \<times> u16, attribute_record list) imap \<Rightarrow> unit node_loop" where
  "emit_reports N C [] = lp_of (act_return ())"
| "emit_reports N C (((ep, profile, cluster), rs) # rest) =
     lp_bind (emit_report_attributes N C rs \<lparr> em_direction = ClientToServer, em_manufacturer_specific = False,
         em_sequence_number = None, em_manufacturer_code = None \<rparr>
       \<lparr> rc_dst_address = ApsdeNone, rc_profile_id = profile, rc_cluster_id = cluster, rc_src_endpoint = ep \<rparr>)
     (\<lambda>_. emit_reports N C rest)"

definition send_reports :: "node_env \<Rightarrow> zcl_codecs \<Rightarrow> ('s, unit) zcl_loop" where
  "send_reports N C = lp_bind (lp_of (get_report N)) (\<lambda>m. in_node (emit_reports N C m))"

text \<open>One received frame through all layers to the handlers, as in \<open>node_listen_step\<close>.\<close>

definition zcl_listen_step :: "node_env \<Rightarrow> zcl_codecs \<Rightarrow> received_mac_frame \<Rightarrow> ('s, leave_indication option) zcl_loop" where
  "zcl_listen_step N C rf =
     lp_bind (lp_of (act_gets (\<lambda>s. nd_mode (zn_node s)))) (\<lambda>mode.
     lp_bind (in_node (lp_of (with_aps (listen_aps_step (ne_env N) (ne_radio N) (ne_aps N) mode rf)))) (\<lambda>i. case i of
       Some (ApsIndData ind) \<Rightarrow> (case adi_dst ind of
           ApsNetwork _ ep \<Rightarrow> lp_bind (if ep = ZDP_ENDPOINT then in_node (handle_zdp_command N ind)
               else handle_zcl_command N C ep ind) (\<lambda>_. lp_of (act_return None))
         | _ \<Rightarrow> lp_of (act_return None))
     | Some (ApsIndLeave l) \<Rightarrow> lp_of (act_return (Some l))
     | _ \<Rightarrow> lp_of (act_return None)))"

end
