(* ===== verification/Zcl_Values.thy ===== *)
theory Zcl_Values
  imports Zcl_Data
begin

text \<open>
  Round trips of the values of the cluster library (\<open>zcl/types.rs\<close>): which values survive being written and
  read, and what becomes of the others.
\<close>

lemma zcl_short_read:
  "length xs < 2 ^ 8 \<Longrightarrow> c xs = Inr v \<Longrightarrow> zcl_short c (of_nat (length xs) # xs @ rest) = Done (Inr (v, length xs + 1))"
  by (simp add: zcl_short_def unat_of_nat take_bit_eq_mod)

lemma zcl_long_read:
  assumes "length xs < 2 ^ 16" and "c xs = Inr v"
  shows "zcl_long c (le_bytes 2 (of_nat (length xs) :: u16) @ xs @ rest) = Done (Inr (v, length xs + 2))"
proof -
  have "le_value (le_bytes 2 (of_nat (length xs) :: u16)) = (of_nat (length xs) :: u16)"
    by (rule bit_word_eqI) (auto simp: le_value_le_bytes bit_simps)
  with assms show ?thesis by (simp add: zcl_long_def get_u16_len_def unat_of_nat take_bit_eq_mod)
qed

lemma zcl_unfield_field [simp]: "f \<noteq> Some 0xff \<Longrightarrow> zcl_unfield (zcl_field f) = f"
  by (cases f) (auto simp: zcl_unfield_def zcl_field_def)

lemma read_zcl_time_back:
  "zcl_fits (ZTime t) \<Longrightarrow> read_zcl_time (zcl_time_bytes t @ rest) = Inr (t, 4)"
  by (cases t) (auto simp: zcl_fits_def read_zcl_time_def zcl_time_bytes_def eq_commute [of "Some _"])

lemma read_zcl_date_back:
  "zcl_fits (ZDate t) \<Longrightarrow> read_zcl_date (zcl_date_bytes t @ rest) = Inr (t, 4)"
  by (cases t) (auto simp: zcl_fits_def read_zcl_date_def zcl_date_bytes_def eq_commute [of "Some _"])

lemma zcl_scalar_back:
  assumes "zcl_fits v" and "map_of zcl_structs (zcl_discriminant v) = None"
  shows "\<exists>rd. map_of zcl_readers (zcl_discriminant v) = Some rd \<and>
     rd (concat (zcl_parts v) @ rest) = Done (Inr (v, length (concat (zcl_parts v))))"
  using assms(2) assms(1) read_zcl_time_back [of _ rest] read_zcl_date_back [of _ rest]
  by (cases v)
    (simp_all add: zcl_structs_def zcl_readers_def zcl_scalar_le zcl_fits_def zcl_bool_def zcl_key_def
      zcl_short_read zcl_long_read zcl_utf8_def take_bit_word_eq_self zcl_time_bytes_def zcl_date_bytes_def)


lemma zcl_struct_discriminant:
  "map_of zcl_structs (zcl_discriminant v) = Some c \<Longrightarrow> zcl_fits v \<Longrightarrow>
     length (zcl_items v) < 2 ^ 16 \<and> v = c (of_nat (length (zcl_items v))) (zcl_items v) \<and>
     zcl_parts v = [le_bytes 2 (of_nat (length (zcl_items v)) :: u16)]"
  by (cases v) (auto simp: zcl_structs_def zcl_fits_def zcl_count_def)

lemma zcl_scalar_items: "map_of zcl_structs (zcl_discriminant v) = None \<Longrightarrow> zcl_items v = []"
  by (cases v) (simp_all add: zcl_structs_def)

lemma zcl_read_items_back:
  assumes "\<And>x rest. x \<in> set vs \<Longrightarrow> zcl_read (d + 1) (zcl_bytes x @ rest) = Done (Inr (x, length (zcl_bytes x)))"
  shows "zcl_read_items d (length vs) (a @ concat (map zcl_bytes vs) @ rest) (length a) =
    Done (Inr (vs, length a + length (concat (map zcl_bytes vs))))"
  using assms
proof (induction vs arbitrary: a)
  case (Cons v vs)
  have "zcl_read_items d (length vs) ((a @ zcl_bytes v) @ concat (map zcl_bytes vs) @ rest) (length (a @ zcl_bytes v)) =
      Done (Inr (vs, length (a @ zcl_bytes v) + length (concat (map zcl_bytes vs))))"
    by (rule Cons.IH) (use Cons.prems in simp)
  with Cons.prems [of v] show ?case by (simp add: add.assoc)
qed simp

lemma le_value_u16 [simp]: "le_value (le_bytes 2 w) = (w :: u16)"
  by (rule bit_word_eqI) (auto simp: le_value_le_bytes bit_simps)

lemma zcl_read_back: "zcl_plain d v \<Longrightarrow> zcl_read d (zcl_bytes v @ rest) = Done (Inr (v, length (zcl_bytes v)))"
proof (induction d v arbitrary: rest rule: zcl_plain.induct)
  case (1 d v)
  let ?p = "concat (zcl_parts v)" and ?is = "concat (map zcl_bytes (zcl_items v))"
  let ?n = "of_nat (length (zcl_items v)) :: u16"
  from "1.prems" have d: "\<not> 15 < d" and fits: "zcl_fits v"
    and items: "\<And>x rest. x \<in> set (zcl_items v) \<Longrightarrow> zcl_read (d + 1) (zcl_bytes x @ rest) = Done (Inr (x, length (zcl_bytes x)))"
    using "1.IH" by (auto simp: zcl_plain.simps [of d v])
  have e: "zcl_bytes v = zcl_discriminant v # ?p @ ?is" by (simp add: zcl_bytes.simps [of v])
  show ?case
  proof (cases "map_of zcl_structs (zcl_discriminant v)")
    case None
    from zcl_scalar_back [OF fits None, of rest] obtain rd where
      "map_of zcl_readers (zcl_discriminant v) = Some rd" "rd (?p @ rest) = Done (Inr (v, length ?p))" by blast
    with None d e zcl_scalar_items [OF None] show ?thesis by (simp add: zcl_read.simps)
  next
    case (Some c)
    from zcl_struct_discriminant [OF Some fits]
    have n: "length (zcl_items v) < 2 ^ 16" and v: "c ?n (zcl_items v) = v"
      and p: "zcl_parts v = [le_bytes 2 ?n]" by auto
    from n have len: "unat ?n = length (zcl_items v)" by (simp add: unat_of_nat take_bit_eq_mod)
    have rd: "zcl_read_items d (length (zcl_items v)) (le_bytes 2 ?n @ ?is @ rest) 2 =
        Done (Inr (zcl_items v, 2 + length ?is))"
      using zcl_read_items_back [OF items, of "zcl_items v" "le_bytes 2 ?n" rest] by simp
    have "zcl_read d (zcl_discriminant v # le_bytes 2 ?n @ ?is @ rest) = Done (Inr (v, length (zcl_bytes v)))"
      using d Some e p by (simp add: zcl_read.simps [of d] len rd v del: of_nat_eq_iff)
    then show ?thesis using e p by simp
  qed
qed

section \<open>What does not survive\<close>

lemma zcl_read_scalar:
  "map_of zcl_structs tag = None \<Longrightarrow> map_of zcl_readers tag = Some rd \<Longrightarrow> depth \<le> 15 \<Longrightarrow>
     zcl_read depth (tag # rest) = run_map (\<lambda>r. res_bind r (\<lambda>(v, n). Inr (v, n + 1))) (rd rest)"
  by (simp add: zcl_read.simps)

lemma zcl_int24_back:
  "zcl_read 0 (zcl_bytes (ZInt24 x) @ rest) = Done (Inr (ZInt24 (take_bit 24 x), 4)) \<and>
   (sint x < 0 \<longrightarrow> take_bit 24 x \<noteq> x)"
proof -
  have "take_bit 24 x \<noteq> x" if "sint x < 0"
  proof
    assume "take_bit 24 x = x"
    then have "bit x 31 \<longleftrightarrow> bit (take_bit 24 x) 31" by simp
    moreover from that have "bit x 31" using bit_last_iff [of x] by simp
    ultimately show False by (simp add: bit_simps)
  qed
  moreover have "zcl_read 0 (0x2a # le_bytes 3 x @ rest) = Done (Inr (ZInt24 (take_bit 24 x), 4))"
    by (subst zcl_read_scalar [of _ "zcl_scalar 3 ZInt24"])
      (simp_all add: zcl_structs_def zcl_readers_def zcl_scalar_le)
  ultimately show ?thesis by (simp add: zcl_bytes.simps [of "ZInt24 x"])
qed

lemma zcl_long_string_back:
  "utf8_valid s \<and> length s < 2 ^ 16 \<longrightarrow>
     zcl_read 0 (zcl_bytes (ZLongString s) @ rest) = Done (Inr (ZString s, length s + 3))"
proof -
  have "zcl_read 0 (0x44 # le_bytes 2 (of_nat (length s) :: u16) @ s @ rest) = Done (Inr (ZString s, length s + 3))"
    if "utf8_valid s" "length s < 2 ^ 16"
    using that zcl_long_read [of s zcl_utf8 "ZString s" rest]
    by (subst zcl_read_scalar [of _ "zcl_long zcl_utf8"])
      (simp_all add: zcl_structs_def zcl_readers_def zcl_utf8_def)
  then show ?thesis by (simp add: zcl_bytes.simps [of "ZLongString s"])
qed

lemma zcl_octets_back:
  "zcl_read 0 (zcl_bytes (ZOctetString s) @ rest) =
     Done (Inr (ZOctetString (take (length s mod 256) (s @ rest)), length s mod 256 + 2))"
proof -
  have n: "unat (of_nat (length s) :: u8) = length s mod 256" by (simp add: unat_of_nat take_bit_eq_mod)
  have "\<not> length (s @ rest) < length s mod 256" using mod_less_eq_dividend [of "length s" 256] by simp
  then have "zcl_read 0 (0x41 # of_nat (length s) # s @ rest) =
      Done (Inr (ZOctetString (take (length s mod 256) (s @ rest)), length s mod 256 + 2))"
    by (subst zcl_read_scalar [of _ "zcl_short (Inr \<circ> ZOctetString)"])
      (simp_all add: zcl_structs_def zcl_readers_def zcl_short_def n)
  then show ?thesis by (simp add: zcl_bytes.simps [of "ZOctetString s"])
qed

lemma zcl_ieee_back:
  "zcl_read 0 (zcl_bytes (ZIeeeAddress a) @ rest) = Done (Inr (ZIeeeAddress a, 5))"
  "length (zcl_bytes (ZIeeeAddress a)) = 9"
proof -
  have "zcl_read 0 (0xf0 # le_bytes 8 a @ rest) = Done (Inr (ZIeeeAddress a, 5))"
    by (subst zcl_read_scalar [of _ zcl_ieee])
      (simp_all add: zcl_structs_def zcl_readers_def zcl_ieee_def le_value_le_bytes take_bit_word_eq_self)
  then show "zcl_read 0 (zcl_bytes (ZIeeeAddress a) @ rest) = Done (Inr (ZIeeeAddress a, 5))"
    by (simp add: zcl_bytes.simps [of "ZIeeeAddress a"])
  show "length (zcl_bytes (ZIeeeAddress a)) = 9" by (simp add: zcl_bytes.simps [of "ZIeeeAddress a"])
qed

lemma zcl_read_empty: "depth \<le> 15 \<Longrightarrow> zcl_read depth [] = Panic"
  by (simp add: zcl_read.simps)

lemma zcl_short_input: "zcl_read 0 [] = Panic" "zcl_read 0 [0x41] = Panic" "zcl_read 0 [0x48, 1, 0] = Panic"
proof -
  show "zcl_read 0 [] = Panic" by (rule zcl_read_empty) simp
  show "zcl_read 0 [0x41] = Panic"
    by (subst zcl_read_scalar [of _ "zcl_short (Inr \<circ> ZOctetString)"])
      (simp_all add: zcl_structs_def zcl_readers_def zcl_short_def)
  have "unat (le_value [1, 0] :: u16) = Suc 0" by simp
  moreover have "zcl_read_items 0 (Suc 0) [1, 0] 2 = Panic" by (simp add: zcl_read_empty)
  ultimately show "zcl_read 0 [0x48, 1, 0] = Panic" by (simp add: zcl_read.simps [of 0] zcl_structs_def)
qed

lemma read_zcl_date_1999:
  "read_zcl_date [99, 2, 29, 0xff] = Inr (\<lparr> zd_year = Some 99, zd_month = Some 2, zd_day = Some 29, zd_weekday = None \<rparr>, 4)"
  by (simp add: read_zcl_date_def zcl_date_invalid_def zcl_leap_year_def zcl_unfield_def)

section \<open>Properties\<close>

text \<open>C31. A value whose numbers fit the width of their type, whose strings fit their length and whose nesting
  is at most 15 deep survives: the writer puts its bytes at the beginning of any buffer with room for them, and
  from these bytes, whatever follows, the reader gives the value back with their number.\<close>
theorem zcl_data_roundtrip:
  assumes "zcl_plain 0 v" and "length (zcl_bytes v) \<le> length buf"
  shows "zcl_write 0 v buf = Inr (zcl_bytes v @ drop (length (zcl_bytes v)) buf, length (zcl_bytes v)) \<and>
    zcl_read 0 (zcl_bytes v @ rest) = Done (Inr (v, length (zcl_bytes v)))"
  using zcl_write_room [OF assms(1)] assms(2) zcl_read_back [OF assms(1)] by (simp add: writes_def)

definition zcl_sample :: zcl_data where
  "zcl_sample = ZStructure 2 [ZUInt16 0x1234, ZArray 1 [ZString [0x61, 0xc3, 0xa9]]]"

lemmas zcl_plain_of = zcl_plain.simps [of d "ZStructure n vs" for d n vs] zcl_plain.simps [of d "ZArray n vs" for d n vs]
  zcl_plain.simps [of d "ZUInt16 x" for d x] zcl_plain.simps [of d "ZString x" for d x]

lemma le_bytes_2: "le_bytes 2 w = [ucast w, ucast (drop_bit 8 w)]"
  by (simp add: le_bytes_def byte_of_def numeral_2_eq_2)

lemma zcl_sample_bytes:
  "zcl_plain 0 zcl_sample" "zcl_bytes zcl_sample = [0x4c, 2, 0, 0x21, 0x34, 0x12, 0x48, 1, 0, 0x42, 3, 0x61, 0xc3, 0xa9]"
  by (simp_all add: zcl_sample_def zcl_plain_of zcl_bytes.simps zcl_fits_def zcl_count_def utf8_tail_def le_bytes_2)

theorem zcl_data_roundtrip_witness:
  "zcl_write 0 zcl_sample (replicate 20 7) =
     Inr ([0x4c, 2, 0, 0x21, 0x34, 0x12, 0x48, 1, 0, 0x42, 3, 0x61, 0xc3, 0xa9] @ replicate 6 7, 14) \<and>
   zcl_read 0 [0x4c, 2, 0, 0x21, 0x34, 0x12, 0x48, 1, 0, 0x42, 3, 0x61, 0xc3, 0xa9, 5] = Done (Inr (zcl_sample, 14))"
  using zcl_data_roundtrip [of zcl_sample "replicate 20 7" "[5]"] by (simp add: zcl_sample_bytes)

text \<open>What does not survive: a signed number of 24 bits comes back without its sign, a long string as a short
  one, an octet string of 256 bytes or more as its beginning of the length modulo 256; the reader of an address claims
  4 of its 8 bytes, so that what follows it in an array is read from its middle. A string without a length and an
  array without its items panic, as does an empty slice, and the 29th of February of 1999 is a date.\<close>
theorem zcl_data_losses:
  "zcl_read 0 (zcl_bytes (ZInt24 x) @ rest) = Done (Inr (ZInt24 (take_bit 24 x), 4)) \<and>
   (sint x < 0 \<longrightarrow> take_bit 24 x \<noteq> x) \<and>
   (utf8_valid s \<and> length s < 2 ^ 16 \<longrightarrow>
      zcl_read 0 (zcl_bytes (ZLongString s) @ rest) = Done (Inr (ZString s, length s + 3))) \<and>
   (zcl_read 0 (zcl_bytes (ZOctetString s) @ rest) =
      Done (Inr (ZOctetString (take (length s mod 256) (s @ rest)), length s mod 256 + 2))) \<and>
   zcl_read 0 (zcl_bytes (ZIeeeAddress a) @ rest) = Done (Inr (ZIeeeAddress a, 5)) \<and>
   length (zcl_bytes (ZIeeeAddress a)) = 9 \<and>
   zcl_read 0 [] = Panic \<and> zcl_read 0 [0x41] = Panic \<and> zcl_read 0 [0x48, 1, 0] = Panic \<and>
   read_zcl_date [99, 2, 29, 0xff] = Inr (\<lparr> zd_year = Some 99, zd_month = Some 2, zd_day = Some 29, zd_weekday = None \<rparr>, 4)"
  using zcl_int24_back [of x rest] zcl_long_string_back [of s rest] zcl_octets_back [of s rest] zcl_ieee_back(1) [of a rest] zcl_ieee_back(2) [of a]
    zcl_short_input read_zcl_date_1999 by blast

theorem zcl_data_losses_witness:
  "take_bit 24 (- 1 :: u32) \<noteq> - 1 \<and>
   zcl_read 0 (zcl_bytes (ZLongString [0x61]) @ [1]) = Done (Inr (ZString [0x61], 4))"
proof -
  have "utf8_valid [0x61]" "length [0x61 :: u8] < 2 ^ 16" "sint (- 1 :: u32) < 0" "length [0x61 :: u8] + 3 = 4" by simp_all
  with zcl_data_losses [of "- 1" "[1]" "[0x61]" 0] show ?thesis by metis
qed

end
