(* ===== verification/Zcl_OnOff.thy ===== *)
theory Zcl_OnOff
  imports Zcl_Clusters
begin

text \<open>
  What the clusters of \<open>zb-zcl-clusters\<close> do: writes that are all done or none, the light that follows the on/off
  attribute, the timers of the on/off cluster, and the countdown of the identify cluster.
\<close>

section \<open>The steps of the on/off cluster\<close>

inductive on_off_step :: "'h on_off_handler \<Rightarrow> on_off_codecs \<Rightarrow> 'h on_off \<Rightarrow> 'h on_off \<Rightarrow> bool" for H C where
  command: "co_custom_command (on_off_cluster H C) cmd s = Done (r, s') \<Longrightarrow> on_off_step H C s s'"
| update: "on_off_step H C s (co_update (on_off_cluster H C) s)"
| writes_one: "on_off_step H C s (snd (write_attributes (on_off_cluster H C) vs s))"
| undivided: "write_attributes_undivided (on_off_cluster H C) vs s = Done (rs, s') \<Longrightarrow> on_off_step H C s s'"
| reporting: "configure_reporting (on_off_cluster H C) rs s = Done (r, s') \<Longrightarrow> on_off_step H C s s'"

inductive on_off_reach :: "'h on_off_handler \<Rightarrow> on_off_codecs \<Rightarrow> 'h on_off \<Rightarrow> 'h on_off \<Rightarrow> bool" for H C s where
  start: "on_off_reach H C s s"
| step: "on_off_reach H C s s' \<Longrightarrow> on_off_step H C s' s'' \<Longrightarrow> on_off_reach H C s s''"

lemmas on_off_ops = turn_on_def turn_off_def toggle_def set_onoff_def set_scene_def set_on_time_def
  set_off_wait_time_def notify_def

text \<open>What no operation on the attributes touches: the switch and the light.\<close>

definition switch :: "'h on_off \<Rightarrow> bool \<times> 'h" where
  "switch s = (is_on s, oo_handler s)"

lemma write_attribute_switch: "switch (snd (write_attribute (on_off_cluster H C) v s)) = switch s"
  by (auto simp: write_attribute_def on_off_attributes switch_def on_off_defs on_off_puts attr_object_def bool_def_def
      u16_def_def READ_REPORT_def READ_ONLY_def set_from_zcl_data_def split: sum.split prod.split)

lemma write_attributes_switch: "switch (snd (write_attributes (on_off_cluster H C) vs s)) = switch s"
  by (induction vs arbitrary: s) (simp_all add: write_attributes_Cons split_beta Let_def write_attribute_switch)

lemma undivided_switch:
  "write_attributes_undivided (on_off_cluster H C) vs s = Done (rs, s') \<Longrightarrow> switch s' = switch s"
  using on_off_laws.undivided_eq [of H C vs s] write_attributes_switch [of H C vs s] by (auto split: if_splits)

lemma set_reporting_value: "attr_set_reporting d mn mx ch a = Done (r, a') \<Longrightarrow> at_value a' = at_value a"
  by (auto simp: attr_set_reporting_def split: option.splits sum.splits prod.splits)

lemma configure_attribute_switch:
  "configure_attribute (on_off_cluster H C) v s = Done (r, s') \<Longrightarrow> switch s' = switch s"
  by (auto simp: configure_attribute_def on_off_cluster_def reportable_attr_def attribute_object.extend_def
      put_onoff_def switch_def run_simps dest!: set_reporting_value split: if_splits option.splits)

lemma configure_reporting_switch:
  "configure_reporting (on_off_cluster H C) vs s = Done (rs, s') \<Longrightarrow> switch s' = switch s"
proof (induction vs arbitrary: s rs)
  case (Cons v vs)
  then show ?case by (fastforce simp: run_simps dest: configure_attribute_switch)
qed simp

lemma on_off_custom_command_Done:
  "co_custom_command (on_off_cluster H C) cmd s = Done (r, s') \<longleftrightarrow> r = None \<and>
     s' = (case read_on_off_command C (spc_identifier cmd) (spc_data cmd) of Inl _ \<Rightarrow> s | Inr (x, _) \<Rightarrow> on_off_command H x s)"
  by (auto simp: on_off_cluster_def on_off_custom_command_def)

lemma co_update_on_off: "co_update (on_off_cluster H C) = on_off_update H"
  by (simp add: on_off_cluster_def)

section \<open>Properties\<close>

text \<open>C12. An undivided write is all or nothing, on each of the modelled clusters: it never panics, its answer is the one
  that the writes one by one would give, and the state is theirs if every record is accepted and
  untouched otherwise, also with unknown, repeated and read-only attributes.\<close>
theorem undivided_writes:
  "all_or_nothing (on_off_cluster H C) vs s \<and> all_or_nothing (identify_cluster G D) vs t \<and>
   all_or_nothing temperature_cluster vs u"
  using on_off_laws.undivided_all_or_nothing identify_laws.undivided_all_or_nothing
    temperature_laws.undivided_all_or_nothing by blast

lemma on_off_command_follows:
  assumes "\<And>h. lit (oh_turn_on H h)" and "\<And>h. \<not> lit (oh_turn_off H h)" and "lit (oo_handler s) \<longleftrightarrow> is_on s"
  shows "lit (oo_handler (on_off_command H x s)) \<longleftrightarrow> is_on (on_off_command H x s)"
  using assms by (cases x) (auto simp: on_off_ops Let_def)

lemma on_off_update_follows:
  assumes "\<And>h. lit (oh_turn_on H h)" and "\<And>h. \<not> lit (oh_turn_off H h)" and "lit (oo_handler s) \<longleftrightarrow> is_on s"
  shows "lit (oo_handler (on_off_update H s)) \<longleftrightarrow> is_on (on_off_update H s)"
  using assms by (auto simp: on_off_update_def on_off_ops Let_def)

text \<open>C16. The light follows the attribute: if the handler shows that it was turned on or off, and shows what the
  attribute says, then it does so after any commands, updates, writes and configurations of reports.\<close>
theorem light_follows_attribute:
  assumes "\<And>h. lit (oh_turn_on H h)" and "\<And>h. \<not> lit (oh_turn_off H h)"
    and "lit (oo_handler s) \<longleftrightarrow> is_on s" and "on_off_reach H C s s'"
  shows "lit (oo_handler s') \<longleftrightarrow> is_on s'"
  using assms(4)
proof induction
  case start
  from assms(3) show ?case .
next
  case (step s' s'')
  have same: "switch s'' = switch s' \<Longrightarrow> ?case" using step.IH by (auto simp: switch_def)
  from step.hyps(2) show ?case
  proof cases
    case (command cmd r)
    with step.IH on_off_command_follows [of lit H, OF assms(1,2)] show ?thesis
      by (auto simp: on_off_custom_command_Done split: sum.split)
  next
    case update
    with step.IH on_off_update_follows [of lit H, OF assms(1,2)] show ?thesis by (simp add: co_update_on_off)
  next
    case (writes_one vs)
    then show ?thesis by (intro same) (simp add: write_attributes_switch)
  next
    case undivided
    then show ?thesis by (intro same) (rule undivided_switch)
  next
    case reporting
    then show ?thesis by (intro same) (rule configure_reporting_switch)
  qed
qed

definition relay :: "bool on_off_handler" where
  "relay = \<lparr> oh_turn_on = (\<lambda>_. True), oh_turn_off = (\<lambda>_. False) \<rparr>"

definition on_off_codecs_std :: on_off_codecs where
  "on_off_codecs_std = \<lparr> oc_read_effect = (\<lambda>_. Inl Incomplete), oc_read_timed_off = (\<lambda>_. Inl Incomplete) \<rparr>"

theorem light_follows_attribute_witness:
  "\<exists>s. on_off_reach relay on_off_codecs_std (on_off_new False) s \<and> is_on s \<and> oo_handler s"
proof -
  let ?s = "on_off_command relay CmdOn (on_off_new False)"
  have "on_off_step relay on_off_codecs_std (on_off_new False) ?s"
    by (rule on_off_step.command [of _ _ "\<lparr> spc_identifier = 1, spc_data = [] \<rparr>" _ None])
      (simp add: on_off_custom_command_Done read_on_off_command_def)
  then have reach: "on_off_reach relay on_off_codecs_std (on_off_new False) ?s"
    by (rule on_off_reach.step [OF on_off_reach.start])
  have "oo_handler ?s \<longleftrightarrow> is_on ?s"
    by (rule light_follows_attribute [of "\<lambda>b. b", OF _ _ _ reach])
      (simp_all add: relay_def on_off_new_def attr_default_def attr_new_def onoff_def_def bool_def_def)
  moreover have "is_on ?s" by (simp add: on_off_ops)
  ultimately show ?thesis using reach by blast
qed

section \<open>Timers\<close>

definition counting :: "'h on_off \<Rightarrow> bool" where
  "counting s \<longleftrightarrow> is_on s \<and> 0 < on_time s \<and> on_time s \<noteq> 0xffff"

lemma countdown_step:
  assumes "counting s" and "on_time s \<noteq> 1"
  shows "on_off_update H s = set_on_time (on_time s - 1) s \<and> counting (on_off_update H s)"
proof -
  have "on_time s - 1 \<noteq> 0" using assms(2) by (metis eq_iff_diff_eq_0)
  moreover have "on_time s - 1 \<noteq> 0xffff" using assms(1) by (auto simp: counting_def eq_diff_eq [symmetric] diff_eq_eq)
  ultimately show ?thesis using assms
    by (auto simp: counting_def on_off_update_def saturating_pred_def Let_def set_on_time_def word_gt_0)
qed

lemma countdown_end:
  assumes "counting s" and "on_time s = 1"
  shows "on_off_update H s = set_off_wait_time 0 (turn_off H (set_on_time 0 s))"
  using assms by (simp add: counting_def on_off_update_def saturating_pred_def Let_def set_on_time_def)

lemma countdown_value: "n < unat (on_time s) \<Longrightarrow> unat (on_time s - of_nat n) = unat (on_time s) - n"
proof -
  assume n: "n < unat (on_time s)"
  with unsigned_less [of "on_time s", where ?'a = nat] have "unat (of_nat n :: u16) = n"
    by (simp add: unat_of_nat take_bit_nat_eq_self)
  with n show ?thesis by (simp add: unat_sub word_le_nat_alt)
qed

lemma countdown:
  "counting s \<Longrightarrow> n < unat (on_time s) \<Longrightarrow> (on_off_update H ^^ n) s = set_on_time (on_time s - of_nat n) s \<and>
     counting ((on_off_update H ^^ n) s)"
proof (induction n)
  case 0
  then show ?case by (simp add: set_on_time_def)
next
  case (Suc n)
  then have "n < unat (on_time s)" by simp
  note both = Suc.IH [OF Suc.prems(1) this]
  note ih = conjunct1 [OF both] and c = conjunct2 [OF both]
  from Suc.prems(2) countdown_value [of n s] have u: "unat (on_time s - of_nat n) = unat (on_time s) - n" by simp
  have "on_time ((on_off_update H ^^ n) s) \<noteq> 1"
  proof
    assume "on_time ((on_off_update H ^^ n) s) = 1"
    then have "unat (on_time s - of_nat n) = 1" unfolding ih by (simp add: set_on_time_def)
    with u Suc.prems(2) show False by simp
  qed
  note next_one = countdown_step [OF c this, of H]
  have "on_off_update H ((on_off_update H ^^ n) s) = set_on_time (on_time s - of_nat (Suc n)) s"
    unfolding conjunct1 [OF next_one] unfolding ih by (simp add: set_on_time_def diff_diff_eq add.commute)
  with conjunct2 [OF next_one] show ?case by simp
qed

text \<open>C17. A light that is on with time \<open>n\<close>, neither 0 nor the reserved value, stays on for \<open>n - 1\<close> updates, in which
  the time counts down and the handler is not called, and is turned off, once, by update \<open>n\<close>; then both
  times are 0.\<close>
theorem timed_light_goes_off:
  assumes "is_on s" and "0 < on_time s" and "on_time s \<noteq> 0xffff"
  shows "(\<forall>k<unat (on_time s). let s' = (on_off_update H ^^ k) s in
      is_on s' \<and> unat (on_time s') = unat (on_time s) - k \<and> oo_handler s' = oo_handler s) \<and>
    (let s' = (on_off_update H ^^ unat (on_time s)) s in \<not> is_on s' \<and> oo_handler s' = oh_turn_off H (oo_handler s) \<and>
      on_time s' = 0 \<and> off_wait_time s' = 0)"
proof -
  from assms have c: "counting s" by (simp add: counting_def)
  have "let s' = (on_off_update H ^^ k) s in is_on s' \<and> unat (on_time s') = unat (on_time s) - k \<and> oo_handler s' = oo_handler s"
    if "k < unat (on_time s)" for k
    using countdown [OF c that, of H] countdown_value [OF that] assms(1) by (simp add: set_on_time_def)
  moreover define n where "n = unat (on_time s) - 1"
  from assms(2) have n: "unat (on_time s) = Suc n" by (simp add: n_def unat_gt_0)
  then have "n < unat (on_time s)" by simp
  note cd = countdown [OF c this, of H] and val = countdown_value [OF this]
  from cd val n have "unat (on_time ((on_off_update H ^^ n) s)) = 1" by (simp add: set_on_time_def)
  then have one: "on_time ((on_off_update H ^^ n) s) = 1" by (simp add: word_unat_eq_iff)
  have "(on_off_update H ^^ unat (on_time s)) s = on_off_update H ((on_off_update H ^^ n) s)" by (simp add: n)
  with countdown_end [OF conjunct2 [OF cd] one, of H] conjunct1 [OF cd]
  have "let s' = (on_off_update H ^^ unat (on_time s)) s in \<not> is_on s' \<and> oo_handler s' = oh_turn_off H (oo_handler s) \<and>
      on_time s' = 0 \<and> off_wait_time s' = 0" by (simp add: on_off_ops)
  ultimately show ?thesis by blast
qed

theorem timed_light_goes_off_witness:
  "is_on ((on_off_update relay ^^ 2) (set_on_time 3 (turn_on relay (on_off_new False)))) \<and>
   \<not> is_on ((on_off_update relay ^^ 3) (set_on_time 3 (turn_on relay (on_off_new False))))"
proof -
  let ?s = "set_on_time 3 (turn_on relay (on_off_new False))"
  have s: "is_on ?s" "on_time ?s = 3" by (simp_all add: on_off_ops)
  from timed_light_goes_off [of ?s relay] s show ?thesis by (simp add: Let_def)
qed

definition on_off_event :: "'h on_off_handler \<Rightarrow> on_off_zcl_command option \<Rightarrow> 'h on_off \<Rightarrow> 'h on_off" where
  "on_off_event H e = (case e of Some x \<Rightarrow> on_off_command H x | None \<Rightarrow> on_off_update H)"

lemma off_wait_falls: "off_wait_time (on_off_event H e s) \<le> off_wait_time s"
proof -
  have "off_wait_time (on_off_command H x s) \<le> off_wait_time s" for x
    by (cases x) (auto simp: on_off_ops Let_def)
  moreover have "saturating_pred w \<le> w" for w
    using word_less_Suc [of "w - 1"] by (auto simp: saturating_pred_def)
  then have "off_wait_time (on_off_update H s) \<le> off_wait_time s"
    by (auto simp: on_off_update_def on_off_ops Let_def)
  ultimately show ?thesis by (simp add: on_off_event_def split: option.split)
qed

lemma off_wait_stays_zero: "off_wait_time s = 0 \<Longrightarrow> off_wait_time (fold (on_off_event H) es s) = 0"
proof (induction es arbitrary: s)
  case (Cons e es)
  with off_wait_falls [of H e s] show ?case by simp
qed simp

text \<open>The off-wait time of the cluster is never set by a command: it only falls, so without a write to it
  it stays 0 after any commands and updates from the start. A timed command with an off-wait time is therefore ignored by a light that is
  off, whatever its on time: nothing changes and the handler is not called. Recalling the global scene never
  turns the light on.\<close>
theorem timed_command_ignored:
  assumes "s = fold (on_off_event H) es (on_off_new h)"
  shows "off_wait_time s = 0 \<and>
    (\<not> is_on s \<and> 0 < to_off_wait_time c \<longrightarrow> on_off_command H (CmdTimedOff c) s = s) \<and>
    (\<not> is_on s \<and> to_off_wait_time c = 0 \<and> \<not> to_accept_only_when_on c \<longrightarrow>
       (let s' = on_off_command H (CmdTimedOff c) s in is_on s' \<and> on_time s' = max (to_on_time c) (on_time s) \<and>
          oo_handler s' = oh_turn_on H (oo_handler s))) \<and>
    switch (on_off_command H CmdRecallScene s) = switch s"
proof -
  have zero: "off_wait_time s = 0" unfolding assms by (rule off_wait_stays_zero)
    (simp add: on_off_new_def attr_default_def attr_new_def off_wait_time_def_def u16_def_def)
  then have "set_off_wait_time 0 s = s" by (simp add: set_off_wait_time_def)
  with zero show ?thesis by (auto simp: on_off_ops switch_def Let_def min_def)
qed

lemma light_off_first: "\<not> is_on (on_off_new h)"
  by (simp add: on_off_new_def attr_default_def attr_new_def onoff_def_def bool_def_def)

theorem timed_command_ignored_witness:
  "on_off_command relay (CmdTimedOff \<lparr> to_accept_only_when_on = False, to_on_time = 600, to_off_wait_time = 1 \<rparr>)
     (on_off_new False) = on_off_new False"
  using timed_command_ignored [of "on_off_new False" relay "[]" False
      "\<lparr> to_accept_only_when_on = False, to_on_time = 600, to_off_wait_time = 1 \<rparr>"]
  by (simp add: light_off_first del: on_off_command.simps)

lemma identify_ends_silently:
  "unat (at_value (id_time s)) \<le> n \<Longrightarrow> at_value (id_time ((identify_update ^^ n) s)) = 0 \<and>
     id_handler ((identify_update ^^ n) s) = id_handler s"
proof (induction n arbitrary: s)
  case 0
  then show ?case by (simp add: unat_eq_zero)
next
  case (Suc n)
  let ?w = "at_value (id_time s)"
  have "unat (saturating_pred ?w) \<le> n" using Suc.prems
    by (cases "?w = 0") (simp_all add: saturating_pred_def unat_minus_one)
  with Suc.IH [of "identify_update s"] show ?case
    by (simp add: identify_update_def funpow_Suc_right del: funpow.simps)
qed

end
