(* ===== verification/Zcl_Storage.thy ===== *)
theory Zcl_Storage
  imports Zcl_Service Zcl_Values Zcl_OnOff Zdp_Services
begin

text \<open>
  What is stored of applications: the bytes of an attribute and of the on/off cluster and what they give back, and
  the one place in the storage that all applications of a node are written to.
\<close>

section \<open>Attributes in storage\<close>

definition attr_bytes :: "'v attr_def \<Rightarrow> 'v zcl_attr \<Rightarrow> bytes" where
  "attr_bytes d a = zcl_bytes (df_wrap d (at_value a)) @ (case at_report_config a of
     None \<Rightarrow> [] | Some r \<Rightarrow> le_bytes 2 (fst (ri_current r)) @ le_bytes 2 (snd (ri_current r)))"

definition attr_restored :: "'v attr_def \<Rightarrow> 'v zcl_attr \<Rightarrow> 'v zcl_attr" where
  "attr_restored d a = \<lparr> at_value = at_value a,
     at_report_config = (case (df_reported d, at_report_config a) of
       (Some (iv, step), Some r) \<Rightarrow> Some (snd (set_values (fst (ri_current r)) (snd (ri_current r)) step (report_intervals_new iv step)))
     | _ \<Rightarrow> None) \<rparr>"

text \<open>What an attribute needs to be stored: a value that survives, and a configuration exactly if it is reported.\<close>

definition attr_storable :: "'v attr_def \<Rightarrow> 'v zcl_attr \<Rightarrow> bool" where
  "attr_storable d a \<longleftrightarrow> zcl_plain 0 (df_wrap d (at_value a)) \<and> df_unwrap d (df_wrap d (at_value a)) = Inr (at_value a) \<and>
     (at_report_config a = None \<longleftrightarrow> df_reported d = None)"

lemma write_with_writes:
  "writes w e \<Longrightarrow> length e \<le> length b \<Longrightarrow> write_with w (a @ b, length a) = Inr ((a @ e) @ drop (length e) b, length (a @ e))"
  by (simp add: writes_def)

lemma writes_u16: "writes (write_u16 w) (le_bytes 2 w)"
  by (simp add: writes_def write_u16_def write_slice_def)

lemma attr_write_room:
  assumes "attr_storable d a"
  shows "writes (attr_write d a) (attr_bytes d a)"
proof -
  let ?v = "zcl_bytes (df_wrap d (at_value a))"
  from assms have v: "writes (zcl_write 0 (df_wrap d (at_value a))) ?v" by (simp add: attr_storable_def zcl_write_room)
  have "attr_write d a b = Inr (attr_bytes d a @ drop (length (attr_bytes d a)) b, length (attr_bytes d a))"
    if room: "length (attr_bytes d a) \<le> length b" for b
  proof (cases "at_report_config a")
    case None
    with room write_with_writes [OF v, of b "[]"] show ?thesis
      by (simp add: attr_write_def attr_bytes_def del: write_with.simps)
  next
    case (Some r)
    let ?p = "le_bytes 2 (fst (ri_current r))" and ?q = "le_bytes 2 (snd (ri_current r))"
    from room Some write_with_writes [OF v, of b "[]"]
    have one: "write_with (zcl_write 0 (df_wrap d (at_value a))) (b, 0) = Inr (?v @ drop (length ?v) b, length ?v)"
      by (simp add: attr_bytes_def del: write_with.simps)
    from room Some write_with_writes [OF writes_u16 [of "fst (ri_current r)"], of "drop (length ?v) b" ?v]
    have two: "write_with (write_u16 (fst (ri_current r))) (?v @ drop (length ?v) b, length ?v) =
        Inr ((?v @ ?p) @ drop (length ?v + 2) b, length (?v @ ?p))"
      by (simp add: attr_bytes_def add.commute del: write_with.simps)
    from room Some write_with_writes [OF writes_u16 [of "snd (ri_current r)"], of "drop (length ?v + 2) b" "?v @ ?p"]
    have "write_with (write_u16 (snd (ri_current r))) ((?v @ ?p) @ drop (length ?v + 2) b, length (?v @ ?p)) =
        Inr ((?v @ ?p @ ?q) @ drop (length ?v + 4) b, length ?v + 4)"
      by (simp add: attr_bytes_def add.commute numeral_eq_Suc del: write_with.simps)
    with one two Some show ?thesis by (simp add: attr_write_def attr_bytes_def add.commute del: write_with.simps)
  qed
  then show ?thesis by (simp add: writes_def)
qed

lemma read_u16_at: "read_with read_u16 (a @ le_bytes 2 w @ rest) (length a) = Inr (w, length a + 2)"
  by (simp add: read_with_def read_u16_def)

lemma attr_read_back:
  assumes "attr_storable d a"
  shows "attr_read d (attr_bytes d a @ rest) = Done (Inr (attr_restored d a, length (attr_bytes d a)))"
proof -
  let ?v = "zcl_bytes (df_wrap d (at_value a))"
  from assms have plain: "zcl_plain 0 (df_wrap d (at_value a))" and un: "df_unwrap d (df_wrap d (at_value a)) = Inr (at_value a)"
    by (simp_all add: attr_storable_def)
  show ?thesis
  proof (cases "at_report_config a")
    case None
    with assms have "df_reported d = None" by (simp add: attr_storable_def)
    with None un zcl_read_back [OF plain, of rest] show ?thesis
      by (simp add: attr_read_def attr_bytes_def attr_intervals_def attr_restored_def)
  next
    case (Some r)
    with assms obtain iv step where rep: "df_reported d = Some (iv, step)" by (auto simp: attr_storable_def)
    let ?p = "le_bytes 2 (fst (ri_current r))" and ?q = "le_bytes 2 (snd (ri_current r))"
    have one: "read_with read_u16 (?v @ ?p @ ?q @ rest) (length ?v) = Inr (fst (ri_current r), length ?v + 2)"
      by (rule read_u16_at)
    have two: "read_with read_u16 (?v @ ?p @ ?q @ rest) (length ?v + 2) = Inr (snd (ri_current r), length ?v + 4)"
      using read_u16_at [of "?v @ ?p" "snd (ri_current r)" rest] by (simp add: add.commute)
    from rep Some un one two zcl_read_back [OF plain, of "?p @ ?q @ rest"] show ?thesis
      by (simp add: attr_read_def attr_bytes_def attr_intervals_def attr_restored_def add.commute)
  qed
qed

lemma read_field_back:
  "attr_storable d a \<Longrightarrow> read_field d put (p @ attr_bytes d a @ rest, length p) s =
     Done (Inr (length (p @ attr_bytes d a)), put (attr_restored d a) s)"
  by (simp add: read_field_def attr_read_back)

section \<open>The on/off cluster in storage\<close>

text \<open>The configuration of reports that \<open>set_values\<close> can have left.\<close>

definition sound_intervals :: "u16 \<times> u16 \<Rightarrow> bool" where
  "sound_intervals p \<longleftrightarrow> fst p \<le> snd p \<or> fst p = 0xffff \<and> snd p = 0"

definition on_off_ok :: "'h on_off \<Rightarrow> bool" where
  "on_off_ok s \<longleftrightarrow> (\<exists>r. at_report_config (oo_onoff s) = Some r \<and> sound_intervals (ri_current r)) \<and>
     at_report_config (oo_global_scene_control s) = None \<and> at_report_config (oo_on_time s) = None \<and>
     at_report_config (oo_off_wait_time s) = None"

lemma set_values_sound:
  "sound_intervals (ri_current r) \<Longrightarrow> set_values mn mx ch r = (res, r') \<Longrightarrow> sound_intervals (ri_current r')"
  by (auto simp: set_values_def sound_intervals_def split: if_splits)

lemma set_values_current: "sound_intervals (mn, mx) \<Longrightarrow> ri_current (snd (set_values mn mx ch r)) = (mn, mx)"
  by (auto simp: set_values_def sound_intervals_def)

lemma on_off_new_ok: "on_off_ok (on_off_new h)"
  by (simp add: on_off_ok_def on_off_new_def attr_default_def attr_new_def on_off_defs bool_def_def u16_def_def
      report_intervals_new_def sound_intervals_def)

lemma on_off_storable:
  assumes "on_off_ok s"
  shows "attr_storable onoff_def (oo_onoff s)" "attr_storable global_scene_control_def (oo_global_scene_control s)"
    "attr_storable on_time_def (oo_on_time s)" "attr_storable off_wait_time_def (oo_off_wait_time s)"
  using assms by (auto simp: on_off_ok_def attr_storable_def on_off_defs bool_def_def u16_def_def
      unwrap_bool_def unwrap_u16_def zcl_plain.simps [of _ "ZBool b" for b] zcl_plain.simps [of _ "ZUInt16 w" for w] zcl_fits_def)

definition on_off_bytes :: "'h on_off \<Rightarrow> bytes" where
  "on_off_bytes s = attr_bytes onoff_def (oo_onoff s) @ attr_bytes global_scene_control_def (oo_global_scene_control s) @
     attr_bytes on_time_def (oo_on_time s) @ attr_bytes off_wait_time_def (oo_off_wait_time s)"

lemma write_fields_room:
  "list_all2 writes ws es \<Longrightarrow> length (concat es) \<le> length b \<Longrightarrow>
     write_fields ws (a @ b, length a) = Inr (a @ concat es @ drop (length (concat es)) b, length a + length (concat es))"
proof (induction ws es arbitrary: a b rule: list_all2_induct)
  case (Cons w ws e es)
  from Cons.prems write_with_writes [OF Cons.hyps(1), of b a]
  have one: "write_with w (a @ b, length a) = Inr ((a @ e) @ drop (length e) b, length (a @ e))" by simp
  from Cons.prems have "length (concat es) \<le> length (drop (length e) b)" by simp
  from Cons.IH [OF this, of "a @ e"] one show ?case by (simp add: add.assoc add.commute del: write_with.simps)
qed simp

lemma on_off_write_room:
  assumes "on_off_ok s" and "length (on_off_bytes s) \<le> length b"
  shows "co_write_with (on_off_cluster H C) s (b, 0) = Inr (on_off_bytes s @ drop (length (on_off_bytes s)) b, length (on_off_bytes s))"
proof -
  note st = on_off_storable [OF assms(1)]
  have "list_all2 writes [attr_write onoff_def (oo_onoff s), attr_write global_scene_control_def (oo_global_scene_control s),
        attr_write on_time_def (oo_on_time s), attr_write off_wait_time_def (oo_off_wait_time s)]
      [attr_bytes onoff_def (oo_onoff s), attr_bytes global_scene_control_def (oo_global_scene_control s),
        attr_bytes on_time_def (oo_on_time s), attr_bytes off_wait_time_def (oo_off_wait_time s)]"
    by (simp add: attr_write_room st)
  from write_fields_room [OF this, of b "[]"] assms(2) show ?thesis
    by (simp add: on_off_cluster_def on_off_bytes_def del: write_fields.simps)
qed

definition on_off_restored :: "'h on_off \<Rightarrow> 'g on_off \<Rightarrow> 'g on_off" where
  "on_off_restored s t = t\<lparr> oo_onoff := attr_restored onoff_def (oo_onoff s),
     oo_global_scene_control := attr_restored global_scene_control_def (oo_global_scene_control s),
     oo_on_time := attr_restored on_time_def (oo_on_time s), oo_off_wait_time := attr_restored off_wait_time_def (oo_off_wait_time s) \<rparr>"

lemma on_off_read_back:
  assumes "on_off_ok s"
  shows "co_read_with (on_off_cluster H C) (on_off_bytes s @ rest, 0) t =
    Done (Inr (length (on_off_bytes s)), on_off_restored s t)"
proof -
  note st = on_off_storable [OF assms]
  let ?a = "attr_bytes onoff_def (oo_onoff s)" and ?b = "attr_bytes global_scene_control_def (oo_global_scene_control s)"
    and ?c = "attr_bytes on_time_def (oo_on_time s)" and ?d = "attr_bytes off_wait_time_def (oo_off_wait_time s)"
  have f1: "read_field onoff_def put (?a @ ?b @ ?c @ ?d @ rest, 0) t = Done (Inr (length ?a), put (attr_restored onoff_def (oo_onoff s)) t)"
    for put and t :: "'b on_off" using read_field_back [OF st(1), of put "[]"] by simp
  have f2: "read_field global_scene_control_def put (?a @ ?b @ ?c @ ?d @ rest, length ?a) t =
      Done (Inr (length (?a @ ?b)), put (attr_restored global_scene_control_def (oo_global_scene_control s)) t)"
    for put and t :: "'b on_off" using read_field_back [OF st(2), of put ?a] by simp
  have f3: "read_field on_time_def put (?a @ ?b @ ?c @ ?d @ rest, length (?a @ ?b)) t =
      Done (Inr (length (?a @ ?b @ ?c)), put (attr_restored on_time_def (oo_on_time s)) t)"
    for put and t :: "'b on_off" using read_field_back [OF st(3), of put "?a @ ?b"] by simp
  have f4: "read_field off_wait_time_def put (?a @ ?b @ ?c @ ?d @ rest, length (?a @ ?b @ ?c)) t =
      Done (Inr (length (?a @ ?b @ ?c @ ?d)), put (attr_restored off_wait_time_def (oo_off_wait_time s)) t)"
    for put and t :: "'b on_off" using read_field_back [OF st(4), of put "?a @ ?b @ ?c"] by simp
  show ?thesis
    by (simp add: on_off_cluster_def on_off_bytes_def f1 f2 [simplified] f3 [simplified] f4 [simplified]
        on_off_restored_def on_off_puts)
qed

section \<open>Every state can be stored\<close>

definition reports :: "'h on_off \<Rightarrow> bool report_intervals option \<times> bool \<times> bool \<times> bool" where
  "reports s = (at_report_config (oo_onoff s), at_report_config (oo_global_scene_control s) = None,
     at_report_config (oo_on_time s) = None, at_report_config (oo_off_wait_time s) = None)"

lemma on_off_ok_reports: "reports s' = reports s \<Longrightarrow> on_off_ok s \<Longrightarrow> on_off_ok s'"
  by (auto simp: on_off_ok_def reports_def)

lemma on_off_command_reports: "reports (on_off_command H x s) = reports s" "reports (on_off_update H s) = reports s"
  by (cases x; auto simp: on_off_ops reports_def Let_def) (auto simp: on_off_update_def on_off_ops reports_def Let_def)

lemma attr_object_reports:
  assumes "ao_set (attr_object d get put) x s = (r, s')"
  shows "\<exists>a. s' = put a s \<and> at_report_config a = at_report_config (get s)"
proof -
  have "at_report_config (snd (set_from_zcl_data d x (get s))) = at_report_config (get s)"
    by (simp add: set_from_zcl_data_def set_value_def validate_value_def split: sum.split)
  with assms show ?thesis by (auto simp: attr_object_def split: prod.splits)
qed

lemma write_attribute_reports: "reports (snd (write_attribute (on_off_cluster H C) v s)) = reports s"
proof -
  have "reports s' = reports s" if "map_of (co_attributes (on_off_cluster H C)) k = Some ob" "ao_set ob x s = (r, s')" for k ob x r s'
    using that by (auto simp: on_off_attributes on_off_puts reports_def split: if_splits dest!: attr_object_reports)
  then show ?thesis by (auto simp: write_attribute_def split: option.split prod.split sum.split)
qed

lemma write_attributes_reports: "reports (snd (write_attributes (on_off_cluster H C) vs s)) = reports s"
proof (induction vs arbitrary: s)
  case (Cons v vs)
  have "reports (snd (write_attribute (on_off_cluster H C) v s)) = reports s" by (rule write_attribute_reports)
  with Cons show ?case by (simp add: write_attributes_Cons split_beta Let_def)
qed simp

lemma undivided_reports:
  "write_attributes_undivided (on_off_cluster H C) vs s = Done (rs, s') \<Longrightarrow> reports s' = reports s"
  using on_off_laws.undivided_eq [of H C vs s] write_attributes_reports [of H C vs s] by (auto split: if_splits)

lemma set_reporting_sound:
  assumes "attr_set_reporting d mn mx ch a = Done (res, a')" and "at_report_config a = Some r" and "sound_intervals (ri_current r)"
  shows "\<exists>r'. at_report_config a' = Some r' \<and> sound_intervals (ri_current r')"
proof -
  have "sound_intervals (ri_current (snd (set_values mn mx v r)))" for v
    using set_values_sound [OF assms(3), of mn mx v] by (metis prod.collapse)
  with assms show ?thesis by (auto simp: attr_set_reporting_def case_prod_unfold split: sum.splits)
qed

lemma configure_attribute_ok:
  assumes "configure_attribute (on_off_cluster H C) v s = Done (st, s')" and "on_off_ok s"
  shows "on_off_ok s'"
proof -
  from assms(1) have "s' = s \<or> (\<exists>mn mx res a. attr_set_reporting onoff_def mn mx (rcr_change v) (oo_onoff s) = Done (res, a) \<and>
      s' = put_onoff a s)"
    by (auto simp: configure_attribute_def on_off_cluster_def reportable_attr_def attribute_object.extend_def run_simps
        split: if_splits option.splits)
  with assms(2) set_reporting_sound show ?thesis by (fastforce simp: on_off_ok_def put_onoff_def)
qed

lemma configure_reporting_ok:
  "configure_reporting (on_off_cluster H C) vs s = Done (rs, s') \<Longrightarrow> on_off_ok s \<Longrightarrow> on_off_ok s'"
proof (induction vs arbitrary: s rs)
  case (Cons v vs)
  then show ?case by (fastforce simp: run_simps dest: configure_attribute_ok)
qed simp

lemma on_off_step_ok: "on_off_step H C s s' \<Longrightarrow> on_off_ok s \<Longrightarrow> on_off_ok s'"
proof (induction rule: on_off_step.induct)
  case (command cmd s r s')
  then show ?case
    by (auto simp: on_off_custom_command_Done intro: on_off_ok_reports [OF on_off_command_reports(1)] split: sum.splits)
next
  case (update s)
  then show ?case by (auto simp: co_update_on_off intro: on_off_ok_reports [OF on_off_command_reports(2)])
next
  case (writes_one s vs)
  then show ?case by (blast intro: on_off_ok_reports [OF write_attributes_reports])
next
  case (undivided vs s rs s')
  then show ?case by (blast intro: on_off_ok_reports [OF undivided_reports])
qed (blast intro: configure_reporting_ok)

lemma on_off_reach_ok: "on_off_reach H C s s' \<Longrightarrow> on_off_ok s \<Longrightarrow> on_off_ok s'"
  by (induction rule: on_off_reach.induct) (auto intro: on_off_step_ok)

section \<open>The use of an application\<close>

lemma im_get_set [simp]: "im_get k (im_set k v m) = Some v"
  by (simp add: im_get_def map_of_im_set)

section \<open>Properties\<close>

text \<open>C32. What an on/off light keeps over a restart. From every state that a new cluster can get into, its values and the current
  intervals of its reports survive in the storage. The light itself is not told: after loading, the handler is as new, whatever
  the attribute says.\<close>
theorem on_off_survives_restart:
  assumes "on_off_reach H C (on_off_new h) s" and "length (on_off_bytes s) \<le> length buf"
  shows "co_write_with (on_off_cluster H C) s (buf, 0) =
      Inr (on_off_bytes s @ drop (length (on_off_bytes s)) buf, length (on_off_bytes s)) \<and>
    (\<exists>t. co_read_with (on_off_cluster G D) (on_off_bytes s @ rest, 0) (on_off_new g) = Done (Inr (length (on_off_bytes s)), t) \<and>
      is_on t = is_on s \<and> at_value (oo_global_scene_control t) = at_value (oo_global_scene_control s) \<and>
      on_time t = on_time s \<and> off_wait_time t = off_wait_time s \<and>
      map_option ri_current (at_report_config (oo_onoff t)) = map_option ri_current (at_report_config (oo_onoff s)) \<and>
      oo_handler t = g)"
proof -
  from on_off_reach_ok [OF assms(1) on_off_new_ok] have ok: "on_off_ok s" .
  then obtain r where r: "at_report_config (oo_onoff s) = Some r" "sound_intervals (fst (ri_current r), snd (ri_current r))"
    by (auto simp: on_off_ok_def)
  let ?t = "on_off_restored s (on_off_new g)"
  have "map_option ri_current (at_report_config (oo_onoff ?t)) = map_option ri_current (at_report_config (oo_onoff s))"
    using r set_values_current [OF r(2)]
    by (simp add: on_off_restored_def attr_restored_def on_off_defs bool_def_def)
  moreover have "oo_handler ?t = g" by (simp add: on_off_restored_def on_off_new_def)
  ultimately show ?thesis
    using on_off_write_room [OF ok assms(2), of H C] on_off_read_back [OF ok, of G D rest "on_off_new g"]
    by (simp add: on_off_restored_def attr_restored_def)
qed

lemma on_off_new_bytes: "on_off_bytes (on_off_new h) =
    [0x10, 0, 0, 0, 0xff, 0xff, 0x10, 0, 0x21, 0, 0, 0x21, 0, 0]"
  by (simp add: on_off_bytes_def attr_bytes_def on_off_new_def attr_default_def attr_new_def on_off_defs bool_def_def
      u16_def_def report_intervals_new_def zcl_bytes.simps [of "ZBool b" for b] zcl_bytes.simps [of "ZUInt16 w" for w] le_bytes_2)

theorem on_off_survives_restart_witness:
  "co_write_with (on_off_cluster relay on_off_codecs_std) (on_off_new False) (replicate 16 0, 0) =
     Inr ([0x10, 0, 0, 0, 0xff, 0xff, 0x10, 0, 0x21, 0, 0, 0x21, 0, 0, 0, 0], 14)"
proof -
  have "length (on_off_bytes (on_off_new False)) \<le> length (replicate 16 (0 :: u8))" by (simp add: on_off_new_bytes)
  from on_off_survives_restart [OF on_off_reach.start [of relay on_off_codecs_std] this, of relay on_off_codecs_std "[]" False,
      THEN conjunct1]
  show ?thesis by (simp add: on_off_new_bytes numeral_eq_Suc)
qed

lemma drop_past: "length a = n \<Longrightarrow> drop (n + m) (a @ drop n b) = drop (n + m) b"
  by (simp add: add.commute)

text \<open>C13. All applications of a node share one place in its storage. Whichever application a command was for, its
  bytes are written where the application with the lowest endpoint is loaded from, and the places of all the others keep what
  they had: after a restart the first application has the state of the one used last, and no other application has its own.\<close>
theorem applications_share_storage:
  assumes "im_get ep (zn_apps s) = Some (a, y)" and "get_cluster_by_id k a = Some c" and "cb c y = Done (t, y')"
    and "app_write a y' (replicate APPLICATION_STORAGE_SIZE 0) = Inr (buf, n)" and "length buf = APPLICATION_STORAGE_SIZE"
    and "\<And>region bs. length bs \<le> length region \<Longrightarrow> dr_persist (ne_driver N) region bs = (Inr (), bs @ drop (length bs) region)"
    and "\<And>region off. ld region off = (if off + APPLICATION_STORAGE_SIZE \<le> length region
      then Inr (take APPLICATION_STORAGE_SIZE (drop off region)) else Inl err)"
    and "APPLICATION_STORAGE_SIZE \<le> length (zn_storage s)"
  shows "\<exists>s'. use_application N ep k cb s = Done (Inr t, s') \<and> im_get ep (zn_apps s') = Some (a, y') \<and>
    ld (zn_storage s') 0 = Inr buf \<and>
    (\<forall>i>0. ld (zn_storage s') (APPLICATION_STORAGE_SIZE * i) = ld (zn_storage s) (APPLICATION_STORAGE_SIZE * i))"
proof -
  let ?region = "buf @ drop APPLICATION_STORAGE_SIZE (zn_storage s)"
  let ?s' = "s\<lparr> zn_apps := im_set ep (a, y') (zn_apps s), zn_storage := ?region \<rparr>"
  have "use_application N ep k cb s = Done (Inr t, ?s')"
    using assms(1-5,8) assms(6) [of buf "zn_storage s"]
    by (simp add: use_application_def act_bind_def act_gets_def act_run_def act_then_def put_app_def act_modify_def act_return_def
        persist_app_bytes_def)
  moreover have "ld (zn_storage ?s') 0 = Inr buf" using assms(5,8) by (simp add: assms(7))
  moreover have "ld (zn_storage ?s') (APPLICATION_STORAGE_SIZE * i) = ld (zn_storage s) (APPLICATION_STORAGE_SIZE * i)" if "0 < i" for i
  proof -
    from that obtain j where "i = Suc j" by (cases i) simp_all
    with assms(5,8) drop_past [of buf APPLICATION_STORAGE_SIZE "APPLICATION_STORAGE_SIZE * j" "zn_storage s"]
    show ?thesis by (simp add: assms(7))
  qed
  ultimately show ?thesis by (intro exI [of _ ?s']) simp
qed

text \<open>Two lights on one node; the second one is switched on.\<close>

definition light_app :: "bool on_off application_object" where
  "light_app = \<lparr> ap_device = HomeAutomation OnOffLight, ap_version = 0,
     ap_clusters = [on_off_cluster relay on_off_codecs_std], ap_ctx_update = (\<lambda>s. s) \<rparr>"

definition plain_driver :: "node_env \<Rightarrow> node_env" where
  "plain_driver N = N\<lparr> ne_driver := (ne_driver N)\<lparr> dr_persist := \<lambda>region bs. (Inr (), bs @ drop (length bs) region) \<rparr> \<rparr>"

definition two_lights :: "joined_node \<Rightarrow> bool on_off zcl_node" where
  "two_lights n = \<lparr> zn_node = n, zn_apps = [(1, (light_app, on_off_new False)), (2, (light_app, on_off_new False))],
     zn_storage = replicate 2048 0 \<rparr>"

definition region_load :: "bytes \<Rightarrow> nat \<Rightarrow> string + bytes" where
  "region_load region off = (if off + APPLICATION_STORAGE_SIZE \<le> length region
     then Inr (take APPLICATION_STORAGE_SIZE (drop off region)) else Inl ''OutOfBounds'')"

lemma light_app_write:
  assumes "on_off_ok s" and "length (on_off_bytes s) \<le> APPLICATION_STORAGE_SIZE"
  shows "\<exists>buf. app_write light_app s (replicate APPLICATION_STORAGE_SIZE 0) = Inr (buf, length (on_off_bytes s)) \<and>
    length buf = APPLICATION_STORAGE_SIZE"
  using on_off_write_room [OF assms(1), of "replicate APPLICATION_STORAGE_SIZE 0" relay on_off_codecs_std] assms(2)
  by (simp add: app_write_def light_app_def)

definition light_on :: "bool on_off" where
  "light_on = on_off_command relay CmdOn (on_off_new False)"

lemma light_on_ok: "on_off_ok light_on"
  unfolding light_on_def by (rule on_off_ok_reports [OF on_off_command_reports(1) on_off_new_ok])

lemma light_on_bytes: "on_off_bytes light_on = [0x10, 1, 0, 0, 0xff, 0xff, 0x10, 0, 0x21, 0, 0, 0x21, 0, 0]"
  by (simp add: light_on_def on_off_ops on_off_bytes_def attr_bytes_def on_off_new_def attr_default_def attr_new_def on_off_defs
      bool_def_def u16_def_def report_intervals_new_def zcl_bytes.simps [of "ZBool b" for b] zcl_bytes.simps [of "ZUInt16 w" for w]
      le_bytes_2)

lemma light_on_stored:
  "\<exists>buf. app_write light_app light_on (replicate APPLICATION_STORAGE_SIZE 0) = Inr (buf, 14) \<and> length buf = APPLICATION_STORAGE_SIZE"
proof -
  have "length (on_off_bytes light_on) = 14" by (simp add: light_on_bytes)
  with light_app_write [OF light_on_ok] show ?thesis by (simp add: APPLICATION_STORAGE_SIZE_def)
qed

lemma light_switched:
  "handle_cluster_command (SpecificCommand \<lparr> spc_identifier = 1, spc_data = [] \<rparr>) (on_off_cluster relay on_off_codecs_std)
     (on_off_new False) = Done (None, light_on)"
  by (simp add: handle_cluster_command_def on_off_cluster_def on_off_custom_command_def read_on_off_command_def light_on_def)

lemma two_lights_app: "im_get 2 (zn_apps (two_lights n)) = Some (light_app, on_off_new False)"
  by (simp add: two_lights_def im_get_def)

lemma light_cluster: "get_cluster_by_id 6 light_app = Some (on_off_cluster relay on_off_codecs_std)"
  by (simp add: get_cluster_by_id_def light_app_def on_off_cluster_def)

theorem applications_share_storage_witness:
  "\<exists>s' buf. use_application (plain_driver (node_env_std (\<lambda>_. NodeDescReq 0))) 2 6
      (handle_cluster_command (SpecificCommand \<lparr> spc_identifier = 1, spc_data = [] \<rparr>)) (two_lights node_std) = Done (Inr None, s') \<and>
    region_load (zn_storage s') 0 = Inr buf \<and>
    app_write light_app light_on (replicate APPLICATION_STORAGE_SIZE 0) = Inr (buf, 14) \<and>
    region_load (zn_storage s') 1024 = Inr (replicate 1024 0)"
proof -
  obtain buf where buf: "app_write light_app light_on (replicate APPLICATION_STORAGE_SIZE 0) = Inr (buf, 14)"
    "length buf = APPLICATION_STORAGE_SIZE" using light_on_stored by blast
  let ?N = "plain_driver (node_env_std (\<lambda>_. NodeDescReq 0))"
    and ?cb = "handle_cluster_command (SpecificCommand \<lparr> spc_identifier = 1, spc_data = [] \<rparr>)"
  have driver: "dr_persist (ne_driver ?N) region bs = (Inr (), bs @ drop (length bs) region)" for region bs
    by (simp add: plain_driver_def)
  have room: "APPLICATION_STORAGE_SIZE \<le> length (zn_storage (two_lights node_std))"
    by (simp add: two_lights_def APPLICATION_STORAGE_SIZE_def)
  have old: "region_load (zn_storage (two_lights node_std)) (APPLICATION_STORAGE_SIZE * 1) = Inr (replicate 1024 0)"
    by (simp add: two_lights_def region_load_def APPLICATION_STORAGE_SIZE_def)
  from applications_share_storage [where ld = region_load and err = "''OutOfBounds''" and N = ?N and cb = ?cb,
      OF two_lights_app light_cluster light_switched buf driver region_load_def room]
  obtain s' where new: "use_application ?N 2 6 ?cb (two_lights node_std) = Done (Inr None, s')"
    "region_load (zn_storage s') 0 = Inr buf"
    and rest: "\<forall>i>0. region_load (zn_storage s') (APPLICATION_STORAGE_SIZE * i) =
      region_load (zn_storage (two_lights node_std)) (APPLICATION_STORAGE_SIZE * i)" by blast
  from rest old have "region_load (zn_storage s') (APPLICATION_STORAGE_SIZE * 1) = Inr (replicate 1024 0)" by (metis zero_less_one)
  with buf(1) new show ?thesis by (auto simp: APPLICATION_STORAGE_SIZE_def)
qed

end
