(* ===== verification/Zcl_Answers.thy ===== *)
theory Zcl_Answers
  imports Zcl_Storage Nwk_Listen
begin

text \<open>
  What a node does with the commands of the cluster library that reach it: which of them are answered and how,
  that answers are not answered again, what frames survive on the air, and that the radius of
  every message stops the device that receives it.
\<close>

section \<open>Frames\<close>

definition header_law :: "zcl_codecs \<Rightarrow> zcl_header \<Rightarrow> bytes \<Rightarrow> bool" where
  "header_law C h e \<longleftrightarrow> codec_law (zc_write_header C) (zc_read_header C) h e"

text \<open>The derived reader of a specific command: a byte, and the rest of the bytes, as many as the list holds.\<close>

definition specific_law :: "zcl_codecs \<Rightarrow> bool" where
  "specific_law C \<longleftrightarrow> (\<exists>e. zc_read_specific C [] = Inl e) \<and>
     (\<forall>b data. length data \<le> MAX_APS_PAYLOAD_SIZE \<longrightarrow>
       zc_read_specific C (b # data) = Inr (\<lparr> spc_identifier = b, spc_data = data \<rparr>, Suc (length data)))"

lemma write_specific_frame:
  assumes "header_law C (zf_header f) eh" and "zf_command f = SpecificCommand x"
    and "length eh + length (spc_data x) \<le> n"
  shows "write_zcl_frame C f (replicate n 0) =
    Inr (eh @ spc_data x @ replicate (n - length eh - length (spc_data x)) 0, length eh + length (spc_data x))"
proof -
  from assms(1,3) have "write_with (zc_write_header C (zf_header f)) (replicate n 0, 0) =
      Inr (eh @ replicate (n - length eh) 0, length eh)"
    using codec_law_write [of "zc_write_header C" "zc_read_header C" "zf_header f" eh "[]" 0 n] by (simp add: header_law_def)
  with assms(2,3) show ?thesis by (simp add: write_zcl_frame_def write_slice_def)
qed

lemma read_header_at: "header_law C h eh \<Longrightarrow> read_with (zc_read_header C) (eh @ rest) 0 = Inr (h, length eh)"
  using codec_law_read [of "zc_write_header C" "zc_read_header C" h eh "[]" rest] by (simp add: header_law_def)

lemma read_specific_frame:
  assumes "header_law C h eh" and "specific_law C" and "zfc_frame_type (zh_frame_control h) = ZclSpecific"
    and "length data \<le> MAX_APS_PAYLOAD_SIZE"
  shows "read_zcl_frame C (eh @ b # data) = Done (Inr (\<lparr> zf_header = h,
    zf_command = SpecificCommand \<lparr> spc_identifier = b, spc_data = data \<rparr> \<rparr>, length eh + Suc (length data)))"
  using assms by (simp add: read_zcl_frame_def read_header_at specific_law_def)

section \<open>Properties\<close>

text \<open>C33. A specific command loses its identifier on the air: what is written is the header and the data, whatever
  the identifier. So a command without data, such as to switch a light on, cannot be read at all, and one with
  data is read under the first byte of it, as the answer to an identify query, the time left, is read as a
  command of its low byte. No specific command of the code is ever read back as what it was.\<close>
theorem zcl_frames_on_air:
  assumes "header_law C (zf_header f) eh" and "specific_law C"
    and "zfc_frame_type (zh_frame_control (zf_header f)) = ZclSpecific" and "zf_command f = SpecificCommand x"
    and "length (spc_data x) \<le> MAX_APS_PAYLOAD_SIZE"
  shows "(\<forall>i n. length eh + length (spc_data x) \<le> n \<longrightarrow>
      write_zcl_frame C (f\<lparr> zf_command := SpecificCommand (x\<lparr> spc_identifier := i \<rparr>) \<rparr>) (replicate n 0) =
        Inr (eh @ spc_data x @ replicate (n - length eh - length (spc_data x)) 0, length eh + length (spc_data x))) \<and>
    (case spc_data x of
       [] \<Rightarrow> \<exists>e. read_zcl_frame C (eh @ spc_data x) = Done (Inl e)
     | b # data \<Rightarrow> read_zcl_frame C (eh @ spc_data x) = Done (Inr (f\<lparr> zf_command :=
         SpecificCommand \<lparr> spc_identifier = b, spc_data = data \<rparr> \<rparr>, length eh + length (spc_data x)))) \<and>
    (\<forall>k. read_zcl_frame C (eh @ spc_data x) \<noteq> Done (Inr (f, k)))"
proof -
  have written: "write_zcl_frame C (f\<lparr> zf_command := SpecificCommand (x\<lparr> spc_identifier := i \<rparr>) \<rparr>) (replicate n 0) =
      Inr (eh @ spc_data x @ replicate (n - length eh - length (spc_data x)) 0, length eh + length (spc_data x))"
    if "length eh + length (spc_data x) \<le> n" for i n
    using write_specific_frame [of C "f\<lparr> zf_command := SpecificCommand (x\<lparr> spc_identifier := i \<rparr>) \<rparr>" eh
        "x\<lparr> spc_identifier := i \<rparr>" n] assms(1) that by simp
  show ?thesis
  proof (cases "spc_data x")
    case Nil
    have "\<exists>e. read_zcl_frame C (eh @ []) = Done (Inl e)"
      using assms(2,3) read_header_at [OF assms(1), of "[]"] by (auto simp: read_zcl_frame_def specific_law_def)
    with written Nil show ?thesis by auto
  next
    case (Cons b data)
    have read: "read_zcl_frame C (eh @ b # data) = Done (Inr (\<lparr> zf_header = zf_header f,
        zf_command = SpecificCommand \<lparr> spc_identifier = b, spc_data = data \<rparr> \<rparr>, length eh + Suc (length data)))"
      using assms(5) Cons by (intro read_specific_frame [OF assms(1-3)]) simp
    have "\<lparr> zf_header = zf_header f, zf_command = SpecificCommand \<lparr> spc_identifier = b, spc_data = data \<rparr> \<rparr> \<noteq> f"
    proof
      assume "\<lparr> zf_header = zf_header f, zf_command = SpecificCommand \<lparr> spc_identifier = b, spc_data = data \<rparr> \<rparr> = f"
      then have "zf_command f = SpecificCommand \<lparr> spc_identifier = b, spc_data = data \<rparr>" by (metis zcl_frame.select_convs(2))
      with assms(4) have "x = \<lparr> spc_identifier = b, spc_data = data \<rparr>" by simp
      then have "spc_data x = data" by simp
      with Cons show False by simp
    qed
    then have ne: "f\<lparr> zf_command := SpecificCommand \<lparr> spc_identifier = b, spc_data = data \<rparr> \<rparr> \<noteq> f" by (cases f) simp
    have "\<lparr> zf_header = zf_header f, zf_command = c \<rparr> = f\<lparr> zf_command := c \<rparr>" for c by (cases f) simp
    with read have "read_zcl_frame C (eh @ b # data) = Done (Inr (f\<lparr> zf_command :=
        SpecificCommand \<lparr> spc_identifier = b, spc_data = data \<rparr> \<rparr>, length eh + Suc (length data)))" by simp
    with ne show ?thesis using written Cons by simp
  qed
qed

text \<open>Codecs that write and read one fixed header and one fixed global command.\<close>

definition zcl_codecs_std :: "zcl_header \<Rightarrow> global_command \<Rightarrow> zcl_codecs" where
  "zcl_codecs_std h g = \<lparr> zc_write_header = (\<lambda>_. write_slice [0x18]), zc_read_header = (\<lambda>_. Inr (h, 1)),
     zc_write_global = (\<lambda>_. write_slice [0x0b]), zc_read_global = (\<lambda>_. Done (Inr (g, 1))),
     zc_read_specific = (\<lambda>bs. case bs of [] \<Rightarrow> Inl Incomplete
       | b # r \<Rightarrow> Inr (\<lparr> spc_identifier = b, spc_data = r \<rparr>, Suc (length r))) \<rparr>"

definition zcl_header_std :: "zcl_frame_type \<Rightarrow> zcl_header" where
  "zcl_header_std t = \<lparr> zh_frame_control = \<lparr> zfc_frame_type = t, zfc_manufacturer_specific = False, zfc_direction = ClientToServer,
     zfc_disable_default_response = False \<rparr>, zh_manufacturer_code = None, zh_sequence_number = 7 \<rparr>"

lemma zcl_codecs_std_laws:
  "header_law (zcl_codecs_std h g) h [0x18]" "specific_law (zcl_codecs_std h g)"
  by (auto simp: header_law_def specific_law_def zcl_codecs_std_def codec_law_def write_slice_def)

text \<open>A codec of the headers without a manufacturer: the bits of the frame control field and the sequence
  number.\<close>

definition wire_control :: "zcl_frame_control \<Rightarrow> u8" where
  "wire_control c = (if zfc_frame_type c = ZclSpecific then 1 else 0) + (if zfc_direction c = ServerToClient then 8 else 0) +
     (if zfc_disable_default_response c then 16 else 0)"

definition zcl_codecs_wire :: zcl_codecs where
  "zcl_codecs_wire = (zcl_codecs_std (zcl_header_std ZclGlobal) (DefaultResponse 7 ZsSuccess))\<lparr>
     zc_write_header := (\<lambda>h. write_slice [wire_control (zh_frame_control h), zh_sequence_number h]),
     zc_read_header := (\<lambda>bs. case bs of
         c # q # _ \<Rightarrow> Inr (\<lparr> zh_frame_control = \<lparr> zfc_frame_type = (if bit c 0 then ZclSpecific else ZclGlobal),
             zfc_manufacturer_specific = False, zfc_direction = (if bit c 3 then ServerToClient else ClientToServer),
             zfc_disable_default_response = bit c 4 \<rparr>, zh_manufacturer_code = None, zh_sequence_number = q \<rparr>, 2)
       | _ \<Rightarrow> Inl Incomplete) \<rparr>"

lemma zcl_codecs_wire_laws:
  "\<not> zfc_manufacturer_specific (zh_frame_control h) \<Longrightarrow> zh_manufacturer_code h = None \<Longrightarrow>
     header_law zcl_codecs_wire h [wire_control (zh_frame_control h), zh_sequence_number h]"
  "specific_law zcl_codecs_wire"
proof -
  show "header_law zcl_codecs_wire h [wire_control (zh_frame_control h), zh_sequence_number h]"
    if plain: "\<not> zfc_manufacturer_specific (zh_frame_control h)" "zh_manufacturer_code h = None"
  proof -
    obtain fc q where "h = \<lparr> zh_frame_control = fc, zh_manufacturer_code = None, zh_sequence_number = q \<rparr>"
      using plain(2) by (cases h) simp
    moreover from this plain(1) obtain t d r where "fc = \<lparr> zfc_frame_type = t, zfc_manufacturer_specific = False,
        zfc_direction = d, zfc_disable_default_response = r \<rparr>" by (cases fc) simp
    ultimately obtain t d r q where h: "h = \<lparr> zh_frame_control = \<lparr> zfc_frame_type = t, zfc_manufacturer_specific = False,
        zfc_direction = d, zfc_disable_default_response = r \<rparr>, zh_manufacturer_code = None, zh_sequence_number = q \<rparr>"
      by blast
    have "bit (wire_control (zh_frame_control h)) 0 = (t = ZclSpecific)"
      "bit (wire_control (zh_frame_control h)) 3 = (d = ServerToClient)" "bit (wire_control (zh_frame_control h)) 4 = r"
      by (cases t; cases d; cases r; simp add: h wire_control_def)+
    then show ?thesis
      by (cases t; cases d)
        (auto simp: header_law_def codec_law_def zcl_codecs_wire_def write_slice_def h)
  qed
  show "specific_law zcl_codecs_wire" using zcl_codecs_std_laws(2) by (simp add: zcl_codecs_wire_def specific_law_def zcl_codecs_std_def)
qed

theorem zcl_frames_on_air_witness:
  "write_zcl_frame zcl_codecs_wire \<lparr> zf_header = zcl_header_std ZclSpecific,
       zf_command = SpecificCommand \<lparr> spc_identifier = 0, spc_data = [10, 0] \<rparr> \<rparr> (replicate 5 0) = Inr ([1, 7, 10, 0, 0], 4) \<and>
   read_zcl_frame zcl_codecs_wire [1, 7, 10, 0] = Done (Inr (\<lparr> zf_header = zcl_header_std ZclSpecific,
       zf_command = SpecificCommand \<lparr> spc_identifier = 10, spc_data = [0] \<rparr> \<rparr>, 4)) \<and>
   (\<exists>e. read_zcl_frame zcl_codecs_wire [1, 7] = Done (Inl e))"
proof -
  let ?f = "\<lambda>i d. \<lparr> zf_header = zcl_header_std ZclSpecific, zf_command = SpecificCommand \<lparr> spc_identifier = i, spc_data = d \<rparr> \<rparr>"
  have control: "wire_control (zh_frame_control (zcl_header_std ZclSpecific)) = 1" "zh_sequence_number (zcl_header_std ZclSpecific) = 7"
    by (simp_all add: wire_control_def zcl_header_std_def)
  have law: "header_law zcl_codecs_wire (zf_header (?f i d)) [1, 7]" for i d
    using zcl_codecs_wire_laws(1) [of "zcl_header_std ZclSpecific"] by (simp add: control) (simp add: zcl_header_std_def)
  have type: "zfc_frame_type (zh_frame_control (zf_header (?f i d))) = ZclSpecific" for i d by (simp add: zcl_header_std_def)
  note air = zcl_frames_on_air [OF law zcl_codecs_wire_laws(2) type]
  from air [of 0 "[10, 0]" "\<lparr> spc_identifier = 0, spc_data = [10, 0] \<rparr>"]
  have "\<forall>i n. 4 \<le> n \<longrightarrow> write_zcl_frame zcl_codecs_wire (?f i [10, 0]) (replicate n 0) = Inr ([1, 7, 10, 0] @ replicate (n - 4) 0, 4)"
    and read: "read_zcl_frame zcl_codecs_wire [1, 7, 10, 0] = Done (Inr (?f 10 [0], 4))"
    by (simp_all add: MAX_APS_PAYLOAD_SIZE_def A_MAX_MAC_PAYLOAD_SIZE_def numeral_eq_Suc)
  from this(1) [rule_format, of 5 0] have "write_zcl_frame zcl_codecs_wire (?f 0 [10, 0]) (replicate 5 0) = Inr ([1, 7, 10, 0, 0], 4)"
    by simp
  moreover note read
  moreover from air [of 1 "[]" "\<lparr> spc_identifier = 1, spc_data = [] \<rparr>"]
  have "\<exists>e. read_zcl_frame zcl_codecs_wire [1, 7] = Done (Inl e)" by simp
  ultimately show ?thesis by blast
qed

section \<open>Answers\<close>

definition expects_answer :: "zcl_frame \<Rightarrow> aps_data_indication \<Rightarrow> bool" where
  "expects_answer f ind \<longleftrightarrow> aps_is_unicast (adi_dst ind) \<and> (\<forall>i st. zf_command f \<noteq> GlobalCommand (DefaultResponse i st)) \<and>
     \<not> zfc_disable_default_response (zh_frame_control (zf_header f))"

lemma answer_of_eq: "answer_of f ind r = (case r of Some x \<Rightarrow> Some x | None \<Rightarrow>
    if expects_answer f ind then Some (GlobalCommand (DefaultResponse (zh_sequence_number (zf_header f)) ZsSuccess)) else None)"
  by (auto simp: answer_of_def expects_answer_def generate_default_response_def
      split: option.split zcl_command.split global_command.split)

text \<open>The request that carries an answer to the frame \<open>f\<close>.\<close>

definition answer_frame :: "zcl_frame \<Rightarrow> zcl_command \<Rightarrow> zcl_frame" where
  "answer_frame f cmd = \<lparr> zf_header = \<lparr>
     zh_frame_control = \<lparr> zfc_frame_type = (case cmd of GlobalCommand _ \<Rightarrow> ZclGlobal | SpecificCommand _ \<Rightarrow> ZclSpecific),
       zfc_manufacturer_specific = zfc_manufacturer_specific (zh_frame_control (zf_header f)),
       zfc_direction = opposite (zfc_direction (zh_frame_control (zf_header f))), zfc_disable_default_response = True \<rparr>,
     zh_manufacturer_code = zh_manufacturer_code (zf_header f), zh_sequence_number = zh_sequence_number (zf_header f) \<rparr>,
     zf_command = cmd \<rparr>"

lemma emitted_answer: "emitted_frame cmd (answer_config f) n = answer_frame f cmd"
  by (simp add: emitted_frame_def answer_config_def answer_frame_def)

lemma handle_zcl_used:
  assumes "read_zcl_frame C (adi_asdu ind) = Done (Inr (f, n))"
    and "use_application N ep (adi_cluster_id ind) (handle_cluster_command (zf_command f)) s = Done (u, s1)"
  shows "handle_zcl_command N C ep ind s = (case u of
      Inl _ \<Rightarrow> Some (Done (Inl (ApsNotSupported ''application and cluster not found''), s1))
    | Inr r \<Rightarrow> (case answer_of f ind r of
        None \<Rightarrow> Some (Done (Inr None, s1))
      | Some cmd \<Rightarrow> in_node (emit_zcl_command_frame N C cmd (answer_config f) (answer_request ep ind)) s1))"
  using assms by (simp add: handle_zcl_command_def act_run_def act_return_def lp_of_def split: sum.split option.split)

lemma emit_eq: "emit_zcl_command_frame N C cmd (answer_config f) rc s =
    map_option (run_map (\<lambda>(r, a). (to_optional r, s\<lparr> nd_aps := a \<rparr>)))
      (aps_data_request (ne_iter N) (ne_env N) (ne_radio N) (ne_aps N) (nd_mode s) (zcl_request C (answer_frame f cmd) rc) (nd_aps s))"
proof -
  let ?m = "aps_data_request (ne_iter N) (ne_env N) (ne_radio N) (ne_aps N) (nd_mode s) (zcl_request C (answer_frame f cmd) rc)"
  show ?thesis
  proof (cases "?m (nd_aps s)")
    case (Some r)
    then show ?thesis by (cases r) (auto simp: emit_zcl_command_frame_def emitted_answer lp_bind_def aps_in_node_def
        lp_within_def lp_of_def act_return_def)
  qed (simp add: emit_zcl_command_frame_def emitted_answer lp_bind_def aps_in_node_def lp_within_def)
qed

lemma use_application_missing:
  assumes "\<forall>a x. im_get ep (zn_apps s) = Some (a, x) \<longrightarrow> get_cluster_by_id k a = None"
  shows "\<exists>e. use_application N ep k cb s = Done (Inl e, s)"
  using assms by (cases "im_get ep (zn_apps s)") (auto simp: use_application_def act_bind_def act_gets_def act_return_def)

lemma use_application_found:
  assumes "im_get ep (zn_apps s) = Some (a, x)" and "get_cluster_by_id k a = Some c"
  shows "use_application N ep k cb s = (case cb c x of
      Panic \<Rightarrow> Panic
    | Done (t, x') \<Rightarrow> let s1 = s\<lparr> zn_apps := im_set ep (a, x') (zn_apps s) \<rparr> in
        (case app_write a x' (replicate APPLICATION_STORAGE_SIZE 0) of
           Inl e \<Rightarrow> Done (Inl (AppByteError e), s1)
         | Inr (buf, _) \<Rightarrow> (case dr_persist (ne_driver N) (zn_storage s) buf of
             (p, region) \<Rightarrow> Done (case p of Inl e \<Rightarrow> Inl (AppStorage e) | Inr _ \<Rightarrow> Inr t, s1\<lparr> zn_storage := region \<rparr>))))"
  using assms
  by (cases "cb c x") (auto simp: use_application_def act_bind_def act_gets_def act_run_def act_then_def put_app_def
      act_modify_def act_return_def persist_app_bytes_def Let_def split: sum.split prod.split)

lemma handle_zcl_panics:
  assumes "read_zcl_frame C (adi_asdu ind) = Done (Inr (f, n))"
    and "use_application N ep (adi_cluster_id ind) (handle_cluster_command (zf_command f)) s = Panic"
  shows "handle_zcl_command N C ep ind s = Some Panic"
  using assms by (simp add: handle_zcl_command_def act_run_def lp_of_def lp_bind_def)

lemma opposite_if: "opposite d = (if d = ClientToServer then ServerToClient else ClientToServer)"
  by (cases d) simp_all

lemma emitted_request: "in_node (emit_zcl_command_frame N C cmd (answer_config f) (answer_request ep ind)) s1 =
    map_option (run_map (\<lambda>(r, a). (map_sum id Some r, s1\<lparr> zn_node := (zn_node s1)\<lparr> nd_aps := a \<rparr> \<rparr>)))
          (aps_data_request (ne_iter N) (ne_env N) (ne_radio N) (ne_aps N) (nd_mode (zn_node s1))
            \<lparr> rq_dst_address = adi_src ind, rq_profile_id = adi_profile_id ind, rq_cluster_id = adi_cluster_id ind,
              rq_src_endpoint = ep, rq_asdu = write_zcl_frame C (answer_frame f cmd),
              rq_tx_options = tx_options_default, rq_alias = None, rq_radius = Some 0 \<rparr> (nd_aps (zn_node s1)))"
proof -
  have comp: "map_option (run_map g) (map_option (run_map h) m) = map_option (run_map (g \<circ> h)) m" for g h m
    by (cases m; cases "the m") simp_all
  show ?thesis
    by (simp add: in_node_def lp_within_def emit_eq comp zcl_request_def answer_request_def comp_def case_prod_unfold
        to_optional_def)
qed

text \<open>C10. What is answered to a command of the cluster library, and how. Without the application, or without the
  cluster in it, the command is an error and nothing changes. Otherwise the cluster handles it, and its state is
  entered and stored; when storing fails the command is the same error, with the change made and no answer. The
  answer is that of the cluster; when the cluster has none, a default response for a unicast command that neither is
  one nor forbids it, and nothing for any other. It goes to the source of the command from its endpoint and under its
  cluster and profile, with its sequence number and manufacturer code, in the other direction, forbids a default
  response and has radius zero. The default response claims success whatever the command was, and names the sequence
  number where the identifier of the command belongs.\<close>
theorem zcl_command_answers:
  assumes "read_zcl_frame C (adi_asdu ind) = Done (Inr (f, n))"
  shows "((\<forall>a x. im_get ep (zn_apps s) = Some (a, x) \<longrightarrow> get_cluster_by_id (adi_cluster_id ind) a = None) \<longrightarrow>
      handle_zcl_command N C ep ind s = Some (Done (Inl (ApsNotSupported ''application and cluster not found''), s))) \<and>
    (\<forall>a x c. im_get ep (zn_apps s) = Some (a, x) \<and> get_cluster_by_id (adi_cluster_id ind) a = Some c \<longrightarrow>
      (case (case zf_command f of GlobalCommand g \<Rightarrow> handle_global_command g c x | SpecificCommand y \<Rightarrow> co_custom_command c y x) of
         Panic \<Rightarrow> handle_zcl_command N C ep ind s = Some Panic
       | Done (r, x') \<Rightarrow>
           (\<forall>e. app_write a x' (replicate 1024 0) = Inl e \<longrightarrow> handle_zcl_command N C ep ind s =
              Some (Done (Inl (ApsNotSupported ''application and cluster not found''),
                s\<lparr> zn_apps := im_set ep (a, x') (zn_apps s) \<rparr>))) \<and>
           (\<forall>buf len p region. app_write a x' (replicate 1024 0) = Inr (buf, len) \<and>
              dr_persist (ne_driver N) (zn_storage s) buf = (p, region) \<longrightarrow>
              (let s1 = s\<lparr> zn_apps := im_set ep (a, x') (zn_apps s), zn_storage := region \<rparr>; h = zf_header f;
                 cmd = (case r of Some y \<Rightarrow> y | None \<Rightarrow> GlobalCommand (DefaultResponse (zh_sequence_number h) ZsSuccess))
               in handle_zcl_command N C ep ind s =
                (if p \<noteq> Inr () then Some (Done (Inl (ApsNotSupported ''application and cluster not found''), s1))
                 else if r = None \<and> (\<not> aps_is_unicast (adi_dst ind) \<or> zfc_disable_default_response (zh_frame_control h) \<or>
                   (\<exists>i st. zf_command f = GlobalCommand (DefaultResponse i st)))
                 then Some (Done (Inr None, s1))
                 else map_option (run_map (\<lambda>(r, a). (map_sum id Some r, s1\<lparr> zn_node := (zn_node s1)\<lparr> nd_aps := a \<rparr> \<rparr>)))
                   (aps_data_request (ne_iter N) (ne_env N) (ne_radio N) (ne_aps N) (nd_mode (zn_node s1))
                     \<lparr> rq_dst_address = adi_src ind, rq_profile_id = adi_profile_id ind, rq_cluster_id = adi_cluster_id ind,
                       rq_src_endpoint = ep, rq_asdu = write_zcl_frame C
                         \<lparr> zf_header = \<lparr>
                             zh_frame_control = \<lparr>
                               zfc_frame_type = (case cmd of GlobalCommand _ \<Rightarrow> ZclGlobal | SpecificCommand _ \<Rightarrow> ZclSpecific),
                               zfc_manufacturer_specific = zfc_manufacturer_specific (zh_frame_control h),
                               zfc_direction = (if zfc_direction (zh_frame_control h) = ClientToServer
                                 then ServerToClient else ClientToServer),
                               zfc_disable_default_response = True \<rparr>,
                             zh_manufacturer_code = zh_manufacturer_code h, zh_sequence_number = zh_sequence_number h \<rparr>,
                           zf_command = cmd \<rparr>,
                       rq_tx_options = tx_options_default, rq_alias = None, rq_radius = Some 0 \<rparr> (nd_aps (zn_node s1))))))))"
proof (intro conjI allI impI, goal_cases)
  case 1
  from use_application_missing [OF 1] obtain e where
    "use_application N ep (adi_cluster_id ind) (handle_cluster_command (zf_command f)) s = Done (Inl e, s)" by blast
  from handle_zcl_used [OF assms this] show ?case by simp
next
  case (2 a x c)
  then have app: "im_get ep (zn_apps s) = Some (a, x)" "get_cluster_by_id (adi_cluster_id ind) a = Some c" by simp_all
  note used = use_application_found [OF app, of N "handle_cluster_command (zf_command f)"]
  have run: "(case zf_command f of GlobalCommand g \<Rightarrow> handle_global_command g c x | SpecificCommand y \<Rightarrow> co_custom_command c y x) =
      handle_cluster_command (zf_command f) c x" by (simp add: handle_cluster_command_def)
  show ?case
  proof (cases "handle_cluster_command (zf_command f) c x")
    case Panic
    with handle_zcl_panics [OF assms] used show ?thesis by (simp add: run)
  next
    case (Done q)
    obtain r x' where q: "q = (r, x')" by fastforce
    let ?s = "s\<lparr> zn_apps := im_set ep (a, x') (zn_apps s) \<rparr>"
    have short: "handle_zcl_command N C ep ind s =
        Some (Done (Inl (ApsNotSupported ''application and cluster not found''), ?s))"
      if "app_write a x' (replicate 1024 0) = Inl e" for e
      using handle_zcl_used [OF assms, of N ep s "Inl (AppByteError e)" ?s] used Done q that
      by (simp add: APPLICATION_STORAGE_SIZE_def)
    have stored: "handle_zcl_command N C ep ind s = (case p of
        Inl e \<Rightarrow> Some (Done (Inl (ApsNotSupported ''application and cluster not found''), ?s\<lparr> zn_storage := region \<rparr>))
      | Inr _ \<Rightarrow> (case answer_of f ind r of
          None \<Rightarrow> Some (Done (Inr None, ?s\<lparr> zn_storage := region \<rparr>))
        | Some cmd \<Rightarrow> in_node (emit_zcl_command_frame N C cmd (answer_config f) (answer_request ep ind)) (?s\<lparr> zn_storage := region \<rparr>)))"
      if "app_write a x' (replicate 1024 0) = Inr (buf, len)" "dr_persist (ne_driver N) (zn_storage s) buf = (p, region)"
      for buf len p region
      using handle_zcl_used [OF assms, of N ep s "case p of Inl e \<Rightarrow> Inl (AppStorage e) | Inr _ \<Rightarrow> Inr r" "?s\<lparr> zn_storage := region \<rparr>"]
        used Done q that
      by (cases p) (simp_all add: APPLICATION_STORAGE_SIZE_def)
    show ?thesis
      unfolding run Done q
      by (auto simp: Let_def stored short answer_of_eq expects_answer_def emitted_request answer_frame_def opposite_if
          split: sum.split option.split)
  qed
qed

definition zcl_ind_std :: "aps_data_indication" where
  "zcl_ind_std = \<lparr> adi_dst = ApsNetwork 0x1001 2, adi_src = ApsdeNone, adi_profile_id = 0x0104, adi_cluster_id = 6,
     adi_asdu = [0x18, 1], adi_security_status = ApsUnsecured, adi_link_quality = 200 \<rparr>"

lemma not_bound_request:
  "rq_dst_address rq = ApsdeNone \<Longrightarrow> iter (as_binding_table a) = [] \<Longrightarrow>
     aps_data_request iter E R A mode rq a = Some (Done (Inl ApsNoBoundDevice, a))"
  by (simp add: aps_data_request_def lp_bind_def lp_of_def act_gets_def act_return_def)

theorem zcl_command_answers_witness:
  "\<exists>s'. handle_zcl_command (plain_driver (node_env_std (\<lambda>_. NodeDescReq 0)))
      (zcl_codecs_std (zcl_header_std ZclSpecific) (DefaultResponse 0 ZsSuccess)) 2 zcl_ind_std (two_lights node_std) =
      Some (Done (Inl ApsNoBoundDevice, s')) \<and>
    im_get 2 (zn_apps s') = Some (light_app, light_on)"
proof -
  let ?N = "plain_driver (node_env_std (\<lambda>_. NodeDescReq 0))" and ?g = "DefaultResponse 0 ZsSuccess"
  let ?C = "zcl_codecs_std (zcl_header_std ZclSpecific) ?g"
  let ?cmd = "SpecificCommand \<lparr> spc_identifier = 1, spc_data = [] \<rparr>"
  let ?f = "\<lparr> zf_header = zcl_header_std ZclSpecific, zf_command = ?cmd \<rparr>"
  have read: "read_zcl_frame ?C (adi_asdu zcl_ind_std) = Done (Inr (?f, 2))"
    using read_specific_frame [OF zcl_codecs_std_laws, of "zcl_header_std ZclSpecific" "[]" ?g 1]
    by (simp add: zcl_ind_std_def zcl_header_std_def numeral_eq_Suc)
  obtain buf where buf: "app_write light_app light_on (replicate APPLICATION_STORAGE_SIZE 0) = Inr (buf, 14)"
    using light_on_stored by blast
  let ?s = "(two_lights node_std)\<lparr> zn_apps := im_set 2 (light_app, light_on) (zn_apps (two_lights node_std)),
      zn_storage := buf @ drop (length buf) (zn_storage (two_lights node_std)) \<rparr>"
  have run: "handle_cluster_command ?cmd (on_off_cluster relay on_off_codecs_std) (on_off_new False) = Done (None, light_on)"
    by (rule light_switched)
  have app: "im_get 2 (zn_apps (two_lights node_std)) = Some (light_app, on_off_new False) \<and>
      get_cluster_by_id (adi_cluster_id zcl_ind_std) light_app = Some (on_off_cluster relay on_off_codecs_std)"
    using two_lights_app light_cluster by (simp add: zcl_ind_std_def)
  have stored: "app_write light_app light_on (replicate 1024 0) = Inr (buf, 14) \<and>
      dr_persist (ne_driver ?N) (zn_storage (two_lights node_std)) buf =
        (Inr (), buf @ drop (length buf) (zn_storage (two_lights node_std)))"
    using buf by (simp add: APPLICATION_STORAGE_SIZE_def plain_driver_def)
  have unicast: "aps_is_unicast (adi_dst zcl_ind_std)" "\<not> zfc_disable_default_response (zh_frame_control (zcl_header_std ZclSpecific))"
    by (simp_all add: zcl_ind_std_def aps_is_unicast_def aps_is_broadcast_def is_broadcast_def zcl_header_std_def)
  have "ne_iter ?N b = []" for b by (simp add: plain_driver_def node_env_std_def)
  note unbound = not_bound_request [of _ "ne_iter ?N", OF _ this]
  have src: "adi_src zcl_ind_std = ApsdeNone" by (simp add: zcl_ind_std_def)
  have switched: "co_custom_command (on_off_cluster relay on_off_codecs_std) \<lparr> spc_identifier = 1, spc_data = [] \<rparr>
      (on_off_new False) = Done (None, light_on)" using run by (simp add: handle_cluster_command_def)
  from zcl_command_answers [OF read, of 2 "two_lights node_std" ?N, THEN conjunct2, rule_format, OF app] stored
  show ?thesis by (simp add: switched unicast unbound src Let_def)
qed

text \<open>Answers are not answered: whatever answers a global command, from its cluster or as a default response, is a global
  command that no cluster answers or is changed by, in a frame that gets no default response.\<close>
theorem answers_end:
  assumes "zf_command f = GlobalCommand q" and "handle_cluster_command (zf_command f) c x = Done (r, x')"
    and "answer_of f ind r = Some cmd"
  shows "\<exists>g. cmd = GlobalCommand g \<and> (\<forall>d y. handle_global_command g d y = Done (None, y)) \<and>
    (\<forall>ind'. answer_of (answer_frame f cmd) ind' None = None)"
proof -
  have "answer_of (answer_frame f cmd) ind' None = None" for ind'
    by (simp add: answer_of_eq expects_answer_def answer_frame_def)
  moreover have "\<exists>g. cmd = GlobalCommand g \<and> (\<forall>d y. handle_global_command g d y = Done (None, y))"
    using assms
    by (cases q) (auto simp: handle_cluster_command_def handle_global_command_def answer_of_eq run_simps
      split: option.splits if_splits prod.splits)
  ultimately show ?thesis by blast
qed

theorem answers_end_witness:
  "\<exists>g. answer_of \<lparr> zf_header = zcl_header_std ZclGlobal, zf_command = GlobalCommand (DiscoverAttributes 0 0) \<rparr> zcl_ind_std
      (Some (GlobalCommand (DiscoverAttributesResponse True []))) = Some (GlobalCommand g) \<and>
    handle_global_command g (on_off_cluster relay on_off_codecs_std) light_on = Done (None, light_on)"
proof -
  let ?f = "\<lparr> zf_header = zcl_header_std ZclGlobal, zf_command = GlobalCommand (DiscoverAttributes 0 0) \<rparr>"
  let ?r = "Some (GlobalCommand (DiscoverAttributesResponse True []))"
  have "handle_cluster_command (zf_command ?f) (on_off_cluster relay on_off_codecs_std) light_on = Done (?r, light_on)"
    by (simp add: handle_cluster_command_def handle_global_command_def discover_attributes_def)
  moreover have "answer_of ?f zcl_ind_std ?r = ?r" by (simp add: answer_of_def)
  ultimately show ?thesis using answers_end [of ?f "DiscoverAttributes 0 0" "on_off_cluster relay on_off_codecs_std" light_on ?r light_on]
    by fastforce
qed

section \<open>The radius of messages\<close>

definition zero_radius :: "radio_event \<Rightarrow> bool" where
  "zero_radius e \<longleftrightarrow> (case e of TxData _ (Data d) _ _ \<Rightarrow> nh_radius (df_header d) = 0 | _ \<Rightarrow> True)"

definition zero_radius_log :: "radio_event list \<Rightarrow> nwk \<Rightarrow> bool" where
  "zero_radius_log L s \<longleftrightarrow> (\<exists>new. nk_sent s = L @ new \<and> (\<forall>e\<in>set new. zero_radius e))"

lemma build_data_frame_radius:
  assumes "build_data_frame nsdu c s = Done (d, s')" and "dc_radius c = Some r"
  shows "nh_radius (df_header d) = r \<and> nk_sent s' = nk_sent s"
  using assms
  by (auto simp: build_data_frame_def nwk_header_new_def nwk_header_new_no_ctx_def act_bind_Done act_return_def get_addr_def act_gets_def
      act_run_def get_next_seq_number_def run_simps split: option.splits prod.splits)

lemma zero_radius_sends:
  assumes "dc_radius c = Some 0"
  shows "keeps (zero_radius_log L) (transmit_data_frame E JoinedAsEndDevice nsdu c)"
proof (rule keepsI)
  fix s x s' assume I: "zero_radius_log L s" and "transmit_data_frame E JoinedAsEndDevice nsdu c s = Done (x, s')"
  then obtain d s1 addr where d: "build_data_frame nsdu c s = Done (d, s1)"
    and tx: "transmit_frame E (Data d) addr True s1 = Done (x, s')"
    by (auto simp: transmit_data_frame_def transmit_data_frame_end_device_def act_bind_Done act_gets_def)
  from build_data_frame_radius [OF d assms] have "nh_radius (df_header d) = 0" "nk_sent s1 = nk_sent s" by simp_all
  with link.log_send [OF tx] I show "zero_radius_log L s'"
    by (auto simp: zero_radius_log_def zero_radius_def)
qed

lemma zero_radius_nwk: "keeps (zero_radius_log L) m \<Longrightarrow> keeps (\<lambda>a. zero_radius_log L (as_nwk a)) (with_nwk m)"
  unfolding with_nwk_within by (rule nwk_part.keeps_part)

lemma zero_radius_request:
  assumes "rq_radius rq = Some 0" and "rq_tx_options rq = tx_options_default"
  shows "lp_keeps (\<lambda>a. zero_radius_log L (as_nwk a)) (aps_data_request iter E R A JoinedAsEndDevice rq)"
proof -
  note rules = keeps_rules zero_radius_nwk zero_radius_sends
  let ?I = "\<lambda>a. zero_radius_log L (as_nwk a)"
  have bytes: "keeps ?I (aps_frame_bytes E A f n opts)" for f n opts
    unfolding aps_frame_bytes_def Let_def
    by (intro rules) (auto simp: aps_encrypt_def keeps_def run_simps)
  have transfer: "keeps ?I (aps_transfer E A JoinedAsEndDevice f n al (Some 0) opts k)" for f n al opts k
    unfolding aps_transfer_def Let_def by (intro rules bytes) (simp add: aps_frame_config_def)
  have counter: "keeps ?I get_aps_counter" by (simp add: get_aps_counter_def keeps_def)
  have plain: "keeps ?I (send_plain E R A JoinedAsEndDevice rq dst)" for dst
    unfolding send_plain_def transfer_single_def aps_send_data_def assms
    by (intro rules counter transfer) (simp_all add: tx_options_default_def)
  have bound: "keeps ?I (bound_destinations bs)" for bs
  proof (induction bs)
    case (Cons b bs)
    then show ?case
      by (cases "bd_dst_address b"; simp only: bound_destinations.simps get_short_address_def binding_address.case
          apsde_address.case) (intro rules, assumption?)+
  qed (simp add: keeps_rules)
  have "\<not> tx_acknowledged (rq_tx_options rq)" by (simp add: assms(2) tx_options_default_def)
  note one = aps_data_transfer_plain [OF this, of E R A JoinedAsEndDevice]
  show ?thesis
    by (cases "rq_dst_address rq"; simp only: aps_data_request_def apsde_address.case one)
      (intro loop_rules rules plain bound)+
qed

text \<open>C11. A message of the cluster library stops whoever receives it. Everything that an end device sends for
  an answer or a report is a frame with radius 0, and a device that can decrypt such a frame panics on it, in
  whatever mode it listens, since the radius is decremented first.\<close>
theorem zcl_message_panics_receiver:
  assumes "emit_zcl_command_frame N C cmd cfg rc s = Some (Done (r, s'))" and "nd_mode s = JoinedAsEndDevice"
    and "TxData dst (Data d) p ack \<in> set (drop (length (nk_sent (nwk_of s))) (nk_sent (nwk_of s')))"
    and "decrypt_frame (ev_crypto E) (ev_wire E) (ev_codecs E) (nwk_security_level (profile_params t))
      (cx_security_material_set (nk_ctx t)) p = Done (Inr (Data d, u))"
    and "ms_short_address (nk_mac t) = Some slf" and "mi_payload ind = p"
  shows "nh_radius (df_header d) = 0 \<and> handle_mac_indication E R mode auth (MacData ind) t = Panic"
proof -
  let ?L = "nk_sent (nwk_of s)"
  let ?rq = "zcl_request C (emitted_frame cmd cfg s) rc"
  from assms(1) obtain q a where "aps_data_request (ne_iter N) (ne_env N) (ne_radio N) (ne_aps N) (nd_mode s) ?rq (nd_aps s) = Some (Done (q, a))"
    and a: "nd_aps s' = a"
    by (auto simp: emit_zcl_command_frame_def lp_bind_Done aps_in_node_def aps_part.lp_within_Done act_return_def)
  moreover have "zero_radius_log ?L (nwk_of s)" by (simp add: zero_radius_log_def)
  ultimately have "zero_radius_log ?L (nwk_of s')"
    using zero_radius_request [of ?rq ?L "ne_iter N" "ne_env N" "ne_radio N" "ne_aps N"] assms(2)
    by (auto simp: lp_keeps_def zcl_request_def)
  with assms(3) have zero: "nh_radius (df_header d) = 0" by (fastforce simp: zero_radius_log_def zero_radius_def)
  have "nwk_decrypt_frame E (mi_payload ind) t = Done (Inr (Data d, u), t)"
    using assms(4,6) by (simp add: nwk_decrypt_Done)
  from process_incoming_decrypted [OF assms(5) this, of auth] zero
  have "process_incoming_indication E ind auth t = Panic" by simp
  then have "handle_mac_indication E R mode auth (MacData ind) t = Panic"
    by (simp add: handle_mac_indication_def handle_data_indication_def handle_data_indication_end_device_def
        handle_data_indication_pending_def act_bind_def)
  with zero show ?thesis by blast
qed

text \<open>A node that sends a default response to its coordinator, over codecs whose header reader gives back the header sent.\<close>

definition message_header_std :: nwk_header where
  "message_header_std = nwk_header_new_no_ctx DataFrame True True 0 None 0x1001 None None 0 0"

definition message_env_std :: env where
  "message_env_std = env_std\<lparr> ev_codecs := codecs_std\<lparr> cd_read_header := (\<lambda>_. Inr (message_header_std, 2)) \<rparr> \<rparr>"

definition message_node_env_std :: node_env where
  "message_node_env_std = (node_env_std (\<lambda>_. NodeDescReq 0))\<lparr> ne_env := message_env_std \<rparr>"

definition message_std :: data_frame where
  "message_std = \<lparr> df_header = message_header_std, df_payload = [0x40, 1, 2, 3, 0x18, 0x0b] \<rparr>"

lemma message_built_std:
  "\<exists>n. build_data_frame [0x40, 1, 2, 3, 0x18, 0x0b] (aps_frame_config 0 None (Some 0)) (as_nwk aps_std) = Done (message_std, n) \<and>
     nk_ctx n = nk_ctx (as_nwk aps_std) \<and> nk_mac n = nk_mac nwk_std \<and> nk_sent n = []"
  by (simp add: build_data_frame_def aps_frame_config_def act_bind_def act_gets_def act_run_def get_addr_def
      unwrap_run_def get_next_seq_number_def act_return_def nwk_header_new_def aps_std_def nwk_std_def
      profile_params_def profile_defs chk_mul_def message_std_def message_header_std_def nwk_context_default_def)

lemma message_sent_std:
  assumes "nk_ctx n = nk_ctx (as_nwk aps_std)" and "nk_mac n = nk_mac nwk_std" and "nk_sent n = []"
  shows "\<exists>n' p. transmit_frame message_env_std (Data message_std) dst True n = Done (Inr (), n') \<and>
    nk_sent n' = [TxData dst (Data message_std) p True] \<and>
    decrypt_frame (ev_crypto message_env_std) (ev_wire message_env_std) (ev_codecs message_env_std) EncMic32 [sm_std] p =
      Done (Inr (Data message_std, True))"
proof -
  obtain nonce where nonce: "create_nonce wire_std aux_std = Done (Inr nonce)"
    using create_nonce_ex [OF wire_std_ok, of aux_std 9] by (auto simp: aux_std_def)
  have ctx: "cx_security_material_set (nk_ctx n) = [sm_std]" "cx_active_key_seq_number (nk_ctx n) = 0"
    "nwk_security_level (profile_params n) = EncMic32" "get_ext_addr n = 9"
    using assms by (simp_all add: aps_std_def nwk_std_def nwk_context_default_def profile_params_def profile_defs get_ext_addr_def)
  have "\<exists>buf len. write_and_encrypt_in_place crypto_std wire_std EncMic32
      (replicate A_MAX_MAC_PAYLOAD_SIZE 0) (cd_write_aux codecs_std aux_std) aux_std (sm_key sm_std)
      (cd_write_header codecs_std message_header_std) (write_slice [0x40, 1, 2, 3, 0x18, 0x0b]) = Done (Inr (buf, len))"
    using nonce [unfolded aux_std_def]
    by (simp add: A_MAX_MAC_PAYLOAD_SIZE_def write_and_encrypt_in_place_def aux_std_def codecs_std_def
        write_slice_def parse_error_def encrypt_in_place_def ccm_encrypt_def crypto_std_def Let_def numeral_eq_Suc)
  then obtain n' where tx: "transmit_frame message_env_std (Data message_std) dst True n = Done (Inr (), n')"
    using ctx assms(2)
    by (auto simp: transmit_frame_def build_mac_payload_def build_mac_payload_with_def nwk_std_def message_env_std_def
        env_std_simps is_secured_def is_reserved_def message_std_def message_header_std_def nwk_header_new_no_ctx_def
        frame_header_def make_encrypted_frame_def sm_std_facts aux_std_eq data_transmit_request_def act_bind_def
        act_return_def Let_def)
  have "\<exists>p. nk_sent n' = nk_sent n @ [TxData dst (Data message_std) p True] \<and> length p \<le> 116 \<and>
    decrypt_frame (ev_crypto message_env_std) (ev_wire message_env_std) (ev_codecs message_env_std)
      (nwk_security_level (profile_params n)) [sm_std] p = Done (Inr (Data message_std, True)) \<and>
    tables n' = tables n \<and> cx_security_material_set (nk_ctx n') =
      update_first (\<lambda>k. sm_key_seq_number k = cx_active_key_seq_number (nk_ctx n)) bump_counter
        (cx_security_material_set (nk_ctx n))"
  proof (rule transmitted_frame_decrypts [where eh = "[0x48, 0x02]" and eb = "[]" and sm = sm_std
          and ea = "[0x2d]" and rm = sm_std, OF _ _ _ _ _ _ _ _ _ _ _ tx])
    show "aux_law (ev_codecs message_env_std) (nwk_aux_header (nwk_security_level (profile_params n)) (get_ext_addr n) sm_std) [0x2d]"
      using aux_std_law by (simp add: ctx aux_std_eq message_env_std_def aux_law_def)
  qed (simp_all add: ctx message_env_std_def env_std_simps crypto_std_ok codec_law_def codecs_std_def write_slice_def
        body_law_def frame_type_ok_def is_secured_def is_reserved_def message_std_def message_header_std_def
        nwk_header_new_no_ctx_def frame_header_def sm_std_facts)
  with tx assms(3) ctx show ?thesis by auto
qed

definition response_config_std :: emit_config where
  "response_config_std = answer_config \<lparr> zf_header = zcl_header_std ZclGlobal, zf_command = GlobalCommand (ReadAttributes []) \<rparr>"

definition response_request_std :: request_config where
  "response_request_std = \<lparr> rc_dst_address = ApsdeNetwork 0 1, rc_profile_id = 0x0104, rc_cluster_id = 6, rc_src_endpoint = 2 \<rparr>"

lemma message_emitted_std:
  "\<exists>s' p. emit_zcl_command_frame message_node_env_std (zcl_codecs_std h g) (GlobalCommand g) response_config_std response_request_std
       node_std = Some (Done (Inr (Some ()), s')) \<and>
     nk_sent (nwk_of s') = [TxData (nb_nwk_addr (nwk_parent (as_nwk aps_std))) (Data message_std) p True] \<and>
     decrypt_frame (ev_crypto message_env_std) (ev_wire message_env_std) (ev_codecs message_env_std) EncMic32 [sm_std] p =
       Done (Inr (Data message_std, True))"
proof -
  obtain n where n: "build_data_frame [0x40, 1, 2, 3, 0x18, 0x0b] (aps_frame_config 0 None (Some 0)) (as_nwk aps_std) = Done (message_std, n)"
    and same: "nk_ctx n = nk_ctx (as_nwk aps_std)" "nk_mac n = nk_mac nwk_std" "nk_sent n = []"
    using message_built_std by blast
  have parent: "nwk_parent n = nwk_parent (as_nwk aps_std)" by (simp add: nwk_parent_def same)
  from message_sent_std [OF same] obtain n' p where
    tx: "transmit_frame message_env_std (Data message_std) (nb_nwk_addr (nwk_parent (as_nwk aps_std))) True n = Done (Inr (), n')"
    and sent: "nk_sent n' = [TxData (nb_nwk_addr (nwk_parent (as_nwk aps_std))) (Data message_std) p True]"
    and dec: "decrypt_frame (ev_crypto message_env_std) (ev_wire message_env_std) (ev_codecs message_env_std) EncMic32 [sm_std] p =
      Done (Inr (Data message_std, True))" by blast
  have data: "transmit_data_frame message_env_std JoinedAsEndDevice [0x40, 1, 2, 3, 0x18, 0x0b] (aps_frame_config 0 None (Some 0))
      (as_nwk aps_std) = Done (Inr (), n')"
    using n tx by (simp add: transmit_data_frame_def transmit_data_frame_end_device_def act_bind_def act_gets_def parent)
  let ?N = message_node_env_std and ?C = "zcl_codecs_std h g"
  let ?f = "emitted_frame (GlobalCommand g) response_config_std node_std"
  have env: "ne_env ?N = message_env_std" "ac_write_header (ne_aps ?N) x = write_slice [0x40, 1, 2, 3]" for x
    by (simp_all add: message_node_env_std_def node_env_std_def aps_codecs_std_def)
  have asdu: "write_with (write_zcl_frame ?C ?f) (replicate (Suc (Suc k)) 0, 0) = Inr (0x18 # 0x0b # replicate k 0, 2)" for k
    by (simp add: write_zcl_frame_def zcl_codecs_std_def write_slice_def emitted_frame_def)
  let ?rq = "zcl_request ?C ?f response_request_std"
  have rq: "rq_asdu ?rq = write_zcl_frame ?C ?f" "rq_tx_options ?rq = tx_options_default" "rq_alias ?rq = None"
    "rq_radius ?rq = Some 0" "rq_dst_address ?rq = ApsdeNetwork 0 1"
    by (simp_all add: zcl_request_def response_request_std_def)
  have payload: "adf_payload (aps_data_frame_new (data_init x y z w)) = z" for x y z w
    by (simp add: aps_data_frame_new_def data_init_def)
  have "send_plain message_env_std (ne_radio ?N) (ne_aps ?N) JoinedAsEndDevice ?rq (ApsNetwork 0 1) aps_std =
      Done (Inr (), aps_std\<lparr> as_counter := as_counter aps_std + 1, as_nwk := n' \<rparr>)"
    using asdu [of "MAX_APS_FRAME_SIZE - 2"]
    by (simp add: send_plain_def rq write_slice_def env payload
        MAX_APS_FRAME_SIZE_def MAX_APS_PAYLOAD_SIZE_def A_MAX_MAC_PAYLOAD_SIZE_def transfer_single_def aps_send_data_def
        aps_transfer_def aps_frame_bytes_def tx_options_default_def write_aps_frame_def act_bind_def act_return_def
        get_aps_counter_def with_nwk_def data get_nwk_address_def Let_def numeral_eq_Suc)
  moreover have "\<not> tx_acknowledged (rq_tx_options ?rq)" by (simp add: rq tx_options_default_def)
  ultimately have "emit_zcl_command_frame ?N ?C (GlobalCommand g) response_config_std response_request_std node_std =
      Some (Done (Inr (Some ()), node_std\<lparr> nd_aps := aps_std\<lparr> as_counter := as_counter aps_std + 1, as_nwk := n' \<rparr> \<rparr>))"
    using aps_data_transfer_plain [of ?rq]
    by (simp add: emit_zcl_command_frame_def aps_in_node_def lp_bind_def lp_within_def aps_data_request_def rq lp_of_def env
        node_std_simps act_return_def to_optional_def)
  with sent dec show ?thesis by auto
qed

theorem zcl_message_panics_receiver_witness:
  "\<exists>s' dst p. emit_zcl_command_frame message_node_env_std (zcl_codecs_std (zcl_header_std ZclGlobal) (DefaultResponse 7 ZsSuccess))
      (GlobalCommand (DefaultResponse 7 ZsSuccess)) response_config_std response_request_std node_std = Some (Done (Inr (Some ()), s')) \<and>
     TxData dst (Data message_std) p True \<in> set (nk_sent (nwk_of s')) \<and>
     handle_mac_indication message_env_std radio_std JoinedAsRouter True (MacData (ind_std p)) recv_std = Panic"
proof -
  let ?g = "DefaultResponse 7 ZsSuccess"
  obtain s' p where emit: "emit_zcl_command_frame message_node_env_std (zcl_codecs_std (zcl_header_std ZclGlobal) ?g) (GlobalCommand ?g)
      response_config_std response_request_std node_std = Some (Done (Inr (Some ()), s'))"
    and sent: "nk_sent (nwk_of s') = [TxData (nb_nwk_addr (nwk_parent (as_nwk aps_std))) (Data message_std) p True]"
    and dec: "decrypt_frame (ev_crypto message_env_std) (ev_wire message_env_std) (ev_codecs message_env_std) EncMic32 [sm_std] p =
      Done (Inr (Data message_std, True))"
    using message_emitted_std by blast
  have start: "nk_sent (as_nwk aps_std) = []" by (simp add: aps_std_def nwk_std_def)
  have "handle_mac_indication message_env_std radio_std JoinedAsRouter True (MacData (ind_std p)) recv_std = Panic"
    by (rule zcl_message_panics_receiver [where dst = "nb_nwk_addr (nwk_parent (as_nwk aps_std))" and ack = True, OF emit, THEN conjunct2])
      (use sent dec in \<open>auto simp: start recv_std_simps nwk_std_simps node_std_simps ind_std_def\<close>)
  with emit sent show ?thesis by auto
qed

end
