(* ===== verification/Zcl_Fields.thy ===== *)
theory Zcl_Fields
  imports Zcl_Basic Zcl_Answers
begin

text \<open>
  How an application holds several clusters as its fields, which \<open>define_application\<close> hands out as objects
  (\<open>apl/application/types.rs\<close>), and the application of the example device, with the clusters on/off, identify and
  basic (\<open>esp32/examples/esp-device/src/main.rs\<close>).
\<close>

section \<open>Clusters as the fields of an application\<close>

definition attribute_within :: "('s \<Rightarrow> 't) \<Rightarrow> ('t \<Rightarrow> 's \<Rightarrow> 's) \<Rightarrow> 't attribute_object \<Rightarrow> 's attribute_object" where
  "attribute_within get put a = \<lparr> ao_identifier = ao_identifier a, ao_data_identifier = ao_data_identifier a,
     ao_access = ao_access a, ao_get = (\<lambda>s. ao_get a (get s)), ao_set = (\<lambda>x s. map_prod id (\<lambda>t. put t s) (ao_set a x (get s))),
     ao_validate = (\<lambda>x s. ao_validate a x (get s)) \<rparr>"

definition reportable_within :: "('s \<Rightarrow> 't) \<Rightarrow> ('t \<Rightarrow> 's \<Rightarrow> 's) \<Rightarrow> 't reportable_object \<Rightarrow> 's reportable_object" where
  "reportable_within get put a = attribute_object.extend (attribute_within get put (attribute_object.truncate a))
     \<lparr> ro_set_config = (\<lambda>mn mx c. act_within get put (ro_set_config a mn mx c)),
       ro_should_report = (\<lambda>now. act_within get put (ro_should_report a now)),
       ro_get_config = (\<lambda>s. ro_get_config a (get s)) \<rparr>"

definition cluster_within :: "('s \<Rightarrow> 't) \<Rightarrow> ('t \<Rightarrow> 's \<Rightarrow> 's) \<Rightarrow> 't cluster_object \<Rightarrow> 's cluster_object" where
  "cluster_within get put c = \<lparr> co_identifier = co_identifier c, co_type = co_type c,
     co_attributes = map (map_prod id (attribute_within get put)) (co_attributes c),
     co_reportable = map (map_prod id (reportable_within get put)) (co_reportable c),
     co_custom_command = (\<lambda>x. act_within get put (co_custom_command c x)),
     co_update_frequency = co_update_frequency c, co_update = (\<lambda>s. put (co_update c (get s)) s),
     co_read_with = (\<lambda>st. act_within get put (co_read_with c st)),
     co_write_with = (\<lambda>s. co_write_with c (get s)) \<rparr>"

text \<open>An application that \<open>define_application\<close> defines has its clusters in the order of its fields; \<open>ctx_update\<close> does
  nothing unless it is implemented.\<close>

definition define_application :: "zb_device \<Rightarrow> u8 \<Rightarrow> 's cluster_object list \<Rightarrow> ('s \<Rightarrow> 's) \<Rightarrow> 's application_object" where
  "define_application dev version cs ctx = \<lparr> ap_device = dev, ap_version = version, ap_clusters = cs, ap_ctx_update = ctx \<rparr>"

text \<open>The application of the example device: a switched output that can identify itself. What the pin and the blinking
  are is left open.\<close>

record ('h, 'i) on_off_output =
  out_onoff :: "'h on_off"
  out_identify :: "'i identify"
  out_basic :: basic

definition put_out_onoff :: "'h on_off \<Rightarrow> ('h, 'i) on_off_output \<Rightarrow> ('h, 'i) on_off_output" where
  "put_out_onoff t s = s\<lparr> out_onoff := t \<rparr>"
definition put_out_identify :: "'i identify \<Rightarrow> ('h, 'i) on_off_output \<Rightarrow> ('h, 'i) on_off_output" where
  "put_out_identify t s = s\<lparr> out_identify := t \<rparr>"
definition put_out_basic :: "basic \<Rightarrow> ('h, 'i) on_off_output \<Rightarrow> ('h, 'i) on_off_output" where
  "put_out_basic t s = s\<lparr> out_basic := t \<rparr>"

definition on_off_output_app ::
  "'h on_off_handler \<Rightarrow> on_off_codecs \<Rightarrow> 'i identify_handler \<Rightarrow> identify_codecs \<Rightarrow> ('h, 'i) on_off_output application_object" where
  "on_off_output_app H C I D = define_application (HomeAutomation OnOffOutput) 0
     [cluster_within out_onoff put_out_onoff (on_off_cluster H C),
      cluster_within out_identify put_out_identify (identify_cluster I D),
      cluster_within out_basic put_out_basic basic_cluster] id"

definition on_off_output_new :: "'h \<Rightarrow> 'i \<Rightarrow> ('h, 'i) on_off_output" where
  "on_off_output_new h i = \<lparr> out_onoff = on_off_new h,
     out_identify = \<lparr> id_time = attr_default identify_time_def, id_handler = i \<rparr>,
     out_basic = basic_with_config basic_config_default \<rparr>"

lemma run_map_map: "run_map f (run_map g m) = run_map (f \<circ> g) m"
  by (cases m) simp_all

lemma map_of_map_prod: "map_of (map (map_prod id f) as) k = map_option f (map_of as k)"
  by (induction as) auto

lemma within_attribute: "map_of (co_attributes (cluster_within get put c)) k =
    map_option (attribute_within get put) (map_of (co_attributes c) k)"
  by (simp add: cluster_within_def map_of_map_prod)

lemma within_reportable: "map_of (co_reportable (cluster_within get put c)) k =
    map_option (reportable_within get put) (map_of (co_reportable c) k)"
  by (simp add: cluster_within_def map_of_map_prod)

context state_part begin

lemma read_attributes_within: "read_attributes (cluster_within get put c) ks s = read_attributes c ks (get s)"
  by (simp add: read_attributes_def read_attribute_def within_attribute attribute_within_def split: option.split)

lemma write_attribute_within:
  "write_attribute (cluster_within get put c) v s = map_prod id (\<lambda>t. put t s) (write_attribute c v (get s))"
  by (auto simp: write_attribute_def within_attribute attribute_within_def put_get split: option.split prod.split sum.split)

lemma write_attributes_within:
  "write_attributes (cluster_within get put c) vs s = map_prod id (\<lambda>t. put t s) (write_attributes c vs (get s))"
proof (induction vs arbitrary: s)
  case (Cons v vs)
  then show ?case
    by (simp add: write_attributes_Cons write_attribute_within split_beta Let_def get_put put_put)
qed (simp add: put_get)

lemma set_all_within: "set_all (cluster_within get put c) vs s = run_map (\<lambda>t. put t s) (set_all c vs (get s))"
proof (induction vs arbitrary: s)
  case (Cons v vs)
  then show ?case
    by (cases "set_all c vs (snd (the (Some (ao_set (the (map_of (co_attributes c) (atr_identifier v))) (atr_data v) (get s)))))")
      (auto simp: within_attribute attribute_within_def get_put put_put split: option.split prod.split sum.split)
qed (simp add: put_get)

lemma check_within:
  "check_attribute (cluster_within get put c) s = check_attribute c (get s)"
  "check_passes (cluster_within get put c) s = check_passes c (get s)"
  by (auto simp: fun_eq_iff check_attribute_def check_passes_def within_attribute attribute_within_def split: option.split)

lemma undivided_within: "write_attributes_undivided (cluster_within get put c) vs =
    act_within get put (write_attributes_undivided c vs)"
proof
  fix s show "write_attributes_undivided (cluster_within get put c) vs s = act_within get put (write_attributes_undivided c vs) s"
    by (cases "set_all c vs (get s)")
      (simp_all add: write_attributes_undivided_def act_within_def check_within set_all_within Let_def put_get)
qed

lemma configure_attribute_within:
  "configure_attribute (cluster_within get put c) v s = run_map (\<lambda>(r, t). (r, put t s)) (configure_attribute c v (get s))"
  by (auto simp: configure_attribute_def within_reportable reportable_within_def attribute_object.defs act_within_def put_get
      run_map_map comp_def case_prod_unfold split: option.split)

lemma configure_reporting_within:
  "configure_reporting (cluster_within get put c) vs s = run_map (\<lambda>(r, t). (r, put t s)) (configure_reporting c vs (get s))"
proof (induction vs arbitrary: s)
  case (Cons v vs)
  then show ?case
    by (cases "configure_attribute c v (get s)")
      (simp_all add: configure_attribute_within run_map_map comp_def case_prod_unfold get_put put_put)
qed (simp add: put_get)

lemma read_reporting_within: "read_reporting (cluster_within get put c) s q = read_reporting c (get s) q"
  by (auto simp: read_reporting_def within_reportable reportable_within_def attribute_within_def attribute_object.defs
      split: option.split)

lemma read_reporting_configs_within: "read_reporting_configs (cluster_within get put c) qs s = read_reporting_configs c qs (get s)"
  by (induction qs) (simp_all add: read_reporting_within)

lemma discover_within: "discover_attributes (cluster_within get put c) start n = discover_attributes c start n"
  by (simp add: discover_attributes_def within_attribute option.map_comp comp_def attribute_within_def)
    (simp add: cluster_within_def comp_def)

text \<open>A command does to a field what it does to the cluster, and nothing to the rest.\<close>

lemma command_within:
  "handle_cluster_command cmd (cluster_within get put c) = act_within get put (handle_cluster_command cmd c)"
proof (cases cmd)
  case (GlobalCommand g)
  have "handle_global_command g (cluster_within get put c) s = act_within get put (handle_global_command g c) s" for s
    by (cases g) (simp_all add: handle_global_command_def act_within_def read_attributes_within write_attributes_within
        undivided_within configure_reporting_within read_reporting_configs_within discover_within put_get
        run_map_map comp_def case_prod_unfold)
  with GlobalCommand show ?thesis by (simp add: fun_eq_iff handle_cluster_command_def act_within_def)
qed (simp add: fun_eq_iff handle_cluster_command_def cluster_within_def act_within_def)

end

interpretation onoff_field: state_part out_onoff put_out_onoff
  by unfold_locales (simp_all add: put_out_onoff_def)

interpretation identify_field: state_part out_identify put_out_identify
  by unfold_locales (simp_all add: put_out_identify_def)

interpretation basic_field: state_part out_basic put_out_basic
  by unfold_locales (simp_all add: put_out_basic_def)

lemma output_clusters:
  "get_cluster_by_id 6 (on_off_output_app H C I D) = Some (cluster_within out_onoff put_out_onoff (on_off_cluster H C))"
  "get_cluster_by_id 3 (on_off_output_app H C I D) = Some (cluster_within out_identify put_out_identify (identify_cluster I D))"
  "get_cluster_by_id 0 (on_off_output_app H C I D) = Some (cluster_within out_basic put_out_basic basic_cluster)"
  by (simp_all add: get_cluster_by_id_def on_off_output_app_def define_application_def cluster_within_def on_off_cluster_def
      identify_cluster_def basic_cluster_def)

section \<open>Properties\<close>

text \<open>C14. Writes to the basic cluster of the example application. Of its attributes only the enabled flag and the two masks
  can be written, with values of their types; an attribute then has the last value accepted for it, of a mask its
  two bits, and every other attribute and cluster is as before. An undivided write does the same if all records
  are accepted and nothing otherwise, with the same answer.\<close>
theorem basic_writes:
  "\<exists>rs b. let c = cluster_within out_basic put_out_basic basic_cluster in
     handle_cluster_command (GlobalCommand (WriteAttributes vs)) c s =
       Done (Some (GlobalCommand (WriteAttributesResponse rs)), s\<lparr> out_basic := b \<rparr>) \<and>
     handle_cluster_command (GlobalCommand (WriteAttributesUndivided vs)) c s =
       Done (Some (GlobalCommand (WriteAttributesResponse rs)), if list_all basic_writable vs then s\<lparr> out_basic := b \<rparr> else s) \<and>
     map (\<lambda>r. wsr_status r = ZsSuccess) rs = map basic_writable vs \<and>
     (\<forall>k a. map_of (co_attributes basic_cluster) k = Some a \<longrightarrow>
       ao_get a b = (case last_value k (filter basic_writable vs) of Some x \<Rightarrow> basic_kept k x | None \<Rightarrow> ao_get a (out_basic s)))"
proof -
  have passes: "check_passes basic_cluster t = basic_writable" for t using basic_check by blast
  let ?w = "write_attributes basic_cluster vs (out_basic s)"
  have "map (\<lambda>r. wsr_status r = ZsSuccess) (fst ?w) = map basic_writable vs"
    by (simp add: basic_laws.write_attributes_statuses basic_laws.check_iff passes)
  moreover have "ao_get a (snd ?w) = (case last_value k (filter basic_writable vs) of Some x \<Rightarrow> basic_kept k x | None \<Rightarrow> ao_get a (out_basic s))"
    if "map_of (co_attributes basic_cluster) k = Some a" for k a
    using basic_laws.write_attributes_values [OF that, of vs "out_basic s"] by (simp add: passes)
  ultimately show ?thesis
    by (intro exI [of _ "fst ?w"] exI [of _ "snd ?w"])
      (simp add: Let_def basic_field.write_attributes_within basic_field.undivided_within act_within_def handle_cluster_command_def handle_global_command_def
        basic_laws.undivided_eq passes put_out_basic_def split_beta)
qed

theorem basic_writes_witness:
  "let c = cluster_within out_basic put_out_basic basic_cluster; s = on_off_output_new False (0 :: nat) in
   \<exists>rs b. handle_cluster_command (GlobalCommand (WriteAttributes
       [\<lparr> atr_identifier = 0x13, atr_data = ZBitmap8 0xff \<rparr>, \<lparr> atr_identifier = 0, atr_data = ZUInt8 9 \<rparr>])) c s =
         Done (Some (GlobalCommand (WriteAttributesResponse rs)), s\<lparr> out_basic := b \<rparr>) \<and>
     ao_get (attr_object alarm_def ba_alarm put_alarm) b = ZBitmap8 3 \<and>
     ao_get (attr_object zcl_version_def ba_version put_version) b = ZUInt8 2"
proof -
  let ?vs = "[\<lparr> atr_identifier = 0x13, atr_data = ZBitmap8 0xff \<rparr>, \<lparr> atr_identifier = 0, atr_data = ZUInt8 9 \<rparr>]"
  let ?s = "on_off_output_new False (0 :: nat)" and ?c = "cluster_within out_basic put_out_basic basic_cluster"
  have alarm: "map_of (co_attributes basic_cluster) 0x13 = Some (attr_object alarm_def ba_alarm put_alarm)"
    and version: "map_of (co_attributes basic_cluster) 0 = Some (attr_object zcl_version_def ba_version put_version)"
    by (simp_all add: basic_cluster_def)
  have old: "ao_get (attr_object zcl_version_def ba_version put_version) (out_basic ?s) = ZUInt8 2"
    by (simp add: attr_object_def on_off_output_new_def basic_with_config_def attr_default_def attr_new_def zcl_version_def_def u8_def_def)
  have "(0xff :: u8) AND 3 = 3" by simp
  then have last_ones: "last_value 0x13 (filter basic_writable ?vs) = Some (ZBitmap8 0xff)" "last_value 0 (filter basic_writable ?vs) = None"
    "basic_kept 0x13 (ZBitmap8 0xff) = ZBitmap8 3"
    by (simp_all add: last_value_def basic_writable_def basic_kept_def)
  from basic_writes [of ?vs ?s] obtain rs b where
    "handle_cluster_command (GlobalCommand (WriteAttributes ?vs)) ?c ?s =
       Done (Some (GlobalCommand (WriteAttributesResponse rs)), ?s\<lparr> out_basic := b \<rparr>)"
    and vals: "\<And>k a. map_of (co_attributes basic_cluster) k = Some a \<Longrightarrow>
       ao_get a b = (case last_value k (filter basic_writable ?vs) of Some x \<Rightarrow> basic_kept k x | None \<Rightarrow> ao_get a (out_basic ?s))"
    unfolding Let_def by blast
  with vals [OF alarm] vals [OF version] old last_ones show ?thesis by (auto simp: Let_def)
qed

text \<open>C15. Anyone who can send the example application a command stops the device: the only command of the basic cluster, the
  reset to factory defaults, is not implemented, and its handler panics.\<close>
theorem factory_reset_panics:
  assumes "read_zcl_frame Z (adi_asdu ind) = Done (Inr (f, n))" and "zf_command f = SpecificCommand c" and "spc_identifier c = 0"
    and "adi_cluster_id ind = 0" and "im_get ep (zn_apps s) = Some (on_off_output_app H C I D, x)"
  shows "handle_zcl_command N Z ep ind s = Some Panic"
proof -
  have "handle_cluster_command (zf_command f) (cluster_within out_basic put_out_basic basic_cluster) x = Panic"
    using assms(2,3) unfolding basic_field.command_within
    by (simp add: act_within_def handle_cluster_command_def basic_cluster_def basic_custom_command_def read_basic_command_def)
  with assms(1,4,5) show ?thesis
    by (simp add: handle_zcl_command_def act_run_def use_application_def act_bind_def act_gets_def output_clusters)
qed

definition blinker :: "u16 identify_handler" where
  "blinker = \<lparr> ih_start = (\<lambda>t _. t), ih_stop = (\<lambda>_. 0), ih_effect = (\<lambda>_ _ t. t) \<rparr>"

definition identify_codecs_std :: identify_codecs where
  "identify_codecs_std = \<lparr> ic_read_effect = (\<lambda>_. Inr (EffectBlink, 1)), ic_read_variant = (\<lambda>_. Inr (DefaultVariant, 1)) \<rparr>"

definition output_node_std :: "(bool, u16) on_off_output zcl_node" where
  "output_node_std = \<lparr> zn_node = node_std,
     zn_apps = [(1, (on_off_output_app relay on_off_codecs_std blinker identify_codecs_std, on_off_output_new False 0))],
     zn_storage = replicate 1024 0 \<rparr>"

theorem factory_reset_panics_witness:
  "handle_zcl_command (plain_driver (node_env_std (\<lambda>_. NodeDescReq 0)))
     (zcl_codecs_std (zcl_header_std ZclSpecific) (DefaultResponse 0 ZsSuccess)) 1
     (zcl_ind_std\<lparr> adi_cluster_id := 0, adi_asdu := [0x18, 0] \<rparr>) output_node_std = Some Panic"
proof -
  let ?C = "zcl_codecs_std (zcl_header_std ZclSpecific) (DefaultResponse 0 ZsSuccess)"
  let ?ind = "zcl_ind_std\<lparr> adi_cluster_id := 0, adi_asdu := [0x18, 0] \<rparr>"
  let ?f = "\<lparr> zf_header = zcl_header_std ZclSpecific, zf_command = SpecificCommand \<lparr> spc_identifier = 0, spc_data = [] \<rparr> \<rparr>"
  have "read_zcl_frame ?C (adi_asdu ?ind) = Done (Inr (?f, 2))"
    using read_specific_frame [OF zcl_codecs_std_laws, of "zcl_header_std ZclSpecific" "[]" "DefaultResponse 0 ZsSuccess" 0]
    by (simp add: zcl_header_std_def numeral_eq_Suc)
  moreover have "im_get 1 (zn_apps output_node_std) =
      Some (on_off_output_app relay on_off_codecs_std blinker identify_codecs_std, on_off_output_new False 0)"
    by (simp add: output_node_std_def im_get_def)
  ultimately show ?thesis
    using factory_reset_panics [of ?C ?ind ?f 2 "\<lparr> spc_identifier = 0, spc_data = [] \<rparr>" 1 output_node_std] by simp
qed

end
