(* ===== verification/Spec2Isabelle.thy ===== *)
theory Spec2Isabelle
  imports Aps_Fragments Zdp_Discovery Zdo_Steering Nwk_Replay Zcl_Fields
begin

text \<open>
  A model of the network layer, the application support sublayer, the device profile, the device object and the cluster
  library of \<open>zb-rs\<close>, a Zigbee stack for embedded devices, with the theorems that say what they do. File names are
  under \<open>src/common/zb-rs/src\<close>, where no other directory is given.

  \<^bold>\<open>The program.\<close> A device talks to a radio through the MAC (\<open>mac/mlme.rs\<close>). The network layer
  (\<open>nwk\<close>) builds frames, secures them with the network key and its frame counter, and sends them to
  a next hop; it receives frames, checks them, answers or relays them, and passes data and events up.
  Its tables are the information base: neighbors, routes with the discoveries under way, the map of
  addresses, the records of broadcasts, the keys. A device starts uninitialized, joins a network by
  association or by rejoin, and then runs as an end device or as a router. The application support
  sublayer (\<open>apl/aps\<close>) sits on top of it: it addresses messages to endpoints, groups and bindings, secures
  them with link keys, acknowledges and fragments them, and takes part in the exchange of keys. The device
  profile (\<open>apl/zdp\<close>) answers questions about the node: its addresses, descriptors, endpoints and bindings.
  The device object (\<open>apl/zdo/mod.rs\<close>) leads a node through its life: it starts from its storage, steers into a
  network, waits for the network key, exchanges its link key, listens, leaves, and rejoins. What the node is for, a lamp
  or a sensor, are its applications: they consist of clusters, whose attributes the cluster library (\<open>zcl\<close>) reads,
  writes, reports and stores, and whose own commands the clusters of \<open>zb-zcl-clusters\<close> obey.

  \<^bold>\<open>Effects.\<close> Functions of the code that cannot fail are HOL functions. A result of type \<open>run\<close> is
  \<open>Done\<close> with a value or \<open>Panic\<close>: unwraps of \<open>None\<close>, indices out of range, empty random ranges,
  \<open>todo!\<close>, and arithmetic that leaves its width, which the checked arithmetic of a debug build makes
  panic. Errors are the left side of a sum, with the constructors of the code's error types. An
  operation on a device is a state transformer \<open>act\<close>: it maps the state \<open>nwk\<close> (the MAC's state, the
  context, the sequence number, the position in the random numbers, the log of what the radio was
  given) to a \<open>run\<close> of a result and the state after; the state \<open>aps\<close> holds the state of the network layer and
  \<open>with_nwk\<close> runs its operations. What the device does not compute is an argument:
  the record \<open>env\<close> (the clock, random numbers, whether a transmission succeeds, the cipher, the derived
  byte codecs) and the record \<open>radio\<close> (what is received while the device waits, how a beacon is read,
  the driver's reset). The \<open>zb_types::Vec\<close> of the code is the one on the heap, so it has no capacity;
  tables with an own capacity keep it.

  \<^bold>\<open>The theories.\<close>
  \<^item> \<open>Zb_Prelude\<close>: \<open>run\<close>, sums, checked arithmetic, lists, bytes, with their rules.
  \<^item> \<open>Zb_Types\<close> (\<open>zb-types/src\<close>, \<open>stack_profile\<close>): addresses, devices, channels and masks, costs, profiles.
  \<^item> \<open>Bit_Struct\<close>, \<open>Bit_Layouts\<close>, \<open>Header_Structs\<close> (\<open>zb-macros/src/bit_struct.rs\<close> and its uses): the code
    that the macro generates, for any layout, and the layouts of the headers and commands.
  \<^item> \<open>Security_Primitives\<close> (\<open>common/security\<close>): the AES-MMO hash, the keyed hash, CCM in place, nonces.
  \<^item> \<open>Index_Map\<close>, \<open>Nib\<close> (\<open>nwk/nib.rs\<close>, \<open>common/information_base.rs\<close>): maps with a capacity, and the tables.
  \<^item> \<open>Nwk_Frame\<close> (\<open>nwk/frame\<close>, \<open>nwk/commands/mod.rs\<close>): frames, commands, reading and writing.
  \<^item> \<open>Nwk_Security\<close> (\<open>nwk/security.rs\<close>): encryption and decryption of frames, counters.
  \<^item> \<open>Nwk_Context\<close> (\<open>nwk/ctx.rs\<close>, \<open>mac/mlme.rs\<close>, \<open>nwk/service/transmission.rs\<close>): the state, the operations
    on it, sending; the locale \<open>link_layer\<close> says what a client needs of sending.
  \<^item> \<open>Nwk_Commands\<close> (\<open>nwk/commands\<close>): sending of commands.
  \<^item> \<open>Routing\<close> (\<open>nwk/service/routing.rs\<close>, \<open>transmission.rs\<close>): next hops, addresses of children, conflicts.
  \<^item> \<open>Route_Discovery\<close> (\<open>route_request.rs\<close>, \<open>route_reply.rs\<close>): discovery of routes.
  \<^item> \<open>Membership\<close> (\<open>reception.rs\<close>, \<open>rejoin_request.rs\<close>, \<open>link_status.rs\<close>, \<open>leave.rs\<close> and others): devices that
    join, rejoin and leave, link status, timeouts.
  \<^item> \<open>Mac_Management\<close> (\<open>mac/mlme.rs\<close>, \<open>mac/types.rs\<close>): scans, the filter of received frames, association.
  \<^item> \<open>Nwk_Reception\<close> (\<open>nwk/service/reception.rs\<close>): the reception of a frame in every mode, relaying,
    broadcasts, and the loop \<open>listen_nwk\<close>.
  \<^item> \<open>Nlme\<close> (\<open>nwk/nlme.rs\<close>, \<open>nwk/ctx.rs\<close>): discovery, joins, leaving, the modes, the persistent context.
  \<^item> \<open>Nwk_Machine\<close>: the operations as steps of one machine over all modes, and its invariant.
  \<^item> \<open>Nwk_Listen\<close>, \<open>Nwk_Relay\<close>, \<open>Joining\<close>: what listening, relaying and joining achieve;
    \<open>Nwk_Replay\<close>: that a joined device accepts a frame again.
  \<^item> \<open>Aps_Frame\<close> (\<open>apl/aps/frame.rs\<close>, \<open>types.rs\<close>, \<open>apsme.rs\<close>, \<open>security/types\<close>): headers, frames, commands, keys.
  \<^item> \<open>Aps_Security\<close> (\<open>apl/aps/security/sap/service.rs\<close>, \<open>ctx.rs\<close>): encryption under link keys, the state, commands.
  \<^item> \<open>Aps_Data\<close> (\<open>apl/aps/apsde.rs\<close>): sending, acknowledgements, fragments, reception, listening.
  \<^item> \<open>Aps_Delivery\<close>, \<open>Aps_Safety\<close>, \<open>Aps_Fragments\<close>: that messages arrive, what reception does to the keys,
    what secured sending refuses, and when fragments get through.
  \<^item> \<open>Aps_Invariants\<close>: the identity of a device and its link key while the sublayer works.
  \<^item> \<open>Loops\<close>: rules for operations that may run for ever and for operations on a part of a state.
  \<^item> \<open>Zdp_Types\<close> (\<open>apl/zdp/types\<close>, \<open>apl/zdo/config.rs\<close>, \<open>common/bytes.rs\<close>): the configuration, descriptors,
    requests and responses, and their hand-written codecs; \<open>Zdp_Codecs\<close>: what survives these codecs.
  \<^item> \<open>Zdp\<close> (\<open>apl/zdp/service.rs\<close>): the node and its services; \<open>Zdp_Services\<close>, \<open>Zdp_Discovery\<close>: what requests do
    to a node and what the answers say.
  \<^item> \<open>Zdo\<close> (\<open>apl/zdo/mod.rs\<close>): the contexts of a node and the operations that lead from one to another, with the
    step relation \<open>node_step\<close>; \<open>Zdo_Safety\<close>: what joining leaves alone and what is in the storage;
    \<open>Zdo_Steering\<close>: the keys of a node that was steered into a network, and what a restart forgets.
  \<^item> \<open>Zcl_Data\<close> (\<open>zcl/types.rs\<close>): the data of the cluster library with their codecs; \<open>Zcl_Values\<close>: which values survive.
  \<^item> \<open>Zcl_Commands\<close> (\<open>zcl/command/global.rs\<close>, \<open>zcl/frame.rs\<close>): global commands, their records, frames.
  \<^item> \<open>Zcl_Cluster\<close> (\<open>zcl/cluster/types.rs\<close>): clusters and attributes as objects, records of functions over a
    state, and the operations on them; the locales \<open>checked_cluster\<close> and \<open>lawful_cluster\<close> say what the attributes of a
    cluster promise.
  \<^item> \<open>Zcl_Clusters\<close> (\<open>zb-macros/src/zcl.rs\<close>, \<open>zb-zcl-clusters/src\<close>): the attributes and clusters that the macros
    generate, with the on/off, identify and temperature clusters, which interpret the locales; \<open>Zcl_OnOff\<close>: the life of a light;
    \<open>Zcl_Basic\<close>: the basic cluster.
  \<^item> \<open>Zcl_Service\<close> (\<open>zcl/service.rs\<close>, \<open>apl/zb_application.rs\<close>, \<open>apl/application\<close>): applications, their storage and
    updates, the handling of commands, answers, reports; \<open>Zcl_Storage\<close>: what is stored; \<open>Zcl_Answers\<close>: what is answered,
    and what becomes of the frames that are sent; \<open>Zcl_Fields\<close>: clusters as the fields of an application, and the application
    of the example device, \<open>on_off_output\<close> (\<open>esp32/examples/esp-device/src/main.rs\<close>).

  \<^bold>\<open>The lemmas.\<close> For every operation of a device there is a rule in \<open>keeps_rules\<close>: it keeps the
  well-formedness \<open>nwk_ok\<close> of the tables, and with \<open>quiet\<close> every property that does not depend on
  counters and the log; \<open>Nwk_Machine\<close> puts them together to an invariant of all reachable states.
  Next hops refine a specification by cases, and the frame sent along a source route is compared with the one the
  specification demands (\<open>Routing\<close>): the code leaves the source route flag off, so that its frames get lost
  at the first relay (\<open>Nwk_Relay\<close>). Encryption followed by decryption is the identity, and the counters in the
  auxiliary headers of the frames that are sent increase (\<open>Nwk_Security\<close>, \<open>Nwk_Context\<close>); the codecs of the bit structs are
  inverse (\<open>Bit_Struct\<close>), and so are the codecs of the values of the cluster library that fit (\<open>Zcl_Values\<close>);
  an undivided write is the writes one by one or nothing (\<open>Zcl_Cluster\<close>); the loop that listens returns exactly if a round gives something
  (\<open>Nwk_Listen\<close>). The properties, numbered C1 and so on, stand beside the components they are about.

  \<^bold>\<open>Loops.\<close> No fuel is used. \<open>listen_nwk\<close>, \<open>listen_aps\<close>, the retries of a window of fragments and the draw of a
  child's address may run for ever; they are partial functions whose result is then \<open>None\<close>, but for the draw, whose endless
  search is \<open>Panic\<close> as the \<open>todo!\<close> beside it is. With a silent radio the retries end (\<open>Aps_Fragments\<close>). Waits with a timeout run over the frames that arrive
  before it, a list. All other loops run over lists of the state.

  \<^bold>\<open>Not modelled.\<close> Of the device object the timeout that ends
  a round of listening, the reservation of storage regions, and the tasks that run beside the listening; of the application support sublayer the groups, which are \<open>todo!\<close>. The byte formats of the crate \<open>ieee802154\<close> and of the derived
  codecs: they are arguments, and the theorems that need their laws assume them for the headers, commands and records at
  hand, as what the derive documents: a value that is written is read back, whatever bytes follow, an empty input is an
  error, and a field that the code marks as ignored is not written and is read as its default. So the record of
  the persistent context is read back with what \<open>stored_neighbor\<close> and \<open>stored_material\<close> leave of its neighbors
  and keys (\<open>Joining\<close>), and a frame header without the source route flag without its relays. Hand-written codecs are
  modelled as they are. AES, which is an argument. The storage driver, logging, timers and the tasks that only wait for
  a timer. Network formation and the energy scan, which are commented out in the code.
\<close>

end
